(* ===== verification/QF_Prelude.thy ===== *)
theory QF_Prelude
  imports Main "HOL-Library.Word"
begin

text \<open>
  Shared vocabulary of the development: the machine types of the C++ sources, the model of
  \<^verbatim>\<open>std::unordered_map\<close> together with the interface (a locale) that its clients rely on, and
  the generic list, option and word lemmas the components use.

  Conventions of the whole library:
  \<^item> \<^verbatim>\<open>std::uintN_t\<close> is \<open>N word\<close>, so additions wrap exactly as in C++; \<^verbatim>\<open>std::size_t\<close>
    (sizes of containers in memory) is \<open>nat\<close>;
  \<^item> \<^verbatim>\<open>Nanos\<close> (\<^verbatim>\<open>std::int64_t\<close>) is \<open>int\<close>; where the C++ subtraction could leave the 64-bit
    range (undefined behaviour there) a lemma states the range condition;
  \<^item> a field \<open>f\<close> of a struct \<open>S\<close> is a record field with the prefix of its struct
    (\<open>qd_id\<close> is \<^verbatim>\<open>QueueDefinition::id\<close>), an enumerator carries the prefix of its enum
    (\<open>Lc_active\<close> is \<^verbatim>\<open>Lifecycle::active\<close>).
\<close>

unbundle bit_operations_syntax

type_synonym u8 = "8 word"
type_synonym u16 = "16 word"
type_synonym u32 = "32 word"
type_synonym u64 = "64 word"
type_synonym nanos = int
type_synonym bytes = "8 word list"

named_theorems um_simps \<open>rewriting rules for the unordered map\<close>
named_theorems codec_rt \<open>round trips of the wire and journal codecs\<close>
named_theorems frame_simps \<open>fields that an operation leaves unchanged\<close>

section \<open>Lists, options and words\<close>

lemma find_Some_iff_mem: "find P xs = Some x \<Longrightarrow> x \<in> set xs \<and> P x"
  by (induction xs) (auto split: if_splits)

lemma find_None_iff_all: "find P xs = None \<longleftrightarrow> (\<forall>x\<in>set xs. \<not> P x)"
  by (induction xs) auto

lemma map_of_eq_find: "map_of m k = map_option snd (find (\<lambda>e. fst e = k) m)"
  by (induction m) auto

lemma unat_succ: "x \<noteq> (-1 :: 'a::len word) \<Longrightarrow> unat (x + 1) = Suc (unat x)"
  using unatSuc [of x] by (auto simp: add.commute eq_neg_iff_add_eq_0)

lemma word_succ_gt: "x \<noteq> (-1 :: 'a::len word) \<Longrightarrow> x < x + 1"
  by (simp add: word_less_nat_alt unat_succ)

lemma unat_lt_exp: "unat (x :: 'a::len word) < 2 ^ LENGTH('a)"
  by (rule unsigned_less)

lemma unat_max_word: "unat (- 1 :: 'a::len word) = 2 ^ LENGTH('a) - 1"
  by (simp add: unsigned_minus_1_eq_mask mask_eq_exp_minus_1)

lemma word_succ_neq: "x + 1 \<noteq> (x :: 'a::len word)"
  by simp

text \<open>A \<^verbatim>\<open>std::string\<close> is a sequence of bytes.\<close>

definition byte_of_char :: "char \<Rightarrow> u8" where
  "byte_of_char c = of_nat (of_char c)"

definition char_of_byte :: "u8 \<Rightarrow> char" where
  "char_of_byte b = char_of (unat b)"

definition bytes_of_string :: "string \<Rightarrow> bytes" where
  "bytes_of_string str = map byte_of_char str"

definition string_of_bytes :: "bytes \<Rightarrow> string" where
  "string_of_bytes bs = map char_of_byte bs"

lemma char_of_byte_of_char [simp]: "char_of_byte (byte_of_char c) = c"
proof -
  have "of_char c < (256 :: nat)"
    by (rule nat_of_char_less_256) 
  then show ?thesis
    by (simp add: char_of_byte_def byte_of_char_def unat_of_nat)
qed

lemma string_of_bytes_of_string [simp, codec_rt]: "string_of_bytes (bytes_of_string str) = str"
  by (simp add: string_of_bytes_def bytes_of_string_def comp_def)

lemma length_bytes_of_string [simp]: "length (bytes_of_string str) = length str"
  by (simp add: bytes_of_string_def)

section \<open>\<^verbatim>\<open>std::unordered_map\<close>\<close>

text \<open>
  An unordered map is an association list with distinct keys. C++ leaves the iteration order
  open; the list fixes one. \<open>um_put\<close> is \<^verbatim>\<open>m[k] = v\<close>, \<open>um_emplace\<close> is \<^verbatim>\<open>m.emplace(k, v)\<close>
  (an existing entry stays), \<open>um_map\<close> is a loop that updates every \<^verbatim>\<open>entry.second\<close>.
\<close>

type_synonym ('k, 'v) umap = "('k \<times> 'v) list"

definition um_empty :: "('k, 'v) umap" where
  "um_empty = []"

definition um_find :: "('k, 'v) umap \<Rightarrow> 'k \<Rightarrow> 'v option" where
  "um_find m k = map_of m k"

fun um_put :: "'k \<Rightarrow> 'v \<Rightarrow> ('k, 'v) umap \<Rightarrow> ('k, 'v) umap" where
  "um_put k v [] = [(k, v)]"
| "um_put k v (e # m) = (if fst e = k then (k, v) # m else e # um_put k v m)"

definition um_emplace :: "'k \<Rightarrow> 'v \<Rightarrow> ('k, 'v) umap \<Rightarrow> ('k, 'v) umap" where
  "um_emplace k v m = (case um_find m k of None \<Rightarrow> m @ [(k, v)] | Some _ \<Rightarrow> m)"

definition um_erase :: "'k \<Rightarrow> ('k, 'v) umap \<Rightarrow> ('k, 'v) umap" where
  "um_erase k m = filter (\<lambda>e. fst e \<noteq> k) m"

definition um_map :: "('v \<Rightarrow> 'v) \<Rightarrow> ('k, 'v) umap \<Rightarrow> ('k, 'v) umap" where
  "um_map f m = map (\<lambda>e. (fst e, f (snd e))) m"

definition um_wf :: "('k, 'v) umap \<Rightarrow> bool" where
  "um_wf m \<longleftrightarrow> distinct (map fst m)"

lemma fst_um_put: "fst ` set (um_put k v m) = insert k (fst ` set m)"
  by (induction m) auto

lemma um_find_eq: "um_find m = map_of m"
  by (rule ext) (simp add: um_find_def)

lemma um_wf_put [intro]: "um_wf m \<Longrightarrow> um_wf (um_put k v m)"
  by (induction m) (auto simp: um_wf_def fst_um_put)

lemma um_find_put [simp, um_simps]: "um_find (um_put k v m) k' = (if k' = k then Some v else um_find m k')"
  by (induction m) (auto simp: um_find_def)

lemma um_find_append: "um_find (m @ m') k = (case um_find m k of None \<Rightarrow> um_find m' k | Some v \<Rightarrow> Some v)"
  by (auto simp: um_find_def map_add_def split: option.splits)

lemma um_find_emplace [um_simps]:
  "um_find (um_emplace k v m) k' =
     (case um_find m k of None \<Rightarrow> (if k' = k then Some v else um_find m k') | Some _ \<Rightarrow> um_find m k')"
  by (auto simp: um_emplace_def um_find_def map_add_def split: option.splits)

lemma um_find_None_iff: "um_find m k = None \<longleftrightarrow> k \<notin> fst ` set m"
  by (simp add: um_find_def map_of_eq_None_iff)

lemma um_wf_emplace [intro]: "um_wf m \<Longrightarrow> um_wf (um_emplace k v m)"
  by (auto simp: um_emplace_def um_wf_def um_find_None_iff split: option.splits)

lemma um_find_erase [simp, um_simps]: "um_find (um_erase k m) k' = (if k' = k then None else um_find m k')"
  by (induction m) (auto simp: um_find_def um_erase_def)

lemma um_wf_erase [intro]: "um_wf m \<Longrightarrow> um_wf (um_erase k m)"
  by (auto simp: um_wf_def um_erase_def intro: distinct_map_filter)

lemma um_find_map [simp, um_simps]: "um_find (um_map f m) k = map_option f (um_find m k)"
  by (induction m) (auto simp: um_find_def um_map_def)

lemma um_wf_map [simp]: "um_wf (um_map f m) = um_wf m"
  by (simp add: um_wf_def um_map_def comp_def)

lemma um_wf_empty [simp]: "um_wf um_empty"
  by (simp add: um_wf_def um_empty_def)

lemma um_find_empty [simp]: "um_find um_empty k = None"
  by (simp add: um_find_def um_empty_def)

lemma um_find_Nil [simp]: "um_find [] k = None"
  by (simp add: um_find_def)

lemma um_find_mem: "um_wf m \<Longrightarrow> um_find m k = Some v \<longleftrightarrow> (k, v) \<in> set m"
  by (simp add: um_find_def um_wf_def)

lemma um_find_SomeD: "um_find m k = Some v \<Longrightarrow> (k, v) \<in> set m"
  by (simp add: um_find_def map_of_SomeD)

lemma um_length_card: "um_wf m \<Longrightarrow> length m = card {k. um_find m k \<noteq> None}"
proof -
  assume wf: "um_wf m"
  have "{k. um_find m k \<noteq> None} = set (map fst m)"
    by (auto simp: um_find_None_iff)
  then show ?thesis
    using wf distinct_card [of "map fst m"] by (simp add: um_wf_def)
qed

lemma length_um_put: "length (um_put k v m) = (if um_find m k = None then Suc (length m) else length m)"
  by (induction m) (auto simp: um_find_def)

subsection \<open>The interface its clients rely on\<close>

locale unordered_map =
  fixes empty :: 'm
    and find :: "'m \<Rightarrow> 'k \<Rightarrow> 'v option"
    and put :: "'k \<Rightarrow> 'v \<Rightarrow> 'm \<Rightarrow> 'm"
    and emplace :: "'k \<Rightarrow> 'v \<Rightarrow> 'm \<Rightarrow> 'm"
    and erase :: "'k \<Rightarrow> 'm \<Rightarrow> 'm"
    and size :: "'m \<Rightarrow> nat"
    and invar :: "'m \<Rightarrow> bool"
  assumes find_empty: "find empty k = None"
    and find_put: "find (put k v m) = (find m)(k \<mapsto> v)"
    and find_emplace: "find (emplace k v m) = (if find m k = None then (find m)(k \<mapsto> v) else find m)"
    and find_erase: "find (erase k m) = (find m)(k := None)"
    and finite_dom: "finite (dom (find m))"
    and size_card: "invar m \<Longrightarrow> size m = card (dom (find m))"
    and invar_empty: "invar empty"
    and invar_put: "invar m \<Longrightarrow> invar (put k v m)"
    and invar_emplace: "invar m \<Longrightarrow> invar (emplace k v m)"
    and invar_erase: "invar m \<Longrightarrow> invar (erase k m)"
begin

lemma size_empty: "size empty = 0"
proof -
  have "dom (find empty) = {}"
    by (auto simp: find_empty)
  then show ?thesis
    by (simp add: size_card invar_empty)
qed

lemma size_emplace_new: "invar m \<Longrightarrow> find m k = None \<Longrightarrow> size (emplace k v m) = Suc (size m)"
  by (simp add: size_card invar_emplace find_emplace finite_dom domIff)

lemma size_emplace_le: "invar m \<Longrightarrow> size (emplace k v m) \<le> Suc (size m)"
  by (cases "find m k = None") (auto simp: size_emplace_new card_insert_if finite_dom size_card invar_emplace find_emplace)

lemma size_put_old: "invar m \<Longrightarrow> find m k \<noteq> None \<Longrightarrow> size (put k v m) = size m"
  by (simp add: size_card invar_put find_put insert_absorb domIff)

lemma size_erase_old: "invar m \<Longrightarrow> find m k \<noteq> None \<Longrightarrow> Suc (size (erase k m)) = size m"
  using card_Suc_Diff1 [OF finite_dom, of k m] by (simp add: size_card invar_erase find_erase domIff)

lemma erase_emplace: "find m k = None \<Longrightarrow> find (erase k (emplace k v m)) = find m"
  by (auto simp: find_erase find_emplace)

end

interpretation um: unordered_map um_empty um_find um_put um_emplace um_erase length um_wf
proof (unfold_locales, goal_cases)
  case (5 m)
  show ?case
    by (simp add: um_find_eq finite_dom_map_of)
next
  case (6 m)
  then show ?case
    by (simp add: um_length_card dom_def)
qed (auto simp: um_simps split: option.splits)

end
