(* ===== verification/QF_Status.thy ===== *)
theory QF_Status
  imports QF_Prelude
begin

text \<open>
  \<^verbatim>\<open>include/qf/status.hpp\<close>, \<^verbatim>\<open>src/status.cpp\<close> and the bounds of
  \<^verbatim>\<open>include/qf/limits.hpp\<close>. \<^verbatim>\<open>Result<T>\<close> is the sum \<open>status + 'a\<close>: \<open>Inl\<close> holds the
  refusing status, \<open>Inr\<close> the value.

  An enum with a fixed underlying type can hold any value of that type after a
  \<^verbatim>\<open>static_cast\<close> from decoded input. The datatype of such an enum therefore has one constructor
  more (\<open>Code_raw\<close> here) for the values that are not enumerators.
\<close>

section \<open>Bounds\<close>

definition kMaxResources :: nat where "kMaxResources = 4096"
definition kMaxQueuesPerResource :: nat where "kMaxQueuesPerResource = 65536"
definition kMaxQueuesTotal :: nat where "kMaxQueuesTotal = kMaxResources * 16"
definition kMaxClassesPerResource :: nat where "kMaxClassesPerResource = 4096"
definition kMaxPoolsPerResource :: nat where "kMaxPoolsPerResource = 4096"
definition kMaxGrantsPerResource :: nat where "kMaxGrantsPerResource = 256"
definition kMaxNameChars :: nat where "kMaxNameChars = 128"
definition kMaxMessageChars :: nat where "kMaxMessageChars = 192"
definition kMaxReasonChars :: nat where "kMaxReasonChars = 96"
definition kMaxProvenanceNodes :: nat where "kMaxProvenanceNodes = 4096"
definition kMaxAttemptMemoPerQueue :: nat where "kMaxAttemptMemoPerQueue = 64"
definition kMaxPendingAttempts :: nat where "kMaxPendingAttempts = 4096"
definition kMaxDrainEvidenceRecords :: nat where "kMaxDrainEvidenceRecords = 16"
definition kMaxJournalRecordBytes :: nat where "kMaxJournalRecordBytes = 2 ^ 20"
definition kDefaultMaxFutureSkewNanos :: nanos where "kDefaultMaxFutureSkewNanos = 1000000000"

lemmas limit_defs = kMaxResources_def kMaxQueuesPerResource_def kMaxQueuesTotal_def
  kMaxClassesPerResource_def kMaxPoolsPerResource_def kMaxGrantsPerResource_def
  kMaxNameChars_def kMaxMessageChars_def kMaxReasonChars_def kMaxProvenanceNodes_def
  kMaxAttemptMemoPerQueue_def kMaxPendingAttempts_def kMaxDrainEvidenceRecords_def
  kMaxJournalRecordBytes_def kDefaultMaxFutureSkewNanos_def

section \<open>Codes\<close>

datatype code =
    Code_ok | Code_invalid_argument | Code_out_of_range | Code_not_found | Code_already_exists
    | Code_capacity_exceeded | Code_malformed_input | Code_integrity_failure | Code_unsupported
    | Code_stale_generation | Code_stale_epoch | Code_stale_incarnation | Code_stale_boot
    | Code_stale_occupancy | Code_replay_detected | Code_conflict | Code_authority_denied
    | Code_lifecycle_violation | Code_fence_violation | Code_threshold_exceeded
    | Code_occupancy_overflow | Code_drain_incomplete | Code_backend_mismatch | Code_not_durable
    | Code_ambiguous_outcome | Code_shutting_down | Code_cancelled | Code_busy | Code_internal
    | Code_raw u16

fun code_name :: "code \<Rightarrow> string" where
  "code_name Code_ok = ''ok''"
| "code_name Code_invalid_argument = ''invalid_argument''"
| "code_name Code_out_of_range = ''out_of_range''"
| "code_name Code_not_found = ''not_found''"
| "code_name Code_already_exists = ''already_exists''"
| "code_name Code_capacity_exceeded = ''capacity_exceeded''"
| "code_name Code_malformed_input = ''malformed_input''"
| "code_name Code_integrity_failure = ''integrity_failure''"
| "code_name Code_unsupported = ''unsupported''"
| "code_name Code_stale_generation = ''stale_generation''"
| "code_name Code_stale_epoch = ''stale_epoch''"
| "code_name Code_stale_incarnation = ''stale_incarnation''"
| "code_name Code_stale_boot = ''stale_boot''"
| "code_name Code_stale_occupancy = ''stale_occupancy''"
| "code_name Code_replay_detected = ''replay_detected''"
| "code_name Code_conflict = ''conflict''"
| "code_name Code_authority_denied = ''authority_denied''"
| "code_name Code_lifecycle_violation = ''lifecycle_violation''"
| "code_name Code_fence_violation = ''fence_violation''"
| "code_name Code_threshold_exceeded = ''threshold_exceeded''"
| "code_name Code_occupancy_overflow = ''occupancy_overflow''"
| "code_name Code_drain_incomplete = ''drain_incomplete''"
| "code_name Code_backend_mismatch = ''backend_mismatch''"
| "code_name Code_not_durable = ''not_durable''"
| "code_name Code_ambiguous_outcome = ''ambiguous_outcome''"
| "code_name Code_shutting_down = ''shutting_down''"
| "code_name Code_cancelled = ''cancelled''"
| "code_name Code_busy = ''busy''"
| "code_name Code_internal = ''internal''"
| "code_name (Code_raw v) = ''unknown''"

fun u16_of_code :: "code \<Rightarrow> u16" where
  "u16_of_code Code_ok = 0"
| "u16_of_code Code_invalid_argument = 1"
| "u16_of_code Code_out_of_range = 2"
| "u16_of_code Code_not_found = 3"
| "u16_of_code Code_already_exists = 4"
| "u16_of_code Code_capacity_exceeded = 5"
| "u16_of_code Code_malformed_input = 6"
| "u16_of_code Code_integrity_failure = 7"
| "u16_of_code Code_unsupported = 8"
| "u16_of_code Code_stale_generation = 9"
| "u16_of_code Code_stale_epoch = 10"
| "u16_of_code Code_stale_incarnation = 11"
| "u16_of_code Code_stale_boot = 12"
| "u16_of_code Code_stale_occupancy = 13"
| "u16_of_code Code_replay_detected = 14"
| "u16_of_code Code_conflict = 15"
| "u16_of_code Code_authority_denied = 16"
| "u16_of_code Code_lifecycle_violation = 17"
| "u16_of_code Code_fence_violation = 18"
| "u16_of_code Code_threshold_exceeded = 19"
| "u16_of_code Code_occupancy_overflow = 20"
| "u16_of_code Code_drain_incomplete = 21"
| "u16_of_code Code_backend_mismatch = 22"
| "u16_of_code Code_not_durable = 23"
| "u16_of_code Code_ambiguous_outcome = 24"
| "u16_of_code Code_shutting_down = 25"
| "u16_of_code Code_cancelled = 26"
| "u16_of_code Code_busy = 27"
| "u16_of_code Code_internal = 28"
| "u16_of_code (Code_raw v) = v"

definition all_codes :: "code list" where
  "all_codes =
    [Code_ok, Code_invalid_argument, Code_out_of_range, Code_not_found, Code_already_exists,
     Code_capacity_exceeded, Code_malformed_input, Code_integrity_failure, Code_unsupported,
     Code_stale_generation, Code_stale_epoch, Code_stale_incarnation, Code_stale_boot,
     Code_stale_occupancy, Code_replay_detected, Code_conflict, Code_authority_denied,
     Code_lifecycle_violation, Code_fence_violation, Code_threshold_exceeded,
     Code_occupancy_overflow, Code_drain_incomplete, Code_backend_mismatch, Code_not_durable,
     Code_ambiguous_outcome, Code_shutting_down, Code_cancelled, Code_busy, Code_internal]"

definition code_of_u16 :: "u16 \<Rightarrow> code" where
  "code_of_u16 v = (if unat v < length all_codes then all_codes ! unat v else Code_raw v)"

definition code_canonical :: "code \<Rightarrow> bool" where
  "code_canonical c \<longleftrightarrow> code_of_u16 (u16_of_code c) = c"

lemma code_canonical_enumerator: "c \<in> set all_codes \<Longrightarrow> code_canonical c"
  by (auto simp: all_codes_def code_canonical_def code_of_u16_def)

section \<open>Status and Result\<close>

record status =
  st_code :: code
  st_message :: string

type_synonym 'a result = "status + 'a"

definition success :: status where
  "success = \<lparr>st_code = Code_ok, st_message = []\<rparr>"

definition Status :: "code \<Rightarrow> string \<Rightarrow> status" where
  "Status c message =
     (if c = Code_ok then \<lparr>st_code = c, st_message = []\<rparr>
      else \<lparr>st_code = c,
            st_message = (if length message > kMaxMessageChars then take kMaxMessageChars message
                          else message)\<rparr>)"

definition ok :: "status \<Rightarrow> bool" where
  "ok s \<longleftrightarrow> st_code s = Code_ok"

definition status_to_string :: "status \<Rightarrow> string" where
  "status_to_string s =
     (if st_message s = [] then code_name (st_code s)
      else code_name (st_code s) @ '': '' @ st_message s)"

lemma st_code_Status [simp]: "st_code (Status c m) = c"
  by (simp add: Status_def)

lemma ok_success [simp]: "ok success"
  by (simp add: ok_def success_def)

lemma ok_Status [simp]: "ok (Status c m) \<longleftrightarrow> c = Code_ok"
  by (simp add: ok_def)

lemma st_code_success [simp]: "st_code success = Code_ok"
  by (simp add: success_def)

lemma Status_message_bounded: "length (st_message (Status c m)) \<le> kMaxMessageChars"
  by (simp add: Status_def)

lemma code_name_short: "length (code_name c) \<le> 19"
  by (cases c) simp_all

end
