(* ===== verification/QF_Ids.thy ===== *)
theory QF_Ids
  imports QF_Status
begin

text \<open>
  \<^verbatim>\<open>include/qf/ids.hpp\<close> and \<^verbatim>\<open>include/qf/rng.hpp\<close>: strongly typed identities and counters,
  their textual forms, boot and attempt identities, their hashes, and the generator that mints boot identities.
  \<^verbatim>\<open>Id<Tag>\<close> and \<^verbatim>\<open>Counter<Tag>\<close> are datatypes with a phantom parameter, so that, as in the
  source, a queue identity is not of the type of a resource identity.
\<close>

section \<open>Textual forms of 64-bit values\<close>

definition kDigits :: string where
  "kDigits = ''0123456789abcdef''"

definition format_hex16 :: "u64 \<Rightarrow> string" where
  "format_hex16 value =
     ''0x'' @ map (\<lambda>i. kDigits ! unat (drop_bit (4 * (15 - i)) value AND 0xF)) [0..<16]"

definition hex_digit :: "char \<Rightarrow> u64 option" where
  "hex_digit ch =
     (let c = of_char ch :: nat in
      if 48 \<le> c \<and> c \<le> 57 then Some (of_nat (c - 48))
      else if 97 \<le> c \<and> c \<le> 102 then Some (of_nat (c - 97 + 10))
      else if 65 \<le> c \<and> c \<le> 70 then Some (of_nat (c - 65 + 10))
      else None)"

fun parse_hex_loop :: "string \<Rightarrow> u64 \<Rightarrow> u64 option" where
  "parse_hex_loop [] value = Some value"
| "parse_hex_loop (ch # text) value =
     (case hex_digit ch of
        None \<Rightarrow> None
      | Some digit \<Rightarrow> parse_hex_loop text (push_bit 4 value OR digit))"

definition parse_hex16 :: "string \<Rightarrow> u64 option" where
  "parse_hex16 text =
     (let text = (if length text > 2 \<and> text ! 0 = CHR ''0'' \<and> (text ! 1 = CHR ''x'' \<or> text ! 1 = CHR ''X'')
                  then drop 2 text else text)
      in if text = [] \<or> length text > 16 then None else parse_hex_loop text 0)"

definition dec_digit :: "char \<Rightarrow> u64 option" where
  "dec_digit ch =
     (let c = of_char ch :: nat in if c < 48 \<or> c > 57 then None else Some (of_nat (c - 48)))"

fun parse_u64_loop :: "string \<Rightarrow> u64 \<Rightarrow> u64 option" where
  "parse_u64_loop [] value = Some value"
| "parse_u64_loop (ch # text) value =
     (case dec_digit ch of
        None \<Rightarrow> None
      | Some digit \<Rightarrow>
          if value > (0xFFFFFFFFFFFFFFFF - digit) div 10 then None
          else parse_u64_loop text (value * 10 + digit))"

definition parse_u64 :: "string \<Rightarrow> u64 option" where
  "parse_u64 text = (if text = [] \<or> length text > 20 then None else parse_u64_loop text 0)"

text \<open>\<^verbatim>\<open>std::to_string\<close> of an unsigned value: its decimal digits.\<close>

fun dec_string :: "nat \<Rightarrow> string" where
  "dec_string n =
     (if n < 10 then [char_of (48 + n)] else dec_string (n div 10) @ [char_of (48 + n mod 10)])"

declare dec_string.simps [simp del]

section \<open>Identities and counters\<close>

datatype resource_tag = resource_tag
datatype queue_tag = queue_tag
datatype class_tag = class_tag
datatype pool_tag = pool_tag
datatype policy_tag = policy_tag
datatype owner_tag = owner_tag
datatype backend_tag = backend_tag
datatype publisher_tag = publisher_tag
datatype node_tag = node_tag
datatype generation_tag = generation_tag
datatype epoch_tag = epoch_tag
datatype sequence_tag = sequence_tag
datatype incarnation_tag = incarnation_tag

datatype 'tag ident = Ident (id_value: u64)

definition id_valid :: "'tag ident \<Rightarrow> bool" where
  "id_valid i \<longleftrightarrow> id_value i \<noteq> 0"

definition id_to_string :: "'tag ident \<Rightarrow> string" where
  "id_to_string i = format_hex16 (id_value i)"

definition id_parse :: "string \<Rightarrow> 'tag ident result" where
  "id_parse text =
     (case parse_hex16 text of
        None \<Rightarrow> Inl (Status Code_malformed_input ''identity is not a hexadecimal 64-bit value'')
      | Some value \<Rightarrow> Inr (Ident value))"

datatype 'tag counter = Counter (ctr_value: u64)

definition ctr_valid :: "'tag counter \<Rightarrow> bool" where
  "ctr_valid c \<longleftrightarrow> ctr_value c \<noteq> 0"

definition ctr_next :: "'tag counter \<Rightarrow> 'tag counter result" where
  "ctr_next c =
     (if ctr_value c = 0xFFFFFFFFFFFFFFFF then Inl (Status Code_capacity_exceeded ''counter exhausted'')
      else Inr (Counter (ctr_value c + 1)))"

definition ctr_parse :: "string \<Rightarrow> 'tag counter result" where
  "ctr_parse text =
     (case parse_hex16 text of
        None \<Rightarrow> Inl (Status Code_malformed_input ''counter is not a hexadecimal 64-bit value'')
      | Some value \<Rightarrow> Inr (Counter value))"

type_synonym ResourceId = "resource_tag ident"
type_synonym QueueId = "queue_tag ident"
type_synonym ClassId = "class_tag ident"
type_synonym PoolId = "pool_tag ident"
type_synonym PolicyId = "policy_tag ident"
type_synonym OwnerId = "owner_tag ident"
type_synonym BackendId = "backend_tag ident"
type_synonym PublisherId = "publisher_tag ident"
type_synonym NodeId = "node_tag ident"
type_synonym Generation = "generation_tag counter"
type_synonym Epoch = "epoch_tag counter"
type_synonym Sequence = "sequence_tag counter"
type_synonym Incarnation = "incarnation_tag counter"

text \<open>The comparison operators of Id and Counter; the library's orders on the two types are these
  operators, so that the comparisons of the components are the ones of the source.\<close>

definition id_less :: "'a ident \<Rightarrow> 'a ident \<Rightarrow> bool" where
  "id_less a b \<longleftrightarrow> id_value a < id_value b"

definition ctr_less :: "'a counter \<Rightarrow> 'a counter \<Rightarrow> bool" where
  "ctr_less a b \<longleftrightarrow> ctr_value a < ctr_value b"

definition ctr_less_eq :: "'a counter \<Rightarrow> 'a counter \<Rightarrow> bool" where
  "ctr_less_eq a b \<longleftrightarrow> ctr_value a \<le> ctr_value b"

instantiation ident :: (type) linorder
begin

definition less_eq_ident :: "'a ident \<Rightarrow> 'a ident \<Rightarrow> bool" where
  "less_eq_ident a b \<longleftrightarrow> \<not> id_less b a"

definition less_ident :: "'a ident \<Rightarrow> 'a ident \<Rightarrow> bool" where
  "less_ident a b \<longleftrightarrow> id_less a b"

instance
  by standard (auto simp: less_eq_ident_def less_ident_def id_less_def not_less ident.expand)

end

instantiation counter :: (type) linorder
begin

definition less_eq_counter :: "'a counter \<Rightarrow> 'a counter \<Rightarrow> bool" where
  "less_eq_counter a b \<longleftrightarrow> ctr_less_eq a b"

definition less_counter :: "'a counter \<Rightarrow> 'a counter \<Rightarrow> bool" where
  "less_counter a b \<longleftrightarrow> ctr_less a b"

instance
  by standard (auto simp: less_eq_counter_def less_counter_def ctr_less_eq_def ctr_less_def counter.expand)

end

lemmas counter_order = less_counter_def less_eq_counter_def ctr_less_def ctr_less_eq_def

section \<open>Boot and attempt identities, the generator\<close>

type_synonym rng = u64

definition next_u64 :: "rng \<Rightarrow> u64 \<times> rng" where
  "next_u64 state =
     (let state = state + 0x9E3779B97F4A7C15;
          z = (state XOR drop_bit 30 state) * 0xBF58476D1CE4E5B9;
          z = (z XOR drop_bit 27 z) * 0x94D049BB133111EB
      in (z XOR drop_bit 31 z, state))"

record boot_id =
  boot_hi :: u64
  boot_lo :: u64

definition no_boot :: boot_id where
  "no_boot = \<lparr>boot_hi = 0, boot_lo = 0\<rparr>"

definition boot_valid :: "boot_id \<Rightarrow> bool" where
  "boot_valid b \<longleftrightarrow> (boot_hi b OR boot_lo b) \<noteq> 0"

definition boot_generate :: "rng \<Rightarrow> boot_id \<times> rng" where
  "boot_generate rng =
     (let (hi, rng) = next_u64 rng;
          (lo, rng) = next_u64 rng;
          boot = \<lparr>boot_hi = hi, boot_lo = lo\<rparr>
      in (if boot_valid boot then boot else boot\<lparr>boot_lo := 1\<rparr>, rng))"

definition boot_to_string :: "boot_id \<Rightarrow> string" where
  "boot_to_string b = format_hex16 (boot_hi b) @ '':'' @ format_hex16 (boot_lo b)"

text \<open>\<^verbatim>\<open>text.find(':')\<close> with the two \<^verbatim>\<open>substr\<close> calls: the parts around the first colon.\<close>

fun split_colon :: "string \<Rightarrow> (string \<times> string) option" where
  "split_colon [] = None"
| "split_colon (ch # text) =
     (if ch = CHR '':'' then Some ([], text)
      else map_option (\<lambda>(a, b). (ch # a, b)) (split_colon text))"

definition boot_parse :: "string \<Rightarrow> boot_id result" where
  "boot_parse text =
     (case split_colon text of
        None \<Rightarrow> Inl (Status Code_malformed_input ''boot id must be <hi>:<lo>'')
      | Some (l, r) \<Rightarrow>
          (case (parse_hex16 l, parse_hex16 r) of
             (Some hi, Some lo) \<Rightarrow> Inr \<lparr>boot_hi = hi, boot_lo = lo\<rparr>
           | _ \<Rightarrow> Inl (Status Code_malformed_input ''boot id halves must be hexadecimal'')))"

record attempt_id =
  at_publisher :: PublisherId
  at_counter :: u64

definition no_attempt :: attempt_id where
  "no_attempt = \<lparr>at_publisher = Ident 0, at_counter = 0\<rparr>"

definition attempt_valid :: "attempt_id \<Rightarrow> bool" where
  "attempt_valid a \<longleftrightarrow> id_valid (at_publisher a) \<and> at_counter a \<noteq> 0"

definition attempt_to_string :: "attempt_id \<Rightarrow> string" where
  "attempt_to_string a = id_to_string (at_publisher a) @ '':'' @ dec_string (unat (at_counter a))"

definition attempt_parse :: "string \<Rightarrow> attempt_id result" where
  "attempt_parse text =
     (case split_colon text of
        None \<Rightarrow> Inl (Status Code_malformed_input ''attempt id must be <publisher>:<counter>'')
      | Some (l, r) \<Rightarrow>
          (case id_parse l of
             Inl e \<Rightarrow> Inl e
           | Inr publisher \<Rightarrow>
               (case parse_u64 r of
                  None \<Rightarrow> Inl (Status Code_malformed_input ''attempt counter must be decimal'')
                | Some counter \<Rightarrow> Inr \<lparr>at_publisher = publisher, at_counter = counter\<rparr>)))"

definition attempt_less :: "attempt_id \<Rightarrow> attempt_id \<Rightarrow> bool" where
  "attempt_less a b \<longleftrightarrow>
     (if at_publisher a \<noteq> at_publisher b then at_publisher a < at_publisher b
      else at_counter a < at_counter b)"

section \<open>Hexadecimal round trip\<close>

lemma length_format_hex16 [simp]: "length (format_hex16 v) = 18"
  by (simp add: format_hex16_def)

lemma hex_digit_kDigits: "n < 16 \<Longrightarrow> hex_digit (kDigits ! n) = Some (of_nat n)"
proof -
  assume "n < 16"
  then have "n \<in> set [0..<16]" by simp
  moreover have "\<forall>n \<in> set [0..<16]. hex_digit (kDigits ! n) = Some (of_nat n)"
    by code_simp
  ultimately show ?thesis by blast
qed

lemma unat_nibble: "unat (x AND 0xF :: u64) < 16"
proof -
  have "x AND 0xF \<le> (0xF :: u64)"
    by (rule word_and_le1)
  then have "unat (x AND 0xF) \<le> unat (0xF :: u64)"
    by (simp only: word_le_nat_alt)
  then show ?thesis by simp
qed

lemma nibble_step:
  "push_bit 4 (drop_bit (4 * Suc k) v) OR (drop_bit (4 * k) v AND 0xF) = drop_bit (4 * k) (v :: u64)"
proof -
  have "(0xF :: u64) = mask 4"
    by (simp add: mask_eq_exp_minus_1)
  then show ?thesis
    by (auto simp: bit_eq_iff bit_or_iff bit_and_iff bit_push_bit_iff bit_drop_bit_eq bit_mask_iff
        not_less algebra_simps)
qed

lemma parse_hex_loop_nibbles:
  "n \<le> 16 \<Longrightarrow>
     parse_hex_loop (map (\<lambda>i. kDigits ! unat (drop_bit (4 * (15 - i)) v AND 0xF)) [16 - n..<16])
        (drop_bit (4 * n) v) = Some v"
proof (induction n)
  case 0
  then show ?case by simp
next
  case (Suc n)
  have eq: "[16 - Suc n..<16] = (15 - n) # [16 - n..<16]"
    using Suc.prems upt_conv_Cons [of "15 - n" 16] by (simp add: Suc_diff_le [symmetric])
  have "15 - (15 - n) = n"
    using Suc.prems by simp
  moreover have "of_nat (unat x) = x" for x :: u64
    by simp
  ultimately show ?case
    using Suc nibble_step [of n v]
    by (simp only: eq list.map parse_hex_loop.simps hex_digit_kDigits [OF unat_nibble] option.case)
qed

lemma parse_format_hex16 [simp]: "parse_hex16 (format_hex16 v) = Some v"
proof -
  have "drop_bit 64 v = 0"
    by (simp add: bit_eq_iff bit_drop_bit_eq)
  then show ?thesis
    using parse_hex_loop_nibbles [of 16 v]
    by (simp add: parse_hex16_def format_hex16_def)
qed

lemma format_hex16_inject: "format_hex16 v = format_hex16 w \<longleftrightarrow> v = w"
  by (metis option.inject parse_format_hex16)

section \<open>Decimal parsing against a reference\<close>

definition is_dec :: "char \<Rightarrow> bool" where
  "is_dec ch \<longleftrightarrow> 48 \<le> (of_char ch :: nat) \<and> (of_char ch :: nat) \<le> 57"

fun dec_value :: "string \<Rightarrow> nat \<Rightarrow> nat" where
  "dec_value [] acc = acc"
| "dec_value (ch # text) acc = dec_value text (acc * 10 + (of_char ch - 48))"

lemma dec_value_ge: "acc \<le> dec_value str acc"
proof (induction str arbitrary: acc)
  case (Cons ch str)
  have "acc \<le> acc * 10 + (of_char ch - 48)" by simp
  also have "\<dots> \<le> dec_value str (acc * 10 + (of_char ch - 48))" by (rule Cons.IH)
  finally show ?case by simp
qed simp

lemma dec_digit_alt: "dec_digit ch = (if is_dec ch then Some (of_nat (of_char ch - 48)) else None)"
  by (auto simp: dec_digit_def is_dec_def Let_def)

lemma parse_u64_guard:
  assumes "d < 10"
  shows "v > (0xFFFFFFFFFFFFFFFF - of_nat d) div (10 :: u64) \<longleftrightarrow> 2 ^ 64 \<le> unat v * 10 + d"
proof -
  have d: "unat (of_nat d :: u64) = d"
    using assms by (simp add: unat_of_nat)
  have le: "(of_nat d :: u64) \<le> 0xFFFFFFFFFFFFFFFF"
    using assms by (simp add: word_le_nat_alt d)
  have "unat ((0xFFFFFFFFFFFFFFFF - of_nat d) div (10 :: u64)) = (2 ^ 64 - 1 - d) div 10"
    using le by (simp add: unat_div unat_sub d)
  then show ?thesis
    using assms by (simp add: word_less_nat_alt) linarith
qed

lemma parse_u64_loop_spec:
  "parse_u64_loop str v =
     (if (\<forall>c\<in>set str. is_dec c) \<and> dec_value str (unat v) < 2 ^ 64
      then Some (of_nat (dec_value str (unat v))) else None)"
proof (induction str v rule: parse_u64_loop.induct)
  case (1 v)
  then show ?case
    using unat_lt_exp [of v] by simp
next
  case (2 ch str v)
  show ?case
  proof (cases "is_dec ch")
    case False
    then show ?thesis by (simp add: dec_digit_alt)
  next
    case True
    define d where "d = (of_char ch - 48 :: nat)"
    have d: "d < 10"
      using True unfolding d_def is_dec_def by linarith
    have dig: "dec_digit ch = Some (of_nat d)"
      using True by (simp add: dec_digit_alt d_def)
    show ?thesis
    proof (cases "2 ^ 64 \<le> unat v * 10 + d")
      case big: True
      then have "2 ^ 64 \<le> dec_value str (unat v * 10 + d)"
        using dec_value_ge [of "unat v * 10 + d" str] by linarith
      then show ?thesis
        using parse_u64_guard [OF d, of v] big dig by (simp add: d_def)
    next
      case small: False
      have "unat (v * 10 + of_nat d) = unat v * 10 + d"
        using small d by (simp add: unat_word_ariths unat_of_nat)
      then show ?thesis
        using parse_u64_guard [OF d, of v] small dig "2.IH" [OF dig] True by (simp add: d_def)
    qed
  qed
qed

lemma is_dec_digit: "n < 10 \<Longrightarrow> is_dec (char_of (48 + n :: nat))"
  by (simp add: is_dec_def)

lemma set_dec_string: "c \<in> set (dec_string n) \<Longrightarrow> is_dec c"
proof (induction n rule: dec_string.induct)
  case (1 n)
  then show ?case
    by (subst (asm) (2) dec_string.simps) (auto simp: is_dec_digit split: if_splits)
qed

lemma dec_value_append: "dec_value (xs @ [c]) acc = dec_value xs acc * 10 + (of_char c - 48)"
  by (induction xs arbitrary: acc) auto

lemma dec_value_dec_string: "dec_value (dec_string n) 0 = n"
proof (induction n rule: dec_string.induct)
  case (1 n)
  then show ?case
    by (subst dec_string.simps) (simp add: dec_value_append)
qed

lemma length_dec_string: "n < 10 ^ k \<Longrightarrow> 0 < k \<Longrightarrow> length (dec_string n) \<le> k \<and> dec_string n \<noteq> []"
proof (induction n arbitrary: k rule: dec_string.induct)
  case (1 n)
  show ?case
  proof (cases "n < 10")
    case True
    then show ?thesis
      using "1.prems" by (subst (1 2) dec_string.simps) simp
  next
    case False
    then obtain k' where k: "k = Suc k'" and k': "0 < k'"
      using "1.prems" by (cases k; cases "k - 1") auto
    have "n div 10 < 10 ^ k'"
      using "1.prems" k by (simp add: less_mult_imp_div_less mult.commute)
    then show ?thesis
      using "1.IH" [OF False _ k'] False k by (subst (1 2) dec_string.simps) simp
  qed
qed

lemma parse_dec_string: "parse_u64 (dec_string (unat v)) = Some v"
proof -
  have "unat v < 10 ^ 20"
    using unat_lt_exp [of v] by simp
  then have "length (dec_string (unat v)) \<le> 20 \<and> dec_string (unat v) \<noteq> []"
    using length_dec_string [of "unat v" 20] by simp
  then show ?thesis
    using unat_lt_exp [of v]
    by (auto simp: parse_u64_def parse_u64_loop_spec dec_value_dec_string dest: set_dec_string)
qed

section \<open>Round trips of boot and attempt identities\<close>

lemma split_colon_append: "CHR '':'' \<notin> set xs \<Longrightarrow> split_colon (xs @ CHR '':'' # ys) = Some (xs, ys)"
  by (induction xs) auto

lemma kDigits_no_colon: "n < 16 \<Longrightarrow> kDigits ! n \<noteq> CHR '':''"
  using hex_digit_kDigits [of n] by (auto simp: hex_digit_def)

lemma format_hex16_no_colon: "CHR '':'' \<notin> set (format_hex16 v)"
  by (auto simp: format_hex16_def kDigits_no_colon [OF unat_nibble] dest: sym)

lemma boot_parse_to_string: "boot_parse (boot_to_string b) = Inr b"
  by (simp add: boot_parse_def boot_to_string_def split_colon_append format_hex16_no_colon)

lemma attempt_parse_to_string: "attempt_parse (attempt_to_string a) = Inr a"
  by (simp add: attempt_parse_def attempt_to_string_def id_to_string_def id_parse_def
      split_colon_append format_hex16_no_colon parse_dec_string)

section \<open>Counters never wrap\<close>

lemma max64: "(0xFFFFFFFFFFFFFFFF :: u64) = - 1"
  by simp

lemma ctr_next_Inr: "ctr_next c = Inr c' \<Longrightarrow> ctr_value c' = ctr_value c + 1 \<and> c < c' \<and> ctr_valid c'"
  using word_succ_gt [of "ctr_value c"] max64
  by (auto simp: ctr_next_def counter_order ctr_valid_def split: if_splits)

lemma boot_generate_valid: "boot_valid (fst (boot_generate r))"
  by (auto simp: boot_generate_def boot_valid_def Let_def or_eq_0_iff split: prod.splits)

section \<open>Draws and hashes\<close>

definition next_u32 :: "rng \<Rightarrow> u32 \<times> rng" where
  "next_u32 rng = (case next_u64 rng of (z, rng) \<Rightarrow> (ucast (drop_bit 32 z), rng))"

definition next_bounded :: "u64 \<Rightarrow> rng \<Rightarrow> u64 \<times> rng" where
  "next_bounded bound rng = (if bound = 0 then (0, rng) else (case next_u64 rng of (z, rng) \<Rightarrow> (z mod bound, rng)))"

definition next_bool :: "rng \<Rightarrow> bool \<times> rng" where
  "next_bool rng = (case next_u64 rng of (z, rng) \<Rightarrow> (z AND 1 \<noteq> 0, rng))"

definition hash_id :: "'a ident \<Rightarrow> u64" where
  "hash_id i = id_value i * 0x9E3779B97F4A7C15"

definition hash_counter :: "'a counter \<Rightarrow> u64" where
  "hash_counter c = ctr_value c * 0xBF58476D1CE4E5B9"

definition hash_boot :: "boot_id \<Rightarrow> u64" where
  "hash_boot b = boot_hi b XOR (boot_lo b * 0x94D049BB133111EB)"

definition hash_attempt :: "attempt_id \<Rightarrow> u64" where
  "hash_attempt a = (id_value (at_publisher a) * 0x9E3779B97F4A7C15) XOR (at_counter a * 0xBF58476D1CE4E5B9)"

lemma next_bounded_less: "bound \<noteq> 0 \<Longrightarrow> fst (next_bounded bound rng) < bound"
  by (simp add: next_bounded_def split_beta word_less_nat_alt unat_mod_distrib unat_gt_0)

text \<open>The multipliers are odd, hence invertible: different identities and counters never share a hash.\<close>

lemma hash_id_inject: "hash_id i = hash_id j \<longleftrightarrow> i = j"
proof
  assume "hash_id i = hash_id j"
  then have "hash_id i * 0xf1de83e19937733d = hash_id j * 0xf1de83e19937733d"
    by simp
  moreover have "(0x9E3779B97F4A7C15 :: u64) * 0xf1de83e19937733d = 1"
    by simp
  ultimately have "id_value i = id_value j"
    unfolding hash_id_def mult.assoc by (simp only: mult_1_right)
  then show "i = j"
    by (cases i; cases j) simp
qed simp

lemma hash_counter_inject: "hash_counter c = hash_counter d \<longleftrightarrow> c = d"
proof
  assume "hash_counter c = hash_counter d"
  then have "hash_counter c * 0x96de1b173f119089 = hash_counter d * 0x96de1b173f119089"
    by simp
  moreover have "(0xBF58476D1CE4E5B9 :: u64) * 0x96de1b173f119089 = 1"
    by simp
  ultimately have "ctr_value c = ctr_value d"
    unfolding hash_counter_def mult.assoc by (simp only: mult_1_right)
  then show "c = d"
    by (cases c; cases d) simp
qed simp

end
