(* ===== verification/QF_Lifecycle.thy ===== *)
theory QF_Lifecycle
  imports QF_Status
begin

text \<open>
  \<^verbatim>\<open>include/qf/lifecycle.hpp\<close> and \<^verbatim>\<open>src/lifecycle.cpp\<close>: the lifecycle of a queue, the
  applicability flags and the closed transition table. The lemmas relate the table search to the
  step relation \<open>lc_step\<close> and give the path properties that the table is written for:
  retirement is terminal, quiescence is entered from draining only.
\<close>

section \<open>Definitions\<close>

datatype lifecycle =
    Lc_declared | Lc_validated | Lc_active | Lc_draining | Lc_quiesced | Lc_retired | Lc_failed
  | Lc_raw u8

fun lifecycle_name :: "lifecycle \<Rightarrow> string" where
  "lifecycle_name Lc_declared = ''declared''"
| "lifecycle_name Lc_validated = ''validated''"
| "lifecycle_name Lc_active = ''active''"
| "lifecycle_name Lc_draining = ''draining''"
| "lifecycle_name Lc_quiesced = ''quiesced''"
| "lifecycle_name Lc_retired = ''retired''"
| "lifecycle_name Lc_failed = ''failed''"
| "lifecycle_name (Lc_raw v) = ''unknown''"

fun u8_of_lifecycle :: "lifecycle \<Rightarrow> u8" where
  "u8_of_lifecycle Lc_declared = 0"
| "u8_of_lifecycle Lc_validated = 1"
| "u8_of_lifecycle Lc_active = 2"
| "u8_of_lifecycle Lc_draining = 3"
| "u8_of_lifecycle Lc_quiesced = 4"
| "u8_of_lifecycle Lc_retired = 5"
| "u8_of_lifecycle Lc_failed = 6"
| "u8_of_lifecycle (Lc_raw v) = v"

definition all_lifecycles :: "lifecycle list" where
  "all_lifecycles =
     [Lc_declared, Lc_validated, Lc_active, Lc_draining, Lc_quiesced, Lc_retired, Lc_failed]"

definition lifecycle_of_u8 :: "u8 \<Rightarrow> lifecycle" where
  "lifecycle_of_u8 v = (if unat v < length all_lifecycles then all_lifecycles ! unat v else Lc_raw v)"

definition lifecycle_canonical :: "lifecycle \<Rightarrow> bool" where
  "lifecycle_canonical l \<longleftrightarrow> lifecycle_of_u8 (u8_of_lifecycle l) = l"

text \<open>Applicability is a set of flags in one byte.\<close>

type_synonym applicability = u8

definition App_none :: applicability where "App_none = 0"
definition App_stale :: applicability where "App_stale = 1"
definition App_fenced :: applicability where "App_fenced = 2"

definition has_flag :: "applicability \<Rightarrow> applicability \<Rightarrow> bool" where
  "has_flag value flag \<longleftrightarrow> value AND flag \<noteq> 0"

definition set_flag :: "applicability \<Rightarrow> applicability \<Rightarrow> applicability" where
  "set_flag value flag = value OR flag"

definition clear_flag :: "applicability \<Rightarrow> applicability \<Rightarrow> applicability" where
  "clear_flag value flag = value AND NOT flag"

definition applicability_name :: "applicability \<Rightarrow> string" where
  "applicability_name value =
     (if value = App_none then ''none''
      else (let out = (if has_flag value App_stale then ''stale'' else [])
            in if has_flag value App_fenced then (if out \<noteq> [] then out @ ''+'' else out) @ ''fenced''
               else out))"

record transition_decision =
  td_allowed :: bool
  td_rule :: string
  td_code :: code

definition kRules :: "(lifecycle \<times> lifecycle \<times> string) list" where
  "kRules =
    [(Lc_declared, Lc_validated, ''declared-to-validated''),
     (Lc_declared, Lc_retired, ''abandoned-before-validation''),
     (Lc_declared, Lc_failed, ''declaration-failed''),
     (Lc_validated, Lc_active, ''validated-to-active''),
     (Lc_validated, Lc_retired, ''retired-before-activation''),
     (Lc_validated, Lc_failed, ''validation-failed''),
     (Lc_active, Lc_draining, ''active-must-drain-before-quiesce''),
     (Lc_active, Lc_failed, ''activation-failed''),
     (Lc_draining, Lc_quiesced, ''drain-proven-complete''),
     (Lc_draining, Lc_active, ''drain-cancelled-by-revalidation''),
     (Lc_draining, Lc_failed, ''drain-failed''),
     (Lc_quiesced, Lc_active, ''reactivation-requires-revalidation''),
     (Lc_quiesced, Lc_retired, ''quiesced-to-retired''),
     (Lc_quiesced, Lc_failed, ''quiesced-fault''),
     (Lc_failed, Lc_retired, ''failed-cleanup-retire'')]"

definition is_terminal :: "lifecycle \<Rightarrow> bool" where
  "is_terminal value \<longleftrightarrow> value = Lc_retired"

definition check_transition :: "lifecycle \<Rightarrow> lifecycle \<Rightarrow> transition_decision" where
  "check_transition from to =
     (if from = to then \<lparr>td_allowed = True, td_rule = ''no-op-idempotent'', td_code = Code_ok\<rparr>
      else (case find (\<lambda>(f, t, r). f = from \<and> t = to) kRules of
              Some (f, t, r) \<Rightarrow> \<lparr>td_allowed = True, td_rule = r, td_code = Code_ok\<rparr>
            | None \<Rightarrow>
                (if is_terminal from
                 then \<lparr>td_allowed = False, td_rule = ''retired-is-terminal'', td_code = Code_lifecycle_violation\<rparr>
                 else \<lparr>td_allowed = False, td_rule = ''transition-not-permitted'', td_code = Code_lifecycle_violation\<rparr>)))"

definition accepts_mutation :: "lifecycle \<Rightarrow> applicability \<Rightarrow> bool" where
  "accepts_mutation value applicability =
     (if value = Lc_retired \<or> value = Lc_failed then False
      else if has_flag applicability App_fenced then False
      else True)"

section \<open>Flags\<close>

lemma has_stale_iff: "has_flag v App_stale \<longleftrightarrow> bit v 0"
  using and_exp_eq_0_iff_not_bit [of v 0] by (simp add: has_flag_def App_stale_def)

lemma has_fenced_iff: "has_flag v App_fenced \<longleftrightarrow> bit v 1"
  using and_exp_eq_0_iff_not_bit [of v 1] by (simp add: has_flag_def App_fenced_def)

lemmas flag_iffs = has_stale_iff has_fenced_iff

lemma bit_App: "bit App_stale n \<longleftrightarrow> n = 0" "bit App_fenced n \<longleftrightarrow> n = 1"
  using bit_1_iff [where 'a = "8 word", of n] bit_2_iff [where 'a = "8 word", of n]
  by (auto simp: App_stale_def App_fenced_def)

lemma flag_none [simp]: "\<not> has_flag App_none f"
  by (simp add: has_flag_def App_none_def)

lemma has_flag_set [simp]:
  "has_flag (set_flag v App_stale) App_stale"
  "has_flag (set_flag v App_fenced) App_fenced"
  "has_flag (set_flag v App_stale) App_fenced = has_flag v App_fenced"
  "has_flag (set_flag v App_fenced) App_stale = has_flag v App_stale"
  by (simp_all add: flag_iffs set_flag_def bit_or_iff bit_App)

lemma has_flag_clear [simp]:
  "\<not> has_flag (clear_flag v App_stale) App_stale"
  "\<not> has_flag (clear_flag v App_fenced) App_fenced"
  "has_flag (clear_flag v App_stale) App_fenced = has_flag v App_fenced"
  "has_flag (clear_flag v App_fenced) App_stale = has_flag v App_stale"
  by (simp_all add: flag_iffs clear_flag_def bit_and_iff bit_not_iff bit_App)

section \<open>The transition table as a relation\<close>

inductive lc_step :: "lifecycle \<Rightarrow> lifecycle \<Rightarrow> bool" where
  validate: "lc_step Lc_declared Lc_validated"
| activate: "lc_step Lc_validated Lc_active"
| drain: "lc_step Lc_active Lc_draining"
| quiesce: "lc_step Lc_draining Lc_quiesced"
| cancel: "lc_step Lc_draining Lc_active"
| reactivate: "lc_step Lc_quiesced Lc_active"
| retire: "l \<in> {Lc_declared, Lc_validated, Lc_quiesced, Lc_failed} \<Longrightarrow> lc_step l Lc_retired"
| fail: "l \<in> {Lc_declared, Lc_validated, Lc_active, Lc_draining, Lc_quiesced} \<Longrightarrow> lc_step l Lc_failed"

inductive_cases lc_step_retiredE: "lc_step Lc_retired l"
inductive_cases lc_step_to_quiescedE: "lc_step l Lc_quiesced"
inductive_cases lc_step_to_activeE: "lc_step l Lc_active"
inductive_cases lc_step_to_drainingE: "lc_step l Lc_draining"
inductive_cases lc_step_to_validatedE: "lc_step l Lc_validated"

inductive_simps lc_step_from_declared: "lc_step Lc_declared l"
inductive_simps lc_step_from_failed: "lc_step Lc_failed l"

lemma kRules_pairs:
  "map (\<lambda>(f, t, r). (f, t)) kRules =
     [(Lc_declared, Lc_validated), (Lc_declared, Lc_retired), (Lc_declared, Lc_failed),
      (Lc_validated, Lc_active), (Lc_validated, Lc_retired), (Lc_validated, Lc_failed),
      (Lc_active, Lc_draining), (Lc_active, Lc_failed), (Lc_draining, Lc_quiesced),
      (Lc_draining, Lc_active), (Lc_draining, Lc_failed), (Lc_quiesced, Lc_active),
      (Lc_quiesced, Lc_retired), (Lc_quiesced, Lc_failed), (Lc_failed, Lc_retired)]"
  by (simp add: kRules_def)

lemma lc_step_iff_pairs: "lc_step f t \<longleftrightarrow> (f, t) \<in> set (map (\<lambda>(f, t, r). (f, t)) kRules)"
  unfolding kRules_pairs by (auto simp: lc_step.simps)

lemma kRules_lc_step: "(f, t, r) \<in> set kRules \<Longrightarrow> lc_step f t"
  unfolding lc_step_iff_pairs by (force intro: image_eqI [where x = "(f, t, r)"])

lemma lc_step_kRules: "lc_step f t \<Longrightarrow> \<exists>r. (f, t, r) \<in> set kRules"
  unfolding lc_step_iff_pairs by auto

lemma lc_step_irrefl: "\<not> lc_step l l"
  unfolding lc_step_iff_pairs kRules_pairs by auto

lemma check_transition_allowed_iff: "td_allowed (check_transition f t) \<longleftrightarrow> f = t \<or> lc_step f t"
proof (cases "find (\<lambda>(f', t', r). f' = f \<and> t' = t) kRules")
  case None
  then have "\<not> lc_step f t"
    by (auto simp: find_None_iff dest!: lc_step_kRules)
  then show ?thesis
    using None by (simp add: check_transition_def)
next
  case (Some e)
  then have "e \<in> set kRules \<and> (case e of (f', t', r) \<Rightarrow> f' = f \<and> t' = t)"
    using find_Some_iff_mem [OF Some] by simp
  then have "lc_step f t"
    by (cases e) (auto dest: kRules_lc_step)
  then show ?thesis
    using Some by (auto simp: check_transition_def split: prod.splits)
qed

lemma check_transition_code: "td_code (check_transition f t) = Code_ok \<longleftrightarrow> td_allowed (check_transition f t)"
  by (auto simp: check_transition_def split: option.splits)

section \<open>Paths\<close>

lemma retired_terminal: "lc_step\<^sup>*\<^sup>* Lc_retired l \<Longrightarrow> l = Lc_retired"
  by (induction rule: rtranclp_induct) (auto elim: lc_step_retiredE)

lemma failed_only_retires: "lc_step\<^sup>*\<^sup>* Lc_failed l \<Longrightarrow> l = Lc_failed \<or> l = Lc_retired"
  by (induction rule: rtranclp_induct) (auto simp: lc_step_from_failed elim: lc_step_retiredE)

text \<open>A path of legal transitions as the list of the states it visits after the first.\<close>

fun lc_path :: "lifecycle \<Rightarrow> lifecycle list \<Rightarrow> bool" where
  "lc_path l [] = True"
| "lc_path l (m # ls) = (td_allowed (check_transition l m) \<and> lc_path m ls)"

lemma lc_path_append: "lc_path l (xs @ ys) \<longleftrightarrow> lc_path l xs \<and> lc_path (last (l # xs)) ys"
  by (induction xs arbitrary: l) auto

lemma visits_before:
  assumes step: "\<And>l. lc_step l target \<Longrightarrow> l = via" and ne: "start \<noteq> target"
  shows "lc_path start ls \<Longrightarrow> target \<in> set ls \<Longrightarrow>
           \<exists>as bs. ls = as @ target # bs \<and> via \<in> set (start # as)"
proof (induction ls rule: rev_induct)
  case (snoc l ls)
  show ?case
  proof (cases "target \<in> set ls")
    case True
    then obtain as bs where "ls = as @ target # bs" "via \<in> set (start # as)"
      using snoc by (auto simp: lc_path_append)
    then have "ls @ [l] = as @ target # (bs @ [l]) \<and> via \<in> set (start # as)"
      by simp
    then show ?thesis by blast
  next
    case False
    then have l: "l = target"
      using snoc.prems by simp
    have "last (start # ls) \<noteq> target"
      using False ne by (metis last_ConsL last_ConsR last_in_set)
    then have "lc_step (last (start # ls)) target"
      using snoc.prems l by (auto simp: lc_path_append check_transition_allowed_iff)
    then have "via = last (start # ls)"
      using step by auto
    then have "via \<in> set (start # ls)"
      using last_in_set [of "start # ls"] by simp
    then have "ls @ [l] = ls @ target # [] \<and> via \<in> set (start # ls)"
      using l by simp
    then show ?thesis by blast
  qed
qed simp

lemma into_quiesced: "lc_step l Lc_quiesced \<Longrightarrow> l = Lc_draining"
  by (auto elim: lc_step_to_quiescedE)

lemma into_draining: "lc_step l Lc_draining \<Longrightarrow> l = Lc_active"
  by (auto elim: lc_step_to_drainingE)

lemmas quiesced_after_draining = visits_before [of Lc_quiesced Lc_draining, OF into_quiesced]
lemmas draining_after_active = visits_before [of Lc_draining Lc_active, OF into_draining]

lemma retired_stays: "lc_path Lc_retired ls \<Longrightarrow> set ls \<subseteq> {Lc_retired}"
  by (induction ls) (auto simp: check_transition_allowed_iff elim: lc_step_retiredE)

lemma retired_path: "lc_path start (as @ Lc_retired # bs) \<Longrightarrow> set bs \<subseteq> {Lc_retired}"
  using retired_stays by (auto simp: lc_path_append)

end
