(* ===== verification/QF_Authority.thy ===== *)
theory QF_Authority
  imports QF_Ids QF_Lifecycle
begin

text \<open>
  \<^verbatim>\<open>include/qf/authority.hpp\<close> and \<^verbatim>\<open>src/authority.cpp\<close>: capabilities as bit masks, the
  authority vector of a resource and the staged decision \<open>authorize\<close>.
\<close>

section \<open>Definitions\<close>

datatype capability =
    Cap_none | Cap_declare_topology | Cap_declare_queue | Cap_validate_queue | Cap_activate_queue
  | Cap_rebind_class | Cap_set_thresholds | Cap_ingest_occupancy | Cap_request_drain
  | Cap_submit_evidence | Cap_quiesce_queue | Cap_retire_queue | Cap_fence_queue
  | Cap_unfence_queue | Cap_fail_queue | Cap_transfer_ownership | Cap_acknowledge_backend
  | Cap_admin | Cap_all

fun capability_name :: "capability \<Rightarrow> string" where
  "capability_name Cap_none = ''none''"
| "capability_name Cap_declare_topology = ''declare_topology''"
| "capability_name Cap_declare_queue = ''declare_queue''"
| "capability_name Cap_validate_queue = ''validate_queue''"
| "capability_name Cap_activate_queue = ''activate_queue''"
| "capability_name Cap_rebind_class = ''rebind_class''"
| "capability_name Cap_set_thresholds = ''set_thresholds''"
| "capability_name Cap_ingest_occupancy = ''ingest_occupancy''"
| "capability_name Cap_request_drain = ''request_drain''"
| "capability_name Cap_submit_evidence = ''submit_evidence''"
| "capability_name Cap_quiesce_queue = ''quiesce_queue''"
| "capability_name Cap_retire_queue = ''retire_queue''"
| "capability_name Cap_fence_queue = ''fence_queue''"
| "capability_name Cap_unfence_queue = ''unfence_queue''"
| "capability_name Cap_fail_queue = ''fail_queue''"
| "capability_name Cap_transfer_ownership = ''transfer_ownership''"
| "capability_name Cap_acknowledge_backend = ''acknowledge_backend''"
| "capability_name Cap_admin = ''admin''"
| "capability_name Cap_all = ''all''"

fun to_mask :: "capability \<Rightarrow> u32" where
  "to_mask Cap_none = 0"
| "to_mask Cap_declare_topology = 0x1"
| "to_mask Cap_declare_queue = 0x2"
| "to_mask Cap_validate_queue = 0x4"
| "to_mask Cap_activate_queue = 0x8"
| "to_mask Cap_rebind_class = 0x10"
| "to_mask Cap_set_thresholds = 0x20"
| "to_mask Cap_ingest_occupancy = 0x40"
| "to_mask Cap_request_drain = 0x80"
| "to_mask Cap_submit_evidence = 0x100"
| "to_mask Cap_quiesce_queue = 0x200"
| "to_mask Cap_retire_queue = 0x400"
| "to_mask Cap_fence_queue = 0x800"
| "to_mask Cap_unfence_queue = 0x1000"
| "to_mask Cap_fail_queue = 0x2000"
| "to_mask Cap_transfer_ownership = 0x4000"
| "to_mask Cap_acknowledge_backend = 0x8000"
| "to_mask Cap_admin = 0x40000000"
| "to_mask Cap_all = 0x7FFFFFFF"

definition has_capability :: "u32 \<Rightarrow> capability \<Rightarrow> bool" where
  "has_capability caps value \<longleftrightarrow> caps AND to_mask value = to_mask value"

record authority_grant =
  ag_owner :: OwnerId
  ag_capabilities :: u32

record authority_vector =
  av_resource :: ResourceId
  av_owner :: OwnerId
  av_epoch :: Epoch
  av_grants :: "authority_grant list"

definition capabilities_of :: "authority_vector \<Rightarrow> OwnerId \<Rightarrow> u32" where
  "capabilities_of authority actor =
     (case find (\<lambda>grant. ag_owner grant = actor) (av_grants authority) of
        Some grant \<Rightarrow> ag_capabilities grant
      | None \<Rightarrow> 0)"

record authority_decision =
  ad_allowed :: bool
  ad_required :: capability
  ad_code :: code
  ad_rule :: string

definition authorize ::
  "authority_vector \<Rightarrow> OwnerId \<Rightarrow> capability \<Rightarrow> Epoch \<Rightarrow> applicability \<Rightarrow> lifecycle \<Rightarrow> authority_decision" where
  "authorize authority actor required presented_epoch applicability lifecycle =
     (if \<not> ctr_valid presented_epoch \<or> presented_epoch \<noteq> av_epoch authority
      then \<lparr>ad_allowed = False, ad_required = required, ad_code = Code_stale_epoch,
            ad_rule = ''authority-epoch-mismatch''\<rparr>
      else if \<not> has_capability (capabilities_of authority actor) required
      then \<lparr>ad_allowed = False, ad_required = required, ad_code = Code_authority_denied,
            ad_rule = ''capability-not-granted''\<rparr>
      else if has_flag applicability App_fenced \<and> required \<noteq> Cap_unfence_queue \<and> required \<noteq> Cap_admin
      then \<lparr>ad_allowed = False, ad_required = required, ad_code = Code_fence_violation,
            ad_rule = ''fenced-queue-refuses-fresh-mutation''\<rparr>
      else if (lifecycle = Lc_retired \<or> lifecycle = Lc_failed) \<and> required \<noteq> Cap_retire_queue
              \<and> required \<noteq> Cap_admin
      then \<lparr>ad_allowed = False, ad_required = required, ad_code = Code_lifecycle_violation,
            ad_rule = (if lifecycle = Lc_retired then ''retired-is-terminal''
                       else ''failed-queue-accepts-only-cleanup'')\<rparr>
      else \<lparr>ad_allowed = True, ad_required = required, ad_code = Code_ok, ad_rule = ''authorized''\<rparr>)"

section \<open>Masks\<close>

lemma has_capability_none [simp]: "has_capability m Cap_none"
  by (simp add: has_capability_def)

lemma has_capability_or: "has_capability m c \<Longrightarrow> has_capability (m OR n) c"
  unfolding has_capability_def by (auto simp: bit_eq_iff bit_and_iff bit_or_iff)

lemma to_mask_below_all: "to_mask c AND 0x7FFFFFFF = to_mask c"
  by (cases c) simp_all

lemma has_capability_all: "has_capability 0x7FFFFFFF c"
  using to_mask_below_all [of c] by (simp add: has_capability_def and.commute)

text \<open>Capabilities other than \<^verbatim>\<open>all\<close> are independent: holding one never implies another.\<close>

lemma single_capability: 
  "c \<noteq> Cap_all \<Longrightarrow> has_capability (to_mask c) d \<Longrightarrow> d = c \<or> d = Cap_none"
  by (cases c; cases d) (simp_all add: has_capability_def)

section \<open>The decision\<close>

lemma authorize_allowed_iff:
  "ad_allowed (authorize a p c e app l) \<longleftrightarrow>
     ctr_valid e \<and> e = av_epoch a \<and> has_capability (capabilities_of a p) c
     \<and> (has_flag app App_fenced \<longrightarrow> c \<in> {Cap_unfence_queue, Cap_admin})
     \<and> (l \<in> {Lc_retired, Lc_failed} \<longrightarrow> c \<in> {Cap_retire_queue, Cap_admin})"
  by (auto simp: authorize_def)

lemma authorize_code: "ad_code (authorize a p c e app l) = Code_ok \<longleftrightarrow> ad_allowed (authorize a p c e app l)"
  by (simp add: authorize_def)

lemma capabilities_of_SomeD:
  "has_capability (capabilities_of a p) c \<Longrightarrow> c \<noteq> Cap_none \<Longrightarrow>
     \<exists>g \<in> set (av_grants a). ag_owner g = p \<and> has_capability (ag_capabilities g) c"
  by (cases c) (auto simp: capabilities_of_def has_capability_def dest!: find_Some_iff_mem split: option.splits)

end
