(* ===== verification/QF_Checked.thy ===== *)
theory QF_Checked
  imports QF_Prelude
begin

text \<open>
  \<^verbatim>\<open>include/qf/checked.hpp\<close>: overflow-checked and saturating arithmetic. A function that
  reports overflow through its result and writes an out-parameter otherwise returns \<open>None\<close> on
  overflow and \<open>Some out\<close> otherwise. The unsigned templates are generic in the width; the
  signed 64-bit functions work on \<open>int\<close> values of the range \<open>i64_min..i64_max\<close>.
\<close>

section \<open>Definitions\<close>

definition add_overflow :: "'a::len word \<Rightarrow> 'a word \<Rightarrow> 'a word option" where
  "add_overflow a b = (if b > - 1 - a then None else Some (a + b))"

definition sub_underflow :: "'a::len word \<Rightarrow> 'a word \<Rightarrow> 'a word option" where
  "sub_underflow a b = (if b > a then None else Some (a - b))"

definition mul_overflow :: "'a::len word \<Rightarrow> 'a word \<Rightarrow> 'a word option" where
  "mul_overflow a b =
     (if a = 0 \<or> b = 0 then Some 0
      else if a > - 1 div b then None
      else Some (a * b))"

definition saturating_add :: "'a::len word \<Rightarrow> 'a word \<Rightarrow> 'a word" where
  "saturating_add a b = (case add_overflow a b of None \<Rightarrow> - 1 | Some out \<Rightarrow> out)"

definition saturating_sub :: "'a::len word \<Rightarrow> 'a word \<Rightarrow> 'a word" where
  "saturating_sub a b = (case sub_underflow a b of None \<Rightarrow> 0 | Some out \<Rightarrow> out)"

definition saturating_mul :: "'a::len word \<Rightarrow> 'a word \<Rightarrow> 'a word" where
  "saturating_mul a b = (case mul_overflow a b of None \<Rightarrow> - 1 | Some out \<Rightarrow> out)"

definition i64_min :: int where
  "i64_min = - (2 ^ 63)"

definition i64_max :: int where
  "i64_max = 2 ^ 63 - 1"

definition in_i64 :: "int \<Rightarrow> bool" where
  "in_i64 x \<longleftrightarrow> i64_min \<le> x \<and> x \<le> i64_max"

definition add_overflow_i64 :: "int \<Rightarrow> int \<Rightarrow> int option" where
  "add_overflow_i64 a b =
     (if b > 0 \<and> a > i64_max - b then None
      else if b < 0 \<and> a < i64_min - b then None
      else Some (a + b))"

definition saturating_add_i64 :: "int \<Rightarrow> int \<Rightarrow> int" where
  "saturating_add_i64 a b =
     (case add_overflow_i64 a b of
        None \<Rightarrow> (if b > 0 then i64_max else i64_min)
      | Some out \<Rightarrow> out)"

definition saturating_sub_i64 :: "int \<Rightarrow> int \<Rightarrow> int" where
  "saturating_sub_i64 a b =
     (if b = i64_min then (if a \<ge> 0 then i64_max else 0)
      else saturating_add_i64 a (- b))"

text \<open>
  \<^verbatim>\<open>narrow_cast\<close> is a template over two integral types. A type is its signedness and width;
  \<open>convert t v\<close> is \<^verbatim>\<open>static_cast\<close> to \<open>t\<close> (modular, as C++20 defines it).
\<close>

datatype int_type = IntType (it_signed: bool) (it_width: nat)

definition type_min :: "int_type \<Rightarrow> int" where
  "type_min t = (if it_signed t then - (2 ^ (it_width t - 1)) else 0)"

definition type_max :: "int_type \<Rightarrow> int" where
  "type_max t = (if it_signed t then 2 ^ (it_width t - 1) - 1 else 2 ^ it_width t - 1)"

definition convert :: "int_type \<Rightarrow> int \<Rightarrow> int" where
  "convert t v =
     (let r = v mod 2 ^ it_width t
      in if it_signed t \<and> r \<ge> 2 ^ (it_width t - 1) then r - 2 ^ it_width t else r)"

definition narrow_cast :: "int_type \<Rightarrow> int_type \<Rightarrow> int \<Rightarrow> int option" where
  "narrow_cast from to value =
     (if it_signed from = it_signed to then
        (if value < convert from (type_min to) \<or> value > convert from (type_max to) then None
         else Some (convert to value))
      else if it_signed from then
        (if value < 0 then None
         else if convert (IntType False (it_width from)) value
                   > convert (IntType False (it_width from)) (type_max to) then None
         else Some (convert to value))
      else
        (if value > convert from (type_max to) then None
         else Some (convert to value)))"

definition align_up :: "u64 \<Rightarrow> u64 \<Rightarrow> u64 option" where
  "align_up value alignment =
     (if alignment = 0 then None
      else (let remainder = value mod alignment
            in if remainder = 0 then Some value
               else add_overflow value (alignment - remainder)))"

section \<open>Unsigned operations\<close>

lemma unat_max_minus: "unat (- 1 - a :: 'a::len word) = 2 ^ LENGTH('a) - 1 - unat a"
  by (simp add: unat_sub unat_max_word)

lemma add_overflow_iff: "add_overflow a b = None \<longleftrightarrow> 2 ^ LENGTH('a) \<le> unat a + unat (b :: 'a::len word)"
proof -
  have "unat a < 2 ^ LENGTH('a)"
    by (rule unat_lt_exp)
  then have "2 ^ LENGTH('a) - 1 - unat a < unat b \<longleftrightarrow> 2 ^ LENGTH('a) \<le> unat a + unat b"
    by linarith
  then show ?thesis
    unfolding add_overflow_def word_less_nat_alt unat_max_minus by (simp only: if_split) auto
qed

lemma add_overflow_Some: "add_overflow a b = Some c \<Longrightarrow> unat c = unat a + unat b"
  using add_overflow_iff [of a b]
  by (auto simp: add_overflow_def unat_word_ariths split: if_splits)

lemma sub_underflow_Some: "sub_underflow a b = Some c \<Longrightarrow> unat b \<le> unat a \<and> unat c = unat a - unat b"
  by (auto simp: sub_underflow_def word_less_nat_alt not_less unat_sub word_le_nat_alt split: if_splits)

lemma mul_fits_iff:
  fixes a b :: "'a::len word"
  assumes "b \<noteq> 0"
  shows "a \<le> - 1 div b \<longleftrightarrow> unat a * unat b < 2 ^ LENGTH('a)"
proof -
  have pos: "0 < unat b"
    using assms by (simp add: unat_gt_0)
  have "a \<le> - 1 div b \<longleftrightarrow> unat a \<le> (2 ^ LENGTH('a) - 1) div unat b"
    by (simp add: word_le_nat_alt unat_div unat_max_word)
  also have "\<dots> \<longleftrightarrow> unat a * unat b \<le> 2 ^ LENGTH('a) - 1"
    using pos by (simp add: less_eq_div_iff_mult_less_eq)
  also have "\<dots> \<longleftrightarrow> unat a * unat b < 2 ^ LENGTH('a)"
    by (metis Suc_pred' less_Suc_eq_le zero_less_numeral zero_less_power)
  finally show ?thesis .
qed

lemma mul_overflow_iff: "mul_overflow a b = None \<longleftrightarrow> 2 ^ LENGTH('a) \<le> unat a * unat (b :: 'a::len word)"
proof (cases "a = 0 \<or> b = 0")
  case True
  then show ?thesis by (auto simp: mul_overflow_def)
next
  case False
  then show ?thesis
    using mul_fits_iff [of b a] by (auto simp: mul_overflow_def not_le)
qed

lemma mul_overflow_Some: "mul_overflow a b = Some c \<Longrightarrow> unat c = unat a * unat b"
  using mul_overflow_iff [of a b]
  by (auto simp: mul_overflow_def unat_word_ariths split: if_splits)

lemma unat_saturating_add: "unat (saturating_add a b) = min (2 ^ LENGTH('a) - 1) (unat a + unat (b :: 'a::len word))"
  using add_overflow_iff [of a b] add_overflow_Some [of a b]
  by (auto simp: saturating_add_def unat_max_word split: option.splits)

lemma unat_saturating_sub: "unat (saturating_sub a b) = unat a - unat b"
  by (auto simp: saturating_sub_def sub_underflow_def word_less_nat_alt not_less unat_sub word_le_nat_alt)

lemma unat_saturating_mul: "unat (saturating_mul a b) = min (2 ^ LENGTH('a) - 1) (unat a * unat (b :: 'a::len word))"
  using mul_overflow_iff [of a b] mul_overflow_Some [of a b]
  by (auto simp: saturating_mul_def unat_max_word split: option.splits)

section \<open>Signed operations\<close>

lemmas i64_defs = i64_min_def i64_max_def in_i64_def

lemma add_overflow_i64_Some_iff:
  "in_i64 a \<Longrightarrow> in_i64 b \<Longrightarrow> add_overflow_i64 a b = (if in_i64 (a + b) then Some (a + b) else None)"
  by (auto simp: add_overflow_i64_def i64_defs)

lemma saturating_add_i64_clamp:
  "in_i64 a \<Longrightarrow> in_i64 b \<Longrightarrow> saturating_add_i64 a b = max i64_min (min i64_max (a + b))"
  by (auto simp: saturating_add_i64_def add_overflow_i64_def i64_defs)

lemma saturating_sub_i64_clamp:
  "in_i64 a \<Longrightarrow> in_i64 b \<Longrightarrow> b \<noteq> i64_min \<or> 0 \<le> a \<Longrightarrow>
     saturating_sub_i64 a b = max i64_min (min i64_max (a - b))"
  by (auto simp: saturating_sub_i64_def saturating_add_i64_def add_overflow_i64_def i64_defs)

section \<open>Conversions between integer types\<close>

lemma convert_in_range:
  assumes "0 < it_width t" and "type_min t \<le> v" and "v \<le> type_max t"
  shows "convert t v = v"
proof (cases "it_signed t")
  case False
  with assms show ?thesis
    by (simp add: convert_def type_min_def type_max_def Let_def)
next
  case True
  obtain w where w: "it_width t = Suc w"
    using assms(1) by (cases "it_width t") auto
  have lo: "- (2 ^ w) \<le> v" and hi: "v < 2 ^ w"
    using assms True by (simp_all add: type_min_def type_max_def w)
  show ?thesis
  proof (cases "0 \<le> v")
    case v: True
    then have "v mod 2 ^ Suc w = v"
      using hi by simp
    then show ?thesis
      using True hi by (simp add: convert_def w Let_def)
  next
    case v: False
    have "v mod 2 ^ Suc w = (v + 2 ^ Suc w) mod 2 ^ Suc w"
      by simp
    also have "\<dots> = v + 2 ^ Suc w"
      using lo v by (intro mod_pos_pos_trivial) auto
    finally have "v mod 2 ^ Suc w = v + 2 ^ Suc w" .
    then show ?thesis
      using True lo by (simp add: convert_def w Let_def)
  qed
qed

lemma type_range_mono:
  assumes "it_width t \<le> it_width f"
  shows "it_signed t = it_signed f \<Longrightarrow> type_min f \<le> type_min t \<and> type_max t \<le> type_max f"
    and "it_signed f \<Longrightarrow> \<not> it_signed t \<Longrightarrow> type_max t \<le> type_max (IntType False (it_width f))"
    and "\<not> it_signed f \<Longrightarrow> it_signed t \<Longrightarrow> type_max t \<le> type_max f"
proof -
  have p: "(2::int) ^ (it_width t - 1) \<le> 2 ^ (it_width f - 1)" "(2::int) ^ it_width t \<le> 2 ^ it_width f"
    "(2::int) ^ (it_width t - 1) \<le> 2 ^ it_width f"
    using assms by (auto intro!: power_increasing)
  then show "it_signed t = it_signed f \<Longrightarrow> type_min f \<le> type_min t \<and> type_max t \<le> type_max f"
    and "it_signed f \<Longrightarrow> \<not> it_signed t \<Longrightarrow> type_max t \<le> type_max (IntType False (it_width f))"
    and "\<not> it_signed f \<Longrightarrow> it_signed t \<Longrightarrow> type_max t \<le> type_max f"
    unfolding type_min_def type_max_def
    by (cases "it_signed t"; cases "it_signed f"; simp only: if_True if_False int_type.sel; linarith)+
qed

lemma type_bounds: "type_min t \<le> 0" "0 \<le> type_max t" "\<not> it_signed t \<Longrightarrow> type_min t = 0"
  by (auto simp: type_min_def type_max_def)

definition in_type :: "int_type \<Rightarrow> int \<Rightarrow> bool" where
  "in_type t v \<longleftrightarrow> type_min t \<le> v \<and> v \<le> type_max t"

lemma convert_in_type: "0 < it_width t \<Longrightarrow> in_type t v \<Longrightarrow> convert t v = v"
  by (simp add: convert_in_range in_type_def)

lemma unsigned_of_signed:
  "0 < it_width f \<Longrightarrow> in_type f v \<Longrightarrow> 0 \<le> v \<Longrightarrow> in_type (IntType False (it_width f)) v"
  by (cases "it_width f") (auto simp: in_type_def type_min_def type_max_def split: if_splits)

lemma narrow_cast_narrowing:
  assumes w: "0 < it_width t" "it_width t \<le> it_width f" and v: "in_type f v"
  shows "narrow_cast f t v = (if in_type t v then Some v else None)"
proof -
  have wf: "0 < it_width f"
    using w by simp
  let ?u = "IntType False (it_width f)"
  consider (same) "it_signed f = it_signed t" | (su) "it_signed f" "\<not> it_signed t"
    | (us) "\<not> it_signed f" "it_signed t"
    by blast
  then show ?thesis
  proof cases
    case same
    then have "convert f (type_min t) = type_min t" "convert f (type_max t) = type_max t"
      using type_range_mono(1) [OF w(2)] type_bounds [of t] type_bounds [of f]
      by (auto intro!: convert_in_range [OF wf])
    then show ?thesis
      using same w(1) by (auto simp: narrow_cast_def in_type_def not_less intro: convert_in_range)
  next
    case su
    have "convert ?u (type_max t) = type_max t"
      using type_range_mono(2) [OF w(2) su] type_bounds(2) [of t] wf
      by (intro convert_in_range) (auto simp: type_min_def)
    moreover have "0 \<le> v \<Longrightarrow> convert ?u v = v"
      using unsigned_of_signed [OF wf v] wf by (simp add: convert_in_type)
    ultimately show ?thesis
      using su w(1) type_bounds(3) [of t]
      by (auto simp: narrow_cast_def in_type_def not_less intro: convert_in_range)
  next
    case us
    have "convert f (type_max t) = type_max t"
      using type_range_mono(3) [OF w(2) us] type_bounds [of t] type_bounds(3) [OF us(1)]
      by (intro convert_in_range [OF wf]) auto
    then show ?thesis
      using us w(1) v type_bounds(1) [of t] type_bounds(3) [of f]
      by (auto simp: narrow_cast_def in_type_def not_less intro: convert_in_range)
  qed
qed

section \<open>Alignment\<close>

lemma align_up_Some:
  assumes "align_up v a = Some r"
  shows "a \<noteq> 0 \<and> unat a dvd unat r \<and> unat v \<le> unat r \<and> unat r < unat v + unat a"
proof -
  have a: "a \<noteq> 0" and pos: "0 < unat a"
    using assms by (auto simp: align_up_def unat_gt_0 split: if_splits)
  show ?thesis
  proof (cases "v mod a = 0")
    case True
    then have "r = v"
      using assms a by (simp add: align_up_def)
    moreover have "unat v mod unat a = 0"
      using True by (metis unat_mod unat_0)
    ultimately show ?thesis
      using a pos by (auto simp: dvd_eq_mod_eq_0)
  next
    case False
    then have r: "add_overflow v (a - v mod a) = Some r"
      using assms a by (simp add: align_up_def Let_def)
    have lt: "v mod a < a"
      using a by (simp add: word_mod_less_divisor word_neq_0_conv)
    have "unat (a - v mod a) = unat a - unat v mod unat a"
      using lt by (simp add: unat_sub unat_mod)
    then have eq: "unat r = unat v + (unat a - unat v mod unat a)"
      using add_overflow_Some [OF r] by simp
    have m: "unat v mod unat a < unat a" "0 < unat v mod unat a"
      using lt False by (auto simp: unat_mod [symmetric] unat_gt_0 word_less_nat_alt)
    have "unat r = (unat v div unat a + 1) * unat a"
      using eq m div_mult_mod_eq [of "unat v" "unat a"] unfolding distrib_right mult_1 by linarith
    then have "unat a dvd unat r"
      by (simp only: dvd_triv_right)
    moreover have "unat v \<le> unat r" "unat r < unat v + unat a"
      using eq m by linarith+
    ultimately show ?thesis
      using a by blast
  qed
qed

end
