(* ===== verification/QF_Threshold.thy ===== *)
theory QF_Threshold
  imports QF_Ids QF_Checked
begin

text \<open>
  \<^verbatim>\<open>threshold.hpp/.cpp\<close> and \<^verbatim>\<open>policy.hpp/.cpp\<close>: the configured ladder of a queue, its evaluation
  against observed occupancy and the resolution of unset fields through the fabric policy.
\<close>

section \<open>Definitions\<close>

record thresholds =
  th_low_watermark_bytes :: u64
  th_high_watermark_bytes :: u64
  th_max_occupancy_bytes :: u64
  th_max_packets :: u64
  th_occupancy_stale_after :: nanos

definition no_thresholds :: thresholds where
  "no_thresholds = \<lparr>th_low_watermark_bytes = 0, th_high_watermark_bytes = 0,
     th_max_occupancy_bytes = 0, th_max_packets = 0, th_occupancy_stale_after = 0\<rparr>"

definition th_consistent :: "thresholds \<Rightarrow> bool" where
  "th_consistent t \<longleftrightarrow> th_low_watermark_bytes t \<le> th_high_watermark_bytes t
     \<and> th_high_watermark_bytes t \<le> th_max_occupancy_bytes t"

datatype threshold_band =
  Band_unknown | Band_below_low | Band_nominal | Band_above_high | Band_at_limit | Band_exceeded

fun threshold_band_name :: "threshold_band \<Rightarrow> string" where
  "threshold_band_name Band_unknown = ''unknown''"
| "threshold_band_name Band_below_low = ''below_low''"
| "threshold_band_name Band_nominal = ''nominal''"
| "threshold_band_name Band_above_high = ''above_high''"
| "threshold_band_name Band_at_limit = ''at_limit''"
| "threshold_band_name Band_exceeded = ''exceeded''"

record threshold_evaluation =
  te_band :: threshold_band
  te_admission_authorized :: bool
  te_headroom_bytes :: u64
  te_code :: code
  te_rule :: string

definition evaluate_thresholds :: "thresholds \<Rightarrow> u64 \<Rightarrow> u64 \<Rightarrow> bool \<Rightarrow> threshold_evaluation" where
  "evaluate_thresholds t observed_bytes observed_packets evidence_fresh =
     (let headroom = saturating_sub (th_max_occupancy_bytes t) observed_bytes;
          bytes_over = observed_bytes > th_max_occupancy_bytes t;
          packets_over = th_max_packets t \<noteq> 0 \<and> observed_packets > th_max_packets t;
          out = (\<lambda>band auth c rule. \<lparr>te_band = band, te_admission_authorized = auth,
                   te_headroom_bytes = headroom, te_code = c, te_rule = rule\<rparr>)
      in if \<not> evidence_fresh
         then out Band_unknown False Code_stale_occupancy ''stale-evidence-cannot-authorize-admission''
         else if bytes_over \<or> packets_over
         then out Band_exceeded False Code_threshold_exceeded
                (if bytes_over then ''observed-bytes-above-configured-maximum''
                 else ''observed-packets-above-configured-maximum'')
         else if observed_bytes \<ge> th_max_occupancy_bytes t
         then out Band_at_limit False Code_threshold_exceeded ''occupancy-at-configured-maximum''
         else if observed_bytes \<ge> th_high_watermark_bytes t
         then out Band_above_high True Code_ok ''occupancy-above-high-watermark-within-limit''
         else if observed_bytes \<le> th_low_watermark_bytes t
         then out Band_below_low True Code_ok ''occupancy-below-low-watermark''
         else out Band_nominal True Code_ok ''occupancy-nominal'')"

record class_policy =
  cp_cls :: ClassId
  cp_thresholds :: thresholds
  cp_occupancy_stale_after :: nanos

record fabric_policy =
  fp_id :: PolicyId
  fp_generation :: Generation
  fp_default_thresholds :: thresholds
  fp_occupancy_stale_after :: nanos
  fp_classes :: "class_policy list"
  fp_max_drain_evidence_records :: nat
  fp_require_backend_ack_for_drain :: bool

definition default_policy :: fabric_policy where
  "default_policy = \<lparr>fp_id = Ident 0, fp_generation = Counter 0, fp_default_thresholds = no_thresholds,
     fp_occupancy_stale_after = 1000000000, fp_classes = [],
     fp_max_drain_evidence_records = kMaxDrainEvidenceRecords,
     fp_require_backend_ack_for_drain = True\<rparr>"

definition fp_find_class :: "fabric_policy \<Rightarrow> ClassId \<Rightarrow> class_policy option" where
  "fp_find_class pol cls = find (\<lambda>entry. cp_cls entry = cls) (fp_classes pol)"

text \<open>One field of \<^verbatim>\<open>resolve\<close>: the queue's own value unless it is zero, then the class, then the default.\<close>

definition resolve_field :: "fabric_policy \<Rightarrow> class_policy option \<Rightarrow> (thresholds \<Rightarrow> u64) \<Rightarrow> thresholds \<Rightarrow> u64" where
  "resolve_field pol class_policy field queue_thresholds =
     (if field queue_thresholds \<noteq> 0 then field queue_thresholds
      else (case class_policy of Some cp \<Rightarrow> field (cp_thresholds cp)
            | None \<Rightarrow> field (fp_default_thresholds pol)))"

definition fp_resolve :: "fabric_policy \<Rightarrow> thresholds \<Rightarrow> ClassId \<Rightarrow> thresholds" where
  "fp_resolve pol qt cls =
     (let cp = fp_find_class pol cls
      in \<lparr>th_low_watermark_bytes = resolve_field pol cp th_low_watermark_bytes qt,
          th_high_watermark_bytes = resolve_field pol cp th_high_watermark_bytes qt,
          th_max_occupancy_bytes = resolve_field pol cp th_max_occupancy_bytes qt,
          th_max_packets = resolve_field pol cp th_max_packets qt,
          th_occupancy_stale_after =
            (if th_occupancy_stale_after qt \<noteq> 0 then th_occupancy_stale_after qt
             else (case cp of
                     Some c \<Rightarrow> (if cp_occupancy_stale_after c \<noteq> 0 then cp_occupancy_stale_after c
                                else fp_occupancy_stale_after pol)
                   | None \<Rightarrow> fp_occupancy_stale_after pol))\<rparr>)"

definition stale_after_for :: "fabric_policy \<Rightarrow> thresholds \<Rightarrow> ClassId \<Rightarrow> nanos" where
  "stale_after_for pol effective cls =
     (if th_occupancy_stale_after effective \<noteq> 0 then th_occupancy_stale_after effective
      else (case fp_find_class pol cls of
              Some c \<Rightarrow> (if cp_occupancy_stale_after c \<noteq> 0 then cp_occupancy_stale_after c
                         else fp_occupancy_stale_after pol)
            | None \<Rightarrow> fp_occupancy_stale_after pol))"

section \<open>Lemmas\<close>

lemma evaluate_band_iff:
  "te_band (evaluate_thresholds t b p f) =
     (if \<not> f then Band_unknown
      else if th_max_occupancy_bytes t < b \<or> (th_max_packets t \<noteq> 0 \<and> th_max_packets t < p) then Band_exceeded
      else if b = th_max_occupancy_bytes t then Band_at_limit
      else if th_high_watermark_bytes t \<le> b then Band_above_high
      else if b \<le> th_low_watermark_bytes t then Band_below_low
      else Band_nominal)"
  by (auto simp: evaluate_thresholds_def Let_def)

lemma evaluate_admission:
  "te_admission_authorized (evaluate_thresholds t b p f) \<longleftrightarrow>
     f \<and> b < th_max_occupancy_bytes t \<and> (th_max_packets t = 0 \<or> p \<le> th_max_packets t)"
  by (auto simp: evaluate_thresholds_def Let_def not_le)

lemma evaluate_code:
  "te_code (evaluate_thresholds t b p f) = Code_ok \<longleftrightarrow> te_admission_authorized (evaluate_thresholds t b p f)"
  by (simp add: evaluate_thresholds_def Let_def)

lemma evaluate_headroom:
  "unat (te_headroom_bytes (evaluate_thresholds t b p f)) = unat (th_max_occupancy_bytes t) - unat b"
  by (simp add: evaluate_thresholds_def Let_def unat_saturating_sub)

lemma resolve_stale_after: "stale_after_for pol (fp_resolve pol qt cls) cls = th_occupancy_stale_after (fp_resolve pol qt cls)"
  by (auto simp: stale_after_for_def fp_resolve_def Let_def split: option.splits)

lemma resolve_idem: "fp_resolve pol (fp_resolve pol qt cls) cls = fp_resolve pol qt cls"
  by (auto simp: fp_resolve_def Let_def resolve_field_def split: option.splits)

end
