(* ===== verification/QF_Hash.thy ===== *)
theory QF_Hash
  imports QF_Prelude
begin

text \<open>
  \<^verbatim>\<open>include/qf/hash.hpp\<close>: the table driven CRC-32C of frames and journal records, FNV-1a and
  the mixing function of the request fingerprints. The lemmas show that the table routine is the
  bitwise CRC with the reflected Castagnoli polynomial, that it can be computed piecewise, and that
  it detects every error that is confined to four consecutive bytes.
\<close>

section \<open>Definitions\<close>

text \<open>One round of the inner loop of \<^verbatim>\<open>make_crc32c_table\<close>.\<close>

definition crc_bit :: "u32 \<Rightarrow> u32" where
  "crc_bit crc = (if crc AND 1 \<noteq> 0 then 0x82F63B78 XOR drop_bit 1 crc else drop_bit 1 crc)"

definition make_crc32c_table :: "u32 list" where
  "make_crc32c_table = map (\<lambda>index. (crc_bit ^^ 8) (of_nat index)) [0..<256]"

definition kCrc32cTable :: "u32 list" where
  "kCrc32cTable = make_crc32c_table"

definition crc_step :: "u32 \<Rightarrow> u8 \<Rightarrow> u32" where
  "crc_step crc b = kCrc32cTable ! unat ((crc XOR ucast b) AND 0xFF) XOR drop_bit 8 crc"

definition crc32c_extend :: "u32 \<Rightarrow> bytes \<Rightarrow> u32" where
  "crc32c_extend seed data = NOT (foldl crc_step (NOT seed) data)"

definition crc32c :: "bytes \<Rightarrow> u32" where
  "crc32c data = crc32c_extend 0 data"

definition fnv1a64 :: "bytes \<Rightarrow> u64" where
  "fnv1a64 data = foldl (\<lambda>hash b. (hash XOR ucast b) * 0x100000001B3) 0xCBF29CE484222325 data"

definition hash_mix :: "u64 \<Rightarrow> u64 \<Rightarrow> u64" where
  "hash_mix seed value = seed XOR (value + 0x9E3779B97F4A7C15 + push_bit 6 seed + drop_bit 2 seed)"

definition hash_mix_string :: "u64 \<Rightarrow> string \<Rightarrow> u64" where
  "hash_mix_string seed text = hash_mix seed (fnv1a64 (bytes_of_string text))"

definition hash_mix_bool :: "u64 \<Rightarrow> bool \<Rightarrow> u64" where
  "hash_mix_bool seed value = hash_mix seed (if value then 1 else 0)"

section \<open>The bit step is linear and injective\<close>

lemma odd_and_one: "(x :: u32) AND 1 \<noteq> 0 \<longleftrightarrow> bit x 0"
  using and_exp_eq_0_iff_not_bit [of x 0] by simp

lemma crc_bit_alt: "crc_bit x = (if bit x 0 then 0x82F63B78 XOR drop_bit 1 x else drop_bit 1 x)"
  by (simp add: crc_bit_def odd_and_one del: bit_0)

lemma drop_bit_xor32: "drop_bit n ((x :: u32) XOR y) = drop_bit n x XOR drop_bit n y"
  by (simp add: bit_eq_iff bit_xor_iff bit_drop_bit_eq)

lemma crc_bit_xor: "crc_bit (x XOR y) = crc_bit x XOR crc_bit y"
  by (cases "bit x 0"; cases "bit y 0")
     (simp_all add: crc_bit_alt bit_xor_iff drop_bit_xor32 xor.assoc xor.commute xor.left_commute del: bit_0)

lemma crc_bits_xor: "(crc_bit ^^ n) (x XOR y) = (crc_bit ^^ n) x XOR (crc_bit ^^ n) y"
  by (induction n) (simp_all add: crc_bit_xor)

lemma crc_bit_0: "crc_bit x = 0 \<longleftrightarrow> x = 0"
proof
  assume z: "crc_bit x = 0"
  show "x = 0"
  proof (cases "bit x 0")
    case True
    have "bit (0x82F63B78 XOR drop_bit 1 x) 31"
      using bit_imp_le_length [of x 32] by (auto simp: bit_xor_iff bit_drop_bit_eq)
    then have "bit (crc_bit x) 31"
      using True by (simp add: crc_bit_alt del: bit_0)
    then show ?thesis using z by simp
  next
    case False
    then have d: "drop_bit 1 x = 0"
      using z by (simp add: crc_bit_alt del: bit_0)
    have "\<not> bit x n" for n
      using False d bit_drop_bit_eq [of 1 x] by (cases n) (auto simp: fun_eq_iff simp del: bit_0)
    then show ?thesis by (simp add: bit_eq_iff)
  qed
qed (simp add: crc_bit_def)

lemma crc_bits_0: "(crc_bit ^^ n) x = 0 \<longleftrightarrow> x = 0"
  by (induction n) (simp_all add: crc_bit_0)

lemma xor_eq_0: "(x :: u32) XOR y = 0 \<longleftrightarrow> x = y"
  by (auto simp: bit_eq_iff bit_xor_iff)

lemma xor_cancel: "c XOR (x :: u32) = c XOR y \<longleftrightarrow> x = y" "x XOR c = y XOR c \<longleftrightarrow> x = y"
  by (auto simp: bit_eq_iff bit_xor_iff)

lemma crc_bits_inject: "(crc_bit ^^ n) x = (crc_bit ^^ n) y \<longleftrightarrow> x = y"
  by (metis crc_bits_0 crc_bits_xor xor_eq_0)

section \<open>Table and bitwise computation agree\<close>

lemma crc_bits_push: "n \<le> 32 \<Longrightarrow> drop_bit (32 - n) x = 0 \<Longrightarrow> (crc_bit ^^ n) (push_bit n x) = x"
proof (induction n arbitrary: x)
  case (Suc n)
  have nb: "\<not> bit x k" if "31 - n \<le> k" for k
    using Suc.prems that bit_drop_bit_eq [of "32 - Suc n" x] le_add_diff_inverse [OF that]
    by (auto simp: fun_eq_iff) (metis bit_0_eq bot_apply bot_bool_def)
  have "\<not> bit (push_bit (Suc n) x) 0"
    by (simp add: bit_push_bit_iff del: bit_0 push_bit_Suc)
  then have "crc_bit (push_bit (Suc n) x) = drop_bit 1 (push_bit (Suc n) x)"
    by (simp only: crc_bit_alt if_False)
  also have "\<dots> = push_bit n x"
  proof (rule bit_word_eqI)
    fix k assume "k < LENGTH(32)"
    then show "bit (drop_bit 1 (push_bit (Suc n) x)) k = bit (push_bit n x) k"
      using nb [of "31 - n"]
      by (cases "k = 31") (auto simp: bit_push_bit_iff bit_drop_bit_eq simp del: push_bit_Suc)
  qed
  finally have "crc_bit (push_bit (Suc n) x) = push_bit n x" .
  moreover have "drop_bit (32 - n) x = 0"
    by (auto simp: bit_eq_iff bit_drop_bit_eq nb)
  ultimately show ?case
    using Suc by (simp add: funpow_swap1 del: push_bit_Suc)
qed simp

lemma split_low_byte: "x = (x AND 0xFF) XOR push_bit 8 (drop_bit 8 (x :: u32))"
proof -
  have "(0xFF :: u32) = mask 8"
    by (simp add: mask_eq_exp_minus_1)
  then show ?thesis
    by (auto simp: bit_eq_iff bit_xor_iff bit_and_iff bit_mask_iff bit_push_bit_iff bit_drop_bit_eq)
qed

lemma unat_low_byte: "unat (x AND 0xFF :: u32) < 256"
proof -
  have "x AND 0xFF \<le> (0xFF :: u32)"
    by (rule word_and_le1)
  then have "unat (x AND 0xFF) \<le> unat (0xFF :: u32)"
    by (simp only: word_le_nat_alt)
  then show ?thesis by simp
qed

lemma drop_bit_twice0: "drop_bit 24 (drop_bit 8 (x :: u32)) = 0"
  by (simp add: bit_eq_iff bit_drop_bit_eq)

lemma drop_ucast: "drop_bit 8 (ucast (b :: u8) :: u32) = 0"
  by (auto simp: bit_eq_iff bit_drop_bit_eq bit_unsigned_iff dest: bit_imp_le_length)

lemma crc_step_bitwise: "crc_step crc b = (crc_bit ^^ 8) (crc XOR ucast b)"
proof -
  define x where "x = crc XOR ucast b"
  have "kCrc32cTable ! unat (x AND 0xFF) = (crc_bit ^^ 8) (x AND 0xFF)"
    using unat_low_byte [of x] by (simp add: kCrc32cTable_def make_crc32c_table_def)
  moreover have "drop_bit 8 crc = drop_bit 8 x"
    by (simp add: x_def drop_bit_xor32 drop_ucast)
  moreover have "(crc_bit ^^ 8) (push_bit 8 (drop_bit 8 x)) = drop_bit 8 x"
    by (rule crc_bits_push) (simp_all add: drop_bit_twice0)
  ultimately have "crc_step crc b = (crc_bit ^^ 8) ((x AND 0xFF) XOR push_bit 8 (drop_bit 8 x))"
    by (simp only: crc_step_def x_def [symmetric] crc_bits_xor)
  then show ?thesis
    by (simp only: split_low_byte [symmetric] x_def)
qed

section \<open>Piecewise computation and error detection\<close>

lemma crc32c_extend_append: "crc32c_extend (crc32c_extend seed a) b = crc32c_extend seed (a @ b)"
  by (simp add: crc32c_extend_def)

lemma crc_step_inject_crc: "crc_step c b = crc_step c' b \<longleftrightarrow> c = c'"
  unfolding crc_step_bitwise crc_bits_inject by (rule xor_cancel)

lemma crc_fold_inject: "foldl crc_step c bs = foldl crc_step c' bs \<longleftrightarrow> c = c'"
  by (induction bs arbitrary: c c') (simp_all add: crc_step_inject_crc)

text \<open>A block of at most four bytes as the little endian number it denotes.\<close>

fun le_block :: "bytes \<Rightarrow> u32" where
  "le_block [] = 0"
| "le_block (b # bs) = ucast b XOR push_bit 8 (le_block bs)"

lemma bit_le_block: "length bs \<le> 4 \<Longrightarrow> bit (le_block bs) n \<longleftrightarrow> n < 8 * length bs \<and> bit (bs ! (n div 8)) (n mod 8)"
proof (induction bs arbitrary: n)
  case (Cons b bs)
  show ?case
  proof (cases "n < 8")
    case True
    then show ?thesis
      by (simp add: bit_xor_iff bit_push_bit_iff bit_unsigned_iff)
  next
    case False
    then obtain m where m: "n = m + 8"
      using le_Suc_ex [of 8 n] by (auto simp: not_less add.commute)
    have "\<not> bit b n"
      using False bit_imp_le_length [of b n] by auto
    then have "bit (le_block (b # bs)) n \<longleftrightarrow> n < 32 \<and> bit (le_block bs) m"
      using m by (simp add: bit_xor_iff bit_push_bit_iff bit_unsigned_iff)
    also have "\<dots> \<longleftrightarrow> m < 8 * length bs \<and> bit (bs ! (m div 8)) (m mod 8)"
      using Cons.IH [of m] Cons.prems m by (simp, linarith)
    also have "\<dots> \<longleftrightarrow> n < 8 * length (b # bs) \<and> bit ((b # bs) ! (n div 8)) (n mod 8)"
      using m div_add_self2 [of 8 m] by simp
    finally show ?thesis .
  qed
qed simp

lemma le_block_inject:
  assumes "length bs = length bs'" "length bs \<le> 4" "le_block bs = le_block bs'"
  shows "bs = bs'"
proof (rule nth_equalityI)
  fix i assume i: "i < length bs"
  have "bit (bs ! i) k = bit (bs' ! i) k" if "k < 8" for k
  proof -
    have "(8 * i + k) div 8 = i" "(8 * i + k) mod 8 = k" "8 * i + k < 8 * length bs"
      using that i by auto
    then show ?thesis
      using bit_le_block [of bs "8 * i + k"] bit_le_block [of bs' "8 * i + k"] assms by simp
  qed
  then show "bs ! i = bs' ! i"
    by (simp add: bit_eq_iff)
qed (simp add: assms)

lemma drop_le_block: "length bs \<le> 3 \<Longrightarrow> drop_bit 24 (le_block bs) = 0"
  by (auto simp: bit_eq_iff bit_drop_bit_eq bit_le_block)

lemma crc_fold_block:
  "length bs \<le> 4 \<Longrightarrow> foldl crc_step c bs = (crc_bit ^^ (8 * length bs)) (c XOR le_block bs)"
proof (induction bs arbitrary: c)
  case (Cons b bs)
  have "(crc_bit ^^ 8) (push_bit 8 (le_block bs)) = le_block bs"
    using Cons.prems by (intro crc_bits_push) (simp_all add: drop_le_block)
  then have "crc_step c b XOR le_block bs = (crc_bit ^^ 8) (c XOR le_block (b # bs))"
    by (simp only: crc_step_bitwise crc_bits_xor xor.assoc le_block.simps)
  moreover have "8 * length (b # bs) = 8 * length bs + 8"
    by simp
  ultimately show ?case
    using Cons by (simp only: foldl_Cons funpow_add comp_apply list.size)
qed simp

lemma crc32c_burst:
  assumes "length xs = length ys" "length xs \<le> 4" "xs \<noteq> ys"
  shows "crc32c (as @ xs @ bs) \<noteq> crc32c (as @ ys @ bs)"
proof
  assume "crc32c (as @ xs @ bs) = crc32c (as @ ys @ bs)"
  then have "foldl crc_step (foldl crc_step (NOT 0) as) xs = foldl crc_step (foldl crc_step (NOT 0) as) ys"
    by (simp add: crc32c_def crc32c_extend_def crc_fold_inject)
  then have "foldl crc_step (NOT 0) as XOR le_block xs = foldl crc_step (NOT 0) as XOR le_block ys"
    using assms(1,2) by (simp only: crc_fold_block crc_bits_inject)
  then have "le_block xs = le_block ys"
    by (simp only: xor_cancel)
  then show False
    using le_block_inject assms by blast
qed

end
