(* ===== verification/QF_Provenance.thy ===== *)
theory QF_Provenance
  imports QF_Ids QF_Hash
begin

text \<open>
  \<^verbatim>\<open>include/qf/provenance.hpp\<close> and \<^verbatim>\<open>src/provenance.cpp\<close>: the provenance record and the
  tracker that gates replays and stale publishers. The locale \<open>replay_gate\<close> is the contract the
  fabric relies on; its lemmas about whole sequences of observations are proved once there and
  hold of the tracker through the interpretation at the end.
\<close>

section \<open>Definitions\<close>

record provenance =
  pv_publisher :: PublisherId
  pv_node :: NodeId
  pv_incarnation :: Incarnation
  pv_epoch :: Epoch
  pv_sequence :: Sequence
  pv_boot :: boot_id

definition no_provenance :: provenance where
  "no_provenance = \<lparr>pv_publisher = Ident 0, pv_node = Ident 0, pv_incarnation = Counter 0,
     pv_epoch = Counter 0, pv_sequence = Counter 0, pv_boot = no_boot\<rparr>"

definition pv_valid :: "provenance \<Rightarrow> bool" where
  "pv_valid p \<longleftrightarrow> id_valid (pv_publisher p) \<and> id_valid (pv_node p) \<and> ctr_valid (pv_incarnation p)
     \<and> ctr_valid (pv_sequence p) \<and> boot_valid (pv_boot p)"

definition pv_fingerprint :: "provenance \<Rightarrow> u64" where
  "pv_fingerprint p = foldl hash_mix 0x51ED270B5F1F0E1B
     [id_value (pv_publisher p), id_value (pv_node p), ctr_value (pv_incarnation p),
      ctr_value (pv_epoch p), ctr_value (pv_sequence p), boot_hi (pv_boot p), boot_lo (pv_boot p)]"

datatype provenance_class =
    Pc_accepted | Pc_duplicate | Pc_stale_incarnation | Pc_stale_boot | Pc_stale_epoch
  | Pc_invalid | Pc_capacity_exceeded

fun provenance_class_name :: "provenance_class \<Rightarrow> string" where
  "provenance_class_name Pc_accepted = ''accepted''"
| "provenance_class_name Pc_duplicate = ''duplicate''"
| "provenance_class_name Pc_stale_incarnation = ''stale_incarnation''"
| "provenance_class_name Pc_stale_boot = ''stale_boot''"
| "provenance_class_name Pc_stale_epoch = ''stale_epoch''"
| "provenance_class_name Pc_invalid = ''invalid''"
| "provenance_class_name Pc_capacity_exceeded = ''capacity_exceeded''"

record publisher_state =
  ps_incarnation :: Incarnation
  ps_boot :: boot_id
  ps_epoch :: Epoch
  ps_last_sequence :: Sequence
  ps_accepted :: u64
  ps_duplicates :: u64
  ps_rejected :: u64

definition new_publisher_state :: publisher_state where
  "new_publisher_state = \<lparr>ps_incarnation = Counter 0, ps_boot = no_boot, ps_epoch = Counter 0,
     ps_last_sequence = Counter 0, ps_accepted = 0, ps_duplicates = 0, ps_rejected = 0\<rparr>"

record tracker =
  tr_states :: "(PublisherId, publisher_state) umap"
  tr_max_publishers :: nat

definition new_tracker :: "nat \<Rightarrow> tracker" where
  "new_tracker max_publishers = \<lparr>tr_states = um_empty, tr_max_publishers = max_publishers\<rparr>"

definition tr_find :: "tracker \<Rightarrow> PublisherId \<Rightarrow> publisher_state option" where
  "tr_find t publisher = um_find (tr_states t) publisher"

definition classify :: "tracker \<Rightarrow> provenance \<Rightarrow> provenance_class" where
  "classify t p =
     (if \<not> pv_valid p then Pc_invalid
      else (case um_find (tr_states t) (pv_publisher p) of
              None \<Rightarrow> (if length (tr_states t) \<ge> tr_max_publishers t then Pc_capacity_exceeded
                       else Pc_accepted)
            | Some state \<Rightarrow>
                (if pv_incarnation p < ps_incarnation state then Pc_stale_incarnation
                 else if pv_incarnation p = ps_incarnation state then
                   (if pv_boot p \<noteq> ps_boot state then Pc_stale_boot
                    else if pv_epoch p < ps_epoch state then Pc_stale_epoch
                    else if pv_sequence p \<le> ps_last_sequence state then Pc_duplicate
                    else Pc_accepted)
                 else Pc_accepted)))"

text \<open>The two updates of the entry that \<^verbatim>\<open>states_[provenance.publisher]\<close> yields.\<close>

definition accept_into :: "provenance \<Rightarrow> publisher_state \<Rightarrow> publisher_state" where
  "accept_into p state =
     (let state = (if pv_incarnation p \<noteq> ps_incarnation state
                   then state\<lparr>ps_incarnation := pv_incarnation p, ps_boot := pv_boot p,
                              ps_last_sequence := Counter 0\<rparr>
                   else state)
      in state\<lparr>ps_boot := pv_boot p, ps_epoch := pv_epoch p, ps_last_sequence := pv_sequence p,
               ps_accepted := ps_accepted state + 1\<rparr>)"

definition tr_observe :: "tracker \<Rightarrow> provenance \<Rightarrow> status \<times> tracker" where
  "tr_observe t p =
     (case classify t p of
        Pc_invalid \<Rightarrow> (Status Code_malformed_input ''provenance is structurally incomplete'', t)
      | Pc_capacity_exceeded \<Rightarrow> (Status Code_capacity_exceeded ''publisher table is full'', t)
      | Pc_stale_incarnation \<Rightarrow>
          (Status Code_stale_incarnation ''publisher incarnation is superseded'', t)
      | Pc_stale_boot \<Rightarrow>
          (Status Code_stale_boot ''boot identifier does not match publisher incarnation'', t)
      | Pc_stale_epoch \<Rightarrow>
          (Status Code_stale_epoch ''provenance epoch is behind the observed epoch'', t)
      | c \<Rightarrow>
          (let state = (case um_find (tr_states t) (pv_publisher p) of
                          Some state \<Rightarrow> state | None \<Rightarrow> new_publisher_state)
           in if c = Pc_duplicate
              then (Status Code_replay_detected ''duplicate sequence from publisher'',
                    t\<lparr>tr_states := um_put (pv_publisher p)
                         (state\<lparr>ps_duplicates := ps_duplicates state + 1\<rparr>) (tr_states t)\<rparr>)
              else (success,
                    t\<lparr>tr_states := um_put (pv_publisher p) (accept_into p state) (tr_states t)\<rparr>)))"

section \<open>The view of the tracker and its invariant\<close>

text \<open>What the gate compares with: incarnation, boot, epoch and last sequence of a publisher.\<close>

record gate_pos =
  gp_incarnation :: Incarnation
  gp_boot :: boot_id
  gp_epoch :: Epoch
  gp_sequence :: Sequence

definition tr_view :: "tracker \<Rightarrow> PublisherId \<Rightarrow> gate_pos option" where
  "tr_view t publisher =
     map_option (\<lambda>s. \<lparr>gp_incarnation = ps_incarnation s, gp_boot = ps_boot s, gp_epoch = ps_epoch s,
        gp_sequence = ps_last_sequence s\<rparr>) (tr_find t publisher)"

definition tr_wf :: "tracker \<Rightarrow> bool" where
  "tr_wf t \<longleftrightarrow> um_wf (tr_states t) \<and> length (tr_states t) \<le> tr_max_publishers t"

definition pv_key :: "provenance \<Rightarrow> gate_pos" where
  "pv_key p = \<lparr>gp_incarnation = pv_incarnation p, gp_boot = pv_boot p, gp_epoch = pv_epoch p,
     gp_sequence = pv_sequence p\<rparr>"

lemma accept_into_view [simp]:
  "ps_incarnation (accept_into p s) = pv_incarnation p" "ps_boot (accept_into p s) = pv_boot p"
  "ps_epoch (accept_into p s) = pv_epoch p" "ps_last_sequence (accept_into p s) = pv_sequence p"
  by (simp_all add: accept_into_def Let_def)

lemma observe_ok_iff: "ok (fst (tr_observe t p)) \<longleftrightarrow> classify t p = Pc_accepted"
  by (cases "classify t p") (simp_all add: tr_observe_def Let_def)

lemma observe_accepted_view:
  "classify t p = Pc_accepted \<Longrightarrow> tr_view (snd (tr_observe t p)) = (tr_view t)(pv_publisher p \<mapsto> pv_key p)"
  by (auto simp: tr_observe_def Let_def tr_view_def tr_find_def pv_key_def fun_eq_iff)

lemma classify_duplicate_find: "classify t p = Pc_duplicate \<Longrightarrow> \<exists>s. um_find (tr_states t) (pv_publisher p) = Some s"
  by (auto simp: classify_def split: if_splits option.splits)

lemma observe_refused_view: "classify t p \<noteq> Pc_accepted \<Longrightarrow> tr_view (snd (tr_observe t p)) = tr_view t"
  using classify_duplicate_find [of t p]
  by (cases "classify t p") (auto simp: tr_observe_def Let_def tr_view_def tr_find_def fun_eq_iff)

lemma observe_wf: "tr_wf t \<Longrightarrow> tr_wf (snd (tr_observe t p))"
  by (cases "classify t p")
     (auto simp: tr_observe_def Let_def tr_wf_def length_um_put dest: classify_duplicate_find,
      auto simp: classify_def split: if_splits option.splits)

lemma observe_max [simp]: "tr_max_publishers (snd (tr_observe t p)) = tr_max_publishers t"
  by (cases "classify t p") (simp_all add: tr_observe_def Let_def)

lemma new_tracker_wf [simp]: "tr_wf (new_tracker n)"
  by (simp add: tr_wf_def new_tracker_def um_empty_def um_wf_def)

section \<open>The contract of a replay gate\<close>

text \<open>
  Positions are ordered by incarnation first and, within one incarnation, by sequence. A record
  is ahead of a position when its incarnation is newer, or when it continues the same incarnation
  and boot with a newer sequence and an epoch that does not go backwards.
\<close>

definition ahead :: "gate_pos \<Rightarrow> gate_pos \<Rightarrow> bool" where
  "ahead k k' \<longleftrightarrow>
     gp_incarnation k < gp_incarnation k'
     \<or> (gp_incarnation k = gp_incarnation k' \<and> gp_boot k = gp_boot k' \<and> gp_epoch k \<le> gp_epoch k'
        \<and> gp_sequence k < gp_sequence k')"

lemma ahead_trans: "ahead a b \<Longrightarrow> ahead b c \<Longrightarrow> ahead a c"
  by (auto simp: ahead_def)

lemma ahead_irrefl: "\<not> ahead a a"
  by (auto simp: ahead_def)

text \<open>A run of observations; \<open>accepted_of\<close> lists the records that were let through, in order.\<close>

fun observe_all :: "('t \<Rightarrow> provenance \<Rightarrow> status \<times> 't) \<Rightarrow> 't \<Rightarrow> provenance list \<Rightarrow> 't" where
  "observe_all obs t [] = t"
| "observe_all obs t (p # ps) = observe_all obs (snd (obs t p)) ps"

fun accepted_of :: "('t \<Rightarrow> provenance \<Rightarrow> status \<times> 't) \<Rightarrow> 't \<Rightarrow> provenance list \<Rightarrow> provenance list" where
  "accepted_of obs t [] = []"
| "accepted_of obs t (p # ps) = (if ok (fst (obs t p)) then [p] else []) @ accepted_of obs (snd (obs t p)) ps"

locale replay_gate =
  fixes observe :: "'t \<Rightarrow> provenance \<Rightarrow> status \<times> 't"
    and view :: "'t \<Rightarrow> PublisherId \<Rightarrow> gate_pos option"
    and invar :: "'t \<Rightarrow> bool"
  assumes accepted_view: "ok (fst (observe t p)) \<Longrightarrow> view (snd (observe t p)) = (view t)(pv_publisher p \<mapsto> pv_key p)"
    and refused_view: "\<not> ok (fst (observe t p)) \<Longrightarrow> view (snd (observe t p)) = view t"
    and accepted_ahead: "ok (fst (observe t p)) \<Longrightarrow> view t (pv_publisher p) = Some k \<Longrightarrow> ahead k (pv_key p)"
    and accepted_valid: "ok (fst (observe t p)) \<Longrightarrow> pv_valid p"
    and invar_observe: "invar t \<Longrightarrow> invar (snd (observe t p))"
begin

lemma view_step:
  "view (snd (observe t p)) q =
     (if ok (fst (observe t p)) \<and> pv_publisher p = q then Some (pv_key p) else view t q)"
  by (cases "ok (fst (observe t p))") (auto simp: accepted_view refused_view)

lemma view_grows:
  "view t q = Some k \<Longrightarrow> \<exists>k'. view (observe_all observe t ps) q = Some k' \<and> (k' = k \<or> ahead k k')"
proof (induction ps arbitrary: t k)
  case (Cons p ps)
  show ?case
  proof (cases "ok (fst (observe t p)) \<and> pv_publisher p = q")
    case True
    then have "ahead k (pv_key p)" "view (snd (observe t p)) q = Some (pv_key p)"
      using accepted_ahead [of t p k] accepted_view [of t p] Cons.prems by auto
    then show ?thesis
      using Cons.IH [of "snd (observe t p)" "pv_key p"] ahead_trans by auto
  next
    case False
    then have "view (snd (observe t p)) q = Some k"
      using Cons.prems by (auto simp: view_step)
    then show ?thesis
      using Cons.IH by simp
  qed
qed simp

lemma accepted_beyond:
  "view t q = Some k \<Longrightarrow> p \<in> set (accepted_of observe t ps) \<Longrightarrow> pv_publisher p = q \<Longrightarrow> ahead k (pv_key p)"
proof (induction ps arbitrary: t k)
  case (Cons r rs)
  show ?case
  proof (cases "ok (fst (observe t r)) \<and> pv_publisher r = q")
    case True
    then have "ahead k (pv_key r)" "view (snd (observe t r)) q = Some (pv_key r)"
      using accepted_ahead [of t r k] accepted_view [of t r] Cons.prems by auto
    then show ?thesis
      using Cons ahead_trans [of k "pv_key r" "pv_key p"] by (auto split: if_splits)
  next
    case False
    then have "view (snd (observe t r)) q = Some k"
      using Cons.prems by (auto simp: view_step)
    then show ?thesis
      using Cons False by (auto split: if_splits)
  qed
qed simp

lemma accepted_sorted:
  "sorted_wrt (\<lambda>a b. pv_publisher a = pv_publisher b \<longrightarrow> ahead (pv_key a) (pv_key b)) (accepted_of observe t ps)"
proof (induction ps arbitrary: t)
  case (Cons p ps)
  then show ?case
    using accepted_view [of t p] accepted_beyond [of "snd (observe t p)" "pv_publisher p" "pv_key p" _ ps]
    by auto
qed simp

lemma accepted_distinct: "distinct (accepted_of observe t ps)"
proof (induction ps arbitrary: t)
  case (Cons p ps)
  have "p \<notin> set (accepted_of observe (snd (observe t p)) ps)" if "ok (fst (observe t p))"
    using that accepted_view [of t p] ahead_irrefl
      accepted_beyond [of "snd (observe t p)" "pv_publisher p" "pv_key p" p ps] by auto
  then show ?case
    using Cons by simp
qed simp

lemma replay_refused:
  "ok (fst (observe t p)) \<Longrightarrow> \<not> ok (fst (observe (observe_all observe (snd (observe t p)) ps) p))"
proof
  assume a: "ok (fst (observe t p))" and b: "ok (fst (observe (observe_all observe (snd (observe t p)) ps) p))"
  obtain k' where k': "view (observe_all observe (snd (observe t p)) ps) (pv_publisher p) = Some k'"
      "k' = pv_key p \<or> ahead (pv_key p) k'"
    using a accepted_view [of t p] view_grows [of "snd (observe t p)" "pv_publisher p" "pv_key p" ps] by auto
  then have "ahead k' (pv_key p)"
    using b accepted_ahead by blast
  then show False
    using k' ahead_trans ahead_irrefl by blast
qed

end

lemma accepted_is_ahead:
  "classify t p = Pc_accepted \<Longrightarrow> tr_view t (pv_publisher p) = Some k \<Longrightarrow> ahead k (pv_key p)"
  by (auto simp: classify_def tr_view_def tr_find_def ahead_def pv_key_def split: if_splits)

interpretation trk: replay_gate tr_observe tr_view tr_wf
  by unfold_locales
     (auto simp: observe_ok_iff observe_accepted_view observe_refused_view observe_wf
        dest: accepted_is_ahead, simp add: classify_def split: if_splits)

end
