(* ===== verification/QF_Backend.thy ===== *)
theory QF_Backend
  imports QF_Provenance
begin

text \<open>
  \<^verbatim>\<open>include/qf/class_binding.hpp\<close>, \<^verbatim>\<open>include/qf/backend.hpp\<close> and \<^verbatim>\<open>src/backend.cpp\<close>:
  scheduling classes, pools, exact-generation bindings and the verification of a backend
  acknowledgement.
\<close>

section \<open>Definitions\<close>

record qos_ref =
  qos_priority_code :: u32
  qos_traffic_class :: u32
  qos_group :: string

record class_binding =
  cb_id :: ClassId
  cb_generation :: Generation

definition cb_valid :: "class_binding \<Rightarrow> bool" where
  "cb_valid b \<longleftrightarrow> id_valid (cb_id b) \<and> ctr_valid (cb_generation b)"

definition no_binding :: class_binding where
  "no_binding = \<lparr>cb_id = Ident 0, cb_generation = Counter 0\<rparr>"

record scheduling_class_def =
  sc_id :: ClassId
  sc_resource :: ResourceId
  sc_name :: string
  sc_priority :: u32
  sc_qos :: qos_ref
  sc_generation :: Generation
  sc_declared_by :: provenance

definition sc_valid :: "scheduling_class_def \<Rightarrow> bool" where
  "sc_valid d \<longleftrightarrow> id_valid (sc_id d) \<and> id_valid (sc_resource d) \<and> ctr_valid (sc_generation d)
     \<and> sc_name d \<noteq> [] \<and> length (sc_name d) \<le> kMaxNameChars"

record pool_ref =
  pr_id :: PoolId
  pr_generation :: Generation
  pr_capacity_bytes :: u64

definition pr_valid :: "pool_ref \<Rightarrow> bool" where
  "pr_valid p \<longleftrightarrow> id_valid (pr_id p) \<and> ctr_valid (pr_generation p)"

record buffer_pool_def =
  bp_id :: PoolId
  bp_resource :: ResourceId
  bp_name :: string
  bp_capacity_bytes :: u64
  bp_generation :: Generation
  bp_declared_by :: provenance

record backend_applied =
  ba_known :: bool
  ba_backend :: BackendId
  ba_backend_incarnation :: Incarnation
  ba_epoch :: Epoch
  ba_sequence :: Sequence
  ba_applied_at :: nanos
  ba_applied_class :: class_binding
  ba_queue_generation :: Generation
  ba_applied_high_watermark_bytes :: u64
  ba_applied_max_occupancy_bytes :: u64

definition no_applied :: backend_applied where
  "no_applied = \<lparr>ba_known = False, ba_backend = Ident 0, ba_backend_incarnation = Counter 0,
     ba_epoch = Counter 0, ba_sequence = Counter 0, ba_applied_at = 0, ba_applied_class = no_binding,
     ba_queue_generation = Counter 0, ba_applied_high_watermark_bytes = 0,
     ba_applied_max_occupancy_bytes = 0\<rparr>"

record backend_incarnation =
  bi_backend :: BackendId
  bi_resource :: ResourceId
  bi_incarnation :: Incarnation
  bi_epoch :: Epoch
  bi_registered_at :: nanos
  bi_alive :: bool

record backend_verification =
  bv_verified :: bool
  bv_code :: code
  bv_rule :: string

definition verify_backend_applied ::
  "backend_applied \<Rightarrow> backend_incarnation \<Rightarrow> Epoch \<Rightarrow> Generation \<Rightarrow> class_binding \<Rightarrow> backend_verification" where
  "verify_backend_applied applied live current_epoch current_queue_generation current_class =
     (if \<not> ba_known applied
      then \<lparr>bv_verified = False, bv_code = Code_backend_mismatch, bv_rule = ''no-backend-acknowledgement''\<rparr>
      else if \<not> bi_alive live
      then \<lparr>bv_verified = False, bv_code = Code_stale_incarnation, bv_rule = ''backend-incarnation-not-live''\<rparr>
      else if ba_backend applied \<noteq> bi_backend live
      then \<lparr>bv_verified = False, bv_code = Code_backend_mismatch, bv_rule = ''backend-identity-mismatch''\<rparr>
      else if ba_backend_incarnation applied \<noteq> bi_incarnation live
      then \<lparr>bv_verified = False, bv_code = Code_stale_incarnation, bv_rule = ''backend-incarnation-superseded''\<rparr>
      else if ba_epoch applied \<noteq> current_epoch
      then \<lparr>bv_verified = False, bv_code = Code_stale_epoch, bv_rule = ''acknowledgement-epoch-superseded''\<rparr>
      else if ba_queue_generation applied \<noteq> current_queue_generation
      then \<lparr>bv_verified = False, bv_code = Code_stale_generation,
            bv_rule = ''acknowledgement-bound-to-older-queue-generation''\<rparr>
      else if ba_applied_class applied \<noteq> current_class
      then \<lparr>bv_verified = False, bv_code = Code_stale_generation,
            bv_rule = ''acknowledgement-bound-to-older-class-binding''\<rparr>
      else \<lparr>bv_verified = True, bv_code = Code_ok, bv_rule = ''backend-acknowledgement-verifiable''\<rparr>)"

section \<open>Lemmas\<close>

lemma verify_backend_iff:
  "bv_verified (verify_backend_applied a live e g c) \<longleftrightarrow>
     ba_known a \<and> bi_alive live \<and> ba_backend a = bi_backend live
     \<and> ba_backend_incarnation a = bi_incarnation live \<and> ba_epoch a = e
     \<and> ba_queue_generation a = g \<and> ba_applied_class a = c"
  by (simp add: verify_backend_applied_def)

lemma verify_backend_code:
  "bv_code (verify_backend_applied a live e g c) = Code_ok \<longleftrightarrow> bv_verified (verify_backend_applied a live e g c)"
  by (simp add: verify_backend_applied_def)

end
