(* ===== verification/QF_Occupancy.thy ===== *)
theory QF_Occupancy
  imports QF_Provenance
begin

text \<open>
  \<^verbatim>\<open>include/qf/occupancy.hpp\<close> and \<^verbatim>\<open>src/occupancy.cpp\<close>: occupancy samples, the stored
  occupancy of a queue and the classification of its freshness.
\<close>

section \<open>Definitions\<close>

datatype freshness =
    Fr_unknown | Fr_fresh | Fr_stale_age | Fr_stale_restart | Fr_stale_generation | Fr_stale_epoch
  | Fr_future_timestamp | Fr_stale_backend | Fr_raw u8

fun freshness_name :: "freshness \<Rightarrow> string" where
  "freshness_name Fr_unknown = ''unknown''"
| "freshness_name Fr_fresh = ''fresh''"
| "freshness_name Fr_stale_age = ''stale_age''"
| "freshness_name Fr_stale_restart = ''stale_restart''"
| "freshness_name Fr_stale_generation = ''stale_generation''"
| "freshness_name Fr_stale_epoch = ''stale_epoch''"
| "freshness_name Fr_future_timestamp = ''future_timestamp''"
| "freshness_name Fr_stale_backend = ''stale_backend''"
| "freshness_name (Fr_raw v) = ''unknown''"

fun u8_of_freshness :: "freshness \<Rightarrow> u8" where
  "u8_of_freshness Fr_unknown = 0"
| "u8_of_freshness Fr_fresh = 1"
| "u8_of_freshness Fr_stale_age = 2"
| "u8_of_freshness Fr_stale_restart = 3"
| "u8_of_freshness Fr_stale_generation = 4"
| "u8_of_freshness Fr_stale_epoch = 5"
| "u8_of_freshness Fr_future_timestamp = 6"
| "u8_of_freshness Fr_stale_backend = 7"
| "u8_of_freshness (Fr_raw v) = v"

definition all_freshness :: "freshness list" where
  "all_freshness = [Fr_unknown, Fr_fresh, Fr_stale_age, Fr_stale_restart, Fr_stale_generation,
     Fr_stale_epoch, Fr_future_timestamp, Fr_stale_backend]"

definition freshness_of_u8 :: "u8 \<Rightarrow> freshness" where
  "freshness_of_u8 v = (if unat v < length all_freshness then all_freshness ! unat v else Fr_raw v)"

definition freshness_canonical :: "freshness \<Rightarrow> bool" where
  "freshness_canonical f \<longleftrightarrow> freshness_of_u8 (u8_of_freshness f) = f"

record occupancy_policy =
  op_max_age :: nanos
  op_max_future_skew :: nanos
  op_require_generation_match :: bool

definition default_occupancy_policy :: occupancy_policy where
  "default_occupancy_policy = \<lparr>op_max_age = 1000000000,
     op_max_future_skew = kDefaultMaxFutureSkewNanos, op_require_generation_match = True\<rparr>"

record occupancy_sample =
  os_queue :: QueueId
  os_queue_generation :: Generation
  os_bytes :: u64
  os_packets :: u64
  os_epoch :: Epoch
  os_sequence :: Sequence
  os_observed_at :: nanos
  os_provenance :: provenance

definition structurally_valid :: "occupancy_sample \<Rightarrow> bool" where
  "structurally_valid s \<longleftrightarrow> id_valid (os_queue s) \<and> ctr_valid (os_queue_generation s)
     \<and> ctr_valid (os_sequence s) \<and> ctr_valid (os_epoch s) \<and> pv_valid (os_provenance s)"

record occupancy_state =
  oc_present :: bool
  oc_bytes :: u64
  oc_packets :: u64
  oc_observed_at :: nanos
  oc_sequence :: Sequence
  oc_epoch :: Epoch
  oc_provenance :: provenance
  oc_queue_generation :: Generation
  oc_freshness :: freshness
  oc_age :: nanos

definition no_occupancy :: occupancy_state where
  "no_occupancy = \<lparr>oc_present = False, oc_bytes = 0, oc_packets = 0, oc_observed_at = 0,
     oc_sequence = Counter 0, oc_epoch = Counter 0, oc_provenance = no_provenance,
     oc_queue_generation = Counter 0, oc_freshness = Fr_unknown, oc_age = 0\<rparr>"

definition occupancy_age :: "nanos \<Rightarrow> nanos \<Rightarrow> nanos" where
  "occupancy_age now observed_at = (if observed_at \<ge> now then 0 else now - observed_at)"

definition is_sticky :: "freshness \<Rightarrow> bool" where
  "is_sticky reason \<longleftrightarrow> reason = Fr_stale_restart \<or> reason = Fr_stale_epoch \<or> reason = Fr_stale_backend"

definition classify_freshness :: "occupancy_state \<Rightarrow> nanos \<Rightarrow> occupancy_policy \<Rightarrow> Generation \<Rightarrow> freshness" where
  "classify_freshness s now pol current_generation =
     (if \<not> oc_present s then Fr_unknown
      else if is_sticky (oc_freshness s) then oc_freshness s
      else if op_require_generation_match pol \<and> oc_queue_generation s \<noteq> current_generation
      then Fr_stale_generation
      else if oc_observed_at s > now
              \<and> (op_max_future_skew pol \<le> 0 \<or> oc_observed_at s - now > op_max_future_skew pol)
      then Fr_future_timestamp
      else if op_max_age pol > 0 \<and> occupancy_age now (oc_observed_at s) > op_max_age pol
      then Fr_stale_age
      else Fr_fresh)"

definition occupancy_authoritative :: "occupancy_state \<Rightarrow> bool" where
  "occupancy_authoritative s \<longleftrightarrow> oc_present s \<and> oc_freshness s = Fr_fresh"

definition invalidate_occupancy :: "freshness \<Rightarrow> occupancy_state \<Rightarrow> occupancy_state" where
  "invalidate_occupancy reason s =
     (if \<not> oc_present s then s\<lparr>oc_freshness := Fr_unknown\<rparr> else s\<lparr>oc_freshness := reason\<rparr>)"

section \<open>Lemmas\<close>

lemma classify_fresh_iff:
  "classify_freshness s now pol g = Fr_fresh \<longleftrightarrow>
     oc_present s \<and> \<not> is_sticky (oc_freshness s)
     \<and> (op_require_generation_match pol \<longrightarrow> oc_queue_generation s = g)
     \<and> (now < oc_observed_at s \<longrightarrow> 0 < op_max_future_skew pol \<and> oc_observed_at s - now \<le> op_max_future_skew pol)
     \<and> (0 < op_max_age pol \<longrightarrow> now - oc_observed_at s \<le> op_max_age pol)"
  by (auto simp: classify_freshness_def occupancy_age_def is_sticky_def)

text \<open>Stale evidence stays stale: as time passes, the age test can only start to fail.\<close>

lemma fresh_antimono:
  assumes "classify_freshness s now' pol g = Fr_fresh" "oc_observed_at s \<le> now" "now \<le> now'"
  shows "classify_freshness s now pol g = Fr_fresh"
  using assms unfolding classify_fresh_iff by auto

lemma sticky_stays: 
  "oc_present s \<Longrightarrow> is_sticky r \<Longrightarrow> classify_freshness (invalidate_occupancy r s) now pol g = r"
  by (simp add: classify_freshness_def invalidate_occupancy_def)

lemma invalidated_not_authoritative: "r \<noteq> Fr_fresh \<Longrightarrow> \<not> occupancy_authoritative (invalidate_occupancy r s)"
  by (simp add: occupancy_authoritative_def invalidate_occupancy_def)

lemma invalidate_fields [simp]:
  "oc_present (invalidate_occupancy r s) = oc_present s"
  "oc_bytes (invalidate_occupancy r s) = oc_bytes s"
  "oc_packets (invalidate_occupancy r s) = oc_packets s"
  "oc_observed_at (invalidate_occupancy r s) = oc_observed_at s"
  "oc_sequence (invalidate_occupancy r s) = oc_sequence s"
  "oc_epoch (invalidate_occupancy r s) = oc_epoch s"
  "oc_provenance (invalidate_occupancy r s) = oc_provenance s"
  "oc_queue_generation (invalidate_occupancy r s) = oc_queue_generation s"
  "oc_age (invalidate_occupancy r s) = oc_age s"
  by (simp_all add: invalidate_occupancy_def)

lemma occupancy_age_bounds: "0 \<le> occupancy_age now t" "now \<ge> t \<Longrightarrow> occupancy_age now t = now - t"
  by (auto simp: occupancy_age_def)

end
