(* ===== verification/QF_Drain.thy ===== *)
theory QF_Drain
  imports QF_Backend QF_Occupancy
begin

text \<open>
  \<^verbatim>\<open>include/qf/drain.hpp\<close> and \<^verbatim>\<open>src/drain.cpp\<close>: drain phases, the evidence collected for a
  drain attempt and the assessment that decides whether a drain is complete.
\<close>

section \<open>Definitions\<close>

datatype drain_phase =
  Dp_idle | Dp_requested | Dp_evidence_pending | Dp_completed | Dp_raw u8

fun drain_phase_name :: "drain_phase \<Rightarrow> string" where
  "drain_phase_name Dp_idle = ''idle''"
| "drain_phase_name Dp_requested = ''requested''"
| "drain_phase_name Dp_evidence_pending = ''evidence_pending''"
| "drain_phase_name Dp_completed = ''completed''"
| "drain_phase_name (Dp_raw v) = ''unknown''"

fun u8_of_drain_phase :: "drain_phase \<Rightarrow> u8" where
  "u8_of_drain_phase Dp_idle = 0"
| "u8_of_drain_phase Dp_requested = 1"
| "u8_of_drain_phase Dp_evidence_pending = 2"
| "u8_of_drain_phase Dp_completed = 3"
| "u8_of_drain_phase (Dp_raw v) = v"

definition all_drain_phases :: "drain_phase list" where
  "all_drain_phases = [Dp_idle, Dp_requested, Dp_evidence_pending, Dp_completed]"

definition drain_phase_of_u8 :: "u8 \<Rightarrow> drain_phase" where
  "drain_phase_of_u8 v = (if unat v < length all_drain_phases then all_drain_phases ! unat v else Dp_raw v)"

definition drain_phase_canonical :: "drain_phase \<Rightarrow> bool" where
  "drain_phase_canonical d \<longleftrightarrow> drain_phase_of_u8 (u8_of_drain_phase d) = d"

record backend_observation =
  bo_request_accepted :: bool
  bo_reported_drained :: bool
  bo_backend :: BackendId
  bo_backend_incarnation :: Incarnation
  bo_epoch :: Epoch
  bo_sequence :: Sequence
  bo_observed_at :: nanos

definition no_observation :: backend_observation where
  "no_observation = \<lparr>bo_request_accepted = False, bo_reported_drained = False, bo_backend = Ident 0,
     bo_backend_incarnation = Counter 0, bo_epoch = Counter 0, bo_sequence = Counter 0,
     bo_observed_at = 0\<rparr>"

record drain_evidence =
  de_records :: u32
  de_backend :: backend_observation
  de_occupancy_zero_observed :: bool
  de_zero_observed_at :: nanos
  de_zero_sequence :: Sequence
  de_revalidated :: bool

definition no_evidence :: drain_evidence where
  "no_evidence = \<lparr>de_records = 0, de_backend = no_observation, de_occupancy_zero_observed = False,
     de_zero_observed_at = 0, de_zero_sequence = Counter 0, de_revalidated = True\<rparr>"

record drain_state =
  dr_phase :: drain_phase
  dr_attempt :: attempt_id
  dr_requested_at :: nanos
  dr_requested_by :: provenance
  dr_evidence :: drain_evidence

definition no_drain :: drain_state where
  "no_drain = \<lparr>dr_phase = Dp_idle, dr_attempt = no_attempt, dr_requested_at = 0,
     dr_requested_by = no_provenance, dr_evidence = no_evidence\<rparr>"

definition in_progress :: "drain_state \<Rightarrow> bool" where
  "in_progress d \<longleftrightarrow> dr_phase d = Dp_requested \<or> dr_phase d = Dp_evidence_pending"

record drain_assessment =
  da_completable :: bool
  da_code :: code
  da_rule :: string

text \<open>The checks on the occupancy at the end of \<^verbatim>\<open>assess_drain\<close>.\<close>

definition assess_drain_occupancy ::
  "drain_state \<Rightarrow> occupancy_state \<Rightarrow> occupancy_policy \<Rightarrow> nanos \<Rightarrow> drain_assessment" where
  "assess_drain_occupancy drain occ pol now =
     (if \<not> de_occupancy_zero_observed (dr_evidence drain)
      then \<lparr>da_completable = False, da_code = Code_drain_incomplete, da_rule = ''no-zero-occupancy-observation''\<rparr>
      else if \<not> oc_present occ
      then \<lparr>da_completable = False, da_code = Code_stale_occupancy, da_rule = ''occupancy-evidence-absent''\<rparr>
      else if oc_freshness occ \<noteq> Fr_fresh
      then \<lparr>da_completable = False, da_code = Code_stale_occupancy, da_rule = ''occupancy-evidence-not-fresh''\<rparr>
      else if oc_bytes occ \<noteq> 0 \<or> oc_packets occ \<noteq> 0
      then \<lparr>da_completable = False, da_code = Code_drain_incomplete, da_rule = ''occupancy-is-not-zero''\<rparr>
      else if oc_observed_at occ < dr_requested_at drain
      then \<lparr>da_completable = False, da_code = Code_drain_incomplete,
            da_rule = ''zero-occupancy-observation-precedes-drain-request''\<rparr>
      else if op_max_age pol > 0 \<and> occupancy_age now (oc_observed_at occ) > op_max_age pol
      then \<lparr>da_completable = False, da_code = Code_stale_occupancy,
            da_rule = ''zero-occupancy-observation-is-stale''\<rparr>
      else \<lparr>da_completable = True, da_code = Code_ok, da_rule = ''drain-evidence-complete-and-verifiable''\<rparr>)"

text \<open>The checks on the backend observation in its middle.\<close>

definition assess_drain_backend ::
  "drain_state \<Rightarrow> backend_incarnation option \<Rightarrow> Epoch \<Rightarrow> drain_assessment option" where
  "assess_drain_backend drain live_backend current_epoch =
     (let b = de_backend (dr_evidence drain)
      in if \<not> bo_request_accepted b
         then Some \<lparr>da_completable = False, da_code = Code_drain_incomplete,
                    da_rule = ''backend-did-not-accept-drain-request''\<rparr>
         else if \<not> bo_reported_drained b
         then Some \<lparr>da_completable = False, da_code = Code_drain_incomplete,
                    da_rule = ''backend-has-not-reported-drained''\<rparr>
         else if bo_epoch b \<noteq> current_epoch
         then Some \<lparr>da_completable = False, da_code = Code_stale_epoch,
                    da_rule = ''drain-evidence-epoch-superseded''\<rparr>
         else (case live_backend of
                 None \<Rightarrow> Some \<lparr>da_completable = False, da_code = Code_stale_incarnation,
                              da_rule = ''drain-evidence-names-unknown-backend''\<rparr>
               | Some live \<Rightarrow>
                   (if \<not> bi_alive live
                    then Some \<lparr>da_completable = False, da_code = Code_stale_incarnation,
                               da_rule = ''drain-evidence-backend-not-live''\<rparr>
                    else if bo_backend b \<noteq> bi_backend live \<or> bo_backend_incarnation b \<noteq> bi_incarnation live
                    then Some \<lparr>da_completable = False, da_code = Code_stale_incarnation,
                               da_rule = ''drain-evidence-backend-incarnation-superseded''\<rparr>
                    else None)))"

definition assess_drain ::
  "drain_state \<Rightarrow> occupancy_state \<Rightarrow> backend_incarnation option \<Rightarrow> Epoch \<Rightarrow> occupancy_policy \<Rightarrow> nanos
     \<Rightarrow> drain_assessment" where
  "assess_drain drain occ live_backend current_epoch pol now =
     (if dr_phase drain = Dp_idle
      then \<lparr>da_completable = False, da_code = Code_drain_incomplete, da_rule = ''no-drain-requested''\<rparr>
      else if dr_phase drain = Dp_completed
      then \<lparr>da_completable = True, da_code = Code_ok, da_rule = ''drain-already-proven-complete''\<rparr>
      else if \<not> de_revalidated (dr_evidence drain)
      then \<lparr>da_completable = False, da_code = Code_stale_occupancy,
            da_rule = ''drain-evidence-requires-revalidation-after-restart''\<rparr>
      else if de_records (dr_evidence drain) = 0
      then \<lparr>da_completable = False, da_code = Code_drain_incomplete, da_rule = ''no-drain-evidence-recorded''\<rparr>
      else (case assess_drain_backend drain live_backend current_epoch of
              Some refused \<Rightarrow> refused
            | None \<Rightarrow> assess_drain_occupancy drain occ pol now))"

section \<open>Lemmas\<close>

text \<open>The full evidence a drain needs, as one predicate.\<close>

definition drain_evidence_complete ::
  "drain_state \<Rightarrow> occupancy_state \<Rightarrow> backend_incarnation option \<Rightarrow> Epoch \<Rightarrow> occupancy_policy \<Rightarrow> nanos \<Rightarrow> bool" where
  "drain_evidence_complete d occ live e pol now \<longleftrightarrow>
     (let b = de_backend (dr_evidence d) in
      de_revalidated (dr_evidence d) \<and> de_records (dr_evidence d) \<noteq> 0
      \<and> bo_request_accepted b \<and> bo_reported_drained b \<and> bo_epoch b = e
      \<and> (case live of None \<Rightarrow> False
         | Some l \<Rightarrow> bi_alive l \<and> bo_backend b = bi_backend l \<and> bo_backend_incarnation b = bi_incarnation l)
      \<and> de_occupancy_zero_observed (dr_evidence d)
      \<and> occupancy_authoritative occ \<and> oc_bytes occ = 0 \<and> oc_packets occ = 0
      \<and> dr_requested_at d \<le> oc_observed_at occ
      \<and> (0 < op_max_age pol \<longrightarrow> now - oc_observed_at occ \<le> op_max_age pol))"

lemma assess_drain_backend_None:
  "assess_drain_backend d live e = None \<longleftrightarrow>
     (let b = de_backend (dr_evidence d) in bo_request_accepted b \<and> bo_reported_drained b \<and> bo_epoch b = e
      \<and> (case live of None \<Rightarrow> False
         | Some l \<Rightarrow> bi_alive l \<and> bo_backend b = bi_backend l \<and> bo_backend_incarnation b = bi_incarnation l))"
  by (auto simp: assess_drain_backend_def Let_def split: option.splits)

lemma assess_drain_backend_refuses: "assess_drain_backend d live e = Some a \<Longrightarrow> \<not> da_completable a"
  by (auto simp: assess_drain_backend_def Let_def split: if_splits option.splits)

lemma assess_drain_occupancy_iff:
  "da_completable (assess_drain_occupancy d occ pol now) \<longleftrightarrow>
     de_occupancy_zero_observed (dr_evidence d) \<and> occupancy_authoritative occ
     \<and> oc_bytes occ = 0 \<and> oc_packets occ = 0 \<and> dr_requested_at d \<le> oc_observed_at occ
     \<and> (0 < op_max_age pol \<longrightarrow> now - oc_observed_at occ \<le> op_max_age pol)"
  by (auto simp: assess_drain_occupancy_def occupancy_authoritative_def occupancy_age_def)

lemma assess_drain_iff:
  "da_completable (assess_drain d occ live e pol now) \<longleftrightarrow>
     dr_phase d = Dp_completed \<or> (dr_phase d \<noteq> Dp_idle \<and> drain_evidence_complete d occ live e pol now)"
proof (cases "assess_drain_backend d live e")
  case None
  then show ?thesis
    using None [unfolded assess_drain_backend_None]
    by (auto simp: assess_drain_def assess_drain_occupancy_iff drain_evidence_complete_def Let_def)
next
  case (Some a)
  then have "\<not> drain_evidence_complete d occ live e pol now"
    using assess_drain_backend_None [of d live e] by (auto simp: drain_evidence_complete_def Let_def)
  then show ?thesis
    using Some assess_drain_backend_refuses [OF Some] by (simp add: assess_drain_def)
qed

lemma assess_drain_code:
  "da_code (assess_drain d occ live e pol now) = Code_ok \<longleftrightarrow> da_completable (assess_drain d occ live e pol now)"
  by (auto simp: assess_drain_def assess_drain_backend_def assess_drain_occupancy_def Let_def
      split: option.splits)

end
