(* ===== verification/QF_Mutation.thy ===== *)
theory QF_Mutation
  imports QF_Authority QF_Threshold QF_Drain
begin

text \<open>
  \<^verbatim>\<open>include/qf/mutation.hpp\<close> and \<^verbatim>\<open>src/mutation.cpp\<close>: the kinds of mutation with their
  capability and durability classes, the payload variant, the structural validation of a request
  and its effect fingerprint.
\<close>

section \<open>Kinds\<close>

datatype mutation_kind =
    Mk_none | Mk_declare_queue | Mk_validate_queue | Mk_activate_queue | Mk_rebind_class |
    Mk_set_thresholds | Mk_transfer_ownership | Mk_ingest_occupancy | Mk_request_drain |
    Mk_cancel_drain | Mk_submit_drain_evidence | Mk_quiesce_queue | Mk_fence_queue |
    Mk_unfence_queue | Mk_fail_queue | Mk_retire_queue | Mk_acknowledge_backend |
    Mk_register_backend | Mk_no_op
  | Mk_raw u16

fun mutation_kind_name :: "mutation_kind \<Rightarrow> string" where
  "mutation_kind_name Mk_none = ''none''"
| "mutation_kind_name Mk_declare_queue = ''declare_queue''"
| "mutation_kind_name Mk_validate_queue = ''validate_queue''"
| "mutation_kind_name Mk_activate_queue = ''activate_queue''"
| "mutation_kind_name Mk_rebind_class = ''rebind_class''"
| "mutation_kind_name Mk_set_thresholds = ''set_thresholds''"
| "mutation_kind_name Mk_transfer_ownership = ''transfer_ownership''"
| "mutation_kind_name Mk_ingest_occupancy = ''ingest_occupancy''"
| "mutation_kind_name Mk_request_drain = ''request_drain''"
| "mutation_kind_name Mk_cancel_drain = ''cancel_drain''"
| "mutation_kind_name Mk_submit_drain_evidence = ''submit_drain_evidence''"
| "mutation_kind_name Mk_quiesce_queue = ''quiesce_queue''"
| "mutation_kind_name Mk_fence_queue = ''fence_queue''"
| "mutation_kind_name Mk_unfence_queue = ''unfence_queue''"
| "mutation_kind_name Mk_fail_queue = ''fail_queue''"
| "mutation_kind_name Mk_retire_queue = ''retire_queue''"
| "mutation_kind_name Mk_acknowledge_backend = ''acknowledge_backend''"
| "mutation_kind_name Mk_register_backend = ''register_backend''"
| "mutation_kind_name Mk_no_op = ''no_op''"
| "mutation_kind_name (Mk_raw v) = ''unknown''"

fun u16_of_mutation_kind :: "mutation_kind \<Rightarrow> u16" where
  "u16_of_mutation_kind Mk_none = 0"
| "u16_of_mutation_kind Mk_declare_queue = 1"
| "u16_of_mutation_kind Mk_validate_queue = 2"
| "u16_of_mutation_kind Mk_activate_queue = 3"
| "u16_of_mutation_kind Mk_rebind_class = 4"
| "u16_of_mutation_kind Mk_set_thresholds = 5"
| "u16_of_mutation_kind Mk_transfer_ownership = 6"
| "u16_of_mutation_kind Mk_ingest_occupancy = 7"
| "u16_of_mutation_kind Mk_request_drain = 8"
| "u16_of_mutation_kind Mk_cancel_drain = 9"
| "u16_of_mutation_kind Mk_submit_drain_evidence = 10"
| "u16_of_mutation_kind Mk_quiesce_queue = 11"
| "u16_of_mutation_kind Mk_fence_queue = 12"
| "u16_of_mutation_kind Mk_unfence_queue = 13"
| "u16_of_mutation_kind Mk_fail_queue = 14"
| "u16_of_mutation_kind Mk_retire_queue = 15"
| "u16_of_mutation_kind Mk_acknowledge_backend = 16"
| "u16_of_mutation_kind Mk_register_backend = 17"
| "u16_of_mutation_kind Mk_no_op = 18"
| "u16_of_mutation_kind (Mk_raw v) = v"

definition all_mutation_kinds :: "mutation_kind list" where
  "all_mutation_kinds =
    [Mk_none, Mk_declare_queue, Mk_validate_queue, Mk_activate_queue, Mk_rebind_class,
     Mk_set_thresholds, Mk_transfer_ownership, Mk_ingest_occupancy, Mk_request_drain,
     Mk_cancel_drain, Mk_submit_drain_evidence, Mk_quiesce_queue, Mk_fence_queue,
     Mk_unfence_queue, Mk_fail_queue, Mk_retire_queue, Mk_acknowledge_backend,
     Mk_register_backend, Mk_no_op]"

definition mutation_kind_of_u16 :: "u16 \<Rightarrow> mutation_kind" where
  "mutation_kind_of_u16 v =
     (if unat v < length all_mutation_kinds then all_mutation_kinds ! unat v else Mk_raw v)"

definition mutation_kind_canonical :: "mutation_kind \<Rightarrow> bool" where
  "mutation_kind_canonical k \<longleftrightarrow> mutation_kind_of_u16 (u16_of_mutation_kind k) = k"

fun required_capability :: "mutation_kind \<Rightarrow> capability" where
  "required_capability Mk_declare_queue = Cap_declare_queue"
| "required_capability Mk_validate_queue = Cap_validate_queue"
| "required_capability Mk_activate_queue = Cap_activate_queue"
| "required_capability Mk_rebind_class = Cap_rebind_class"
| "required_capability Mk_set_thresholds = Cap_set_thresholds"
| "required_capability Mk_transfer_ownership = Cap_transfer_ownership"
| "required_capability Mk_ingest_occupancy = Cap_ingest_occupancy"
| "required_capability Mk_request_drain = Cap_request_drain"
| "required_capability Mk_cancel_drain = Cap_request_drain"
| "required_capability Mk_submit_drain_evidence = Cap_submit_evidence"
| "required_capability Mk_quiesce_queue = Cap_quiesce_queue"
| "required_capability Mk_fence_queue = Cap_fence_queue"
| "required_capability Mk_unfence_queue = Cap_unfence_queue"
| "required_capability Mk_fail_queue = Cap_fail_queue"
| "required_capability Mk_retire_queue = Cap_retire_queue"
| "required_capability Mk_acknowledge_backend = Cap_acknowledge_backend"
| "required_capability Mk_register_backend = Cap_declare_topology"
| "required_capability Mk_no_op = Cap_none"
| "required_capability Mk_none = Cap_none"
| "required_capability (Mk_raw v) = Cap_none"

definition is_definitional :: "mutation_kind \<Rightarrow> bool" where
  "is_definitional kind = (case kind of
       Mk_declare_queue \<Rightarrow> True | Mk_rebind_class \<Rightarrow> True | Mk_set_thresholds \<Rightarrow> True
     | Mk_transfer_ownership \<Rightarrow> True | _ \<Rightarrow> False)"

definition is_dynamic :: "mutation_kind \<Rightarrow> bool" where
  "is_dynamic kind = (case kind of
       Mk_ingest_occupancy \<Rightarrow> True | Mk_submit_drain_evidence \<Rightarrow> True
     | Mk_acknowledge_backend \<Rightarrow> True | _ \<Rightarrow> False)"

definition is_durable :: "mutation_kind \<Rightarrow> bool" where
  "is_durable kind \<longleftrightarrow> \<not> is_dynamic kind \<and> kind \<noteq> Mk_no_op \<and> kind \<noteq> Mk_none"

section \<open>Payloads and requests\<close>

record declare_queue_payload =
  dq_resource :: ResourceId
  dq_name :: string
  dq_depth :: u32
  dq_cls :: class_binding
  dq_pool :: pool_ref
  dq_thresholds :: thresholds

record backend_registration_payload =
  br_backend :: BackendId
  br_resource :: ResourceId
  br_incarnation :: Incarnation

datatype mutation_payload =
    Pl_monostate
  | Pl_declare_queue declare_queue_payload
  | Pl_rebind_class class_binding
  | Pl_thresholds thresholds
  | Pl_ownership OwnerId
  | Pl_occupancy occupancy_sample
  | Pl_drain_evidence drain_evidence
  | Pl_fence bool string
  | Pl_backend_ack backend_applied
  | Pl_backend_registration backend_registration_payload

record mutation_request =
  mr_attempt :: attempt_id
  mr_kind :: mutation_kind
  mr_queue :: QueueId
  mr_expected_generation :: Generation
  mr_expected_epoch :: Epoch
  mr_principal :: OwnerId
  mr_provenance :: provenance
  mr_payload :: mutation_payload

definition payload_matches :: "mutation_kind \<Rightarrow> mutation_payload \<Rightarrow> bool" where
  "payload_matches kind payload = (case kind of
       Mk_declare_queue \<Rightarrow> (case payload of Pl_declare_queue _ \<Rightarrow> True | _ \<Rightarrow> False)
     | Mk_rebind_class \<Rightarrow> (case payload of Pl_rebind_class _ \<Rightarrow> True | _ \<Rightarrow> False)
     | Mk_set_thresholds \<Rightarrow> (case payload of Pl_thresholds _ \<Rightarrow> True | _ \<Rightarrow> False)
     | Mk_transfer_ownership \<Rightarrow> (case payload of Pl_ownership _ \<Rightarrow> True | _ \<Rightarrow> False)
     | Mk_ingest_occupancy \<Rightarrow> (case payload of Pl_occupancy _ \<Rightarrow> True | _ \<Rightarrow> False)
     | Mk_submit_drain_evidence \<Rightarrow> (case payload of Pl_drain_evidence _ \<Rightarrow> True | _ \<Rightarrow> False)
     | Mk_fence_queue \<Rightarrow> (case payload of Pl_fence _ _ \<Rightarrow> True | _ \<Rightarrow> False)
     | Mk_unfence_queue \<Rightarrow> (case payload of Pl_fence _ _ \<Rightarrow> True | _ \<Rightarrow> False)
     | Mk_fail_queue \<Rightarrow> (case payload of Pl_fence _ _ \<Rightarrow> True | _ \<Rightarrow> False)
     | Mk_acknowledge_backend \<Rightarrow> (case payload of Pl_backend_ack _ \<Rightarrow> True | _ \<Rightarrow> False)
     | Mk_register_backend \<Rightarrow> (case payload of Pl_backend_registration _ \<Rightarrow> True | _ \<Rightarrow> False)
     | Mk_validate_queue \<Rightarrow> payload = Pl_monostate
     | Mk_activate_queue \<Rightarrow> payload = Pl_monostate
     | Mk_request_drain \<Rightarrow> payload = Pl_monostate
     | Mk_cancel_drain \<Rightarrow> payload = Pl_monostate
     | Mk_quiesce_queue \<Rightarrow> payload = Pl_monostate
     | Mk_retire_queue \<Rightarrow> payload = Pl_monostate
     | Mk_no_op \<Rightarrow> payload = Pl_monostate
     | Mk_none \<Rightarrow> False
     | Mk_raw _ \<Rightarrow> False)"

text \<open>The checks of \<^verbatim>\<open>MutationRequest::validate\<close> that depend on the payload, after it matches the kind.\<close>

definition validate_declare :: "mutation_request \<Rightarrow> declare_queue_payload \<Rightarrow> status" where
  "validate_declare r d =
     (if \<not> id_valid (dq_resource d) then Status Code_invalid_argument ''declare requires a resource identity''
      else if id_valid (mr_queue r)
      then Status Code_invalid_argument ''declare must not name an existing queue identity''
      else if dq_name d = [] \<or> length (dq_name d) > kMaxNameChars
      then Status Code_out_of_range ''queue name length is out of range''
      else if \<not> cb_valid (dq_cls d)
      then Status Code_invalid_argument ''declare requires an exact class binding''
      else if \<not> pr_valid (dq_pool d) then Status Code_invalid_argument ''declare requires a pool reference''
      else if \<not> th_consistent (dq_thresholds d)
      then Status Code_invalid_argument ''threshold ladder is inconsistent''
      else success)"

definition validate_payload :: "mutation_request \<Rightarrow> status" where
  "validate_payload r = (case mr_payload r of
       Pl_declare_queue d \<Rightarrow> validate_declare r d
     | _ \<Rightarrow>
       (if \<not> id_valid (mr_queue r) then Status Code_invalid_argument ''mutation requires a queue identity''
        else (case mr_payload r of
           Pl_occupancy sample \<Rightarrow>
             (if \<not> structurally_valid sample
              then Status Code_malformed_input ''occupancy sample is structurally invalid'' else success)
         | Pl_thresholds th \<Rightarrow>
             (if \<not> th_consistent th
              then Status Code_invalid_argument ''threshold ladder is inconsistent'' else success)
         | Pl_rebind_class cls \<Rightarrow>
             (if \<not> cb_valid cls
              then Status Code_invalid_argument ''rebind requires an exact class binding'' else success)
         | Pl_ownership own \<Rightarrow>
             (if \<not> id_valid own
              then Status Code_invalid_argument ''transfer requires a target owner'' else success)
         | _ \<Rightarrow> success)))"

definition mr_validate :: "mutation_request \<Rightarrow> status" where
  "mr_validate r =
     (if \<not> attempt_valid (mr_attempt r) then Status Code_invalid_argument ''attempt identity is required''
      else if mr_kind r = Mk_none then Status Code_invalid_argument ''mutation kind is required''
      else if \<not> pv_valid (mr_provenance r)
      then Status Code_malformed_input ''complete provenance is required''
      else if \<not> id_valid (mr_principal r)
      then Status Code_invalid_argument ''principal identity is required''
      else if \<not> payload_matches (mr_kind r) (mr_payload r)
      then Status Code_invalid_argument ''payload does not match mutation kind''
      else validate_payload r)"

text \<open>\<^verbatim>\<open>static_cast<std::uint64_t>\<close> of a signed value.\<close>

definition u64_of_nanos :: "nanos \<Rightarrow> u64" where
  "u64_of_nanos n = of_int n"

definition bool_u64 :: "bool \<Rightarrow> u64" where
  "bool_u64 b = (if b then 1 else 0)"

definition fingerprint_payload :: "mutation_payload \<Rightarrow> u64 list" where
  "fingerprint_payload payload = (case payload of
       Pl_declare_queue d \<Rightarrow>
         [id_value (dq_resource d), fnv1a64 (bytes_of_string (dq_name d)), ucast (dq_depth d),
          id_value (cb_id (dq_cls d)), ctr_value (cb_generation (dq_cls d)),
          id_value (pr_id (dq_pool d)), ctr_value (pr_generation (dq_pool d)),
          pr_capacity_bytes (dq_pool d),
          th_low_watermark_bytes (dq_thresholds d), th_high_watermark_bytes (dq_thresholds d),
          th_max_occupancy_bytes (dq_thresholds d), th_max_packets (dq_thresholds d),
          u64_of_nanos (th_occupancy_stale_after (dq_thresholds d))]
     | Pl_rebind_class cls \<Rightarrow> [id_value (cb_id cls), ctr_value (cb_generation cls)]
     | Pl_thresholds th \<Rightarrow>
         [th_low_watermark_bytes th, th_high_watermark_bytes th, th_max_occupancy_bytes th,
          th_max_packets th, u64_of_nanos (th_occupancy_stale_after th)]
     | Pl_ownership own \<Rightarrow> [id_value own]
     | Pl_occupancy s \<Rightarrow>
         [os_bytes s, os_packets s, ctr_value (os_sequence s), pv_fingerprint (os_provenance s),
          u64_of_nanos (os_observed_at s)]
     | Pl_drain_evidence e \<Rightarrow>
         [ucast (de_records e), bool_u64 (bo_reported_drained (de_backend e)),
          bool_u64 (bo_request_accepted (de_backend e)), bool_u64 (de_occupancy_zero_observed e),
          ctr_value (de_zero_sequence e)]
     | Pl_fence fence reason \<Rightarrow> [bool_u64 fence, fnv1a64 (bytes_of_string reason)]
     | Pl_backend_ack a \<Rightarrow>
         [ctr_value (ba_sequence a), id_value (ba_backend a), ctr_value (ba_backend_incarnation a)]
     | Pl_backend_registration b \<Rightarrow>
         [id_value (br_backend b), id_value (br_resource b), ctr_value (br_incarnation b)]
     | Pl_monostate \<Rightarrow> [])"

definition mr_fingerprint :: "mutation_request \<Rightarrow> u64" where
  "mr_fingerprint r = foldl hash_mix 0x243F6A8885A308D3
     ([ucast (u16_of_mutation_kind (mr_kind r)), id_value (mr_queue r),
       ctr_value (mr_expected_generation r), id_value (mr_principal r)]
      @ fingerprint_payload (mr_payload r))"

section \<open>Outcomes and memos\<close>

record mutation_outcome =
  mo_status :: status
  mo_queue :: QueueId
  mo_generation :: Generation
  mo_attempt :: attempt_id
  mo_definition_generation :: Generation
  mo_lifecycle :: lifecycle
  mo_applicability :: applicability
  mo_replayed :: bool
  mo_durable :: bool
  mo_rule :: string

record attempt_memo =
  am_attempt :: attempt_id
  am_fingerprint :: u64
  am_kind :: mutation_kind
  am_outcome :: code
  am_generation :: Generation
  am_durable :: bool

section \<open>Lemmas\<close>

lemma mutation_kind_canonical_enumerator: "k \<in> set all_mutation_kinds \<Longrightarrow> mutation_kind_canonical k"
  by (auto simp: all_mutation_kinds_def mutation_kind_canonical_def mutation_kind_of_u16_def)

lemma definitional_durable: "is_definitional k \<Longrightarrow> is_durable k"
  by (cases k) (simp_all add: is_definitional_def is_durable_def is_dynamic_def)

text \<open>A kind with the capability \<^verbatim>\<open>none\<close> is never a kind that a valid request carries, except \<^verbatim>\<open>no_op\<close>.\<close>

lemma required_capability_none:
  "required_capability k = Cap_none \<Longrightarrow> payload_matches k p \<Longrightarrow> k = Mk_no_op"
  by (cases k) (simp_all add: payload_matches_def)

lemma required_capability_not_admin: "required_capability k \<noteq> Cap_admin"
  by (cases k) simp_all

lemma required_unfence: "required_capability k = Cap_unfence_queue \<longleftrightarrow> k = Mk_unfence_queue"
  by (cases k) simp_all

lemma required_retire: "required_capability k = Cap_retire_queue \<longleftrightarrow> k = Mk_retire_queue"
  by (cases k) simp_all

lemma mr_validate_ok:
  "ok (mr_validate r) \<longleftrightarrow>
     attempt_valid (mr_attempt r) \<and> pv_valid (mr_provenance r) \<and> id_valid (mr_principal r)
     \<and> payload_matches (mr_kind r) (mr_payload r) \<and> ok (validate_payload r)"
  by (auto simp: mr_validate_def payload_matches_def)

lemma declare_payload: "payload_matches Mk_declare_queue p \<longleftrightarrow> (\<exists>d. p = Pl_declare_queue d)"
  by (cases p) (simp_all add: payload_matches_def)

lemma validate_declare_ok:
  "ok (validate_declare r d) \<longleftrightarrow>
     id_valid (dq_resource d) \<and> \<not> id_valid (mr_queue r) \<and> dq_name d \<noteq> [] \<and> length (dq_name d) \<le> kMaxNameChars
     \<and> cb_valid (dq_cls d) \<and> pr_valid (dq_pool d) \<and> th_consistent (dq_thresholds d)"
  by (auto simp: validate_declare_def)

lemma fnv_payload_irrelevant:
  "mr_fingerprint (r\<lparr>mr_attempt := a, mr_expected_epoch := e, mr_provenance := p\<rparr>) = mr_fingerprint r"
  by (simp add: mr_fingerprint_def)

end
