(* ===== verification/QF_Queue.thy ===== *)
theory QF_Queue
  imports QF_Mutation
begin

text \<open>
  \<^verbatim>\<open>include/qf/queue.hpp\<close> and \<^verbatim>\<open>src/queue.cpp\<close>: the definition and the complete record of a
  queue, and the bounded memo of attempts that makes retries idempotent.
\<close>

section \<open>Definitions\<close>

record queue_definition =
  qd_id :: QueueId
  qd_resource :: ResourceId
  qd_name :: string
  qd_depth :: u32
  qd_cls :: class_binding
  qd_pool :: pool_ref
  qd_thresholds :: thresholds
  qd_owner :: OwnerId
  qd_generation :: Generation
  qd_declared_by :: provenance
  qd_declared_at :: nanos

definition qd_valid :: "queue_definition \<Rightarrow> bool" where
  "qd_valid d \<longleftrightarrow> id_valid (qd_id d) \<and> id_valid (qd_resource d) \<and> ctr_valid (qd_generation d)
     \<and> qd_name d \<noteq> [] \<and> length (qd_name d) \<le> kMaxNameChars \<and> cb_valid (qd_cls d)
     \<and> pr_valid (qd_pool d) \<and> th_consistent (qd_thresholds d)"

record fence_state =
  fs_fenced :: bool
  fs_token :: u64
  fs_epoch :: Epoch
  fs_fenced_by :: OwnerId
  fs_reason :: string
  fs_fenced_at :: nanos

definition no_fence :: fence_state where
  "no_fence = \<lparr>fs_fenced = False, fs_token = 0, fs_epoch = Counter 0, fs_fenced_by = Ident 0,
     fs_reason = [], fs_fenced_at = 0\<rparr>"

record queue_record =
  qr_def :: queue_definition
  qr_lifecycle :: lifecycle
  qr_applicability :: applicability
  qr_occupancy :: occupancy_state
  qr_fence :: fence_state
  qr_drain :: drain_state
  qr_applied :: backend_applied
  qr_mutation_count :: u64
  qr_replayed_count :: u64
  qr_rejected_count :: u64
  qr_overflow_events :: u64
  qr_staleness_events :: u64
  qr_last_attempt :: attempt_id
  qr_last_status :: status
  qr_last_rule :: string
  qr_failure_reason :: string
  qr_memo :: "attempt_memo list"

text \<open>A record with every member at its default initialiser, around a given definition.\<close>

definition new_queue_record :: "queue_definition \<Rightarrow> queue_record" where
  "new_queue_record d = \<lparr>qr_def = d, qr_lifecycle = Lc_declared, qr_applicability = App_none,
     qr_occupancy = no_occupancy, qr_fence = no_fence, qr_drain = no_drain, qr_applied = no_applied,
     qr_mutation_count = 0, qr_replayed_count = 0, qr_rejected_count = 0, qr_overflow_events = 0,
     qr_staleness_events = 0, qr_last_attempt = no_attempt, qr_last_status = success,
     qr_last_rule = ''unset'', qr_failure_reason = [], qr_memo = []\<rparr>"

definition find_attempt :: "queue_record \<Rightarrow> attempt_id \<Rightarrow> attempt_memo option" where
  "find_attempt q attempt = find (\<lambda>entry. am_attempt entry = attempt) (qr_memo q)"

text \<open>The search loop of \<^verbatim>\<open>remember\<close>: overwrite the first entry of the same attempt, if any.\<close>

fun replace_memo :: "attempt_memo \<Rightarrow> attempt_memo list \<Rightarrow> attempt_memo list option" where
  "replace_memo entry [] = None"
| "replace_memo entry (existing # memo) =
     (if am_attempt existing = am_attempt entry then Some (entry # memo)
      else map_option ((#) existing) (replace_memo entry memo))"

definition remember_memo :: "attempt_memo \<Rightarrow> nat \<Rightarrow> attempt_memo list \<Rightarrow> attempt_memo list" where
  "remember_memo entry capacity memo =
     (if capacity = 0 then memo
      else (case replace_memo entry memo of
              Some memo' \<Rightarrow> memo'
            | None \<Rightarrow> (if length memo \<ge> capacity then tl memo else memo) @ [entry]))"

definition remember :: "attempt_memo \<Rightarrow> nat \<Rightarrow> queue_record \<Rightarrow> queue_record" where
  "remember entry capacity q = q\<lparr>qr_memo := remember_memo entry capacity (qr_memo q)\<rparr>"

definition accepts_fresh_mutation :: "queue_record \<Rightarrow> bool" where
  "accepts_fresh_mutation q \<longleftrightarrow> accepts_mutation (qr_lifecycle q) (qr_applicability q)"

definition qr_stale :: "queue_record \<Rightarrow> bool" where
  "qr_stale q \<longleftrightarrow> has_flag (qr_applicability q) App_stale"

definition qr_fenced :: "queue_record \<Rightarrow> bool" where
  "qr_fenced q \<longleftrightarrow> has_flag (qr_applicability q) App_fenced"

section \<open>The memo\<close>

definition memo_wf :: "attempt_memo list \<Rightarrow> bool" where
  "memo_wf memo \<longleftrightarrow> distinct (map am_attempt memo)"

lemma replace_memo_None: "replace_memo e m = None \<longleftrightarrow> am_attempt e \<notin> am_attempt ` set m"
  by (induction m) auto

lemma replace_memo_keys: "replace_memo e m = Some m' \<Longrightarrow> map am_attempt m' = map am_attempt m"
  by (induction m arbitrary: m') (auto split: if_splits)

lemma replace_memo_length: "replace_memo e m = Some m' \<Longrightarrow> length m' = length m"
  by (metis length_map replace_memo_keys)

lemma replace_memo_find:
  "replace_memo e m = Some m' \<Longrightarrow>
     find (\<lambda>x. am_attempt x = a) m' = (if a = am_attempt e then Some e else find (\<lambda>x. am_attempt x = a) m)"
  by (induction m arbitrary: m') (auto split: if_splits)

lemma remember_memo_bound: "length m \<le> cap \<Longrightarrow> length (remember_memo e cap m) \<le> cap"
  by (auto simp: remember_memo_def replace_memo_length split: option.splits)

lemma remember_memo_wf: "memo_wf m \<Longrightarrow> memo_wf (remember_memo e cap m)"
proof -
  assume wf: "memo_wf m"
  show ?thesis
  proof (cases "replace_memo e m")
    case None
    then have "am_attempt e \<notin> set (map am_attempt m)"
      by (simp add: replace_memo_None)
    moreover have "set (tl m) \<subseteq> set m"
      by (cases m) auto
    ultimately show ?thesis
      using wf None by (auto simp: remember_memo_def memo_wf_def map_tl distinct_tl)
  next
    case (Some m')
    then show ?thesis
      using wf by (simp add: remember_memo_def memo_wf_def replace_memo_keys)
  qed
qed

lemma find_append: "find P (xs @ ys) = (case find P xs of None \<Rightarrow> find P ys | Some x \<Rightarrow> Some x)"
  by (induction xs) auto

lemma find_remember_same:
  "0 < cap \<Longrightarrow> find (\<lambda>x. am_attempt x = am_attempt e) (remember_memo e cap m) = Some e"
proof (cases "replace_memo e m")
  case None
  assume "0 < cap"
  have "find (\<lambda>x. am_attempt x = am_attempt e) m = None" "find (\<lambda>x. am_attempt x = am_attempt e) (tl m) = None"
    using None by (auto simp: replace_memo_None find_None_iff_all image_iff) (metis list.set_sel(2) tl_Nil)
  then show ?thesis
    using None \<open>0 < cap\<close> by (simp add: remember_memo_def find_append)
next
  case (Some m')
  assume "0 < cap"
  then show ?thesis
    using Some replace_memo_find [OF Some] by (simp add: remember_memo_def)
qed

text \<open>Another attempt is still found unless it was the evicted oldest entry.\<close>

lemma find_remember_other:
  assumes "am_attempt e \<noteq> a" and "length m < cap \<or> replace_memo e m \<noteq> None"
  shows "find (\<lambda>x. am_attempt x = a) (remember_memo e cap m) = find (\<lambda>x. am_attempt x = a) m"
proof (cases "replace_memo e m")
  case None
  then show ?thesis
    using assms by (auto simp: remember_memo_def find_append split: option.splits)
next
  case (Some m')
  then show ?thesis
    using assms replace_memo_find [OF Some] by (simp add: remember_memo_def)
qed

lemma remember_frame [simp, frame_simps]:
  "qr_def (remember e n q) = qr_def q" "qr_lifecycle (remember e n q) = qr_lifecycle q"
  "qr_applicability (remember e n q) = qr_applicability q" "qr_occupancy (remember e n q) = qr_occupancy q"
  "qr_fence (remember e n q) = qr_fence q" "qr_drain (remember e n q) = qr_drain q"
  "qr_applied (remember e n q) = qr_applied q" "qr_mutation_count (remember e n q) = qr_mutation_count q"
  "qr_failure_reason (remember e n q) = qr_failure_reason q"
  "qr_overflow_events (remember e n q) = qr_overflow_events q"
  "qr_staleness_events (remember e n q) = qr_staleness_events q"
  "qr_memo (remember e n q) = remember_memo e n (qr_memo q)"
  by (simp_all add: remember_def)

end
