(* ===== verification/QF_Resource.thy ===== *)
theory QF_Resource
  imports QF_Queue
begin

text \<open>
  The durable topology record of a resource (\<^verbatim>\<open>ResourceRecord\<close> of \<^verbatim>\<open>include/qf/fabric.hpp\<close>)
  and its lookups in \<^verbatim>\<open>src/fabric.cpp\<close>.
\<close>

record resource_record =
  rr_id :: ResourceId
  rr_name :: string
  rr_owner :: OwnerId
  rr_generation :: Generation
  rr_epoch :: Epoch
  rr_authority :: authority_vector
  rr_classes :: "scheduling_class_def list"
  rr_pools :: "buffer_pool_def list"
  rr_backends :: "backend_incarnation list"
  rr_applicability :: applicability
  rr_declared_by :: provenance
  rr_declared_at :: nanos
  rr_queue_count :: nat

definition rr_find_class :: "resource_record \<Rightarrow> ClassId \<Rightarrow> scheduling_class_def option" where
  "rr_find_class r cls = find (\<lambda>entry. sc_id entry = cls) (rr_classes r)"

definition rr_find_pool :: "resource_record \<Rightarrow> PoolId \<Rightarrow> buffer_pool_def option" where
  "rr_find_pool r pool = find (\<lambda>entry. bp_id entry = pool) (rr_pools r)"

definition rr_find_backend :: "resource_record \<Rightarrow> BackendId \<Rightarrow> backend_incarnation option" where
  "rr_find_backend r backend = find (\<lambda>entry. bi_backend entry = backend) (rr_backends r)"

lemma rr_find_classD: "rr_find_class r c = Some d \<Longrightarrow> d \<in> set (rr_classes r) \<and> sc_id d = c"
  unfolding rr_find_class_def by (drule find_Some_iff_mem) simp

lemma rr_find_poolD: "rr_find_pool r p = Some d \<Longrightarrow> d \<in> set (rr_pools r) \<and> bp_id d = p"
  unfolding rr_find_pool_def by (drule find_Some_iff_mem) simp

end
