(* ===== verification/QF_Bytes.thy ===== *)
theory QF_Bytes
  imports QF_Status QF_Checked
begin

text \<open>
  \<^verbatim>\<open>include/qf/bytes.hpp\<close>: the bounded little-endian writer and reader with their latched
  failure. The locale \<open>codec\<close> is the contract between a \<open>put\<close> and the \<open>get\<close> that
  reads its bytes back; the locale gives the round trip of counted sequences once for all element
  codecs.
\<close>

section \<open>Writer\<close>

record writer =
  w_buffer :: bytes
  w_limit :: nat
  w_failed :: bool

definition new_writer :: "nat \<Rightarrow> writer" where
  "new_writer limit = \<lparr>w_buffer = [], w_limit = limit, w_failed = False\<rparr>"

definition put_raw :: "bytes \<Rightarrow> writer \<Rightarrow> writer" where
  "put_raw data w =
     (if w_failed w then w
      else if length data > w_limit w \<or> length (w_buffer w) > w_limit w - length data
      then w\<lparr>w_failed := True\<rparr>
      else w\<lparr>w_buffer := w_buffer w @ data\<rparr>)"

text \<open>The loop \<^verbatim>\<open>raw[i] = (value >> (8 * i)) & 0xFF\<close> over \<open>n\<close> bytes.\<close>

definition le_put :: "nat \<Rightarrow> 'a::len word \<Rightarrow> bytes" where
  "le_put n value = map (\<lambda>i. ucast (drop_bit (8 * i) value AND 0xFF)) [0..<n]"

definition put_u8 :: "u8 \<Rightarrow> writer \<Rightarrow> writer" where
  "put_u8 value = put_raw [value]"

definition put_bool :: "bool \<Rightarrow> writer \<Rightarrow> writer" where
  "put_bool value = put_u8 (if value then 1 else 0)"

definition put_u16 :: "u16 \<Rightarrow> writer \<Rightarrow> writer" where
  "put_u16 value = put_raw (le_put 2 value)"

definition put_u32 :: "u32 \<Rightarrow> writer \<Rightarrow> writer" where
  "put_u32 value = put_raw (le_put 4 value)"

definition put_u64 :: "u64 \<Rightarrow> writer \<Rightarrow> writer" where
  "put_u64 value = put_raw (le_put 8 value)"

definition put_i64 :: "int \<Rightarrow> writer \<Rightarrow> writer" where
  "put_i64 value = put_u64 (of_int value)"

definition put_string :: "string \<Rightarrow> writer \<Rightarrow> writer" where
  "put_string text w =
     (if length text > kMaxNameChars then w\<lparr>w_failed := True\<rparr>
      else put_raw (bytes_of_string text) (put_u16 (of_nat (length text)) w))"

definition put_bytes :: "bytes \<Rightarrow> writer \<Rightarrow> writer" where
  "put_bytes data w = put_raw data (put_u32 (of_nat (length data)) w)"

section \<open>Reader\<close>

record reader =
  rd_data :: bytes
  rd_position :: nat
  rd_failed :: bool

definition new_reader :: "bytes \<Rightarrow> reader" where
  "new_reader data = \<lparr>rd_data = data, rd_position = 0, rd_failed = False\<rparr>"

definition remaining :: "reader \<Rightarrow> nat" where
  "remaining r = length (rd_data r) - rd_position r"

definition ensure :: "nat \<Rightarrow> reader \<Rightarrow> bool \<times> reader" where
  "ensure n r =
     (if rd_failed r \<or> n > length (rd_data r) - rd_position r then (False, r\<lparr>rd_failed := True\<rparr>)
      else (True, r))"

text \<open>The loop \<^verbatim>\<open>value |= byte << (8 * i)\<close> over \<open>n\<close> bytes from a position.\<close>

definition le_get :: "nat \<Rightarrow> bytes \<Rightarrow> nat \<Rightarrow> 'a::len word" where
  "le_get n data position = foldl (\<lambda>value i. value OR push_bit (8 * i) (ucast (data ! (position + i)))) 0 [0..<n]"

definition get_le :: "nat \<Rightarrow> reader \<Rightarrow> 'a::len word \<times> reader" where
  "get_le n r =
     (case ensure n r of
        (False, r) \<Rightarrow> (0, r)
      | (True, r) \<Rightarrow> (le_get n (rd_data r) (rd_position r), r\<lparr>rd_position := rd_position r + n\<rparr>))"

definition get_u8 :: "reader \<Rightarrow> u8 \<times> reader" where
  "get_u8 r =
     (case ensure 1 r of
        (False, r) \<Rightarrow> (0, r)
      | (True, r) \<Rightarrow> (rd_data r ! rd_position r, r\<lparr>rd_position := rd_position r + 1\<rparr>))"

definition get_bool :: "reader \<Rightarrow> bool \<times> reader" where
  "get_bool r = (case get_u8 r of (value, r) \<Rightarrow> (value \<noteq> 0, r))"

definition get_u16 :: "reader \<Rightarrow> u16 \<times> reader" where
  "get_u16 = get_le 2"

definition get_u32 :: "reader \<Rightarrow> u32 \<times> reader" where
  "get_u32 = get_le 4"

definition get_u64 :: "reader \<Rightarrow> u64 \<times> reader" where
  "get_u64 = get_le 8"

definition get_i64 :: "reader \<Rightarrow> int \<times> reader" where
  "get_i64 r = (case get_u64 r of (value, r) \<Rightarrow> (sint value, r))"

definition get_raw :: "nat \<Rightarrow> reader \<Rightarrow> bytes \<times> reader" where
  "get_raw n r =
     (case ensure n r of
        (False, r) \<Rightarrow> ([], r)
      | (True, r) \<Rightarrow> (take n (drop (rd_position r) (rd_data r)), r\<lparr>rd_position := rd_position r + n\<rparr>))"

definition get_string :: "nat \<Rightarrow> reader \<Rightarrow> string \<times> reader" where
  "get_string max_chars r =
     (case get_u16 r of
        (len, r) \<Rightarrow>
          (if rd_failed r \<or> unat len > max_chars then ([], r\<lparr>rd_failed := True\<rparr>)
           else (case get_raw (unat len) r of
                   (raw, r) \<Rightarrow> (if rd_failed r then ([], r) else (string_of_bytes raw, r)))))"

definition get_bytes :: "nat \<Rightarrow> reader \<Rightarrow> bytes \<times> reader" where
  "get_bytes max_bytes r =
     (case get_u32 r of
        (len, r) \<Rightarrow>
          (if rd_failed r \<or> unat len > max_bytes then ([], r\<lparr>rd_failed := True\<rparr>)
           else get_raw (unat len) r))"

text \<open>The counted loops of the decoders: read one element \<open>n\<close> times, whatever the reader's state.\<close>

fun get_n :: "(reader \<Rightarrow> 'a \<times> reader) \<Rightarrow> nat \<Rightarrow> reader \<Rightarrow> 'a list \<times> reader" where
  "get_n get 0 r = ([], r)"
| "get_n get (Suc n) r =
     (case get r of (x, r) \<Rightarrow> (case get_n get n r of (xs, r) \<Rightarrow> (x # xs, r)))"

fun put_all :: "('a \<Rightarrow> writer \<Rightarrow> writer) \<Rightarrow> 'a list \<Rightarrow> writer \<Rightarrow> writer" where
  "put_all put [] w = w"
| "put_all put (x # xs) w = put_all put xs (put x w)"

section \<open>Little endian\<close>

lemma length_le_put [simp]: "length (le_put n v) = n"
  by (simp add: le_put_def)

lemma le_put_mask: "le_put n v = map (\<lambda>i. ucast (drop_bit (8 * i) v AND mask 8)) [0..<n]"
  by (simp add: le_put_def mask_eq_exp_minus_1)

lemma bit_le_put: "i < n \<Longrightarrow> bit (le_put n v ! i) j \<longleftrightarrow> j < 8 \<and> bit v (8 * i + j)"
  using bit_imp_le_length [of v "8 * i + j"]
  by (auto simp: le_put_mask bit_unsigned_iff bit_and_iff bit_drop_bit_eq bit_mask_iff)

lemma bit_le_get:
  "bit (le_get n data p :: 'a::len word) k \<longleftrightarrow>
     k < LENGTH('a) \<and> k div 8 < n \<and> bit (data ! (p + k div 8)) (k mod 8)"
proof (induction n)
  case 0
  then show ?case by (simp add: le_get_def)
next
  case (Suc n)
  have step: "(le_get (Suc n) data p :: 'a word) = le_get n data p OR push_bit (8 * n) (ucast (data ! (p + n)))"
    by (simp add: le_get_def)
  have "k div 8 = n \<and> k mod 8 = k - 8 * n" if b: "bit (data ! (p + n)) (k - 8 * n)" and le: "8 * n \<le> k"
  proof -
    obtain d where "k = 8 * n + d" "d < 8"
      using bit_imp_le_length [OF b] le_Suc_ex [OF le] by auto
    then show ?thesis by simp
  qed
  then show ?case
    using bit_imp_le_length [of "data ! (p + n)" "k - 8 * n"]
    by (auto simp: step bit_or_iff Suc.IH bit_push_bit_iff bit_unsigned_iff less_Suc_eq minus_mult_div_eq_mod [symmetric])
qed

lemma le_get_put: 
  assumes "LENGTH('a::len) \<le> 8 * n"
  shows "le_get n (pre @ le_put n v @ rest) (length pre) = (v :: 'a word)"
proof (rule bit_word_eqI)
  fix k assume k: "k < LENGTH('a)"
  then have "k div 8 < n"
    using assms by auto
  then show "bit (le_get n (pre @ le_put n v @ rest) (length pre) :: 'a word) k = bit v k"
    using k by (simp add: bit_le_get nth_append bit_le_put)
qed

section \<open>Views of writer and reader\<close>

text \<open>What a writer holds as long as it has not failed.\<close>

definition w_view :: "writer \<Rightarrow> bytes option" where
  "w_view w = (if w_failed w then None else Some (w_buffer w))"

definition w_app :: "nat \<Rightarrow> bytes option \<Rightarrow> bytes \<Rightarrow> bytes option" where
  "w_app limit v bs = (case v of None \<Rightarrow> None
     | Some buf \<Rightarrow> (if length buf + length bs \<le> limit then Some (buf @ bs) else None))"

lemma w_app_app [simp]: "w_app lim (w_app lim v a) b = w_app lim v (a @ b)"
  by (auto simp: w_app_def split: option.splits)

lemma w_app_None [simp]: "w_app lim None b = None"
  by (simp add: w_app_def)

lemma w_view_put_raw [simp, codec_rt]: "w_view (put_raw bs w) = w_app (w_limit w) (w_view w) bs"
  by (auto simp: w_view_def w_app_def put_raw_def)

lemma w_limit_put_raw [simp, codec_rt]: "w_limit (put_raw bs w) = w_limit w"
  by (simp add: put_raw_def)

text \<open>A reader that has consumed \<open>pre\<close> and has \<open>rest\<close> before it.\<close>

definition rd :: "bytes \<Rightarrow> bytes \<Rightarrow> reader" where
  "rd pre rest = \<lparr>rd_data = pre @ rest, rd_position = length pre, rd_failed = False\<rparr>"

lemma new_reader_rd: "new_reader bs = rd [] bs"
  by (simp add: new_reader_def rd_def)

lemma rd_not_failed [simp, codec_rt]: "\<not> rd_failed (rd pre rest)"
  by (simp add: rd_def)

lemma remaining_rd [simp, codec_rt]: "remaining (rd pre rest) = length rest"
  by (simp add: remaining_def rd_def)

lemma get_le_rd:
  "LENGTH('a::len) \<le> 8 * n \<Longrightarrow> get_le n (rd pre (le_put n v @ rest)) = ((v :: 'a word), rd (pre @ le_put n v) rest)"
  by (simp add: get_le_def ensure_def rd_def le_get_put)

lemma get_raw_rd [codec_rt]: "get_raw (length bs) (rd pre (bs @ rest)) = (bs, rd (pre @ bs) rest)"
  by (simp add: get_raw_def ensure_def rd_def)

section \<open>The contract of a codec\<close>

locale codec =
  fixes put :: "'a \<Rightarrow> writer \<Rightarrow> writer"
    and get :: "reader \<Rightarrow> 'a \<times> reader"
    and enc :: "'a \<Rightarrow> bytes"
    and fits :: "'a \<Rightarrow> bool"
    and rt :: "'a \<Rightarrow> bool"
  assumes put_limit: "w_limit (put x w) = w_limit w"
    and put_view: "w_view (put x w) = (if fits x then w_app (w_limit w) (w_view w) (enc x) else None)"
    and get_enc: "rt x \<Longrightarrow> get (rd pre (enc x @ rest)) = (x, rd (pre @ enc x) rest)"
    and rt_fits: "rt x \<Longrightarrow> fits x"
begin

lemma put_all_limit: "w_limit (put_all put xs w) = w_limit w"
  by (induction xs arbitrary: w) (simp_all add: put_limit)

lemma put_all_failed: "w_view w = None \<Longrightarrow> w_view (put_all put xs w) = None"
  by (induction xs arbitrary: w) (simp_all add: put_view)

text \<open>The count followed by the elements.\<close>

lemma put_seq_view:
  assumes "w_view w = w_app (w_limit w) v bs"
  shows "w_view (put_all put xs w) =
     (if \<forall>x\<in>set xs. fits x then w_app (w_limit w) v (bs @ concat (map enc xs)) else None)"
  using assms
proof (induction xs arbitrary: w bs)
  case (Cons x xs)
  show ?case
  proof (cases "fits x")
    case True
    then have "w_view (put x w) = w_app (w_limit (put x w)) v (bs @ enc x)"
      using Cons.prems by (simp add: put_view put_limit)
    then show ?thesis
      using Cons.IH [of "put x w" "bs @ enc x"] True by (simp add: put_limit)
  next
    case False
    then show ?thesis
      using False put_all_failed by (simp add: put_view)
  qed
qed simp

lemma get_n_enc:
  "(\<forall>x\<in>set xs. rt x) \<Longrightarrow>
   get_n get (length xs) (rd pre (concat (map enc xs) @ rest)) = (xs, rd (pre @ concat (map enc xs)) rest)"
  by (induction xs arbitrary: pre) (simp_all add: get_enc)

text \<open>An element followed by the end of the input: the shape of every whole-record decoder.\<close>

lemma whole_record: "rt x \<Longrightarrow> get (new_reader (enc x)) = (x, rd (enc x) [])"
  using get_enc [of x "[]" "[]"] by (simp add: new_reader_rd)

end

section \<open>The scalar codecs\<close>

lemma bool_byte: "(if b then 1 else 0 :: u8) \<noteq> 0 \<longleftrightarrow> b"
  by simp

definition enc_u8 :: "u8 \<Rightarrow> bytes" where
  "enc_u8 v = [v]"

lemma get_u8_rd: "get_u8 (rd pre (enc_u8 v @ rest)) = (v, rd (pre @ enc_u8 v) rest)"
  by (simp add: get_u8_def ensure_def rd_def nth_append enc_u8_def)

interpretation u8c: codec put_u8 get_u8 enc_u8 "\<lambda>_. True" "\<lambda>_. True"
  by unfold_locales (simp_all add: put_u8_def get_u8_rd enc_u8_def [symmetric])

definition enc_bool :: "bool \<Rightarrow> bytes" where
  "enc_bool b = enc_u8 (if b then 1 else 0)"

interpretation boolc: codec put_bool get_bool enc_bool "\<lambda>_. True" "\<lambda>_. True"
  by unfold_locales (simp_all add: put_bool_def get_bool_def enc_bool_def u8c.put_limit u8c.put_view u8c.get_enc)

interpretation u16c: codec put_u16 get_u16 "le_put 2" "\<lambda>_. True" "\<lambda>_. True"
  by unfold_locales (simp_all add: put_u16_def get_u16_def get_le_rd)

interpretation u32c: codec put_u32 get_u32 "le_put 4" "\<lambda>_. True" "\<lambda>_. True"
  by unfold_locales (simp_all add: put_u32_def get_u32_def get_le_rd)

interpretation u64c: codec put_u64 get_u64 "le_put 8" "\<lambda>_. True" "\<lambda>_. True"
  by unfold_locales (simp_all add: put_u64_def get_u64_def get_le_rd)

definition enc_i64 :: "int \<Rightarrow> bytes" where
  "enc_i64 v = le_put 8 (of_int v :: u64)"

lemma sint_of_i64: "in_i64 v \<Longrightarrow> sint (of_int v :: u64) = v"
  by (simp add: in_i64_def i64_min_def i64_max_def signed_of_int signed_take_bit_int_eq_self)

interpretation i64c: codec put_i64 get_i64 enc_i64 "\<lambda>_. True" in_i64
  by unfold_locales (simp_all add: put_i64_def get_i64_def enc_i64_def u64c.put_limit u64c.put_view u64c.get_enc sint_of_i64)

definition enc_string :: "string \<Rightarrow> bytes" where
  "enc_string str = le_put 2 (of_nat (length str) :: u16) @ bytes_of_string str"

definition name_fits :: "string \<Rightarrow> bool" where
  "name_fits str \<longleftrightarrow> length str \<le> kMaxNameChars"

lemma w_view_fail: "w_view (w\<lparr>w_failed := True\<rparr>) = None"
  by (simp add: w_view_def)

lemma w_view_put_string:
  "w_view (put_string str w) = (if name_fits str then w_app (w_limit w) (w_view w) (enc_string str) else None)"
  by (auto simp: put_string_def name_fits_def enc_string_def u16c.put_view u16c.put_limit w_view_fail)

lemma w_limit_put_string: "w_limit (put_string str w) = w_limit w"
  by (simp add: put_string_def u16c.put_limit)

lemma get_string_enc:
  assumes "length str \<le> max_chars" "max_chars \<le> kMaxNameChars"
  shows "get_string max_chars (rd pre (enc_string str @ rest)) = (str, rd (pre @ enc_string str) rest)"
proof -
  have "unat (of_nat (length str) :: u16) = length str"
    using assms by (simp add: unat_of_nat kMaxNameChars_def)
  then show ?thesis
    using assms get_raw_rd [of "bytes_of_string str" "pre @ le_put 2 (of_nat (length str) :: u16)" rest]
    by (simp add: get_string_def enc_string_def u16c.get_enc)
qed

interpretation strc: codec put_string "get_string kMaxNameChars" enc_string name_fits name_fits
  by unfold_locales (simp_all add: w_view_put_string w_limit_put_string get_string_enc name_fits_def)

definition reason_rt :: "string \<Rightarrow> bool" where
  "reason_rt str \<longleftrightarrow> length str \<le> kMaxReasonChars"

interpretation reasonc: codec put_string "get_string kMaxReasonChars" enc_string name_fits reason_rt
  by unfold_locales (simp_all add: w_view_put_string w_limit_put_string get_string_enc name_fits_def
      reason_rt_def limit_defs)

lemmas scalar_put = u8c.put_limit u8c.put_view boolc.put_limit boolc.put_view u16c.put_limit u16c.put_view
  u32c.put_limit u32c.put_view u64c.put_limit u64c.put_view i64c.put_limit i64c.put_view
  strc.put_limit strc.put_view

lemmas scalar_get = u8c.get_enc boolc.get_enc u16c.get_enc u32c.get_enc u64c.get_enc i64c.get_enc
  strc.get_enc reasonc.get_enc

section \<open>Bounds\<close>

lemma length_encs [simp]:
  "length (enc_u8 v) = 1" "length (enc_bool b) = 1" "length (enc_i64 i) = 8"
  "length (enc_string str) = 2 + length str"
  by (simp_all add: enc_u8_def enc_bool_def enc_i64_def enc_string_def)

lemma put_raw_within_limit: "length (w_buffer w) \<le> w_limit w \<Longrightarrow> length (w_buffer (put_raw bs w)) \<le> w_limit w"
  by (auto simp: put_raw_def)

lemma get_le_within: "rd_position r \<le> length (rd_data r) \<Longrightarrow>
    rd_position (snd (get_le n r)) \<le> length (rd_data (snd (get_le n r)))"
  by (auto simp: get_le_def ensure_def)

end
