(* ===== verification/QF_Serialize.thy ===== *)
theory QF_Serialize
  imports QF_Resource QF_Bytes
begin

text \<open>
  \<^verbatim>\<open>include/qf/serialize.hpp\<close> and \<^verbatim>\<open>src/serialize.cpp\<close>: the durable encodings of epoch
  state, mutations, queues and resources. Every \<open>put_x\<close>/\<open>get_x\<close> pair is an
  interpretation of the locale \<open>codec\<close> of \<^verbatim>\<open>QF_Bytes\<close>; the whole-record round trips follow
  from them. \<open>enc_x\<close> is the byte string a successful \<open>put_x\<close> appends.
\<close>

section \<open>Writers and readers of the parts\<close>

definition put_provenance :: "provenance \<Rightarrow> writer \<Rightarrow> writer" where
  "put_provenance p w =
     (let w = put_u64 (id_value (pv_publisher p)) w;
          w = put_u64 (id_value (pv_node p)) w;
          w = put_u64 (ctr_value (pv_incarnation p)) w;
          w = put_u64 (ctr_value (pv_epoch p)) w;
          w = put_u64 (ctr_value (pv_sequence p)) w;
          w = put_u64 (boot_hi (pv_boot p)) w;
          w = put_u64 (boot_lo (pv_boot p)) w
      in w)"

definition get_provenance :: "reader \<Rightarrow> provenance \<times> reader" where
  "get_provenance r =
     (let (pub, r) = get_u64 r;
          (node, r) = get_u64 r;
          (inc, r) = get_u64 r;
          (ep, r) = get_u64 r;
          (sq, r) = get_u64 r;
          (hi, r) = get_u64 r;
          (lo, r) = get_u64 r
      in (\<lparr>pv_publisher = Ident pub, pv_node = Ident node, pv_incarnation = Counter inc, pv_epoch = Counter ep, pv_sequence = Counter sq, pv_boot = \<lparr>boot_hi = hi, boot_lo = lo\<rparr>\<rparr>, r))"

definition put_attempt :: "attempt_id \<Rightarrow> writer \<Rightarrow> writer" where
  "put_attempt a w =
     (let w = put_u64 (id_value (at_publisher a)) w;
          w = put_u64 (at_counter a) w
      in w)"

definition get_attempt :: "reader \<Rightarrow> attempt_id \<times> reader" where
  "get_attempt r =
     (let (at_publisher', r) = get_u64 r;
          (at_counter', r) = get_u64 r
      in (\<lparr>at_publisher = Ident at_publisher', at_counter = at_counter'\<rparr>, r))"

definition put_thresholds :: "thresholds \<Rightarrow> writer \<Rightarrow> writer" where
  "put_thresholds t w =
     (let w = put_u64 (th_low_watermark_bytes t) w;
          w = put_u64 (th_high_watermark_bytes t) w;
          w = put_u64 (th_max_occupancy_bytes t) w;
          w = put_u64 (th_max_packets t) w;
          w = put_i64 (th_occupancy_stale_after t) w
      in w)"

definition get_thresholds :: "reader \<Rightarrow> thresholds \<times> reader" where
  "get_thresholds r =
     (let (th_low_watermark_bytes', r) = get_u64 r;
          (th_high_watermark_bytes', r) = get_u64 r;
          (th_max_occupancy_bytes', r) = get_u64 r;
          (th_max_packets', r) = get_u64 r;
          (th_occupancy_stale_after', r) = get_i64 r
      in (\<lparr>th_low_watermark_bytes = th_low_watermark_bytes', th_high_watermark_bytes = th_high_watermark_bytes', th_max_occupancy_bytes = th_max_occupancy_bytes', th_max_packets = th_max_packets', th_occupancy_stale_after = th_occupancy_stale_after'\<rparr>, r))"

definition put_class_binding :: "class_binding \<Rightarrow> writer \<Rightarrow> writer" where
  "put_class_binding b w =
     (let w = put_u64 (id_value (cb_id b)) w;
          w = put_u64 (ctr_value (cb_generation b)) w
      in w)"

definition get_class_binding :: "reader \<Rightarrow> class_binding \<times> reader" where
  "get_class_binding r =
     (let (cb_id', r) = get_u64 r;
          (cb_generation', r) = get_u64 r
      in (\<lparr>cb_id = Ident cb_id', cb_generation = Counter cb_generation'\<rparr>, r))"

definition put_pool_ref :: "pool_ref \<Rightarrow> writer \<Rightarrow> writer" where
  "put_pool_ref p w =
     (let w = put_u64 (id_value (pr_id p)) w;
          w = put_u64 (ctr_value (pr_generation p)) w;
          w = put_u64 (pr_capacity_bytes p) w
      in w)"

definition get_pool_ref :: "reader \<Rightarrow> pool_ref \<times> reader" where
  "get_pool_ref r =
     (let (pr_id', r) = get_u64 r;
          (pr_generation', r) = get_u64 r;
          (pr_capacity_bytes', r) = get_u64 r
      in (\<lparr>pr_id = Ident pr_id', pr_generation = Counter pr_generation', pr_capacity_bytes = pr_capacity_bytes'\<rparr>, r))"

definition put_occupancy_state :: "occupancy_state \<Rightarrow> writer \<Rightarrow> writer" where
  "put_occupancy_state s w =
     (let w = put_bool (oc_present s) w;
          w = put_u64 (oc_bytes s) w;
          w = put_u64 (oc_packets s) w;
          w = put_i64 (oc_observed_at s) w;
          w = put_u64 (ctr_value (oc_sequence s)) w;
          w = put_u64 (ctr_value (oc_epoch s)) w;
          w = put_provenance (oc_provenance s) w;
          w = put_u64 (ctr_value (oc_queue_generation s)) w;
          w = put_u8 (u8_of_freshness (oc_freshness s)) w;
          w = put_i64 (oc_age s) w
      in w)"

definition get_occupancy_state :: "reader \<Rightarrow> occupancy_state \<times> reader" where
  "get_occupancy_state r =
     (let (oc_present', r) = get_bool r;
          (oc_bytes', r) = get_u64 r;
          (oc_packets', r) = get_u64 r;
          (oc_observed_at', r) = get_i64 r;
          (oc_sequence', r) = get_u64 r;
          (oc_epoch', r) = get_u64 r;
          (oc_provenance', r) = get_provenance r;
          (oc_queue_generation', r) = get_u64 r;
          (oc_freshness', r) = get_u8 r;
          (oc_age', r) = get_i64 r
      in (\<lparr>oc_present = oc_present', oc_bytes = oc_bytes', oc_packets = oc_packets', oc_observed_at = oc_observed_at', oc_sequence = Counter oc_sequence', oc_epoch = Counter oc_epoch', oc_provenance = oc_provenance', oc_queue_generation = Counter oc_queue_generation', oc_freshness = freshness_of_u8 oc_freshness', oc_age = oc_age'\<rparr>, r))"

definition put_fence_state :: "fence_state \<Rightarrow> writer \<Rightarrow> writer" where
  "put_fence_state f w =
     (let w = put_bool (fs_fenced f) w;
          w = put_u64 (fs_token f) w;
          w = put_u64 (ctr_value (fs_epoch f)) w;
          w = put_u64 (id_value (fs_fenced_by f)) w;
          w = put_string (fs_reason f) w;
          w = put_i64 (fs_fenced_at f) w
      in w)"

definition get_fence_state :: "reader \<Rightarrow> fence_state \<times> reader" where
  "get_fence_state r =
     (let (fs_fenced', r) = get_bool r;
          (fs_token', r) = get_u64 r;
          (fs_epoch', r) = get_u64 r;
          (fs_fenced_by', r) = get_u64 r;
          (fs_reason', r) = get_string kMaxReasonChars r;
          (fs_fenced_at', r) = get_i64 r
      in (\<lparr>fs_fenced = fs_fenced', fs_token = fs_token', fs_epoch = Counter fs_epoch', fs_fenced_by = Ident fs_fenced_by', fs_reason = fs_reason', fs_fenced_at = fs_fenced_at'\<rparr>, r))"

definition put_drain_evidence :: "drain_evidence \<Rightarrow> writer \<Rightarrow> writer" where
  "put_drain_evidence e w =
     (let w = put_u32 (de_records e) w;
          w = put_bool (bo_request_accepted (de_backend e)) w;
          w = put_bool (bo_reported_drained (de_backend e)) w;
          w = put_u64 (id_value (bo_backend (de_backend e))) w;
          w = put_u64 (ctr_value (bo_backend_incarnation (de_backend e))) w;
          w = put_u64 (ctr_value (bo_epoch (de_backend e))) w;
          w = put_u64 (ctr_value (bo_sequence (de_backend e))) w;
          w = put_i64 (bo_observed_at (de_backend e)) w;
          w = put_bool (de_occupancy_zero_observed e) w;
          w = put_i64 (de_zero_observed_at e) w;
          w = put_u64 (ctr_value (de_zero_sequence e)) w;
          w = put_bool (de_revalidated e) w
      in w)"

text \<open>The reads that follow the record count, in \<^verbatim>\<open>get_drain_state\<close> and \<^verbatim>\<open>get_drain_evidence\<close> alike.\<close>

definition get_evidence_body :: "u32 \<Rightarrow> reader \<Rightarrow> drain_evidence \<times> reader" where
  "get_evidence_body rec r =
           (let (acc, r) = get_bool r;
                (drained, r) = get_bool r;
                (bk, r) = get_u64 r;
                (binc, r) = get_u64 r;
                (bep, r) = get_u64 r;
                (bsq, r) = get_u64 r;
                (bat, r) = get_i64 r;
                (zero, r) = get_bool r;
                (zat, r) = get_i64 r;
                (zsq, r) = get_u64 r;
                (rev, r) = get_bool r
            in (\<lparr>de_records = rec,
                   de_backend = \<lparr>bo_request_accepted = acc, bo_reported_drained = drained, bo_backend = Ident bk,
                     bo_backend_incarnation = Counter binc, bo_epoch = Counter bep, bo_sequence = Counter bsq,
                     bo_observed_at = bat\<rparr>,
                   de_occupancy_zero_observed = zero, de_zero_observed_at = zat, de_zero_sequence = Counter zsq,
                   de_revalidated = rev\<rparr>, r))"

definition get_drain_evidence :: "reader \<Rightarrow> drain_evidence result \<times> reader" where
  "get_drain_evidence r =
     (let (rec, r) = get_u32 r
      in if rd_failed r \<or> unat rec > kMaxDrainEvidenceRecords
         then (Inl (Status Code_malformed_input ''drain evidence record count is out of range''), r)
         else (let (evidence, r) = get_evidence_body rec r
               in if rd_failed r then (Inl (Status Code_malformed_input ''drain evidence is malformed''), r)
                  else (Inr evidence, r)))"

definition put_drain_state :: "drain_state \<Rightarrow> writer \<Rightarrow> writer" where
  "put_drain_state d w =
     (let w = put_u8 (u8_of_drain_phase (dr_phase d)) w;
          w = put_attempt (dr_attempt d) w;
          w = put_i64 (dr_requested_at d) w;
          w = put_provenance (dr_requested_by d) w
      in put_drain_evidence (dr_evidence d) w)"

definition get_drain_state :: "reader \<Rightarrow> drain_state \<times> reader" where
  "get_drain_state r =
     (let (phase, r) = get_u8 r;
          (attempt, r) = get_attempt r;
          (requested_at, r) = get_i64 r;
          (requested_by, r) = get_provenance r;
          (rec, r) = get_u32 r;
          drain = \<lparr>dr_phase = drain_phase_of_u8 phase, dr_attempt = attempt, dr_requested_at = requested_at,
                   dr_requested_by = requested_by, dr_evidence = no_evidence\<lparr>de_records := rec\<rparr>\<rparr>
      in if rd_failed r \<or> unat rec > kMaxDrainEvidenceRecords then (drain, r)
         else (let (evidence, r) = get_evidence_body rec r in (drain\<lparr>dr_evidence := evidence\<rparr>, r)))"

definition put_backend_applied :: "backend_applied \<Rightarrow> writer \<Rightarrow> writer" where
  "put_backend_applied a w =
     (let w = put_bool (ba_known a) w;
          w = put_u64 (id_value (ba_backend a)) w;
          w = put_u64 (ctr_value (ba_backend_incarnation a)) w;
          w = put_u64 (ctr_value (ba_epoch a)) w;
          w = put_u64 (ctr_value (ba_sequence a)) w;
          w = put_i64 (ba_applied_at a) w;
          w = put_class_binding (ba_applied_class a) w;
          w = put_u64 (ctr_value (ba_queue_generation a)) w;
          w = put_u64 (ba_applied_high_watermark_bytes a) w;
          w = put_u64 (ba_applied_max_occupancy_bytes a) w
      in w)"

definition get_backend_applied :: "reader \<Rightarrow> backend_applied \<times> reader" where
  "get_backend_applied r =
     (let (ba_known', r) = get_bool r;
          (ba_backend', r) = get_u64 r;
          (ba_backend_incarnation', r) = get_u64 r;
          (ba_epoch', r) = get_u64 r;
          (ba_sequence', r) = get_u64 r;
          (ba_applied_at', r) = get_i64 r;
          (ba_applied_class', r) = get_class_binding r;
          (ba_queue_generation', r) = get_u64 r;
          (ba_applied_high_watermark_bytes', r) = get_u64 r;
          (ba_applied_max_occupancy_bytes', r) = get_u64 r
      in (\<lparr>ba_known = ba_known', ba_backend = Ident ba_backend', ba_backend_incarnation = Counter ba_backend_incarnation', ba_epoch = Counter ba_epoch', ba_sequence = Counter ba_sequence', ba_applied_at = ba_applied_at', ba_applied_class = ba_applied_class', ba_queue_generation = Counter ba_queue_generation', ba_applied_high_watermark_bytes = ba_applied_high_watermark_bytes', ba_applied_max_occupancy_bytes = ba_applied_max_occupancy_bytes'\<rparr>, r))"

definition put_occupancy_sample :: "occupancy_sample \<Rightarrow> writer \<Rightarrow> writer" where
  "put_occupancy_sample s w =
     (let w = put_u64 (id_value (os_queue s)) w;
          w = put_u64 (ctr_value (os_queue_generation s)) w;
          w = put_u64 (os_bytes s) w;
          w = put_u64 (os_packets s) w;
          w = put_u64 (ctr_value (os_epoch s)) w;
          w = put_u64 (ctr_value (os_sequence s)) w;
          w = put_i64 (os_observed_at s) w;
          w = put_provenance (os_provenance s) w
      in w)"

definition get_occupancy_sample :: "reader \<Rightarrow> occupancy_sample \<times> reader" where
  "get_occupancy_sample r =
     (let (os_queue', r) = get_u64 r;
          (os_queue_generation', r) = get_u64 r;
          (os_bytes', r) = get_u64 r;
          (os_packets', r) = get_u64 r;
          (os_epoch', r) = get_u64 r;
          (os_sequence', r) = get_u64 r;
          (os_observed_at', r) = get_i64 r;
          (os_provenance', r) = get_provenance r
      in (\<lparr>os_queue = Ident os_queue', os_queue_generation = Counter os_queue_generation', os_bytes = os_bytes', os_packets = os_packets', os_epoch = Counter os_epoch', os_sequence = Counter os_sequence', os_observed_at = os_observed_at', os_provenance = os_provenance'\<rparr>, r))"

text \<open>The elements of the counted sequences inside resource and queue records.\<close>

definition put_grant :: "authority_grant \<Rightarrow> writer \<Rightarrow> writer" where
  "put_grant g w =
     (let w = put_u64 (id_value (ag_owner g)) w;
          w = put_u32 (ag_capabilities g) w
      in w)"

definition get_grant :: "reader \<Rightarrow> authority_grant \<times> reader" where
  "get_grant r =
     (let (ag_owner', r) = get_u64 r;
          (ag_capabilities', r) = get_u32 r
      in (\<lparr>ag_owner = Ident ag_owner', ag_capabilities = ag_capabilities'\<rparr>, r))"

definition put_class :: "scheduling_class_def \<Rightarrow> writer \<Rightarrow> writer" where
  "put_class c w =
     (let w = put_u64 (id_value (sc_id c)) w;
          w = put_u64 (id_value (sc_resource c)) w;
          w = put_string (sc_name c) w;
          w = put_u32 (sc_priority c) w;
          w = put_u32 (qos_priority_code (sc_qos c)) w;
          w = put_u32 (qos_traffic_class (sc_qos c)) w;
          w = put_string (qos_group (sc_qos c)) w;
          w = put_u64 (ctr_value (sc_generation c)) w;
          w = put_provenance (sc_declared_by c) w
      in w)"

definition get_class :: "reader \<Rightarrow> scheduling_class_def \<times> reader" where
  "get_class r =
     (let (i, r) = get_u64 r;
          (res, r) = get_u64 r;
          (nm, r) = get_string kMaxNameChars r;
          (prio, r) = get_u32 r;
          (pc, r) = get_u32 r;
          (tc, r) = get_u32 r;
          (grp, r) = get_string kMaxNameChars r;
          (gen, r) = get_u64 r;
          (by, r) = get_provenance r
      in (\<lparr>sc_id = Ident i, sc_resource = Ident res, sc_name = nm, sc_priority = prio, sc_qos = \<lparr>qos_priority_code = pc, qos_traffic_class = tc, qos_group = grp\<rparr>, sc_generation = Counter gen, sc_declared_by = by\<rparr>, r))"

definition put_pool :: "buffer_pool_def \<Rightarrow> writer \<Rightarrow> writer" where
  "put_pool p w =
     (let w = put_u64 (id_value (bp_id p)) w;
          w = put_u64 (id_value (bp_resource p)) w;
          w = put_string (bp_name p) w;
          w = put_u64 (bp_capacity_bytes p) w;
          w = put_u64 (ctr_value (bp_generation p)) w;
          w = put_provenance (bp_declared_by p) w
      in w)"

definition get_pool :: "reader \<Rightarrow> buffer_pool_def \<times> reader" where
  "get_pool r =
     (let (bp_id', r) = get_u64 r;
          (bp_resource', r) = get_u64 r;
          (bp_name', r) = get_string kMaxNameChars r;
          (bp_capacity_bytes', r) = get_u64 r;
          (bp_generation', r) = get_u64 r;
          (bp_declared_by', r) = get_provenance r
      in (\<lparr>bp_id = Ident bp_id', bp_resource = Ident bp_resource', bp_name = bp_name', bp_capacity_bytes = bp_capacity_bytes', bp_generation = Counter bp_generation', bp_declared_by = bp_declared_by'\<rparr>, r))"

definition put_backend :: "backend_incarnation \<Rightarrow> writer \<Rightarrow> writer" where
  "put_backend b w =
     (let w = put_u64 (id_value (bi_backend b)) w;
          w = put_u64 (id_value (bi_resource b)) w;
          w = put_u64 (ctr_value (bi_incarnation b)) w;
          w = put_u64 (ctr_value (bi_epoch b)) w;
          w = put_i64 (bi_registered_at b) w;
          w = put_bool (bi_alive b) w
      in w)"

definition get_backend :: "reader \<Rightarrow> backend_incarnation \<times> reader" where
  "get_backend r =
     (let (bi_backend', r) = get_u64 r;
          (bi_resource', r) = get_u64 r;
          (bi_incarnation', r) = get_u64 r;
          (bi_epoch', r) = get_u64 r;
          (bi_registered_at', r) = get_i64 r;
          (bi_alive', r) = get_bool r
      in (\<lparr>bi_backend = Ident bi_backend', bi_resource = Ident bi_resource', bi_incarnation = Counter bi_incarnation', bi_epoch = Counter bi_epoch', bi_registered_at = bi_registered_at', bi_alive = bi_alive'\<rparr>, r))"

definition put_memo :: "attempt_memo \<Rightarrow> writer \<Rightarrow> writer" where
  "put_memo m w =
     (let w = put_attempt (am_attempt m) w;
          w = put_u64 (am_fingerprint m) w;
          w = put_u16 (u16_of_mutation_kind (am_kind m)) w;
          w = put_u16 (u16_of_code (am_outcome m)) w;
          w = put_u64 (ctr_value (am_generation m)) w;
          w = put_bool (am_durable m) w
      in w)"

definition get_memo :: "reader \<Rightarrow> attempt_memo \<times> reader" where
  "get_memo r =
     (let (am_attempt', r) = get_attempt r;
          (am_fingerprint', r) = get_u64 r;
          (am_kind', r) = get_u16 r;
          (am_outcome', r) = get_u16 r;
          (am_generation', r) = get_u64 r;
          (am_durable', r) = get_bool r
      in (\<lparr>am_attempt = am_attempt', am_fingerprint = am_fingerprint', am_kind = mutation_kind_of_u16 am_kind', am_outcome = code_of_u16 am_outcome', am_generation = Counter am_generation', am_durable = am_durable'\<rparr>, r))"

definition put_declare_queue :: "declare_queue_payload \<Rightarrow> writer \<Rightarrow> writer" where
  "put_declare_queue d w =
     (let w = put_u64 (id_value (dq_resource d)) w;
          w = put_string (dq_name d) w;
          w = put_u32 (dq_depth d) w;
          w = put_class_binding (dq_cls d) w;
          w = put_pool_ref (dq_pool d) w;
          w = put_thresholds (dq_thresholds d) w
      in w)"

definition get_declare_queue :: "reader \<Rightarrow> declare_queue_payload \<times> reader" where
  "get_declare_queue r =
     (let (dq_resource', r) = get_u64 r;
          (dq_name', r) = get_string kMaxNameChars r;
          (dq_depth', r) = get_u32 r;
          (dq_cls', r) = get_class_binding r;
          (dq_pool', r) = get_pool_ref r;
          (dq_thresholds', r) = get_thresholds r
      in (\<lparr>dq_resource = Ident dq_resource', dq_name = dq_name', dq_depth = dq_depth', dq_cls = dq_cls', dq_pool = dq_pool', dq_thresholds = dq_thresholds'\<rparr>, r))"

definition put_backend_registration :: "backend_registration_payload \<Rightarrow> writer \<Rightarrow> writer" where
  "put_backend_registration b w =
     (let w = put_u64 (id_value (br_backend b)) w;
          w = put_u64 (id_value (br_resource b)) w;
          w = put_u64 (ctr_value (br_incarnation b)) w
      in w)"

definition get_backend_registration :: "reader \<Rightarrow> backend_registration_payload \<times> reader" where
  "get_backend_registration r =
     (let (br_backend', r) = get_u64 r;
          (br_resource', r) = get_u64 r;
          (br_incarnation', r) = get_u64 r
      in (\<lparr>br_backend = Ident br_backend', br_resource = Ident br_resource', br_incarnation = Counter br_incarnation'\<rparr>, r))"

definition put_queue_definition :: "queue_definition \<Rightarrow> writer \<Rightarrow> writer" where
  "put_queue_definition d w =
     (let w = put_u64 (id_value (qd_id d)) w;
          w = put_u64 (id_value (qd_resource d)) w;
          w = put_string (qd_name d) w;
          w = put_u32 (qd_depth d) w;
          w = put_class_binding (qd_cls d) w;
          w = put_pool_ref (qd_pool d) w;
          w = put_thresholds (qd_thresholds d) w;
          w = put_u64 (id_value (qd_owner d)) w;
          w = put_u64 (ctr_value (qd_generation d)) w;
          w = put_provenance (qd_declared_by d) w;
          w = put_i64 (qd_declared_at d) w
      in w)"

definition get_queue_definition :: "reader \<Rightarrow> queue_definition \<times> reader" where
  "get_queue_definition r =
     (let (qd_id', r) = get_u64 r;
          (qd_resource', r) = get_u64 r;
          (qd_name', r) = get_string kMaxNameChars r;
          (qd_depth', r) = get_u32 r;
          (qd_cls', r) = get_class_binding r;
          (qd_pool', r) = get_pool_ref r;
          (qd_thresholds', r) = get_thresholds r;
          (qd_owner', r) = get_u64 r;
          (qd_generation', r) = get_u64 r;
          (qd_declared_by', r) = get_provenance r;
          (qd_declared_at', r) = get_i64 r
      in (\<lparr>qd_id = Ident qd_id', qd_resource = Ident qd_resource', qd_name = qd_name', qd_depth = qd_depth', qd_cls = qd_cls', qd_pool = qd_pool', qd_thresholds = qd_thresholds', qd_owner = Ident qd_owner', qd_generation = Counter qd_generation', qd_declared_by = qd_declared_by', qd_declared_at = qd_declared_at'\<rparr>, r))"

definition put_seq :: "('a \<Rightarrow> writer \<Rightarrow> writer) \<Rightarrow> 'a list \<Rightarrow> writer \<Rightarrow> writer" where
  "put_seq put xs w = put_all put xs (put_u32 (of_nat (length xs)) w)"

text \<open>\<^verbatim>\<open>writer.failed() ? Bytes{} : writer.take()\<close>.\<close>

definition take_or_empty :: "writer \<Rightarrow> bytes" where
  "take_or_empty w = (if w_failed w then [] else w_buffer w)"

section \<open>Epoch state\<close>

record epoch_state =
  es_boot :: boot_id
  es_epoch :: Epoch
  es_coordinator_incarnation :: Incarnation

definition encode_epoch_state :: "epoch_state \<Rightarrow> bytes" where
  "encode_epoch_state s =
     (let w = new_writer 256;
          w = put_u64 (boot_hi (es_boot s)) w;
          w = put_u64 (boot_lo (es_boot s)) w;
          w = put_u64 (ctr_value (es_epoch s)) w;
          w = put_u64 (ctr_value (es_coordinator_incarnation s)) w
      in w_buffer w)"

definition decode_epoch_state :: "bytes \<Rightarrow> epoch_state result" where
  "decode_epoch_state data =
     (let r = new_reader data;
          (hi, r) = get_u64 r;
          (lo, r) = get_u64 r;
          (ep, r) = get_u64 r;
          (inc, r) = get_u64 r
      in if rd_failed r \<or> remaining r \<noteq> 0
         then Inl (Status Code_malformed_input ''epoch state record is malformed'')
         else Inr \<lparr>es_boot = \<lparr>boot_hi = hi, boot_lo = lo\<rparr>, es_epoch = Counter ep,
                   es_coordinator_incarnation = Counter inc\<rparr>)"

section \<open>Resource state\<close>

definition encode_resource_state :: "resource_record \<Rightarrow> bytes" where
  "encode_resource_state x =
     (let w = new_writer kMaxJournalRecordBytes;
          w = put_u64 (id_value (rr_id x)) w;
          w = put_string (rr_name x) w;
          w = put_u64 (id_value (rr_owner x)) w;
          w = put_u64 (ctr_value (rr_generation x)) w;
          w = put_u64 (ctr_value (rr_epoch x)) w;
          w = put_u64 (id_value (av_owner (rr_authority x))) w;
          w = put_u64 (ctr_value (av_epoch (rr_authority x))) w;
          w = put_seq put_grant (av_grants (rr_authority x)) w;
          w = put_seq put_class (rr_classes x) w;
          w = put_seq put_pool (rr_pools x) w;
          w = put_seq put_backend (rr_backends x) w;
          w = put_u8 (rr_applicability x) w;
          w = put_provenance (rr_declared_by x) w;
          w = put_i64 (rr_declared_at x) w;
          w = put_u64 (of_nat (rr_queue_count x)) w
      in take_or_empty w)"

text \<open>A counted sequence with its bound: \<^verbatim>\<open>None\<close> stands for the early return with the given message.\<close>

definition get_seq :: "(reader \<Rightarrow> 'a \<times> reader) \<Rightarrow> nat \<Rightarrow> reader \<Rightarrow> ('a list \<times> reader) option" where
  "get_seq get bound r =
     (let (count, r) = get_u32 r
      in if rd_failed r \<or> unat count > bound then None else Some (get_n get (unat count) r))"

definition decode_resource_tail ::
  "resource_record \<Rightarrow> reader \<Rightarrow> resource_record result" where
  "decode_resource_tail x r =
     (case get_seq get_backend kMaxResources r of
        None \<Rightarrow> Inl (Status Code_malformed_input ''resource backends are out of range'')
      | Some (backends, r) \<Rightarrow>
          (let (app, r) = get_u8 r;
               (by, r) = get_provenance r;
               (declared, r) = get_i64 r;
               (qc, r) = get_u64 r
           in if rd_failed r \<or> remaining r \<noteq> 0
              then Inl (Status Code_malformed_input ''resource state record is malformed'')
              else Inr (x\<lparr>rr_backends := backends, rr_applicability := app, rr_declared_by := by,
                          rr_declared_at := declared, rr_queue_count := unat qc\<rparr>)))"

definition decode_resource_state :: "bytes \<Rightarrow> resource_record result" where
  "decode_resource_state data =
     (let r = new_reader data;
          (i, r) = get_u64 r;
          (nm, r) = get_string kMaxNameChars r;
          (own, r) = get_u64 r;
          (gen, r) = get_u64 r;
          (ep, r) = get_u64 r;
          (aown, r) = get_u64 r;
          (aep, r) = get_u64 r
      in case get_seq get_grant kMaxGrantsPerResource r of
           None \<Rightarrow> Inl (Status Code_malformed_input ''resource grants are out of range'')
         | Some (grants, r) \<Rightarrow>
           (case get_seq get_class kMaxClassesPerResource r of
              None \<Rightarrow> Inl (Status Code_malformed_input ''resource classes are out of range'')
            | Some (classes, r) \<Rightarrow>
              (case get_seq get_pool kMaxPoolsPerResource r of
                 None \<Rightarrow> Inl (Status Code_malformed_input ''resource pools are out of range'')
               | Some (pools, r) \<Rightarrow>
                 decode_resource_tail
                   \<lparr>rr_id = Ident i, rr_name = nm, rr_owner = Ident own, rr_generation = Counter gen,
                    rr_epoch = Counter ep,
                    rr_authority = \<lparr>av_resource = Ident 0, av_owner = Ident aown, av_epoch = Counter aep,
                                    av_grants = grants\<rparr>,
                    rr_classes = classes, rr_pools = pools, rr_backends = [], rr_applicability = App_none,
                    rr_declared_by = no_provenance, rr_declared_at = 0, rr_queue_count = 0\<rparr> r)))"

section \<open>Queue state\<close>

definition encode_queue_state :: "queue_record \<Rightarrow> bytes" where
  "encode_queue_state q =
     (let w = new_writer kMaxJournalRecordBytes;
          w = put_queue_definition (qr_def q) w;
          w = put_u8 (u8_of_lifecycle (qr_lifecycle q)) w;
          w = put_u8 (qr_applicability q) w;
          w = put_string (qr_failure_reason q) w;
          w = put_occupancy_state (qr_occupancy q) w;
          w = put_fence_state (qr_fence q) w;
          w = put_drain_state (qr_drain q) w;
          w = put_backend_applied (qr_applied q) w;
          w = put_u64 (qr_mutation_count q) w;
          w = put_u64 (qr_replayed_count q) w;
          w = put_u64 (qr_rejected_count q) w;
          w = put_u64 (qr_overflow_events q) w;
          w = put_u64 (qr_staleness_events q) w;
          w = put_attempt (qr_last_attempt q) w;
          w = put_seq put_memo (qr_memo q) w
      in take_or_empty w)"

definition decode_queue_state :: "bytes \<Rightarrow> queue_record result" where
  "decode_queue_state data =
     (let r = new_reader data;
          (d, r) = get_queue_definition r;
          (lc, r) = get_u8 r;
          (app, r) = get_u8 r;
          (why, r) = get_string kMaxReasonChars r;
          (occ, r) = get_occupancy_state r;
          (fence, r) = get_fence_state r;
          (drain, r) = get_drain_state r;
          (applied, r) = get_backend_applied r;
          (mc, r) = get_u64 r;
          (rc, r) = get_u64 r;
          (jc, r) = get_u64 r;
          (oe, r) = get_u64 r;
          (se, r) = get_u64 r;
          (la, r) = get_attempt r
      in case get_seq get_memo kMaxAttemptMemoPerQueue r of
           None \<Rightarrow> Inl (Status Code_malformed_input ''queue memo is out of range'')
         | Some (memo, r) \<Rightarrow>
             (if rd_failed r \<or> remaining r \<noteq> 0
              then Inl (Status Code_malformed_input ''queue state record is malformed'')
              else Inr \<lparr>qr_def = d, qr_lifecycle = lifecycle_of_u8 lc, qr_applicability = app,
                        qr_occupancy = occ, qr_fence = fence, qr_drain = drain, qr_applied = applied,
                        qr_mutation_count = mc, qr_replayed_count = rc, qr_rejected_count = jc,
                        qr_overflow_events = oe, qr_staleness_events = se, qr_last_attempt = la,
                        qr_last_status = success, qr_last_rule = ''unset'', qr_failure_reason = why,
                        qr_memo = memo\<rparr>))"

section \<open>Mutations\<close>

definition tag_of :: "mutation_payload \<Rightarrow> u8" where
  "tag_of payload = (case payload of
       Pl_monostate \<Rightarrow> 0 | Pl_declare_queue _ \<Rightarrow> 1 | Pl_rebind_class _ \<Rightarrow> 2 | Pl_thresholds _ \<Rightarrow> 3
     | Pl_ownership _ \<Rightarrow> 4 | Pl_occupancy _ \<Rightarrow> 5 | Pl_drain_evidence _ \<Rightarrow> 6 | Pl_fence _ _ \<Rightarrow> 7
     | Pl_backend_ack _ \<Rightarrow> 8 | Pl_backend_registration _ \<Rightarrow> 9)"

definition put_payload :: "mutation_payload \<Rightarrow> writer \<Rightarrow> writer" where
  "put_payload payload w = (case payload of
       Pl_declare_queue d \<Rightarrow> put_declare_queue d w
     | Pl_rebind_class cls \<Rightarrow> put_class_binding cls w
     | Pl_thresholds th \<Rightarrow> put_thresholds th w
     | Pl_ownership own \<Rightarrow> put_u64 (id_value own) w
     | Pl_occupancy sample \<Rightarrow> put_occupancy_sample sample w
     | Pl_drain_evidence e \<Rightarrow> put_drain_evidence e w
     | Pl_fence fence reason \<Rightarrow> put_string reason (put_bool fence w)
     | Pl_backend_ack applied \<Rightarrow> put_backend_applied applied w
     | Pl_backend_registration b \<Rightarrow> put_backend_registration b w
     | Pl_monostate \<Rightarrow> w)"

definition encode_mutation :: "mutation_request \<Rightarrow> bytes" where
  "encode_mutation m =
     (let w = new_writer kMaxJournalRecordBytes;
          w = put_attempt (mr_attempt m) w;
          w = put_u16 (u16_of_mutation_kind (mr_kind m)) w;
          w = put_u64 (id_value (mr_queue m)) w;
          w = put_u64 (ctr_value (mr_expected_generation m)) w;
          w = put_u64 (ctr_value (mr_expected_epoch m)) w;
          w = put_u64 (id_value (mr_principal m)) w;
          w = put_provenance (mr_provenance m) w;
          w = put_u8 (tag_of (mr_payload m)) w;
          w = put_payload (mr_payload m) w
      in take_or_empty w)"

definition get_payload :: "u8 \<Rightarrow> reader \<Rightarrow> mutation_payload result \<times> reader" where
  "get_payload tag r =
     (if tag = 0 then (Inr Pl_monostate, r)
      else if tag = 1 then (let (d, r) = get_declare_queue r in (Inr (Pl_declare_queue d), r))
      else if tag = 2 then (let (cls, r) = get_class_binding r in (Inr (Pl_rebind_class cls), r))
      else if tag = 3 then (let (th, r) = get_thresholds r in (Inr (Pl_thresholds th), r))
      else if tag = 4 then (let (own, r) = get_u64 r in (Inr (Pl_ownership (Ident own)), r))
      else if tag = 5 then (let (sample, r) = get_occupancy_sample r in (Inr (Pl_occupancy sample), r))
      else if tag = 6
      then (case get_drain_evidence r of (Inl e, r) \<Rightarrow> (Inl e, r) | (Inr ev, r) \<Rightarrow> (Inr (Pl_drain_evidence ev), r))
      else if tag = 7
      then (let (fence, r) = get_bool r; (reason, r) = get_string kMaxReasonChars r
            in (Inr (Pl_fence fence reason), r))
      else if tag = 8 then (let (applied, r) = get_backend_applied r in (Inr (Pl_backend_ack applied), r))
      else if tag = 9 then (let (b, r) = get_backend_registration r in (Inr (Pl_backend_registration b), r))
      else (Inl (Status Code_malformed_input ''mutation payload tag is unknown''), r))"

definition decode_mutation :: "bytes \<Rightarrow> mutation_request result" where
  "decode_mutation data =
     (let r = new_reader data;
          (attempt, r) = get_attempt r;
          (kind, r) = get_u16 r;
          (queue, r) = get_u64 r;
          (gen, r) = get_u64 r;
          (ep, r) = get_u64 r;
          (who, r) = get_u64 r;
          (prov, r) = get_provenance r;
          (tag, r) = get_u8 r
      in if rd_failed r then Inl (Status Code_malformed_input ''mutation record is truncated'')
         else (case get_payload tag r of
                 (Inl e, r) \<Rightarrow> Inl e
               | (Inr payload, r) \<Rightarrow>
                   (if rd_failed r \<or> remaining r \<noteq> 0
                    then Inl (Status Code_malformed_input ''mutation record is malformed'')
                    else Inr \<lparr>mr_attempt = attempt, mr_kind = mutation_kind_of_u16 kind,
                              mr_queue = Ident queue, mr_expected_generation = Counter gen,
                              mr_expected_epoch = Counter ep, mr_principal = Ident who,
                              mr_provenance = prov, mr_payload = payload\<rparr>)))"

section \<open>The parts as codecs\<close>

lemmas canonical_defs = lifecycle_canonical_def freshness_canonical_def drain_phase_canonical_def
  mutation_kind_canonical_def code_canonical_def

lemma reason_name: "reason_rt str \<Longrightarrow> name_fits str"
  by (simp add: reason_rt_def name_fits_def limit_defs)

definition enc_provenance :: "provenance \<Rightarrow> bytes" where
  "enc_provenance p = le_put 8 (id_value (pv_publisher p)) @
     le_put 8 (id_value (pv_node p)) @
     le_put 8 (ctr_value (pv_incarnation p)) @
     le_put 8 (ctr_value (pv_epoch p)) @
     le_put 8 (ctr_value (pv_sequence p)) @
     le_put 8 (boot_hi (pv_boot p)) @
     le_put 8 (boot_lo (pv_boot p))"

lemma get_provenance_enc:
  "get_provenance (rd pre (enc_provenance p @ rest)) = (p, rd (pre @ enc_provenance p) rest)"
  by (cases p) (simp add: get_provenance_def enc_provenance_def Let_def scalar_get  canonical_defs)

interpretation provenancec: codec put_provenance get_provenance enc_provenance "\<lambda>_. True" "\<lambda>_. True"
  by (unfold_locales; (rule get_provenance_enc | auto simp: put_provenance_def enc_provenance_def Let_def scalar_put reason_name))

definition enc_attempt :: "attempt_id \<Rightarrow> bytes" where
  "enc_attempt a = le_put 8 (id_value (at_publisher a)) @
     le_put 8 (at_counter a)"

lemma get_attempt_enc:
  "get_attempt (rd pre (enc_attempt a @ rest)) = (a, rd (pre @ enc_attempt a) rest)"
  by (cases a) (simp add: get_attempt_def enc_attempt_def Let_def scalar_get  canonical_defs)

interpretation attemptc: codec put_attempt get_attempt enc_attempt "\<lambda>_. True" "\<lambda>_. True"
  by (unfold_locales; (rule get_attempt_enc | auto simp: put_attempt_def enc_attempt_def Let_def scalar_put reason_name))

definition enc_thresholds :: "thresholds \<Rightarrow> bytes" where
  "enc_thresholds t = le_put 8 (th_low_watermark_bytes t) @
     le_put 8 (th_high_watermark_bytes t) @
     le_put 8 (th_max_occupancy_bytes t) @
     le_put 8 (th_max_packets t) @
     enc_i64 (th_occupancy_stale_after t)"

definition rt_thresholds :: "thresholds \<Rightarrow> bool" where
  "rt_thresholds t \<longleftrightarrow> in_i64 (th_occupancy_stale_after t)"

lemma get_thresholds_enc:
  "rt_thresholds t \<Longrightarrow> get_thresholds (rd pre (enc_thresholds t @ rest)) = (t, rd (pre @ enc_thresholds t) rest)"
  by (cases t) (simp add: get_thresholds_def enc_thresholds_def Let_def scalar_get  rt_thresholds_def canonical_defs)

interpretation thresholdsc: codec put_thresholds get_thresholds enc_thresholds "\<lambda>_. True" rt_thresholds
  by (unfold_locales; (erule get_thresholds_enc | auto simp: put_thresholds_def enc_thresholds_def Let_def scalar_put reason_name))

definition enc_class_binding :: "class_binding \<Rightarrow> bytes" where
  "enc_class_binding b = le_put 8 (id_value (cb_id b)) @
     le_put 8 (ctr_value (cb_generation b))"

lemma get_class_binding_enc:
  "get_class_binding (rd pre (enc_class_binding b @ rest)) = (b, rd (pre @ enc_class_binding b) rest)"
  by (cases b) (simp add: get_class_binding_def enc_class_binding_def Let_def scalar_get  canonical_defs)

interpretation class_bindingc: codec put_class_binding get_class_binding enc_class_binding "\<lambda>_. True" "\<lambda>_. True"
  by (unfold_locales; (rule get_class_binding_enc | auto simp: put_class_binding_def enc_class_binding_def Let_def scalar_put reason_name))

definition enc_pool_ref :: "pool_ref \<Rightarrow> bytes" where
  "enc_pool_ref p = le_put 8 (id_value (pr_id p)) @
     le_put 8 (ctr_value (pr_generation p)) @
     le_put 8 (pr_capacity_bytes p)"

lemma get_pool_ref_enc:
  "get_pool_ref (rd pre (enc_pool_ref p @ rest)) = (p, rd (pre @ enc_pool_ref p) rest)"
  by (cases p) (simp add: get_pool_ref_def enc_pool_ref_def Let_def scalar_get  canonical_defs)

interpretation pool_refc: codec put_pool_ref get_pool_ref enc_pool_ref "\<lambda>_. True" "\<lambda>_. True"
  by (unfold_locales; (rule get_pool_ref_enc | auto simp: put_pool_ref_def enc_pool_ref_def Let_def scalar_put reason_name))

definition enc_occupancy_state :: "occupancy_state \<Rightarrow> bytes" where
  "enc_occupancy_state s = enc_bool (oc_present s) @
     le_put 8 (oc_bytes s) @
     le_put 8 (oc_packets s) @
     enc_i64 (oc_observed_at s) @
     le_put 8 (ctr_value (oc_sequence s)) @
     le_put 8 (ctr_value (oc_epoch s)) @
     enc_provenance (oc_provenance s) @
     le_put 8 (ctr_value (oc_queue_generation s)) @
     enc_u8 (u8_of_freshness (oc_freshness s)) @
     enc_i64 (oc_age s)"

definition rt_occupancy_state :: "occupancy_state \<Rightarrow> bool" where
  "rt_occupancy_state s \<longleftrightarrow> in_i64 (oc_observed_at s) \<and> freshness_canonical (oc_freshness s) \<and> in_i64 (oc_age s)"

lemma get_occupancy_state_enc:
  "rt_occupancy_state s \<Longrightarrow> get_occupancy_state (rd pre (enc_occupancy_state s @ rest)) = (s, rd (pre @ enc_occupancy_state s) rest)"
  by (cases s) (simp add: get_occupancy_state_def enc_occupancy_state_def Let_def scalar_get provenancec.get_enc rt_occupancy_state_def canonical_defs)

interpretation occupancy_statec: codec put_occupancy_state get_occupancy_state enc_occupancy_state "\<lambda>_. True" rt_occupancy_state
  by (unfold_locales; (erule get_occupancy_state_enc | auto simp: put_occupancy_state_def enc_occupancy_state_def Let_def scalar_put provenancec.put_limit provenancec.put_view reason_name))

definition enc_fence_state :: "fence_state \<Rightarrow> bytes" where
  "enc_fence_state f = enc_bool (fs_fenced f) @
     le_put 8 (fs_token f) @
     le_put 8 (ctr_value (fs_epoch f)) @
     le_put 8 (id_value (fs_fenced_by f)) @
     enc_string (fs_reason f) @
     enc_i64 (fs_fenced_at f)"

definition fits_fence_state :: "fence_state \<Rightarrow> bool" where
  "fits_fence_state f \<longleftrightarrow> name_fits (fs_reason f)"

definition rt_fence_state :: "fence_state \<Rightarrow> bool" where
  "rt_fence_state f \<longleftrightarrow> reason_rt (fs_reason f) \<and> in_i64 (fs_fenced_at f)"

lemma get_fence_state_enc:
  "rt_fence_state f \<Longrightarrow> get_fence_state (rd pre (enc_fence_state f @ rest)) = (f, rd (pre @ enc_fence_state f) rest)"
  by (cases f) (simp add: get_fence_state_def enc_fence_state_def Let_def scalar_get  rt_fence_state_def canonical_defs)

interpretation fence_statec: codec put_fence_state get_fence_state enc_fence_state fits_fence_state rt_fence_state
  by (unfold_locales; (erule get_fence_state_enc | auto simp: put_fence_state_def enc_fence_state_def fits_fence_state_def Let_def scalar_put rt_fence_state_def reason_name))

definition enc_drain_evidence :: "drain_evidence \<Rightarrow> bytes" where
  "enc_drain_evidence e = le_put 4 (de_records e) @
     enc_bool (bo_request_accepted (de_backend e)) @
     enc_bool (bo_reported_drained (de_backend e)) @
     le_put 8 (id_value (bo_backend (de_backend e))) @
     le_put 8 (ctr_value (bo_backend_incarnation (de_backend e))) @
     le_put 8 (ctr_value (bo_epoch (de_backend e))) @
     le_put 8 (ctr_value (bo_sequence (de_backend e))) @
     enc_i64 (bo_observed_at (de_backend e)) @
     enc_bool (de_occupancy_zero_observed e) @
     enc_i64 (de_zero_observed_at e) @
     le_put 8 (ctr_value (de_zero_sequence e)) @
     enc_bool (de_revalidated e)"

definition rt_drain_evidence :: "drain_evidence \<Rightarrow> bool" where
  "rt_drain_evidence e \<longleftrightarrow> in_i64 (bo_observed_at (de_backend e)) \<and> in_i64 (de_zero_observed_at e)"

lemma w_limit_put_drain_evidence: "w_limit (put_drain_evidence e w) = w_limit w"
  by (simp add: put_drain_evidence_def enc_drain_evidence_def Let_def scalar_put)

lemma w_view_put_drain_evidence: "w_view (put_drain_evidence e w) = w_app (w_limit w) (w_view w) (enc_drain_evidence e)"
  by (simp add: put_drain_evidence_def enc_drain_evidence_def Let_def scalar_put)

lemma get_evidence_body_enc:
  "rt_drain_evidence e \<Longrightarrow>
   \<exists>bs. enc_drain_evidence e = le_put 4 (de_records e) @ bs
     \<and> (\<forall>pre rest. get_evidence_body (de_records e) (rd pre (bs @ rest)) = (e, rd (pre @ bs) rest))"
  by (cases e, cases "de_backend e")
     (auto simp: enc_drain_evidence_def get_evidence_body_def Let_def scalar_get rt_drain_evidence_def)

definition enc_drain_state :: "drain_state \<Rightarrow> bytes" where
  "enc_drain_state d = enc_u8 (u8_of_drain_phase (dr_phase d)) @ enc_attempt (dr_attempt d) @
     enc_i64 (dr_requested_at d) @ enc_provenance (dr_requested_by d) @ enc_drain_evidence (dr_evidence d)"

definition evidence_count_ok :: "drain_evidence \<Rightarrow> bool" where
  "evidence_count_ok e \<longleftrightarrow> unat (de_records e) \<le> kMaxDrainEvidenceRecords"

definition rt_drain_state :: "drain_state \<Rightarrow> bool" where
  "rt_drain_state d \<longleftrightarrow> drain_phase_canonical (dr_phase d) \<and> in_i64 (dr_requested_at d)
     \<and> rt_drain_evidence (dr_evidence d) \<and> evidence_count_ok (dr_evidence d)"

lemma get_drain_state_enc:
  assumes "rt_drain_state d"
  shows "get_drain_state (rd pre (enc_drain_state d @ rest)) = (d, rd (pre @ enc_drain_state d) rest)"
proof -
  obtain bs where bs: "enc_drain_evidence (dr_evidence d) = le_put 4 (de_records (dr_evidence d)) @ bs"
      "\<And>pre rest. get_evidence_body (de_records (dr_evidence d)) (rd pre (bs @ rest)) = (dr_evidence d, rd (pre @ bs) rest)"
    using get_evidence_body_enc [of "dr_evidence d"] assms by (auto simp: rt_drain_state_def)
  have "\<not> unat (de_records (dr_evidence d)) > kMaxDrainEvidenceRecords"
    using assms by (simp add: rt_drain_state_def evidence_count_ok_def)
  then show ?thesis
    using assms bs
    by (simp add: get_drain_state_def enc_drain_state_def Let_def scalar_get attemptc.get_enc provenancec.get_enc
        rt_drain_state_def canonical_defs)
qed

interpretation drain_statec: codec put_drain_state get_drain_state enc_drain_state "\<lambda>_. True" rt_drain_state
  by (unfold_locales; (erule get_drain_state_enc | auto simp: put_drain_state_def enc_drain_state_def Let_def scalar_put attemptc.put_limit attemptc.put_view
 provenancec.put_limit provenancec.put_view w_limit_put_drain_evidence w_view_put_drain_evidence))

definition enc_backend_applied :: "backend_applied \<Rightarrow> bytes" where
  "enc_backend_applied a = enc_bool (ba_known a) @
     le_put 8 (id_value (ba_backend a)) @
     le_put 8 (ctr_value (ba_backend_incarnation a)) @
     le_put 8 (ctr_value (ba_epoch a)) @
     le_put 8 (ctr_value (ba_sequence a)) @
     enc_i64 (ba_applied_at a) @
     enc_class_binding (ba_applied_class a) @
     le_put 8 (ctr_value (ba_queue_generation a)) @
     le_put 8 (ba_applied_high_watermark_bytes a) @
     le_put 8 (ba_applied_max_occupancy_bytes a)"

definition rt_backend_applied :: "backend_applied \<Rightarrow> bool" where
  "rt_backend_applied a \<longleftrightarrow> in_i64 (ba_applied_at a)"

lemma get_backend_applied_enc:
  "rt_backend_applied a \<Longrightarrow> get_backend_applied (rd pre (enc_backend_applied a @ rest)) = (a, rd (pre @ enc_backend_applied a) rest)"
  by (cases a) (simp add: get_backend_applied_def enc_backend_applied_def Let_def scalar_get class_bindingc.get_enc rt_backend_applied_def canonical_defs)

interpretation backend_appliedc: codec put_backend_applied get_backend_applied enc_backend_applied "\<lambda>_. True" rt_backend_applied
  by (unfold_locales; (erule get_backend_applied_enc | auto simp: put_backend_applied_def enc_backend_applied_def Let_def scalar_put class_bindingc.put_limit class_bindingc.put_view reason_name))

definition enc_occupancy_sample :: "occupancy_sample \<Rightarrow> bytes" where
  "enc_occupancy_sample s = le_put 8 (id_value (os_queue s)) @
     le_put 8 (ctr_value (os_queue_generation s)) @
     le_put 8 (os_bytes s) @
     le_put 8 (os_packets s) @
     le_put 8 (ctr_value (os_epoch s)) @
     le_put 8 (ctr_value (os_sequence s)) @
     enc_i64 (os_observed_at s) @
     enc_provenance (os_provenance s)"

definition rt_occupancy_sample :: "occupancy_sample \<Rightarrow> bool" where
  "rt_occupancy_sample s \<longleftrightarrow> in_i64 (os_observed_at s)"

lemma get_occupancy_sample_enc:
  "rt_occupancy_sample s \<Longrightarrow> get_occupancy_sample (rd pre (enc_occupancy_sample s @ rest)) = (s, rd (pre @ enc_occupancy_sample s) rest)"
  by (cases s) (simp add: get_occupancy_sample_def enc_occupancy_sample_def Let_def scalar_get provenancec.get_enc rt_occupancy_sample_def canonical_defs)

interpretation occupancy_samplec: codec put_occupancy_sample get_occupancy_sample enc_occupancy_sample "\<lambda>_. True" rt_occupancy_sample
  by (unfold_locales; (erule get_occupancy_sample_enc | auto simp: put_occupancy_sample_def enc_occupancy_sample_def Let_def scalar_put provenancec.put_limit provenancec.put_view reason_name))

definition enc_grant :: "authority_grant \<Rightarrow> bytes" where
  "enc_grant g = le_put 8 (id_value (ag_owner g)) @
     le_put 4 (ag_capabilities g)"

lemma get_grant_enc:
  "get_grant (rd pre (enc_grant g @ rest)) = (g, rd (pre @ enc_grant g) rest)"
  by (cases g) (simp add: get_grant_def enc_grant_def Let_def scalar_get  canonical_defs)

interpretation grantc: codec put_grant get_grant enc_grant "\<lambda>_. True" "\<lambda>_. True"
  by (unfold_locales; (rule get_grant_enc | auto simp: put_grant_def enc_grant_def Let_def scalar_put reason_name))

definition enc_class :: "scheduling_class_def \<Rightarrow> bytes" where
  "enc_class c = le_put 8 (id_value (sc_id c)) @
     le_put 8 (id_value (sc_resource c)) @
     enc_string (sc_name c) @
     le_put 4 (sc_priority c) @
     le_put 4 (qos_priority_code (sc_qos c)) @
     le_put 4 (qos_traffic_class (sc_qos c)) @
     enc_string (qos_group (sc_qos c)) @
     le_put 8 (ctr_value (sc_generation c)) @
     enc_provenance (sc_declared_by c)"

definition fits_class :: "scheduling_class_def \<Rightarrow> bool" where
  "fits_class c \<longleftrightarrow> name_fits (sc_name c) \<and> name_fits (qos_group (sc_qos c))"

definition rt_class :: "scheduling_class_def \<Rightarrow> bool" where
  "rt_class c \<longleftrightarrow> name_fits (sc_name c) \<and> name_fits (qos_group (sc_qos c))"

lemma get_class_enc:
  "rt_class c \<Longrightarrow> get_class (rd pre (enc_class c @ rest)) = (c, rd (pre @ enc_class c) rest)"
  by (cases c) (simp add: get_class_def enc_class_def Let_def scalar_get provenancec.get_enc rt_class_def canonical_defs)

interpretation classc: codec put_class get_class enc_class fits_class rt_class
  by (unfold_locales; (erule get_class_enc | auto simp: put_class_def enc_class_def fits_class_def Let_def scalar_put provenancec.put_limit provenancec.put_view rt_class_def reason_name))

definition enc_pool :: "buffer_pool_def \<Rightarrow> bytes" where
  "enc_pool p = le_put 8 (id_value (bp_id p)) @
     le_put 8 (id_value (bp_resource p)) @
     enc_string (bp_name p) @
     le_put 8 (bp_capacity_bytes p) @
     le_put 8 (ctr_value (bp_generation p)) @
     enc_provenance (bp_declared_by p)"

definition fits_pool :: "buffer_pool_def \<Rightarrow> bool" where
  "fits_pool p \<longleftrightarrow> name_fits (bp_name p)"

definition rt_pool :: "buffer_pool_def \<Rightarrow> bool" where
  "rt_pool p \<longleftrightarrow> name_fits (bp_name p)"

lemma get_pool_enc:
  "rt_pool p \<Longrightarrow> get_pool (rd pre (enc_pool p @ rest)) = (p, rd (pre @ enc_pool p) rest)"
  by (cases p) (simp add: get_pool_def enc_pool_def Let_def scalar_get provenancec.get_enc rt_pool_def canonical_defs)

interpretation poolc: codec put_pool get_pool enc_pool fits_pool rt_pool
  by (unfold_locales; (erule get_pool_enc | auto simp: put_pool_def enc_pool_def fits_pool_def Let_def scalar_put provenancec.put_limit provenancec.put_view rt_pool_def reason_name))

definition enc_backend :: "backend_incarnation \<Rightarrow> bytes" where
  "enc_backend b = le_put 8 (id_value (bi_backend b)) @
     le_put 8 (id_value (bi_resource b)) @
     le_put 8 (ctr_value (bi_incarnation b)) @
     le_put 8 (ctr_value (bi_epoch b)) @
     enc_i64 (bi_registered_at b) @
     enc_bool (bi_alive b)"

definition rt_backend :: "backend_incarnation \<Rightarrow> bool" where
  "rt_backend b \<longleftrightarrow> in_i64 (bi_registered_at b)"

lemma get_backend_enc:
  "rt_backend b \<Longrightarrow> get_backend (rd pre (enc_backend b @ rest)) = (b, rd (pre @ enc_backend b) rest)"
  by (cases b) (simp add: get_backend_def enc_backend_def Let_def scalar_get  rt_backend_def canonical_defs)

interpretation backendc: codec put_backend get_backend enc_backend "\<lambda>_. True" rt_backend
  by (unfold_locales; (erule get_backend_enc | auto simp: put_backend_def enc_backend_def Let_def scalar_put reason_name))

definition enc_memo :: "attempt_memo \<Rightarrow> bytes" where
  "enc_memo m = enc_attempt (am_attempt m) @
     le_put 8 (am_fingerprint m) @
     le_put 2 (u16_of_mutation_kind (am_kind m)) @
     le_put 2 (u16_of_code (am_outcome m)) @
     le_put 8 (ctr_value (am_generation m)) @
     enc_bool (am_durable m)"

definition rt_memo :: "attempt_memo \<Rightarrow> bool" where
  "rt_memo m \<longleftrightarrow> mutation_kind_canonical (am_kind m) \<and> code_canonical (am_outcome m)"

lemma get_memo_enc:
  "rt_memo m \<Longrightarrow> get_memo (rd pre (enc_memo m @ rest)) = (m, rd (pre @ enc_memo m) rest)"
  by (cases m) (simp add: get_memo_def enc_memo_def Let_def scalar_get attemptc.get_enc rt_memo_def canonical_defs)

interpretation memoc: codec put_memo get_memo enc_memo "\<lambda>_. True" rt_memo
  by (unfold_locales; (erule get_memo_enc | auto simp: put_memo_def enc_memo_def Let_def scalar_put attemptc.put_limit attemptc.put_view reason_name))

definition enc_declare_queue :: "declare_queue_payload \<Rightarrow> bytes" where
  "enc_declare_queue d = le_put 8 (id_value (dq_resource d)) @
     enc_string (dq_name d) @
     le_put 4 (dq_depth d) @
     enc_class_binding (dq_cls d) @
     enc_pool_ref (dq_pool d) @
     enc_thresholds (dq_thresholds d)"

definition fits_declare_queue :: "declare_queue_payload \<Rightarrow> bool" where
  "fits_declare_queue d \<longleftrightarrow> name_fits (dq_name d)"

definition rt_declare_queue :: "declare_queue_payload \<Rightarrow> bool" where
  "rt_declare_queue d \<longleftrightarrow> name_fits (dq_name d) \<and> rt_thresholds (dq_thresholds d)"

lemma get_declare_queue_enc:
  "rt_declare_queue d \<Longrightarrow> get_declare_queue (rd pre (enc_declare_queue d @ rest)) = (d, rd (pre @ enc_declare_queue d) rest)"
  by (cases d) (simp add: get_declare_queue_def enc_declare_queue_def Let_def scalar_get class_bindingc.get_enc pool_refc.get_enc thresholdsc.get_enc rt_declare_queue_def canonical_defs)

interpretation declare_queuec: codec put_declare_queue get_declare_queue enc_declare_queue fits_declare_queue rt_declare_queue
  by (unfold_locales; (erule get_declare_queue_enc | auto simp: put_declare_queue_def enc_declare_queue_def fits_declare_queue_def Let_def scalar_put class_bindingc.put_limit class_bindingc.put_view pool_refc.put_limit pool_refc.put_view thresholdsc.put_limit thresholdsc.put_view rt_declare_queue_def reason_name))

definition enc_backend_registration :: "backend_registration_payload \<Rightarrow> bytes" where
  "enc_backend_registration b = le_put 8 (id_value (br_backend b)) @
     le_put 8 (id_value (br_resource b)) @
     le_put 8 (ctr_value (br_incarnation b))"

lemma get_backend_registration_enc:
  "get_backend_registration (rd pre (enc_backend_registration b @ rest)) = (b, rd (pre @ enc_backend_registration b) rest)"
  by (cases b) (simp add: get_backend_registration_def enc_backend_registration_def Let_def scalar_get  canonical_defs)

interpretation backend_registrationc: codec put_backend_registration get_backend_registration enc_backend_registration "\<lambda>_. True" "\<lambda>_. True"
  by (unfold_locales; (rule get_backend_registration_enc | auto simp: put_backend_registration_def enc_backend_registration_def Let_def scalar_put reason_name))

definition enc_queue_definition :: "queue_definition \<Rightarrow> bytes" where
  "enc_queue_definition d = le_put 8 (id_value (qd_id d)) @
     le_put 8 (id_value (qd_resource d)) @
     enc_string (qd_name d) @
     le_put 4 (qd_depth d) @
     enc_class_binding (qd_cls d) @
     enc_pool_ref (qd_pool d) @
     enc_thresholds (qd_thresholds d) @
     le_put 8 (id_value (qd_owner d)) @
     le_put 8 (ctr_value (qd_generation d)) @
     enc_provenance (qd_declared_by d) @
     enc_i64 (qd_declared_at d)"

definition fits_queue_definition :: "queue_definition \<Rightarrow> bool" where
  "fits_queue_definition d \<longleftrightarrow> name_fits (qd_name d)"

definition rt_queue_definition :: "queue_definition \<Rightarrow> bool" where
  "rt_queue_definition d \<longleftrightarrow> name_fits (qd_name d) \<and> rt_thresholds (qd_thresholds d) \<and> in_i64 (qd_declared_at d)"

lemma get_queue_definition_enc:
  "rt_queue_definition d \<Longrightarrow> get_queue_definition (rd pre (enc_queue_definition d @ rest)) = (d, rd (pre @ enc_queue_definition d) rest)"
  by (cases d) (simp add: get_queue_definition_def enc_queue_definition_def Let_def scalar_get class_bindingc.get_enc pool_refc.get_enc thresholdsc.get_enc provenancec.get_enc rt_queue_definition_def canonical_defs)

interpretation queue_definitionc: codec put_queue_definition get_queue_definition enc_queue_definition fits_queue_definition rt_queue_definition
  by (unfold_locales; (erule get_queue_definition_enc | auto simp: put_queue_definition_def enc_queue_definition_def fits_queue_definition_def Let_def scalar_put class_bindingc.put_limit class_bindingc.put_view pool_refc.put_limit pool_refc.put_view thresholdsc.put_limit thresholdsc.put_view provenancec.put_limit provenancec.put_view rt_queue_definition_def reason_name))

section \<open>Whole records\<close>

definition enc_seq :: "('a \<Rightarrow> bytes) \<Rightarrow> 'a list \<Rightarrow> bytes" where
  "enc_seq enc xs = le_put 4 (of_nat (length xs) :: u32) @ concat (map enc xs)"

lemma take_or_empty_view: "take_or_empty w = (case w_view w of None \<Rightarrow> [] | Some bs \<Rightarrow> bs)"
  by (simp add: take_or_empty_def w_view_def)

lemma w_new_writer [simp]: "w_limit (new_writer n) = n" "w_view (new_writer n) = Some []"
  by (simp_all add: new_writer_def w_view_def)

lemma w_app_start: "w_app n (Some []) bs = (if length bs \<le> n then Some bs else None)"
  by (simp add: w_app_def)

text \<open>The interface lemmas of a counted sequence, for any element codec.\<close>

context codec
begin

lemma put_seq_limit: "w_limit (put_seq put xs w) = w_limit w"
  by (simp add: put_seq_def put_all_limit u32c.put_limit)

lemma put_seq_enc:
  "w_view (put_seq put xs w) =
     (if \<forall>x\<in>set xs. fits x then w_app (w_limit w) (w_view w) (enc_seq enc xs) else None)"
  using put_seq_view [of "put_u32 (of_nat (length xs)) w" "w_view w" "le_put 4 (of_nat (length xs) :: u32)" xs]
  by (simp add: put_seq_def enc_seq_def u32c.put_view u32c.put_limit)

lemma get_seq_enc:
  assumes "\<forall>x\<in>set xs. rt x" "length xs \<le> bound" "bound < 2 ^ 32"
  shows "get_seq get bound (rd pre (enc_seq enc xs @ rest)) = Some (xs, rd (pre @ enc_seq enc xs) rest)"
proof -
  have "unat (of_nat (length xs) :: u32) = length xs"
    using assms by (simp add: unat_of_nat)
  then show ?thesis
    using assms get_n_enc [of xs "pre @ le_put 4 (of_nat (length xs) :: u32)" rest]
    by (simp add: get_seq_def enc_seq_def u32c.get_enc)
qed

end

lemma seq_bounds: "kMaxGrantsPerResource < 2 ^ 32" "kMaxClassesPerResource < 2 ^ 32" "kMaxPoolsPerResource < 2 ^ 32"
  "kMaxResources < 2 ^ 32" "kMaxAttemptMemoPerQueue < 2 ^ 32"
  by (simp_all add: limit_defs)

lemmas seq_put = grantc.put_seq_limit grantc.put_seq_enc classc.put_seq_limit classc.put_seq_enc
  poolc.put_seq_limit poolc.put_seq_enc backendc.put_seq_limit backendc.put_seq_enc
  memoc.put_seq_limit memoc.put_seq_enc

lemmas part_put = provenancec.put_limit provenancec.put_view attemptc.put_limit attemptc.put_view
  queue_definitionc.put_limit queue_definitionc.put_view occupancy_statec.put_limit occupancy_statec.put_view
  fence_statec.put_limit fence_statec.put_view drain_statec.put_limit drain_statec.put_view
  backend_appliedc.put_limit backend_appliedc.put_view

lemmas part_get = provenancec.get_enc attemptc.get_enc queue_definitionc.get_enc occupancy_statec.get_enc
  fence_statec.get_enc drain_statec.get_enc backend_appliedc.get_enc

subsection \<open>Epoch state\<close>

definition enc_epoch_state :: "epoch_state \<Rightarrow> bytes" where
  "enc_epoch_state s = le_put 8 (boot_hi (es_boot s)) @ le_put 8 (boot_lo (es_boot s)) @
     le_put 8 (ctr_value (es_epoch s)) @ le_put 8 (ctr_value (es_coordinator_incarnation s))"

lemma encode_epoch_state_eq: "encode_epoch_state s = enc_epoch_state s"
proof -
  have "w_view (put_u64 (ctr_value (es_coordinator_incarnation s)) (put_u64 (ctr_value (es_epoch s))
      (put_u64 (boot_lo (es_boot s)) (put_u64 (boot_hi (es_boot s)) (new_writer 256))))) = Some (enc_epoch_state s)"
    by (simp add: scalar_put) (simp add: w_app_start enc_epoch_state_def)
  then show ?thesis
    by (auto simp: encode_epoch_state_def Let_def w_view_def split: if_splits)
qed

lemma decode_encode_epoch_state: "decode_epoch_state (encode_epoch_state s) = Inr s"
  by (cases s, cases "es_boot s")
     (simp add: encode_epoch_state_eq enc_epoch_state_def decode_epoch_state_def Let_def new_reader_rd
        scalar_get u64c.get_enc [where rest = "[]", simplified])

subsection \<open>Mutations\<close>

definition enc_payload :: "mutation_payload \<Rightarrow> bytes" where
  "enc_payload payload = (case payload of
       Pl_declare_queue d \<Rightarrow> enc_declare_queue d
     | Pl_rebind_class cls \<Rightarrow> enc_class_binding cls
     | Pl_thresholds th \<Rightarrow> enc_thresholds th
     | Pl_ownership own \<Rightarrow> le_put 8 (id_value own)
     | Pl_occupancy sample \<Rightarrow> enc_occupancy_sample sample
     | Pl_drain_evidence e \<Rightarrow> enc_drain_evidence e
     | Pl_fence fence reason \<Rightarrow> enc_bool fence @ enc_string reason
     | Pl_backend_ack applied \<Rightarrow> enc_backend_applied applied
     | Pl_backend_registration b \<Rightarrow> enc_backend_registration b
     | Pl_monostate \<Rightarrow> [])"

definition fits_payload :: "mutation_payload \<Rightarrow> bool" where
  "fits_payload payload = (case payload of
       Pl_declare_queue d \<Rightarrow> fits_declare_queue d | Pl_fence fence reason \<Rightarrow> name_fits reason | _ \<Rightarrow> True)"

definition rt_payload :: "mutation_payload \<Rightarrow> bool" where
  "rt_payload payload = (case payload of
       Pl_declare_queue d \<Rightarrow> rt_declare_queue d
     | Pl_thresholds th \<Rightarrow> rt_thresholds th
     | Pl_occupancy sample \<Rightarrow> rt_occupancy_sample sample
     | Pl_drain_evidence e \<Rightarrow> rt_drain_evidence e \<and> evidence_count_ok e
     | Pl_fence fence reason \<Rightarrow> reason_rt reason
     | Pl_backend_ack applied \<Rightarrow> rt_backend_applied applied
     | _ \<Rightarrow> True)"

definition enc_mutation :: "mutation_request \<Rightarrow> bytes" where
  "enc_mutation m = enc_attempt (mr_attempt m) @ le_put 2 (u16_of_mutation_kind (mr_kind m)) @
     le_put 8 (id_value (mr_queue m)) @ le_put 8 (ctr_value (mr_expected_generation m)) @
     le_put 8 (ctr_value (mr_expected_epoch m)) @ le_put 8 (id_value (mr_principal m)) @
     enc_provenance (mr_provenance m) @ enc_u8 (tag_of (mr_payload m)) @ enc_payload (mr_payload m)"

definition rt_mutation :: "mutation_request \<Rightarrow> bool" where
  "rt_mutation m \<longleftrightarrow> mutation_kind_canonical (mr_kind m) \<and> rt_payload (mr_payload m)"

lemmas payload_put = declare_queuec.put_limit declare_queuec.put_view class_bindingc.put_limit class_bindingc.put_view
  thresholdsc.put_limit thresholdsc.put_view occupancy_samplec.put_limit occupancy_samplec.put_view
  w_limit_put_drain_evidence w_view_put_drain_evidence
  backend_registrationc.put_limit backend_registrationc.put_view

lemma put_payload_view:
  "w_view w = w_app (w_limit w) v bs \<Longrightarrow>
   w_view (put_payload payload w) =
     (if fits_payload payload then w_app (w_limit w) v (bs @ enc_payload payload) else None)"
  by (cases payload) (simp_all add: put_payload_def fits_payload_def enc_payload_def payload_put scalar_put part_put)

lemma rt_payload_fits: "rt_payload p \<Longrightarrow> fits_payload p"
  by (cases p) (simp_all add: rt_payload_def fits_payload_def declare_queuec.rt_fits reason_name)

lemma length_parts [simp]:
  "length (enc_provenance p) = 56" "length (enc_attempt a) = 16" "length (enc_class_binding c) = 16"
  "length (enc_pool_ref pr) = 24" "length (enc_thresholds t) = 40" "length (enc_occupancy_sample os) = 112"
  "length (enc_drain_evidence e) = 64" "length (enc_backend_applied ba) = 81"
  "length (enc_backend_registration b) = 24" "length (enc_declare_queue d) = 94 + length (dq_name d)"
  by (simp_all add: enc_provenance_def enc_attempt_def enc_class_binding_def enc_pool_ref_def enc_thresholds_def
      enc_occupancy_sample_def enc_drain_evidence_def enc_backend_applied_def enc_backend_registration_def
      enc_declare_queue_def)

lemma length_enc_payload: "fits_payload p \<Longrightarrow> length (enc_payload p) \<le> 300"
  by (cases p) (simp_all add: enc_payload_def fits_payload_def fits_declare_queue_def name_fits_def limit_defs)

lemma length_enc_mutation: "fits_payload (mr_payload m) \<Longrightarrow> length (enc_mutation m) \<le> 500"
  using length_enc_payload [of "mr_payload m"] by (simp add: enc_mutation_def)

lemma encode_mutation_eq:
  "encode_mutation m = (if fits_payload (mr_payload m) then enc_mutation m else [])"
proof -
  define w where "w = put_u8 (tag_of (mr_payload m)) (put_provenance (mr_provenance m)
    (put_u64 (id_value (mr_principal m)) (put_u64 (ctr_value (mr_expected_epoch m))
    (put_u64 (ctr_value (mr_expected_generation m)) (put_u64 (id_value (mr_queue m))
    (put_u16 (u16_of_mutation_kind (mr_kind m)) (put_attempt (mr_attempt m) (new_writer kMaxJournalRecordBytes))))))))"
  define hd where "hd = enc_attempt (mr_attempt m) @ le_put 2 (u16_of_mutation_kind (mr_kind m)) @
     le_put 8 (id_value (mr_queue m)) @ le_put 8 (ctr_value (mr_expected_generation m)) @
     le_put 8 (ctr_value (mr_expected_epoch m)) @ le_put 8 (id_value (mr_principal m)) @
     enc_provenance (mr_provenance m) @ enc_u8 (tag_of (mr_payload m))"
  have lim: "w_limit w = kMaxJournalRecordBytes"
    by (simp add: w_def scalar_put part_put)
  have "w_view w = w_app (w_limit w) (Some []) hd"
    unfolding lim unfolding w_def hd_def by (simp add: scalar_put part_put)
  then have "w_view (put_payload (mr_payload m) w) =
      (if fits_payload (mr_payload m) then w_app kMaxJournalRecordBytes (Some []) (enc_mutation m) else None)"
    using put_payload_view [of w "Some []" hd "mr_payload m"] lim by (simp add: enc_mutation_def hd_def)
  moreover have "encode_mutation m = take_or_empty (put_payload (mr_payload m) w)"
    by (simp add: encode_mutation_def Let_def w_def)
  ultimately show ?thesis
    using length_enc_mutation [of m] by (auto simp: take_or_empty_view w_app_start limit_defs)
qed

lemma get_drain_evidence_enc:
  assumes "rt_drain_evidence e" "evidence_count_ok e"
  shows "get_drain_evidence (rd pre (enc_drain_evidence e @ rest)) = (Inr e, rd (pre @ enc_drain_evidence e) rest)"
proof -
  obtain bs where "enc_drain_evidence e = le_put 4 (de_records e) @ bs"
      "\<And>pre rest. get_evidence_body (de_records e) (rd pre (bs @ rest)) = (e, rd (pre @ bs) rest)"
    using get_evidence_body_enc [OF assms(1)] by auto
  then show ?thesis
    using assms(2) by (simp add: get_drain_evidence_def scalar_get evidence_count_ok_def not_less)
qed

lemma get_payload_enc:
  "rt_payload p \<Longrightarrow> get_payload (tag_of p) (rd pre (enc_payload p @ rest)) = (Inr p, rd (pre @ enc_payload p) rest)"
  by (cases p) (simp_all add: get_payload_def tag_of_def enc_payload_def rt_payload_def declare_queuec.get_enc
      class_bindingc.get_enc thresholdsc.get_enc scalar_get occupancy_samplec.get_enc get_drain_evidence_enc
      backend_appliedc.get_enc backend_registrationc.get_enc)

lemma decode_enc_mutation: "rt_mutation m \<Longrightarrow> decode_mutation (enc_mutation m) = Inr m"
  using get_payload_enc [of "mr_payload m" _ "[]"]
  by (cases m) (simp add: decode_mutation_def enc_mutation_def new_reader_rd Let_def scalar_get part_get
      rt_mutation_def canonical_defs)

lemma decode_encode_mutation: "rt_mutation m \<Longrightarrow> decode_mutation (encode_mutation m) = Inr m"
  by (simp add: encode_mutation_eq rt_payload_fits rt_mutation_def decode_enc_mutation)

subsection \<open>Queue and resource records\<close>

definition enc_queue :: "queue_record \<Rightarrow> bytes" where
  "enc_queue q = enc_queue_definition (qr_def q) @ enc_u8 (u8_of_lifecycle (qr_lifecycle q)) @
     enc_u8 (qr_applicability q) @ enc_string (qr_failure_reason q) @ enc_occupancy_state (qr_occupancy q) @
     enc_fence_state (qr_fence q) @ enc_drain_state (qr_drain q) @ enc_backend_applied (qr_applied q) @
     le_put 8 (qr_mutation_count q) @ le_put 8 (qr_replayed_count q) @ le_put 8 (qr_rejected_count q) @
     le_put 8 (qr_overflow_events q) @ le_put 8 (qr_staleness_events q) @ enc_attempt (qr_last_attempt q) @
     enc_seq enc_memo (qr_memo q)"

definition rt_queue :: "queue_record \<Rightarrow> bool" where
  "rt_queue q \<longleftrightarrow> rt_queue_definition (qr_def q) \<and> lifecycle_canonical (qr_lifecycle q)
     \<and> reason_rt (qr_failure_reason q) \<and> rt_occupancy_state (qr_occupancy q) \<and> rt_fence_state (qr_fence q)
     \<and> rt_drain_state (qr_drain q) \<and> rt_backend_applied (qr_applied q)
     \<and> length (qr_memo q) \<le> kMaxAttemptMemoPerQueue \<and> (\<forall>m\<in>set (qr_memo q). rt_memo m)"

lemma length_concat_const: "(\<And>x. length (f x) = c) \<Longrightarrow> length (concat (map f xs)) = c * length xs"
  by (induction xs) simp_all

lemma length_enc_memo_seq [simp]: "length (enc_seq enc_memo ms) = 4 + 37 * length ms"
  using length_concat_const [of enc_memo 37] by (simp add: enc_seq_def enc_memo_def)

lemma encode_queue_state_eq: "rt_queue q \<Longrightarrow> encode_queue_state q = enc_queue q"
proof -
  assume q: "rt_queue q"
  have "length (enc_queue q) \<le> kMaxJournalRecordBytes"
    using q by (simp add: enc_queue_def rt_queue_def enc_queue_definition_def enc_occupancy_state_def enc_fence_state_def
        enc_drain_state_def rt_queue_definition_def rt_fence_state_def name_fits_def reason_rt_def limit_defs)
  then show ?thesis
    using q by (simp add: encode_queue_state_def Let_def take_or_empty_view scalar_put part_put seq_put
        rt_queue_def reason_name queue_definitionc.rt_fits fence_statec.rt_fits memoc.rt_fits)
      (simp add: w_app_start enc_queue_def)
qed

text \<open>Only the last status and rule, which are never written, are lost.\<close>

lemma decode_encode_queue_state:
  assumes "rt_queue q"
  shows "decode_queue_state (encode_queue_state q) = Inr (q\<lparr>qr_last_status := success, qr_last_rule := ''unset''\<rparr>)"
proof -
  have "get_seq get_memo kMaxAttemptMemoPerQueue (rd pre (enc_seq enc_memo (qr_memo q))) =
      Some (qr_memo q, rd (pre @ enc_seq enc_memo (qr_memo q)) [])" for pre
    using memoc.get_seq_enc [OF _ _ seq_bounds(5), of "qr_memo q" pre "[]"] assms by (simp add: rt_queue_def)
  then show ?thesis
    using assms unfolding encode_queue_state_eq [OF assms]
    by (cases q) (simp add: decode_queue_state_def enc_queue_def new_reader_rd Let_def scalar_get
      part_get rt_queue_def canonical_defs)
qed

definition enc_resource :: "resource_record \<Rightarrow> bytes" where
  "enc_resource x = le_put 8 (id_value (rr_id x)) @ enc_string (rr_name x) @ le_put 8 (id_value (rr_owner x)) @
     le_put 8 (ctr_value (rr_generation x)) @ le_put 8 (ctr_value (rr_epoch x)) @
     le_put 8 (id_value (av_owner (rr_authority x))) @ le_put 8 (ctr_value (av_epoch (rr_authority x))) @
     enc_seq enc_grant (av_grants (rr_authority x)) @ enc_seq enc_class (rr_classes x) @
     enc_seq enc_pool (rr_pools x) @ enc_seq enc_backend (rr_backends x) @ enc_u8 (rr_applicability x) @
     enc_provenance (rr_declared_by x) @ enc_i64 (rr_declared_at x) @ le_put 8 (of_nat (rr_queue_count x) :: u64)"

definition fits_resource :: "resource_record \<Rightarrow> bool" where
  "fits_resource x \<longleftrightarrow> name_fits (rr_name x) \<and> (\<forall>c\<in>set (rr_classes x). fits_class c)
     \<and> (\<forall>p\<in>set (rr_pools x). fits_pool p) \<and> length (enc_resource x) \<le> kMaxJournalRecordBytes"

definition rt_resource :: "resource_record \<Rightarrow> bool" where
  "rt_resource x \<longleftrightarrow> fits_resource x \<and> in_i64 (rr_declared_at x) \<and> rr_queue_count x < 2 ^ 64
     \<and> length (av_grants (rr_authority x)) \<le> kMaxGrantsPerResource
     \<and> length (rr_classes x) \<le> kMaxClassesPerResource \<and> length (rr_pools x) \<le> kMaxPoolsPerResource
     \<and> length (rr_backends x) \<le> kMaxResources \<and> (\<forall>b\<in>set (rr_backends x). rt_backend b)"

lemma fits_class_rt: "fits_class c = rt_class c" "fits_pool p = rt_pool p"
  by (simp_all add: fits_class_def rt_class_def fits_pool_def rt_pool_def)

lemma encode_resource_state_eq: "encode_resource_state x = (if fits_resource x then enc_resource x else [])"
  by (simp add: encode_resource_state_def Let_def take_or_empty_view scalar_put part_put seq_put)
     (auto simp: fits_resource_def enc_resource_def w_app_start)

text \<open>The resource of the authority vector is not written: it is the null identity after decoding.\<close>

lemma decode_encode_resource_state:
  assumes "rt_resource x"
  shows "decode_resource_state (encode_resource_state x) =
     Inr (x\<lparr>rr_authority := (rr_authority x)\<lparr>av_resource := Ident 0\<rparr>\<rparr>)"
proof -
  have n: "unat (of_nat (rr_queue_count x) :: u64) = rr_queue_count x"
    using assms by (simp add: rt_resource_def unat_of_nat)
  have r: "\<forall>c\<in>set (rr_classes x). rt_class c" "\<forall>p\<in>set (rr_pools x). rt_pool p"
    using assms by (simp_all add: rt_resource_def fits_resource_def fits_class_rt)
  note seqs = grantc.get_seq_enc [OF _ _ seq_bounds(1), of "av_grants (rr_authority x)"]
    classc.get_seq_enc [OF r(1) _ seq_bounds(2)] poolc.get_seq_enc [OF r(2) _ seq_bounds(3)]
    backendc.get_seq_enc [OF _ _ seq_bounds(4), of "rr_backends x"]
  have fits: "fits_resource x"
    using assms by (simp add: rt_resource_def)
  show ?thesis
    using assms seqs n fits unfolding encode_resource_state_eq
    by (cases x, cases "rr_authority x")
       (simp add: rt_resource_def fits_resource_def decode_resource_state_def
        decode_resource_tail_def enc_resource_def new_reader_rd Let_def scalar_get part_get
        u64c.get_enc [where rest = "[]", simplified])
qed

end
