(* ===== verification/QF_Journal.thy ===== *)
theory QF_Journal
  imports QF_Ids
begin

text \<open>
  \<^verbatim>\<open>include/qf/journal.hpp\<close> and \<^verbatim>\<open>src/journal.cpp\<close>: durable records, the recovery report, the
  interface \<^verbatim>\<open>IJournal\<close> and the in-memory journal. The virtual methods of \<^verbatim>\<open>IJournal\<close> are the
  record \<open>journal_ops\<close> of functions on the state \<open>'j\<close> of an implementation; the locale
  \<open>ijournal\<close> states what the fabric relies on, in terms of the log of appended records.
\<close>

section \<open>Records and reports\<close>

datatype journal_record_type =
  Jr_resource_state | Jr_queue_state | Jr_begin_attempt | Jr_commit_mutation | Jr_epoch_state | Jr_noop
  | Jr_raw u16

fun journal_record_type_name :: "journal_record_type \<Rightarrow> string" where
  "journal_record_type_name Jr_resource_state = ''resource_state''"
| "journal_record_type_name Jr_queue_state = ''queue_state''"
| "journal_record_type_name Jr_begin_attempt = ''begin_attempt''"
| "journal_record_type_name Jr_commit_mutation = ''commit_mutation''"
| "journal_record_type_name Jr_epoch_state = ''epoch_state''"
| "journal_record_type_name Jr_noop = ''noop''"
| "journal_record_type_name (Jr_raw v) = ''unknown''"

record journal_record =
  jr_type :: journal_record_type
  jr_payload :: bytes

record recovery_report =
  rp_journal_present :: bool
  rp_header_valid :: bool
  rp_format_version :: u16
  rp_records_total :: nat
  rp_records_usable :: nat
  rp_records_truncated :: nat
  rp_records_corrupt :: nat
  rp_bytes_truncated :: nat
  rp_orphaned_begins :: nat
  rp_queues_restored :: nat
  rp_queues_revalidated :: nat
  rp_mutations_replayed :: nat
  rp_mutations_rejected :: nat
  rp_previous_boot_known :: bool
  rp_previous_boot :: boot_id
  rp_current_boot :: boot_id
  rp_previous_epoch :: Epoch
  rp_current_epoch :: Epoch
  rp_status :: status
  rp_notes :: "string list"

definition new_report :: recovery_report where
  "new_report = \<lparr>rp_journal_present = False, rp_header_valid = False, rp_format_version = 0,
     rp_records_total = 0, rp_records_usable = 0, rp_records_truncated = 0, rp_records_corrupt = 0,
     rp_bytes_truncated = 0, rp_orphaned_begins = 0, rp_queues_restored = 0, rp_queues_revalidated = 0,
     rp_mutations_replayed = 0, rp_mutations_rejected = 0, rp_previous_boot_known = False,
     rp_previous_boot = no_boot, rp_current_boot = no_boot, rp_previous_epoch = Counter 0,
     rp_current_epoch = Counter 0, rp_status = success, rp_notes = []\<rparr>"

definition kMaxNotes :: nat where "kMaxNotes = 24"

definition rp_note :: "string \<Rightarrow> recovery_report \<Rightarrow> recovery_report" where
  "rp_note text report =
     (if length (rp_notes report) \<ge> kMaxNotes then report
      else report\<lparr>rp_notes := rp_notes report @ [take kMaxMessageChars text]\<rparr>)"

section \<open>The interface\<close>

record 'j journal_ops =
  jo_open :: "'j \<Rightarrow> status \<times> 'j"
  jo_records :: "'j \<Rightarrow> journal_record list"
  jo_recovery :: "'j \<Rightarrow> recovery_report"
  jo_append :: "journal_record_type \<Rightarrow> bytes \<Rightarrow> 'j \<Rightarrow> status \<times> 'j"
  jo_sync :: "'j \<Rightarrow> status \<times> 'j"
  jo_rewrite :: "journal_record list \<Rightarrow> 'j \<Rightarrow> status \<times> 'j"
  jo_write_header :: "boot_id \<Rightarrow> Epoch \<Rightarrow> 'j \<Rightarrow> status \<times> 'j"
  jo_truncate_to_valid_prefix :: "'j \<Rightarrow> status \<times> 'j"
  jo_close :: "'j \<Rightarrow> 'j"

section \<open>The in-memory journal\<close>

record memory_journal =
  mj_records :: "journal_record list"
  mj_report :: recovery_report
  mj_sync_failure :: bool
  mj_open :: bool

definition new_memory_journal :: memory_journal where
  "new_memory_journal = \<lparr>mj_records = [], mj_report = new_report, mj_sync_failure = False, mj_open = False\<rparr>"

definition mj_do_open :: "memory_journal \<Rightarrow> status \<times> memory_journal" where
  "mj_do_open j =
     (success,
      j\<lparr>mj_open := True, mj_records := [],
        mj_report := rp_note ''in-memory journal: not durable''
          (new_report\<lparr>rp_journal_present := False, rp_header_valid := True, rp_format_version := 1,
                      rp_status := success\<rparr>)\<rparr>)"

definition mj_append :: "journal_record_type \<Rightarrow> bytes \<Rightarrow> memory_journal \<Rightarrow> status \<times> memory_journal" where
  "mj_append ty payload j =
     (if \<not> mj_open j then (Status Code_internal ''journal is not open'', j)
      else if length payload > kMaxJournalRecordBytes
      then (Status Code_capacity_exceeded ''record exceeds maximum size'', j)
      else (success, j\<lparr>mj_records := mj_records j @ [\<lparr>jr_type = ty, jr_payload = payload\<rparr>]\<rparr>))"

definition mj_sync :: "memory_journal \<Rightarrow> status \<times> memory_journal" where
  "mj_sync j =
     (if mj_sync_failure j then (Status Code_not_durable ''injected sync failure'', j) else (success, j))"

definition mj_rewrite :: "journal_record list \<Rightarrow> memory_journal \<Rightarrow> status \<times> memory_journal" where
  "mj_rewrite records j = (success, j\<lparr>mj_records := records\<rparr>)"

definition mj_close :: "memory_journal \<Rightarrow> memory_journal" where
  "mj_close j = j\<lparr>mj_open := False\<rparr>"

text \<open>\<^verbatim>\<open>write_header\<close> and \<^verbatim>\<open>truncate_to_valid_prefix\<close> are inherited from \<^verbatim>\<open>IJournal\<close>: no-ops.\<close>

definition memory_ops :: "memory_journal journal_ops" where
  "memory_ops = \<lparr>jo_open = mj_do_open, jo_records = mj_records, jo_recovery = mj_report,
     jo_append = mj_append, jo_sync = mj_sync, jo_rewrite = mj_rewrite,
     jo_write_header = (\<lambda>boot epoch j. (success, j)), jo_truncate_to_valid_prefix = (\<lambda>j. (success, j)),
     jo_close = mj_close\<rparr>"

section \<open>The contract\<close>

text \<open>
  \<open>log j\<close> is what has been appended to the journal since it was opened or rewritten, in
  order. A refused append leaves the log alone, a sync or a header update never changes it.
\<close>

locale ijournal =
  fixes J :: "'j journal_ops"
    and log :: "'j \<Rightarrow> journal_record list"
  assumes append_ok: "ok (fst (jo_append J ty bs j)) \<Longrightarrow>
            log (snd (jo_append J ty bs j)) = log j @ [\<lparr>jr_type = ty, jr_payload = bs\<rparr>]"
    and append_refused: "\<not> ok (fst (jo_append J ty bs j)) \<Longrightarrow> log (snd (jo_append J ty bs j)) = log j"
    and sync_log: "log (snd (jo_sync J j)) = log j"
    and header_log: "log (snd (jo_write_header J b e j)) = log j"
    and rewrite_ok: "ok (fst (jo_rewrite J rs j)) \<Longrightarrow> log (snd (jo_rewrite J rs j)) = rs"
    and open_log: "ok (fst (jo_open J j)) \<Longrightarrow> log (snd (jo_open J j)) = jo_records J (snd (jo_open J j))"
begin

definition extends :: "'j \<Rightarrow> 'j \<Rightarrow> bool" where
  "extends j j' \<longleftrightarrow> (\<exists>rs. log j' = log j @ rs)"

lemma extends_refl: "extends j j"
  by (simp add: extends_def)

lemma extends_trans: "extends a b \<Longrightarrow> extends b c \<Longrightarrow> extends a c"
  by (auto simp: extends_def)

lemma extends_append: "extends j (snd (jo_append J ty bs j))"
  by (cases "ok (fst (jo_append J ty bs j))") (auto simp: extends_def append_ok append_refused)

lemma extends_sync: "extends j (snd (jo_sync J j))"
  by (simp add: extends_def sync_log)

end

interpretation mem: ijournal memory_ops mj_records
  by unfold_locales
     (auto simp: memory_ops_def mj_append_def mj_sync_def mj_rewrite_def mj_do_open_def split: if_splits)

lemma rp_note_bound: "length (rp_notes r) \<le> kMaxNotes \<Longrightarrow> length (rp_notes (rp_note t r)) \<le> kMaxNotes"
  by (simp add: rp_note_def)

end
