(* ===== verification/QF_Fabric.thy ===== *)
theory QF_Fabric
  imports QF_Serialize QF_Journal
begin

text \<open>
  The state of the engine (\<^verbatim>\<open>Fabric::Impl\<close> of \<^verbatim>\<open>src/fabric_impl.hpp\<close> with the types of
  \<^verbatim>\<open>include/qf/fabric.hpp\<close>) and the helpers every operation uses (\<^verbatim>\<open>src/fabric.cpp\<close>,
  \<^verbatim>\<open>src/fabric_apply.cpp\<close>, \<^verbatim>\<open>src/fabric_kinds.cpp\<close>).

  Every public method of the fabric holds one mutex for its whole body, so the calls of
  concurrent clients are a sequence of atomic steps; an operation is a function on the state. The
  injected clock is the sequence \<open>fb_clock\<close> of its readings with the index of the next one, the
  injected journal is a state \<open>'j\<close> behind the methods \<open>journal_ops\<close>, and the event sink is the
  list of the events it was given.
\<close>

section \<open>Configuration, events, statistics\<close>

record fabric_limits =
  fl_max_resources :: nat
  fl_max_queues_per_resource :: nat
  fl_max_classes_per_resource :: nat
  fl_max_pools_per_resource :: nat
  fl_max_grants_per_resource :: nat
  fl_max_attempt_memo :: nat
  fl_max_pending_attempts :: nat
  fl_max_queues_total :: nat

definition default_limits :: fabric_limits where
  "default_limits = \<lparr>fl_max_resources = kMaxResources, fl_max_queues_per_resource = kMaxQueuesPerResource,
     fl_max_classes_per_resource = kMaxClassesPerResource, fl_max_pools_per_resource = kMaxPoolsPerResource,
     fl_max_grants_per_resource = kMaxGrantsPerResource, fl_max_attempt_memo = kMaxAttemptMemoPerQueue,
     fl_max_pending_attempts = kMaxPendingAttempts, fl_max_queues_total = kMaxQueuesTotal\<rparr>"

record fabric_config =
  fc_limits :: fabric_limits
  fc_policy :: fabric_policy
  fc_occupancy :: occupancy_policy
  fc_durable :: bool
  fc_boot_seed :: u64

definition default_config :: fabric_config where
  "default_config = \<lparr>fc_limits = default_limits, fc_policy = default_policy,
     fc_occupancy = default_occupancy_policy, fc_durable = False, fc_boot_seed = 0\<rparr>"

datatype event_kind =
    Ev_mutation_applied | Ev_mutation_replayed | Ev_mutation_rejected | Ev_lifecycle_changed
    | Ev_occupancy_ingested | Ev_occupancy_rejected | Ev_occupancy_overflow |
    Ev_drain_progress | Ev_fence_changed | Ev_queue_declared | Ev_queue_retired |
    Ev_topology_changed | Ev_backend_registered | Ev_backend_dead | Ev_recovery |
    Ev_shutdown

fun event_kind_name :: "event_kind \<Rightarrow> string" where
  "event_kind_name Ev_mutation_applied = ''mutation_applied''"
| "event_kind_name Ev_mutation_replayed = ''mutation_replayed''"
| "event_kind_name Ev_mutation_rejected = ''mutation_rejected''"
| "event_kind_name Ev_lifecycle_changed = ''lifecycle_changed''"
| "event_kind_name Ev_occupancy_ingested = ''occupancy_ingested''"
| "event_kind_name Ev_occupancy_rejected = ''occupancy_rejected''"
| "event_kind_name Ev_occupancy_overflow = ''occupancy_overflow''"
| "event_kind_name Ev_drain_progress = ''drain_progress''"
| "event_kind_name Ev_fence_changed = ''fence_changed''"
| "event_kind_name Ev_queue_declared = ''queue_declared''"
| "event_kind_name Ev_queue_retired = ''queue_retired''"
| "event_kind_name Ev_topology_changed = ''topology_changed''"
| "event_kind_name Ev_backend_registered = ''backend_registered''"
| "event_kind_name Ev_backend_dead = ''backend_dead''"
| "event_kind_name Ev_recovery = ''recovery''"
| "event_kind_name Ev_shutdown = ''shutdown''"

record event =
  ev_kind :: event_kind
  ev_at :: nanos
  ev_queue :: QueueId
  ev_resource :: ResourceId
  ev_mutation :: mutation_kind
  ev_attempt :: attempt_id
  ev_code :: code
  ev_generation :: Generation
  ev_epoch :: Epoch
  ev_lifecycle :: lifecycle
  ev_detail :: string

text \<open>\<^verbatim>\<open>Event event{}\<close> with its kind and time set.\<close>

definition new_event :: "event_kind \<Rightarrow> nanos \<Rightarrow> event" where
  "new_event kind now = \<lparr>ev_kind = kind, ev_at = now, ev_queue = Ident 0, ev_resource = Ident 0,
     ev_mutation = Mk_none, ev_attempt = no_attempt, ev_code = Code_ok, ev_generation = Counter 0,
     ev_epoch = Counter 0, ev_lifecycle = Lc_declared, ev_detail = []\<rparr>"

record pending_attempt =
  pa_attempt :: attempt_id
  pa_queue :: QueueId
  pa_kind :: mutation_kind
  pa_started_at :: nanos

record backend_plan =
  bpl_attempt :: attempt_id
  bpl_queue :: QueueId
  bpl_resource :: ResourceId
  bpl_expected_generation :: Generation
  bpl_cls :: class_binding
  bpl_thresholds :: thresholds
  bpl_principal :: OwnerId
  bpl_epoch :: Epoch
  bpl_planned_at :: nanos

record mutation_context =
  mx_principal :: OwnerId
  mx_provenance :: provenance
  mx_epoch :: Epoch

record fabric_stats =
  sx_resources :: nat
  sx_queues :: nat
  sx_classes :: nat
  sx_pools :: nat
  sx_publishers :: nat
  sx_pending_attempts :: nat
  sx_mutations_applied :: u64
  sx_mutations_replayed :: u64
  sx_mutations_rejected :: u64
  sx_occupancy_accepted :: u64
  sx_occupancy_rejected :: u64
  sx_occupancy_overflow :: u64
  sx_staleness_events :: u64
  sx_lifecycle_transitions :: u64
  sx_events_emitted :: u64
  sx_journal_records :: u64
  sx_journal_syncs :: u64
  sx_epoch :: Epoch
  sx_boot :: boot_id

definition no_stats :: fabric_stats where
  "no_stats = \<lparr>sx_resources = 0, sx_queues = 0, sx_classes = 0, sx_pools = 0, sx_publishers = 0,
     sx_pending_attempts = 0, sx_mutations_applied = 0, sx_mutations_replayed = 0,
     sx_mutations_rejected = 0, sx_occupancy_accepted = 0, sx_occupancy_rejected = 0,
     sx_occupancy_overflow = 0, sx_staleness_events = 0, sx_lifecycle_transitions = 0,
     sx_events_emitted = 0, sx_journal_records = 0, sx_journal_syncs = 0, sx_epoch = Counter 0,
     sx_boot = no_boot\<rparr>"

section \<open>The engine\<close>

record 'j fabric =
  fb_config :: fabric_config
  fb_clock :: "nat \<Rightarrow> nanos"
  fb_ticks :: nat
  fb_journal :: "'j option"
  fb_sink :: "event list option"
  fb_healthy :: bool
  fb_shutting_down :: bool
  fb_replaying :: bool
  fb_epoch :: Epoch
  fb_boot :: boot_id
  fb_coordinator_incarnation :: Incarnation
  fb_rng :: rng
  fb_provenance :: tracker
  fb_recovery :: recovery_report
  fb_resources :: "(ResourceId, resource_record) umap"
  fb_queues :: "(QueueId, queue_record) umap"
  fb_queue_names :: "(string, QueueId) umap"
  fb_pending :: "pending_attempt list"
  fb_plans :: "(attempt_id, backend_plan) umap"
  fb_next_resource_id :: u64
  fb_next_queue_id :: u64
  fb_next_class_id :: u64
  fb_next_pool_id :: u64
  fb_next_backend_id :: u64
  fb_fence_tokens :: u64
  fb_stats :: fabric_stats
  fb_clock_watermark :: nanos

text \<open>
  The constructor. \<open>derived_seed\<close> is the value of \<^verbatim>\<open>derive_boot_seed\<close>, which reads the system
  clock, the process id and an address.
\<close>

definition new_fabric ::
  "fabric_config \<Rightarrow> (nat \<Rightarrow> nanos) \<Rightarrow> 'j option \<Rightarrow> event list option \<Rightarrow> u64 \<Rightarrow> 'j fabric" where
  "new_fabric config clock journal sink derived_seed =
     \<lparr>fb_config = config, fb_clock = clock, fb_ticks = 0, fb_journal = journal, fb_sink = sink,
      fb_healthy = True, fb_shutting_down = False, fb_replaying = False, fb_epoch = Counter 0,
      fb_boot = no_boot, fb_coordinator_incarnation = Counter 0,
      fb_rng = (if fc_boot_seed config \<noteq> 0 then fc_boot_seed config else derived_seed),
      fb_provenance = new_tracker kMaxProvenanceNodes, fb_recovery = new_report,
      fb_resources = um_empty, fb_queues = um_empty, fb_queue_names = um_empty, fb_pending = [],
      fb_plans = um_empty, fb_next_resource_id = 1, fb_next_queue_id = 1, fb_next_class_id = 1,
      fb_next_pool_id = 1, fb_next_backend_id = 1, fb_fence_tokens = 0, fb_stats = no_stats,
      fb_clock_watermark = 0\<rparr>"

definition find_resource :: "'j fabric \<Rightarrow> ResourceId \<Rightarrow> resource_record option" where
  "find_resource f i = um_find (fb_resources f) i"

definition find_queue :: "'j fabric \<Rightarrow> QueueId \<Rightarrow> queue_record option" where
  "find_queue f i = um_find (fb_queues f) i"

definition name_key :: "ResourceId \<Rightarrow> string \<Rightarrow> string" where
  "name_key resource name = id_to_string resource @ ''/'' @ name"

definition queue_count_locked :: "'j fabric \<Rightarrow> nat" where
  "queue_count_locked f = length (fb_queues f)"

definition monotonic_now :: "'j fabric \<Rightarrow> nanos \<times> 'j fabric" where
  "monotonic_now f =
     (let now = fb_clock f (fb_ticks f);
          watermark = (if now > fb_clock_watermark f then now else fb_clock_watermark f)
      in (watermark, f\<lparr>fb_ticks := fb_ticks f + 1, fb_clock_watermark := watermark\<rparr>))"

definition emit_events :: "event list \<Rightarrow> 'j fabric \<Rightarrow> 'j fabric" where
  "emit_events events f =
     f\<lparr>fb_sink := map_option (\<lambda>log. log @ events) (fb_sink f),
       fb_stats := (fb_stats f)\<lparr>sx_events_emitted := sx_events_emitted (fb_stats f) + of_nat (length events)\<rparr>\<rparr>"

text \<open>
  The block that follows every change of the topology: append one record, sync, count. A failed
  sync marks the fabric unhealthy.
\<close>

definition append_sync ::
  "'j journal_ops \<Rightarrow> journal_record_type \<Rightarrow> bytes \<Rightarrow> string \<Rightarrow> 'j \<Rightarrow> 'j fabric \<Rightarrow> status \<times> 'j fabric" where
  "append_sync J ty encoded message j f =
     (case jo_append J ty encoded j of
        (appended, j) \<Rightarrow>
          (if \<not> ok appended then (appended, f\<lparr>fb_journal := Some j\<rparr>)
           else (case jo_sync J j of
                   (sync, j) \<Rightarrow>
                     (if \<not> ok sync
                      then (Status Code_not_durable message, f\<lparr>fb_journal := Some j, fb_healthy := False\<rparr>)
                      else (success,
                            f\<lparr>fb_journal := Some j,
                              fb_stats := (fb_stats f)\<lparr>sx_journal_records := sx_journal_records (fb_stats f) + 1,
                                sx_journal_syncs := sx_journal_syncs (fb_stats f) + 1\<rparr>\<rparr>)))))"

definition persist ::
  "'j journal_ops \<Rightarrow> journal_record_type \<Rightarrow> bytes \<Rightarrow> string \<Rightarrow> 'j fabric \<Rightarrow> status \<times> 'j fabric" where
  "persist J ty encoded message f =
     (case fb_journal f of
        Some j \<Rightarrow> append_sync J ty encoded message j f
      | None \<Rightarrow> (if fc_durable (fb_config f)
                 then (Status Code_not_durable ''durable fabric requires a journal'', f)
                 else (success, f)))"

definition journal_commit_locked :: "'j journal_ops \<Rightarrow> mutation_request \<Rightarrow> 'j fabric \<Rightarrow> status \<times> 'j fabric" where
  "journal_commit_locked J request f =
     (case fb_journal f of
        None \<Rightarrow> (Status Code_not_durable ''no journal configured'', f)
      | Some j \<Rightarrow>
          (let encoded = encode_mutation request
           in if encoded = [] then (Status Code_internal ''mutation could not be encoded'', f)
              else (case jo_append J Jr_begin_attempt encoded j of
                (begin', j) \<Rightarrow>
                  if \<not> ok begin' then (begin', f\<lparr>fb_journal := Some j\<rparr>)
                  else (case jo_append J Jr_commit_mutation encoded j of
                    (commit, j) \<Rightarrow>
                      if \<not> ok commit then (commit, f\<lparr>fb_journal := Some j\<rparr>)
                      else (case jo_sync J j of
                        (sync, j) \<Rightarrow>
                          if \<not> ok sync
                          then (Status Code_not_durable ''durable commit did not reach stable storage'',
                                f\<lparr>fb_journal := Some j\<rparr>)
                          else (success,
                                f\<lparr>fb_journal := Some j,
                                  fb_stats := (fb_stats f)
                                    \<lparr>sx_journal_records := sx_journal_records (fb_stats f) + 2,
                                     sx_journal_syncs := sx_journal_syncs (fb_stats f) + 1\<rparr>\<rparr>))))))"

definition occupancy_policy_for :: "fabric_config \<Rightarrow> queue_record \<Rightarrow> occupancy_policy" where
  "occupancy_policy_for config q =
     (let effective = fp_resolve (fc_policy config) (qd_thresholds (qr_def q)) (cb_id (qd_cls (qr_def q)));
          stale_after = stale_after_for (fc_policy config) effective (cb_id (qd_cls (qr_def q)))
      in if stale_after > 0 then (fc_occupancy config)\<lparr>op_max_age := stale_after\<rparr> else fc_occupancy config)"

definition find_live_backend :: "'j fabric \<Rightarrow> ResourceId \<Rightarrow> BackendId \<Rightarrow> backend_incarnation option" where
  "find_live_backend f resource backend =
     (case find_resource f resource of
        None \<Rightarrow> None
      | Some r \<Rightarrow> (if \<not> id_valid backend then None
                   else find (\<lambda>entry. bi_backend entry = backend \<and> bi_alive entry) (rr_backends r)))"

text \<open>\<^verbatim>\<open>record_rejection\<close>: the counter of the fabric, and the part on the queue when there is one.\<close>

definition count_rejection :: "'j fabric \<Rightarrow> 'j fabric" where
  "count_rejection f =
     f\<lparr>fb_stats := (fb_stats f)\<lparr>sx_mutations_rejected := sx_mutations_rejected (fb_stats f) + 1\<rparr>\<rparr>"

definition record_rejection :: "nat \<Rightarrow> mutation_request \<Rightarrow> status \<Rightarrow> string \<Rightarrow> queue_record \<Rightarrow> queue_record" where
  "record_rejection capacity request status rule q =
     remember \<lparr>am_attempt = mr_attempt request, am_fingerprint = mr_fingerprint request,
               am_kind = mr_kind request, am_outcome = st_code status,
               am_generation = qd_generation (qr_def q), am_durable = False\<rparr> capacity
       (q\<lparr>qr_rejected_count := qr_rejected_count q + 1, qr_last_attempt := mr_attempt request,
          qr_last_status := status, qr_last_rule := rule\<rparr>)"

abbreviation memo_capacity :: "'j fabric \<Rightarrow> nat" where
  "memo_capacity f \<equiv> fl_max_attempt_memo (fc_limits (fb_config f))"

section \<open>What the helpers leave alone\<close>

text \<open>The part of the state that only queue and topology operations may change.\<close>

record core_state =
  co_config :: fabric_config
  co_epoch :: Epoch
  co_resources :: "(ResourceId, resource_record) umap"
  co_queues :: "(QueueId, queue_record) umap"
  co_queue_names :: "(string, QueueId) umap"
  co_plans :: "(attempt_id, backend_plan) umap"
  co_flags :: "bool \<times> bool"
  co_next_queue_id :: u64
  co_pending :: "pending_attempt list"

definition core :: "'j fabric \<Rightarrow> core_state" where
  "core f = \<lparr>co_config = fb_config f, co_epoch = fb_epoch f, co_resources = fb_resources f,
     co_queues = fb_queues f, co_queue_names = fb_queue_names f, co_plans = fb_plans f,
     co_flags = (fb_shutting_down f, fb_replaying f), co_next_queue_id = fb_next_queue_id f,
     co_pending = fb_pending f\<rparr>"

lemma core_eqI:
  "fb_config f = fb_config g \<Longrightarrow> fb_epoch f = fb_epoch g \<Longrightarrow> fb_resources f = fb_resources g \<Longrightarrow>
   fb_queues f = fb_queues g \<Longrightarrow> fb_queue_names f = fb_queue_names g \<Longrightarrow> fb_plans f = fb_plans g \<Longrightarrow>
   fb_shutting_down f = fb_shutting_down g \<Longrightarrow> fb_replaying f = fb_replaying g \<Longrightarrow>
   fb_next_queue_id f = fb_next_queue_id g \<Longrightarrow> fb_pending f = fb_pending g \<Longrightarrow> core f = core g"
  by (simp add: core_def)

lemma coreD:
  assumes "core f = core g"
  shows "fb_config f = fb_config g" "fb_epoch f = fb_epoch g" "fb_resources f = fb_resources g"
    "fb_queues f = fb_queues g" "fb_queue_names f = fb_queue_names g" "fb_plans f = fb_plans g"
    "fb_shutting_down f = fb_shutting_down g" "fb_replaying f = fb_replaying g"
    "fb_next_queue_id f = fb_next_queue_id g" "fb_pending f = fb_pending g"
  using assms by (simp_all add: core_def)

lemma core_count_rejection [simp, frame_simps]: "core (count_rejection f) = core f"
  by (simp add: core_def count_rejection_def)

lemma core_monotonic_now [simp, frame_simps]: "core (snd (monotonic_now f)) = core f"
  by (simp add: core_def monotonic_now_def Let_def)

lemma core_emit_events [simp, frame_simps]: "core (emit_events es f) = core f"
  by (simp add: core_def emit_events_def)

lemma core_append_sync [simp, frame_simps]: "core (snd (append_sync J ty bs msg j f)) = core f"
  by (simp add: core_def append_sync_def split: prod.splits)

lemma core_persist [simp, frame_simps]: "core (snd (persist J ty bs msg f)) = core f"
  by (simp add: persist_def split: option.splits)

lemma core_journal_commit [simp, frame_simps]: "core (snd (journal_commit_locked J r f)) = core f"
  by (simp add: core_def journal_commit_locked_def Let_def split: option.splits prod.splits)

lemma monotonic_now_watermark:
  "fb_clock_watermark f \<le> fst (monotonic_now f)"
  "fb_clock_watermark (snd (monotonic_now f)) = fst (monotonic_now f)"
  by (simp_all add: monotonic_now_def Let_def)

lemma record_rejection_frame [simp, frame_simps]:
  "qr_def (record_rejection n r s rule q) = qr_def q"
  "qr_lifecycle (record_rejection n r s rule q) = qr_lifecycle q"
  "qr_applicability (record_rejection n r s rule q) = qr_applicability q"
  "qr_occupancy (record_rejection n r s rule q) = qr_occupancy q"
  "qr_fence (record_rejection n r s rule q) = qr_fence q"
  "qr_drain (record_rejection n r s rule q) = qr_drain q"
  "qr_applied (record_rejection n r s rule q) = qr_applied q"
  "qr_failure_reason (record_rejection n r s rule q) = qr_failure_reason q"
  by (simp_all add: record_rejection_def remember_def)

lemma find_live_backendD:
  "find_live_backend f res b = Some l \<Longrightarrow>
     \<exists>r. find_resource f res = Some r \<and> l \<in> set (rr_backends r) \<and> bi_backend l = b \<and> bi_alive l \<and> id_valid b"
  by (auto simp: find_live_backend_def split: option.splits if_splits dest!: find_Some_iff_mem)

lemma name_key_inject: "name_key r n = name_key r' n' \<longleftrightarrow> r = r' \<and> n = n'"
proof
  assume eq: "name_key r n = name_key r' n'"
  then have "id_to_string r = id_to_string r' \<and> ''/'' @ n = ''/'' @ n'"
    by (simp add: name_key_def id_to_string_def append_eq_append_conv)
  then show "r = r' \<and> n = n'"
    by (simp add: id_to_string_def format_hex16_inject ident.expand)
qed simp

section \<open>The journal contract in the fabric\<close>

context ijournal
begin

text \<open>
  Committing a mutation appends its begin record and its commit record, in this order, and nothing
  else; when it is refused the log may still have grown, by the begin record or by both.
\<close>

lemma journal_commit_log:
  assumes "fb_journal f = Some j" "ok (fst (journal_commit_locked J r f))"
  shows "\<exists>j'. fb_journal (snd (journal_commit_locked J r f)) = Some j' \<and>
    log j' = log j @ [\<lparr>jr_type = Jr_begin_attempt, jr_payload = encode_mutation r\<rparr>,
                      \<lparr>jr_type = Jr_commit_mutation, jr_payload = encode_mutation r\<rparr>]
    \<and> encode_mutation r \<noteq> []"
proof -
  define enc where "enc = encode_mutation r"
  define j1 where "j1 = snd (jo_append J Jr_begin_attempt enc j)"
  define j2 where "j2 = snd (jo_append J Jr_commit_mutation enc j1)"
  define j3 where "j3 = snd (jo_sync J j2)"
  have st: "ok (fst (jo_append J Jr_begin_attempt enc j))" "ok (fst (jo_append J Jr_commit_mutation enc j1))"
      "enc \<noteq> []" "fb_journal (snd (journal_commit_locked J r f)) = Some j3"
    using assms unfolding enc_def j1_def j2_def j3_def journal_commit_locked_def
    by (auto simp: Let_def split: prod.splits if_splits)
  have "log j3 = log j @ [\<lparr>jr_type = Jr_begin_attempt, jr_payload = enc\<rparr>] @ [\<lparr>jr_type = Jr_commit_mutation, jr_payload = enc\<rparr>]"
    using append_ok [OF st(1)] append_ok [OF st(2)] by (simp add: j1_def j2_def j3_def sync_log)
  then show ?thesis
    using st by (simp add: enc_def)
qed

lemma append_sync_log:
  assumes "ok (fst (append_sync J ty bs msg j f))"
  shows "\<exists>j'. fb_journal (snd (append_sync J ty bs msg j f)) = Some j'
     \<and> log j' = log j @ [\<lparr>jr_type = ty, jr_payload = bs\<rparr>]"
  using assms append_ok [of ty bs j] sync_log [of "snd (jo_append J ty bs j)"]
  by (auto simp: append_sync_def split: prod.splits if_splits)

end

end
