(* ===== verification/QF_Kinds.thy ===== *)
theory QF_Kinds
  imports QF_Fabric
begin

text \<open>
  \<^verbatim>\<open>src/fabric_kinds.cpp\<close>: \<^verbatim>\<open>apply_kind_locked\<close>, one definition per case of its switch. Each
  returns the status, the rule, the events pushed, the target record and the fabric. A definitional
  or durable kind runs on a copy of the queue record, a dynamic one on the record itself.
\<close>

section \<open>The helpers inside \<^verbatim>\<open>apply_kind_locked\<close>\<close>

type_synonym 'j kind_result = "status \<times> string \<times> event list \<times> queue_record \<times> 'j fabric"

definition bounded :: "string \<Rightarrow> nat \<Rightarrow> string" where
  "bounded text limit = take (min (length text) limit) text"

definition kind_event ::
  "event_kind \<Rightarrow> nanos \<Rightarrow> mutation_request \<Rightarrow> queue_record \<Rightarrow> code \<Rightarrow> string \<Rightarrow> event" where
  "kind_event kind now r t c detail =
     (new_event kind now)\<lparr>ev_queue := qd_id (qr_def t), ev_resource := qd_resource (qr_def t),
       ev_mutation := mr_kind r, ev_attempt := mr_attempt r, ev_code := c,
       ev_generation := qd_generation (qr_def t), ev_lifecycle := qr_lifecycle t, ev_detail := detail\<rparr>"

definition require_transition :: "queue_record \<Rightarrow> lifecycle \<Rightarrow> status \<times> string" where
  "require_transition t to =
     (let decision = check_transition (qr_lifecycle t) to
      in (if \<not> td_allowed decision then Status (td_code decision) (td_rule decision) else success,
          td_rule decision))"

definition check_class_binding :: "'j fabric \<Rightarrow> queue_record \<Rightarrow> class_binding \<Rightarrow> status" where
  "check_class_binding f t binding =
     (case find_resource f (qd_resource (qr_def t)) of
        None \<Rightarrow> Status Code_internal ''queue references an unknown resource''
      | Some resource \<Rightarrow>
          (case rr_find_class resource (cb_id binding) of
             None \<Rightarrow> Status Code_not_found ''scheduling class is not declared''
           | Some cls \<Rightarrow>
               (if sc_generation cls \<noteq> cb_generation binding
                then Status Code_stale_generation ''class generation is not the current class generation''
                else success)))"

definition invalidate_for_definition ::
  "nanos \<Rightarrow> mutation_request \<Rightarrow> string \<Rightarrow> queue_record \<Rightarrow> event list \<times> queue_record" where
  "invalidate_for_definition now r detail t =
     (let t = t\<lparr>qr_applicability := set_flag (qr_applicability t) App_stale,
                qr_occupancy := invalidate_occupancy Fr_stale_generation (qr_occupancy t),
                qr_applied := (qr_applied t)\<lparr>ba_known := False\<rparr>\<rparr>
      in ([kind_event Ev_occupancy_rejected now r t Code_stale_generation detail], t))"

text \<open>Refusals of a case: the status carries a message or the rule itself.\<close>

definition refuse :: "code \<Rightarrow> string \<Rightarrow> queue_record \<Rightarrow> 'j fabric \<Rightarrow> 'j kind_result" where
  "refuse c rule t f = (Status c rule, rule, [], t, f)"

text \<open>\<^verbatim>\<open>std::get\<close> on the wrong alternative throws; a validated request never reaches it.\<close>

definition bad_variant_access :: "queue_record \<Rightarrow> 'j fabric \<Rightarrow> 'j kind_result" where
  "bad_variant_access t f = refuse Code_internal ''bad_variant_access'' t f"

section \<open>Lifecycle kinds\<close>

definition kind_validate_queue :: "queue_record \<Rightarrow> mutation_request \<Rightarrow> nanos \<Rightarrow> 'j fabric \<Rightarrow> 'j kind_result" where
  "kind_validate_queue t r now f =
     (if qr_lifecycle t = Lc_validated then (success, ''no-op-idempotent'', [], t, f)
      else (case require_transition t Lc_validated of
        (transition, rule) \<Rightarrow>
          if \<not> ok transition then (transition, rule, [], t, f)
          else (let binding = check_class_binding f t (qd_cls (qr_def t))
                in if \<not> ok binding then (binding, ''class-binding-not-exact-generation'', [], t, f)
                   else (let t = t\<lparr>qr_lifecycle := Lc_validated\<rparr>
                         in (success, rule,
                             [kind_event Ev_lifecycle_changed now r t Code_ok ''queue validated''], t, f)))))"

definition kind_activate_queue :: "queue_record \<Rightarrow> mutation_request \<Rightarrow> nanos \<Rightarrow> 'j fabric \<Rightarrow> 'j kind_result" where
  "kind_activate_queue t r now f =
     (if qr_lifecycle t = Lc_active then (success, ''no-op-idempotent'', [], t, f)
      else (case require_transition t Lc_active of
        (transition, rule) \<Rightarrow>
          if \<not> ok transition then (transition, rule, [], t, f)
          else (let binding = check_class_binding f t (qd_cls (qr_def t))
                in if \<not> ok binding then (binding, ''class-binding-not-exact-generation'', [], t, f)
                   else if \<not> th_consistent (qd_thresholds (qr_def t))
                   then refuse Code_invalid_argument ''threshold-ladder-inconsistent'' t f
                   else (let t = t\<lparr>qr_lifecycle := Lc_active\<rparr>
                         in (success, rule,
                             [kind_event Ev_lifecycle_changed now r t Code_ok ''queue activated''], t, f)))))"

definition kind_fail_queue :: "queue_record \<Rightarrow> mutation_request \<Rightarrow> nanos \<Rightarrow> 'j fabric \<Rightarrow> 'j kind_result" where
  "kind_fail_queue t r now f =
     (if qr_lifecycle t = Lc_failed then (success, ''already-failed'', [], t, f)
      else (case require_transition t Lc_failed of
        (transition, rule) \<Rightarrow>
          if \<not> ok transition then (transition, rule, [], t, f)
          else (case mr_payload r of
                  Pl_fence fence reason \<Rightarrow>
                    (let t = t\<lparr>qr_lifecycle := Lc_failed, qr_failure_reason := bounded reason kMaxReasonChars\<rparr>
                     in (success, ''queue-failed'',
                         [kind_event Ev_lifecycle_changed now r t Code_ok (qr_failure_reason t)], t, f))
                | _ \<Rightarrow> bad_variant_access t f)))"

definition kind_retire_queue :: "queue_record \<Rightarrow> mutation_request \<Rightarrow> nanos \<Rightarrow> 'j fabric \<Rightarrow> 'j kind_result" where
  "kind_retire_queue t r now f =
     (if qr_lifecycle t = Lc_retired then (success, ''already-retired'', [], t, f)
      else if qr_lifecycle t = Lc_active
      then refuse Code_lifecycle_violation ''active-must-drain-before-retire'' t f
      else (case require_transition t Lc_retired of
        (transition, rule) \<Rightarrow>
          if \<not> ok transition then (transition, rule, [], t, f)
          else (let t = t\<lparr>qr_lifecycle := Lc_retired, qr_occupancy := no_occupancy, qr_drain := no_drain,
                          qr_applicability := App_none\<rparr>
                in (success, ''queue-retired'',
                    [kind_event Ev_queue_retired now r t Code_ok ''queue-retired''], t, f))))"

section \<open>Definitional kinds\<close>

definition kind_rebind_class :: "queue_record \<Rightarrow> mutation_request \<Rightarrow> nanos \<Rightarrow> 'j fabric \<Rightarrow> 'j kind_result" where
  "kind_rebind_class t r now f =
     (case mr_payload r of
        Pl_rebind_class cls \<Rightarrow>
          (let binding = check_class_binding f t cls
           in if \<not> ok binding then (binding, ''class-binding-not-exact-generation'', [], t, f)
              else if qd_cls (qr_def t) = cls then (success, ''binding-unchanged'', [], t, f)
              else (case ctr_next (qd_generation (qr_def t)) of
                      Inl e \<Rightarrow> (e, ''generation-exhausted'', [], t, f)
                    | Inr next \<Rightarrow>
                        (let t = t\<lparr>qr_def := (qr_def t)\<lparr>qd_cls := cls, qd_generation := next\<rparr>\<rparr>;
                             (events, t) = invalidate_for_definition now r
                                ''class rebinding advanced the queue generation'' t
                         in (success, ''class-rebound-generation-advanced'', events, t, f))))
      | _ \<Rightarrow> bad_variant_access t f)"

definition kind_set_thresholds :: "queue_record \<Rightarrow> mutation_request \<Rightarrow> nanos \<Rightarrow> 'j fabric \<Rightarrow> 'j kind_result" where
  "kind_set_thresholds t r now f =
     (case mr_payload r of
        Pl_thresholds th \<Rightarrow>
          (if \<not> th_consistent th then refuse Code_invalid_argument ''threshold-ladder-inconsistent'' t f
           else if th = qd_thresholds (qr_def t) then (success, ''thresholds-unchanged'', [], t, f)
           else (case ctr_next (qd_generation (qr_def t)) of
                   Inl e \<Rightarrow> (e, ''generation-exhausted'', [], t, f)
                 | Inr next \<Rightarrow>
                     (let t = t\<lparr>qr_def := (qr_def t)\<lparr>qd_thresholds := th, qd_generation := next\<rparr>\<rparr>;
                          (events, t) = invalidate_for_definition now r
                             ''threshold update advanced the queue generation'' t
                      in (success, ''thresholds-updated-generation-advanced'', events, t, f))))
      | _ \<Rightarrow> bad_variant_access t f)"

definition kind_transfer_ownership :: "queue_record \<Rightarrow> mutation_request \<Rightarrow> nanos \<Rightarrow> 'j fabric \<Rightarrow> 'j kind_result" where
  "kind_transfer_ownership t r now f =
     (case mr_payload r of
        Pl_ownership own \<Rightarrow>
          (if own = qd_owner (qr_def t) then (success, ''owner-unchanged'', [], t, f)
           else (case ctr_next (qd_generation (qr_def t)) of
                   Inl e \<Rightarrow> (e, ''generation-exhausted'', [], t, f)
                 | Inr next \<Rightarrow>
                     (let t = t\<lparr>qr_def := (qr_def t)\<lparr>qd_owner := own, qd_generation := next\<rparr>\<rparr>;
                          (events, t) = invalidate_for_definition now r
                             ''ownership transfer advanced the queue generation'' t
                      in (success, ''ownership-transferred-generation-advanced'', events, t, f))))
      | _ \<Rightarrow> bad_variant_access t f)"

section \<open>Occupancy\<close>

text \<open>The checks before the record is touched: \<^verbatim>\<open>Some\<close> carries the code and the rule of the refusal.\<close>

definition ingest_refusal ::
  "queue_record \<Rightarrow> mutation_request \<Rightarrow> occupancy_sample \<Rightarrow> nanos \<Rightarrow> 'j fabric \<Rightarrow> (code \<times> string) option" where
  "ingest_refusal t r sample now f =
     (let pol = occupancy_policy_for (fb_config f) t;
          same_publisher_life =
            oc_present (qr_occupancy t)
            \<and> pv_publisher (oc_provenance (qr_occupancy t)) = pv_publisher (os_provenance sample)
            \<and> pv_incarnation (oc_provenance (qr_occupancy t)) = pv_incarnation (os_provenance sample)
            \<and> pv_boot (oc_provenance (qr_occupancy t)) = pv_boot (os_provenance sample)
      in if os_queue sample \<noteq> qd_id (qr_def t) then Some (Code_invalid_argument, ''occupancy-queue-mismatch'')
         else if os_queue_generation sample \<noteq> qd_generation (qr_def t)
         then Some (Code_stale_generation, ''occupancy-bound-to-other-generation'')
         else if mr_expected_epoch r \<noteq> fb_epoch f \<or> os_epoch sample \<noteq> fb_epoch f
         then Some (Code_stale_epoch, ''occupancy-from-superseded-epoch'')
         else if os_observed_at sample > now \<and> op_max_future_skew pol > 0
                 \<and> os_observed_at sample - now > op_max_future_skew pol
         then Some (Code_stale_occupancy, ''observation-time-ahead-of-clock'')
         else if same_publisher_life \<and> os_sequence sample \<le> oc_sequence (qr_occupancy t)
         then Some (Code_stale_occupancy, ''occupancy-regression-for-publisher'')
         else None)"

text \<open>The drain evidence follows the sample while a drain is in progress.\<close>

definition ingest_drain :: "occupancy_sample \<Rightarrow> drain_state \<Rightarrow> drain_state" where
  "ingest_drain sample d =
     (if in_progress d then
        (if os_bytes sample = 0 \<and> os_packets sample = 0
         then d\<lparr>dr_evidence := (dr_evidence d)\<lparr>de_occupancy_zero_observed := True,
                  de_zero_observed_at := os_observed_at sample, de_zero_sequence := os_sequence sample\<rparr>\<rparr>
         else if de_occupancy_zero_observed (dr_evidence d)
         then d\<lparr>dr_evidence := (dr_evidence d)\<lparr>de_occupancy_zero_observed := False\<rparr>\<rparr>
         else d)
      else d)"

definition ingest_record :: "occupancy_sample \<Rightarrow> nanos \<Rightarrow> queue_record \<Rightarrow> queue_record" where
  "ingest_record sample now t =
     t\<lparr>qr_occupancy := \<lparr>oc_present = True, oc_bytes = os_bytes sample, oc_packets = os_packets sample,
          oc_observed_at = os_observed_at sample, oc_sequence = os_sequence sample,
          oc_epoch = os_epoch sample, oc_provenance = os_provenance sample,
          oc_queue_generation = os_queue_generation sample, oc_freshness = Fr_fresh,
          oc_age = occupancy_age now (os_observed_at sample)\<rparr>,
       qr_applicability := clear_flag (qr_applicability t) App_stale,
       qr_drain := ingest_drain sample (qr_drain t)\<rparr>"

definition kind_ingest_occupancy :: "queue_record \<Rightarrow> mutation_request \<Rightarrow> nanos \<Rightarrow> 'j fabric \<Rightarrow> 'j kind_result" where
  "kind_ingest_occupancy t r now f =
     (case mr_payload r of
        Pl_occupancy sample \<Rightarrow>
          (case ingest_refusal t r sample now f of
             Some (c, rule) \<Rightarrow> refuse c rule t f
           | None \<Rightarrow>
               (let effective = fp_resolve (fc_policy (fb_config f)) (qd_thresholds (qr_def t)) (cb_id (qd_cls (qr_def t)));
                    t = ingest_record sample now t;
                    f = f\<lparr>fb_stats := (fb_stats f)\<lparr>sx_occupancy_accepted := sx_occupancy_accepted (fb_stats f) + 1\<rparr>\<rparr>;
                    bytes_over = th_max_occupancy_bytes effective \<noteq> 0 \<and> os_bytes sample > th_max_occupancy_bytes effective;
                    packets_over = th_max_packets effective \<noteq> 0 \<and> os_packets sample > th_max_packets effective
                in if bytes_over \<or> packets_over
                   then (let t = t\<lparr>qr_overflow_events := qr_overflow_events t + 1\<rparr>;
                             f = f\<lparr>fb_stats := (fb_stats f)\<lparr>sx_occupancy_overflow := sx_occupancy_overflow (fb_stats f) + 1\<rparr>\<rparr>;
                             rule = (if bytes_over then ''observed-occupancy-above-configured-maximum''
                                     else ''observed-packets-above-configured-maximum'')
                         in (success, rule,
                             [kind_event Ev_occupancy_overflow now r t Code_occupancy_overflow rule], t, f))
                   else (success, ''occupancy-observed'',
                         [kind_event Ev_occupancy_ingested now r t Code_ok ''occupancy observed''], t, f)))
      | _ \<Rightarrow> bad_variant_access t f)"

section \<open>Drain\<close>

definition kind_request_drain :: "queue_record \<Rightarrow> mutation_request \<Rightarrow> nanos \<Rightarrow> 'j fabric \<Rightarrow> 'j kind_result" where
  "kind_request_drain t r now f =
     (if qr_lifecycle t = Lc_draining then (success, ''drain-already-requested'', [], t, f)
      else (case require_transition t Lc_draining of
        (transition, rule) \<Rightarrow>
          if \<not> ok transition then (transition, rule, [], t, f)
          else (let t = t\<lparr>qr_lifecycle := Lc_draining,
                          qr_drain := no_drain\<lparr>dr_phase := Dp_requested, dr_attempt := mr_attempt r,
                             dr_requested_at := now, dr_requested_by := mr_provenance r\<rparr>\<rparr>
                in (success, ''drain-requested-not-drained'',
                    [kind_event Ev_drain_progress now r t Code_drain_incomplete ''drain requested''], t, f))))"

definition kind_cancel_drain :: "queue_record \<Rightarrow> mutation_request \<Rightarrow> nanos \<Rightarrow> 'j fabric \<Rightarrow> 'j kind_result" where
  "kind_cancel_drain t r now f =
     (if qr_lifecycle t \<noteq> Lc_draining then refuse Code_drain_incomplete ''no-drain-in-progress'' t f
      else (case require_transition t Lc_active of
        (transition, rule) \<Rightarrow>
          if \<not> ok transition then (transition, rule, [], t, f)
          else (let t = t\<lparr>qr_lifecycle := Lc_active, qr_drain := no_drain\<rparr>
                in (success, ''drain-cancelled-by-revalidation'',
                    [kind_event Ev_drain_progress now r t Code_cancelled ''drain-cancelled-by-revalidation''], t, f))))"

definition kind_submit_drain_evidence :: "queue_record \<Rightarrow> mutation_request \<Rightarrow> nanos \<Rightarrow> 'j fabric \<Rightarrow> 'j kind_result" where
  "kind_submit_drain_evidence t r now f =
     (if \<not> in_progress (qr_drain t) then refuse Code_drain_incomplete ''no-drain-in-progress'' t f
      else (case mr_payload r of
        Pl_drain_evidence evidence \<Rightarrow>
          (let b = de_backend evidence;
               live = find_live_backend f (qd_resource (qr_def t)) (bo_backend b)
           in if de_records evidence = 0 then refuse Code_invalid_argument ''drain-evidence-empty'' t f
              else if unat (de_records evidence) > fp_max_drain_evidence_records (fc_policy (fb_config f))
              then refuse Code_out_of_range ''drain-evidence-count-out-of-range'' t f
              else if id_valid (bo_backend b) \<and> live = None
              then refuse Code_stale_incarnation ''drain-evidence-backend-not-live'' t f
              else if id_valid (bo_backend b) \<and> bi_incarnation (the live) \<noteq> bo_backend_incarnation b
              then refuse Code_stale_incarnation ''drain-evidence-incarnation-superseded'' t f
              else if ctr_valid (bo_epoch b) \<and> bo_epoch b \<noteq> fb_epoch f
              then refuse Code_stale_epoch ''drain-evidence-epoch-superseded'' t f
              else (let t = t\<lparr>qr_drain := (qr_drain t)\<lparr>dr_evidence := evidence\<lparr>de_revalidated := True\<rparr>,
                                            dr_phase := Dp_evidence_pending\<rparr>\<rparr>
                    in (success, ''drain-evidence-recorded'',
                        [kind_event Ev_drain_progress now r t Code_drain_incomplete ''drain-evidence-recorded''], t, f)))
      | _ \<Rightarrow> bad_variant_access t f))"

definition kind_quiesce_queue :: "queue_record \<Rightarrow> mutation_request \<Rightarrow> nanos \<Rightarrow> 'j fabric \<Rightarrow> 'j kind_result" where
  "kind_quiesce_queue t r now f =
     (if qr_lifecycle t = Lc_quiesced then (success, ''no-op-idempotent'', [], t, f)
      else (case require_transition t Lc_quiesced of
        (transition, rule) \<Rightarrow>
          if \<not> ok transition then (transition, rule, [], t, f)
          else (let live = find_live_backend f (qd_resource (qr_def t)) (bo_backend (de_backend (dr_evidence (qr_drain t))));
                    assessment = assess_drain (qr_drain t) (qr_occupancy t) live (fb_epoch f)
                                   (occupancy_policy_for (fb_config f) t) now
                in if \<not> da_completable assessment
                   then (Status (da_code assessment) (da_rule assessment), da_rule assessment, [], t, f)
                   else if fp_require_backend_ack_for_drain (fc_policy (fb_config f)) \<and> live = None
                   then refuse Code_stale_incarnation ''backend-acknowledgement-required-before-quiesce'' t f
                   else if fp_require_backend_ack_for_drain (fc_policy (fb_config f))
                           \<and> \<not> bv_verified (verify_backend_applied (qr_applied t) (the live) (fb_epoch f)
                                              (qd_generation (qr_def t)) (qd_cls (qr_def t)))
                   then refuse Code_backend_mismatch ''backend-applied-state-not-verifiable'' t f
                   else (let t = t\<lparr>qr_lifecycle := Lc_quiesced, qr_drain := (qr_drain t)\<lparr>dr_phase := Dp_completed\<rparr>\<rparr>
                         in (success, ''drain-evidence-complete'',
                             [kind_event Ev_lifecycle_changed now r t Code_ok ''queue quiesced with drain evidence''], t, f)))))"

section \<open>Fences and acknowledgements\<close>

definition kind_fence_queue :: "queue_record \<Rightarrow> mutation_request \<Rightarrow> nanos \<Rightarrow> 'j fabric \<Rightarrow> 'j kind_result" where
  "kind_fence_queue t r now f =
     (case mr_payload r of
        Pl_fence fence reason \<Rightarrow>
          (if fs_fenced (qr_fence t) then (success, ''already-fenced'', [], t, f)
           else (let f = f\<lparr>fb_fence_tokens := fb_fence_tokens f + 1\<rparr>;
                     t = t\<lparr>qr_fence := \<lparr>fs_fenced = True, fs_token = fb_fence_tokens f, fs_epoch = fb_epoch f,
                              fs_fenced_by = mr_principal r, fs_reason = bounded reason kMaxReasonChars,
                              fs_fenced_at = now\<rparr>,
                           qr_applicability := set_flag (qr_applicability t) App_fenced\<rparr>
                 in (success, ''queue-fenced'',
                     [kind_event Ev_fence_changed now r t Code_ok (fs_reason (qr_fence t))], t, f)))
      | _ \<Rightarrow> bad_variant_access t f)"

definition kind_unfence_queue :: "queue_record \<Rightarrow> mutation_request \<Rightarrow> nanos \<Rightarrow> 'j fabric \<Rightarrow> 'j kind_result" where
  "kind_unfence_queue t r now f =
     (if \<not> fs_fenced (qr_fence t) then (success, ''already-unfenced'', [], t, f)
      else (let t = t\<lparr>qr_fence := (qr_fence t)\<lparr>fs_fenced := False, fs_reason := []\<rparr>,
                      qr_applicability := clear_flag (qr_applicability t) App_fenced\<rparr>
            in (success, ''queue-unfenced'',
                [kind_event Ev_fence_changed now r t Code_ok ''queue-unfenced''], t, f)))"

definition kind_acknowledge_backend :: "queue_record \<Rightarrow> mutation_request \<Rightarrow> nanos \<Rightarrow> 'j fabric \<Rightarrow> 'j kind_result" where
  "kind_acknowledge_backend t r now f =
     (case mr_payload r of
        Pl_backend_ack applied \<Rightarrow>
          (if \<not> ba_known applied \<or> \<not> id_valid (ba_backend applied)
           then refuse Code_invalid_argument ''acknowledgement-without-backend-identity'' t f
           else (case find_live_backend f (qd_resource (qr_def t)) (ba_backend applied) of
                   None \<Rightarrow> refuse Code_stale_incarnation ''backend-incarnation-not-live'' t f
                 | Some live \<Rightarrow>
                     (let verification = verify_backend_applied applied live (fb_epoch f)
                                           (qd_generation (qr_def t)) (qd_cls (qr_def t))
                      in if \<not> bv_verified verification
                         then refuse (bv_code verification) (bv_rule verification) t f
                         else (let t = t\<lparr>qr_applied := applied,
                                         qr_applicability := clear_flag (qr_applicability t) App_stale\<rparr>
                               in (success, ''backend-acknowledgement-verified'',
                                   [kind_event Ev_mutation_applied now r t Code_ok ''backend-acknowledgement-verified''],
                                   t, f)))))
      | _ \<Rightarrow> bad_variant_access t f)"

section \<open>The switch\<close>

definition apply_kind_locked :: "queue_record \<Rightarrow> mutation_request \<Rightarrow> nanos \<Rightarrow> 'j fabric \<Rightarrow> 'j kind_result" where
  "apply_kind_locked t r now f = (case mr_kind r of
       Mk_validate_queue \<Rightarrow> kind_validate_queue t r now f
     | Mk_activate_queue \<Rightarrow> kind_activate_queue t r now f
     | Mk_rebind_class \<Rightarrow> kind_rebind_class t r now f
     | Mk_set_thresholds \<Rightarrow> kind_set_thresholds t r now f
     | Mk_transfer_ownership \<Rightarrow> kind_transfer_ownership t r now f
     | Mk_ingest_occupancy \<Rightarrow> kind_ingest_occupancy t r now f
     | Mk_request_drain \<Rightarrow> kind_request_drain t r now f
     | Mk_cancel_drain \<Rightarrow> kind_cancel_drain t r now f
     | Mk_submit_drain_evidence \<Rightarrow> kind_submit_drain_evidence t r now f
     | Mk_quiesce_queue \<Rightarrow> kind_quiesce_queue t r now f
     | Mk_fence_queue \<Rightarrow> kind_fence_queue t r now f
     | Mk_unfence_queue \<Rightarrow> kind_unfence_queue t r now f
     | Mk_fail_queue \<Rightarrow> kind_fail_queue t r now f
     | Mk_retire_queue \<Rightarrow> kind_retire_queue t r now f
     | Mk_acknowledge_backend \<Rightarrow> kind_acknowledge_backend t r now f
     | Mk_no_op \<Rightarrow> (success, ''no-op'', [], t, f)
     | _ \<Rightarrow> refuse Code_unsupported ''mutation-kind-not-applicable'' t f)"

section \<open>The switch as a step relation\<close>

text \<open>
  \<open>queue_step\<close> is the abstract machine of one queue under one mutation: the transitions with
  their guards, without statuses, rules and events. \<open>apply_kind_locked\<close> refines it.
\<close>

definition redefinition :: "'j fabric \<Rightarrow> mutation_request \<Rightarrow> queue_record \<Rightarrow> queue_definition \<Rightarrow> bool" where
  "redefinition f r t d \<longleftrightarrow>
     (\<exists>cls. d = (qr_def t)\<lparr>qd_cls := cls\<rparr> \<and> cls \<noteq> qd_cls (qr_def t) \<and> ok (check_class_binding f t cls)
        \<and> mr_kind r = Mk_rebind_class \<and> mr_payload r = Pl_rebind_class cls)
   \<or> (\<exists>th. d = (qr_def t)\<lparr>qd_thresholds := th\<rparr> \<and> th \<noteq> qd_thresholds (qr_def t) \<and> th_consistent th
        \<and> mr_kind r = Mk_set_thresholds \<and> mr_payload r = Pl_thresholds th)
   \<or> (\<exists>own. d = (qr_def t)\<lparr>qd_owner := own\<rparr> \<and> own \<noteq> qd_owner (qr_def t)
        \<and> mr_kind r = Mk_transfer_ownership \<and> mr_payload r = Pl_ownership own)"

definition with_definition :: "queue_definition \<Rightarrow> queue_record \<Rightarrow> queue_record" where
  "with_definition d t =
     t\<lparr>qr_def := d, qr_applicability := set_flag (qr_applicability t) App_stale,
       qr_occupancy := invalidate_occupancy Fr_stale_generation (qr_occupancy t),
       qr_applied := (qr_applied t)\<lparr>ba_known := False\<rparr>\<rparr>"

definition quiesce_evidence :: "'j fabric \<Rightarrow> nanos \<Rightarrow> queue_record \<Rightarrow> bool" where
  "quiesce_evidence f now t \<longleftrightarrow>
     (let live = find_live_backend f (qd_resource (qr_def t)) (bo_backend (de_backend (dr_evidence (qr_drain t))))
      in da_completable (assess_drain (qr_drain t) (qr_occupancy t) live (fb_epoch f)
            (occupancy_policy_for (fb_config f) t) now)
         \<and> (fp_require_backend_ack_for_drain (fc_policy (fb_config f)) \<longrightarrow>
              (\<exists>l. live = Some l \<and> bv_verified (verify_backend_applied (qr_applied t) l (fb_epoch f)
                                     (qd_generation (qr_def t)) (qd_cls (qr_def t))))))"

text \<open>The kinds that succeed without an effect, because the queue already is where they lead.\<close>

definition already :: "mutation_request \<Rightarrow> queue_record \<Rightarrow> bool" where
  "already r t \<longleftrightarrow> (case mr_kind r of
       Mk_validate_queue \<Rightarrow> qr_lifecycle t = Lc_validated
     | Mk_activate_queue \<Rightarrow> qr_lifecycle t = Lc_active
     | Mk_rebind_class \<Rightarrow> mr_payload r = Pl_rebind_class (qd_cls (qr_def t))
     | Mk_set_thresholds \<Rightarrow> mr_payload r = Pl_thresholds (qd_thresholds (qr_def t))
     | Mk_transfer_ownership \<Rightarrow> mr_payload r = Pl_ownership (qd_owner (qr_def t))
     | Mk_request_drain \<Rightarrow> qr_lifecycle t = Lc_draining
     | Mk_quiesce_queue \<Rightarrow> qr_lifecycle t = Lc_quiesced
     | Mk_fence_queue \<Rightarrow> fs_fenced (qr_fence t)
     | Mk_unfence_queue \<Rightarrow> \<not> fs_fenced (qr_fence t)
     | Mk_fail_queue \<Rightarrow> qr_lifecycle t = Lc_failed
     | Mk_retire_queue \<Rightarrow> qr_lifecycle t = Lc_retired
     | Mk_no_op \<Rightarrow> True
     | _ \<Rightarrow> False)"

text \<open>Evidence that may be recorded: present, bounded, and about a live backend life under this epoch.\<close>

definition evidence_acceptable :: "'j fabric \<Rightarrow> queue_record \<Rightarrow> drain_evidence \<Rightarrow> bool" where
  "evidence_acceptable f t e \<longleftrightarrow>
     0 < unat (de_records e) \<and> unat (de_records e) \<le> fp_max_drain_evidence_records (fc_policy (fb_config f))
     \<and> (id_valid (bo_backend (de_backend e)) \<longrightarrow>
          (\<exists>l. find_live_backend f (qd_resource (qr_def t)) (bo_backend (de_backend e)) = Some l
             \<and> bi_incarnation l = bo_backend_incarnation (de_backend e)))
     \<and> (ctr_valid (bo_epoch (de_backend e)) \<longrightarrow> bo_epoch (de_backend e) = fb_epoch f)"

inductive queue_step :: "'j fabric \<Rightarrow> mutation_request \<Rightarrow> nanos \<Rightarrow> queue_record \<Rightarrow> queue_record \<Rightarrow> bool"
  for f :: "'j fabric" and r :: mutation_request and now :: nanos where
  unchanged: "already r t \<Longrightarrow> queue_step f r now t t"
| validated: "lc_step (qr_lifecycle t) Lc_validated \<Longrightarrow> mr_kind r = Mk_validate_queue \<Longrightarrow>
    ok (check_class_binding f t (qd_cls (qr_def t))) \<Longrightarrow>
    queue_step f r now t (t\<lparr>qr_lifecycle := Lc_validated\<rparr>)"
| activated: "lc_step (qr_lifecycle t) Lc_active \<Longrightarrow> mr_kind r = Mk_activate_queue \<Longrightarrow>
    ok (check_class_binding f t (qd_cls (qr_def t))) \<Longrightarrow> th_consistent (qd_thresholds (qr_def t)) \<Longrightarrow>
    queue_step f r now t (t\<lparr>qr_lifecycle := Lc_active\<rparr>)"
| redefined: "is_definitional (mr_kind r) \<Longrightarrow> redefinition f r t d \<Longrightarrow>
    ctr_next (qd_generation (qr_def t)) = Inr g \<Longrightarrow>
    queue_step f r now t (with_definition (d\<lparr>qd_generation := g\<rparr>) t)"
| ingested: "mr_kind r = Mk_ingest_occupancy \<Longrightarrow> mr_payload r = Pl_occupancy s \<Longrightarrow>
    ingest_refusal t r s now f = None \<Longrightarrow>
    queue_step f r now t ((ingest_record s now t)\<lparr>qr_overflow_events := n\<rparr>)"
| drain_requested: "lc_step (qr_lifecycle t) Lc_draining \<Longrightarrow> mr_kind r = Mk_request_drain \<Longrightarrow>
    queue_step f r now t (t\<lparr>qr_lifecycle := Lc_draining,
      qr_drain := no_drain\<lparr>dr_phase := Dp_requested, dr_attempt := mr_attempt r, dr_requested_at := now,
        dr_requested_by := mr_provenance r\<rparr>\<rparr>)"
| drain_cancelled: "qr_lifecycle t = Lc_draining \<Longrightarrow> mr_kind r = Mk_cancel_drain \<Longrightarrow>
    queue_step f r now t (t\<lparr>qr_lifecycle := Lc_active, qr_drain := no_drain\<rparr>)"
| evidence_recorded: "in_progress (qr_drain t) \<Longrightarrow> mr_kind r = Mk_submit_drain_evidence \<Longrightarrow>
    mr_payload r = Pl_drain_evidence e \<Longrightarrow> evidence_acceptable f t e \<Longrightarrow>
    queue_step f r now t (t\<lparr>qr_drain := (qr_drain t)\<lparr>dr_evidence := e\<lparr>de_revalidated := True\<rparr>,
      dr_phase := Dp_evidence_pending\<rparr>\<rparr>)"
| quiesced: "qr_lifecycle t = Lc_draining \<Longrightarrow> mr_kind r = Mk_quiesce_queue \<Longrightarrow> quiesce_evidence f now t \<Longrightarrow>
    queue_step f r now t (t\<lparr>qr_lifecycle := Lc_quiesced, qr_drain := (qr_drain t)\<lparr>dr_phase := Dp_completed\<rparr>\<rparr>)"
| fenced: "\<not> fs_fenced (qr_fence t) \<Longrightarrow> mr_kind r = Mk_fence_queue \<Longrightarrow> mr_payload r = Pl_fence x reason \<Longrightarrow>
    fence = \<lparr>fs_fenced = True, fs_token = n, fs_epoch = fb_epoch f, fs_fenced_by = mr_principal r,
      fs_reason = bounded reason kMaxReasonChars, fs_fenced_at = now\<rparr> \<Longrightarrow>
    queue_step f r now t (t\<lparr>qr_fence := fence, qr_applicability := set_flag (qr_applicability t) App_fenced\<rparr>)"
| unfenced: "fs_fenced (qr_fence t) \<Longrightarrow> mr_kind r = Mk_unfence_queue \<Longrightarrow>
    queue_step f r now t (t\<lparr>qr_fence := (qr_fence t)\<lparr>fs_fenced := False, fs_reason := []\<rparr>,
      qr_applicability := clear_flag (qr_applicability t) App_fenced\<rparr>)"
| failed: "lc_step (qr_lifecycle t) Lc_failed \<Longrightarrow> mr_kind r = Mk_fail_queue \<Longrightarrow>
    mr_payload r = Pl_fence x reason \<Longrightarrow>
    queue_step f r now t (t\<lparr>qr_lifecycle := Lc_failed, qr_failure_reason := bounded reason kMaxReasonChars\<rparr>)"
| retired: "lc_step (qr_lifecycle t) Lc_retired \<Longrightarrow> mr_kind r = Mk_retire_queue \<Longrightarrow>
    queue_step f r now t (t\<lparr>qr_lifecycle := Lc_retired, qr_occupancy := no_occupancy, qr_drain := no_drain,
      qr_applicability := App_none\<rparr>)"
| acknowledged: "mr_kind r = Mk_acknowledge_backend \<Longrightarrow> mr_payload r = Pl_backend_ack a \<Longrightarrow>
    find_live_backend f (qd_resource (qr_def t)) (ba_backend a) = Some live \<Longrightarrow>
    bv_verified (verify_backend_applied a live (fb_epoch f) (qd_generation (qr_def t)) (qd_cls (qr_def t))) \<Longrightarrow>
    queue_step f r now t (t\<lparr>qr_applied := a, qr_applicability := clear_flag (qr_applicability t) App_stale\<rparr>)"

subsection \<open>Refinement\<close>

lemma require_transition_ok: 
  "require_transition t l = (st, rule) \<Longrightarrow> ok st \<longleftrightarrow> qr_lifecycle t = l \<or> lc_step (qr_lifecycle t) l"
  using check_transition_allowed_iff [of "qr_lifecycle t" l] check_transition_code [of "qr_lifecycle t" l]
  by (auto simp: require_transition_def Let_def)

definition kind_refines :: "'j fabric \<Rightarrow> mutation_request \<Rightarrow> nanos \<Rightarrow> queue_record \<Rightarrow> 'j kind_result \<Rightarrow> bool" where
  "kind_refines f r now t res \<longleftrightarrow>
     (case res of (st, rule, events, t', f') \<Rightarrow>
        (ok st \<longrightarrow> queue_step f r now t t') \<and> (\<not> ok st \<longrightarrow> t' = t \<and> f' = f \<and> events = [])
        \<and> core f' = core f)"

lemma refuse_refines [simp]: "c \<noteq> Code_ok \<Longrightarrow> kind_refines f r now t (refuse c rule t f)"
  by (simp add: kind_refines_def refuse_def)

lemma bad_variant_refines [simp]: "kind_refines f r now t (bad_variant_access t f)"
  by (simp add: bad_variant_access_def)

lemma stay_refines [simp]: "\<not> ok st \<or> already r t \<Longrightarrow> kind_refines f r now t (st, rule, [], t, f)"
  by (auto simp: kind_refines_def intro: queue_step.unchanged)

lemma stays:
  "mr_kind r = Mk_validate_queue \<Longrightarrow> qr_lifecycle t = Lc_validated \<Longrightarrow> queue_step f r now t t"
  "mr_kind r = Mk_activate_queue \<Longrightarrow> qr_lifecycle t = Lc_active \<Longrightarrow> queue_step f r now t t"
  "mr_kind r = Mk_request_drain \<Longrightarrow> qr_lifecycle t = Lc_draining \<Longrightarrow> queue_step f r now t t"
  "mr_kind r = Mk_quiesce_queue \<Longrightarrow> qr_lifecycle t = Lc_quiesced \<Longrightarrow> queue_step f r now t t"
  "mr_kind r = Mk_fail_queue \<Longrightarrow> qr_lifecycle t = Lc_failed \<Longrightarrow> queue_step f r now t t"
  "mr_kind r = Mk_retire_queue \<Longrightarrow> qr_lifecycle t = Lc_retired \<Longrightarrow> queue_step f r now t t"
  "mr_kind r = Mk_fence_queue \<Longrightarrow> fs_fenced (qr_fence t) \<Longrightarrow> queue_step f r now t t"
  "mr_kind r = Mk_unfence_queue \<Longrightarrow> \<not> fs_fenced (qr_fence t) \<Longrightarrow> queue_step f r now t t"
  by (rule queue_step.unchanged, simp add: already_def)+

lemma validate_refines: "mr_kind r = Mk_validate_queue \<Longrightarrow> kind_refines f r now t (kind_validate_queue t r now f)"
  by (auto simp: kind_validate_queue_def Let_def kind_refines_def require_transition_ok
      intro: stays queue_step.intros split: prod.splits)

lemma activate_refines: "mr_kind r = Mk_activate_queue \<Longrightarrow> kind_refines f r now t (kind_activate_queue t r now f)"
  by (auto simp: kind_activate_queue_def Let_def kind_refines_def require_transition_ok refuse_def
      intro: stays queue_step.intros split: prod.splits)

lemma fail_refines: "mr_kind r = Mk_fail_queue \<Longrightarrow> kind_refines f r now t (kind_fail_queue t r now f)"
  by (auto simp: kind_fail_queue_def Let_def kind_refines_def require_transition_ok refuse_def bad_variant_access_def
      intro: stays queue_step.intros split: prod.splits mutation_payload.splits)

lemma retire_refines: "mr_kind r = Mk_retire_queue \<Longrightarrow> kind_refines f r now t (kind_retire_queue t r now f)"
  by (auto simp: kind_retire_queue_def Let_def kind_refines_def require_transition_ok refuse_def
      intro: stays queue_step.intros split: prod.splits)

lemma ctr_next_refused: "ctr_next g = Inl e \<Longrightarrow> \<not> ok e"
  by (auto simp: ctr_next_def split: if_splits)

lemma invalidate_with_definition:
  "snd (invalidate_for_definition now r detail (t\<lparr>qr_def := d\<rparr>)) = with_definition d t"
  by (simp add: invalidate_for_definition_def with_definition_def Let_def)

lemma definitional_refines:
  assumes "is_definitional (mr_kind r)" "redefinition f r t d" "ctr_next (qd_generation (qr_def t)) = Inr g"
  shows "kind_refines f r now t
     (case invalidate_for_definition now r detail (t\<lparr>qr_def := d\<lparr>qd_generation := g\<rparr>\<rparr>) of
        (events, t') \<Rightarrow> (success, rule, events, t', f))"
  using queue_step.redefined [OF assms] invalidate_with_definition [of now r detail "d\<lparr>qd_generation := g\<rparr>" t]
  by (auto simp: kind_refines_def split: prod.splits)

lemma redefinitionI:
  "ok (check_class_binding f t cls) \<Longrightarrow> qd_cls (qr_def t) \<noteq> cls \<Longrightarrow> mr_kind r = Mk_rebind_class \<Longrightarrow>
     mr_payload r = Pl_rebind_class cls \<Longrightarrow> redefinition f r t ((qr_def t)\<lparr>qd_cls := cls\<rparr>)"
  "th_consistent th \<Longrightarrow> th \<noteq> qd_thresholds (qr_def t) \<Longrightarrow> mr_kind r = Mk_set_thresholds \<Longrightarrow>
     mr_payload r = Pl_thresholds th \<Longrightarrow> redefinition f r t ((qr_def t)\<lparr>qd_thresholds := th\<rparr>)"
  "own \<noteq> qd_owner (qr_def t) \<Longrightarrow> mr_kind r = Mk_transfer_ownership \<Longrightarrow> mr_payload r = Pl_ownership own \<Longrightarrow>
     redefinition f r t ((qr_def t)\<lparr>qd_owner := own\<rparr>)"
  by (auto simp: redefinition_def)

lemma rebind_refines: "mr_kind r = Mk_rebind_class \<Longrightarrow> kind_refines f r now t (kind_rebind_class t r now f)"
  by (auto simp: kind_rebind_class_def Let_def is_definitional_def already_def ctr_next_refused
      intro!: definitional_refines redefinitionI split: mutation_payload.splits sum.splits)

lemma set_thresholds_refines: "mr_kind r = Mk_set_thresholds \<Longrightarrow> kind_refines f r now t (kind_set_thresholds t r now f)"
  by (auto simp: kind_set_thresholds_def Let_def is_definitional_def already_def ctr_next_refused
      intro!: definitional_refines redefinitionI split: mutation_payload.splits sum.splits)

lemma transfer_refines: "mr_kind r = Mk_transfer_ownership \<Longrightarrow> kind_refines f r now t (kind_transfer_ownership t r now f)"
  by (auto simp: kind_transfer_ownership_def Let_def is_definitional_def already_def ctr_next_refused
      intro!: definitional_refines redefinitionI split: mutation_payload.splits sum.splits)

lemma ingest_refusal_code: "ingest_refusal t r s now f = Some (c, rule) \<Longrightarrow> c \<noteq> Code_ok"
  by (auto simp: ingest_refusal_def Let_def split: if_splits)

lemma core_stats [simp]: "core (f\<lparr>fb_stats := s\<rparr>) = core f" "core (f\<lparr>fb_fence_tokens := n\<rparr>) = core f"
  by (simp_all add: core_def)

lemma ingest_refines: "mr_kind r = Mk_ingest_occupancy \<Longrightarrow> kind_refines f r now t (kind_ingest_occupancy t r now f)"
proof (cases "mr_payload r")
  case (Pl_occupancy s)
  assume k: "mr_kind r = Mk_ingest_occupancy"
  show ?thesis
  proof (cases "ingest_refusal t r s now f")
    case None
    have "ingest_record s now t = (ingest_record s now t)\<lparr>qr_overflow_events := qr_overflow_events t\<rparr>"
      by (simp add: ingest_record_def)
    then have "queue_step f r now t (ingest_record s now t)"
      using queue_step.ingested [OF k Pl_occupancy None, where n = "qr_overflow_events t"] by simp
    then show ?thesis
      using None Pl_occupancy queue_step.ingested [OF k Pl_occupancy None]
      by (auto simp: kind_ingest_occupancy_def Let_def kind_refines_def)
  next
    case (Some c)
    then show ?thesis
      using Pl_occupancy ingest_refusal_code [of t r s now f] by (cases c) (simp add: kind_ingest_occupancy_def)
  qed
qed (simp_all add: kind_ingest_occupancy_def)

lemma request_drain_refines: "mr_kind r = Mk_request_drain \<Longrightarrow> kind_refines f r now t (kind_request_drain t r now f)"
  by (auto simp: kind_request_drain_def Let_def kind_refines_def require_transition_ok
      intro: stays queue_step.intros split: prod.splits)

lemma cancel_drain_refines: "mr_kind r = Mk_cancel_drain \<Longrightarrow> kind_refines f r now t (kind_cancel_drain t r now f)"
  by (auto simp: kind_cancel_drain_def Let_def kind_refines_def require_transition_ok refuse_def
      intro: stays queue_step.intros split: prod.splits)

lemma submit_refines: "mr_kind r = Mk_submit_drain_evidence \<Longrightarrow> kind_refines f r now t (kind_submit_drain_evidence t r now f)"
  by (auto simp: kind_submit_drain_evidence_def Let_def kind_refines_def refuse_def bad_variant_access_def
      evidence_acceptable_def unat_gt_0 intro!: queue_step.evidence_recorded split: mutation_payload.splits)

lemma quiesce_refines: "mr_kind r = Mk_quiesce_queue \<Longrightarrow> kind_refines f r now t (kind_quiesce_queue t r now f)"
  by (auto simp: kind_quiesce_queue_def Let_def kind_refines_def require_transition_ok refuse_def quiesce_evidence_def
      assess_drain_code dest: into_quiesced intro!: queue_step.quiesced intro: stays split: prod.splits)

lemma fence_refines: "mr_kind r = Mk_fence_queue \<Longrightarrow> kind_refines f r now t (kind_fence_queue t r now f)"
  by (auto simp: kind_fence_queue_def Let_def kind_refines_def refuse_def bad_variant_access_def
      intro: stays intro!: queue_step.fenced split: mutation_payload.splits)

lemma unfence_refines: "mr_kind r = Mk_unfence_queue \<Longrightarrow> kind_refines f r now t (kind_unfence_queue t r now f)"
  by (auto simp: kind_unfence_queue_def Let_def kind_refines_def intro: stays queue_step.intros)

lemma acknowledge_refines: "mr_kind r = Mk_acknowledge_backend \<Longrightarrow> kind_refines f r now t (kind_acknowledge_backend t r now f)"
  by (auto simp: kind_acknowledge_backend_def Let_def kind_refines_def refuse_def bad_variant_access_def verify_backend_code
      intro: stays queue_step.intros split: mutation_payload.splits option.splits)

lemmas all_refines = validate_refines activate_refines rebind_refines set_thresholds_refines transfer_refines
  ingest_refines request_drain_refines cancel_drain_refines submit_refines quiesce_refines fence_refines
  unfence_refines fail_refines retire_refines acknowledge_refines

theorem apply_kind_refines: "kind_refines f r now t (apply_kind_locked t r now f)"
  by (cases "mr_kind r") (simp_all add: apply_kind_locked_def all_refines already_def)

lemma apply_kind_ok:
  "apply_kind_locked t r now f = (st, rule, events, t', f') \<Longrightarrow> ok st \<Longrightarrow> queue_step f r now t t' \<and> core f' = core f"
  using apply_kind_refines [of f r now t] by (simp add: kind_refines_def)

lemma apply_kind_refused:
  "apply_kind_locked t r now f = (st, rule, events, t', f') \<Longrightarrow> \<not> ok st \<Longrightarrow> t' = t \<and> f' = f \<and> events = []"
  using apply_kind_refines [of f r now t] by (simp add: kind_refines_def)

end
