(* ===== verification/QF_Apply.thy ===== *)
theory QF_Apply
  imports QF_Kinds
begin

text \<open>
  \<^verbatim>\<open>src/fabric_apply.cpp\<close>: the mutation path. \<open>apply\<close> validates a request, declares a new queue or
  applies the mutation to an existing one; the long function on an existing queue is split along
  the numbered steps of its comments. A locked function returns the result, the events, the queue
  record it was given by reference and the fabric.
\<close>

section \<open>Step 1: idempotent replay\<close>

type_synonym 'j existing_result = "mutation_outcome result \<times> event list \<times> queue_record \<times> 'j fabric"

definition count_replay :: "'j fabric \<Rightarrow> 'j fabric" where
  "count_replay f = f\<lparr>fb_stats := (fb_stats f)\<lparr>sx_mutations_replayed := sx_mutations_replayed (fb_stats f) + 1\<rparr>\<rparr>"

definition reject_existing ::
  "mutation_request \<Rightarrow> status \<Rightarrow> string \<Rightarrow> event list \<Rightarrow> queue_record \<Rightarrow> 'j fabric \<Rightarrow> 'j existing_result" where
  "reject_existing r st rule events q f =
     (Inl st, events, record_rejection (memo_capacity f) r st rule q, count_rejection f)"

definition outcome_of :: "queue_record \<Rightarrow> attempt_id \<Rightarrow> bool \<Rightarrow> bool \<Rightarrow> string \<Rightarrow> mutation_outcome" where
  "outcome_of q attempt replayed durable rule =
     \<lparr>mo_status = success, mo_queue = qd_id (qr_def q), mo_generation = qd_generation (qr_def q),
      mo_attempt = attempt, mo_definition_generation = qd_generation (qr_def q),
      mo_lifecycle = qr_lifecycle q, mo_applicability = qr_applicability q, mo_replayed = replayed,
      mo_durable = durable, mo_rule = rule\<rparr>"

definition existing_replay ::
  "attempt_memo \<Rightarrow> queue_record \<Rightarrow> mutation_request \<Rightarrow> nanos \<Rightarrow> 'j fabric \<Rightarrow> 'j existing_result" where
  "existing_replay memo q r now f =
     (if am_fingerprint memo \<noteq> mr_fingerprint r
      then reject_existing r (Status Code_conflict ''attempt identity reused with different content'')
             ''attempt-identity-conflict'' [] q f
      else
        (let q = q\<lparr>qr_replayed_count := qr_replayed_count q + 1\<rparr>;
             f = count_replay f
         in if am_outcome memo \<noteq> Code_ok
            then (let st = Status (am_outcome memo) ''idempotent replay of a rejected attempt''
                  in (Inl st, [],
                      q\<lparr>qr_last_attempt := mr_attempt r, qr_last_status := st,
                        qr_last_rule := ''idempotent-replay-of-rejection''\<rparr>, f))
            else (Inr (outcome_of q (mr_attempt r) True (am_durable memo) ''idempotent-replay''),
                  [(new_event Ev_mutation_replayed now)\<lparr>ev_queue := qd_id (qr_def q),
                      ev_resource := qd_resource (qr_def q), ev_mutation := mr_kind r,
                      ev_attempt := mr_attempt r, ev_code := Code_replay_detected,
                      ev_generation := qd_generation (qr_def q), ev_lifecycle := qr_lifecycle q,
                      ev_detail := ''idempotent-replay''\<rparr>],
                  q, f)))"

section \<open>Steps 2 to 4: authority, provenance, generation\<close>

fun provenance_refusal :: "provenance_class \<Rightarrow> code \<times> string" where
  "provenance_refusal Pc_duplicate = (Code_replay_detected, ''duplicate-sequence-without-memo'')"
| "provenance_refusal Pc_stale_incarnation = (Code_stale_incarnation, ''publisher-incarnation-superseded'')"
| "provenance_refusal Pc_stale_boot = (Code_stale_boot, ''publisher-boot-mismatch'')"
| "provenance_refusal Pc_stale_epoch = (Code_stale_epoch, ''publisher-epoch-behind'')"
| "provenance_refusal Pc_capacity_exceeded = (Code_capacity_exceeded, ''publisher-table-full'')"
| "provenance_refusal Pc_invalid = (Code_malformed_input, ''provenance-incomplete'')"
| "provenance_refusal Pc_accepted = (Code_stale_incarnation, ''provenance-rejected'')"

text \<open>Step 3: the status and rule of a refusal, and the fabric whose tracker has observed the record.\<close>

definition admit_provenance :: "provenance \<Rightarrow> 'j fabric \<Rightarrow> (status \<times> string) option \<times> 'j fabric" where
  "admit_provenance p f =
     (if fb_replaying f then (None, f)
      else if classify (fb_provenance f) p \<noteq> Pc_accepted
      then (case provenance_refusal (classify (fb_provenance f) p) of
              (c, rule) \<Rightarrow> (Some (Status c rule, rule), f))
      else (case tr_observe (fb_provenance f) p of
              (observed, t) \<Rightarrow>
                (if \<not> ok observed then (Some (observed, ''provenance-rejected''), f\<lparr>fb_provenance := t\<rparr>)
                 else (None, f\<lparr>fb_provenance := t\<rparr>))))"

definition check_generation :: "queue_record \<Rightarrow> mutation_request \<Rightarrow> 'j fabric \<Rightarrow> (status \<times> string) option" where
  "check_generation q r f =
     (if \<not> ctr_valid (mr_expected_generation r)
      then Some (Status Code_invalid_argument ''expected queue generation is required'', ''expected-generation-missing'')
      else if mr_expected_generation r \<noteq> qd_generation (qr_def q)
      then Some (Status Code_stale_generation ''expected generation is not the current queue generation'',
                 ''expected-generation-mismatch'')
      else if \<not> fb_replaying f \<and> mr_expected_epoch r \<noteq> fb_epoch f
      then Some (Status Code_stale_epoch ''expected epoch is not the current coordinator epoch'',
                 ''expected-epoch-mismatch'')
      else None)"

definition existing_admission ::
  "queue_record \<Rightarrow> mutation_request \<Rightarrow> 'j fabric \<Rightarrow> (status \<times> string) option \<times> 'j fabric" where
  "existing_admission q r f =
     (case find_resource f (qd_resource (qr_def q)) of
        None \<Rightarrow> (Some (Status Code_internal ''queue references an unknown resource'', ''resource-index-corrupt''), f)
      | Some resource \<Rightarrow>
          (let presented_epoch = (if fb_replaying f then av_epoch (rr_authority resource) else mr_expected_epoch r);
               decision = authorize (rr_authority resource) (mr_principal r) (required_capability (mr_kind r))
                            presented_epoch (qr_applicability q) (qr_lifecycle q)
           in if \<not> ad_allowed decision
              then (Some (Status (ad_code decision) (ad_rule decision), ad_rule decision), f)
              else (case admit_provenance (mr_provenance r) f of
                      (Some refused, f) \<Rightarrow> (Some refused, f)
                    | (None, f) \<Rightarrow> (check_generation q r f, f))))"

section \<open>Step 5: application and publication\<close>

definition existing_publish ::
  "queue_record \<Rightarrow> queue_record \<Rightarrow> mutation_request \<Rightarrow> nanos \<Rightarrow> string \<Rightarrow> event list \<Rightarrow> 'j fabric \<Rightarrow> 'j existing_result" where
  "existing_publish before q r now rule events f =
     (let durable = (is_durable (mr_kind r) \<and> fb_journal f \<noteq> None);
          q = q\<lparr>qr_mutation_count := qr_mutation_count q + 1, qr_last_attempt := mr_attempt r,
                qr_last_status := success, qr_last_rule := rule\<rparr>;
          q = remember \<lparr>am_attempt = mr_attempt r, am_fingerprint = mr_fingerprint r, am_kind = mr_kind r,
                        am_outcome = Code_ok, am_generation = qd_generation (qr_def q),
                        am_durable = durable\<rparr> (memo_capacity f) q;
          f = f\<lparr>fb_stats := (fb_stats f)\<lparr>sx_mutations_applied := sx_mutations_applied (fb_stats f) + 1\<rparr>\<rparr>;
          f = (if qr_lifecycle before \<noteq> qr_lifecycle q
               then f\<lparr>fb_stats := (fb_stats f)\<lparr>sx_lifecycle_transitions := sx_lifecycle_transitions (fb_stats f) + 1\<rparr>\<rparr>
               else f);
          bumped = qd_generation (qr_def before) \<noteq> qd_generation (qr_def q);
          q = (if bumped then q\<lparr>qr_staleness_events := qr_staleness_events q + 1\<rparr> else q);
          f = (if bumped
               then f\<lparr>fb_stats := (fb_stats f)\<lparr>sx_staleness_events := sx_staleness_events (fb_stats f) + 1\<rparr>\<rparr>
               else f);
          applied = (new_event Ev_mutation_applied now)\<lparr>ev_queue := qd_id (qr_def q),
             ev_resource := qd_resource (qr_def q), ev_mutation := mr_kind r, ev_attempt := mr_attempt r,
             ev_code := Code_ok, ev_generation := qd_generation (qr_def q), ev_lifecycle := qr_lifecycle q,
             ev_detail := rule\<rparr>
      in (Inr (outcome_of q (mr_attempt r) False durable rule),
          events @ (if fb_replaying f then [] else [applied]), q, f))"

definition existing_apply ::
  "'j journal_ops \<Rightarrow> queue_record \<Rightarrow> mutation_request \<Rightarrow> nanos \<Rightarrow> 'j fabric \<Rightarrow> 'j existing_result" where
  "existing_apply J q r now f =
     (case apply_kind_locked q r now f of
        (applied, rule, events, target, f) \<Rightarrow>
          (if \<not> ok applied
           then reject_existing r applied rule events (if is_durable (mr_kind r) then q else target) f
           else if \<not> is_durable (mr_kind r) then existing_publish q target r now rule events f
           else if fb_journal f \<noteq> None
           then (case journal_commit_locked J r f of
                   (journal_status, f) \<Rightarrow>
                     (if \<not> ok journal_status
                      then reject_existing r journal_status ''journal-commit-failed'' events q f
                      else existing_publish q target r now rule events f))
           else if fc_durable (fb_config f)
           then reject_existing r (Status Code_not_durable ''durable fabric requires a journal'')
                  ''journal-required'' events q f
           else existing_publish q target r now rule events f))"

definition apply_existing_locked ::
  "'j journal_ops \<Rightarrow> queue_record \<Rightarrow> mutation_request \<Rightarrow> nanos \<Rightarrow> 'j fabric \<Rightarrow> 'j existing_result" where
  "apply_existing_locked J q r now f =
     (case find_attempt q (mr_attempt r) of
        Some memo \<Rightarrow> existing_replay memo q r now f
      | None \<Rightarrow>
          (case existing_admission q r f of
             (Some (st, rule), f) \<Rightarrow> reject_existing r st rule [] q f
           | (None, f) \<Rightarrow> existing_apply J q r now f))"

section \<open>Declaration\<close>

type_synonym 'j apply_result = "mutation_outcome result \<times> event list \<times> 'j fabric"

definition reject_declare :: "status \<Rightarrow> 'j fabric \<Rightarrow> 'j apply_result" where
  "reject_declare st f = (Inl st, [], count_rejection f)"

text \<open>An existing queue of the same name: a replay of its own declaration, or a refusal.\<close>

definition declare_existing ::
  "queue_record option \<Rightarrow> declare_queue_payload \<Rightarrow> mutation_request \<Rightarrow> nanos \<Rightarrow> 'j fabric \<Rightarrow> 'j apply_result" where
  "declare_existing existing payload r now f =
     (case existing of
        Some q \<Rightarrow>
          (if pv_publisher (qd_declared_by (qr_def q)) = pv_publisher (mr_provenance r)
              \<and> pv_sequence (qd_declared_by (qr_def q)) = pv_sequence (mr_provenance r)
           then (Inr (outcome_of q (mr_attempt r) True (fb_journal f \<noteq> None) ''duplicate-declaration-identity''),
                 [(new_event Ev_mutation_replayed now)\<lparr>ev_queue := qd_id (qr_def q),
                    ev_resource := dq_resource payload, ev_mutation := mr_kind r,
                    ev_attempt := mr_attempt r, ev_code := Code_replay_detected,
                    ev_detail := ''duplicate-declaration-identity''\<rparr>],
                 count_replay f)
           else reject_declare (Status Code_already_exists ''queue name is already declared in this resource'') f)
      | None \<Rightarrow> reject_declare (Status Code_already_exists ''queue name is already declared in this resource'') f)"

text \<open>The capacity, class, pool, ladder and provenance checks of a new queue; \<^verbatim>\<open>Some\<close> is the refusing status.\<close>

definition declare_refusal ::
  "resource_record \<Rightarrow> declare_queue_payload \<Rightarrow> mutation_request \<Rightarrow> 'j fabric \<Rightarrow> status option" where
  "declare_refusal resource payload r f =
     (let resource_queues = length (filter (\<lambda>e. qd_resource (qr_def (snd e)) = dq_resource payload) (fb_queues f));
          cls = rr_find_class resource (cb_id (dq_cls payload));
          pool = rr_find_pool resource (pr_id (dq_pool payload));
          provenance_class = classify (fb_provenance f) (mr_provenance r)
      in if resource_queues \<ge> fl_max_queues_per_resource (fc_limits (fb_config f))
         then Some (Status Code_capacity_exceeded ''queue capacity for this resource is exhausted'')
         else if length (fb_queues f) \<ge> fl_max_queues_total (fc_limits (fb_config f))
         then Some (Status Code_capacity_exceeded ''fabric queue capacity is exhausted'')
         else if cls = None then Some (Status Code_not_found ''scheduling class is not declared'')
         else if sc_generation (the cls) \<noteq> cb_generation (dq_cls payload)
         then Some (Status Code_stale_generation ''class binding does not name the current class generation'')
         else if pool = None then Some (Status Code_not_found ''buffer pool is not declared'')
         else if bp_generation (the pool) \<noteq> pr_generation (dq_pool payload)
         then Some (Status Code_stale_generation ''pool reference does not name the current pool generation'')
         else if \<not> th_consistent (dq_thresholds payload)
         then Some (Status Code_invalid_argument ''threshold ladder is inconsistent'')
         else if \<not> fb_replaying f \<and> provenance_class \<noteq> Pc_accepted
         then Some (Status (if provenance_class = Pc_duplicate then Code_replay_detected else Code_stale_incarnation)
                      (provenance_class_name provenance_class))
         else None)"

definition declared_record :: "declare_queue_payload \<Rightarrow> mutation_request \<Rightarrow> nanos \<Rightarrow> 'j fabric \<Rightarrow> queue_record" where
  "declared_record payload r now f =
     new_queue_record \<lparr>qd_id = Ident (fb_next_queue_id f), qd_resource = dq_resource payload,
       qd_name = dq_name payload, qd_depth = dq_depth payload, qd_cls = dq_cls payload,
       qd_pool = dq_pool payload, qd_thresholds = dq_thresholds payload, qd_owner = mr_principal r,
       qd_generation = Counter 1, qd_declared_by = mr_provenance r, qd_declared_at = now\<rparr>"

definition declare_publish ::
  "queue_record \<Rightarrow> declare_queue_payload \<Rightarrow> mutation_request \<Rightarrow> nanos \<Rightarrow> 'j fabric \<Rightarrow> 'j apply_result" where
  "declare_publish record' payload r now f =
     (let queue_id = qd_id (qr_def record');
          durable = (fb_journal f \<noteq> None);
          record' = remember \<lparr>am_attempt = mr_attempt r, am_fingerprint = mr_fingerprint r, am_kind = mr_kind r,
                      am_outcome = Code_ok, am_generation = qd_generation (qr_def record'),
                      am_durable = durable\<rparr> (memo_capacity f) record';
          record' = record'\<lparr>qr_mutation_count := qr_mutation_count record' + 1,
                      qr_last_attempt := mr_attempt r, qr_last_rule := ''declared''\<rparr>;
          resources = (case um_find (fb_resources f) (dq_resource payload) of
                         Some resource \<Rightarrow> um_put (dq_resource payload)
                           (resource\<lparr>rr_queue_count := rr_queue_count resource + 1\<rparr>) (fb_resources f)
                       | None \<Rightarrow> fb_resources f);
          f = f\<lparr>fb_next_queue_id := fb_next_queue_id f + 1, fb_resources := resources,
                fb_queue_names := um_emplace (name_key (dq_resource payload) (dq_name payload)) queue_id (fb_queue_names f),
                fb_queues := um_emplace queue_id record' (fb_queues f),
                fb_stats := (fb_stats f)\<lparr>sx_mutations_applied := sx_mutations_applied (fb_stats f) + 1\<rparr>\<rparr>
      in (Inr \<lparr>mo_status = success, mo_queue = queue_id, mo_generation = Counter 1, mo_attempt = mr_attempt r,
               mo_definition_generation = Counter 1, mo_lifecycle = Lc_declared, mo_applicability = App_none,
               mo_replayed = False, mo_durable = durable, mo_rule = ''declared''\<rparr>,
          [(new_event Ev_queue_declared now)\<lparr>ev_queue := queue_id, ev_resource := dq_resource payload,
              ev_mutation := mr_kind r, ev_attempt := mr_attempt r, ev_generation := Counter 1,
              ev_lifecycle := Lc_declared, ev_detail := ''queue declared''\<rparr>],
          f))"

text \<open>Journal, then the tracker, then publication.\<close>

definition declare_commit ::
  "'j journal_ops \<Rightarrow> declare_queue_payload \<Rightarrow> mutation_request \<Rightarrow> nanos \<Rightarrow> 'j fabric \<Rightarrow> 'j apply_result" where
  "declare_commit J payload r now f =
     (let record' = declared_record payload r now f;
          (journal_status, f) =
            (if fb_journal f \<noteq> None then journal_commit_locked J r f
             else if fc_durable (fb_config f)
             then (Status Code_not_durable ''durable fabric requires a journal'', f)
             else (success, f))
      in if \<not> ok journal_status then reject_declare journal_status f
         else if fb_replaying f then declare_publish record' payload r now f
         else (case tr_observe (fb_provenance f) (mr_provenance r) of
                 (observed, t) \<Rightarrow>
                   (let f = f\<lparr>fb_provenance := t\<rparr>
                    in if \<not> ok observed then reject_declare observed f
                       else declare_publish record' payload r now f)))"

definition apply_declare_locked ::
  "'j journal_ops \<Rightarrow> declare_queue_payload \<Rightarrow> mutation_request \<Rightarrow> nanos \<Rightarrow> 'j fabric \<Rightarrow> 'j apply_result" where
  "apply_declare_locked J payload r now f =
     (case find_resource f (dq_resource payload) of
        None \<Rightarrow> reject_declare (Status Code_not_found ''resource is not declared'') f
      | Some resource \<Rightarrow>
          (let presented_epoch = (if fb_replaying f then av_epoch (rr_authority resource) else mr_expected_epoch r);
               decision = authorize (rr_authority resource) (mr_principal r) Cap_declare_queue presented_epoch
                            (rr_applicability resource) Lc_active
           in if \<not> ad_allowed decision
              then reject_declare (Status (ad_code decision) (ad_rule decision)) f
              else (case um_find (fb_queue_names f) (name_key (dq_resource payload) (dq_name payload)) of
                      Some existing \<Rightarrow> declare_existing (find_queue f existing) payload r now f
                    | None \<Rightarrow>
                        (case declare_refusal resource payload r f of
                           Some st \<Rightarrow> reject_declare st f
                         | None \<Rightarrow> declare_commit J payload r now f))))"

section \<open>The public operation\<close>

text \<open>The queue that \<^verbatim>\<open>apply_existing_locked\<close> receives by reference is written back under its key.\<close>

definition on_queue :: "QueueId \<Rightarrow> 'j existing_result \<Rightarrow> 'j apply_result" where
  "on_queue key res = (case res of (out, events, q, f) \<Rightarrow> (out, events, f\<lparr>fb_queues := um_put key q (fb_queues f)\<rparr>))"

definition apply_locked :: "'j journal_ops \<Rightarrow> mutation_request \<Rightarrow> 'j fabric \<Rightarrow> 'j apply_result" where
  "apply_locked J r f =
     (case monotonic_now f of
        (now, f) \<Rightarrow>
          (if fb_shutting_down f then (Inl (Status Code_shutting_down ''fabric is shutting down''), [], f)
           else if \<not> ok (mr_validate r) then reject_declare (mr_validate r) f
           else if mr_kind r = Mk_declare_queue
           then (case mr_payload r of
                   Pl_declare_queue payload \<Rightarrow> apply_declare_locked J payload r now f
                 | _ \<Rightarrow> reject_declare (Status Code_internal ''bad_variant_access'') f)
           else (case find_queue f (mr_queue r) of
                   None \<Rightarrow> reject_declare (Status Code_not_found ''queue is not declared'') f
                 | Some q \<Rightarrow> on_queue (mr_queue r) (apply_existing_locked J q r now f))))"

definition fabric_apply :: "'j journal_ops \<Rightarrow> mutation_request \<Rightarrow> 'j fabric \<Rightarrow> mutation_outcome result \<times> 'j fabric" where
  "fabric_apply J r f = (case apply_locked J r f of (out, events, f) \<Rightarrow> (out, emit_events events f))"

definition apply_replay_locked :: "'j journal_ops \<Rightarrow> mutation_request \<Rightarrow> 'j fabric \<Rightarrow> mutation_outcome result \<times> 'j fabric" where
  "apply_replay_locked J r f =
     (case apply_locked J r (f\<lparr>fb_replaying := True\<rparr>) of (out, events, f) \<Rightarrow> (out, f\<lparr>fb_replaying := False\<rparr>))"

section \<open>The abstract machine of the mutation path\<close>

text \<open>The authoritative content of a queue record: everything but counters, last attempt and memo.\<close>

definition qr_view :: "queue_record \<Rightarrow> queue_record" where
  "qr_view q = q\<lparr>qr_mutation_count := 0, qr_replayed_count := 0, qr_rejected_count := 0,
     qr_overflow_events := 0, qr_staleness_events := 0, qr_last_attempt := no_attempt,
     qr_last_status := success, qr_last_rule := [], qr_memo := []\<rparr>"

lemma qr_viewD:
  assumes "qr_view q = qr_view q'"
  shows "qr_def q = qr_def q'" "qr_lifecycle q = qr_lifecycle q'" "qr_applicability q = qr_applicability q'"
    "qr_occupancy q = qr_occupancy q'" "qr_fence q = qr_fence q'" "qr_drain q = qr_drain q'"
    "qr_applied q = qr_applied q'" "qr_failure_reason q = qr_failure_reason q'"
  using assms by (cases q; cases q'; simp add: qr_view_def)+

lemma qr_viewI:
  "qr_def q = qr_def q' \<Longrightarrow> qr_lifecycle q = qr_lifecycle q' \<Longrightarrow> qr_applicability q = qr_applicability q' \<Longrightarrow>
   qr_occupancy q = qr_occupancy q' \<Longrightarrow> qr_fence q = qr_fence q' \<Longrightarrow> qr_drain q = qr_drain q' \<Longrightarrow>
   qr_applied q = qr_applied q' \<Longrightarrow> qr_failure_reason q = qr_failure_reason q' \<Longrightarrow> qr_view q = qr_view q'"
  by (cases q; cases q'; simp add: qr_view_def)

text \<open>The memo either stays or remembers one entry for the attempt of the request.\<close>

definition memo_follows :: "nat \<Rightarrow> mutation_request \<Rightarrow> code option \<Rightarrow> queue_record \<Rightarrow> queue_record \<Rightarrow> bool" where
  "memo_follows cap r c q q' \<longleftrightarrow>
     (case c of
        None \<Rightarrow> qr_memo q' = qr_memo q
      | Some c \<Rightarrow> (\<exists>e. am_attempt e = mr_attempt r \<and> am_fingerprint e = mr_fingerprint r \<and> am_outcome e = c
                     \<and> qr_memo q' = remember_memo e cap (qr_memo q)))"

definition admitted :: "'j fabric \<Rightarrow> queue_record \<Rightarrow> mutation_request \<Rightarrow> bool" where
  "admitted f q r \<longleftrightarrow>
     (case find_resource f (qd_resource (qr_def q)) of
        None \<Rightarrow> False
      | Some res \<Rightarrow>
          ad_allowed (authorize (rr_authority res) (mr_principal r) (required_capability (mr_kind r))
            (if fb_replaying f then av_epoch (rr_authority res) else mr_expected_epoch r)
            (qr_applicability q) (qr_lifecycle q)))
     \<and> (\<not> fb_replaying f \<longrightarrow> classify (fb_provenance f) (mr_provenance r) = Pc_accepted
          \<and> mr_expected_epoch r = fb_epoch f)
     \<and> ctr_valid (mr_expected_generation r) \<and> mr_expected_generation r = qd_generation (qr_def q)"

lemma queue_step_core: "core f = core g \<Longrightarrow> queue_step f r now q t \<Longrightarrow> queue_step g r now q t"
proof -
  assume c: "core f = core g"
  have eqs: "fb_config f = fb_config g" "fb_epoch f = fb_epoch g" "fb_resources f = fb_resources g"
    using coreD [OF c] by blast+
  have live: "find_live_backend f = find_live_backend g"
    by (intro ext) (simp only: find_live_backend_def find_resource_def eqs)
  have bind: "check_class_binding f = check_class_binding g"
    by (intro ext) (simp only: check_class_binding_def find_resource_def eqs)
  have redef: "redefinition f = redefinition g"
    by (intro ext) (simp only: redefinition_def bind)
  have ing: "ingest_refusal t r s now f = ingest_refusal t r s now g" for t s
    by (simp only: ingest_refusal_def eqs)
  have quies: "quiesce_evidence f now t = quiesce_evidence g now t" for t
    by (simp only: quiesce_evidence_def eqs live)
  have evid: "evidence_acceptable f t e = evidence_acceptable g t e" for t e
    by (simp only: evidence_acceptable_def eqs live)
  assume "queue_step f r now q t"
  then show "queue_step g r now q t"
    by cases (auto intro: queue_step.intros simp: eqs live bind redef ing quies evid)
qed

inductive apply_spec :: "'j fabric \<Rightarrow> mutation_request \<Rightarrow> mutation_outcome result \<Rightarrow> core_state \<Rightarrow> bool"
  for f :: "'j fabric" and r :: mutation_request where
  refused: "apply_spec f r (Inl st) (core f)"
| refused_on: "find_queue f (mr_queue r) = Some q \<Longrightarrow> qr_view q' = qr_view q \<Longrightarrow>
    memo_follows (memo_capacity f) r c q q' \<Longrightarrow>
    apply_spec f r (Inl st) ((core f)\<lparr>co_queues := um_put (mr_queue r) q' (fb_queues f)\<rparr>)"
| replayed: "find_queue f (mr_queue r) = Some q \<Longrightarrow> qr_view q' = qr_view q \<Longrightarrow> qr_memo q' = qr_memo q \<Longrightarrow>
    mo_replayed out \<Longrightarrow> mo_queue out = qd_id (qr_def q) \<Longrightarrow> mo_generation out = qd_generation (qr_def q) \<Longrightarrow>
    apply_spec f r (Inr out) ((core f)\<lparr>co_queues := um_put (mr_queue r) q' (fb_queues f)\<rparr>)"
| applied: "find_queue f (mr_queue r) = Some q \<Longrightarrow> find_attempt q (mr_attempt r) = None \<Longrightarrow> admitted f q r \<Longrightarrow>
    queue_step f r now q t \<Longrightarrow> qr_view q' = qr_view t \<Longrightarrow> fb_clock_watermark f \<le> now \<Longrightarrow>
    memo_follows (memo_capacity f) r (Some Code_ok) q q' \<Longrightarrow>
    \<not> mo_replayed out \<Longrightarrow> mo_queue out = qd_id (qr_def q) \<Longrightarrow> mo_generation out = qd_generation (qr_def t) \<Longrightarrow>
    apply_spec f r (Inr out) ((core f)\<lparr>co_queues := um_put (mr_queue r) q' (fb_queues f)\<rparr>)"
| declared_again: "mr_payload r = Pl_declare_queue p \<Longrightarrow>
    um_find (fb_queue_names f) (name_key (dq_resource p) (dq_name p)) = Some i \<Longrightarrow> find_queue f i = Some q \<Longrightarrow>
    mo_replayed out \<Longrightarrow> mo_queue out = qd_id (qr_def q) \<Longrightarrow>
    apply_spec f r (Inr out) (core f)"
| declared: "mr_payload r = Pl_declare_queue p \<Longrightarrow> ok (validate_declare r p) \<Longrightarrow>
    find_resource f (dq_resource p) = Some res \<Longrightarrow>
    um_find (fb_queue_names f) (name_key (dq_resource p) (dq_name p)) = None \<Longrightarrow>
    declare_refusal res p r f = None \<Longrightarrow>
    qr_view q' = qr_view (declared_record p r now f) \<Longrightarrow>
    memo_follows (memo_capacity f) r (Some Code_ok) (declared_record p r now f) q' \<Longrightarrow>
    \<not> mo_replayed out \<Longrightarrow> mo_queue out = Ident (fb_next_queue_id f) \<Longrightarrow>
    apply_spec f r (Inr out)
      ((core f)\<lparr>co_resources := um_put (dq_resource p) (res\<lparr>rr_queue_count := Suc (rr_queue_count res)\<rparr>) (fb_resources f),
                co_queue_names := um_emplace (name_key (dq_resource p) (dq_name p)) (Ident (fb_next_queue_id f)) (fb_queue_names f),
                co_queues := um_emplace (Ident (fb_next_queue_id f)) q' (fb_queues f),
                co_next_queue_id := fb_next_queue_id f + 1\<rparr>)"

section \<open>Refinement\<close>

lemma record_rejection_view: "qr_view (record_rejection n r st rule q) = qr_view q"
  by (rule qr_viewI) simp_all

lemma memo_followsI:
  "qr_memo q' = remember_memo e cap (qr_memo q) \<Longrightarrow> am_attempt e = mr_attempt r \<Longrightarrow>
   am_fingerprint e = mr_fingerprint r \<Longrightarrow> am_outcome e = c \<Longrightarrow> memo_follows cap r (Some c) q q'"
  by (auto simp: memo_follows_def)

lemma record_rejection_memo: "memo_follows n r (Some (st_code st)) q (record_rejection n r st rule q)"
  by (rule memo_followsI, simp add: record_rejection_def, simp_all)

lemma memo_follows_cong: "qr_memo q1 = qr_memo q \<Longrightarrow> memo_follows cap r c q1 q' = memo_follows cap r c q q'"
  by (simp only: memo_follows_def)

lemma memo_follows_None: "qr_memo q' = qr_memo q \<Longrightarrow> memo_follows cap r None q q'"
  by (simp add: memo_follows_def)

lemma core_count_replay [simp, frame_simps]: "core (count_replay f) = core f"
  by (simp add: count_replay_def)

lemma core_provenance [simp, frame_simps]: "core (f\<lparr>fb_provenance := t\<rparr>) = core f"
  by (simp add: core_def)

lemma admit_provenance_frame: "core (snd (admit_provenance p f)) = core f"
  by (auto simp: admit_provenance_def split: prod.splits)

lemma admit_provenance_None:
  "admit_provenance p f = (None, f') \<Longrightarrow> \<not> fb_replaying f \<Longrightarrow> classify (fb_provenance f) p = Pc_accepted"
  by (auto simp: admit_provenance_def split: prod.splits if_splits)

lemma existing_admission_frame: "existing_admission q r f = (a, f') \<Longrightarrow> core f' = core f"
  using admit_provenance_frame [of "mr_provenance r" f]
  by (auto simp: existing_admission_def Let_def split: option.splits if_splits prod.splits)

lemma existing_admission_None:
  assumes "existing_admission q r f = (None, f')"
  shows "admitted f q r"
proof -
  obtain res where res: "find_resource f (qd_resource (qr_def q)) = Some res"
    using assms by (auto simp: existing_admission_def split: option.splits)
  obtain f1 where adm: "admit_provenance (mr_provenance r) f = (None, f1)" and gen: "check_generation q r f1 = None"
    using assms res by (auto simp: existing_admission_def Let_def split: if_splits option.splits prod.splits)
  have "core f1 = core f"
    using admit_provenance_frame [of "mr_provenance r" f] adm by simp
  then have "fb_replaying f1 = fb_replaying f" "fb_epoch f1 = fb_epoch f"
    using coreD by blast+
  then show ?thesis
    using assms res adm gen admit_provenance_None [OF adm]
    by (auto simp: admitted_def existing_admission_def check_generation_def Let_def split: if_splits)
qed

text \<open>What the function on an existing queue delivers, before the record is written back.\<close>

definition existing_spec ::
  "'j fabric \<Rightarrow> mutation_request \<Rightarrow> nanos \<Rightarrow> queue_record \<Rightarrow> 'j existing_result \<Rightarrow> bool" where
  "existing_spec f r now q res \<longleftrightarrow>
     (case res of (out, events, q', f') \<Rightarrow>
        core f' = core f
        \<and> (case out of
             Inl st \<Rightarrow> qr_view q' = qr_view q \<and> (\<exists>c. memo_follows (memo_capacity f) r c q q')
           | Inr out \<Rightarrow>
               mo_queue out = qd_id (qr_def q) \<and>
               (if mo_replayed out
                then qr_view q' = qr_view q \<and> qr_memo q' = qr_memo q \<and> mo_generation out = qd_generation (qr_def q)
                else find_attempt q (mr_attempt r) = None \<and> admitted f q r
                  \<and> (\<exists>t. queue_step f r now q t \<and> qr_view q' = qr_view t \<and> mo_generation out = qd_generation (qr_def t))
                  \<and> memo_follows (memo_capacity f) r (Some Code_ok) q q')))"

lemma existing_spec_refused:
  "core f' = core f \<Longrightarrow> qr_view q' = qr_view q \<Longrightarrow> memo_follows (memo_capacity f) r c q q' \<Longrightarrow>
   existing_spec f r now q (Inl st, events, q', f')"
  by (auto simp: existing_spec_def)

lemma reject_existing_spec:
  assumes "core f' = core f" "qr_view q' = qr_view q" "qr_memo q' = qr_memo q"
  shows "existing_spec f r now q (reject_existing r st rule events q' f')"
  unfolding reject_existing_def
proof (rule existing_spec_refused)
  show "memo_follows (memo_capacity f) r (Some (st_code st)) q (record_rejection (memo_capacity f') r st rule q')"
    using record_rejection_memo [of "memo_capacity f'" r st q' rule] coreD(1) [OF assms(1)]
    by (simp add: memo_follows_cong [OF assms(3)])
qed (simp_all add: assms record_rejection_view)

lemma existing_replay_spec: "existing_spec f r now q (existing_replay memo q r now f)"
proof (cases "am_fingerprint memo = mr_fingerprint r \<and> am_outcome memo = Code_ok")
  case True
  then show ?thesis
    by (simp add: existing_replay_def Let_def existing_spec_def outcome_of_def qr_view_def)
next
  case False
  then show ?thesis
    by (auto simp: existing_replay_def Let_def reject_existing_spec qr_view_def
        intro!: existing_spec_refused [where c = None] memo_follows_None)
qed

lemma existing_publish_memo:
  assumes "existing_publish b t r now rule events f = (Inr out, evs, q', f')"
  shows "memo_follows (memo_capacity f) r (Some Code_ok) t q'"
proof (rule memo_followsI)
  show "qr_memo q' = remember_memo \<lparr>am_attempt = mr_attempt r, am_fingerprint = mr_fingerprint r, am_kind = mr_kind r,
          am_outcome = Code_ok, am_generation = qd_generation (qr_def t),
          am_durable = (is_durable (mr_kind r) \<and> fb_journal f \<noteq> None)\<rparr> (memo_capacity f) (qr_memo t)"
    using assms unfolding existing_publish_def Let_def by (auto split: if_splits)
qed simp_all

lemma existing_publish_view:
  "existing_publish b t r now rule events f = (Inr out, evs, q', f') \<Longrightarrow>
     core f' = core f \<and> qr_view q' = qr_view t \<and> \<not> mo_replayed out \<and> mo_queue out = qd_id (qr_def t)
     \<and> mo_generation out = qd_generation (qr_def t) \<and> memo_follows (memo_capacity f) r (Some Code_ok) t q'"
  using existing_publish_memo [of b t r now rule events f out evs q' f'] unfolding existing_publish_def Let_def
  by (auto simp: outcome_of_def core_stats intro!: qr_viewI)

lemma existing_publish_Inr: "\<exists>out evs q' f'. existing_publish b t r now rule events f = (Inr out, evs, q', f')"
  by (simp add: existing_publish_def Let_def)

lemma queue_step_memo: "queue_step f r now q t \<Longrightarrow> qr_memo t = qr_memo q \<and> qd_id (qr_def t) = qd_id (qr_def q)"
  by (erule queue_step.cases)
     (auto simp: with_definition_def ingest_record_def redefinition_def)

lemma publish_spec:
  assumes "find_attempt q (mr_attempt r) = None" "admitted f q r" "queue_step f r now q t" "core f1 = core f"
  shows "existing_spec f r now q (existing_publish q t r now rule events f1)"
proof -
  obtain out evs q' f' where res: "existing_publish q t r now rule events f1 = (Inr out, evs, q', f')"
    using existing_publish_Inr by blast
  have "memo_capacity f1 = memo_capacity f"
    using coreD(1) [OF assms(4)] by simp
  then show ?thesis
    using existing_publish_view [OF res] queue_step_memo [OF assms(3)] assms
    by (auto simp: res existing_spec_def memo_follows_def)
qed

lemma existing_apply_spec:
  assumes "find_attempt q (mr_attempt r) = None" "admitted f q r" "core f1 = core f"
  shows "existing_spec f r now q (existing_apply J q r now f1)"
proof -
  obtain st rule events t f2 where k: "apply_kind_locked q r now f1 = (st, rule, events, t, f2)"
    by (metis prod_cases5)
  obtain js f3 where j: "journal_commit_locked J r f2 = (js, f3)"
    by (meson surj_pair)
  show ?thesis
  proof (cases "ok st")
    case False
    then have "t = q" "f2 = f1"
      using apply_kind_refused [OF k] by auto
    then show ?thesis
      using False k assms(3) by (simp add: existing_apply_def reject_existing_spec)
  next
    case True
    have c2: "core f2 = core f"
      using apply_kind_ok [OF k True] assms(3) by simp
    have c3: "core f3 = core f"
      using core_journal_commit [of J r f2] j c2 by simp
    have step: "queue_step f r now q t"
      using apply_kind_ok [OF k True] queue_step_core [OF assms(3)] by blast
    show ?thesis
      using True k j c2 c3 publish_spec [OF assms(1,2) step]
      by (simp add: existing_apply_def reject_existing_spec)
  qed
qed

lemma apply_existing_spec: "existing_spec f r now q (apply_existing_locked J q r now f)"
proof (cases "find_attempt q (mr_attempt r)")
  case (Some memo)
  then show ?thesis
    by (simp add: apply_existing_locked_def existing_replay_spec)
next
  case None
  obtain a f1 where adm: "existing_admission q r f = (a, f1)"
    by (meson surj_pair)
  have c: "core f1 = core f"
    using existing_admission_frame [OF adm] .
  show ?thesis
  proof (cases a)
    case None': None
    then show ?thesis
      using None adm existing_apply_spec [OF None _ c] existing_admission_None [of q r f f1]
      by (simp add: apply_existing_locked_def)
  next
    case (Some p)
    then show ?thesis
      using None adm c by (cases p) (simp add: apply_existing_locked_def reject_existing_spec)
  qed
qed

section \<open>The whole operation refines the abstract machine\<close>

lemma on_queue_spec:
  assumes q: "find_queue f (mr_queue r) = Some q" and res: "existing_spec f r now q res"
    and now: "fb_clock_watermark f \<le> now" and out: "on_queue (mr_queue r) res = (out, events, f')"
  shows "apply_spec f r out (core f')"
proof -
  obtain o' e' q' g where res_eq: "res = (o', e', q', g)"
    by (cases res) auto
  have g: "core g = core f" and o': "o' = out" and f': "f' = g\<lparr>fb_queues := um_put (mr_queue r) q' (fb_queues g)\<rparr>"
    using res out by (auto simp: res_eq on_queue_def existing_spec_def)
  have core': "core f' = (core f)\<lparr>co_queues := um_put (mr_queue r) q' (fb_queues f)\<rparr>"
    using g coreD(4) [OF g] by (simp add: f' core_def)
  show ?thesis
  proof (cases out)
    case (Inl st)
    then show ?thesis
      using res o' unfolding core' by (auto simp: res_eq existing_spec_def intro: apply_spec.refused_on [OF q])
  next
    case (Inr a)
    then show ?thesis
      using res o' unfolding core'
      by (cases "mo_replayed a")
         (auto simp: res_eq existing_spec_def intro: apply_spec.replayed [OF q] apply_spec.applied [OF q _ _ _ _ now])
  qed
qed

lemma journal_commit_fields:
  assumes "journal_commit_locked J r f = (st, f')"
  shows "core f' = core f" "fb_next_queue_id f' = fb_next_queue_id f" "fb_provenance f' = fb_provenance f"
  using assms core_journal_commit [of J r f]
  by (auto simp: journal_commit_locked_def Let_def split: option.splits prod.splits if_splits)

lemma declare_publish_spec:
  assumes p: "mr_payload r = Pl_declare_queue p" "ok (validate_declare r p)"
    and res: "find_resource f (dq_resource p) = Some res"
    and names: "um_find (fb_queue_names f) (name_key (dq_resource p) (dq_name p)) = None"
    and ref: "declare_refusal res p r f = None"
    and c: "core g = core f" "fb_next_queue_id g = fb_next_queue_id f"
    and out: "declare_publish (declared_record p r now f) p r now g = (out, events, f')"
  shows "apply_spec f r out (core f')"
proof -
  define e where "e = \<lparr>am_attempt = mr_attempt r, am_fingerprint = mr_fingerprint r, am_kind = mr_kind r,
      am_outcome = Code_ok, am_generation = Counter 1, am_durable = (fb_journal g \<noteq> None)\<rparr>"
  define q0 where "q0 = remember e (memo_capacity g) (declared_record p r now f)"
  define q' where "q' = q0\<lparr>qr_mutation_count := qr_mutation_count q0 + 1, qr_last_attempt := mr_attempt r,
      qr_last_rule := ''declared''\<rparr>"
  have res': "um_find (fb_resources f) (dq_resource p) = Some res"
    using res by (simp add: find_resource_def)
  have core': "core f' = (core f)\<lparr>co_resources := um_put (dq_resource p) (res\<lparr>rr_queue_count := Suc (rr_queue_count res)\<rparr>) (fb_resources f),
                co_queue_names := um_emplace (name_key (dq_resource p) (dq_name p)) (Ident (fb_next_queue_id f)) (fb_queue_names f),
                co_queues := um_emplace (Ident (fb_next_queue_id f)) q' (fb_queues f),
                co_next_queue_id := fb_next_queue_id f + 1\<rparr>"
    using out coreD [OF c(1)]
    by (auto simp: declare_publish_def Let_def core_def res' q'_def q0_def e_def declared_record_def new_queue_record_def)
  have out': "\<exists>o'. out = Inr o' \<and> \<not> mo_replayed o' \<and> mo_queue o' = Ident (fb_next_queue_id f)"
    using out by (auto simp: declare_publish_def Let_def declared_record_def new_queue_record_def)
  have "qr_view q' = qr_view (declared_record p r now f)"
    by (rule qr_viewI) (simp_all add: q'_def q0_def)
  moreover have "memo_follows (memo_capacity f) r (Some Code_ok) (declared_record p r now f) q'"
    using coreD(1) [OF c(1)]
    by (intro memo_followsI [where e = e]) (simp_all add: q'_def q0_def e_def)
  ultimately show ?thesis
    using out' unfolding core' by (auto intro: apply_spec.declared [OF p res names ref])
qed

lemma declare_commit_spec:
  assumes p: "mr_payload r = Pl_declare_queue p" "ok (validate_declare r p)"
    and res: "find_resource f (dq_resource p) = Some res"
    and names: "um_find (fb_queue_names f) (name_key (dq_resource p) (dq_name p)) = None"
    and ref: "declare_refusal res p r f = None"
    and out: "declare_commit J p r now f = (out, events, f')"
  shows "apply_spec f r out (core f')"
proof -
  define js where "js = (if fb_journal f \<noteq> None then journal_commit_locked J r f
     else if fc_durable (fb_config f) then (Status Code_not_durable ''durable fabric requires a journal'', f) else (success, f))"
  obtain st g where js_eq: "js = (st, g)"
    by (cases js)
  have c: "core g = core f" "fb_next_queue_id g = fb_next_queue_id f" "fb_provenance g = fb_provenance f"
    using js_eq journal_commit_fields [of J r f st g] by (auto simp: js_def split: if_splits)
  have rep: "fb_replaying g = fb_replaying f"
    using coreD(8) [OF c(1)] .
  obtain ob t where obs: "tr_observe (fb_provenance f) (mr_provenance r) = (ob, t)"
    by (meson surj_pair)
  note pub = declare_publish_spec [OF p res names ref]
  have refuse: "apply_spec f r (Inl s) (core h)" if "core h = core f" for s and h :: "'a fabric"
    using apply_spec.refused [of f r s] that by simp
  show ?thesis
    using out c pub [OF c(1,2)] pub [of "g\<lparr>fb_provenance := t\<rparr>"] refuse
    unfolding declare_commit_def Let_def js_def [symmetric] js_eq
    by (auto simp: obs reject_declare_def split: if_splits)
qed

lemma apply_declare_spec:
  assumes p: "mr_payload r = Pl_declare_queue p" "ok (validate_declare r p)"
    and out: "apply_declare_locked J p r now f = (out, events, f')"
  shows "apply_spec f r out (core f')"
proof -
  have refuse: "apply_spec f r (Inl s) (core (count_rejection f))" for s
    using apply_spec.refused [of f r s] by simp
  have again: "apply_spec f r (Inr x) (core (count_replay f))"
    if "um_find (fb_queue_names f) (name_key (dq_resource p) (dq_name p)) = Some i" "find_queue f i = Some q"
      "mo_replayed x" "mo_queue x = qd_id (qr_def q)" for x i q
    using apply_spec.declared_again [OF p(1) that] by simp
  show ?thesis
    using out refuse again declare_commit_spec [OF p]
    by (auto simp: apply_declare_locked_def Let_def reject_declare_def declare_existing_def outcome_of_def
        split: option.splits if_splits)
qed

lemma apply_spec_clock:
  assumes "apply_spec g r out c" "monotonic_now f = (now, g)"
  shows "apply_spec f r out c"
proof -
  have g: "g = f\<lparr>fb_ticks := fb_ticks f + 1, fb_clock_watermark := now\<rparr>" and le: "fb_clock_watermark f \<le> now"
    using assms(2) by (auto simp: monotonic_now_def Let_def)
  have core: "core g = core f" "find_queue g = find_queue f" "find_resource g = find_resource f"
    by (auto simp: g core_def find_queue_def find_resource_def fun_eq_iff)
  have flds: "fb_config g = fb_config f" "fb_queues g = fb_queues f" "fb_queue_names g = fb_queue_names f"
      "fb_resources g = fb_resources f" "fb_next_queue_id g = fb_next_queue_id f" "fb_replaying g = fb_replaying f"
      "fb_provenance g = fb_provenance f" "fb_epoch g = fb_epoch f"
    by (simp_all add: g)
  have adm: "admitted g q r = admitted f q r" for q
    by (simp only: admitted_def core flds)
  have dr: "declare_refusal res p r g = declare_refusal res p r f" for res p
    by (simp only: declare_refusal_def flds)
  have rec: "declared_record p r n g = declared_record p r n f" for p n
    by (simp only: declared_record_def flds)
  have step: "queue_step g r n q t = queue_step f r n q t" for n q t
    using queue_step_core [OF core(1)] queue_step_core [OF core(1) [symmetric]] by blast
  have wm: "fb_clock_watermark f \<le> n" if "fb_clock_watermark g \<le> n" for n
    using that le by (simp add: g)
  from assms(1) show ?thesis
    unfolding core adm dr rec step flds
    by cases (auto intro: apply_spec.intros simp: core adm dr rec step flds dest: wm)
qed

theorem apply_locked_refines: "apply_locked J r f = (out, events, f') \<Longrightarrow> apply_spec f r out (core f')"
proof -
  assume out: "apply_locked J r f = (out, events, f')"
  obtain now g where now: "monotonic_now f = (now, g)"
    by (meson surj_pair)
  have wm: "fb_clock_watermark g \<le> now"
    using monotonic_now_watermark(2) [of f] now by simp
  have refuse: "apply_spec g r (Inl s) (core g)" "apply_spec g r (Inl s) (core (count_rejection g))" for s
    using apply_spec.refused [of g r s] by simp_all
  have "apply_spec g r out (core f')"
  proof (cases "fb_shutting_down g \<or> \<not> ok (mr_validate r)")
    case True
    then show ?thesis
      using out refuse by (auto simp: apply_locked_def now reject_declare_def split: if_splits)
  next
    case False
    show ?thesis
    proof (cases "mr_kind r = Mk_declare_queue")
      case True
      then obtain p where p: "mr_payload r = Pl_declare_queue p" "ok (validate_declare r p)"
        using False by (auto simp: mr_validate_ok declare_payload validate_payload_def)
      then show ?thesis
        using out True False apply_declare_spec [OF p, of J now g out events f'] by (simp add: apply_locked_def now)
    next
      case nd: False
      show ?thesis
        using out nd False refuse on_queue_spec [OF _ apply_existing_spec wm]
        by (auto simp: apply_locked_def now reject_declare_def split: option.splits)
    qed
  qed
  then show ?thesis
    using apply_spec_clock [OF _ now] by blast
qed

theorem fabric_apply_refines: "fabric_apply J r f = (out, f') \<Longrightarrow> apply_spec f r out (core f')"
  using apply_locked_refines [of J r f] by (auto simp: fabric_apply_def split: prod.splits)

end
