(* ===== verification/QF_Topology.thy ===== *)
theory QF_Topology
  imports QF_Apply
begin

text \<open>
  The administrative operations, queries and request helpers of \<^verbatim>\<open>src/fabric.cpp\<close>. Every
  operation returns its result and the fabric; a refusal before the durable write leaves the
  authoritative state as it was.
\<close>

section \<open>Resources and grants\<close>

definition update_first :: "('a \<Rightarrow> bool) \<Rightarrow> ('a \<Rightarrow> 'a) \<Rightarrow> 'a list \<Rightarrow> 'a list" where
  "update_first P g xs =
     (case dropWhile (\<lambda>x. \<not> P x) xs of
        [] \<Rightarrow> xs
      | y # ys \<Rightarrow> takeWhile (\<lambda>x. \<not> P x) xs @ g y # ys)"

definition topology_event :: "nanos \<Rightarrow> ResourceId \<Rightarrow> string \<Rightarrow> event" where
  "topology_event now resource detail =
     (new_event Ev_topology_changed now)\<lparr>ev_resource := resource, ev_detail := detail\<rparr>"

definition admin_refusal :: "resource_record \<Rightarrow> OwnerId \<Rightarrow> capability \<Rightarrow> Epoch \<Rightarrow> status option" where
  "admin_refusal rec actor cap expected_epoch =
     (let decision = authorize (rr_authority rec) actor cap expected_epoch (rr_applicability rec) Lc_active
      in if ad_allowed decision then None else Some (Status (ad_code decision) (ad_rule decision)))"

definition name_in_range :: "string \<Rightarrow> bool" where
  "name_in_range name \<longleftrightarrow> name \<noteq> [] \<and> length name \<le> kMaxNameChars"

definition declare_resource_refusal :: "string \<Rightarrow> OwnerId \<Rightarrow> provenance \<Rightarrow> 'j fabric \<Rightarrow> status option" where
  "declare_resource_refusal name own prov f =
     (if fb_shutting_down f then Some (Status Code_shutting_down ''fabric is shutting down'')
      else if \<not> fb_healthy f then Some (Status Code_not_durable ''fabric is not healthy'')
      else if \<not> id_valid own then Some (Status Code_invalid_argument ''owner identity is required'')
      else if \<not> pv_valid prov then Some (Status Code_malformed_input ''complete provenance is required'')
      else if \<not> name_in_range name then Some (Status Code_out_of_range ''resource name length is out of range'')
      else if length (fb_resources f) \<ge> fl_max_resources (fc_limits (fb_config f))
      then Some (Status Code_capacity_exceeded ''resource capacity is exhausted'')
      else if \<exists>e\<in>set (fb_resources f). rr_name (snd e) = name
      then Some (Status Code_already_exists ''resource name is already declared'')
      else None)"

definition declared_resource :: "string \<Rightarrow> OwnerId \<Rightarrow> provenance \<Rightarrow> nanos \<Rightarrow> 'j fabric \<Rightarrow> resource_record" where
  "declared_resource name own prov now f =
     \<lparr>rr_id = Ident (fb_next_resource_id f), rr_name = name, rr_owner = own, rr_generation = Counter 1,
      rr_epoch = fb_epoch f,
      rr_authority = \<lparr>av_resource = Ident (fb_next_resource_id f), av_owner = own, av_epoch = fb_epoch f,
                      av_grants = [\<lparr>ag_owner = own, ag_capabilities = to_mask Cap_all\<rparr>]\<rparr>,
      rr_classes = [], rr_pools = [], rr_backends = [], rr_applicability = App_none,
      rr_declared_by = prov, rr_declared_at = now, rr_queue_count = 0\<rparr>"

definition declare_resource ::
  "'j journal_ops \<Rightarrow> string \<Rightarrow> OwnerId \<Rightarrow> provenance \<Rightarrow> 'j fabric \<Rightarrow> ResourceId result \<times> 'j fabric" where
  "declare_resource J name own prov f =
     (case declare_resource_refusal name own prov f of
        Some st \<Rightarrow> (Inl st, f)
      | None \<Rightarrow>
          (let (now, f) = monotonic_now f;
               rec = declared_resource name own prov now f;
               encoded = encode_resource_state rec
           in if fb_journal f \<noteq> None \<and> encoded = []
              then (Inl (Status Code_internal ''resource state could not be encoded''), f)
              else (case persist J Jr_resource_state encoded ''resource state is not durable'' f of
                (st, f) \<Rightarrow>
                  if \<not> ok st then (Inl st, f)
                  else (let f = f\<lparr>fb_next_resource_id := fb_next_resource_id f + 1,
                                  fb_resources := um_emplace (rr_id rec) rec (fb_resources f)\<rparr>;
                            (at', f) = monotonic_now f
                        in (Inr (rr_id rec), emit_events [topology_event at' (rr_id rec) ''resource declared''] f)))))"

text \<open>Replace the grant of an owner or add one; \<^verbatim>\<open>None\<close> when the table is full.\<close>

definition put_grant_for :: "nat \<Rightarrow> OwnerId \<Rightarrow> u32 \<Rightarrow> authority_grant list \<Rightarrow> authority_grant list option" where
  "put_grant_for bound grantee capabilities grants =
     (if \<exists>g\<in>set grants. ag_owner g = grantee
      then Some (update_first (\<lambda>g. ag_owner g = grantee) (\<lambda>g. g\<lparr>ag_capabilities := capabilities\<rparr>) grants)
      else if length grants \<ge> bound then None
      else Some (grants @ [\<lparr>ag_owner = grantee, ag_capabilities = capabilities\<rparr>]))"

definition grant_capabilities ::
  "'j journal_ops \<Rightarrow> ResourceId \<Rightarrow> OwnerId \<Rightarrow> u32 \<Rightarrow> OwnerId \<Rightarrow> Epoch \<Rightarrow> provenance \<Rightarrow> 'j fabric \<Rightarrow> status \<times> 'j fabric" where
  "grant_capabilities J resource grantee capabilities actor expected_epoch prov f =
     (if fb_shutting_down f then (Status Code_shutting_down ''fabric is shutting down'', f)
      else if \<not> pv_valid prov then (Status Code_malformed_input ''complete provenance is required'', f)
      else (case find_resource f resource of
        None \<Rightarrow> (Status Code_not_found ''resource is not declared'', f)
      | Some rec \<Rightarrow>
          (case admin_refusal rec actor Cap_admin expected_epoch of
             Some st \<Rightarrow> (st, f)
           | None \<Rightarrow>
               (if \<not> id_valid grantee then (Status Code_invalid_argument ''grantee identity is required'', f)
                else (case put_grant_for (fl_max_grants_per_resource (fc_limits (fb_config f))) grantee capabilities
                             (av_grants (rr_authority rec)) of
                        None \<Rightarrow> (Status Code_capacity_exceeded ''capability grant capacity is exhausted'', f)
                      | Some grants \<Rightarrow>
                          (let updated = rec\<lparr>rr_authority := (rr_authority rec)\<lparr>av_grants := grants\<rparr>\<rparr>
                           in case persist J Jr_resource_state (encode_resource_state updated)
                                     ''capability grant is not durable'' f of
                                (st, f) \<Rightarrow>
                                  if \<not> ok st then (st, f)
                                  else (let f = f\<lparr>fb_resources := um_put resource updated (fb_resources f)\<rparr>;
                                            (now, f) = monotonic_now f
                                        in (success,
                                            emit_events [topology_event now resource ''capabilities granted''] f))))))))"

section \<open>Classes and pools\<close>

text \<open>
  The new class list, the identity and whether an identity was taken from the counter: an
  existing class gets its next generation, a new one generation 1.
\<close>

definition put_class_entry ::
  "nat \<Rightarrow> u64 \<Rightarrow> ResourceId \<Rightarrow> string \<Rightarrow> u32 \<Rightarrow> qos_ref \<Rightarrow> provenance \<Rightarrow> scheduling_class_def list
     \<Rightarrow> (scheduling_class_def list \<times> ClassId \<times> bool) result" where
  "put_class_entry bound next_id resource name priority qos prov classes =
     (case find (\<lambda>c. sc_name c = name) classes of
        Some existing \<Rightarrow>
          (case ctr_next (sc_generation existing) of
             Inl e \<Rightarrow> Inl e
           | Inr next \<Rightarrow>
               Inr (update_first (\<lambda>c. sc_name c = name)
                      (\<lambda>c. c\<lparr>sc_generation := next, sc_priority := priority, sc_qos := qos\<rparr>) classes,
                    sc_id existing, False))
      | None \<Rightarrow>
          (if length classes \<ge> bound then Inl (Status Code_capacity_exceeded ''class capacity is exhausted'')
           else Inr (classes @ [\<lparr>sc_id = Ident next_id, sc_resource = resource, sc_name = name,
                       sc_priority = priority, sc_qos = qos, sc_generation = Counter 1,
                       sc_declared_by = prov\<rparr>],
                     Ident next_id, True)))"

text \<open>After the publication: queues bound to another generation of the class lose their evidence.\<close>

definition invalidate_bound :: "ResourceId \<Rightarrow> ClassId \<Rightarrow> resource_record \<Rightarrow> queue_record \<Rightarrow> queue_record" where
  "invalidate_bound resource class_id rec q =
     (if qd_resource (qr_def q) \<noteq> resource \<or> cb_id (qd_cls (qr_def q)) \<noteq> class_id then q
      else (case rr_find_class rec class_id of
              None \<Rightarrow> q
            | Some current \<Rightarrow>
                (if cb_generation (qd_cls (qr_def q)) \<noteq> sc_generation current
                 then q\<lparr>qr_applicability := set_flag (qr_applicability q) App_stale,
                        qr_occupancy := invalidate_occupancy Fr_stale_generation (qr_occupancy q),
                        qr_staleness_events := qr_staleness_events q + 1\<rparr>
                 else q)))"

definition is_bound_stale :: "ResourceId \<Rightarrow> ClassId \<Rightarrow> resource_record \<Rightarrow> queue_record \<Rightarrow> bool" where
  "is_bound_stale resource class_id rec q \<longleftrightarrow>
     qd_resource (qr_def q) = resource \<and> cb_id (qd_cls (qr_def q)) = class_id
     \<and> (case rr_find_class rec class_id of None \<Rightarrow> False
        | Some current \<Rightarrow> cb_generation (qd_cls (qr_def q)) \<noteq> sc_generation current)"

definition publish_class ::
  "'j journal_ops \<Rightarrow> ResourceId \<Rightarrow> ClassId \<Rightarrow> resource_record \<Rightarrow> 'j fabric \<Rightarrow> ClassId result \<times> 'j fabric" where
  "publish_class J resource class_id updated f =
     (case persist J Jr_resource_state (encode_resource_state updated) ''class state is not durable'' f of
        (st, f) \<Rightarrow>
          if \<not> ok st then (Inl st, f)
          else (let invalidated = length (filter (\<lambda>e. is_bound_stale resource class_id updated (snd e)) (fb_queues f));
                    f = f\<lparr>fb_resources := um_put resource updated (fb_resources f),
                          fb_queues := um_map (invalidate_bound resource class_id updated) (fb_queues f)\<rparr>;
                    (now, f) = monotonic_now f
                in (Inr class_id,
                    emit_events [topology_event now resource
                      (if invalidated > 0 then ''class declared; bound queues require rebinding''
                       else ''class declared'')] f)))"

definition declare_class ::
  "'j journal_ops \<Rightarrow> ResourceId \<Rightarrow> string \<Rightarrow> u32 \<Rightarrow> qos_ref \<Rightarrow> OwnerId \<Rightarrow> Epoch \<Rightarrow> provenance \<Rightarrow> 'j fabric
     \<Rightarrow> ClassId result \<times> 'j fabric" where
  "declare_class J resource name priority qos actor expected_epoch prov f =
     (if fb_shutting_down f then (Inl (Status Code_shutting_down ''fabric is shutting down''), f)
      else if \<not> pv_valid prov then (Inl (Status Code_malformed_input ''complete provenance is required''), f)
      else if \<not> name_in_range name then (Inl (Status Code_out_of_range ''class name length is out of range''), f)
      else (case find_resource f resource of
        None \<Rightarrow> (Inl (Status Code_not_found ''resource is not declared''), f)
      | Some rec \<Rightarrow>
          (case admin_refusal rec actor Cap_declare_topology expected_epoch of
             Some st \<Rightarrow> (Inl st, f)
           | None \<Rightarrow>
               (case put_class_entry (fl_max_classes_per_resource (fc_limits (fb_config f))) (fb_next_class_id f)
                       resource name priority qos prov (rr_classes rec) of
                  Inl e \<Rightarrow> (Inl e, f)
                | Inr (classes, class_id, fresh_id) \<Rightarrow>
                    (let f = (if fresh_id then f\<lparr>fb_next_class_id := fb_next_class_id f + 1\<rparr> else f)
                     in case ctr_next (rr_generation rec) of
                          Inl e \<Rightarrow> (Inl e, f)
                        | Inr gen \<Rightarrow>
                            publish_class J resource class_id
                              (rec\<lparr>rr_classes := classes, rr_generation := gen\<rparr>) f)))))"

definition put_pool_entry ::
  "nat \<Rightarrow> u64 \<Rightarrow> ResourceId \<Rightarrow> string \<Rightarrow> u64 \<Rightarrow> provenance \<Rightarrow> buffer_pool_def list
     \<Rightarrow> (buffer_pool_def list \<times> PoolId \<times> bool) result" where
  "put_pool_entry bound next_id resource name capacity prov pools =
     (case find (\<lambda>p. bp_name p = name) pools of
        Some existing \<Rightarrow>
          (case ctr_next (bp_generation existing) of
             Inl e \<Rightarrow> Inl e
           | Inr next \<Rightarrow>
               Inr (update_first (\<lambda>p. bp_name p = name)
                      (\<lambda>p. p\<lparr>bp_generation := next, bp_capacity_bytes := capacity\<rparr>) pools,
                    bp_id existing, False))
      | None \<Rightarrow>
          (if length pools \<ge> bound then Inl (Status Code_capacity_exceeded ''pool capacity is exhausted'')
           else Inr (pools @ [\<lparr>bp_id = Ident next_id, bp_resource = resource, bp_name = name,
                       bp_capacity_bytes = capacity, bp_generation = Counter 1, bp_declared_by = prov\<rparr>],
                     Ident next_id, True)))"

definition declare_pool ::
  "'j journal_ops \<Rightarrow> ResourceId \<Rightarrow> string \<Rightarrow> u64 \<Rightarrow> OwnerId \<Rightarrow> Epoch \<Rightarrow> provenance \<Rightarrow> 'j fabric
     \<Rightarrow> PoolId result \<times> 'j fabric" where
  "declare_pool J resource name capacity actor expected_epoch prov f =
     (if fb_shutting_down f then (Inl (Status Code_shutting_down ''fabric is shutting down''), f)
      else if \<not> pv_valid prov then (Inl (Status Code_malformed_input ''complete provenance is required''), f)
      else if \<not> name_in_range name then (Inl (Status Code_out_of_range ''pool name length is out of range''), f)
      else (case find_resource f resource of
        None \<Rightarrow> (Inl (Status Code_not_found ''resource is not declared''), f)
      | Some rec \<Rightarrow>
          (case admin_refusal rec actor Cap_declare_topology expected_epoch of
             Some st \<Rightarrow> (Inl st, f)
           | None \<Rightarrow>
               (case put_pool_entry (fl_max_pools_per_resource (fc_limits (fb_config f))) (fb_next_pool_id f)
                       resource name capacity prov (rr_pools rec) of
                  Inl e \<Rightarrow> (Inl e, f)
                | Inr (pools, pool_id, fresh_id) \<Rightarrow>
                    (let f = (if fresh_id then f\<lparr>fb_next_pool_id := fb_next_pool_id f + 1\<rparr> else f);
                         updated = rec\<lparr>rr_pools := pools\<rparr>
                     in case persist J Jr_resource_state (encode_resource_state updated) ''pool state is not durable'' f of
                          (st, f) \<Rightarrow>
                            if \<not> ok st then (Inl st, f)
                            else (let f = f\<lparr>fb_resources := um_put resource updated (fb_resources f)\<rparr>;
                                      (now, f) = monotonic_now f
                                  in (Inr pool_id, emit_events [topology_event now resource ''pool declared''] f)))))))"

section \<open>Backends\<close>

definition register_backend ::
  "'j journal_ops \<Rightarrow> ResourceId \<Rightarrow> Incarnation \<Rightarrow> OwnerId \<Rightarrow> Epoch \<Rightarrow> provenance \<Rightarrow> 'j fabric
     \<Rightarrow> BackendId result \<times> 'j fabric" where
  "register_backend J resource incarnation actor expected_epoch prov f =
     (if fb_shutting_down f then (Inl (Status Code_shutting_down ''fabric is shutting down''), f)
      else if \<not> pv_valid prov then (Inl (Status Code_malformed_input ''complete provenance is required''), f)
      else if \<not> ctr_valid incarnation then (Inl (Status Code_invalid_argument ''backend incarnation is required''), f)
      else (case find_resource f resource of
        None \<Rightarrow> (Inl (Status Code_not_found ''resource is not declared''), f)
      | Some rec \<Rightarrow>
          (case admin_refusal rec actor Cap_declare_topology expected_epoch of
             Some st \<Rightarrow> (Inl st, f)
           | None \<Rightarrow>
               (case monotonic_now f of
                  (now, f) \<Rightarrow>
                    if length (rr_backends rec) \<ge> fl_max_resources (fc_limits (fb_config f))
                    then (Inl (Status Code_capacity_exceeded ''backend capacity is exhausted''), f)
                    else (let entry = \<lparr>bi_backend = Ident (fb_next_backend_id f), bi_resource = resource,
                                       bi_incarnation = incarnation, bi_epoch = fb_epoch f,
                                       bi_registered_at = now, bi_alive = True\<rparr>;
                              rec = rec\<lparr>rr_backends := rr_backends rec @ [entry]\<rparr>;
                              f = f\<lparr>fb_next_backend_id := fb_next_backend_id f + 1,
                                    fb_resources := um_put resource rec (fb_resources f)\<rparr>
                          in case persist J Jr_resource_state (encode_resource_state rec)
                                    ''backend registration is not durable'' f of
                               (st, f) \<Rightarrow>
                                 if \<not> ok st then (Inl st, f)
                                 else (Inr (bi_backend entry),
                                       emit_events [(new_event Ev_backend_registered now)\<lparr>ev_resource := resource,
                                          ev_detail := ''backend incarnation registered''\<rparr>] f))))))"

definition mark_backend_dead ::
  "'j journal_ops \<Rightarrow> BackendId \<Rightarrow> Incarnation \<Rightarrow> OwnerId \<Rightarrow> Epoch \<Rightarrow> 'j fabric \<Rightarrow> status \<times> 'j fabric" where
  "mark_backend_dead J backend incarnation actor expected_epoch f =
     (if fb_shutting_down f then (Status Code_shutting_down ''fabric is shutting down'', f)
      else (case find (\<lambda>e. rr_find_backend (snd e) backend \<noteq> None) (fb_resources f) of
        None \<Rightarrow> (Status Code_not_found ''backend is not registered'', f)
      | Some (key, rec) \<Rightarrow>
          (case admin_refusal rec actor Cap_admin expected_epoch of
             Some st \<Rightarrow> (st, f)
           | None \<Rightarrow>
               (if bi_incarnation (the (rr_find_backend rec backend)) \<noteq> incarnation
                then (Status Code_stale_incarnation ''backend incarnation does not match the live registration'', f)
                else (let updated = rec\<lparr>rr_backends := update_first (\<lambda>b. bi_backend b = backend)
                                          (\<lambda>b. b\<lparr>bi_alive := False\<rparr>) (rr_backends rec)\<rparr>
                      in case (case fb_journal f of
                                 Some j \<Rightarrow> append_sync J Jr_resource_state (encode_resource_state updated)
                                             ''backend death is not durable'' j f
                               | None \<Rightarrow> (success, f)) of
                           (st, f) \<Rightarrow>
                             if \<not> ok st then (st, f)
                             else (let f = f\<lparr>fb_resources := um_put key updated (fb_resources f)\<rparr>;
                                       (now, f) = monotonic_now f
                                   in (success,
                                       emit_events [(new_event Ev_backend_dead now)\<lparr>ev_resource := rr_id updated,
                                          ev_detail := ''backend incarnation marked dead''\<rparr>] f)))))))"

definition fabric_shutdown :: "'j journal_ops \<Rightarrow> 'j fabric \<Rightarrow> status \<times> 'j fabric" where
  "fabric_shutdown J f =
     (if fb_shutting_down f then (success, f)
      else (let f = f\<lparr>fb_shutting_down := True, fb_pending := []\<rparr>;
                f = (case fb_journal f of
                       Some j \<Rightarrow> f\<lparr>fb_journal := Some (snd (jo_sync J j))\<rparr>
                     | None \<Rightarrow> f);
                (now, f) = monotonic_now f
            in (success, emit_events [(new_event Ev_shutdown now)\<lparr>ev_detail := ''fabric stopped accepting work''\<rparr>] f)))"

section \<open>Queries\<close>

definition queue_record_of :: "'j fabric \<Rightarrow> QueueId \<Rightarrow> queue_record result" where
  "queue_record_of f i =
     (case find_queue f i of None \<Rightarrow> Inl (Status Code_not_found ''queue is not declared'') | Some q \<Rightarrow> Inr q)"

definition resource_record_of :: "'j fabric \<Rightarrow> ResourceId \<Rightarrow> resource_record result" where
  "resource_record_of f i =
     (case find_resource f i of None \<Rightarrow> Inl (Status Code_not_found ''resource is not declared'') | Some x \<Rightarrow> Inr x)"

definition queues_of :: "'j fabric \<Rightarrow> ResourceId \<Rightarrow> queue_record list" where
  "queues_of f resource =
     sort_key (\<lambda>q. qd_id (qr_def q)) (filter (\<lambda>q. qd_resource (qr_def q) = resource) (map snd (fb_queues f)))"

definition all_queues :: "'j fabric \<Rightarrow> queue_record list" where
  "all_queues f = sort_key (\<lambda>q. qd_id (qr_def q)) (map snd (fb_queues f))"

definition find_queue_by_name :: "'j fabric \<Rightarrow> ResourceId \<Rightarrow> string \<Rightarrow> QueueId result" where
  "find_queue_by_name f resource name =
     (case um_find (fb_queue_names f) (name_key resource name) of
        None \<Rightarrow> Inl (Status Code_not_found ''queue name is not declared in this resource'')
      | Some i \<Rightarrow> Inr i)"

definition find_resource_by_name :: "'j fabric \<Rightarrow> string \<Rightarrow> ResourceId result" where
  "find_resource_by_name f name =
     (case find (\<lambda>e. rr_name (snd e) = name) (fb_resources f) of
        None \<Rightarrow> Inl (Status Code_not_found ''resource name is not declared'')
      | Some e \<Rightarrow> Inr (rr_id (snd e)))"

definition all_resources :: "'j fabric \<Rightarrow> resource_record list" where
  "all_resources f = sort_key rr_id (map snd (fb_resources f))"

definition fabric_stats_of :: "'j fabric \<Rightarrow> fabric_stats" where
  "fabric_stats_of f =
     (fb_stats f)\<lparr>sx_resources := length (fb_resources f), sx_queues := length (fb_queues f),
       sx_pending_attempts := length (fb_pending f), sx_publishers := length (tr_states (fb_provenance f)),
       sx_epoch := fb_epoch f, sx_boot := fb_boot f,
       sx_classes := sum_list (map (\<lambda>e. length (rr_classes (snd e))) (fb_resources f)),
       sx_pools := sum_list (map (\<lambda>e. length (rr_pools (snd e))) (fb_resources f))\<rparr>"

section \<open>Request helpers\<close>

definition make_request :: "mutation_kind \<Rightarrow> mutation_context \<Rightarrow> QueueId \<Rightarrow> Generation \<Rightarrow> mutation_request" where
  "make_request kind ctx queue expected =
     \<lparr>mr_attempt = \<lparr>at_publisher = pv_publisher (mx_provenance ctx),
                    at_counter = ctr_value (pv_sequence (mx_provenance ctx))\<rparr>,
      mr_kind = kind, mr_queue = queue, mr_expected_generation = expected,
      mr_expected_epoch = mx_epoch ctx, mr_principal = mx_principal ctx,
      mr_provenance = mx_provenance ctx, mr_payload = Pl_monostate\<rparr>"

definition declare_queue_request ::
  "mutation_context \<Rightarrow> ResourceId \<Rightarrow> string \<Rightarrow> u32 \<Rightarrow> class_binding \<Rightarrow> pool_ref \<Rightarrow> thresholds \<Rightarrow> mutation_request" where
  "declare_queue_request ctx resource name depth cls pool th =
     (make_request Mk_declare_queue ctx (Ident 0) (Counter 0))\<lparr>mr_payload := Pl_declare_queue
        \<lparr>dq_resource = resource, dq_name = name, dq_depth = depth, dq_cls = cls, dq_pool = pool, dq_thresholds = th\<rparr>\<rparr>"

definition rebind_class_request :: "mutation_context \<Rightarrow> QueueId \<Rightarrow> Generation \<Rightarrow> class_binding \<Rightarrow> mutation_request" where
  "rebind_class_request ctx queue expected cls =
     (make_request Mk_rebind_class ctx queue expected)\<lparr>mr_payload := Pl_rebind_class cls\<rparr>"

definition set_thresholds_request :: "mutation_context \<Rightarrow> QueueId \<Rightarrow> Generation \<Rightarrow> thresholds \<Rightarrow> mutation_request" where
  "set_thresholds_request ctx queue expected th =
     (make_request Mk_set_thresholds ctx queue expected)\<lparr>mr_payload := Pl_thresholds th\<rparr>"

definition transfer_ownership_request :: "mutation_context \<Rightarrow> QueueId \<Rightarrow> Generation \<Rightarrow> OwnerId \<Rightarrow> mutation_request" where
  "transfer_ownership_request ctx queue expected own =
     (make_request Mk_transfer_ownership ctx queue expected)\<lparr>mr_payload := Pl_ownership own\<rparr>"

definition ingest_occupancy_request :: "mutation_context \<Rightarrow> occupancy_sample \<Rightarrow> mutation_request" where
  "ingest_occupancy_request ctx sample =
     (make_request Mk_ingest_occupancy ctx (os_queue sample) (os_queue_generation sample))
       \<lparr>mr_provenance := os_provenance sample,
        mr_attempt := \<lparr>at_publisher = pv_publisher (os_provenance sample),
                       at_counter = ctr_value (pv_sequence (os_provenance sample))\<rparr>,
        mr_payload := Pl_occupancy sample\<rparr>"

definition submit_drain_evidence_request ::
  "mutation_context \<Rightarrow> QueueId \<Rightarrow> Generation \<Rightarrow> drain_evidence \<Rightarrow> mutation_request" where
  "submit_drain_evidence_request ctx queue expected evidence =
     (make_request Mk_submit_drain_evidence ctx queue expected)\<lparr>mr_payload := Pl_drain_evidence evidence\<rparr>"

definition fence_queue_request :: "mutation_context \<Rightarrow> QueueId \<Rightarrow> Generation \<Rightarrow> string \<Rightarrow> mutation_request" where
  "fence_queue_request ctx queue expected reason =
     (make_request Mk_fence_queue ctx queue expected)\<lparr>mr_payload := Pl_fence True (take kMaxReasonChars reason)\<rparr>"

definition unfence_queue_request :: "mutation_context \<Rightarrow> QueueId \<Rightarrow> Generation \<Rightarrow> mutation_request" where
  "unfence_queue_request ctx queue expected =
     (make_request Mk_unfence_queue ctx queue expected)\<lparr>mr_payload := Pl_fence False []\<rparr>"

definition fail_queue_request :: "mutation_context \<Rightarrow> QueueId \<Rightarrow> Generation \<Rightarrow> string \<Rightarrow> mutation_request" where
  "fail_queue_request ctx queue expected reason =
     (make_request Mk_fail_queue ctx queue expected)\<lparr>mr_payload := Pl_fence False (take kMaxReasonChars reason)\<rparr>"

definition acknowledge_backend_request ::
  "mutation_context \<Rightarrow> QueueId \<Rightarrow> Generation \<Rightarrow> backend_applied \<Rightarrow> mutation_request" where
  "acknowledge_backend_request ctx queue expected applied =
     (make_request Mk_acknowledge_backend ctx queue expected)\<lparr>mr_payload := Pl_backend_ack applied\<rparr>"

section \<open>What the administrative operations may change\<close>

lemma map_update_first:
  assumes "\<And>x. h (g x) = h x"
  shows "map h (update_first P g xs) = map h xs"
proof (cases "dropWhile (\<lambda>x. \<not> P x) xs")
  case Nil
  then show ?thesis
    by (simp add: update_first_def del: dropWhile_eq_Nil_conv)
next
  case (Cons y ys)
  have "map h xs = map h (takeWhile (\<lambda>x. \<not> P x) xs) @ map h (y # ys)"
    using arg_cong [OF takeWhile_dropWhile_id [of "\<lambda>x. \<not> P x" xs], of "map h"] Cons by simp
  then show ?thesis
    using Cons assms by (simp add: update_first_def)
qed

lemma length_update_first [simp]: "length (update_first P g xs) = length xs"
  using arg_cong [OF map_update_first [of "\<lambda>_. ()" g P xs], of length] by simp

text \<open>A resource after an administrative operation: its identity, its queues, its class and pool identities stay.\<close>

definition resource_follows :: "fabric_limits \<Rightarrow> resource_record \<Rightarrow> resource_record \<Rightarrow> bool" where
  "resource_follows lim x y \<longleftrightarrow> rr_id y = rr_id x \<and> rr_queue_count y = rr_queue_count x \<and> rr_name y = rr_name x
     \<and> rr_owner y = rr_owner x \<and> av_epoch (rr_authority y) = av_epoch (rr_authority x)
     \<and> set (map sc_id (rr_classes x)) \<subseteq> set (map sc_id (rr_classes y))
     \<and> set (map bp_id (rr_pools x)) \<subseteq> set (map bp_id (rr_pools y))
     \<and> length (av_grants (rr_authority y)) \<le> max (length (av_grants (rr_authority x))) (fl_max_grants_per_resource lim)
     \<and> length (rr_classes y) \<le> max (length (rr_classes x)) (fl_max_classes_per_resource lim)
     \<and> length (rr_pools y) \<le> max (length (rr_pools x)) (fl_max_pools_per_resource lim)"

inductive topology_step :: "'j fabric \<Rightarrow> core_state \<Rightarrow> bool" for f :: "'j fabric" where
  kept: "topology_step f (core f)"
| stopped: "topology_step f ((core f)\<lparr>co_flags := (True, fb_replaying f), co_pending := []\<rparr>)"
| added: "declare_resource_refusal name own prov f = None \<Longrightarrow>
    topology_step f ((core f)\<lparr>co_resources :=
      um_emplace (Ident (fb_next_resource_id f)) (declared_resource name own prov now f) (fb_resources f)\<rparr>)"
| updated: "um_find (fb_resources f) k = Some x \<Longrightarrow> resource_follows (fc_limits (fb_config f)) x y \<Longrightarrow>
    topology_step f ((core f)\<lparr>co_resources := um_put k y (fb_resources f)\<rparr>)"
| reclassed: "um_find (fb_resources f) k = Some x \<Longrightarrow> resource_follows (fc_limits (fb_config f)) x y \<Longrightarrow>
    topology_step f ((core f)\<lparr>co_resources := um_put k y (fb_resources f),
       co_queues := um_map (invalidate_bound k i y) (fb_queues f)\<rparr>)"

lemma topology_step_core: "core g = core f \<Longrightarrow> topology_step f (core g)"
  using topology_step.kept [of f] by simp

lemma persist_core: "persist J ty bs msg f = (st, g) \<Longrightarrow> core g = core f"
  using core_persist [of J ty bs msg f] by simp

lemma declare_resource_step:
  assumes "declare_resource J name own prov f = (out, f')"
  shows "topology_step f (core f')"
proof (cases "declare_resource_refusal name own prov f")
  case None
  obtain now g where now: "monotonic_now f = (now, g)"
    by (meson surj_pair)
  define rec where "rec = declared_resource name own prov now g"
  obtain st h where h: "persist J Jr_resource_state (encode_resource_state rec) ''resource state is not durable'' g = (st, h)"
    by (meson surj_pair)
  have g: "core g = core f" "rec = declared_resource name own prov now f" "rr_id rec = Ident (fb_next_resource_id f)"
    using now by (auto simp: monotonic_now_def Let_def core_def rec_def declared_resource_def)
  have ch: "core h = core f"
    using persist_core [OF h] g by simp
  show ?thesis
  proof (cases "(fb_journal g \<noteq> None \<and> encode_resource_state rec = []) \<or> \<not> ok st")
    case True
    then show ?thesis
      using assms None now h ch g(1)
      by (auto simp: declare_resource_def Let_def rec_def [symmetric] split: if_splits intro!: topology_step_core)
  next
    case False
    define k where "k = h\<lparr>fb_next_resource_id := fb_next_resource_id h + 1,
        fb_resources := um_emplace (rr_id rec) rec (fb_resources h)\<rparr>"
    have "\<exists>evs. f' = emit_events evs (snd (monotonic_now k))"
      using assms None now h False
      by (auto simp: declare_resource_def Let_def rec_def [symmetric] k_def split: if_splits prod.splits)
    then have "core f' = core k"
      by auto
    then have "core f' = (core f)\<lparr>co_resources := um_emplace (rr_id rec) rec (fb_resources f)\<rparr>"
      using ch coreD(3) [OF ch] by (simp add: k_def core_def)
    then show ?thesis
      using topology_step.added [OF None] g by simp
  qed
qed (use assms in \<open>auto simp: declare_resource_def intro: topology_step.kept\<close>)

lemma put_grant_length:
  "put_grant_for bound owner caps gs = Some gs' \<Longrightarrow> length gs' \<le> max (length gs) bound"
  by (auto simp: put_grant_for_def split: if_splits)

lemma put_class_follows:
  assumes "put_class_entry bound n res name p qos prov cs = Inr (cs', i, fresh)"
  shows "set (map sc_id cs) \<subseteq> set (map sc_id cs') \<and> length cs' \<le> max (length cs) bound"
  using assms
  by (auto simp: put_class_entry_def map_update_first simp del: set_map split: option.splits sum.splits if_splits)

lemma put_pool_follows:
  assumes "put_pool_entry bound n res name cap prov ps = Inr (ps', i, fresh)"
  shows "set (map bp_id ps) \<subseteq> set (map bp_id ps') \<and> length ps' \<le> max (length ps) bound"
  using assms
  by (auto simp: put_pool_entry_def map_update_first simp del: set_map split: option.splits sum.splits if_splits)

text \<open>Publishing one changed resource after the durable write.\<close>

lemma published_step:
  assumes "core g = core f" "um_find (fb_resources f) k = Some x" "resource_follows (fc_limits (fb_config f)) x y"
    and "core f' = core (g\<lparr>fb_resources := um_put k y (fb_resources g)\<rparr>)"
  shows "topology_step f (core f')"
proof -
  have "core f' = (core f)\<lparr>co_resources := um_put k y (fb_resources f)\<rparr>"
    using assms(1,4) coreD(3) [OF assms(1)] by (simp add: core_def)
  then show ?thesis
    using topology_step.updated [OF assms(2,3)] by simp
qed

lemma grant_capabilities_step:
  assumes "grant_capabilities J resource grantee caps actor e prov f = (st, f')"
  shows "topology_step f (core f')"
proof (cases "\<exists>x gs. um_find (fb_resources f) resource = Some x
    \<and> put_grant_for (fl_max_grants_per_resource (fc_limits (fb_config f))) grantee caps (av_grants (rr_authority x)) = Some gs
    \<and> core f' \<noteq> core f")
  case True
  then obtain x gs where x: "um_find (fb_resources f) resource = Some x"
      "put_grant_for (fl_max_grants_per_resource (fc_limits (fb_config f))) grantee caps (av_grants (rr_authority x)) = Some gs"
      "core f' \<noteq> core f"
    by blast
  define y where "y = x\<lparr>rr_authority := (rr_authority x)\<lparr>av_grants := gs\<rparr>\<rparr>"
  obtain p g where g: "persist J Jr_resource_state (encode_resource_state y) ''capability grant is not durable'' f = (p, g)"
    by (meson surj_pair)
  define k where "k = g\<lparr>fb_resources := um_put resource y (fb_resources g)\<rparr>"
  have "\<exists>evs. f' = emit_events evs (snd (monotonic_now k))"
    using assms x g persist_core [OF g] unfolding grant_capabilities_def find_resource_def Let_def k_def
    by (auto simp: y_def [symmetric] split: if_splits option.splits prod.splits)
  then have c: "core f' = core k"
    by auto
  have "resource_follows (fc_limits (fb_config f)) x y"
    using put_grant_length [OF x(2)] by (simp add: y_def resource_follows_def)
  then show ?thesis
    by (rule published_step [OF persist_core [OF g] x(1) _ c [unfolded k_def]])
next
  case False
  have "core f' = core f"
  proof (rule ccontr)
    assume "core f' \<noteq> core f"
    with False assms show False
      by (auto simp: grant_capabilities_def find_resource_def Let_def split: if_splits option.splits prod.splits)
  qed
  then show ?thesis
    by (rule topology_step_core)
qed

lemma publish_class_step:
  assumes "publish_class J k i y g = (out, f')" "core g = core f" "um_find (fb_resources f) k = Some x"
    and "resource_follows (fc_limits (fb_config f)) x y"
  shows "topology_step f (core f')"
proof -
  obtain st h where h: "persist J Jr_resource_state (encode_resource_state y) ''class state is not durable'' g = (st, h)"
    by (meson surj_pair)
  have ch: "core h = core f"
    using persist_core [OF h] assms(2) by simp
  show ?thesis
  proof (cases "ok st")
    case True
    define l where "l = h\<lparr>fb_resources := um_put k y (fb_resources h), fb_queues := um_map (invalidate_bound k i y) (fb_queues h)\<rparr>"
    have "\<exists>evs. f' = emit_events evs (snd (monotonic_now l))"
      using assms(1) h True by (auto simp: publish_class_def l_def Let_def split: prod.splits)
    then have "core f' = core l"
      by auto
    also have "\<dots> = (core f)\<lparr>co_resources := um_put k y (fb_resources f),
        co_queues := um_map (invalidate_bound k i y) (fb_queues f)\<rparr>"
      using ch coreD(3,4) [OF ch] by (simp add: l_def core_def)
    finally show ?thesis
      using topology_step.reclassed [OF assms(3,4)] by simp
  next
    case False
    then show ?thesis
      using assms(1) h ch by (auto simp: publish_class_def intro: topology_step_core)
  qed
qed

lemma core_next_ids [simp]:
  "core (f\<lparr>fb_next_class_id := n\<rparr>) = core f" "core (f\<lparr>fb_next_pool_id := n\<rparr>) = core f"
  by (simp_all add: core_def)

lemma declare_class_step:
  assumes "declare_class J k name prio qos actor e prov f = (out, f')"
  shows "topology_step f (core f')"
proof (cases "\<exists>x cs i fresh gen. find_resource f k = Some x \<and> ctr_next (rr_generation x) = Inr gen
    \<and> put_class_entry (fl_max_classes_per_resource (fc_limits (fb_config f))) (fb_next_class_id f) k name prio qos prov
        (rr_classes x) = Inr (cs, i, fresh) \<and> core f' \<noteq> core f")
  case True
  then obtain x cs i fresh gen where x: "find_resource f k = Some x" "ctr_next (rr_generation x) = Inr gen"
      "put_class_entry (fl_max_classes_per_resource (fc_limits (fb_config f))) (fb_next_class_id f) k name prio qos prov
        (rr_classes x) = Inr (cs, i, fresh)" "core f' \<noteq> core f"
    by blast
  define g where "g = (if fresh then f\<lparr>fb_next_class_id := fb_next_class_id f + 1\<rparr> else f)"
  have g: "core g = core f"
    by (simp add: g_def)
  have pub: "publish_class J k i (x\<lparr>rr_classes := cs, rr_generation := gen\<rparr>) g = (out, f')"
    using assms x unfolding declare_class_def Let_def g_def by (auto split: if_splits option.splits)
  show ?thesis
    using put_class_follows [OF x(3)] x(1)
    by (intro publish_class_step [OF pub g]) (auto simp: find_resource_def resource_follows_def)
next
  case False
  have "core f' = core f"
  proof (rule ccontr)
    assume "core f' \<noteq> core f"
    with False assms show False
      by (auto simp: declare_class_def Let_def split: if_splits option.splits sum.splits)
  qed
  then show ?thesis
    by (rule topology_step_core)
qed

lemma declare_pool_step:
  assumes "declare_pool J k name cap actor e prov f = (out, f')"
  shows "topology_step f (core f')"
proof (cases "\<exists>x ps i fresh. um_find (fb_resources f) k = Some x
    \<and> put_pool_entry (fl_max_pools_per_resource (fc_limits (fb_config f))) (fb_next_pool_id f) k name cap prov
        (rr_pools x) = Inr (ps, i, fresh) \<and> core f' \<noteq> core f")
  case True
  then obtain x ps i fresh where x: "um_find (fb_resources f) k = Some x"
      "put_pool_entry (fl_max_pools_per_resource (fc_limits (fb_config f))) (fb_next_pool_id f) k name cap prov
        (rr_pools x) = Inr (ps, i, fresh)" "core f' \<noteq> core f"
    by blast
  define g where "g = (if fresh then f\<lparr>fb_next_pool_id := fb_next_pool_id f + 1\<rparr> else f)"
  define y where "y = x\<lparr>rr_pools := ps\<rparr>"
  obtain st h where h: "persist J Jr_resource_state (encode_resource_state y) ''pool state is not durable'' g = (st, h)"
    by (meson surj_pair)
  have ch: "core h = core f"
    using persist_core [OF h] by (simp add: g_def)
  define l where "l = h\<lparr>fb_resources := um_put k y (fb_resources h)\<rparr>"
  have "\<exists>evs. f' = emit_events evs (snd (monotonic_now l))"
    using assms x h ch unfolding declare_pool_def find_resource_def Let_def
    by (auto simp: g_def [symmetric] y_def [symmetric] l_def split: if_splits option.splits prod.splits)
  then have c: "core f' = core l"
    by auto
  have "resource_follows (fc_limits (fb_config f)) x y"
    using put_pool_follows [OF x(2)] by (auto simp: y_def resource_follows_def)
  then show ?thesis
    by (rule published_step [OF ch x(1) _ c [unfolded l_def]])
next
  case False
  have "core f' = core f"
  proof (rule ccontr)
    assume "core f' \<noteq> core f"
    with False assms show False
      by (auto simp: declare_pool_def find_resource_def Let_def split: if_splits option.splits sum.splits)
  qed
  then show ?thesis
    by (rule topology_step_core)
qed

lemma register_backend_step:
  assumes "register_backend J k inc actor e prov f = (out, f')"
  shows "topology_step f (core f')"
proof (cases "\<exists>x. um_find (fb_resources f) k = Some x \<and> core f' \<noteq> core f")
  case True
  then obtain x where x: "um_find (fb_resources f) k = Some x" "core f' \<noteq> core f"
    by blast
  obtain now g where now: "monotonic_now f = (now, g)"
    by (meson surj_pair)
  have g: "core g = core f"
    using core_monotonic_now [of f] now by simp
  define b where "b = \<lparr>bi_backend = Ident (fb_next_backend_id g), bi_resource = k, bi_incarnation = inc,
      bi_epoch = fb_epoch g, bi_registered_at = now, bi_alive = True\<rparr>"
  define y where "y = x\<lparr>rr_backends := rr_backends x @ [b]\<rparr>"
  define h where "h = g\<lparr>fb_next_backend_id := fb_next_backend_id g + 1, fb_resources := um_put k y (fb_resources g)\<rparr>"
  obtain st l where l: "persist J Jr_resource_state (encode_resource_state y) ''backend registration is not durable'' h = (st, l)"
    by (meson surj_pair)
  have "core f' = core l"
    using assms x now g l unfolding register_backend_def find_resource_def
    by (auto simp: Let_def b_def [symmetric] y_def [symmetric] h_def [symmetric] split: if_splits option.splits)
  then have c: "core f' = core (g\<lparr>fb_resources := um_put k y (fb_resources g)\<rparr>)"
    using persist_core [OF l] by (simp add: h_def core_def)
  have "resource_follows (fc_limits (fb_config f)) x y"
    by (simp add: y_def resource_follows_def)
  then show ?thesis
    by (rule published_step [OF g x(1) _ c])
next
  case False
  have "core f' = core f"
  proof (rule ccontr)
    assume "core f' \<noteq> core f"
    with False assms show False
      by (auto simp: register_backend_def find_resource_def split: if_splits option.splits)
  qed
  then show ?thesis
    by (rule topology_step_core)
qed

lemma mark_backend_dead_step:
  assumes "mark_backend_dead J b inc actor e f = (st, f')" "um_wf (fb_resources f)"
  shows "topology_step f (core f')"
proof (cases "\<exists>k x. find (\<lambda>e. rr_find_backend (snd e) b \<noteq> None) (fb_resources f) = Some (k, x) \<and> core f' \<noteq> core f")
  case True
  then obtain k x where f: "find (\<lambda>e. rr_find_backend (snd e) b \<noteq> None) (fb_resources f) = Some (k, x)" "core f' \<noteq> core f"
    by blast
  have x: "um_find (fb_resources f) k = Some x"
    using find_Some_iff_mem [OF f(1)] assms(2) by (simp add: um_find_mem)
  define y where "y = x\<lparr>rr_backends := update_first (\<lambda>d. bi_backend d = b) (\<lambda>b. b\<lparr>bi_alive := False\<rparr>) (rr_backends x)\<rparr>"
  define jr where "jr = (case fb_journal f of
      Some j \<Rightarrow> append_sync J Jr_resource_state (encode_resource_state y) ''backend death is not durable'' j f
    | None \<Rightarrow> (success, f))"
  have cj: "core (snd jr) = core f"
    by (simp add: jr_def split: option.splits)
  define l where "l = (snd jr)\<lparr>fb_resources := um_put k y (fb_resources (snd jr))\<rparr>"
  have "\<exists>evs. f' = emit_events evs (snd (monotonic_now l))"
    using assms(1) f cj unfolding mark_backend_dead_def
    by (auto simp: Let_def y_def [symmetric] jr_def [symmetric] l_def split: if_splits option.splits prod.splits)
  then have c: "core f' = core l"
    by auto
  have "resource_follows (fc_limits (fb_config f)) x y"
    by (simp add: y_def resource_follows_def)
  then show ?thesis
    by (rule published_step [OF cj x _ c [unfolded l_def]])
next
  case False
  have "core f' = core f"
  proof (rule ccontr)
    assume "core f' \<noteq> core f"
    with False assms(1) show False
      by (auto simp: mark_backend_dead_def split: if_splits option.splits)
  qed
  then show ?thesis
    by (rule topology_step_core)
qed

lemma fabric_shutdown_step:
  assumes "fabric_shutdown J f = (st, f')"
  shows "topology_step f (core f') \<and> ok st \<and> fb_shutting_down f'"
proof (cases "fb_shutting_down f")
  case False
  define g where "g = (case fb_journal f of Some j \<Rightarrow> f\<lparr>fb_shutting_down := True, fb_pending := [], fb_journal := Some (snd (jo_sync J j))\<rparr>
      | None \<Rightarrow> f\<lparr>fb_shutting_down := True, fb_pending := []\<rparr>)"
  have "\<exists>evs. f' = emit_events evs (snd (monotonic_now g)) \<and> st = success"
    using assms False by (auto simp: fabric_shutdown_def Let_def g_def split: prod.splits option.splits)
  then have f': "core f' = core g" "st = success"
    by auto
  moreover have "core g = (core f)\<lparr>co_flags := (True, fb_replaying f), co_pending := []\<rparr>"
    by (simp add: g_def core_def split: option.splits)
  moreover have "fb_shutting_down f' = fb_shutting_down g"
    using coreD(7) [OF f'(1)] .
  ultimately show ?thesis
    using topology_step.stopped [of f] by (simp add: g_def split: option.splits)
qed (use assms in \<open>auto simp: fabric_shutdown_def intro: topology_step.kept\<close>)

end
