(* ===== verification/QF_Governance.thy ===== *)
theory QF_Governance
  imports QF_Topology
begin

text \<open>
  \<^verbatim>\<open>src/fabric_governance.cpp\<close>: the advance of the coordinator epoch and the administrative
  invalidation of evidence.
\<close>

section \<open>Definitions\<close>

text \<open>The early returns of \<^verbatim>\<open>advance_epoch\<close> before the new epoch is computed.\<close>

definition advance_epoch_refusal :: "OwnerId \<Rightarrow> provenance \<Rightarrow> 'j fabric \<Rightarrow> status option" where
  "advance_epoch_refusal actor prov f =
     (let authorized = fb_resources f = []
            \<or> (\<exists>e\<in>set (fb_resources f). has_capability (capabilities_of (rr_authority (snd e)) actor) Cap_admin)
      in if fb_shutting_down f then Some (Status Code_shutting_down ''fabric is shutting down'')
         else if \<not> fb_healthy f then Some (Status Code_not_durable ''fabric is not healthy'')
         else if \<not> pv_valid prov then Some (Status Code_malformed_input ''complete provenance is required'')
         else if \<not> authorized
         then Some (Status Code_authority_denied ''epoch-advance-requires-administrative-authority'')
         else None)"

definition with_epoch :: "Epoch \<Rightarrow> resource_record \<Rightarrow> resource_record" where
  "with_epoch e r = r\<lparr>rr_epoch := e, rr_authority := (rr_authority r)\<lparr>av_epoch := e\<rparr>\<rparr>"

text \<open>The body of the loop over the queues.\<close>

definition supersede_evidence :: "queue_record \<Rightarrow> queue_record" where
  "supersede_evidence q =
     (let q = (if oc_present (qr_occupancy q)
               then q\<lparr>qr_occupancy := invalidate_occupancy Fr_stale_epoch (qr_occupancy q),
                      qr_applicability := set_flag (qr_applicability q) App_stale,
                      qr_staleness_events := qr_staleness_events q + 1\<rparr>
               else q)
      in if ba_known (qr_applied q)
         then q\<lparr>qr_applicability := set_flag (qr_applicability q) App_stale\<rparr> else q)"

text \<open>The block after the durable write: the epoch becomes authoritative in memory.\<close>

definition publish_epoch :: "Epoch \<Rightarrow> 'j fabric \<Rightarrow> 'j fabric" where
  "publish_epoch e f =
     (let f = f\<lparr>fb_epoch := e, fb_resources := um_map (with_epoch e) (fb_resources f)\<rparr>;
          (now, f) = monotonic_now f;
          stale = length (filter (\<lambda>x. oc_present (qr_occupancy (snd x))) (fb_queues f));
          f = f\<lparr>fb_queues := um_map supersede_evidence (fb_queues f),
                fb_stats := (fb_stats f)\<lparr>sx_staleness_events := sx_staleness_events (fb_stats f) + of_nat stale\<rparr>\<rparr>
      in emit_events [(new_event Ev_topology_changed now)\<lparr>ev_epoch := e,
                        ev_detail := ''coordinator epoch advanced''\<rparr>] f)"

definition epoch_state_of :: "Epoch \<Rightarrow> 'j fabric \<Rightarrow> epoch_state" where
  "epoch_state_of e f =
     \<lparr>es_boot = fb_boot f, es_epoch = e, es_coordinator_incarnation = fb_coordinator_incarnation f\<rparr>"

definition advance_epoch :: "'j journal_ops \<Rightarrow> OwnerId \<Rightarrow> provenance \<Rightarrow> 'j fabric \<Rightarrow> Epoch result \<times> 'j fabric" where
  "advance_epoch J actor prov f =
     (case advance_epoch_refusal actor prov f of
        Some st \<Rightarrow> (Inl st, f)
      | None \<Rightarrow>
          (case ctr_next (fb_epoch f) of
             Inl e \<Rightarrow> (Inl e, f)
           | Inr next \<Rightarrow>
               (let encoded = encode_epoch_state (epoch_state_of next f)
                in if fb_journal f \<noteq> None \<and> encoded = []
                   then (Inl (Status Code_internal ''epoch state could not be encoded''), f)
                   else (case persist J Jr_epoch_state encoded ''epoch advance did not reach stable storage'' f of
                           (st, f) \<Rightarrow>
                             if \<not> ok st then (Inl st, f) else (Inr next, publish_epoch next f)))))"

definition stale_by_backend :: "queue_record \<Rightarrow> queue_record" where
  "stale_by_backend q =
     (let q = (if oc_present (qr_occupancy q)
               then q\<lparr>qr_occupancy := invalidate_occupancy Fr_stale_backend (qr_occupancy q)\<rparr> else q)
      in q\<lparr>qr_applicability := set_flag (qr_applicability q) App_stale,
           qr_staleness_events := qr_staleness_events q + 1\<rparr>)"

definition invalidate_evidence :: "QueueId \<Rightarrow> OwnerId \<Rightarrow> Epoch \<Rightarrow> string \<Rightarrow> 'j fabric \<Rightarrow> status \<times> 'j fabric" where
  "invalidate_evidence queue_id actor expected_epoch reason f =
     (case find_queue f queue_id of
        None \<Rightarrow> (Status Code_not_found ''queue is not declared'', f)
      | Some q \<Rightarrow>
          (case find_resource f (qd_resource (qr_def q)) of
             None \<Rightarrow> (Status Code_internal ''queue references an unknown resource'', f)
           | Some resource \<Rightarrow>
               (let decision = authorize (rr_authority resource) actor Cap_admin expected_epoch
                                 (qr_applicability q) (qr_lifecycle q)
                in if \<not> ad_allowed decision then (Status (ad_code decision) (ad_rule decision), f)
                   else (let f = f\<lparr>fb_queues := um_put queue_id (stale_by_backend q) (fb_queues f),
                                   fb_stats := (fb_stats f)
                                     \<lparr>sx_staleness_events := sx_staleness_events (fb_stats f) + 1\<rparr>\<rparr>;
                             (now, f) = monotonic_now f
                         in (success,
                             emit_events [(new_event Ev_occupancy_rejected now)\<lparr>ev_queue := queue_id,
                                ev_resource := qd_resource (qr_def q), ev_code := Code_stale_occupancy,
                                ev_detail := take kMaxReasonChars reason\<rparr>] f)))))"

section \<open>Lemmas\<close>

lemma supersede_evidence_fields [simp]:
  "qr_def (supersede_evidence q) = qr_def q" "qr_lifecycle (supersede_evidence q) = qr_lifecycle q"
  "qr_fence (supersede_evidence q) = qr_fence q" "qr_drain (supersede_evidence q) = qr_drain q"
  "qr_applied (supersede_evidence q) = qr_applied q" "qr_memo (supersede_evidence q) = qr_memo q"
  "qr_overflow_events (supersede_evidence q) = qr_overflow_events q"
  "qr_failure_reason (supersede_evidence q) = qr_failure_reason q"
  "qr_occupancy (supersede_evidence q) =
     (if oc_present (qr_occupancy q) then invalidate_occupancy Fr_stale_epoch (qr_occupancy q) else qr_occupancy q)"
  by (simp_all add: supersede_evidence_def Let_def)

lemma supersede_evidence_applicability:
  "qr_applicability (supersede_evidence q) =
     (if oc_present (qr_occupancy q) \<or> ba_known (qr_applied q) then set_flag (qr_applicability q) App_stale
      else qr_applicability q)"
  by (simp add: supersede_evidence_def Let_def set_flag_def)

lemma stale_by_backend_fields [simp]:
  "qr_def (stale_by_backend q) = qr_def q" "qr_lifecycle (stale_by_backend q) = qr_lifecycle q"
  "qr_fence (stale_by_backend q) = qr_fence q" "qr_drain (stale_by_backend q) = qr_drain q"
  "qr_applied (stale_by_backend q) = qr_applied q" "qr_memo (stale_by_backend q) = qr_memo q"
  "qr_overflow_events (stale_by_backend q) = qr_overflow_events q"
  "qr_applicability (stale_by_backend q) = set_flag (qr_applicability q) App_stale"
  "qr_occupancy (stale_by_backend q) =
     (if oc_present (qr_occupancy q) then invalidate_occupancy Fr_stale_backend (qr_occupancy q) else qr_occupancy q)"
  by (simp_all add: stale_by_backend_def Let_def)

lemma with_epoch_fields [simp]:
  "rr_id (with_epoch e r) = rr_id r" "rr_classes (with_epoch e r) = rr_classes r" "rr_pools (with_epoch e r) = rr_pools r"
  "rr_backends (with_epoch e r) = rr_backends r" "rr_queue_count (with_epoch e r) = rr_queue_count r"
  "rr_name (with_epoch e r) = rr_name r" "rr_epoch (with_epoch e r) = e" "av_epoch (rr_authority (with_epoch e r)) = e"
  "av_grants (rr_authority (with_epoch e r)) = av_grants (rr_authority r)"
  by (simp_all add: with_epoch_def)

lemma core_publish_epoch:
  "core (publish_epoch e f) = (core f)\<lparr>co_epoch := e, co_resources := um_map (with_epoch e) (fb_resources f),
     co_queues := um_map supersede_evidence (fb_queues f)\<rparr>"
  by (simp add: publish_epoch_def Let_def core_def monotonic_now_def emit_events_def)

lemma advance_epoch_cases:
  assumes "advance_epoch J actor prov f = (out, f')"
  obtains (refused) st where "out = Inl st" "core f' = core f"
  | (advanced) e g where "out = Inr e" "advance_epoch_refusal actor prov f = None" "ctr_next (fb_epoch f) = Inr e"
      "core g = core f" "f' = publish_epoch e g"
      "persist J Jr_epoch_state (encode_epoch_state (epoch_state_of e f)) ''epoch advance did not reach stable storage'' f = (success, g)"
proof (cases "advance_epoch_refusal actor prov f")
  case (Some st)
  then show ?thesis
    using assms refused by (auto simp: advance_epoch_def)
next
  case None
  show ?thesis
  proof (cases "ctr_next (fb_epoch f)")
    case (Inl e)
    then show ?thesis
      using assms None refused [of e] by (simp add: advance_epoch_def)
  next
    case (Inr e)
    define bs where "bs = encode_epoch_state (epoch_state_of e f)"
    obtain st g where p: "persist J Jr_epoch_state bs ''epoch advance did not reach stable storage'' f = (st, g)"
      by (meson surj_pair)
    have cg: "core g = core f"
      using core_persist [of J Jr_epoch_state bs "''epoch advance did not reach stable storage''" f] p by simp
    have succ: "st = success" if "ok st"
      using p that by (auto simp: persist_def append_sync_def split: option.splits prod.splits if_splits)
    show ?thesis
    proof (cases "(fb_journal f \<noteq> None \<and> bs = []) \<or> \<not> ok st")
      case True
      have "(\<exists>s. out = Inl s) \<and> core f' = core f"
        using assms None Inr p cg True by (auto simp: advance_epoch_def Let_def bs_def [symmetric] split: if_splits)
      then show ?thesis
        using refused by blast
    next
      case False
      then show ?thesis
        using assms None Inr p cg succ advanced [of e g] by (auto simp: advance_epoch_def Let_def bs_def split: if_splits)
    qed
  qed
qed

lemma invalidate_evidence_cases:
  assumes "invalidate_evidence i actor e why f = (st, f')"
  shows "(\<not> ok st \<and> f' = f)
    \<or> (ok st \<and> (\<exists>q res. find_queue f i = Some q \<and> find_resource f (qd_resource (qr_def q)) = Some res
         \<and> ad_allowed (authorize (rr_authority res) actor Cap_admin e (qr_applicability q) (qr_lifecycle q))
         \<and> core f' = (core f)\<lparr>co_queues := um_put i (stale_by_backend q) (fb_queues f)\<rparr>))"
  using assms
  by (auto simp: invalidate_evidence_def Let_def core_def monotonic_now_def emit_events_def authorize_code
      split: option.splits if_splits)

end
