(* ===== verification/QF_Plans.thy ===== *)
theory QF_Plans
  imports QF_Governance
begin

text \<open>
  \<^verbatim>\<open>src/fabric_plans.cpp\<close>: the two-phase application of a definition to a backend. A plan is
  reserved (and journalled) before the external effect, committed with the acknowledgement of the
  backend, or aborted.
\<close>

section \<open>Definitions\<close>

definition marker_provenance :: "backend_plan \<Rightarrow> provenance" where
  "marker_provenance plan =
     \<lparr>pv_publisher = Ident (if id_valid (bpl_principal plan) then id_value (bpl_principal plan) else 1),
      pv_node = Ident (id_value (bpl_resource plan)), pv_incarnation = Counter 1, pv_epoch = bpl_epoch plan,
      pv_sequence = Counter (at_counter (bpl_attempt plan)), pv_boot = \<lparr>boot_hi = 1, boot_lo = 1\<rparr>\<rparr>"

definition plan_marker :: "backend_plan \<Rightarrow> provenance \<Rightarrow> mutation_kind \<Rightarrow> mutation_request" where
  "plan_marker plan prov kind =
     \<lparr>mr_attempt = bpl_attempt plan, mr_kind = kind, mr_queue = bpl_queue plan,
      mr_expected_generation = bpl_expected_generation plan, mr_expected_epoch = bpl_epoch plan,
      mr_principal = bpl_principal plan, mr_provenance = prov,
      mr_payload = (if kind = Mk_no_op then Pl_monostate else Pl_backend_ack no_applied)\<rparr>"

text \<open>The early returns of \<^verbatim>\<open>plan_backend_apply\<close> before the plan is built, in order.\<close>

definition plan_refusal :: "queue_record \<Rightarrow> resource_record \<Rightarrow> Generation \<Rightarrow> OwnerId \<Rightarrow> provenance \<Rightarrow> 'j fabric \<Rightarrow> status option" where
  "plan_refusal q resource expected actor prov f =
     (let decision = authorize (rr_authority resource) actor Cap_acknowledge_backend (fb_epoch f)
                       (qr_applicability q) (qr_lifecycle q);
          replay_class = classify (fb_provenance f) prov
      in if \<not> ad_allowed decision then Some (Status (ad_code decision) (ad_rule decision))
         else if \<not> ctr_valid expected \<or> expected \<noteq> qd_generation (qr_def q)
         then Some (Status Code_stale_generation ''expected-generation-mismatch'')
         else if (case rr_find_class resource (cb_id (qd_cls (qr_def q))) of
                    None \<Rightarrow> True | Some cls \<Rightarrow> sc_generation cls \<noteq> cb_generation (qd_cls (qr_def q)))
         then Some (Status Code_stale_generation ''class-binding-not-exact-generation'')
         else if length (fb_plans f) \<ge> fl_max_pending_attempts (fc_limits (fb_config f))
         then Some (Status Code_capacity_exceeded ''backend reservations are exhausted'')
         else if replay_class \<noteq> Pc_accepted
         then Some (Status (if replay_class = Pc_duplicate then Code_replay_detected else Code_stale_incarnation)
                      (provenance_class_name replay_class))
         else None)"

definition backend_plan_for ::
  "QueueId \<Rightarrow> queue_record \<Rightarrow> Generation \<Rightarrow> OwnerId \<Rightarrow> provenance \<Rightarrow> nanos \<Rightarrow> 'j fabric \<Rightarrow> backend_plan" where
  "backend_plan_for queue_id q expected actor prov now f =
     \<lparr>bpl_attempt = \<lparr>at_publisher = pv_publisher prov, at_counter = ctr_value (pv_sequence prov)\<rparr>,
      bpl_queue = queue_id, bpl_resource = qd_resource (qr_def q), bpl_expected_generation = expected,
      bpl_cls = qd_cls (qr_def q),
      bpl_thresholds = fp_resolve (fc_policy (fb_config f)) (qd_thresholds (qr_def q)) (cb_id (qd_cls (qr_def q))),
      bpl_principal = actor, bpl_epoch = fb_epoch f, bpl_planned_at = now\<rparr>"

definition push_pending :: "nat \<Rightarrow> pending_attempt \<Rightarrow> pending_attempt list \<Rightarrow> pending_attempt list" where
  "push_pending bound entry pending =
     (let pending = pending @ [entry] in if length pending > bound then tl pending else pending)"

text \<open>Phase 1, after the guards: observe the provenance, journal the reservation, publish it.\<close>

definition reserve_plan ::
  "'j journal_ops \<Rightarrow> backend_plan \<Rightarrow> provenance \<Rightarrow> 'j fabric \<Rightarrow> backend_plan result \<times> 'j fabric" where
  "reserve_plan J plan prov f =
     (case tr_observe (fb_provenance f) prov of
        (observed, t) \<Rightarrow>
          (let f = f\<lparr>fb_provenance := t\<rparr>;
               encoded = encode_mutation (plan_marker plan prov Mk_acknowledge_backend)
           in if \<not> ok observed then (Inl observed, f)
              else if fb_journal f \<noteq> None \<and> encoded = []
              then (Inl (Status Code_internal ''reservation could not be encoded''), f)
              else (case persist J Jr_begin_attempt encoded ''reservation did not reach stable storage'' f of
                (st, f) \<Rightarrow>
                  if \<not> ok st then (Inl st, f)
                  else (let f = f\<lparr>fb_plans := um_emplace (bpl_attempt plan) plan (fb_plans f),
                                  fb_pending := push_pending (fl_max_pending_attempts (fc_limits (fb_config f)))
                                    \<lparr>pa_attempt = bpl_attempt plan, pa_queue = bpl_queue plan,
                                     pa_kind = Mk_acknowledge_backend, pa_started_at = bpl_planned_at plan\<rparr>
                                    (fb_pending f)\<rparr>
                        in (Inr plan,
                            emit_events [(new_event Ev_mutation_applied (bpl_planned_at plan))
                              \<lparr>ev_queue := bpl_queue plan, ev_resource := bpl_resource plan,
                               ev_mutation := Mk_acknowledge_backend, ev_attempt := bpl_attempt plan,
                               ev_generation := bpl_expected_generation plan,
                               ev_detail := ''backend apply reserved''\<rparr>] f)))))"

definition plan_backend_apply ::
  "'j journal_ops \<Rightarrow> QueueId \<Rightarrow> Generation \<Rightarrow> OwnerId \<Rightarrow> provenance \<Rightarrow> 'j fabric \<Rightarrow> backend_plan result \<times> 'j fabric" where
  "plan_backend_apply J queue_id expected actor prov f =
     (if fb_shutting_down f then (Inl (Status Code_shutting_down ''fabric is shutting down''), f)
      else if \<not> fb_healthy f then (Inl (Status Code_not_durable ''fabric is not healthy''), f)
      else if \<not> pv_valid prov then (Inl (Status Code_malformed_input ''complete provenance is required''), f)
      else (case find_queue f queue_id of
        None \<Rightarrow> (Inl (Status Code_not_found ''queue is not declared''), f)
      | Some q \<Rightarrow>
          (case find_resource f (qd_resource (qr_def q)) of
             None \<Rightarrow> (Inl (Status Code_internal ''queue references an unknown resource''), f)
           | Some resource \<Rightarrow>
               (case plan_refusal q resource expected actor prov f of
                  Some st \<Rightarrow> (Inl st, f)
                | None \<Rightarrow>
                    (let (now, f) = monotonic_now f;
                         plan = backend_plan_for queue_id q expected actor prov now f
                     in if um_find (fb_plans f) (bpl_attempt plan) \<noteq> None
                        then (Inl (Status Code_conflict ''attempt identity is already reserved''), f)
                        else reserve_plan J plan prov f)))))"

definition commit_request :: "backend_plan \<Rightarrow> backend_applied \<Rightarrow> provenance \<Rightarrow> 'j fabric \<Rightarrow> mutation_request" where
  "commit_request plan applied prov f =
     \<lparr>mr_attempt = bpl_attempt plan, mr_kind = Mk_acknowledge_backend, mr_queue = bpl_queue plan,
      mr_expected_generation = bpl_expected_generation plan, mr_expected_epoch = fb_epoch f,
      mr_principal = bpl_principal plan, mr_provenance = prov, mr_payload = Pl_backend_ack applied\<rparr>"

text \<open>Erasing a reservation: the plan, and the first pending entry of its attempt.\<close>

fun erase_pending :: "attempt_id \<Rightarrow> pending_attempt list \<Rightarrow> pending_attempt list" where
  "erase_pending a [] = []"
| "erase_pending a (p # ps) = (if pa_attempt p = a then ps else p # erase_pending a ps)"

definition drop_plan :: "attempt_id \<Rightarrow> 'j fabric \<Rightarrow> 'j fabric" where
  "drop_plan a f = f\<lparr>fb_plans := um_erase a (fb_plans f), fb_pending := erase_pending a (fb_pending f)\<rparr>"

definition commit_backend_apply ::
  "'j journal_ops \<Rightarrow> backend_plan \<Rightarrow> backend_applied \<Rightarrow> provenance \<Rightarrow> 'j fabric \<Rightarrow> mutation_outcome result \<times> 'j fabric" where
  "commit_backend_apply J plan applied prov f =
     (if fb_shutting_down f then (Inl (Status Code_shutting_down ''fabric is shutting down''), f)
      else if um_find (fb_plans f) (bpl_attempt plan) = None
      then (Inl (Status Code_not_found ''no such backend reservation''), f)
      else (case find_queue f (bpl_queue plan) of
        None \<Rightarrow> (Inl (Status Code_not_found ''queue is not declared''), f)
      | Some q \<Rightarrow>
          (if qd_generation (qr_def q) \<noteq> bpl_expected_generation plan
           then (Inl (Status Code_stale_generation ''queue definition changed while the apply was planned''), f)
           else if \<not> pv_valid prov
           then (Inl (Status Code_malformed_input ''complete provenance is required''), f)
           else (let request = commit_request plan applied prov f;
                     encoded = encode_mutation request
                 in if fb_journal f \<noteq> None \<and> encoded = []
                    then (Inl (Status Code_internal ''commit marker could not be encoded''), f)
                    else (case persist J Jr_commit_mutation encoded ''commit marker did not reach stable storage'' f of
                      (st, f) \<Rightarrow>
                        if \<not> ok st then (Inl st, f)
                        else (case monotonic_now f of
                          (now, f) \<Rightarrow>
                            (case on_queue (bpl_queue plan) (apply_existing_locked J q request now f) of
                               (out, events, f) \<Rightarrow>
                                 (out, emit_events events
                                         (case out of Inr _ \<Rightarrow> drop_plan (bpl_attempt plan) f | Inl _ \<Rightarrow> f)))))))))"

definition abort_backend_apply :: "'j journal_ops \<Rightarrow> backend_plan \<Rightarrow> string \<Rightarrow> 'j fabric \<Rightarrow> status \<times> 'j fabric" where
  "abort_backend_apply J plan reason f =
     (if um_find (fb_plans f) (bpl_attempt plan) = None
      then (Status Code_not_found ''no such backend reservation'', f)
      else (let encoded = encode_mutation (plan_marker plan (marker_provenance plan) Mk_no_op)
            in case (case fb_journal f of
                       None \<Rightarrow> (success, f)
                     | Some j \<Rightarrow> (if encoded = [] then (Status Code_internal ''abort marker could not be encoded'', f)
                                  else append_sync J Jr_commit_mutation encoded
                                         ''abort marker did not reach stable storage'' j f)) of
                 (st, f) \<Rightarrow>
                   if \<not> ok st then (st, f)
                   else (let f = drop_plan (bpl_attempt plan) f;
                             (now, f) = monotonic_now f
                         in (success,
                             emit_events [(new_event Ev_mutation_rejected now)\<lparr>ev_queue := bpl_queue plan,
                                ev_resource := bpl_resource plan, ev_mutation := Mk_acknowledge_backend,
                                ev_attempt := bpl_attempt plan, ev_code := Code_cancelled,
                                ev_detail := ''backend apply aborted: '' @ take kMaxReasonChars reason\<rparr>] f))))"

definition pending_attempts :: "'j fabric \<Rightarrow> pending_attempt list" where
  "pending_attempts f = fb_pending f"

text \<open>Plans in the order of their attempts: by publisher, then by counter.\<close>

definition pending_plans :: "'j fabric \<Rightarrow> backend_plan list" where
  "pending_plans f =
     sort_key (\<lambda>p. at_publisher (bpl_attempt p)) (sort_key (\<lambda>p. at_counter (bpl_attempt p)) (map snd (fb_plans f)))"

section \<open>Lemmas\<close>

lemma plan_refusal_None:
  "plan_refusal q res g actor prov f = None \<Longrightarrow>
     ad_allowed (authorize (rr_authority res) actor Cap_acknowledge_backend (fb_epoch f) (qr_applicability q) (qr_lifecycle q))
     \<and> g = qd_generation (qr_def q) \<and> length (fb_plans f) < fl_max_pending_attempts (fc_limits (fb_config f))
     \<and> classify (fb_provenance f) prov = Pc_accepted
     \<and> (\<exists>cls. rr_find_class res (cb_id (qd_cls (qr_def q))) = Some cls \<and> sc_generation cls = cb_generation (qd_cls (qr_def q)))"
  by (auto simp: plan_refusal_def Let_def split: if_splits option.splits)

lemma core_clock [simp]: "core (f\<lparr>fb_ticks := n, fb_clock_watermark := w\<rparr>) = core f"
  by (simp add: core_def)

lemma persist_fields:
  assumes "persist J ty bs msg f = (st, g)"
  shows "core g = core f" "fb_provenance g = fb_provenance f"
    "fb_clock g = fb_clock f" "fb_clock_watermark g = fb_clock_watermark f"
    "fb_next_resource_id g = fb_next_resource_id f"
    "fb_next_class_id g = fb_next_class_id f" "fb_next_pool_id g = fb_next_pool_id f"
    "fb_next_backend_id g = fb_next_backend_id f"
  using assms core_persist [of J ty bs msg f]
  by (auto simp: persist_def append_sync_def split: option.splits prod.splits if_splits)

definition pending_of :: "backend_plan \<Rightarrow> pending_attempt" where
  "pending_of plan = \<lparr>pa_attempt = bpl_attempt plan, pa_queue = bpl_queue plan, pa_kind = Mk_acknowledge_backend,
     pa_started_at = bpl_planned_at plan\<rparr>"

definition core_reserved :: "backend_plan \<Rightarrow> 'j fabric \<Rightarrow> core_state" where
  "core_reserved plan f = (core f)\<lparr>co_plans := um_emplace (bpl_attempt plan) plan (fb_plans f),
     co_pending := push_pending (fl_max_pending_attempts (fc_limits (fb_config f))) (pending_of plan) (fb_pending f)\<rparr>"

definition core_dropped :: "attempt_id \<Rightarrow> core_state \<Rightarrow> core_state" where
  "core_dropped a c = c\<lparr>co_plans := um_erase a (co_plans c), co_pending := erase_pending a (co_pending c)\<rparr>"

lemma reserve_plan_cases:
  assumes "reserve_plan J plan prov f = (out, f')"
  shows "(\<exists>st. out = Inl st \<and> core f' = core f) \<or> (out = Inr plan \<and> core f' = core_reserved plan f)"
proof -
  obtain ob t where ob: "tr_observe (fb_provenance f) prov = (ob, t)"
    by (meson surj_pair)
  define bs where "bs = encode_mutation (plan_marker plan prov Mk_acknowledge_backend)"
  obtain st g where p: "persist J Jr_begin_attempt bs ''reservation did not reach stable storage'' (f\<lparr>fb_provenance := t\<rparr>) = (st, g)"
    by (meson surj_pair)
  have g: "core g = core f"
    using persist_fields(1) [OF p] by simp
  show ?thesis
  proof (cases "\<not> ok ob \<or> (fb_journal f \<noteq> None \<and> bs = []) \<or> \<not> ok st")
    case True
    then have "\<exists>st. out = Inl st \<and> core f' = core f"
      using assms g p by (auto simp: reserve_plan_def ob Let_def bs_def [symmetric] split: if_splits)
    then show ?thesis ..
  next
    case False
    define pend where "pend = push_pending (fl_max_pending_attempts (fc_limits (fb_config g))) (pending_of plan) (fb_pending g)"
    have out: "out = Inr plan" "\<exists>evs. f' = emit_events evs (g\<lparr>fb_plans := um_emplace (bpl_attempt plan) plan (fb_plans g), fb_pending := pend\<rparr>)"
      using assms False p unfolding reserve_plan_def ob Let_def bs_def [symmetric] pend_def pending_of_def by auto
    have pend': "pend = push_pending (fl_max_pending_attempts (fc_limits (fb_config f))) (pending_of plan) (fb_pending f)"
      by (simp only: pend_def coreD [OF g])
    show ?thesis
      using out g coreD(6) [OF g] by (auto simp: core_def core_reserved_def emit_events_def pend')
  qed
qed

text \<open>What a successful reservation guarantees.\<close>

lemma plan_backend_apply_ok:
  assumes "plan_backend_apply J i g actor prov f = (Inr plan, f')"
  shows "\<exists>q res. find_queue f i = Some q \<and> find_resource f (qd_resource (qr_def q)) = Some res
    \<and> plan_refusal q res g actor prov f = None \<and> um_find (fb_plans f) (bpl_attempt plan) = None
    \<and> bpl_queue plan = i \<and> bpl_expected_generation plan = qd_generation (qr_def q) \<and> bpl_cls plan = qd_cls (qr_def q)
    \<and> bpl_epoch plan = fb_epoch f \<and> bpl_principal plan = actor
    \<and> core f' = core_reserved plan f"
proof -
  obtain now h where now: "monotonic_now f = (now, h)"
    by (meson surj_pair)
  have h: "core h = core f"
    using core_monotonic_now [of f] now by simp
  obtain q res where q: "find_queue f i = Some q" "find_resource f (qd_resource (qr_def q)) = Some res"
      "plan_refusal q res g actor prov f = None"
    and r: "um_find (fb_plans h) (bpl_attempt (backend_plan_for i q g actor prov now h)) = None"
      "reserve_plan J (backend_plan_for i q g actor prov now h) prov h = (Inr plan, f')"
    using assms now by (auto simp: plan_backend_apply_def Let_def split: option.splits if_splits)
  have plan: "plan = backend_plan_for i q g actor prov now h"
    and "core f' = core_reserved plan h"
    using reserve_plan_cases [OF r(2)] by auto
  then have c: "core f' = core_reserved plan f"
    by (simp only: core_reserved_def h coreD [OF h])
  show ?thesis
    using q r(1) c plan h coreD [OF h] plan_refusal_None [OF q(3)]
    by (intro exI [of _ q] exI [of _ res]) (simp add: backend_plan_for_def)
qed

lemma plan_backend_apply_refused:
  assumes "plan_backend_apply J i g actor prov f = (Inl st, f')"
  shows "core f' = core f"
proof -
  obtain now h where now: "monotonic_now f = (now, h)"
    by (meson surj_pair)
  have h: "core h = core f"
    using core_monotonic_now [of f] now by simp
  show ?thesis
    using assms h reserve_plan_cases [of J _ prov h "Inl st" f'] now
    by (auto simp: plan_backend_apply_def Let_def split: option.splits if_splits)
qed

lemma core_drop_plan: "core (drop_plan a f) = core_dropped a (core f)"
  by (simp add: core_def drop_plan_def core_dropped_def)

text \<open>
  The commit is the mutation path on the request it builds: the queue it touches moves by
  \<open>apply_spec\<close>, and the reservation is dropped exactly when the outcome is a success.
\<close>

lemma commit_backend_apply_cases:
  fixes f :: "'j fabric"
  assumes "commit_backend_apply J plan a prov f = (out, f')"
  shows "(\<exists>st. out = Inl st \<and> core f' = core f)
    \<or> (\<exists>(g :: 'j fabric) c. um_find (fb_plans f) (bpl_attempt plan) \<noteq> None \<and> core g = core f
         \<and> fb_clock_watermark f \<le> fb_clock_watermark g \<and> fb_provenance g = fb_provenance f
         \<and> (\<exists>q. find_queue f (bpl_queue plan) = Some q \<and> qd_generation (qr_def q) = bpl_expected_generation plan)
         \<and> apply_spec g (commit_request plan a prov f) out c
         \<and> core f' = (case out of Inl _ \<Rightarrow> c | Inr _ \<Rightarrow> core_dropped (bpl_attempt plan) c))"
proof -
  define r where "r = commit_request plan a prov f"
  obtain st g where p: "persist J Jr_commit_mutation (encode_mutation r) ''commit marker did not reach stable storage'' f = (st, g)"
    by (meson surj_pair)
  note g = persist_fields [OF p]
  obtain now h where now: "monotonic_now g = (now, h)"
    by (meson surj_pair)
  have h: "core h = core f" "fb_clock_watermark h = now" "fb_clock_watermark g \<le> now" "fb_provenance h = fb_provenance g"
    using now g(1) core_monotonic_now [of g] by (auto simp: monotonic_now_def Let_def)
  show ?thesis
  proof (cases "fb_shutting_down f \<or> um_find (fb_plans f) (bpl_attempt plan) = None \<or> find_queue f (bpl_queue plan) = None
      \<or> qd_generation (qr_def (the (find_queue f (bpl_queue plan)))) \<noteq> bpl_expected_generation plan
      \<or> \<not> pv_valid prov \<or> (fb_journal f \<noteq> None \<and> encode_mutation r = []) \<or> \<not> ok st")
    case True
    then have "\<exists>st. out = Inl st \<and> core f' = core f"
      using assms g(1) unfolding commit_backend_apply_def Let_def r_def [symmetric] p
      by (auto split: option.splits if_splits)
    then show ?thesis
      by simp
  next
    case False
    then obtain q where q: "find_queue f (bpl_queue plan) = Some q" "qd_generation (qr_def q) = bpl_expected_generation plan"
      by auto
    obtain o' evs k where k: "on_queue (bpl_queue plan) (apply_existing_locked J q r now h) = (o', evs, k)"
      by (metis prod_cases3)
    have res: "out = o'" "f' = emit_events evs (case o' of Inr _ \<Rightarrow> drop_plan (bpl_attempt plan) k | Inl _ \<Rightarrow> k)"
      using assms False q k now unfolding commit_backend_apply_def Let_def r_def [symmetric] p by auto
    have qh: "find_queue h (mr_queue r) = Some q" "mr_queue r = bpl_queue plan"
      using q coreD(4) [OF h(1)] by (simp_all add: find_queue_def r_def commit_request_def)
    have spec: "apply_spec h r o' (core k)"
      using on_queue_spec [OF qh(1) apply_existing_spec [of h r now q J]] k h qh by simp
    have "core f' = (case out of Inl _ \<Rightarrow> core k | Inr _ \<Rightarrow> core_dropped (bpl_attempt plan) (core k))"
      using res by (auto simp: core_drop_plan split: sum.splits)
    then show ?thesis
      using spec res q False h g unfolding r_def [symmetric]
      by (intro disjI2 exI [of _ h] exI [of _ "core k"]) auto
  qed
qed

lemma abort_backend_apply_cases:
  assumes "abort_backend_apply J plan why f = (st, f')"
  shows "if ok st then um_find (fb_plans f) (bpl_attempt plan) \<noteq> None
            \<and> core f' = core_dropped (bpl_attempt plan) (core f)
         else core f' = core f"
proof -
  define bs where "bs = encode_mutation (plan_marker plan (marker_provenance plan) Mk_no_op)"
  define jr where "jr = (case fb_journal f of None \<Rightarrow> (success, f)
      | Some j \<Rightarrow> (if bs = [] then (Status Code_internal ''abort marker could not be encoded'', f)
                   else append_sync J Jr_commit_mutation bs ''abort marker did not reach stable storage'' j f))"
  obtain js g where g: "jr = (js, g)"
    by (cases jr)
  have "core (snd jr) = core f"
    by (simp add: jr_def split: option.splits)
  then have c: "core g = core f"
    by (simp add: g)
  have drop: "core (drop_plan a g) = core_dropped a (core f)" for a
    using c by (simp add: core_drop_plan)
  have res: "f' = f \<and> \<not> ok st" if "um_find (fb_plans f) (bpl_attempt plan) = None"
    using assms that by (auto simp: abort_backend_apply_def)
  have res': "if ok js then ok st \<and> (\<exists>evs. f' = emit_events evs (snd (monotonic_now (drop_plan (bpl_attempt plan) g))))
      else st = js \<and> f' = g" if "um_find (fb_plans f) (bpl_attempt plan) \<noteq> None"
    using assms that unfolding abort_backend_apply_def Let_def bs_def [symmetric] jr_def [symmetric] g
    by (auto split: prod.splits)
  show ?thesis
    using res res' c drop [of "bpl_attempt plan"]
    by (cases "um_find (fb_plans f) (bpl_attempt plan) = None"; cases "ok js") auto
qed

end
