(* ===== verification/QF_Recovery.thy ===== *)
theory QF_Recovery
  imports QF_Plans
begin

text \<open>
  \<^verbatim>\<open>src/fabric_recovery.cpp\<close>: rebuilding the fabric from its journal, the index rebuild, the
  freshness sweep, the snapshot and compaction. \<^verbatim>\<open>recover_locked\<close> is split along its loops; the
  local variables of its scan are the record \<open>restore_state\<close>.
\<close>

section \<open>Scanning the durable records\<close>

record 'j restore_state =
  rs_fabric :: "'j fabric"
  rs_previous_epoch :: Epoch
  rs_outstanding :: "(attempt_id, mutation_request) umap"
  rs_replay_order :: "mutation_request list"
  rs_epoch_state :: "epoch_state option"

definition note_recovery :: "string \<Rightarrow> 'j fabric \<Rightarrow> 'j fabric" where
  "note_recovery text f = f\<lparr>fb_recovery := rp_note text (fb_recovery f)\<rparr>"

definition note_corrupt :: "string \<Rightarrow> 'j restore_state \<Rightarrow> 'j restore_state" where
  "note_corrupt text s =
     s\<lparr>rs_fabric := note_recovery text
         ((rs_fabric s)\<lparr>fb_recovery := (fb_recovery (rs_fabric s))
            \<lparr>rp_records_corrupt := rp_records_corrupt (fb_recovery (rs_fabric s)) + 1\<rparr>\<rparr>)\<rparr>"

text \<open>A queue read back from a snapshot: its dynamic evidence needs revalidation.\<close>

definition restored_queue :: "queue_record \<Rightarrow> queue_record" where
  "restored_queue q =
     (let q = (if oc_present (qr_occupancy q)
               then q\<lparr>qr_occupancy := invalidate_occupancy Fr_stale_restart (qr_occupancy q),
                      qr_applicability := set_flag (qr_applicability q) App_stale,
                      qr_staleness_events := qr_staleness_events q + 1\<rparr>
               else q);
          d = qr_drain q;
          q = (if dr_phase d = Dp_evidence_pending \<or> dr_phase d = Dp_requested \<or> dr_phase d = Dp_completed
               then q\<lparr>qr_drain := d\<lparr>dr_evidence := (dr_evidence d)\<lparr>de_revalidated := False\<rparr>,
                        dr_phase := (if dr_phase d = Dp_completed then Dp_evidence_pending else dr_phase d)\<rparr>,
                      qr_applicability := set_flag (qr_applicability q) App_stale\<rparr>
               else q)
      in if ba_known (qr_applied q) then q\<lparr>qr_applicability := set_flag (qr_applicability q) App_stale\<rparr> else q)"

definition restore_epoch :: "bytes \<Rightarrow> 'j restore_state \<Rightarrow> 'j restore_state" where
  "restore_epoch payload s =
     (case decode_epoch_state payload of
        Inl e \<Rightarrow> note_corrupt ''epoch state record could not be decoded'' s
      | Inr es \<Rightarrow> s\<lparr>rs_epoch_state := Some es,
                     rs_previous_epoch := (if es_epoch es > rs_previous_epoch s then es_epoch es else rs_previous_epoch s)\<rparr>)"

definition restore_resource :: "bytes \<Rightarrow> 'j restore_state \<Rightarrow> 'j restore_state" where
  "restore_resource payload s =
     (case decode_resource_state payload of
        Inl e \<Rightarrow> note_corrupt ''resource state record could not be decoded'' s
      | Inr x \<Rightarrow> s\<lparr>rs_fabric := (rs_fabric s)\<lparr>fb_resources := um_put (rr_id x) x (fb_resources (rs_fabric s))\<rparr>\<rparr>)"

definition restore_queue :: "bytes \<Rightarrow> 'j restore_state \<Rightarrow> 'j restore_state" where
  "restore_queue payload s =
     (case decode_queue_state payload of
        Inl e \<Rightarrow> note_corrupt ''queue state record could not be decoded'' s
      | Inr q \<Rightarrow>
          (let f = rs_fabric s; rep = fb_recovery f
           in s\<lparr>rs_fabric := f\<lparr>fb_recovery := rep\<lparr>rp_queues_restored := rp_queues_restored rep + 1,
                  rp_queues_revalidated := rp_queues_revalidated rep + (if oc_present (qr_occupancy q) then 1 else 0)\<rparr>,
                fb_queues := um_put (qd_id (qr_def q)) (restored_queue q) (fb_queues f)\<rparr>\<rparr>))"

definition restore_begin :: "bytes \<Rightarrow> 'j restore_state \<Rightarrow> 'j restore_state" where
  "restore_begin payload s =
     (case decode_mutation payload of
        Inl e \<Rightarrow> note_corrupt ''begin attempt record could not be decoded'' s
      | Inr r \<Rightarrow> s\<lparr>rs_outstanding := um_put (mr_attempt r) r (rs_outstanding s)\<rparr>)"

definition restore_commit :: "bytes \<Rightarrow> 'j restore_state \<Rightarrow> 'j restore_state" where
  "restore_commit payload s =
     (case decode_mutation payload of
        Inl e \<Rightarrow> note_corrupt ''commit record could not be decoded'' s
      | Inr r \<Rightarrow> s\<lparr>rs_outstanding := um_erase (mr_attempt r) (rs_outstanding s),
                    rs_replay_order := rs_replay_order s @ [r]\<rparr>)"

definition restore_record :: "journal_record \<Rightarrow> 'j restore_state \<Rightarrow> 'j restore_state" where
  "restore_record rec s = (case jr_type rec of
       Jr_epoch_state \<Rightarrow> restore_epoch (jr_payload rec) s
     | Jr_resource_state \<Rightarrow> restore_resource (jr_payload rec) s
     | Jr_queue_state \<Rightarrow> restore_queue (jr_payload rec) s
     | Jr_begin_attempt \<Rightarrow> restore_begin (jr_payload rec) s
     | Jr_commit_mutation \<Rightarrow> restore_commit (jr_payload rec) s
     | _ \<Rightarrow> s)"

definition restore_records :: "journal_record list \<Rightarrow> 'j restore_state \<Rightarrow> 'j restore_state" where
  "restore_records recs s = fold restore_record recs s"

definition start_restore :: "'j fabric \<Rightarrow> 'j restore_state" where
  "start_restore f = \<lparr>rs_fabric = f, rs_previous_epoch = rp_previous_epoch (fb_recovery f),
     rs_outstanding = um_empty, rs_replay_order = [], rs_epoch_state = None\<rparr>"

section \<open>The loops after the scan\<close>

definition kill_backends :: "resource_record \<Rightarrow> resource_record" where
  "kill_backends r = r\<lparr>rr_backends := map (\<lambda>b. b\<lparr>bi_alive := False\<rparr>) (rr_backends r)\<rparr>"

definition disconnect_backends :: "'j fabric \<Rightarrow> 'j fabric" where
  "disconnect_backends f =
     (let alive = sum_list (map (\<lambda>e. length (filter bi_alive (rr_backends (snd e)))) (fb_resources f));
          f = ((note_recovery ''backend incarnation not restored; re-registration required'') ^^ alive) f
      in f\<lparr>fb_resources := um_map kill_backends (fb_resources f)\<rparr>)"

definition max_of :: "u64 list \<Rightarrow> u64" where
  "max_of xs = fold max xs 0"

definition rebuild_indexes_locked :: "'j fabric \<Rightarrow> 'j fabric" where
  "rebuild_indexes_locked f =
     (let resources = map snd (fb_resources f);
          queues = map snd (fb_queues f);
          count = (\<lambda>r. length (filter (\<lambda>q. qd_resource (qr_def q) = rr_id r) queues))
      in f\<lparr>fb_resources := um_map (\<lambda>r. r\<lparr>rr_queue_count := count r\<rparr>) (fb_resources f),
           fb_queue_names := fold (\<lambda>q m. um_put (name_key (qd_resource (qr_def q)) (qd_name (qr_def q))) (qd_id (qr_def q)) m)
                               queues um_empty,
           fb_next_resource_id := max_of (map (\<lambda>r. id_value (rr_id r)) resources) + 1,
           fb_next_queue_id := max_of (map (\<lambda>q. id_value (qd_id (qr_def q))) queues) + 1,
           fb_next_class_id := max_of (concat (map (\<lambda>r. map (\<lambda>c. id_value (sc_id c)) (rr_classes r)) resources)) + 1,
           fb_next_pool_id := max_of (concat (map (\<lambda>r. map (\<lambda>p. id_value (bp_id p)) (rr_pools r)) resources)) + 1,
           fb_next_backend_id := max_of (concat (map (\<lambda>r. map (\<lambda>b. id_value (bi_backend b)) (rr_backends r)) resources)) + 1,
           fb_fence_tokens := max_of (map (\<lambda>q. fs_token (qr_fence q)) queues)\<rparr>)"

text \<open>Replay of one committed mutation, with the counters of the report.\<close>

definition replay_one :: "'j journal_ops \<Rightarrow> mutation_request \<Rightarrow> 'j fabric \<Rightarrow> 'j fabric" where
  "replay_one J r f =
     (case apply_replay_locked J r f of
        (Inl st, f) \<Rightarrow>
          note_recovery (''replayed mutation rejected: '' @ status_to_string st)
            (f\<lparr>fb_recovery := (fb_recovery f)\<lparr>rp_mutations_rejected := rp_mutations_rejected (fb_recovery f) + 1\<rparr>\<rparr>)
      | (Inr out, f) \<Rightarrow>
          f\<lparr>fb_recovery := (fb_recovery f)\<lparr>rp_mutations_replayed := rp_mutations_replayed (fb_recovery f) + 1\<rparr>\<rparr>)"

definition require_revalidation :: "queue_record \<Rightarrow> queue_record" where
  "require_revalidation q =
     q\<lparr>qr_occupancy := (if oc_present (qr_occupancy q) then invalidate_occupancy Fr_stale_restart (qr_occupancy q)
                        else qr_occupancy q),
       qr_applicability := set_flag (qr_applicability q) App_stale,
       qr_staleness_events := qr_staleness_events q + 1\<rparr>"

definition revalidate_queues :: "'j fabric \<Rightarrow> 'j fabric" where
  "revalidate_queues f =
     f\<lparr>fb_queues := um_map require_revalidation (fb_queues f),
       fb_recovery := (fb_recovery f)\<lparr>rp_queues_revalidated :=
          rp_queues_revalidated (fb_recovery f) + length (fb_queues f)\<rparr>\<rparr>"

definition orphaned_begin :: "mutation_request \<Rightarrow> 'j fabric \<Rightarrow> 'j fabric" where
  "orphaned_begin r f =
     (let f = f\<lparr>fb_recovery := (fb_recovery f)\<lparr>rp_orphaned_begins := rp_orphaned_begins (fb_recovery f) + 1\<rparr>\<rparr>;
          f = (case find_queue f (mr_queue r) of
                 None \<Rightarrow> f
               | Some q \<Rightarrow>
                   f\<lparr>fb_queues := um_put (mr_queue r)
                       (q\<lparr>qr_applicability := set_flag (qr_applicability q) App_stale,
                          qr_occupancy := invalidate_occupancy Fr_stale_restart (qr_occupancy q),
                          qr_staleness_events := qr_staleness_events q + 1\<rparr>) (fb_queues f)\<rparr>)
      in note_recovery ''unfinished attempt requires revalidation'' f)"

definition append_epoch_state_locked :: "'j journal_ops \<Rightarrow> 'j fabric \<Rightarrow> status \<times> 'j fabric" where
  "append_epoch_state_locked J f =
     (case fb_journal f of
        None \<Rightarrow> (success, f)
      | Some j \<Rightarrow>
          (let encoded = encode_epoch_state (epoch_state_of (fb_epoch f) f)
           in if encoded = [] then (Status Code_internal ''epoch state could not be encoded'', f)
              else (case jo_append J Jr_epoch_state encoded j of
                (appended, j) \<Rightarrow>
                  if \<not> ok appended then (appended, f\<lparr>fb_journal := Some j\<rparr>)
                  else (case jo_sync J j of
                    (sync, j) \<Rightarrow>
                      if \<not> ok sync
                      then (Status Code_not_durable ''epoch state did not reach stable storage'', f\<lparr>fb_journal := Some j\<rparr>)
                      else (success,
                            f\<lparr>fb_journal := Some j,
                              fb_stats := (fb_stats f)\<lparr>sx_journal_records := sx_journal_records (fb_stats f) + 1,
                                sx_journal_syncs := sx_journal_syncs (fb_stats f) + 1\<rparr>\<rparr>)))))"

section \<open>Recovery\<close>

definition fail_recovery :: "status \<Rightarrow> 'j fabric \<Rightarrow> status \<times> event list \<times> 'j fabric" where
  "fail_recovery st f =
     (st, [], f\<lparr>fb_healthy := False, fb_recovery := (fb_recovery f)\<lparr>rp_status := st\<rparr>\<rparr>)"

text \<open>The writes at the end: header, truncation of a torn tail, epoch record.\<close>

definition recover_seal :: "'j journal_ops \<Rightarrow> 'j \<Rightarrow> 'j fabric \<Rightarrow> status \<times> event list \<times> 'j fabric" where
  "recover_seal J j f =
     (case jo_write_header J (fb_boot f) (fb_epoch f) j of
        (header, j) \<Rightarrow>
          (let f = f\<lparr>fb_journal := Some j\<rparr>
           in if \<not> ok header then fail_recovery header f
              else (let f = (if rp_records_truncated (fb_recovery f) > 0
                             then (case jo_truncate_to_valid_prefix J j of
                                     (truncated, j) \<Rightarrow>
                                       (let f = f\<lparr>fb_journal := Some j\<rparr>
                                        in if \<not> ok truncated
                                           then note_recovery ''torn tail could not be truncated; appends continue after the valid prefix'' f
                                           else f))
                             else f)
                    in case append_epoch_state_locked J f of
                         (epoch_record, f) \<Rightarrow>
                           if \<not> ok epoch_record then fail_recovery epoch_record f
                           else (let f = f\<lparr>fb_recovery := (fb_recovery f)\<lparr>rp_status := success\<rparr>, fb_healthy := True\<rparr>;
                                     (now, f) = monotonic_now f
                                 in (success,
                                     [(new_event Ev_recovery now)\<lparr>ev_epoch := fb_epoch f,
                                        ev_detail := ''durable state restored and epoch advanced''\<rparr>], f)))))"

text \<open>The state adopted under the new epoch, before the replay.\<close>

definition adopt_epoch :: "Epoch \<Rightarrow> 'j restore_state \<Rightarrow> 'j fabric \<Rightarrow> 'j fabric" where
  "adopt_epoch e s f =
     rebuild_indexes_locked
       (f\<lparr>fb_epoch := e,
          fb_coordinator_incarnation := Counter (case rs_epoch_state s of
             Some es \<Rightarrow> ctr_value (es_coordinator_incarnation es) + 1 | None \<Rightarrow> 1),
          fb_resources := um_map (with_epoch e) (fb_resources f),
          fb_recovery := (fb_recovery f)\<lparr>rp_previous_epoch := rs_previous_epoch s, rp_current_epoch := e\<rparr>\<rparr>)"

text \<open>Replay of the commits, revalidation of every queue and of the unfinished attempts.\<close>

definition recover_replay :: "'j journal_ops \<Rightarrow> 'j restore_state \<Rightarrow> 'j fabric \<Rightarrow> 'j fabric" where
  "recover_replay J s f =
     (let f = fold (replay_one J) (rs_replay_order s) f;
          f = revalidate_queues f;
          f = fold (\<lambda>e. orphaned_begin (snd e)) (rs_outstanding s) f;
          f = rebuild_indexes_locked f
      in f\<lparr>fb_recovery := (fb_recovery f)\<lparr>rp_queues_restored := length (fb_queues f)\<rparr>\<rparr>)"

definition recover_restore :: "'j journal_ops \<Rightarrow> 'j \<Rightarrow> 'j fabric \<Rightarrow> status \<times> event list \<times> 'j fabric" where
  "recover_restore J j f =
     (let s = restore_records (jo_records J j) (start_restore f);
          f = disconnect_backends (rs_fabric s)
      in case (if ctr_valid (rs_previous_epoch s) then ctr_next (rs_previous_epoch s) else Inr (Counter 1)) of
           Inl e \<Rightarrow> fail_recovery e f
         | Inr e \<Rightarrow>
             (let f = recover_replay J s (adopt_epoch e s f)
              in recover_seal J (the (fb_journal f)) f))"

definition recover_locked :: "'j journal_ops \<Rightarrow> 'j fabric \<Rightarrow> status \<times> event list \<times> 'j fabric" where
  "recover_locked J f =
     (let (b, rng) = boot_generate (fb_rng f);
          f = f\<lparr>fb_recovery := new_report\<lparr>rp_current_boot := b\<rparr>, fb_boot := b, fb_rng := rng,
                fb_epoch := Counter 1, fb_coordinator_incarnation := Counter 1\<rparr>
      in case fb_journal f of
           None \<Rightarrow>
             (success, [],
              note_recovery ''no journal configured: fabric starts empty and is not durable''
                (f\<lparr>fb_recovery := (fb_recovery f)\<lparr>rp_status := success\<rparr>, fb_healthy := True\<rparr>))
         | Some j \<Rightarrow>
             (case jo_open J j of
                (open_status, j) \<Rightarrow>
                  (let f = f\<lparr>fb_journal := Some j, fb_recovery := (jo_recovery J j)\<lparr>rp_current_boot := b\<rparr>\<rparr>
                   in if \<not> ok open_status
                      then (open_status, [],
                            note_recovery ''durable state could not be loaded; fabric refuses to serve''
                              (f\<lparr>fb_healthy := False, fb_recovery := (fb_recovery f)\<lparr>rp_status := open_status\<rparr>\<rparr>))
                      else recover_restore J j f)))"

definition recover :: "'j journal_ops \<Rightarrow> 'j fabric \<Rightarrow> status \<times> 'j fabric" where
  "recover J f = (case recover_locked J f of (st, events, f) \<Rightarrow> (st, emit_events events f))"

section \<open>The freshness sweep\<close>

definition refresh_queue_locked :: "fabric_config \<Rightarrow> nanos \<Rightarrow> queue_record \<Rightarrow> queue_record \<times> bool" where
  "refresh_queue_locked config now q =
     (let fresh = classify_freshness (qr_occupancy q) now (occupancy_policy_for config q) (qd_generation (qr_def q));
          occ = (qr_occupancy q)\<lparr>oc_age := occupancy_age now (oc_observed_at (qr_occupancy q))\<rparr>;
          q = q\<lparr>qr_occupancy := occ\<rparr>
      in if fresh \<noteq> oc_freshness occ
         then (let q = q\<lparr>qr_occupancy := occ\<lparr>oc_freshness := fresh\<rparr>\<rparr>
               in if fresh \<noteq> Fr_fresh \<and> fresh \<noteq> Fr_unknown
                  then (q\<lparr>qr_staleness_events := qr_staleness_events q + 1\<rparr>, True) else (q, False))
         else (q, False))"

definition refresh_freshness :: "'j fabric \<Rightarrow> status \<times> 'j fabric" where
  "refresh_freshness f =
     (if fb_shutting_down f then (Status Code_shutting_down ''fabric is shutting down'', f)
      else (let (now, f) = monotonic_now f;
                counted = length (filter (\<lambda>e. snd (refresh_queue_locked (fb_config f) now (snd e))) (fb_queues f))
            in (success,
                f\<lparr>fb_queues := um_map (\<lambda>q. fst (refresh_queue_locked (fb_config f) now q)) (fb_queues f),
                  fb_stats := (fb_stats f)\<lparr>sx_staleness_events := sx_staleness_events (fb_stats f) + of_nat counted\<rparr>\<rparr>)))"

section \<open>Snapshot and compaction\<close>

definition build_snapshot_locked :: "'j fabric \<Rightarrow> journal_record list" where
  "build_snapshot_locked f =
     \<lparr>jr_type = Jr_epoch_state, jr_payload = encode_epoch_state (epoch_state_of (fb_epoch f) f)\<rparr>
     # map (\<lambda>i. \<lparr>jr_type = Jr_resource_state, jr_payload = encode_resource_state (the (um_find (fb_resources f) i))\<rparr>)
           (sort (map fst (fb_resources f)))
     @ map (\<lambda>i. \<lparr>jr_type = Jr_queue_state, jr_payload = encode_queue_state (the (um_find (fb_queues f) i))\<rparr>)
           (sort (map fst (fb_queues f)))"

definition compact :: "'j journal_ops \<Rightarrow> 'j fabric \<Rightarrow> status \<times> 'j fabric" where
  "compact J f =
     (case fb_journal f of
        None \<Rightarrow> (Status Code_unsupported ''no journal configured'', f)
      | Some j \<Rightarrow>
          (if fb_shutting_down f then (Status Code_shutting_down ''fabric is shutting down'', f)
           else if fb_plans f \<noteq> []
           then (Status Code_busy ''compaction refused while backend attempts are reserved'', f)
           else (let records = build_snapshot_locked f
                 in case jo_rewrite J records j of
                      (st, j) \<Rightarrow>
                        if \<not> ok st then (st, f\<lparr>fb_journal := Some j\<rparr>)
                        else (success, f\<lparr>fb_journal := Some j,
                                fb_stats := (fb_stats f)\<lparr>sx_journal_records :=
                                  sx_journal_records (fb_stats f) + of_nat (length records)\<rparr>\<rparr>))))"

section \<open>The snapshot restores what it wrote\<close>

lemma um_find_fold_put:
  "um_find (fold (\<lambda>i m. um_put i (h i) m) ks m) k = (if k \<in> set ks then Some (h k) else um_find m k)"
  by (induction ks arbitrary: m) auto

definition unbound_authority :: "resource_record \<Rightarrow> resource_record" where
  "unbound_authority x = x\<lparr>rr_authority := (rr_authority x)\<lparr>av_resource := Ident 0\<rparr>\<rparr>"

definition forget_last :: "queue_record \<Rightarrow> queue_record" where
  "forget_last q = q\<lparr>qr_last_status := success, qr_last_rule := ''unset''\<rparr>"

lemma restore_resource_records:
  assumes "\<forall>i\<in>set ks. rr_id (R i) = i \<and> rt_resource (R i)"
  shows "fold restore_record (map (\<lambda>i. \<lparr>jr_type = Jr_resource_state, jr_payload = encode_resource_state (R i)\<rparr>) ks) s =
    s\<lparr>rs_fabric := (rs_fabric s)\<lparr>fb_resources :=
        fold (\<lambda>i m. um_put i (unbound_authority (R i)) m) ks (fb_resources (rs_fabric s))\<rparr>\<rparr>"
  using assms
  by (induction ks arbitrary: s)
     (simp_all add: restore_record_def restore_resource_def decode_encode_resource_state unbound_authority_def)

definition snapshot_queue_report :: "queue_record \<Rightarrow> recovery_report \<Rightarrow> recovery_report" where
  "snapshot_queue_report q rep = rep\<lparr>rp_queues_restored := rp_queues_restored rep + 1,
     rp_queues_revalidated := rp_queues_revalidated rep + (if oc_present (qr_occupancy q) then 1 else 0)\<rparr>"

lemma restore_queue_records:
  assumes "\<forall>i\<in>set ks. qd_id (qr_def (Q i)) = i \<and> rt_queue (Q i)"
  shows "fold restore_record (map (\<lambda>i. \<lparr>jr_type = Jr_queue_state, jr_payload = encode_queue_state (Q i)\<rparr>) ks) s =
    s\<lparr>rs_fabric := (rs_fabric s)
        \<lparr>fb_recovery := fold (\<lambda>i. snapshot_queue_report (Q i)) ks (fb_recovery (rs_fabric s)),
         fb_queues := fold (\<lambda>i m. um_put i (restored_queue (forget_last (Q i))) m) ks (fb_queues (rs_fabric s))\<rparr>\<rparr>"
  using assms
proof (induction ks arbitrary: s)
  case (Cons i ks)
  then show ?case
    by (simp add: restore_record_def restore_queue_def decode_encode_queue_state forget_last_def snapshot_queue_report_def Let_def)
qed simp

lemma snapshot_report_corrupt:
  "rp_records_corrupt (fold (\<lambda>i. snapshot_queue_report (Q i)) ks rep) = rp_records_corrupt rep"
  by (induction ks arbitrary: rep) (simp_all add: snapshot_queue_report_def)

text \<open>The state a snapshot can describe: keys are identities and every record is within the codec's bounds.\<close>

definition snapshot_ok :: "'j fabric \<Rightarrow> bool" where
  "snapshot_ok f \<longleftrightarrow> (\<forall>e\<in>set (fb_resources f). rr_id (snd e) = fst e \<and> rt_resource (snd e))
     \<and> (\<forall>e\<in>set (fb_queues f). qd_id (qr_def (snd e)) = fst e \<and> rt_queue (snd e))"

lemma um_find_the: "i \<in> fst ` set m \<Longrightarrow> um_find m i = Some (the (um_find m i)) \<and> (i, the (um_find m i)) \<in> set m"
  using um_find_None_iff [of m i] um_find_SomeD [of m i] by (cases "um_find m i") auto

lemma restore_snapshot:
  assumes "snapshot_ok f"
  shows "restore_records (build_snapshot_locked f) s =
    s\<lparr>rs_epoch_state := Some (epoch_state_of (fb_epoch f) f),
      rs_previous_epoch := max (rs_previous_epoch s) (fb_epoch f),
      rs_fabric := (rs_fabric s)
        \<lparr>fb_resources := fold (\<lambda>i m. um_put i (unbound_authority (the (um_find (fb_resources f) i))) m)
           (sort (map fst (fb_resources f))) (fb_resources (rs_fabric s)),
         fb_recovery := fold (\<lambda>i. snapshot_queue_report (the (um_find (fb_queues f) i)))
           (sort (map fst (fb_queues f))) (fb_recovery (rs_fabric s)),
         fb_queues := fold (\<lambda>i m. um_put i (restored_queue (forget_last (the (um_find (fb_queues f) i)))) m)
           (sort (map fst (fb_queues f))) (fb_queues (rs_fabric s))\<rparr>\<rparr>"
proof -
  have r: "\<forall>i\<in>set (sort (map fst (fb_resources f))). rr_id (the (um_find (fb_resources f) i)) = i
      \<and> rt_resource (the (um_find (fb_resources f) i))"
    using assms um_find_the [of _ "fb_resources f"] unfolding snapshot_ok_def by force
  have q: "\<forall>i\<in>set (sort (map fst (fb_queues f))). qd_id (qr_def (the (um_find (fb_queues f) i))) = i
      \<and> rt_queue (the (um_find (fb_queues f) i))"
    using assms um_find_the [of _ "fb_queues f"] unfolding snapshot_ok_def by force
  have e: "restore_record \<lparr>jr_type = Jr_epoch_state, jr_payload = encode_epoch_state (epoch_state_of (fb_epoch f) f)\<rparr> s =
      s\<lparr>rs_epoch_state := Some (epoch_state_of (fb_epoch f) f), rs_previous_epoch := max (rs_previous_epoch s) (fb_epoch f)\<rparr>"
    by (simp add: restore_record_def restore_epoch_def decode_encode_epoch_state epoch_state_of_def max_def not_less)
  show ?thesis
    unfolding restore_records_def build_snapshot_locked_def
    by (simp only: fold_simps fold_append o_apply e restore_resource_records [OF r] restore_queue_records [OF q]) simp
qed

lemma restore_snapshot_find:
  assumes ok: "snapshot_ok f" and empty: "fb_resources (rs_fabric s) = []" "fb_queues (rs_fabric s) = []"
  defines "g \<equiv> rs_fabric (restore_records (build_snapshot_locked f) s)"
  shows "find_resource g i = map_option unbound_authority (find_resource f i)"
    "find_queue g j = map_option (\<lambda>q. restored_queue (forget_last q)) (find_queue f j)"
    "rp_records_corrupt (fb_recovery g) = rp_records_corrupt (fb_recovery (rs_fabric s))"
  using um_find_None_iff [of "fb_resources f" i] um_find_None_iff [of "fb_queues f" j]
    um_find_the [of i "fb_resources f"] um_find_the [of j "fb_queues f"]
  by (auto simp: g_def restore_snapshot [OF ok] find_resource_def find_queue_def um_find_fold_put empty snapshot_report_corrupt)

section \<open>The new epoch is above every recorded one\<close>

lemma restore_record_epoch:
  "rs_previous_epoch s \<le> rs_previous_epoch (restore_record rec s)"
  "jr_type rec = Jr_epoch_state \<Longrightarrow> decode_epoch_state (jr_payload rec) = Inr es \<Longrightarrow>
     es_epoch es \<le> rs_previous_epoch (restore_record rec s)"
  by (auto simp: restore_record_def restore_epoch_def restore_resource_def restore_queue_def restore_begin_def
      restore_commit_def note_corrupt_def Let_def split: journal_record_type.splits sum.splits)

lemma restore_records_epoch:
  "rs_previous_epoch s \<le> rs_previous_epoch (restore_records recs s)
   \<and> (\<forall>rec\<in>set recs. \<forall>es. jr_type rec = Jr_epoch_state \<and> decode_epoch_state (jr_payload rec) = Inr es \<longrightarrow>
         es_epoch es \<le> rs_previous_epoch (restore_records recs s))"
proof (induction recs arbitrary: s)
  case (Cons rec recs)
  show ?case
    using Cons [of "restore_record rec s"] restore_record_epoch [where s = s and rec = rec]
    by (auto simp: restore_records_def intro: order_trans)
qed (simp add: restore_records_def)

section \<open>What recovery leaves behind\<close>

text \<open>Every resource is under the epoch \<open>e\<close> and no backend incarnation is alive.\<close>

definition resources_settled :: "Epoch \<Rightarrow> (ResourceId, resource_record) umap \<Rightarrow> bool" where
  "resources_settled e rs \<longleftrightarrow> (\<forall>x\<in>set rs. rr_epoch (snd x) = e \<and> av_epoch (rr_authority (snd x)) = e
     \<and> (\<forall>b\<in>set (rr_backends (snd x)). \<not> bi_alive b))"

text \<open>No queue carries authoritative evidence and every queue is flagged stale.\<close>

definition evidence_settled :: "(QueueId, queue_record) umap \<Rightarrow> bool" where
  "evidence_settled qs \<longleftrightarrow> (\<forall>x\<in>set qs. \<not> occupancy_authoritative (qr_occupancy (snd x))
     \<and> has_flag (qr_applicability (snd x)) App_stale)"

lemma set_um_put: "set (um_put k v m) \<subseteq> insert (k, v) (set m)"
  by (induction m) auto

lemma set_um_map: "set (um_map h m) = (\<lambda>e. (fst e, h (snd e))) ` set m"
  by (simp add: um_map_def)

lemma resources_settled_put:
  assumes "resources_settled e rs" "um_find rs k = Some x"
  shows "resources_settled e (um_put k (x\<lparr>rr_queue_count := n\<rparr>) rs)"
  using assms set_um_put [of k "x\<lparr>rr_queue_count := n\<rparr>" rs] um_find_SomeD [OF assms(2)]
  unfolding resources_settled_def by fastforce

lemma apply_spec_settled:
  assumes "apply_spec f r out c" "resources_settled e (fb_resources f)"
  shows "resources_settled e (co_resources c) \<and> co_epoch c = fb_epoch f"
  using assms by cases (auto simp: core_def find_resource_def intro: resources_settled_put)

lemma replay_one_settled:
  assumes "fb_epoch f = e" "resources_settled e (fb_resources f)"
  shows "fb_epoch (replay_one J r f) = e \<and> resources_settled e (fb_resources (replay_one J r f))"
proof -
  obtain out evs g where g: "apply_locked J r (f\<lparr>fb_replaying := True\<rparr>) = (out, evs, g)"
    by (metis prod_cases3)
  have "resources_settled e (fb_resources g) \<and> fb_epoch g = e"
    using apply_spec_settled [OF apply_locked_refines [OF g], of e] assms by (simp add: core_def)
  then show ?thesis
    by (cases out) (simp_all add: replay_one_def apply_replay_locked_def g note_recovery_def)
qed

lemma fold_replay_settled:
  assumes "fb_epoch f = e" "resources_settled e (fb_resources f)"
  shows "fb_epoch (fold (replay_one J) rs f) = e \<and> resources_settled e (fb_resources (fold (replay_one J) rs f))"
  using assms by (induction rs arbitrary: f) (simp_all add: replay_one_settled)

lemma note_recovery_fields [simp]:
  "fb_queues (note_recovery t f) = fb_queues f" "fb_resources (note_recovery t f) = fb_resources f"
  "fb_epoch (note_recovery t f) = fb_epoch f" "fb_journal (note_recovery t f) = fb_journal f"
  "core (note_recovery t f) = core f"
  by (simp_all add: note_recovery_def core_def)

lemma invalidate_unfresh: "r \<noteq> Fr_fresh \<Longrightarrow> oc_freshness (invalidate_occupancy r s) \<noteq> Fr_fresh"
  by (simp add: invalidate_occupancy_def)

lemma revalidate_settled: "evidence_settled (fb_queues (revalidate_queues f))"
  by (auto simp: evidence_settled_def revalidate_queues_def set_um_map require_revalidation_def
      occupancy_authoritative_def invalidate_unfresh)

lemma orphaned_begin_settled:
  assumes "evidence_settled (fb_queues f)"
  shows "evidence_settled (fb_queues (orphaned_begin r f))"
  using assms set_um_put
  by (fastforce simp: evidence_settled_def orphaned_begin_def Let_def occupancy_authoritative_def invalidate_unfresh
      split: option.splits)

lemma fold_orphaned_settled:
  assumes "evidence_settled (fb_queues f)"
  shows "evidence_settled (fb_queues (fold (\<lambda>e. orphaned_begin (snd e)) es f))"
  using assms by (induction es arbitrary: f) (simp_all add: orphaned_begin_settled)

lemma orphaned_begin_frame [simp]:
  "fb_resources (orphaned_begin r f) = fb_resources f" "fb_epoch (orphaned_begin r f) = fb_epoch f"
  by (simp_all add: orphaned_begin_def Let_def split: option.splits)

lemma fold_orphaned_frame [simp]:
  "fb_resources (fold (\<lambda>e. orphaned_begin (snd e)) es f) = fb_resources f"
  "fb_epoch (fold (\<lambda>e. orphaned_begin (snd e)) es f) = fb_epoch f"
  by (induction es arbitrary: f) simp_all

lemma rebuild_frame [simp]:
  "fb_queues (rebuild_indexes_locked f) = fb_queues f" "fb_epoch (rebuild_indexes_locked f) = fb_epoch f"
  "fb_plans (rebuild_indexes_locked f) = fb_plans f"
  by (simp_all add: rebuild_indexes_locked_def Let_def)

lemma rebuild_settled: "resources_settled e (fb_resources f) \<Longrightarrow> resources_settled e (fb_resources (rebuild_indexes_locked f))"
  by (auto simp: resources_settled_def rebuild_indexes_locked_def Let_def set_um_map)

lemma recover_replay_settled:
  assumes "fb_epoch f = e" "resources_settled e (fb_resources f)"
  shows "fb_epoch (recover_replay J s f) = e \<and> resources_settled e (fb_resources (recover_replay J s f))
    \<and> evidence_settled (fb_queues (recover_replay J s f))"
proof -
  define g where "g = revalidate_queues (fold (replay_one J) (rs_replay_order s) f)"
  have g: "fb_epoch g = e" "resources_settled e (fb_resources g)" "evidence_settled (fb_queues g)"
    using fold_replay_settled [OF assms] revalidate_settled by (simp_all add: g_def) (simp_all add: revalidate_queues_def)
  show ?thesis
    using g fold_orphaned_settled [OF g(3)]
    by (simp add: recover_replay_def Let_def g_def [symmetric] rebuild_settled)
qed

lemma adopt_epoch_settled:
  assumes "\<forall>x\<in>set (fb_resources f). \<forall>b\<in>set (rr_backends (snd x)). \<not> bi_alive b"
  shows "fb_epoch (adopt_epoch e s f) = e \<and> resources_settled e (fb_resources (adopt_epoch e s f))"
  using assms
  by (auto simp: adopt_epoch_def resources_settled_def rebuild_indexes_locked_def Let_def set_um_map)

lemma disconnected: "x \<in> set (fb_resources (disconnect_backends f)) \<Longrightarrow> b \<in> set (rr_backends (snd x)) \<Longrightarrow> \<not> bi_alive b"
  by (auto simp: disconnect_backends_def Let_def set_um_map kill_backends_def)

lemma append_epoch_state_frame: "append_epoch_state_locked J f = (st, g) \<Longrightarrow> core g = core f"
  by (auto simp: append_epoch_state_locked_def Let_def core_def split: option.splits prod.splits if_splits)

lemma core_journal_fields [simp]:
  "core (f\<lparr>fb_journal := j\<rparr>) = core f" "core (f\<lparr>fb_recovery := rep\<rparr>) = core f"
  "core (f\<lparr>fb_healthy := h\<rparr>) = core f"
  by (simp_all add: core_def)

lemma recover_seal_frame:
  assumes "recover_seal J j f = (st, evs, g)"
  shows "core g = core f" "ok st \<longrightarrow> fb_healthy g"
proof -
  obtain h j1 where h: "jo_write_header J (fb_boot f) (fb_epoch f) j = (h, j1)"
    by (meson surj_pair)
  define f1 where "f1 = f\<lparr>fb_journal := Some j1\<rparr>"
  define f2 where "f2 = (if rp_records_truncated (fb_recovery f1) > 0
     then (case jo_truncate_to_valid_prefix J j1 of (truncated, j) \<Rightarrow>
             (let f = f1\<lparr>fb_journal := Some j\<rparr>
              in if \<not> ok truncated
                 then note_recovery ''torn tail could not be truncated; appends continue after the valid prefix'' f
                 else f))
     else f1)"
  have f2: "core f1 = core f" "core f2 = core f"
    by (auto simp: f2_def f1_def Let_def split: prod.splits)
  obtain es f3 where f3: "append_epoch_state_locked J f2 = (es, f3)"
    by (meson surj_pair)
  have f3': "core f3 = core f"
    using append_epoch_state_frame [OF f3] f2 by simp
  define f4 where "f4 = f3\<lparr>fb_recovery := (fb_recovery f3)\<lparr>rp_status := success\<rparr>, fb_healthy := True\<rparr>"
  have res: "(\<not> ok h \<and> st = h \<and> core g = core f1) \<or> (\<not> ok es \<and> st = es \<and> core g = core f3) \<or> g = snd (monotonic_now f4)"
    using assms unfolding recover_seal_def h prod.case Let_def f1_def [symmetric]
      f2_def [unfolded Let_def, symmetric] f3 f4_def
    by (auto simp: fail_recovery_def split: if_splits prod.splits)
  show "core g = core f"
    using res f2 f3' by (auto simp: f4_def)
  show "ok st \<longrightarrow> fb_healthy g"
    using res by (auto simp: f4_def monotonic_now_def Let_def)
qed

lemma recover_decompose:
  assumes "recover J f = (st, f')" "ok st" "fb_journal f = Some j"
  obtains f1 e h where "core f1 = (core f)\<lparr>co_epoch := Counter 1\<rparr>"
    and "(let p = rs_previous_epoch (restore_records (jo_records J (snd (jo_open J j))) (start_restore f1))
          in if ctr_valid p then ctr_next p else Inr (Counter 1)) = Inr e"
    and "h = (let s = restore_records (jo_records J (snd (jo_open J j))) (start_restore f1)
              in recover_replay J s (adopt_epoch e s (disconnect_backends (rs_fabric s))))"
    and "core f' = core h" "fb_healthy f'"
proof -
  obtain b rng where b: "boot_generate (fb_rng f) = (b, rng)"
    by (meson surj_pair)
  obtain os j' where j': "jo_open J j = (os, j')"
    by (meson surj_pair)
  define f1 where "f1 = f\<lparr>fb_boot := b, fb_rng := rng, fb_epoch := Counter 1, fb_coordinator_incarnation := Counter 1,
      fb_journal := Some j', fb_recovery := (jo_recovery J j')\<lparr>rp_current_boot := b\<rparr>\<rparr>"
  define s where "s = restore_records (jo_records J j') (start_restore f1)"
  obtain evs g where g: "recover_restore J j' f1 = (st, evs, g)" "f' = emit_events evs g"
    using assms b j' by (auto simp: recover_def recover_locked_def Let_def f1_def split: prod.splits if_splits)
  obtain e where e: "(if ctr_valid (rs_previous_epoch s) then ctr_next (rs_previous_epoch s) else Inr (Counter 1)) = Inr e"
    using g(1) assms(2) ctr_next_refused [of "rs_previous_epoch s"]
    by (auto simp: recover_restore_def s_def [symmetric] Let_def fail_recovery_def split: sum.splits if_splits)
  define h where "h = recover_replay J s (adopt_epoch e s (disconnect_backends (rs_fabric s)))"
  have seal: "recover_seal J (the (fb_journal h)) h = (st, evs, g)"
    using g(1) e by (simp add: recover_restore_def s_def [symmetric] Let_def h_def)
  show ?thesis
  proof (rule that [of f1 e h])
    show "core f1 = (core f)\<lparr>co_epoch := Counter 1\<rparr>"
      by (simp add: f1_def core_def)
    show "core f' = core h" "fb_healthy f'"
      using recover_seal_frame [OF seal] g(2) assms(2) by (auto simp: emit_events_def core_def)
  qed (use e j' in \<open>simp_all add: s_def [symmetric] h_def Let_def\<close>)
qed

theorem recover_ok:
  assumes "recover J f = (st, f')" "ok st" "fb_journal f = Some j"
  shows "resources_settled (fb_epoch f') (fb_resources f') \<and> evidence_settled (fb_queues f') \<and> fb_healthy f'
    \<and> (\<forall>rec\<in>set (jo_records J (snd (jo_open J j))). \<forall>es.
          jr_type rec = Jr_epoch_state \<and> decode_epoch_state (jr_payload rec) = Inr es \<longrightarrow> es_epoch es < fb_epoch f')"
proof -
  define recs where "recs = jo_records J (snd (jo_open J j))"
  obtain f1 :: "'a fabric" and e h where d: "core f' = core h" "fb_healthy f'"
      "(let p = rs_previous_epoch (restore_records recs (start_restore f1))
        in if ctr_valid p then ctr_next p else Inr (Counter 1)) = Inr e"
      "h = (let s = restore_records recs (start_restore f1)
            in recover_replay J s (adopt_epoch e s (disconnect_backends (rs_fabric s))))"
    using recover_decompose [OF assms] unfolding recs_def by metis
  define s where "s = restore_records recs (start_restore f1)"
  have h: "fb_epoch h = e \<and> resources_settled e (fb_resources h) \<and> evidence_settled (fb_queues h)"
    unfolding d(4) s_def [symmetric] Let_def
    using adopt_epoch_settled [of "disconnect_backends (rs_fabric s)"] disconnected
    by (intro recover_replay_settled) blast+
  have lt: "rs_previous_epoch s < e"
    using d(3) ctr_next_Inr [of "rs_previous_epoch s" e]
    by (auto simp: s_def [symmetric] Let_def ctr_valid_def counter_order split: if_splits)
  have "es_epoch es < e" if "rec \<in> set recs" "jr_type rec = Jr_epoch_state"
      "decode_epoch_state (jr_payload rec) = Inr es" for rec es
    using restore_records_epoch [of "start_restore f1" recs] that lt
    unfolding s_def [symmetric] by (meson le_less_trans)
  then show ?thesis
    using h d(2) coreD [OF d(1)] unfolding recs_def by auto
qed

section \<open>The rebuilt indexes\<close>

lemma max_of_ge: "x \<in> set xs \<Longrightarrow> x \<le> max_of xs"
proof -
  have "fold max xs a = Max (set (a # xs))" for a :: u64
    by (simp add: Max.set_eq_fold [symmetric])
  then show "x \<in> set xs \<Longrightarrow> x \<le> max_of xs"
    unfolding max_of_def by (metis List.finite_set Max_ge list.set_intros(2))
qed

text \<open>Identities handed out after a rebuild are new, unless the counter has reached its last value.\<close>

lemma rebuild_next_queue:
  assumes "e \<in> set (fb_queues f)" "fb_next_queue_id (rebuild_indexes_locked f) \<noteq> 0"
  shows "id_value (qd_id (qr_def (snd e))) < fb_next_queue_id (rebuild_indexes_locked f)"
proof -
  define m where "m = max_of (map (\<lambda>q. id_value (qd_id (qr_def q))) (map snd (fb_queues f)))"
  have n: "fb_next_queue_id (rebuild_indexes_locked f) = m + 1"
    by (simp add: rebuild_indexes_locked_def Let_def m_def)
  have "id_value (qd_id (qr_def (snd e))) \<le> m"
    unfolding m_def using assms(1) by (intro max_of_ge) force
  moreover have "m < m + 1"
    using assms(2) n by (intro word_succ_gt) auto
  ultimately show ?thesis
    using n by simp
qed

lemma rebuild_fence_tokens:
  "e \<in> set (fb_queues f) \<Longrightarrow> fs_token (qr_fence (snd e)) \<le> fb_fence_tokens (rebuild_indexes_locked f)"
  by (simp add: rebuild_indexes_locked_def Let_def max_of_ge)

text \<open>The name index resolves every queue whose name is unique within its resource.\<close>

lemma fold_names_find:
  assumes "distinct (map (\<lambda>q. name_key (qd_resource (qr_def q)) (qd_name (qr_def q))) qs)" "q \<in> set qs"
  shows "um_find (fold (\<lambda>q m. um_put (name_key (qd_resource (qr_def q)) (qd_name (qr_def q))) (qd_id (qr_def q)) m) qs m)
    (name_key (qd_resource (qr_def q)) (qd_name (qr_def q))) = Some (qd_id (qr_def q))"
  using assms
proof (induction qs arbitrary: m)
  case (Cons a qs)
  let ?key = "\<lambda>q. name_key (qd_resource (qr_def q)) (qd_name (qr_def q))"
  have other: "um_find (fold (\<lambda>q m. um_put (?key q) (qd_id (qr_def q)) m) qs m') k = um_find m' k"
    if "k \<notin> ?key ` set qs" for m' k
    using that by (induction qs arbitrary: m') auto
  show ?case
  proof (cases "q \<in> set qs")
    case True
    then show ?thesis
      using Cons by simp
  next
    case False
    then show ?thesis
      using Cons.prems other [of "?key a"] by auto
  qed
qed simp

lemma rebuild_names:
  assumes "distinct (map (\<lambda>e. name_key (qd_resource (qr_def (snd e))) (qd_name (qr_def (snd e)))) (fb_queues f))"
    and "e \<in> set (fb_queues f)"
  shows "find_queue_by_name (rebuild_indexes_locked f) (qd_resource (qr_def (snd e))) (qd_name (qr_def (snd e)))
     = Inr (qd_id (qr_def (snd e)))"
  using fold_names_find [of "map snd (fb_queues f)" "snd e" um_empty] assms
  by (simp add: find_queue_by_name_def rebuild_indexes_locked_def Let_def comp_def)

section \<open>The freshness sweep\<close>

lemma refresh_queue_freshness:
  "oc_freshness (qr_occupancy (fst (refresh_queue_locked config now q))) =
     classify_freshness (qr_occupancy q) now (occupancy_policy_for config q) (qd_generation (qr_def q))"
  by (simp add: refresh_queue_locked_def Let_def)

lemma refresh_queue_frame [simp]:
  "qr_def (fst (refresh_queue_locked config now q)) = qr_def q"
  "qr_lifecycle (fst (refresh_queue_locked config now q)) = qr_lifecycle q"
  "qr_applicability (fst (refresh_queue_locked config now q)) = qr_applicability q"
  "qr_fence (fst (refresh_queue_locked config now q)) = qr_fence q"
  "qr_drain (fst (refresh_queue_locked config now q)) = qr_drain q"
  "qr_applied (fst (refresh_queue_locked config now q)) = qr_applied q"
  "qr_memo (fst (refresh_queue_locked config now q)) = qr_memo q"
  "qr_overflow_events (fst (refresh_queue_locked config now q)) = qr_overflow_events q"
  "oc_present (qr_occupancy (fst (refresh_queue_locked config now q))) = oc_present (qr_occupancy q)"
  "oc_bytes (qr_occupancy (fst (refresh_queue_locked config now q))) = oc_bytes (qr_occupancy q)"
  "oc_packets (qr_occupancy (fst (refresh_queue_locked config now q))) = oc_packets (qr_occupancy q)"
  "oc_queue_generation (qr_occupancy (fst (refresh_queue_locked config now q))) = oc_queue_generation (qr_occupancy q)"
  by (simp_all add: refresh_queue_locked_def Let_def)

lemma refresh_freshness_ok:
  assumes "refresh_freshness f = (st, f')" "\<not> fb_shutting_down f"
  shows "\<exists>now. fb_clock_watermark f \<le> now \<and> st = success
    \<and> core f' = (core f)\<lparr>co_queues := um_map (\<lambda>q. fst (refresh_queue_locked (fb_config f) now q)) (fb_queues f)\<rparr>"
proof -
  obtain now g where now: "monotonic_now f = (now, g)"
    by (meson surj_pair)
  have g: "core g = core f"
    using core_monotonic_now [of f] now by simp
  show ?thesis
    using assms now monotonic_now_watermark(1) [of f] coreD [OF g] g
    by (intro exI [of _ now]) (auto simp: refresh_freshness_def core_def)
qed

lemma compact_cases:
  assumes "compact J f = (st, f')"
  shows "core f' = core f \<and> (ok st \<longrightarrow> fb_plans f = [] \<and> (\<exists>j j' st'. fb_journal f = Some j
     \<and> jo_rewrite J (build_snapshot_locked f) j = (st', j') \<and> ok st' \<and> fb_journal f' = Some j'))"
  using assms by (auto simp: compact_def Let_def core_def split: option.splits if_splits prod.splits)

end
