(* ===== verification/QF_Invariants.thy ===== *)
theory QF_Invariants
  imports QF_Recovery
begin

text \<open>
  \<^verbatim>\<open>src/fabric_invariants.cpp\<close>: the self-audit of the fabric, and the invariant that every public
  operation preserves. The reachable states are an inductive relation over all the operations.
\<close>

section \<open>The self-audit\<close>

definition violation :: "bool \<Rightarrow> string \<Rightarrow> string list" where
  "violation c msg = (if c then [msg] else [])"

definition queue_tag_of :: "queue_record \<Rightarrow> string" where
  "queue_tag_of q = ''queue '' @ id_to_string (qd_id (qr_def q))"

definition identity_violations :: "QueueId \<Rightarrow> queue_record \<Rightarrow> string list" where
  "identity_violations k q =
     (let tag = queue_tag_of q; d = qr_def q
      in violation (qd_id d \<noteq> k) (''INV-IDENTITY: queue record key does not match the queue identity: '' @ tag)
       @ violation (qd_name d = [] \<or> length (qd_name d) > kMaxNameChars)
           (''INV-IDENTITY: queue name is empty or over the configured bound: '' @ tag)
       @ violation (\<not> ctr_valid (qd_generation d)) (''INV-IDENTITY: queue generation is not valid: '' @ tag)
       @ violation (\<not> cb_valid (qd_cls d)) (''INV-BINDING: class binding is not valid: '' @ tag))"

definition binding_violations :: "resource_record \<Rightarrow> queue_record \<Rightarrow> string list" where
  "binding_violations resource q =
     (let tag = queue_tag_of q; d = qr_def q
      in (case rr_find_class resource (cb_id (qd_cls d)) of
            None \<Rightarrow> [''INV-BINDING: queue references an unknown scheduling class: '' @ tag]
          | Some cls \<Rightarrow> violation (sc_generation cls \<noteq> cb_generation (qd_cls d))
                         (''INV-BINDING: class binding generation is not current: '' @ tag))
       @ (case rr_find_pool resource (pr_id (qd_pool d)) of
            None \<Rightarrow> [''INV-BINDING: queue references an unknown buffer pool: '' @ tag]
          | Some pool \<Rightarrow> violation (bp_generation pool \<noteq> pr_generation (qd_pool d))
                          (''INV-BINDING: pool reference generation is not current: '' @ tag))
       @ violation (\<not> th_consistent (qd_thresholds d)) (''INV-THRESHOLD: threshold ladder is inconsistent: '' @ tag))"

definition bound_violations :: "fabric_config \<Rightarrow> queue_record \<Rightarrow> string list" where
  "bound_violations config q =
     (let tag = queue_tag_of q; d = qr_def q
      in violation (length (qr_memo q) > fl_max_attempt_memo (fc_limits config))
           (''INV-BOUND: attempt memo exceeds the configured bound: '' @ tag)
       @ violation (id_valid (qd_id d) \<and> ctr_valid (qd_generation d) \<and> ctr_value (qd_generation d) = 0)
           (''INV-GENERATION: queue generation is zero: '' @ tag))"

definition evidence_violations :: "queue_record \<Rightarrow> string list" where
  "evidence_violations q =
     (let tag = queue_tag_of q; d = qr_def q; occ = qr_occupancy q
      in violation (oc_present occ \<and> oc_freshness occ = Fr_fresh \<and> oc_queue_generation occ = qd_generation d
             \<and> th_max_occupancy_bytes (qd_thresholds d) \<noteq> 0
             \<and> oc_bytes occ > th_max_occupancy_bytes (qd_thresholds d) \<and> qr_overflow_events q = 0)
           (''INV-OVERFLOW: occupancy above the configured maximum was not reported: '' @ tag)
       @ violation (qr_lifecycle q = Lc_quiesced \<and> (oc_bytes occ \<noteq> 0 \<or> oc_packets occ \<noteq> 0))
           (''INV-DRAIN: quiesced queue holds non-zero occupancy: '' @ tag)
       @ violation (qr_lifecycle q = Lc_quiesced \<and> dr_phase (qr_drain q) \<noteq> Dp_completed)
           (''INV-DRAIN: quiesced queue has no completed drain phase: '' @ tag)
       @ violation (qr_lifecycle q = Lc_retired \<and> oc_present occ)
           (''INV-RETIRE: retired queue still carries occupancy state: '' @ tag)
       @ violation (dr_phase (qr_drain q) = Dp_completed \<and> qr_lifecycle q \<noteq> Lc_quiesced)
           (''INV-DRAIN: completed drain without quiescence: '' @ tag)
       @ violation (qr_lifecycle q = Lc_active \<and> dr_phase (qr_drain q) = Dp_completed)
           (''INV-DRAIN: active queue reports a completed drain: '' @ tag)
       @ violation (fs_fenced (qr_fence q) \<noteq> has_flag (qr_applicability q) App_fenced)
           (''INV-FENCE: fence state and applicability flag disagree: '' @ tag)
       @ violation (is_terminal (qr_lifecycle q) \<and> accepts_fresh_mutation q)
           (''INV-LIFECYCLE: retired queue accepts fresh mutation: '' @ tag)
       @ violation (ba_known (qr_applied q) \<and> ba_queue_generation (qr_applied q) \<noteq> qd_generation d
             \<and> ba_queue_generation (qr_applied q) > qd_generation d)
           (''INV-BACKEND: acknowledgement names a future queue generation: '' @ tag)
       @ violation (ctr_valid (oc_queue_generation occ) \<and> oc_present occ
             \<and> oc_queue_generation occ \<noteq> qd_generation d \<and> oc_freshness occ = Fr_fresh)
           (''INV-STALE: occupancy from another generation is marked fresh: '' @ tag))"

text \<open>The local maps of the loop over the queues; \<open>bump\<close> is \<^verbatim>\<open>++m[k]\<close>.\<close>

record audit =
  au_violations :: "string list"
  au_per_resource :: "(ResourceId, nat) umap"
  au_names :: "(string, nat) umap"

definition counted :: "('k, nat) umap \<Rightarrow> 'k \<Rightarrow> nat" where
  "counted m k = (case um_find m k of None \<Rightarrow> 0 | Some n \<Rightarrow> n)"

definition bump :: "'k \<Rightarrow> ('k, nat) umap \<Rightarrow> ('k, nat) umap" where
  "bump k m = um_put k (counted m k + 1) m"

definition audit_queue :: "'j fabric \<Rightarrow> QueueId \<times> queue_record \<Rightarrow> audit \<Rightarrow> audit" where
  "audit_queue f e a =
     (let q = snd e; d = qr_def q; tag = queue_tag_of q; key = name_key (qd_resource d) (qd_name d)
      in case find_resource f (qd_resource d) of
           None \<Rightarrow> a\<lparr>au_violations := au_violations a @ identity_violations (fst e) q
                      @ [''INV-TOPOLOGY: queue references an unknown resource: '' @ tag]\<rparr>
         | Some resource \<Rightarrow>
             \<lparr>au_violations = au_violations a @ identity_violations (fst e) q @ binding_violations resource q
                @ violation (counted (bump key (au_names a)) key > 1)
                    (''INV-IDENTITY: queue name is not unique within its resource: '' @ tag)
                @ violation (um_find (fb_queue_names f) key \<noteq> Some (qd_id d))
                    (''INV-IDENTITY: name index does not resolve to this queue: '' @ tag)
                @ bound_violations (fb_config f) q @ evidence_violations q,
              au_per_resource = bump (qd_resource d) (au_per_resource a),
              au_names = bump key (au_names a)\<rparr>)"

definition resource_violations :: "fabric_limits \<Rightarrow> (ResourceId, nat) umap \<Rightarrow> ResourceId \<times> resource_record \<Rightarrow> string list" where
  "resource_violations lim per_resource e =
     (let x = snd e
      in violation (fst e \<noteq> rr_id x) ''INV-IDENTITY: resource key does not match the resource identity''
       @ violation (length (av_grants (rr_authority x)) > fl_max_grants_per_resource lim)
           ''INV-BOUND: capability grants exceed the configured bound''
       @ violation (length (rr_classes x) > fl_max_classes_per_resource lim)
           ''INV-BOUND: class count exceeds the configured bound''
       @ violation (length (rr_pools x) > fl_max_pools_per_resource lim)
           ''INV-BOUND: pool count exceeds the configured bound''
       @ violation (rr_queue_count x \<noteq> counted per_resource (rr_id x))
           ''INV-TOPOLOGY: resource queue count does not match live queues'')"

definition plan_violations :: "'j fabric \<Rightarrow> backend_plan \<Rightarrow> string list" where
  "plan_violations f p =
     (case find_queue f (bpl_queue p) of
        None \<Rightarrow> [''INV-PLAN: a backend reservation names an unknown queue'']
      | Some q \<Rightarrow> violation (qd_generation (qr_def q) \<noteq> bpl_expected_generation p)
                   ''INV-PLAN: a backend reservation is bound to a superseded generation'')"

definition capacity_violations :: "'j fabric \<Rightarrow> string list" where
  "capacity_violations f =
     (let lim = fc_limits (fb_config f)
      in violation (length (fb_queues f) > fl_max_queues_total lim)
           ''INV-CAPACITY: queue count exceeds the configured maximum''
       @ violation (length (fb_resources f) > fl_max_resources lim)
           ''INV-CAPACITY: resource count exceeds the configured maximum''
       @ violation (length (fb_pending f) > fl_max_pending_attempts lim)
           ''INV-CAPACITY: pending attempts exceed the configured maximum'')"

definition validate_invariants :: "'j fabric \<Rightarrow> string list" where
  "validate_invariants f =
     (let a = fold (audit_queue f) (fb_queues f)
                \<lparr>au_violations = capacity_violations f, au_per_resource = um_empty, au_names = um_empty\<rparr>
      in au_violations a
         @ concat (map (resource_violations (fc_limits (fb_config f)) (au_per_resource a)) (fb_resources f))
         @ concat (map (\<lambda>e. plan_violations f (snd e)) (fb_plans f)))"

section \<open>The invariant of a queue\<close>

definition queue_inv :: "fabric_config \<Rightarrow> queue_record \<Rightarrow> bool" where
  "queue_inv config q \<longleftrightarrow>
     name_in_range (qd_name (qr_def q)) \<and> ctr_valid (qd_generation (qr_def q)) \<and> cb_valid (qd_cls (qr_def q))
     \<and> th_consistent (qd_thresholds (qr_def q))
     \<and> length (qr_memo q) \<le> fl_max_attempt_memo (fc_limits config) \<and> memo_wf (qr_memo q)
     \<and> fs_fenced (qr_fence q) = has_flag (qr_applicability q) App_fenced
     \<and> (qr_lifecycle q = Lc_retired \<longrightarrow> \<not> oc_present (qr_occupancy q))
     \<and> (qr_lifecycle q = Lc_quiesced \<longrightarrow> dr_phase (qr_drain q) = Dp_completed)
     \<and> (qr_lifecycle q = Lc_draining \<longrightarrow> in_progress (qr_drain q))
     \<and> (ba_known (qr_applied q) \<longrightarrow> ba_queue_generation (qr_applied q) = qd_generation (qr_def q))
     \<and> (op_require_generation_match (fc_occupancy config) \<and> occupancy_authoritative (qr_occupancy q) \<longrightarrow>
          oc_queue_generation (qr_occupancy q) = qd_generation (qr_def q))"

lemma queue_inv_view: 
  "qr_view q' = qr_view q \<Longrightarrow> length (qr_memo q') \<le> fl_max_attempt_memo (fc_limits c) \<Longrightarrow> memo_wf (qr_memo q') \<Longrightarrow>
   queue_inv c q \<Longrightarrow> queue_inv c q'"
  using qr_viewD [of q' q] by (simp add: queue_inv_def)

text \<open>A queue keeps its identity, resource, name and pool; its class identity is kept or rebound.\<close>

definition same_place :: "queue_definition \<Rightarrow> queue_definition \<Rightarrow> bool" where
  "same_place d d' \<longleftrightarrow> qd_id d' = qd_id d \<and> qd_resource d' = qd_resource d \<and> qd_name d' = qd_name d \<and> qd_pool d' = qd_pool d"

definition validated_or_ack :: "mutation_request \<Rightarrow> bool" where
  "validated_or_ack r \<longleftrightarrow> ok (mr_validate r) \<or> mr_kind r = Mk_acknowledge_backend"

lemma admitted_lifecycle:
  assumes "admitted f q r"
  shows "qr_lifecycle q = Lc_retired \<Longrightarrow> required_capability (mr_kind r) = Cap_retire_queue \<or> required_capability (mr_kind r) = Cap_admin"
    and "has_flag (qr_applicability q) App_fenced \<Longrightarrow>
       required_capability (mr_kind r) = Cap_unfence_queue \<or> required_capability (mr_kind r) = Cap_admin"
  using assms by (auto simp: admitted_def authorize_allowed_iff split: option.splits)

lemma check_class_binding_ok:
  "ok (check_class_binding f t cls) \<Longrightarrow> \<exists>x. find_resource f (qd_resource (qr_def t)) = Some x \<and> rr_find_class x (cb_id cls) \<noteq> None"
  by (auto simp: check_class_binding_def split: option.splits)

lemma ingest_refusal_None: "ingest_refusal t r s now f = None \<Longrightarrow> os_queue_generation s = qd_generation (qr_def t)"
  by (auto simp: ingest_refusal_def Let_def split: if_splits)

lemma in_progress_phase: "in_progress d \<Longrightarrow> dr_phase d \<noteq> Dp_completed"
  by (auto simp: in_progress_def)

lemma ingest_drain_phase [simp]: "dr_phase (ingest_drain s d) = dr_phase d"
  by (simp add: ingest_drain_def)

lemma in_progress_cong: "dr_phase d' = dr_phase d \<Longrightarrow> in_progress d' = in_progress d"
  by (simp add: in_progress_def)

lemma rebind_valid:
  "validated_or_ack r \<Longrightarrow> mr_kind r = Mk_rebind_class \<Longrightarrow> mr_payload r = Pl_rebind_class cls \<Longrightarrow> cb_valid cls"
  by (auto simp: validated_or_ack_def mr_validate_ok validate_payload_def split: if_splits)

lemma with_definition_inv:
  assumes "queue_inv c q" "qd_name d = qd_name (qr_def q)" "ctr_valid (qd_generation d)" "cb_valid (qd_cls d)"
    "th_consistent (qd_thresholds d)"
  shows "queue_inv c (with_definition d q)"
  using assms invalidated_not_authoritative [of Fr_stale_generation "qr_occupancy q"]
  by (simp add: queue_inv_def with_definition_def)

lemma redefinition_parts:
  assumes "redefinition f r q d" "validated_or_ack r" "queue_inv (fb_config f) q"
  shows "qd_name d = qd_name (qr_def q)" "cb_valid (qd_cls d)" "th_consistent (qd_thresholds d)" "same_place (qr_def q) d"
    and "qd_cls d = qd_cls (qr_def q)
       \<or> (\<exists>x. find_resource f (qd_resource (qr_def q)) = Some x \<and> rr_find_class x (cb_id (qd_cls d)) \<noteq> None)"
proof -
  have q: "cb_valid (qd_cls (qr_def q))" "th_consistent (qd_thresholds (qr_def q))"
    using assms(3) by (simp_all add: queue_inv_def)
  consider (cls) cls where "d = (qr_def q)\<lparr>qd_cls := cls\<rparr>" "ok (check_class_binding f q cls)" "cb_valid cls"
    | (th) th where "d = (qr_def q)\<lparr>qd_thresholds := th\<rparr>" "th_consistent th"
    | (own) own where "d = (qr_def q)\<lparr>qd_owner := own\<rparr>"
    using assms(1) rebind_valid [OF assms(2)] unfolding redefinition_def by blast
  note cases = this
  show "qd_name d = qd_name (qr_def q)"
    by (rule cases) simp_all
  show "th_consistent (qd_thresholds d)"
    by (rule cases) (simp_all add: q)
  show "same_place (qr_def q) d"
    by (rule cases) (simp_all add: same_place_def)
  show "cb_valid (qd_cls d)"
    by (rule cases) (simp_all add: q)
  show "qd_cls d = qd_cls (qr_def q)
       \<or> (\<exists>x. find_resource f (qd_resource (qr_def q)) = Some x \<and> rr_find_class x (cb_id (qd_cls d)) \<noteq> None)"
  proof (rule cases)
    fix cls assume "d = (qr_def q)\<lparr>qd_cls := cls\<rparr>" "ok (check_class_binding f q cls)"
    then show ?thesis
      using check_class_binding_ok [of f q cls] by simp
  qed simp_all
qed

text \<open>A step of a queue keeps its invariant and its place.\<close>

lemma queue_step_inv:
  assumes "queue_step f r now q t" "admitted f q r" "validated_or_ack r" "queue_inv (fb_config f) q"
  shows "queue_inv (fb_config f) t \<and> same_place (qr_def q) (qr_def t)
    \<and> (qd_cls (qr_def t) = qd_cls (qr_def q)
       \<or> (\<exists>x. find_resource f (qd_resource (qr_def q)) = Some x \<and> rr_find_class x (cb_id (qd_cls (qr_def t))) \<noteq> None))"
  using assms(1)
proof cases
  case (redefined d g)
  note parts = redefinition_parts [OF redefined(3) assms(3,4)]
  have "queue_inv (fb_config f) t"
    unfolding redefined(1) using parts ctr_next_Inr [OF redefined(4)] by (intro with_definition_inv [OF assms(4)]) simp_all
  then show ?thesis
    using parts(4,5) by (simp add: redefined(1) with_definition_def same_place_def)
next
  case (ingested s n)
  then show ?thesis
    using assms(4) admitted_lifecycle(1) [OF assms(2)] ingest_refusal_None [of q r s now f]
      in_progress_cong [OF ingest_drain_phase, of s "qr_drain q"]
    by (auto simp: ingest_record_def queue_inv_def same_place_def)
next
  case retired
  then show ?thesis
    using assms(4) admitted_lifecycle(2) [OF assms(2)]
    by (auto simp: queue_inv_def same_place_def no_occupancy_def occupancy_authoritative_def)
next
  case (acknowledged a live)
  then show ?thesis
    using assms(4) by (auto simp: queue_inv_def same_place_def verify_backend_iff)
next
  case (evidence_recorded e)
  then show ?thesis
    using assms(4) by (auto simp: queue_inv_def same_place_def in_progress_def)
qed (use assms(4) in \<open>simp_all add: queue_inv_def same_place_def in_progress_def\<close>)

section \<open>The invariant of the fabric\<close>

definition count_in :: "(QueueId, queue_record) umap \<Rightarrow> ResourceId \<Rightarrow> nat" where
  "count_in qs i = length (filter (\<lambda>e. qd_resource (qr_def (snd e)) = i) qs)"

text \<open>The resource of a queue is declared, with its class and its pool.\<close>

definition placed :: "(ResourceId, resource_record) umap \<Rightarrow> queue_definition \<Rightarrow> bool" where
  "placed rs d \<longleftrightarrow> (\<exists>x. um_find rs (qd_resource d) = Some x \<and> cb_id (qd_cls d) \<in> set (map sc_id (rr_classes x))
     \<and> pr_id (qd_pool d) \<in> set (map bp_id (rr_pools x)))"

definition entry_wf :: "core_state \<Rightarrow> QueueId \<times> queue_record \<Rightarrow> bool" where
  "entry_wf c e \<longleftrightarrow> qd_id (qr_def (snd e)) = fst e \<and> queue_inv (co_config c) (snd e)
     \<and> placed (co_resources c) (qr_def (snd e))
     \<and> um_find (co_queue_names c) (name_key (qd_resource (qr_def (snd e))) (qd_name (qr_def (snd e)))) = Some (fst e)
     \<and> id_valid (fst e) \<and> id_value (fst e) < co_next_queue_id c"

definition resource_wf :: "core_state \<Rightarrow> ResourceId \<times> resource_record \<Rightarrow> bool" where
  "resource_wf c e \<longleftrightarrow> rr_id (snd e) = fst e \<and> rr_queue_count (snd e) = count_in (co_queues c) (fst e)
     \<and> id_valid (rr_owner (snd e))
     \<and> length (av_grants (rr_authority (snd e))) \<le> fl_max_grants_per_resource (fc_limits (co_config c))
     \<and> length (rr_classes (snd e)) \<le> fl_max_classes_per_resource (fc_limits (co_config c))
     \<and> length (rr_pools (snd e)) \<le> fl_max_pools_per_resource (fc_limits (co_config c))"

definition capacity_wf :: "core_state \<Rightarrow> bool" where
  "capacity_wf c \<longleftrightarrow> length (co_queues c) \<le> fl_max_queues_total (fc_limits (co_config c))
     \<and> length (co_resources c) \<le> fl_max_resources (fc_limits (co_config c))
     \<and> length (co_pending c) \<le> fl_max_pending_attempts (fc_limits (co_config c))
     \<and> length (co_plans c) \<le> fl_max_pending_attempts (fc_limits (co_config c))
     \<and> unat (co_next_queue_id c) = Suc (length (co_queues c))"

definition core_wf :: "core_state \<Rightarrow> bool" where
  "core_wf c \<longleftrightarrow> um_wf (co_queues c) \<and> um_wf (co_resources c) \<and> um_wf (co_plans c)
     \<and> (\<forall>e\<in>set (co_queues c). entry_wf c e) \<and> (\<forall>e\<in>set (co_resources c). resource_wf c e)
     \<and> (\<forall>e\<in>set (co_plans c). um_find (co_queues c) (bpl_queue (snd e)) \<noteq> None) \<and> capacity_wf c"

text \<open>
  What the configuration must satisfy: the identities of all the queues it admits fit in 64 bits,
  and the owner of a new resource gets its grant.
\<close>

definition config_ok :: "fabric_config \<Rightarrow> bool" where
  "config_ok config \<longleftrightarrow> fl_max_queues_total (fc_limits config) < 2 ^ 64 - 1 \<and> 0 < fl_max_grants_per_resource (fc_limits config)"

lemma core_sel [simp]:
  "co_config (core f) = fb_config f" "co_epoch (core f) = fb_epoch f" "co_resources (core f) = fb_resources f"
  "co_queues (core f) = fb_queues f" "co_queue_names (core f) = fb_queue_names f" "co_plans (core f) = fb_plans f"
  "co_next_queue_id (core f) = fb_next_queue_id f" "co_pending (core f) = fb_pending f"
  by (simp_all add: core_def)

subsection \<open>Changing queues in place\<close>

definition queue_follows :: "core_state \<Rightarrow> queue_record \<Rightarrow> queue_record \<Rightarrow> bool" where
  "queue_follows c q q' \<longleftrightarrow> same_place (qr_def q) (qr_def q') \<and> queue_inv (co_config c) q'
     \<and> placed (co_resources c) (qr_def q')"

lemma same_place_refl [simp]: "same_place d d"
  by (simp add: same_place_def)

definition queues_follow :: "core_state \<Rightarrow> (QueueId, queue_record) umap \<Rightarrow> (QueueId, queue_record) umap \<Rightarrow> bool" where
  "queues_follow c qs qs' \<longleftrightarrow> list_all2 (\<lambda>e e'. fst e' = fst e \<and> queue_follows c (snd e) (snd e')) qs qs'"

lemma queues_follow_facts:
  assumes "queues_follow c qs qs'"
  shows "map fst qs' = map fst qs" "length qs' = length qs" "count_in qs' i = count_in qs i"
    and "um_find qs' k \<noteq> None \<longleftrightarrow> um_find qs k \<noteq> None"
    and "e' \<in> set qs' \<Longrightarrow> \<exists>q. (fst e', q) \<in> set qs \<and> queue_follows c q (snd e')"
proof -
  show fst: "map fst qs' = map fst qs"
    using assms unfolding queues_follow_def by (induction rule: list_all2_induct) auto
  show "length qs' = length qs"
    using arg_cong [OF fst, of length] by simp
  show "count_in qs' i = count_in qs i"
    using assms unfolding queues_follow_def count_in_def
    by (induction rule: list_all2_induct) (auto simp: queue_follows_def same_place_def)
  have "fst ` set qs' = fst ` set qs"
    using arg_cong [OF fst, of set] by simp
  then show "um_find qs' k \<noteq> None \<longleftrightarrow> um_find qs k \<noteq> None"
    by (simp add: um_find_None_iff)
  show "e' \<in> set qs' \<Longrightarrow> \<exists>q. (fst e', q) \<in> set qs \<and> queue_follows c q (snd e')"
    using assms unfolding queues_follow_def by (induction rule: list_all2_induct) auto
qed

lemma core_wf_queues:
  assumes wf: "core_wf c" and qs: "queues_follow c (co_queues c) qs'"
  shows "core_wf (c\<lparr>co_queues := qs'\<rparr>)"
proof -
  note facts = queues_follow_facts [OF qs]
  have "entry_wf (c\<lparr>co_queues := qs'\<rparr>) e'" if "e' \<in> set qs'" for e'
  proof -
    obtain q where q: "(fst e', q) \<in> set (co_queues c)" "queue_follows c q (snd e')"
      using facts(5) [OF \<open>e' \<in> set qs'\<close>] by blast
    have "entry_wf c (fst e', q)"
      using wf q by (simp add: core_wf_def)
    then show ?thesis
      using q(2) by (simp add: entry_wf_def queue_follows_def same_place_def)
  qed
  then show ?thesis
    using wf facts by (simp add: core_wf_def um_wf_def resource_wf_def capacity_wf_def)
qed

lemma queues_follow_map:
  assumes "\<And>e. e \<in> set qs \<Longrightarrow> queue_follows c (snd e) (h (snd e))"
  shows "queues_follow c qs (um_map h qs)"
  using assms by (simp add: queues_follow_def um_map_def list_all2_map2 list.rel_refl_strong)

lemma queues_follow_put:
  assumes "um_wf qs" "um_find qs k = Some q" "queue_follows c q q'" "\<forall>e\<in>set qs. queue_follows c (snd e) (snd e)"
  shows "queues_follow c qs (um_put k q' qs)"
  using assms
proof (induction qs)
  case (Cons e qs)
  have refl: "list_all2 (\<lambda>e e'. fst e' = fst e \<and> queue_follows c (snd e) (snd e')) qs qs"
    using Cons.prems(4) by (simp add: list.rel_refl_strong)
  show ?case
    using Cons refl by (cases e) (auto simp: queues_follow_def um_find_def um_wf_def)
qed (simp add: um_find_def)

lemma entry_follows: "core_wf c \<Longrightarrow> e \<in> set (co_queues c) \<Longrightarrow> queue_follows c (snd e) (snd e)"
  by (simp add: core_wf_def entry_wf_def queue_follows_def)

lemma core_wf_put_queue:
  assumes "core_wf c" "um_find (co_queues c) k = Some q" "queue_follows c q q'"
  shows "core_wf (c\<lparr>co_queues := um_put k q' (co_queues c)\<rparr>)"
  using assms entry_follows [OF assms(1)]
  by (intro core_wf_queues queues_follow_put) (auto simp: core_wf_def)

lemma core_wf_find:
  assumes "core_wf c" "um_find (co_queues c) k = Some q"
  shows "entry_wf c (k, q)" "queue_follows c q q"
  using assms um_find_SomeD [OF assms(2)] entry_follows [of c "(k, q)"] by (auto simp: core_wf_def)

subsection \<open>Changing resources\<close>

lemma placed_put:
  assumes "placed rs d" "um_find rs k = Some x"
    and "set (map sc_id (rr_classes x)) \<subseteq> set (map sc_id (rr_classes y))"
      "set (map bp_id (rr_pools x)) \<subseteq> set (map bp_id (rr_pools y))"
  shows "placed (um_put k y rs) d"
  using assms unfolding placed_def by (cases "qd_resource d = k") auto

lemma placed_emplace: "placed rs d \<Longrightarrow> placed (um_emplace k y rs) d"
  by (auto simp: placed_def um_find_emplace split: option.splits)

lemma set_um_put_wf: "um_wf m \<Longrightarrow> e \<in> set (um_put k v m) \<Longrightarrow> e = (k, v) \<or> (e \<in> set m \<and> fst e \<noteq> k)"
  by (induction m) (auto simp: um_wf_def split: if_splits)

lemma length_um_put_found: "um_find m k = Some x \<Longrightarrow> length (um_put k y m) = length m"
  by (simp add: length_um_put)

lemma core_wf_put_resource:
  assumes wf: "core_wf c" and x: "um_find (co_resources c) k = Some x" and y: "resource_follows (fc_limits (co_config c)) x y"
  shows "core_wf (c\<lparr>co_resources := um_put k y (co_resources c)\<rparr>)"
proof -
  have rs: "um_wf (co_resources c)" and rx: "resource_wf c (k, x)"
    using wf um_find_SomeD [OF x] by (auto simp: core_wf_def)
  have ry: "resource_wf c (k, y)"
    using rx y by (auto simp: resource_wf_def resource_follows_def max_def split: if_splits)
  have res: "resource_wf (c\<lparr>co_resources := um_put k y (co_resources c)\<rparr>) e" if "e \<in> set (um_put k y (co_resources c))" for e
    using set_um_put_wf [OF rs that] ry wf by (auto simp: core_wf_def resource_wf_def)
  have ent: "entry_wf (c\<lparr>co_resources := um_put k y (co_resources c)\<rparr>) e" if "e \<in> set (co_queues c)" for e
    using wf that placed_put [OF _ x] y by (auto simp: core_wf_def entry_wf_def resource_follows_def)
  show ?thesis
    using wf res ent by (auto simp: core_wf_def capacity_wf_def length_um_put_found [OF x])
qed

lemma not_placed_count: "(\<forall>e\<in>set qs. placed rs (qr_def (snd e))) \<Longrightarrow> um_find rs i = None \<Longrightarrow> count_in qs i = 0"
  by (auto simp: count_in_def filter_empty_conv placed_def)

lemma core_wf_add_resource:
  assumes wf: "core_wf c" and lim: "length (co_resources c) < fl_max_resources (fc_limits (co_config c))"
    and y: "rr_id y = k" "rr_queue_count y = 0" "rr_classes y = []" "rr_pools y = []"
      "length (av_grants (rr_authority y)) \<le> fl_max_grants_per_resource (fc_limits (co_config c))"
      "id_valid (rr_owner y)"
  shows "core_wf (c\<lparr>co_resources := um_emplace k y (co_resources c)\<rparr>)"
proof (cases "um_find (co_resources c) k")
  case None
  have em: "um_emplace k y (co_resources c) = co_resources c @ [(k, y)]"
    using None by (simp add: um_emplace_def)
  have "count_in (co_queues c) k = 0"
    using wf None by (intro not_placed_count [of _ "co_resources c"]) (auto simp: core_wf_def entry_wf_def)
  then have "resource_wf c (k, y)"
    using y by (simp add: resource_wf_def)
  then have res: "resource_wf (c\<lparr>co_resources := um_emplace k y (co_resources c)\<rparr>) e"
    if "e \<in> set (um_emplace k y (co_resources c))" for e
    using that wf by (auto simp: em core_wf_def resource_wf_def)
  have ent: "entry_wf (c\<lparr>co_resources := um_emplace k y (co_resources c)\<rparr>) e" if "e \<in> set (co_queues c)" for e
    using wf that placed_emplace by (auto simp: core_wf_def entry_wf_def)
  show ?thesis
    using wf res ent lim um_wf_emplace [of "co_resources c" k y] by (auto simp: core_wf_def capacity_wf_def em)
next
  case (Some x)
  then show ?thesis
    using wf by (simp add: um_emplace_def)
qed

subsection \<open>The mutation path\<close>

lemma memo_follows_inv:
  assumes "memo_follows cap r c q q'" "length (qr_memo q) \<le> cap" "memo_wf (qr_memo q)"
  shows "length (qr_memo q') \<le> cap \<and> memo_wf (qr_memo q')"
  using assms by (auto simp: memo_follows_def remember_memo_bound remember_memo_wf split: option.splits)

lemma queue_follows_view:
  assumes "queue_follows c q t" "qr_view q' = qr_view t" "queue_inv (co_config c) q"
    and "memo_follows (fl_max_attempt_memo (fc_limits (co_config c))) r o' q q'"
  shows "queue_follows c q q'"
proof -
  have "length (qr_memo q') \<le> fl_max_attempt_memo (fc_limits (co_config c)) \<and> memo_wf (qr_memo q')"
    using memo_follows_inv [OF assms(4)] assms(3) by (simp add: queue_inv_def)
  then show ?thesis
    using assms(1) qr_viewD [OF assms(2)] queue_inv_view [OF assms(2)] by (auto simp: queue_follows_def)
qed

lemma queue_step_follows:
  assumes "queue_step f r now q t" "admitted f q r" "validated_or_ack r" "queue_follows (core f) q q"
  shows "queue_follows (core f) q t"
proof -
  have inv: "queue_inv (fb_config f) q" and pl: "placed (fb_resources f) (qr_def q)"
    using assms(4) by (simp_all add: queue_follows_def)
  note step = queue_step_inv [OF assms(1-3) inv]
  have "cb_id (qd_cls (qr_def t)) \<in> set (map sc_id (rr_classes x))" if "um_find (fb_resources f) (qd_resource (qr_def q)) = Some x" for x
    using step pl that rr_find_classD [of x "cb_id (qd_cls (qr_def t))"] by (force simp: placed_def find_resource_def)
  then show ?thesis
    using step pl by (auto simp: queue_follows_def same_place_def placed_def)
qed

lemma declare_refusal_None:
  assumes "declare_refusal res p r f = None"
  shows "length (fb_queues f) < fl_max_queues_total (fc_limits (fb_config f))"
    "cb_id (dq_cls p) \<in> set (map sc_id (rr_classes res))" "pr_id (dq_pool p) \<in> set (map bp_id (rr_pools res))"
    "th_consistent (dq_thresholds p)"
  using assms rr_find_classD [of res "cb_id (dq_cls p)"] rr_find_poolD [of res "pr_id (dq_pool p)"]
  by (force simp: declare_refusal_def Let_def split: if_splits)+

lemma count_in_snoc: "count_in (qs @ [(k, q)]) i = count_in qs i + (if qd_resource (qr_def q) = i then 1 else 0)"
  by (simp add: count_in_def)

lemma core_wf_declare:
  assumes wf: "core_wf c" and cfg: "config_ok (co_config c)"
    and x: "um_find (co_resources c) (qd_resource d) = Some x"
    and names: "um_find (co_queue_names c) (name_key (qd_resource d) (qd_name d)) = None"
    and lim: "length (co_queues c) < fl_max_queues_total (fc_limits (co_config c))"
    and d: "d = qr_def q" "qd_id d = Ident (co_next_queue_id c)" "placed (co_resources c) d" "queue_inv (co_config c) q"
  shows "core_wf (c\<lparr>co_resources := um_put (qd_resource d) (x\<lparr>rr_queue_count := Suc (rr_queue_count x)\<rparr>) (co_resources c),
     co_queue_names := um_emplace (name_key (qd_resource d) (qd_name d)) (Ident (co_next_queue_id c)) (co_queue_names c),
     co_queues := um_emplace (Ident (co_next_queue_id c)) q (co_queues c),
     co_next_queue_id := co_next_queue_id c + 1\<rparr>)"
    (is "core_wf ?c'")
proof -
  define k where "k = (Ident (co_next_queue_id c) :: QueueId)"
  have next': "unat (co_next_queue_id c) = Suc (length (co_queues c))"
    using wf by (simp add: core_wf_def capacity_wf_def)
  have small: "unat (co_next_queue_id c) < 2 ^ 64 - 1"
    using next' lim cfg by (simp add: config_ok_def)
  then have nmax: "co_next_queue_id c \<noteq> - 1"
    using unat_max_word [where 'a = 64] by auto
  have succ: "unat (co_next_queue_id c + 1) = Suc (Suc (length (co_queues c)))" "co_next_queue_id c < co_next_queue_id c + 1"
    using unat_succ [OF nmax] word_succ_gt [OF nmax] next' by simp_all
  have fresh: "um_find (co_queues c) k = None"
  proof (rule ccontr)
    assume "um_find (co_queues c) k \<noteq> None"
    then obtain q0 where "entry_wf c (k, q0)"
      using core_wf_find(1) [OF wf] by blast
    then show False
      by (simp add: entry_wf_def k_def)
  qed
  have qs: "um_emplace k q (co_queues c) = co_queues c @ [(k, q)]"
    using fresh by (simp add: um_emplace_def)
  have pl: "placed (um_put (qd_resource d) (x\<lparr>rr_queue_count := Suc (rr_queue_count x)\<rparr>) (co_resources c)) e"
    if "placed (co_resources c) e" for e
    using placed_put [OF that x] by simp
  have "id_valid k"
    using next' by (auto simp: k_def id_valid_def)
  then have new: "entry_wf ?c' (k, q)"
    using d pl [OF d(3)] names succ(2) by (simp add: entry_wf_def um_find_emplace k_def)
  have old: "entry_wf ?c' e" if "e \<in> set (co_queues c)" for e
    using wf that pl succ(2) names by (auto simp: core_wf_def entry_wf_def um_find_emplace)
  have ent: "entry_wf ?c' e" if "e \<in> set (co_queues ?c')" for e
  proof -
    have "e = (k, q) \<or> e \<in> set (co_queues c)"
      using that qs by (auto simp: k_def)
    then show ?thesis
      using new old by blast
  qed
  have res: "resource_wf ?c' e" if "e \<in> set (co_resources ?c')" for e
  proof -
    have "um_wf (co_resources c)" "resource_wf c (qd_resource d, x)"
      using wf um_find_SomeD [OF x] by (auto simp: core_wf_def)
    then have "e = (qd_resource d, x\<lparr>rr_queue_count := Suc (rr_queue_count x)\<rparr>)
        \<or> (e \<in> set (co_resources c) \<and> fst e \<noteq> qd_resource d)"
      using that set_um_put_wf [of "co_resources c" e] by simp
    moreover have "co_queues ?c' = co_queues c @ [(k, q)]"
      using qs by (simp add: k_def)
    moreover have "resource_wf c e" if "e \<in> set (co_resources c)"
      using wf that by (simp add: core_wf_def)
    ultimately show ?thesis
      using \<open>resource_wf c (qd_resource d, x)\<close> d(1) by (auto simp: resource_wf_def count_in_snoc)
  qed
  have plans: "um_find (co_queues ?c') (bpl_queue (snd e)) \<noteq> None" if "e \<in> set (co_plans c)" for e
  proof -
    have "um_find (co_queues c) (bpl_queue (snd e)) \<noteq> None"
      using wf that by (simp add: core_wf_def)
    then show ?thesis
      by (auto simp: um_find_emplace split: option.splits)
  qed
  show ?thesis
    unfolding core_wf_def
    using wf res ent plans succ lim qs um_wf_emplace [of "co_queues c" k q]
    by (auto simp: core_wf_def capacity_wf_def k_def length_um_put_found [OF x])
qed

lemma new_queue_record_inv:
  assumes "name_in_range (qd_name d)" "ctr_valid (qd_generation d)" "cb_valid (qd_cls d)" "th_consistent (qd_thresholds d)"
  shows "queue_inv config (new_queue_record d)"
  using assms
  by (simp add: queue_inv_def new_queue_record_def no_fence_def no_occupancy_def no_drain_def no_applied_def memo_wf_def
      occupancy_authoritative_def)

text \<open>A mutation keeps the invariant, whatever its outcome.\<close>

theorem apply_spec_wf:
  assumes spec: "apply_spec f r out c'" and wf: "core_wf (core f)" and cfg: "config_ok (fb_config f)"
    and val: "\<And>o'. out = Inr o' \<Longrightarrow> \<not> mo_replayed o' \<Longrightarrow> validated_or_ack r"
  shows "core_wf c'"
  using spec
proof cases
  case (refused st)
  then show ?thesis
    using wf by simp
next
  case (refused_on q q' c st)
  have q: "um_find (co_queues (core f)) (mr_queue r) = Some q"
    using refused_on by (simp add: find_queue_def)
  note qf = core_wf_find [OF wf q]
  have "queue_follows (core f) q q'"
    using queue_follows_view [OF qf(2), of q' r c] refused_on qf(2) by (simp add: queue_follows_def)
  then show ?thesis
    using core_wf_put_queue [OF wf q] refused_on by simp
next
  case (replayed q q' o')
  have q: "um_find (co_queues (core f)) (mr_queue r) = Some q"
    using replayed by (simp add: find_queue_def)
  note qf = core_wf_find [OF wf q]
  have "queue_follows (core f) q q'"
    using queue_follows_view [OF qf(2), of q' r None] replayed qf(2) by (simp add: queue_follows_def memo_follows_None)
  then show ?thesis
    using core_wf_put_queue [OF wf q] replayed by simp
next
  case (applied q now t q' o')
  have q: "um_find (co_queues (core f)) (mr_queue r) = Some q"
    using applied by (simp add: find_queue_def)
  note qf = core_wf_find [OF wf q]
  have "queue_follows (core f) q t"
    using queue_step_follows [OF applied(6,5) _ qf(2)] val [OF applied(1)] applied by simp
  then have "queue_follows (core f) q q'"
    using queue_follows_view [of "core f" q t q' r "Some Code_ok"] applied qf(2) by (simp add: queue_follows_def)
  then show ?thesis
    using core_wf_put_queue [OF wf q] applied by simp
next
  case (declared_again p i q o')
  then show ?thesis
    using wf by simp
next
  case (declared p res q' now o')
  define d where "d = qr_def (declared_record p r now f)"
  have d: "qr_def q' = d" "qd_resource d = dq_resource p" "qd_name d = dq_name p" "qd_id d = Ident (fb_next_queue_id f)"
      "qd_cls d = dq_cls p" "qd_pool d = dq_pool p"
    using qr_viewD(1) [OF declared(8)] by (simp_all add: d_def declared_record_def new_queue_record_def)
  note ref = declare_refusal_None [OF declared(7)]
  have "queue_inv (fb_config f) (declared_record p r now f)"
    using declared(4) ref(4) unfolding declared_record_def
    by (intro new_queue_record_inv) (simp_all add: validate_declare_ok name_in_range_def ctr_valid_def)
  moreover from this have "length (qr_memo q') \<le> memo_capacity f \<and> memo_wf (qr_memo q')"
    using memo_follows_inv [OF declared(9)] by (simp add: queue_inv_def)
  ultimately have inv: "queue_inv (fb_config f) q'"
    using queue_inv_view [OF declared(8), of "fb_config f"] by simp
  have res: "um_find (fb_resources f) (qd_resource d) = Some res"
    using declared(5) d by (simp add: find_resource_def)
  have pl: "placed (co_resources (core f)) d"
    using res ref d by (simp add: placed_def)
  show ?thesis
    using core_wf_declare [OF wf, of d res q'] cfg res ref(1) inv pl declared(6) d(1,4)
    unfolding declared(2) core_sel d(2,3) by blast
qed

subsection \<open>The other operations\<close>

lemma core_wf_irrelevant [simp]:
  "core_wf (c\<lparr>co_epoch := e\<rparr>) = core_wf c" "core_wf (c\<lparr>co_flags := b\<rparr>) = core_wf c"
  by (simp_all add: core_wf_def entry_wf_def resource_wf_def capacity_wf_def)

lemma core_wf_pending: "core_wf c \<Longrightarrow> length p \<le> fl_max_pending_attempts (fc_limits (co_config c)) \<Longrightarrow> core_wf (c\<lparr>co_pending := p\<rparr>)"
  by (simp add: core_wf_def entry_wf_def resource_wf_def capacity_wf_def)

text \<open>Invalidating evidence keeps the invariant of a queue.\<close>

lemma queue_inv_invalidated:
  assumes "queue_inv c q" "qr_def q' = qr_def q" "qr_lifecycle q' = qr_lifecycle q" "qr_fence q' = qr_fence q"
    "qr_drain q' = qr_drain q" "qr_applied q' = qr_applied q" "qr_memo q' = qr_memo q"
    "has_flag (qr_applicability q') App_fenced = has_flag (qr_applicability q) App_fenced"
    "oc_present (qr_occupancy q') = oc_present (qr_occupancy q)"
    "qr_occupancy q' = qr_occupancy q \<or> \<not> occupancy_authoritative (qr_occupancy q')"
  shows "queue_inv c q'"
  using assms by (auto simp: queue_inv_def)

lemma not_authoritative_simps [simp]:
  "\<not> occupancy_authoritative (invalidate_occupancy Fr_stale_epoch s)"
  "\<not> occupancy_authoritative (invalidate_occupancy Fr_stale_backend s)"
  "\<not> occupancy_authoritative (invalidate_occupancy Fr_stale_generation s)"
  "\<not> occupancy_authoritative (invalidate_occupancy Fr_stale_restart s)"
  by (simp_all add: invalidated_not_authoritative)

lemma supersede_inv: "queue_inv c q \<Longrightarrow> queue_inv c (supersede_evidence q)"
  by (rule queue_inv_invalidated) (auto simp: supersede_evidence_applicability)

lemma stale_by_backend_inv: "queue_inv c q \<Longrightarrow> queue_inv c (stale_by_backend q)"
  by (rule queue_inv_invalidated) auto

lemma invalidate_bound_cases:
  "invalidate_bound k i y q = q \<or> invalidate_bound k i y q =
     q\<lparr>qr_applicability := set_flag (qr_applicability q) App_stale,
       qr_occupancy := invalidate_occupancy Fr_stale_generation (qr_occupancy q),
       qr_staleness_events := qr_staleness_events q + 1\<rparr>"
  by (simp add: invalidate_bound_def split: option.splits)

lemma invalidate_bound_inv: "queue_inv c q \<Longrightarrow> queue_inv c (invalidate_bound k i y q)"
  using invalidate_bound_cases [of k i y q] by (elim disjE) (simp, rule queue_inv_invalidated, simp_all)

lemma invalidate_bound_def_eq [simp]: "qr_def (invalidate_bound k i y q) = qr_def q"
  using invalidate_bound_cases [of k i y q] by auto

lemma occupancy_policy_generation [simp]:
  "op_require_generation_match (occupancy_policy_for c q) = op_require_generation_match (fc_occupancy c)"
  by (simp add: occupancy_policy_for_def Let_def)

lemma refresh_inv:
  assumes "queue_inv c q"
  shows "queue_inv c (fst (refresh_queue_locked c now q))"
proof -
  have "oc_queue_generation (qr_occupancy q) = qd_generation (qr_def q)"
    if "occupancy_authoritative (qr_occupancy (fst (refresh_queue_locked c now q)))" "op_require_generation_match (fc_occupancy c)"
    using that refresh_queue_freshness [of c now q] classify_fresh_iff [of "qr_occupancy q" now "occupancy_policy_for c q"]
    by (simp add: occupancy_authoritative_def)
  then show ?thesis
    using assms by (auto simp: queue_inv_def)
qed

lemma core_wf_map_queues:
  assumes wf: "core_wf c" and h: "\<And>q. queue_inv (co_config c) q \<Longrightarrow> queue_inv (co_config c) (h q)" "\<And>q. qr_def (h q) = qr_def q"
  shows "core_wf (c\<lparr>co_queues := um_map h (co_queues c)\<rparr>)"
  using wf entry_follows [OF wf] h by (intro core_wf_queues queues_follow_map) (auto simp: queue_follows_def)

lemma core_wf_map_resources:
  assumes wf: "core_wf c" and h: "\<And>x. rr_id (h x) = rr_id x" "\<And>x. rr_queue_count (h x) = rr_queue_count x"
      "\<And>x. rr_classes (h x) = rr_classes x" "\<And>x. rr_pools (h x) = rr_pools x"
      "\<And>x. av_grants (rr_authority (h x)) = av_grants (rr_authority x)" "\<And>x. rr_owner (h x) = rr_owner x"
  shows "core_wf (c\<lparr>co_resources := um_map h (co_resources c)\<rparr>)"
proof -
  have "placed (um_map h (co_resources c)) d" if "placed (co_resources c) d" for d
    using that h by (auto simp: placed_def)
  moreover have "length (um_map h (co_resources c)) = length (co_resources c)"
    by (simp add: um_map_def)
  ultimately show ?thesis
    using wf h by (auto simp: core_wf_def entry_wf_def resource_wf_def capacity_wf_def set_um_map)
qed

theorem topology_step_wf:
  assumes "topology_step f c'" "core_wf (core f)" "config_ok (fb_config f)"
  shows "core_wf c'"
  using assms(1)
proof cases
  case stopped
  then show ?thesis
    using core_wf_pending [of "(core f)\<lparr>co_flags := (True, fb_replaying f)\<rparr>" "[]"] assms(2) by simp
next
  case (added name own prov now)
  have "length (fb_resources f) < fl_max_resources (fc_limits (fb_config f))" "id_valid own"
    using added(2) by (auto simp: declare_resource_refusal_def split: if_splits)
  then show ?thesis
    unfolding added(1) using core_wf_add_resource [OF assms(2), of "declared_resource name own prov now f"] assms(3)
    by (simp add: declared_resource_def config_ok_def)
next
  case (updated k x y)
  then show ?thesis
    using core_wf_put_resource [OF assms(2)] by simp
next
  case (reclassed k x y i)
  have "core_wf ((core f)\<lparr>co_resources := um_put k y (fb_resources f)\<rparr>)"
    using core_wf_put_resource [OF assms(2)] reclassed by simp
  from core_wf_map_queues [OF this, of "invalidate_bound k i y"] show ?thesis
    using reclassed(1) invalidate_bound_inv by simp
qed (use assms(2) in simp)

lemma advance_epoch_wf:
  assumes "advance_epoch J actor prov f = (out, f')" "core_wf (core f)"
  shows "core_wf (core f')"
  using assms(1)
proof (cases rule: advance_epoch_cases)
  case (advanced e g)
  define c1 where "c1 = (core g)\<lparr>co_epoch := e, co_resources := um_map (with_epoch e) (fb_resources g)\<rparr>"
  have "core_wf ((core g)\<lparr>co_epoch := e\<rparr>)"
    using advanced assms(2) by simp
  from core_wf_map_resources [OF this, of "with_epoch e"] have "core_wf c1"
    by (simp add: c1_def with_epoch_def)
  from core_wf_map_queues [OF this, of supersede_evidence] show ?thesis
    using advanced coreD(4) [OF advanced(4)] by (simp add: core_publish_epoch c1_def supersede_inv)
qed (use assms(2) in simp)

lemma invalidate_evidence_wf:
  assumes "invalidate_evidence i actor e why f = (st, f')" "core_wf (core f)"
  shows "core_wf (core f')"
proof (cases "ok st")
  case True
  then obtain q where q: "find_queue f i = Some q"
      "core f' = (core f)\<lparr>co_queues := um_put i (stale_by_backend q) (fb_queues f)\<rparr>"
    using invalidate_evidence_cases [OF assms(1)] by blast
  have "queue_follows (core f) q (stale_by_backend q)"
    using core_wf_find [OF assms(2), of i q] q(1) stale_by_backend_inv by (simp add: find_queue_def queue_follows_def)
  then show ?thesis
    using core_wf_put_queue [OF assms(2), of i q] q by (simp add: find_queue_def)
next
  case False
  then show ?thesis
    using invalidate_evidence_cases [OF assms(1)] assms(2) by auto
qed

lemma refresh_freshness_wf:
  assumes "refresh_freshness f = (st, f')" "core_wf (core f)"
  shows "core_wf (core f')"
proof (cases "fb_shutting_down f")
  case False
  then obtain now where "core f' = (core f)\<lparr>co_queues := um_map (\<lambda>q. fst (refresh_queue_locked (fb_config f) now q)) (fb_queues f)\<rparr>"
    using refresh_freshness_ok [OF assms(1)] by blast
  then show ?thesis
    using core_wf_map_queues [OF assms(2), of "\<lambda>q. fst (refresh_queue_locked (fb_config f) now q)"] refresh_inv by simp
qed (use assms in \<open>auto simp: refresh_freshness_def\<close>)

lemma length_push_pending: "length ps \<le> b \<Longrightarrow> length (push_pending b e ps) \<le> b"
  by (auto simp: push_pending_def Let_def)

lemma length_erase_pending: "length (erase_pending a ps) \<le> length ps"
  by (induction ps) auto

lemma plan_wf:
  assumes "plan_backend_apply J i g actor prov f = (out, f')" "core_wf (core f)"
  shows "core_wf (core f')"
proof (cases out)
  case (Inl st)
  then show ?thesis
    using plan_backend_apply_refused [of J i g actor prov f st f'] assms by simp
next
  case (Inr plan)
  then obtain q res where p: "find_queue f i = Some q" "plan_refusal q res g actor prov f = None" "bpl_queue plan = i"
      "um_find (fb_plans f) (bpl_attempt plan) = None" "core f' = core_reserved plan f"
    using plan_backend_apply_ok [of J i g actor prov f plan f'] assms(1) by blast
  have lim: "length (fb_plans f) < fl_max_pending_attempts (fc_limits (fb_config f))"
    using plan_refusal_None [OF p(2)] by simp
  have em: "um_emplace (bpl_attempt plan) plan (fb_plans f) = fb_plans f @ [(bpl_attempt plan, plan)]"
    using p(4) by (simp add: um_emplace_def)
  have "um_wf (fb_plans f @ [(bpl_attempt plan, plan)])"
    using um_wf_emplace [of "fb_plans f" "bpl_attempt plan" plan] assms(2) by (simp add: em core_wf_def)
  then show ?thesis
    using assms(2) p lim length_push_pending unfolding p(5) core_reserved_def em
    by (auto simp: core_wf_def entry_wf_def resource_wf_def capacity_wf_def find_queue_def)
qed

lemma core_dropped_wf:
  assumes "core_wf c"
  shows "core_wf (core_dropped a c)"
proof -
  have "length (um_erase a (co_plans c)) \<le> length (co_plans c)" "set (um_erase a (co_plans c)) \<subseteq> set (co_plans c)"
    by (auto simp: um_erase_def)
  then show ?thesis
    using assms length_erase_pending [of a "co_pending c"] um_wf_erase [of "co_plans c" a]
    by (auto simp: core_dropped_def core_wf_def entry_wf_def resource_wf_def capacity_wf_def)
qed

lemma commit_wf:
  assumes "commit_backend_apply J plan a prov f = (out, f')" "core_wf (core f)" "config_ok (fb_config f)"
  shows "core_wf (core f')"
  using commit_backend_apply_cases [OF assms(1)]
proof
  assume "\<exists>st. out = Inl st \<and> core f' = core f"
  then show ?thesis
    using assms(2) by auto
next
  assume "\<exists>(g :: 'a fabric) c. um_find (fb_plans f) (bpl_attempt plan) \<noteq> None \<and> core g = core f
         \<and> fb_clock_watermark f \<le> fb_clock_watermark g \<and> fb_provenance g = fb_provenance f
         \<and> (\<exists>q. find_queue f (bpl_queue plan) = Some q \<and> qd_generation (qr_def q) = bpl_expected_generation plan)
         \<and> apply_spec g (commit_request plan a prov f) out c
         \<and> core f' = (case out of Inl _ \<Rightarrow> c | Inr _ \<Rightarrow> core_dropped (bpl_attempt plan) c)"
  then obtain g :: "'a fabric" and c where g: "core g = core f" "apply_spec g (commit_request plan a prov f) out c"
      "core f' = (case out of Inl _ \<Rightarrow> c | Inr _ \<Rightarrow> core_dropped (bpl_attempt plan) c)"
    by blast
  have "core_wf c"
    using apply_spec_wf [OF g(2)] assms(2,3) g(1) coreD(1) [OF g(1)]
    by (simp add: validated_or_ack_def commit_request_def)
  then show ?thesis
    using g(3) core_dropped_wf by (simp split: sum.splits)
qed

lemma abort_wf:
  assumes "abort_backend_apply J plan why f = (st, f')" "core_wf (core f)"
  shows "core_wf (core f')"
  using abort_backend_apply_cases [OF assms(1)] assms(2) core_dropped_wf by (auto split: if_splits)

lemma fabric_apply_validated:
  "fabric_apply J r f = (Inr out, f') \<Longrightarrow> ok (mr_validate r)"
  by (auto simp: fabric_apply_def apply_locked_def reject_declare_def split: prod.splits if_splits)

lemma fabric_apply_wf:
  assumes "fabric_apply J r f = (out, f')" "core_wf (core f)" "config_ok (fb_config f)"
  shows "core_wf (core f')"
  using apply_spec_wf [OF fabric_apply_refines [OF assms(1)] assms(2,3)] fabric_apply_validated [of J r f] assms(1)
  by (auto simp: validated_or_ack_def)

end
