(* ===== verification/QF_Reload.thy ===== *)
theory QF_Reload
  imports QF_Invariants
begin

text \<open>
  Recovery from a checkpoint and from the mutations journalled after it. The fabric that a new process builds
  from the snapshot of another one is that fabric, with its evidence marked stale and its backends disconnected,
  and it satisfies the invariant if the other did, also after the replay of any mutations, unless a queue was
  quiesced: recovery reopens the completed drain of a quiesced queue but leaves its lifecycle, which the
  self-audit of the code reports as a violation. The locale \<open>table_reload\<close> states what the recovery may do to
  the records of a table; its interpretations are the steps that rebuild the tables.
\<close>

section \<open>What a recovery from a checkpoint builds\<close>

lemma um_wf_fold_put: "um_wf m \<Longrightarrow> um_wf (fold (\<lambda>i m. um_put i (h i) m) ks m)"
  by (induction ks arbitrary: m) auto

lemma note_recovery_power [simp]:
  "fb_resources ((note_recovery t ^^ n) f) = fb_resources f" "fb_queues ((note_recovery t ^^ n) f) = fb_queues f"
  "fb_journal ((note_recovery t ^^ n) f) = fb_journal f" "fb_plans ((note_recovery t ^^ n) f) = fb_plans f"
  "fb_pending ((note_recovery t ^^ n) f) = fb_pending f" "fb_config ((note_recovery t ^^ n) f) = fb_config f"
  by (induction n) (simp_all add: note_recovery_def)

text \<open>The scan of a checkpoint: no attempt is replayed or left unfinished, and the tables are those of the snapshot.\<close>

lemma snapshot_scanned:
  assumes "snapshot_ok f" "fb_resources n = []" "fb_queues n = []" "s = restore_records (build_snapshot_locked f) (start_restore n)"
  shows "rs_replay_order s = []" "rs_outstanding s = []" "um_wf (fb_resources (rs_fabric s))" "um_wf (fb_queues (rs_fabric s))"
    and "find_resource (rs_fabric s) i = map_option unbound_authority (find_resource f i)"
    and "find_queue (rs_fabric s) k = map_option (\<lambda>q. restored_queue (forget_last q)) (find_queue f k)"
    and "fb_journal (rs_fabric s) = fb_journal n" "fb_plans (rs_fabric s) = fb_plans n" "fb_pending (rs_fabric s) = fb_pending n"
    and "fb_config (rs_fabric s) = fb_config n"
  using restore_snapshot_find(1,2) [OF assms(1), of "start_restore n"] um_wf_fold_put [of "[]"] assms(2,3)
  by (simp_all add: assms(4) restore_snapshot [OF assms(1)] start_restore_def um_empty_def) (simp_all add: um_wf_def)

text \<open>A resource and a queue of the recovered fabric.\<close>

definition reloaded_resource :: "Epoch \<Rightarrow> resource_record \<Rightarrow> resource_record" where
  "reloaded_resource e x = with_epoch e (kill_backends (unbound_authority x))"

definition reloaded_queue :: "queue_record \<Rightarrow> queue_record" where
  "reloaded_queue q = require_revalidation (restored_queue (forget_last q))"

abbreviation queue_key :: "queue_record \<Rightarrow> string" where
  "queue_key q \<equiv> name_key (qd_resource (qr_def q)) (qd_name (qr_def q))"

text \<open>\<open>g\<close> has the records of \<open>f\<close>, changed by \<open>T\<close> and \<open>R\<close>, with rebuilt indexes.\<close>

definition reloads ::
  "(queue_record \<Rightarrow> queue_record) \<Rightarrow> (resource_record \<Rightarrow> resource_record) \<Rightarrow> 'i fabric \<Rightarrow> 'j fabric \<Rightarrow> bool" where
  "reloads T R f g \<longleftrightarrow> um_wf (fb_resources g) \<and> um_wf (fb_queues g)
     \<and> (\<forall>i. find_resource g i = map_option (\<lambda>x. (R x)\<lparr>rr_queue_count := count_in (fb_queues g) (rr_id x)\<rparr>) (find_resource f i))
     \<and> (\<forall>i. find_queue g i = map_option T (find_queue f i))
     \<and> fb_queue_names g = fold (\<lambda>q m. um_put (queue_key q) (qd_id (qr_def q)) m) (map snd (fb_queues g)) um_empty
     \<and> fb_next_queue_id g = max_of (map (\<lambda>q. id_value (qd_id (qr_def q))) (map snd (fb_queues g))) + 1"

lemma reloads_core:
  assumes "core g = core h"
  shows "reloads T R f g = reloads T R f h"
  by (simp add: reloads_def find_resource_def find_queue_def coreD [OF assms])

lemma filter_snd: "length (filter (\<lambda>q. P q) (map snd qs)) = length (filter (\<lambda>e. P (snd e)) qs)"
  by (induction qs) simp_all

lemma quiet_replay:
  assumes "rs_replay_order s = []" "rs_outstanding s = []"
    and h: "h = recover_replay J s (adopt_epoch e s (disconnect_backends (rs_fabric s)))"
  shows "fb_queues h = um_map require_revalidation (fb_queues (rs_fabric s))"
    and "fb_resources h = um_map (\<lambda>x. (with_epoch e (kill_backends x))\<lparr>rr_queue_count := count_in (fb_queues h) (rr_id x)\<rparr>)
           (fb_resources (rs_fabric s))"
    and "fb_queue_names h = fold (\<lambda>q m. um_put (queue_key q) (qd_id (qr_def q)) m) (map snd (fb_queues h)) um_empty"
    and "fb_next_queue_id h = max_of (map (\<lambda>q. id_value (qd_id (qr_def q))) (map snd (fb_queues h))) + 1"
    and "fb_journal h = fb_journal (rs_fabric s)" "fb_plans h = fb_plans (rs_fabric s)" "fb_pending h = fb_pending (rs_fabric s)"
    and "fb_config h = fb_config (rs_fabric s)" "fb_epoch h = e"
proof -
  note defs = h recover_replay_def adopt_epoch_def disconnect_backends_def revalidate_queues_def rebuild_indexes_locked_def
    assms(1,2) Let_def
  show q: "fb_queues h = um_map require_revalidation (fb_queues (rs_fabric s))"
    by (simp add: defs)
  show "fb_resources h = um_map (\<lambda>x. (with_epoch e (kill_backends x))\<lparr>rr_queue_count := count_in (fb_queues h) (rr_id x)\<rparr>)
           (fb_resources (rs_fabric s))"
    unfolding q by (simp add: defs um_map_def comp_def count_in_def filter_snd with_epoch_def kill_backends_def)
qed (simp_all add: h recover_replay_def adopt_epoch_def disconnect_backends_def revalidate_queues_def rebuild_indexes_locked_def
    assms(1,2) Let_def)

theorem recover_reloads:
  assumes "recover J n = (st, g)" "ok st" "fb_journal n = Some j" "fb_resources n = []" "fb_queues n = []"
    and "jo_records J (snd (jo_open J j)) = build_snapshot_locked f" "snapshot_ok f"
  shows "reloads reloaded_queue (reloaded_resource (fb_epoch g)) f g" "fb_plans g = fb_plans n" "fb_pending g = fb_pending n" "fb_config g = fb_config n"
proof -
  obtain f1 e h where d: "core f1 = (core n)\<lparr>co_epoch := Counter 1\<rparr>" "core g = core h"
      "h = (let s = restore_records (build_snapshot_locked f) (start_restore f1)
            in recover_replay J s (adopt_epoch e s (disconnect_backends (rs_fabric s))))"
    using recover_decompose [OF assms(1-3)] unfolding assms(6) by metis
  define s where "s = restore_records (build_snapshot_locked f) (start_restore f1)"
  have f1: "fb_resources f1 = []" "fb_queues f1 = []" "fb_plans f1 = fb_plans n" "fb_pending f1 = fb_pending n" "fb_config f1 = fb_config n"
    using d(1) assms(4,5) by (simp_all add: core_def)
  have h: "h = recover_replay J s (adopt_epoch e s (disconnect_backends (rs_fabric s)))"
    by (simp add: d(3) s_def Let_def)
  note sc = snapshot_scanned [OF assms(7) f1(1,2) s_def]
  note q = quiet_replay [OF sc(1,2) h]
  have "reloads reloaded_queue (reloaded_resource e) f h"
    unfolding reloads_def find_resource_def find_queue_def q(2)
    using sc(3-6) q(1,3,4) by (simp add: find_resource_def find_queue_def option.map_comp comp_def reloaded_queue_def [abs_def] reloaded_resource_def unbound_authority_def)
  then show "reloads reloaded_queue (reloaded_resource (fb_epoch g)) f g"
    using coreD(2) [OF d(2)] q(9) by (simp add: reloads_core [OF d(2)])
  show "fb_plans g = fb_plans n" "fb_pending g = fb_pending n" "fb_config g = fb_config n"
    using coreD [OF d(2)] q(6-8) sc(8-10) f1(3-5) by simp_all
qed

section \<open>The invariant\<close>

text \<open>No queue is quiesced.\<close>

definition resting :: "'j fabric \<Rightarrow> bool" where
  "resting f \<longleftrightarrow> (\<forall>e\<in>set (fb_queues f). qr_lifecycle (snd e) \<noteq> Lc_quiesced)"

lemma reloaded_queue_frame [simp]:
  "qr_def (reloaded_queue q) = qr_def q" "qr_lifecycle (reloaded_queue q) = qr_lifecycle q" "qr_memo (reloaded_queue q) = qr_memo q"
  "qr_fence (reloaded_queue q) = qr_fence q" "qr_applied (reloaded_queue q) = qr_applied q"
  "has_flag (qr_applicability (reloaded_queue q)) App_fenced = has_flag (qr_applicability q) App_fenced"
  "oc_present (qr_occupancy (reloaded_queue q)) = oc_present (qr_occupancy q)"
  "dr_phase (qr_drain (reloaded_queue q)) = (if dr_phase (qr_drain q) = Dp_completed then Dp_evidence_pending else dr_phase (qr_drain q))"
  by (simp_all add: reloaded_queue_def require_revalidation_def restored_queue_def forget_last_def Let_def invalidate_occupancy_def)

lemma reloaded_not_authoritative [simp]: "\<not> occupancy_authoritative (qr_occupancy (reloaded_queue q))"
  by (simp add: reloaded_queue_def require_revalidation_def restored_queue_def forget_last_def Let_def invalidate_occupancy_def
      occupancy_authoritative_def)

lemma scanned_queue_frame [simp]:
  "qr_def (restored_queue q) = qr_def q" "qr_def (forget_last q) = qr_def q"
  by (simp_all add: restored_queue_def forget_last_def Let_def)

lemma scanned_queue_inv:
  assumes "queue_inv config q" "qr_lifecycle q \<noteq> Lc_quiesced"
  shows "queue_inv config (restored_queue (forget_last q))"
  using assms by (auto simp: restored_queue_def forget_last_def Let_def queue_inv_def in_progress_def invalidate_occupancy_def
      occupancy_authoritative_def)

lemma reloaded_queue_inv:
  assumes "queue_inv config q" "qr_lifecycle q \<noteq> Lc_quiesced"
  shows "queue_inv config (reloaded_queue q)"
  using assms by (auto simp: queue_inv_def in_progress_def)

text \<open>Two tables with the same keys and related values.\<close>

lemma same_keys:
  assumes "um_wf m" "um_wf m'" "\<forall>i. um_find m' i = map_option T (um_find m i)"
  shows "set m' = (\<lambda>e. (fst e, T (snd e))) ` set m" "length m' = length m"
proof -
  have mem: "(k, w) \<in> set m' \<longleftrightarrow> (\<exists>v. (k, v) \<in> set m \<and> w = T v)" for k w
    using um_find_mem [OF assms(2), of k w] assms(3) by (auto simp: um_find_mem [OF assms(1), symmetric])
  show "set m' = (\<lambda>e. (fst e, T (snd e))) ` set m"
  proof (rule set_eqI)
    fix e
    show "e \<in> set m' \<longleftrightarrow> e \<in> (\<lambda>e. (fst e, T (snd e))) ` set m"
      using mem [of "fst e" "snd e"] by (cases e) (auto simp: image_iff Bex_def)
  qed
  have "{k. um_find m' k \<noteq> None} = {k. um_find m k \<noteq> None}"
    using assms(3) by simp
  then show "length m' = length m"
    using um_length_card [OF assms(1)] um_length_card [OF assms(2)] by simp
qed

lemma same_keys_filter:
  assumes "um_wf m" "um_wf m'" "\<forall>i. um_find m' i = map_option T (um_find m i)" "\<forall>v. P (T v) = P v"
  shows "length (filter (\<lambda>e. P (snd e)) m') = length (filter (\<lambda>e. P (snd e)) m)"
proof -
  have d: "distinct m" "distinct m'"
    using assms(1,2) by (simp_all add: um_wf_def distinct_map)
  have "set (filter (\<lambda>e. P (snd e)) m') = (\<lambda>e. (fst e, T (snd e))) ` set (filter (\<lambda>e. P (snd e)) m)"
    using same_keys(1) [OF assms(1-3)] assms(4) by auto
  moreover have "inj_on (\<lambda>e. (fst e, T (snd e))) (set (filter (\<lambda>e. P (snd e)) m))"
    using assms(1) by (auto simp: um_wf_def distinct_map inj_on_def)
  ultimately show ?thesis
    using d distinct_card [of "filter (\<lambda>e. P (snd e)) m"] distinct_card [of "filter (\<lambda>e. P (snd e)) m'"] card_image by fastforce
qed

text \<open>The identities given out are \<open>1, \<dots>, n\<close>, so that the largest one in use tells how many there are.\<close>

lemma max_of_eq: "max_of xs = Max (insert 0 (set xs))"
  unfolding max_of_def using Max.set_eq_fold [of 0 xs] by simp

lemma max_identity:
  assumes "um_wf qs" "\<forall>e\<in>set qs. id_valid (fst e) \<and> id_value (fst e) < nxt" "unat nxt = Suc (length qs)"
    and "set xs = (\<lambda>e. id_value (fst e)) ` set qs"
  shows "unat (max_of xs) = length qs"
proof (cases "qs = []")
  case False
  let ?S = "unat ` set xs"
  have inj: "inj_on (\<lambda>e. id_value (fst e)) (set qs)"
    using assms(1) by (auto simp: um_wf_def distinct_map inj_on_def ident.expand)
  have "card ?S = card (set xs)"
    by (rule card_image) (auto intro: inj_onI word_unat_eq_iff [THEN iffD2])
  also have "\<dots> = length qs"
    using card_image [OF inj] distinct_card [of qs] assms(1,4) by (simp add: um_wf_def distinct_map)
  finally have "card ?S = card {1..length qs}"
    by simp
  moreover have "?S \<subseteq> {1..length qs}"
    using assms(2,3) unfolding assms(4) by (auto simp: id_valid_def word_less_nat_alt Suc_le_eq unat_gt_0)
  ultimately have S: "?S = {1..length qs}"
    by (intro card_subset_eq) simp_all
  then obtain x where x: "x \<in> set xs" "unat x = length qs"
    using False by (metis (no_types, lifting) Suc_le_eq atLeastAtMost_iff imageE length_greater_0_conv One_nat_def order_refl)
  have "y \<le> x" if "y \<in> insert 0 (set xs)" for y
    using that S x(2) by (auto simp: word_le_nat_alt)
  then have "max_of xs = x"
    using x(1) by (auto simp: max_of_eq intro!: Max_eqI)
  then show ?thesis
    using x(2) by simp
qed (use assms(4) in \<open>simp add: max_of_def\<close>)

lemma key_distinct:
  assumes "um_wf qs" "\<forall>e\<in>set qs. um_find names (queue_key (snd e)) = Some (fst e)"
  shows "distinct (map (\<lambda>q. queue_key q) (map snd qs))"
proof -
  have "inj_on (\<lambda>e. queue_key (snd e)) (set qs)"
  proof (rule inj_onI)
    fix d e
    assume "d \<in> set qs" "e \<in> set qs" "queue_key (snd d) = queue_key (snd e)"
    then have "fst d = fst e"
      using assms(2) by (metis option.inject)
    then show "d = e"
      using \<open>d \<in> set qs\<close> \<open>e \<in> set qs\<close> assms(1) by (metis (no_types, lifting) distinct_map inj_onD um_wf_def)
  qed
  then show ?thesis
    using assms(1) by (simp add: distinct_map um_wf_def comp_def)
qed

text \<open>A reloaded resource offers what the resource did.\<close>

lemma reloaded_resource_frame [simp]:
  "rr_id (reloaded_resource e x) = rr_id x" "rr_name (reloaded_resource e x) = rr_name x" "rr_owner (reloaded_resource e x) = rr_owner x"
  "rr_classes (reloaded_resource e x) = rr_classes x" "rr_pools (reloaded_resource e x) = rr_pools x"
  "av_grants (rr_authority (reloaded_resource e x)) = av_grants (rr_authority x)" "av_epoch (rr_authority (reloaded_resource e x)) = e"
  by (simp_all add: reloaded_resource_def with_epoch_def kill_backends_def unbound_authority_def)

text \<open>What a step of the recovery may do to the records: the queues that are \<open>good\<close> keep their invariant.\<close>

locale table_reload =
  fixes T :: "queue_record \<Rightarrow> queue_record" and R :: "resource_record \<Rightarrow> resource_record" and good :: "queue_record \<Rightarrow> bool"
  assumes T_keeps: "qr_def (T q) = qr_def q"
    and T_inv: "queue_inv config q \<Longrightarrow> good q \<Longrightarrow> queue_inv config (T q)"
    and R_keeps: "rr_id (R x) = rr_id x" "rr_owner (R x) = rr_owner x" "rr_classes (R x) = rr_classes x"
      "rr_pools (R x) = rr_pools x" "av_grants (rr_authority (R x)) = av_grants (rr_authority x)"
begin

lemmas keeps = T_keeps R_keeps

lemma reloads_queues:
  assumes "reloads T R f g" "core_wf (core f)"
  shows "set (fb_queues g) = (\<lambda>e. (fst e, T (snd e))) ` set (fb_queues f)" "length (fb_queues g) = length (fb_queues f)"
  using assms same_keys [of "fb_queues f" "fb_queues g" T] by (simp_all add: reloads_def core_wf_def find_queue_def)

lemma reloads_next:
  assumes "reloads T R f g" "core_wf (core f)"
  shows "fb_next_queue_id g = fb_next_queue_id f"
proof -
  have e: "um_wf (fb_queues f)" "\<forall>e\<in>set (fb_queues f). id_valid (fst e) \<and> id_value (fst e) < fb_next_queue_id f"
      "\<forall>e\<in>set (fb_queues f). qd_id (qr_def (snd e)) = fst e" and caps: "unat (fb_next_queue_id f) = Suc (length (fb_queues f))"
    using assms(2) by (simp_all add: core_wf_def entry_wf_def capacity_wf_def)
  have "unat (max_of (map (\<lambda>q. id_value (qd_id (qr_def q))) (map snd (fb_queues g)))) = length (fb_queues f)"
    using max_identity [OF e(1,2) caps] e(3) by (force simp: reloads_queues(1) [OF assms] image_image keeps)
  moreover have "length (fb_queues f) < 2 ^ 64 - 1"
    using caps unat_lt_exp [of "fb_next_queue_id f"] by simp
  ultimately have "unat (fb_next_queue_id g) = unat (fb_next_queue_id f)"
    using assms(1) caps by (simp add: reloads_def unat_word_ariths)
  then show ?thesis
    by (simp add: word_unat_eq_iff)
qed

lemma reloads_names:
  assumes "reloads T R f g" "core_wf (core f)" "(i, x) \<in> set (fb_queues f)"
  shows "um_find (fb_queue_names g) (queue_key x) = Some i"
proof -
  have entries: "\<forall>e\<in>set (fb_queues f). entry_wf (core f) e" and wf: "um_wf (fb_queues g)"
    using assms(1,2) by (simp_all add: core_wf_def reloads_def)
  have "\<forall>e\<in>set (fb_queues g). um_find (fb_queue_names f) (queue_key (snd e)) = Some (fst e)"
    using entries by (auto simp: reloads_queues(1) [OF assms(1,2)] entry_wf_def keeps)
  from fold_names_find [OF key_distinct [OF wf this], of "T x" um_empty]
  have "T x \<in> set (map snd (fb_queues g)) \<Longrightarrow> um_find (fb_queue_names g) (queue_key x) = Some (qd_id (qr_def x))"
    using assms(1) by (simp add: reloads_def keeps)
  moreover have "T x \<in> set (map snd (fb_queues g))"
    using assms(3) by (force simp: reloads_queues(1) [OF assms(1,2)])
  ultimately show ?thesis
    using entries assms(3) by (auto simp: entry_wf_def)
qed

lemma reloads_entry:
  assumes "reloads T R f g" "core_wf (core f)" "fb_config g = fb_config f" "(i, x) \<in> set (fb_queues f)" "good x"
  shows "entry_wf (core g) (i, T x)"
proof -
  have x: "qd_id (qr_def x) = i" "queue_inv (fb_config f) x" "placed (fb_resources f) (qr_def x)" "id_valid i" "id_value i < fb_next_queue_id f"
    using assms(2,4) by (auto simp: core_wf_def entry_wf_def)
  have "placed (fb_resources g) (qr_def x)"
    using x(3) assms(1) by (auto simp: placed_def reloads_def find_resource_def keeps)
  then show ?thesis
    using x assms(3) T_inv [OF x(2) assms(5)] reloads_names [OF assms(1,2,4)] reloads_next [OF assms(1,2)] by (simp add: entry_wf_def keeps)
qed

lemma reloads_resources:
  assumes "reloads T R f g" "core_wf (core f)" "fb_config g = fb_config f"
  shows "length (fb_resources g) = length (fb_resources f)" "\<forall>e\<in>set (fb_resources g). resource_wf (core g) e"
proof -
  define S where "S = (\<lambda>x. (R x)\<lparr>rr_queue_count := count_in (fb_queues g) (rr_id x)\<rparr>)"
  have "\<forall>i. um_find (fb_resources g) i = map_option S (um_find (fb_resources f) i)"
    using assms(1) by (simp add: reloads_def find_resource_def S_def)
  then have r: "set (fb_resources g) = (\<lambda>e. (fst e, S (snd e))) ` set (fb_resources f)" "length (fb_resources g) = length (fb_resources f)"
    using assms(1,2) same_keys [of "fb_resources f" "fb_resources g" S] by (simp_all add: core_wf_def reloads_def)
  have "\<forall>e\<in>set (fb_resources f). resource_wf (core f) e"
    using assms(2) by (simp add: core_wf_def)
  then show "\<forall>e\<in>set (fb_resources g). resource_wf (core g) e"
    using assms(3) by (auto simp: r(1) S_def resource_wf_def keeps)
  show "length (fb_resources g) = length (fb_resources f)"
    by (rule r(2))
qed

theorem reloads_wf:
  assumes "reloads T R f g" "core_wf (core f)" "\<forall>e\<in>set (fb_queues f). good (snd e)" "fb_config g = fb_config f"
    and "fb_plans g \<in> {[], fb_plans f}" "fb_pending g \<in> {[], fb_pending f}"
  shows "core_wf (core g)"
proof -
  have "\<forall>e\<in>set (fb_queues g). entry_wf (core g) e"
    using reloads_entry [OF assms(1,2,4)] assms(3) by (auto simp: reloads_queues(1) [OF assms(1,2)])
  moreover have "capacity_wf (core g)"
    using assms(2,4-6) reloads_queues(2) [OF assms(1,2)] reloads_resources(1) [OF assms(1,2,4)] reloads_next [OF assms(1,2)]
    by (auto simp: core_wf_def capacity_wf_def)
  moreover have "um_find (fb_queues g) k \<noteq> None \<longleftrightarrow> um_find (fb_queues f) k \<noteq> None" for k
    using assms(1) by (simp add: reloads_def find_queue_def)
  ultimately show ?thesis
    using assms(1,2,5) reloads_resources(2) [OF assms(1,2,4)] by (auto simp: core_wf_def reloads_def um_wf_def)
qed

end

text \<open>The tables read back from a snapshot, those tables with the evidence marked, and the tables that stay as they are.\<close>

interpretation scanned: table_reload "\<lambda>q. restored_queue (forget_last q)" "reloaded_resource e" "\<lambda>q. qr_lifecycle q \<noteq> Lc_quiesced" for e
  by unfold_locales (simp_all add: scanned_queue_inv)

interpretation reloaded: table_reload reloaded_queue "reloaded_resource e" "\<lambda>q. qr_lifecycle q \<noteq> Lc_quiesced" for e
  by unfold_locales (simp_all add: reloaded_queue_inv)

interpretation kept: table_reload "\<lambda>q. q" "\<lambda>x. x" "\<lambda>_. True"
  by unfold_locales simp_all

text \<open>The queue counts of a well-formed fabric are restored, too.\<close>

lemma reloads_resource:
  assumes "reloads reloaded_queue (reloaded_resource e) f g" "core_wf (core f)"
  shows "find_resource g i = map_option (reloaded_resource e) (find_resource f i)"
proof (cases "find_resource f i")
  case (Some x)
  then have "resource_wf (core f) (i, x)"
    using assms(2) um_find_SomeD [of "fb_resources f" i x] by (simp add: core_wf_def find_resource_def)
  then have "rr_queue_count x = count_in (fb_queues f) (rr_id x)"
    by (simp add: resource_wf_def)
  moreover have "count_in (fb_queues g) k = count_in (fb_queues f) k" for k
    unfolding count_in_def using assms
    by (intro same_keys_filter [where T = reloaded_queue and P = "\<lambda>q. qd_resource (qr_def q) = k"]) (auto simp: reloads_def core_wf_def find_queue_def)
  moreover have "(reloaded_resource e x)\<lparr>rr_queue_count := rr_queue_count x\<rparr> = reloaded_resource e x"
    by (simp add: reloaded_resource_def with_epoch_def kill_backends_def unbound_authority_def)
  ultimately show ?thesis
    using assms(1) Some by (simp add: reloads_def)
qed (use assms(1) in \<open>simp add: reloads_def\<close>)

lemma recover_snapshot_epoch:
  assumes "recover J n = (st, g)" "ok st" "fb_journal n = Some j" "jo_records J (snd (jo_open J j)) = build_snapshot_locked f"
  shows "fb_epoch f < fb_epoch g"
  using recover_ok [OF assms(1-3)] unfolding assms(4) by (simp add: build_snapshot_locked_def decode_encode_epoch_state epoch_state_of_def)

section \<open>Mutations after the checkpoint\<close>

text \<open>Records that a journal gets after a checkpoint while the topology stays: attempts, commits and epochs.\<close>

definition mutation_tail :: "journal_record list \<Rightarrow> bool" where
  "mutation_tail recs \<longleftrightarrow> list_all (\<lambda>rec. jr_type rec \<noteq> Jr_resource_state \<and> jr_type rec \<noteq> Jr_queue_state) recs"

lemma tail_scanned:
  assumes "mutation_tail recs"
  shows "fb_resources (rs_fabric (restore_records recs s)) = fb_resources (rs_fabric s)"
    "fb_queues (rs_fabric (restore_records recs s)) = fb_queues (rs_fabric s)"
    "fb_plans (rs_fabric (restore_records recs s)) = fb_plans (rs_fabric s)"
    "fb_pending (rs_fabric (restore_records recs s)) = fb_pending (rs_fabric s)"
    "fb_config (rs_fabric (restore_records recs s)) = fb_config (rs_fabric s)"
proof -
  have step: "core (rs_fabric (restore_record rec s)) = core (rs_fabric s)"
    if "jr_type rec \<noteq> Jr_resource_state" "jr_type rec \<noteq> Jr_queue_state" for rec and s :: "'a restore_state"
    using that by (auto simp: restore_record_def restore_epoch_def restore_begin_def restore_commit_def note_corrupt_def Let_def core_def note_recovery_def
        split: journal_record_type.splits sum.splits)
  have "core (rs_fabric (restore_records recs s)) = core (rs_fabric s)"
    using assms by (induction recs arbitrary: s) (auto simp: restore_records_def mutation_tail_def step)
  from coreD [OF this] show "fb_resources (rs_fabric (restore_records recs s)) = fb_resources (rs_fabric s)"
    "fb_queues (rs_fabric (restore_records recs s)) = fb_queues (rs_fabric s)"
    "fb_plans (rs_fabric (restore_records recs s)) = fb_plans (rs_fabric s)"
    "fb_pending (rs_fabric (restore_records recs s)) = fb_pending (rs_fabric s)"
    "fb_config (rs_fabric (restore_records recs s)) = fb_config (rs_fabric s)"
    by simp_all
qed

lemma rebuild_tables:
  "fb_queues (rebuild_indexes_locked f) = fb_queues f" "fb_plans (rebuild_indexes_locked f) = fb_plans f"
  "fb_pending (rebuild_indexes_locked f) = fb_pending f" "fb_config (rebuild_indexes_locked f) = fb_config f"
  "fb_resources (rebuild_indexes_locked f) = um_map (\<lambda>x. x\<lparr>rr_queue_count := count_in (fb_queues f) (rr_id x)\<rparr>) (fb_resources f)"
  "fb_queue_names (rebuild_indexes_locked f) = fold (\<lambda>q m. um_put (queue_key q) (qd_id (qr_def q)) m) (map snd (fb_queues f)) um_empty"
  "fb_next_queue_id (rebuild_indexes_locked f) = max_of (map (\<lambda>q. id_value (qd_id (qr_def q))) (map snd (fb_queues f))) + 1"
  by (simp_all add: rebuild_indexes_locked_def Let_def count_in_def filter_map comp_def)

lemma rebuild_wf:
  assumes "core_wf (core f)"
  shows "core_wf (core (rebuild_indexes_locked f))"
proof (rule kept.reloads_wf [OF _ assms])
  show "reloads (\<lambda>q. q) (\<lambda>x. x) f (rebuild_indexes_locked f)"
    using assms by (simp add: reloads_def find_resource_def find_queue_def rebuild_tables core_wf_def option.map_ident)
qed (simp_all add: rebuild_tables)

lemma adopt_wf:
  assumes "core_wf (core f)" "resting f" "um_wf (fb_resources (rs_fabric s))" "um_wf (fb_queues (rs_fabric s))"
    and "\<forall>i. find_resource (rs_fabric s) i = map_option unbound_authority (find_resource f i)"
    and "\<forall>i. find_queue (rs_fabric s) i = map_option (\<lambda>q. restored_queue (forget_last q)) (find_queue f i)"
    and "fb_plans (rs_fabric s) = []" "fb_pending (rs_fabric s) = []" "fb_config (rs_fabric s) = fb_config f"
  shows "core_wf (core (adopt_epoch e s (disconnect_backends (rs_fabric s))))"
proof (rule scanned.reloads_wf [OF _ assms(1)])
  let ?p = "adopt_epoch e s (disconnect_backends (rs_fabric s))"
  show "reloads (\<lambda>q. restored_queue (forget_last q)) (reloaded_resource e) f ?p"
    using assms(3-6) by (simp add: reloads_def find_resource_def find_queue_def adopt_epoch_def disconnect_backends_def Let_def rebuild_tables
        option.map_comp comp_def reloaded_resource_def with_epoch_def kill_backends_def unbound_authority_def)
  show "\<forall>x\<in>set (fb_queues f). qr_lifecycle (snd x) \<noteq> Lc_quiesced"
    using assms(2) by (simp add: resting_def)
qed (use assms(7-9) in \<open>simp_all add: adopt_epoch_def disconnect_backends_def Let_def rebuild_tables\<close>)

lemma core_report [simp]: "core (f\<lparr>fb_recovery := x\<rparr>) = core f"
  by (simp add: core_def)

text \<open>A replayed mutation refines the abstract machine like any other.\<close>

lemma apply_spec_config: "apply_spec f r out c \<Longrightarrow> co_config c = fb_config f"
  by (erule apply_spec.cases) simp_all

lemma replay_one_wf:
  assumes "core_wf (core f)" "config_ok (fb_config f)"
  shows "core_wf (core (replay_one J r f)) \<and> fb_config (replay_one J r f) = fb_config f"
proof -
  obtain out evs g where g: "apply_locked J r (f\<lparr>fb_replaying := True\<rparr>) = (out, evs, g)"
    by (metis prod_cases3)
  note spec = apply_locked_refines [OF g]
  have flags: "core (h\<lparr>fb_replaying := b\<rparr>) = (core h)\<lparr>co_flags := (fb_shutting_down h, b)\<rparr>" for h :: "'a fabric" and b
    by (simp add: core_def)
  have val: "validated_or_ack r" if "out = Inr o'" for o'
    using that g by (auto simp: validated_or_ack_def apply_locked_def reject_declare_def split: prod.splits if_splits)
  have "core_wf (core g)"
    using apply_spec_wf [OF spec] assms val by (simp add: flags)
  moreover have "fb_config g = fb_config f"
    using apply_spec_config [OF spec] by simp
  ultimately show ?thesis
    by (cases out) (simp_all add: replay_one_def apply_replay_locked_def g note_recovery_def flags)
qed

lemma fold_replay_wf:
  "core_wf (core f) \<Longrightarrow> config_ok (fb_config f) \<Longrightarrow>
   core_wf (core (fold (replay_one J) rs f)) \<and> fb_config (fold (replay_one J) rs f) = fb_config f"
  by (induction rs arbitrary: f) (simp_all add: replay_one_wf)

lemma require_revalidation_inv: "queue_inv c q \<Longrightarrow> queue_inv c (require_revalidation q)"
  by (rule queue_inv_invalidated) (auto simp: require_revalidation_def invalidate_occupancy_def occupancy_authoritative_def)

lemma revalidate_wf:
  assumes "core_wf (core f)"
  shows "core_wf (core (revalidate_queues f)) \<and> fb_config (revalidate_queues f) = fb_config f"
proof -
  have "core (revalidate_queues f) = (core f)\<lparr>co_queues := um_map require_revalidation (fb_queues f)\<rparr>"
    by (simp add: revalidate_queues_def core_def)
  then show ?thesis
    using core_wf_map_queues [OF assms, of require_revalidation] require_revalidation_inv
    by (simp add: require_revalidation_def revalidate_queues_def)
qed

lemma orphaned_wf:
  assumes "core_wf (core f)"
  shows "core_wf (core (orphaned_begin r f)) \<and> fb_config (orphaned_begin r f) = fb_config f"
proof (cases "find_queue f (mr_queue r)")
  case (Some q)
  define q' where "q' = q\<lparr>qr_applicability := set_flag (qr_applicability q) App_stale,
    qr_occupancy := invalidate_occupancy Fr_stale_restart (qr_occupancy q), qr_staleness_events := qr_staleness_events q + 1\<rparr>"
  have q: "um_find (co_queues (core f)) (mr_queue r) = Some q"
    using Some by (simp add: find_queue_def)
  have "queue_inv (fb_config f) q"
    using core_wf_find(1) [OF assms q] by (simp add: entry_wf_def)
  then have "queue_inv (fb_config f) q'"
    by (rule queue_inv_invalidated) (simp_all add: q'_def invalidate_occupancy_def occupancy_authoritative_def)
  then have "core_wf ((core f)\<lparr>co_queues := um_put (mr_queue r) q' (fb_queues f)\<rparr>)"
    using core_wf_put_queue [OF assms q, of q'] core_wf_find(2) [OF assms q] by (simp add: queue_follows_def q'_def)
  moreover have "core (orphaned_begin r f) = (core f)\<lparr>co_queues := um_put (mr_queue r) q' (fb_queues f)\<rparr>"
    using Some by (simp add: orphaned_begin_def Let_def find_queue_def q'_def) (simp add: core_def)
  moreover have "fb_config (orphaned_begin r f) = fb_config f"
    using Some by (simp add: orphaned_begin_def Let_def find_queue_def note_recovery_def)
  ultimately show ?thesis
    by simp
qed (use assms in \<open>simp_all add: orphaned_begin_def Let_def find_queue_def note_recovery_def core_def\<close>)

lemma fold_orphaned_wf:
  "core_wf (core f) \<Longrightarrow>
   core_wf (core (fold (\<lambda>e. orphaned_begin (snd e)) es f)) \<and> fb_config (fold (\<lambda>e. orphaned_begin (snd e)) es f) = fb_config f"
  by (induction es arbitrary: f) (simp_all add: orphaned_wf)

lemma recover_replay_wf:
  assumes "core_wf (core f)" "config_ok (fb_config f)"
  shows "core_wf (core (recover_replay J s f)) \<and> fb_config (recover_replay J s f) = fb_config f"
proof -
  define h where "h = fold (\<lambda>e. orphaned_begin (snd e)) (rs_outstanding s) (revalidate_queues (fold (replay_one J) (rs_replay_order s) f))"
  have "core_wf (core h) \<and> fb_config h = fb_config f"
    using fold_replay_wf [OF assms] revalidate_wf fold_orphaned_wf unfolding h_def by metis
  moreover have "core (recover_replay J s f) = core (rebuild_indexes_locked h)" "fb_config (recover_replay J s f) = fb_config h"
    by (simp_all add: recover_replay_def h_def Let_def rebuild_tables)
  ultimately show ?thesis
    using rebuild_wf [of h] by simp
qed

theorem reload_wf:
  assumes "recover J n = (st, g)" "ok st" "fb_journal n = Some j" "fb_resources n = []" "fb_queues n = []" "fb_plans n = []" "fb_pending n = []"
    and "jo_records J (snd (jo_open J j)) = build_snapshot_locked f @ tail" "mutation_tail tail" "snapshot_ok f"
    and "core_wf (core f)" "resting f" "fb_config n = fb_config f" "config_ok (fb_config f)"
  shows "core_wf (core g) \<and> fb_config g = fb_config f"
proof -
  obtain f1 e h where d: "core f1 = (core n)\<lparr>co_epoch := Counter 1\<rparr>" "core g = core h"
      "h = (let s = restore_records (build_snapshot_locked f @ tail) (start_restore f1)
            in recover_replay J s (adopt_epoch e s (disconnect_backends (rs_fabric s))))"
    using recover_decompose [OF assms(1-3)] unfolding assms(8) by metis
  define s0 where "s0 = restore_records (build_snapshot_locked f) (start_restore f1)"
  define s where "s = restore_records tail s0"
  have h: "h = recover_replay J s (adopt_epoch e s (disconnect_backends (rs_fabric s)))"
    by (simp add: d(3) s_def s0_def restore_records_def Let_def)
  have f1: "fb_resources f1 = []" "fb_queues f1 = []" "fb_plans f1 = []" "fb_pending f1 = []" "fb_config f1 = fb_config f"
    using d(1) assms(4-7,13) by (simp_all add: core_def)
  note sc = snapshot_scanned [OF assms(10) f1(1,2) s0_def]
  note t = tail_scanned [OF assms(9), of s0, folded s_def]
  define p where "p = adopt_epoch e s (disconnect_backends (rs_fabric s))"
  have "core_wf (core p)"
    unfolding p_def
    by (rule adopt_wf [OF assms(11,12)]) (use sc t f1 in \<open>simp_all add: find_resource_def find_queue_def\<close>)
  moreover have "fb_config p = fb_config f"
    using t(5) sc(10) f1(5) by (simp add: p_def adopt_epoch_def disconnect_backends_def Let_def rebuild_tables)
  ultimately show ?thesis
    using recover_replay_wf [of p J s] assms(14) coreD(1) [OF d(2)] d(2) by (simp add: h p_def)
qed

section \<open>A quiesced queue does not survive the audit\<close>

lemma audit_keeps: "set (au_violations a) \<subseteq> set (au_violations (fold (audit_queue f) qs a))"
proof (induction qs arbitrary: a)
  case (Cons e qs)
  have "set (au_violations a) \<subseteq> set (au_violations (audit_queue f e a))"
    by (auto simp: audit_queue_def Let_def split: option.split)
  then show ?case
    using Cons.IH [of "audit_queue f e a"] by auto
qed simp

lemma audit_evidence:
  assumes "e \<in> set (fb_queues f)" "find_resource f (qd_resource (qr_def (snd e))) = Some x" "v \<in> set (evidence_violations (snd e))"
  shows "v \<in> set (validate_invariants f)"
proof -
  have "v \<in> set (au_violations (fold (audit_queue f) qs a))" if "e \<in> set qs" for qs a
    using that
  proof (induction qs arbitrary: a)
    case (Cons d qs)
    show ?case
    proof (cases "d = e")
      case True
      have "v \<in> set (au_violations (audit_queue f e a))"
        using assms(2,3) by (simp add: audit_queue_def Let_def)
      then show ?thesis
        using audit_keeps True by fastforce
    qed (use Cons in simp)
  qed simp
  then show ?thesis
    using assms(1) by (simp add: validate_invariants_def Let_def)
qed

theorem quiesced_reload_reported:
  assumes "reloads reloaded_queue (reloaded_resource e) f g" "core_wf (core f)" "(i, q) \<in> set (fb_queues f)" "qr_lifecycle q = Lc_quiesced"
  shows "\<exists>tag. ''INV-DRAIN: quiesced queue has no completed drain phase: '' @ tag \<in> set (validate_invariants g)"
proof -
  have q: "queue_inv (fb_config f) q" "placed (fb_resources f) (qr_def q)"
    using assms(2,3) by (auto simp: core_wf_def entry_wf_def)
  have "um_wf (fb_queues f)" "um_wf (fb_queues g)"
    using assms(1,2) by (simp_all add: reloads_def core_wf_def)
  then have mem: "(i, reloaded_queue q) \<in> set (fb_queues g)"
    using assms(1,3) by (auto simp: reloads_def find_queue_def um_find_mem [symmetric])
  obtain x where "find_resource g (qd_resource (qr_def q)) = Some x"
    using assms(1) q(2) by (auto simp: reloads_def placed_def find_resource_def)
  moreover have "''INV-DRAIN: quiesced queue has no completed drain phase: '' @ queue_tag_of (reloaded_queue q)
      \<in> set (evidence_violations (reloaded_queue q))"
    using q(1) assms(4) by (simp add: evidence_violations_def Let_def queue_inv_def violation_def)
  ultimately show ?thesis
    using audit_evidence [OF mem] by auto
qed

end
