(* ===== verification/QF_Reachable.thy ===== *)
theory QF_Reachable
  imports QF_Reload
begin

text \<open>
  The fabric as a state machine: one step per public operation, the states reachable from a new
  fabric, the invariant of all of them, and what the self-audit can report there.
\<close>

section \<open>Steps and reachable states\<close>

inductive fabric_step :: "'j journal_ops \<Rightarrow> 'j fabric \<Rightarrow> 'j fabric \<Rightarrow> bool" for J :: "'j journal_ops" and f :: "'j fabric" where
  by_apply: "fabric_apply J r f = (out, f') \<Longrightarrow> fabric_step J f f'"
| by_declare_resource: "declare_resource J name own prov f = (res, f') \<Longrightarrow> fabric_step J f f'"
| by_grant: "grant_capabilities J k own caps actor e prov f = (st, f') \<Longrightarrow> fabric_step J f f'"
| by_declare_class: "declare_class J k name prio qos actor e prov f = (cid, f') \<Longrightarrow> fabric_step J f f'"
| by_declare_pool: "declare_pool J k name cap actor e prov f = (pid, f') \<Longrightarrow> fabric_step J f f'"
| by_register: "register_backend J k inc actor e prov f = (bid, f') \<Longrightarrow> fabric_step J f f'"
| by_mark_dead: "mark_backend_dead J b inc actor e f = (st, f') \<Longrightarrow> fabric_step J f f'"
| by_shutdown: "fabric_shutdown J f = (st, f') \<Longrightarrow> fabric_step J f f'"
| by_advance_epoch: "advance_epoch J actor prov f = (ep, f') \<Longrightarrow> fabric_step J f f'"
| by_invalidate: "invalidate_evidence i actor e why f = (st, f') \<Longrightarrow> fabric_step J f f'"
| by_plan: "plan_backend_apply J i g actor prov f = (plan, f') \<Longrightarrow> fabric_step J f f'"
| by_commit: "commit_backend_apply J bp a prov f = (out, f') \<Longrightarrow> fabric_step J f f'"
| by_abort: "abort_backend_apply J bp why f = (st, f') \<Longrightarrow> fabric_step J f f'"
| by_refresh: "refresh_freshness f = (st, f') \<Longrightarrow> fabric_step J f f'"
| by_compact: "compact J f = (st, f') \<Longrightarrow> fabric_step J f f'"

text \<open>
  A fabric starts with \<^verbatim>\<open>recover\<close>, on a journal without records or without a journal. Recovery from
  a journal with records is not a step here: what it restores is as good as the records.
\<close>

inductive reachable :: "'j journal_ops \<Rightarrow> fabric_config \<Rightarrow> 'j fabric \<Rightarrow> bool" for J :: "'j journal_ops" and config :: fabric_config where
  new: "reachable J config (new_fabric config clock journal sink seed)"
| recovered: "recover J (new_fabric config clock (Some j) sink seed) = (st, f) \<Longrightarrow> ok st \<Longrightarrow>
    jo_records J (snd (jo_open J j)) = [] \<Longrightarrow> reachable J config f"
| reloaded: "reachable J config f \<Longrightarrow> snapshot_ok f \<Longrightarrow> resting f \<Longrightarrow>
    recover J (new_fabric config clock (Some j) sink seed) = (st, g) \<Longrightarrow> ok st \<Longrightarrow>
    jo_records J (snd (jo_open J j)) = build_snapshot_locked f @ tail \<Longrightarrow> mutation_tail tail \<Longrightarrow> reachable J config g"
| restarted: "reachable J config f \<Longrightarrow> fb_journal f = None \<Longrightarrow> recover J f = (st, f') \<Longrightarrow> reachable J config f'"
| stepped: "reachable J config f \<Longrightarrow> fabric_step J f f' \<Longrightarrow> reachable J config f'"

section \<open>The invariant\<close>

definition fabric_wf :: "fabric_config \<Rightarrow> 'j fabric \<Rightarrow> bool" where
  "fabric_wf config f \<longleftrightarrow> fb_config f = config \<and> core_wf (core f)"

lemma topology_step_config: "topology_step f c \<Longrightarrow> co_config c = fb_config f"
  by (erule topology_step.cases) simp_all

lemma topology_keeps:
  assumes "topology_step f (core f')" "fabric_wf config f" "config_ok config"
  shows "fabric_wf config f'"
  using topology_step_wf [OF assms(1)] topology_step_config [OF assms(1)] assms(2,3) by (simp add: fabric_wf_def)

lemma advance_epoch_config: "advance_epoch J actor prov f = (out, f') \<Longrightarrow> fb_config f' = fb_config f"
proof (erule advance_epoch_cases)
  fix st assume "core f' = core f"
  then show ?thesis
    by (rule coreD(1))
next
  fix e g assume g: "core g = core f" "f' = publish_epoch e g"
  have "co_config (core f') = co_config (core g)"
    unfolding g(2) core_publish_epoch by simp
  then show ?thesis
    using coreD(1) [OF g(1)] by simp
qed

lemma core_config_eq: "core f' = c \<Longrightarrow> co_config c = fb_config f \<Longrightarrow> fb_config f' = fb_config f"
  by auto

lemma commit_config:
  assumes "commit_backend_apply J plan a prov f = (out, f')"
  shows "fb_config f' = fb_config f"
  using commit_backend_apply_cases [OF assms]
proof
  assume "\<exists>st. out = Inl st \<and> core f' = core f"
  then show ?thesis
    using coreD(1) by blast
next
  assume "\<exists>(g :: 'a fabric) c. um_find (fb_plans f) (bpl_attempt plan) \<noteq> None \<and> core g = core f
         \<and> fb_clock_watermark f \<le> fb_clock_watermark g \<and> fb_provenance g = fb_provenance f
         \<and> (\<exists>q. find_queue f (bpl_queue plan) = Some q \<and> qd_generation (qr_def q) = bpl_expected_generation plan)
         \<and> apply_spec g (commit_request plan a prov f) out c
         \<and> core f' = (case out of Inl _ \<Rightarrow> c | Inr _ \<Rightarrow> core_dropped (bpl_attempt plan) c)"
  then obtain g :: "'a fabric" and c where g: "core g = core f" "apply_spec g (commit_request plan a prov f) out c"
      "core f' = (case out of Inl _ \<Rightarrow> c | Inr _ \<Rightarrow> core_dropped (bpl_attempt plan) c)"
    by blast
  have "co_config c = fb_config f"
    using apply_spec_config [OF g(2)] coreD(1) [OF g(1)] by simp
  then show ?thesis
    by (intro core_config_eq [OF g(3)]) (simp add: core_dropped_def split: sum.splits)
qed

lemma invalidate_config: "invalidate_evidence i actor e why f = (st, f') \<Longrightarrow> fb_config f' = fb_config f"
  using invalidate_evidence_cases [of i actor e why f st f'] by (auto elim!: core_config_eq)

lemma refresh_config: "refresh_freshness f = (st, f') \<Longrightarrow> fb_config f' = fb_config f"
  using refresh_freshness_ok [of f st f'] by (cases "fb_shutting_down f") (auto simp: refresh_freshness_def elim!: core_config_eq)

lemma plan_config: "plan_backend_apply J i g actor prov f = (out, f') \<Longrightarrow> fb_config f' = fb_config f"
  using plan_backend_apply_refused [of J i g actor prov f _ f'] plan_backend_apply_ok [of J i g actor prov f _ f']
  by (cases out) (auto simp: core_reserved_def elim!: core_config_eq dest: coreD(1))

lemma abort_config: "abort_backend_apply J plan why f = (st, f') \<Longrightarrow> fb_config f' = fb_config f"
  using abort_backend_apply_cases [of J plan why f st f']
  by (auto simp: core_dropped_def elim!: core_config_eq dest: coreD(1) split: if_splits)

theorem fabric_step_wf:
  assumes "fabric_step J f f'" "fabric_wf config f" "config_ok config"
  shows "fabric_wf config f'"
proof -
  have wf: "core_wf (core f)" "config_ok (fb_config f)" "um_wf (fb_resources f)"
    using assms(2,3) by (auto simp: fabric_wf_def core_wf_def)
  note topo = topology_keeps [OF _ assms(2,3)]
  from assms(1) show ?thesis
  proof cases
    case (by_apply r out)
    then show ?thesis
      using fabric_apply_wf [OF by_apply wf(1,2)] apply_spec_config [OF fabric_apply_refines [OF by_apply]] assms(2)
      by (simp add: fabric_wf_def)
  next
    case (by_declare_resource name own prov res)
    then show ?thesis by (rule topo [OF declare_resource_step])
  next
    case (by_grant k own caps actor e prov st)
    then show ?thesis by (rule topo [OF grant_capabilities_step])
  next
    case (by_declare_class k name prio qos actor e prov cid)
    then show ?thesis by (rule topo [OF declare_class_step])
  next
    case (by_declare_pool k name cap actor e prov pid)
    then show ?thesis by (rule topo [OF declare_pool_step])
  next
    case (by_register k inc actor e prov bid)
    then show ?thesis by (rule topo [OF register_backend_step])
  next
    case (by_mark_dead b inc actor e st)
    then show ?thesis by (rule topo [OF mark_backend_dead_step [OF _ wf(3)]])
  next
    case (by_shutdown st)
    then show ?thesis by (rule topo [OF fabric_shutdown_step [THEN conjunct1]])
  next
    case (by_advance_epoch actor prov ep)
    then show ?thesis
      using advance_epoch_wf [OF by_advance_epoch wf(1)] advance_epoch_config [OF by_advance_epoch] assms(2) by (simp add: fabric_wf_def)
  next
    case (by_invalidate i actor e why st)
    then show ?thesis
      using invalidate_evidence_wf [OF by_invalidate wf(1)] invalidate_config [OF by_invalidate] assms(2) by (simp add: fabric_wf_def)
  next
    case (by_plan i g actor prov plan)
    then show ?thesis
      using plan_wf [OF by_plan wf(1)] plan_config [OF by_plan] assms(2) by (simp add: fabric_wf_def)
  next
    case (by_commit bp a prov out)
    then show ?thesis
      using commit_wf [OF by_commit wf(1,2)] commit_config [OF by_commit] assms(2) by (simp add: fabric_wf_def)
  next
    case (by_abort bp why st)
    then show ?thesis
      using abort_wf [OF by_abort wf(1)] abort_config [OF by_abort] assms(2) by (simp add: fabric_wf_def)
  next
    case (by_refresh st)
    then show ?thesis
      using refresh_freshness_wf [OF by_refresh wf(1)] refresh_config [OF by_refresh] assms(2) by (simp add: fabric_wf_def)
  next
    case (by_compact st)
    then have "core f' = core f"
      using compact_cases by blast
    then show ?thesis
      using wf(1) assms(2) coreD(1) [of f' f] by (metis fabric_wf_def)
  qed
qed

lemma empty_core_wf:
  assumes "co_queues c = []" "co_resources c = []" "co_plans c = []" "co_pending c = []" "co_next_queue_id c = 1"
  shows "core_wf c"
  using assms by (simp add: core_wf_def capacity_wf_def um_wf_def)

lemma new_fabric_wf: "fabric_wf config (new_fabric config clock journal sink seed)"
  by (simp add: fabric_wf_def new_fabric_def empty_core_wf um_empty_def)

text \<open>Recovery from a journal without records yields an empty fabric under the first epoch.\<close>

lemma recover_empty:
  assumes "recover J f = (st, f')" "ok st" "fb_journal f = Some j" "jo_records J (snd (jo_open J j)) = []"
    and "fb_queues f = []" "fb_resources f = []"
  shows "fb_queues f' = [] \<and> fb_resources f' = [] \<and> fb_plans f' = fb_plans f \<and> fb_pending f' = fb_pending f
    \<and> fb_next_queue_id f' = 1 \<and> fb_config f' = fb_config f"
proof -
  have none: "restore_records [] s = s" "rs_fabric (start_restore g) = g" for s :: "'a restore_state" and g
    by (simp_all add: restore_records_def start_restore_def)
  obtain f1 :: "'a fabric" and e h where d: "core f1 = (core f)\<lparr>co_epoch := Counter 1\<rparr>"
      "h = (let s = restore_records (jo_records J (snd (jo_open J j))) (start_restore f1)
            in recover_replay J s (adopt_epoch e s (disconnect_backends (rs_fabric s))))" "core f' = core h"
    using recover_decompose [OF assms(1-3)] by metis
  have d2: "h = recover_replay J (start_restore f1) (adopt_epoch e (start_restore f1) (disconnect_backends f1))"
    using d(2) by (simp add: assms(4) none Let_def)
  have f1: "fb_queues f1 = []" "fb_resources f1 = []" "fb_plans f1 = fb_plans f" "fb_pending f1 = fb_pending f" "fb_config f1 = fb_config f"
    using d(1) assms(5,6) by (simp_all add: core_def)
  have "fb_queues h = [] \<and> fb_resources h = [] \<and> fb_plans h = fb_plans f \<and> fb_pending h = fb_pending f
      \<and> fb_next_queue_id h = 1 \<and> fb_config h = fb_config f"
    using f1 by (simp add: d2 Let_def start_restore_def recover_replay_def adopt_epoch_def disconnect_backends_def
        revalidate_queues_def rebuild_indexes_locked_def um_map_def max_of_def um_empty_def)
  then show ?thesis
    using coreD [OF d(3)] by simp
qed

lemma recover_without_journal:
  assumes "recover J f = (st, f')" "fb_journal f = None"
  shows "core f' = (core f)\<lparr>co_epoch := Counter 1\<rparr> \<and> ok st"
  using assms by (auto simp: recover_def recover_locked_def Let_def emit_events_def note_recovery_def core_def split: prod.splits)

theorem reachable_wf:
  assumes "reachable J config f" "config_ok config"
  shows "fabric_wf config f"
  using assms(1)
proof induction
  case (recovered clock j sink seed st f)
  then have "fb_queues f = [] \<and> fb_resources f = [] \<and> fb_plans f = [] \<and> fb_pending f = [] \<and> fb_next_queue_id f = 1
      \<and> fb_config f = config"
    using recover_empty [OF recovered(1,2) _ recovered(3)] by (simp add: new_fabric_def um_empty_def)
  then show ?case
    by (simp add: fabric_wf_def empty_core_wf)
next
  case (reloaded f clock j sink seed st g tail)
  define n where "n = new_fabric config clock (Some j) sink seed"
  have n: "fb_journal n = Some j" "fb_resources n = []" "fb_queues n = []" "fb_plans n = []" "fb_pending n = []" "fb_config n = config"
    by (simp_all add: n_def new_fabric_def um_empty_def)
  show ?case
    using reload_wf [OF reloaded(4) [folded n_def] reloaded(5) n(1-5) reloaded(6,7,2) _ reloaded(3)] reloaded(8) n(6) assms(2)
    by (simp add: fabric_wf_def)
next
  case (restarted f st f')
  have c: "core f' = (core f)\<lparr>co_epoch := Counter 1\<rparr>"
    using recover_without_journal [OF restarted(3,2)] by blast
  have "fb_config f' = fb_config f"
    by (rule core_config_eq [OF c]) simp
  then show ?case
    using restarted(4) unfolding fabric_wf_def c by simp
next
  case (stepped f f')
  then show ?case
    using fabric_step_wf assms(2) by blast
qed (rule new_fabric_wf)

text \<open>
  A journal from which a new process reaches a reachable state: an empty one, or a checkpoint of a reachable state
  with the mutations after it.
\<close>

definition restartable :: "'j journal_ops \<Rightarrow> fabric_config \<Rightarrow> 'j \<Rightarrow> bool" where
  "restartable J config j \<longleftrightarrow> jo_records J (snd (jo_open J j)) = []
     \<or> (\<exists>f tail. reachable J config f \<and> snapshot_ok f \<and> resting f \<and> mutation_tail tail
          \<and> jo_records J (snd (jo_open J j)) = build_snapshot_locked f @ tail)"

lemma reachable_restart:
  "restartable J config j \<Longrightarrow> recover J (new_fabric config clock (Some j) sink seed) = (st, f) \<Longrightarrow> ok st \<Longrightarrow> reachable J config f"
  unfolding restartable_def using reachable.recovered reachable.reloaded by metis

section \<open>Owners and authority epochs\<close>

text \<open>
  What an operation can do to the resources: leave them, add one under the current epoch, change one
  but not its owner nor the epoch of its authority, or move all of them to a new epoch.
\<close>

inductive resources_move :: "core_state \<Rightarrow> core_state \<Rightarrow> bool" for c c' :: core_state where
  left_alone: "co_epoch c' = co_epoch c \<Longrightarrow> co_resources c' = co_resources c \<Longrightarrow> resources_move c c'"
| one_added: "co_epoch c' = co_epoch c \<Longrightarrow> co_resources c' = um_emplace k y (co_resources c) \<Longrightarrow>
    av_epoch (rr_authority y) = co_epoch c \<Longrightarrow> resources_move c c'"
| one_changed: "co_epoch c' = co_epoch c \<Longrightarrow> um_find (co_resources c) k = Some x \<Longrightarrow>
    co_resources c' = um_put k y (co_resources c) \<Longrightarrow> rr_owner y = rr_owner x \<Longrightarrow>
    av_epoch (rr_authority y) = av_epoch (rr_authority x) \<Longrightarrow> resources_move c c'"
| all_advanced: "ctr_next (co_epoch c) = Inr (co_epoch c') \<Longrightarrow>
    co_resources c' = um_map (with_epoch (co_epoch c')) (co_resources c) \<Longrightarrow> resources_move c c'"

lemma apply_spec_moves: "apply_spec f r out c \<Longrightarrow> core g = core f \<Longrightarrow> resources_move (core g) c"
  by (erule apply_spec.cases) (auto simp: find_resource_def intro: resources_move.intros)

lemma topology_step_moves: "topology_step f c \<Longrightarrow> resources_move (core f) c"
  by (erule topology_step.cases)
     (auto simp: resource_follows_def declared_resource_def intro: resources_move.intros)

lemma core_moves: "core f' = core f \<Longrightarrow> resources_move (core f) (core f')"
  by (simp add: left_alone)

lemma advance_epoch_moves:
  assumes "advance_epoch J actor prov f = (out, f')"
  shows "resources_move (core f) (core f')"
  using assms
proof (cases rule: advance_epoch_cases)
  case (advanced e g)
  then show ?thesis
    using coreD(3) [OF advanced(4)] by (intro all_advanced) (simp_all add: core_publish_epoch)
qed (rule core_moves)

lemma commit_moves:
  assumes "commit_backend_apply J plan a prov f = (out, f')"
  shows "resources_move (core f) (core f')"
  using commit_backend_apply_cases [OF assms]
proof
  assume "\<exists>(g :: 'a fabric) c. um_find (fb_plans f) (bpl_attempt plan) \<noteq> None \<and> core g = core f
         \<and> fb_clock_watermark f \<le> fb_clock_watermark g \<and> fb_provenance g = fb_provenance f
         \<and> (\<exists>q. find_queue f (bpl_queue plan) = Some q \<and> qd_generation (qr_def q) = bpl_expected_generation plan)
         \<and> apply_spec g (commit_request plan a prov f) out c
         \<and> core f' = (case out of Inl _ \<Rightarrow> c | Inr _ \<Rightarrow> core_dropped (bpl_attempt plan) c)"
  then obtain g :: "'a fabric" and c where g: "core g = core f" "apply_spec g (commit_request plan a prov f) out c"
      "core f' = (case out of Inl _ \<Rightarrow> c | Inr _ \<Rightarrow> core_dropped (bpl_attempt plan) c)"
    by blast
  have same: "co_epoch (core f') = co_epoch c" "co_resources (core f') = co_resources c"
    unfolding g(3) by (simp_all add: core_dropped_def split: sum.split)
  have "resources_move (core f) c"
    by (rule apply_spec_moves [OF g(2) g(1) [symmetric]])
  then show ?thesis
    using same by cases (auto intro: resources_move.intros simp del: core_sel)
qed (use core_moves in blast)

lemma fabric_step_moves:
  assumes "fabric_step J f f'" "um_wf (fb_resources f)"
  shows "resources_move (core f) (core f')"
  using assms(1)
proof cases
  case (by_apply r out)
  then show ?thesis
    using apply_spec_moves [OF fabric_apply_refines] by blast
next
  case (by_mark_dead b inc actor e st)
  then show ?thesis
    using topology_step_moves mark_backend_dead_step [OF _ assms(2)] by blast
next
  case (by_shutdown st)
  then show ?thesis
    using topology_step_moves fabric_shutdown_step by blast
next
  case (by_invalidate i actor e why st)
  then show ?thesis
    using invalidate_evidence_cases [OF by_invalidate] by (auto intro: left_alone)
next
  case (by_plan i g actor prov out)
  then show ?thesis
    using plan_backend_apply_refused [of J i g actor prov f _ f'] plan_backend_apply_ok [of J i g actor prov f _ f']
    by (cases out) (auto simp: core_reserved_def intro: left_alone)
next
  case (by_abort bp why st)
  then show ?thesis
    using abort_backend_apply_cases [OF by_abort] by (auto simp: core_dropped_def intro: left_alone split: if_splits)
next
  case (by_refresh st)
  then show ?thesis
    using refresh_freshness_ok [OF by_refresh] by (cases "fb_shutting_down f") (auto simp: refresh_freshness_def intro: left_alone)
next
  case (by_compact st)
  then show ?thesis
    using compact_cases core_moves by blast
qed (auto intro: topology_step_moves declare_resource_step grant_capabilities_step declare_class_step declare_pool_step
      register_backend_step advance_epoch_moves commit_moves)

text \<open>So a resource keeps its owner, and the authorities stay at the epoch of the fabric.\<close>

definition authorities_current :: "'j fabric \<Rightarrow> bool" where
  "authorities_current f \<longleftrightarrow> ctr_valid (fb_epoch f) \<and> (\<forall>e\<in>set (fb_resources f). av_epoch (rr_authority (snd e)) = fb_epoch f)"

lemma resource_keeps_owner:
  assumes "resources_move (core f) (core f')" "find_resource f k = Some x"
  shows "\<exists>y. find_resource f' k = Some y \<and> rr_owner y = rr_owner x"
  using assms by cases (auto simp: find_resource_def um_find_emplace with_epoch_def split: option.splits)

lemma recover_epoch_valid:
  assumes "recover J f = (st, f')" "ok st"
  shows "ctr_valid (fb_epoch f')"
proof (cases "fb_journal f")
  case None
  then have "fb_epoch f' = Counter 1"
    using recover_without_journal [OF assms(1)] by (metis core_sel(2) core_state.select_convs(2) core_state.surjective core_state.update_convs(2))
  then show ?thesis
    by (simp add: ctr_valid_def)
next
  case (Some j)
  obtain f1 :: "'a fabric" and e h where d: "core f' = core h"
      "(let p = rs_previous_epoch (restore_records (jo_records J (snd (jo_open J j))) (start_restore f1))
        in if ctr_valid p then ctr_next p else Inr (Counter 1)) = Inr e"
      "h = (let s = restore_records (jo_records J (snd (jo_open J j))) (start_restore f1)
            in recover_replay J s (adopt_epoch e s (disconnect_backends (rs_fabric s))))"
    using recover_decompose [OF assms Some] by metis
  define s where "s = restore_records (jo_records J (snd (jo_open J j))) (start_restore f1)"
  have "fb_epoch h = e"
    unfolding d(3) s_def [symmetric] Let_def
    using adopt_epoch_settled [of "disconnect_backends (rs_fabric s)"] disconnected recover_replay_settled by blast
  moreover have "ctr_valid e"
    using d(2) ctr_next_Inr by (auto simp: s_def [symmetric] Let_def ctr_valid_def [of "Counter 1"] split: if_splits)
  ultimately show ?thesis
    using coreD(2) [OF d(1)] by simp
qed

lemma authorities_stay_current:
  assumes "resources_move (core f) (core f')" "authorities_current f" "um_wf (fb_resources f)"
  shows "authorities_current f'"
  using assms(1)
proof cases
  case (one_changed k x y)
  have "av_epoch (rr_authority x) = fb_epoch f"
    using assms(2) um_find_SomeD one_changed(2) unfolding authorities_current_def by fastforce
  then have "av_epoch (rr_authority (snd e)) = fb_epoch f" if "e \<in> set (um_put k y (fb_resources f))" for e
    using set_um_put_wf [OF assms(3) that] one_changed(5) assms(2) by (auto simp: authorities_current_def)
  then show ?thesis
    using one_changed(1,3) assms(2) by (simp add: authorities_current_def)
qed (use assms(2) in \<open>auto simp: authorities_current_def um_emplace_def set_um_map with_epoch_def dest: ctr_next_Inr split: option.splits\<close>)

section \<open>What the self-audit can report\<close>

text \<open>
  Four families of findings describe evidence that went out of date by legal operations: a class or
  pool redeclared under a bound queue, an overflow judged by thresholds other than the configured
  maximum of the queue, a drain superseded by new samples or by a reactivation, and a reservation
  whose queue was redefined. No other message is possible in a reachable state.
\<close>

definition reportable :: "string list" where
  "reportable = [''INV-BINDING: class binding generation is not current: '',
     ''INV-BINDING: pool reference generation is not current: '',
     ''INV-OVERFLOW: occupancy above the configured maximum was not reported: '',
     ''INV-DRAIN: quiesced queue holds non-zero occupancy: '',
     ''INV-DRAIN: completed drain without quiescence: '',
     ''INV-DRAIN: active queue reports a completed drain: '',
     ''INV-PLAN: a backend reservation is bound to a superseded generation'']"

definition is_reportable :: "string \<Rightarrow> bool" where
  "is_reportable v \<longleftrightarrow> (\<exists>p\<in>set reportable. take (length p) v = p)"

lemma reportableI: "p \<in> set reportable \<Longrightarrow> is_reportable (p @ tag)"
  unfolding is_reportable_def by (rule bexI [of _ p]) simp_all

lemma reports:
  "is_reportable (''INV-BINDING: class binding generation is not current: '' @ tag)"
  "is_reportable (''INV-BINDING: pool reference generation is not current: '' @ tag)"
  "is_reportable (''INV-OVERFLOW: occupancy above the configured maximum was not reported: '' @ tag)"
  "is_reportable (''INV-DRAIN: quiesced queue holds non-zero occupancy: '' @ tag)"
  "is_reportable (''INV-DRAIN: completed drain without quiescence: '' @ tag)"
  "is_reportable (''INV-DRAIN: active queue reports a completed drain: '' @ tag)"
  "is_reportable (''INV-PLAN: a backend reservation is bound to a superseded generation'' @ tag)"
  by (rule reportableI, simp add: reportable_def)+

lemma set_violation: "v \<in> set (violation c msg) \<longleftrightarrow> c \<and> v = msg"
  by (auto simp: violation_def)

lemma violation_False [simp]: "violation False msg = []"
  by (simp add: violation_def)

lemma identity_clean: "entry_wf c e \<Longrightarrow> identity_violations (fst e) (snd e) = []"
  by (auto simp: identity_violations_def Let_def violation_def entry_wf_def queue_inv_def name_in_range_def)

lemma find_class_placed: "i \<in> set (map sc_id (rr_classes x)) \<Longrightarrow> rr_find_class x i \<noteq> None"
  by (auto simp: rr_find_class_def find_None_iff_all)

lemma find_pool_placed: "i \<in> set (map bp_id (rr_pools x)) \<Longrightarrow> rr_find_pool x i \<noteq> None"
  by (auto simp: rr_find_pool_def find_None_iff_all)

lemma binding_reportable:
  assumes "entry_wf c e" "um_find (co_resources c) (qd_resource (qr_def (snd e))) = Some x"
    and "v \<in> set (binding_violations x (snd e))"
  shows "is_reportable v"
proof -
  have pl: "rr_find_class x (cb_id (qd_cls (qr_def (snd e)))) \<noteq> None" "rr_find_pool x (pr_id (qd_pool (qr_def (snd e)))) \<noteq> None"
    and th: "th_consistent (qd_thresholds (qr_def (snd e)))"
    using assms(1,2) find_class_placed [of _ x] find_pool_placed [of _ x]
    by (auto simp: entry_wf_def placed_def queue_inv_def)
  then have "v = ''INV-BINDING: class binding generation is not current: '' @ queue_tag_of (snd e)
      \<or> v = ''INV-BINDING: pool reference generation is not current: '' @ queue_tag_of (snd e)"
    using assms(3) by (auto simp: binding_violations_def Let_def set_violation)
  then show ?thesis
    by - (elim disjE; hypsubst; rule reports)
qed

lemma bounds_clean: "entry_wf c e \<Longrightarrow> bound_violations (co_config c) (snd e) = []"
  by (auto simp: bound_violations_def Let_def violation_def entry_wf_def queue_inv_def ctr_valid_def)

lemma evidence_reportable:
  assumes "queue_inv config q" "op_require_generation_match (fc_occupancy config)" "v \<in> set (evidence_violations q)"
  shows "is_reportable v"
proof -
  define tag where "tag = queue_tag_of q"
  have "v \<in> {''INV-OVERFLOW: occupancy above the configured maximum was not reported: '' @ tag,
      ''INV-DRAIN: quiesced queue holds non-zero occupancy: '' @ tag,
      ''INV-DRAIN: completed drain without quiescence: '' @ tag,
      ''INV-DRAIN: active queue reports a completed drain: '' @ tag}"
    using assms unfolding evidence_violations_def Let_def tag_def [symmetric] set_append Un_iff set_violation
    by (elim disjE conjE)
       (auto simp: queue_inv_def occupancy_authoritative_def accepts_fresh_mutation_def accepts_mutation_def is_terminal_def)
  then show ?thesis
    by - (elim insertE emptyE; hypsubst; rule reports)
qed

subsection \<open>The loop over the queues\<close>

lemma counted_bump: "counted (bump k m) i = counted m i + (if i = k then 1 else 0)"
  by (simp add: counted_def bump_def)

definition entry_key :: "QueueId \<times> queue_record \<Rightarrow> string" where
  "entry_key e = name_key (qd_resource (qr_def (snd e))) (qd_name (qr_def (snd e)))"

lemma entry_keys_distinct:
  assumes "core_wf c"
  shows "distinct (map entry_key (co_queues c))"
proof -
  have "inj_on entry_key (set (co_queues c))"
  proof (rule inj_onI)
    fix x y assume xy: "x \<in> set (co_queues c)" "y \<in> set (co_queues c)" "entry_key x = entry_key y"
    then have "Some (fst x) = Some (fst y)"
      using assms unfolding core_wf_def entry_wf_def entry_key_def by (metis (no_types))
    moreover have "distinct (map fst (co_queues c))"
      using assms by (simp add: core_wf_def um_wf_def)
    ultimately show "x = y"
      using xy(1,2) eq_key_imp_eq_value [of "co_queues c" "fst x" "snd x" "snd y"]
      by (metis option.inject prod.collapse)
  qed
  moreover have "distinct (co_queues c)"
    using assms by (simp add: core_wf_def um_wf_def distinct_map)
  ultimately show ?thesis
    by (simp add: distinct_map)
qed

lemma audit_queue_wf:
  assumes e: "entry_wf (core f) e" and gm: "op_require_generation_match (fc_occupancy (fb_config f))"
    and new: "counted (au_names a) (entry_key e) = 0"
  shows "v \<in> set (au_violations (audit_queue f e a)) \<Longrightarrow> v \<in> set (au_violations a) \<or> is_reportable v"
    and "au_names (audit_queue f e a) = bump (entry_key e) (au_names a)"
    and "au_per_resource (audit_queue f e a) = bump (qd_resource (qr_def (snd e))) (au_per_resource a)"
proof -
  obtain x where x: "find_resource f (qd_resource (qr_def (snd e))) = Some x"
    using e by (auto simp: entry_wf_def placed_def find_resource_def)
  have bind: "v \<in> set (binding_violations x (snd e)) \<Longrightarrow> is_reportable v" for v
    using binding_reportable [OF e] x by (simp add: find_resource_def)
  have ev: "v \<in> set (evidence_violations (snd e)) \<Longrightarrow> is_reportable v" for v
    using evidence_reportable [OF _ gm] e by (auto simp: entry_wf_def)
  have nm: "um_find (fb_queue_names f) (entry_key e) = Some (qd_id (qr_def (snd e)))"
    using e by (simp add: entry_wf_def entry_key_def)
  have clean: "identity_violations (fst e) (snd e) = []" "bound_violations (fb_config f) (snd e) = []"
    using identity_clean [OF e] bounds_clean [OF e] by simp_all
  have eq: "audit_queue f e a = \<lparr>au_violations = au_violations a @ binding_violations x (snd e) @ evidence_violations (snd e),
      au_per_resource = bump (qd_resource (qr_def (snd e))) (au_per_resource a), au_names = bump (entry_key e) (au_names a)\<rparr>"
    unfolding audit_queue_def Let_def x entry_key_def [symmetric]
    using nm new by (simp add: clean counted_bump)
  show "v \<in> set (au_violations (audit_queue f e a)) \<Longrightarrow> v \<in> set (au_violations a) \<or> is_reportable v"
    using bind ev by (auto simp: eq)
  show "au_names (audit_queue f e a) = bump (entry_key e) (au_names a)"
    "au_per_resource (audit_queue f e a) = bump (qd_resource (qr_def (snd e))) (au_per_resource a)"
    by (simp_all add: eq)
qed

lemma audit_fold:
  assumes "\<forall>e\<in>set qs. entry_wf (core f) e" "op_require_generation_match (fc_occupancy (fb_config f))"
    and "distinct (map entry_key qs)" "\<forall>e\<in>set qs. counted (au_names a) (entry_key e) = 0"
  shows "(\<forall>v\<in>set (au_violations (fold (audit_queue f) qs a)). v \<in> set (au_violations a) \<or> is_reportable v)
    \<and> counted (au_per_resource (fold (audit_queue f) qs a)) i = counted (au_per_resource a) i + count_in qs i"
  using assms
proof (induction qs arbitrary: a)
  case (Cons e qs)
  have e: "entry_wf (core f) e" "counted (au_names a) (entry_key e) = 0"
    using Cons.prems by simp_all
  note step = audit_queue_wf [OF e(1) assms(2) e(2)]
  have "\<forall>x\<in>set qs. counted (au_names (audit_queue f e a)) (entry_key x) = 0"
  proof
    fix x assume "x \<in> set qs"
    moreover have "entry_key x \<noteq> entry_key e" if "x \<in> set qs" for x
      using Cons.prems(3) that by (metis distinct.simps(2) image_eqI list.map(2) list.set_map)
    ultimately show "counted (au_names (audit_queue f e a)) (entry_key x) = 0"
      using Cons.prems(4) by (simp add: step(2) counted_bump)
  qed
  then have ih: "(\<forall>v\<in>set (au_violations (fold (audit_queue f) qs (audit_queue f e a))).
        v \<in> set (au_violations (audit_queue f e a)) \<or> is_reportable v)
      \<and> counted (au_per_resource (fold (audit_queue f) qs (audit_queue f e a))) i =
        counted (au_per_resource (audit_queue f e a)) i + count_in qs i"
    using Cons.IH [of "audit_queue f e a"] Cons.prems by simp
  show ?case
    using ih step(1) by (auto simp: step(3) counted_bump count_in_def)
qed (simp add: count_in_def)

theorem audit_reportable:
  assumes wf: "core_wf (core f)" and gm: "op_require_generation_match (fc_occupancy (fb_config f))"
    and v: "v \<in> set (validate_invariants f)"
  shows "is_reportable v"
proof -
  define a where "a = fold (audit_queue f) (fb_queues f)
     \<lparr>au_violations = capacity_violations f, au_per_resource = um_empty, au_names = um_empty\<rparr>"
  have "capacity_violations f = []"
    using wf by (simp add: capacity_violations_def Let_def core_wf_def capacity_wf_def violation_def)
  moreover have "\<forall>e\<in>set (fb_queues f). entry_wf (core f) e" "distinct (map entry_key (fb_queues f))"
    using wf entry_keys_distinct [OF wf] by (simp_all add: core_wf_def)
  ultimately have a: "\<forall>v\<in>set (au_violations a). is_reportable v" "counted (au_per_resource a) i = count_in (fb_queues f) i" for i
    using audit_fold [OF _ gm, of "fb_queues f" "\<lparr>au_violations = capacity_violations f, au_per_resource = um_empty,
      au_names = um_empty\<rparr>" i] by (auto simp: a_def counted_def)
  have res: "resource_violations (fc_limits (fb_config f)) (au_per_resource a) e = []" if "e \<in> set (fb_resources f)" for e
    using wf that a(2) by (auto simp: core_wf_def resource_wf_def resource_violations_def Let_def violation_def)
  have plans: "is_reportable v" if "e \<in> set (fb_plans f)" "v \<in> set (plan_violations f (snd e))" for e v
    using wf that reports(7) [of "[]"]
    by (auto simp: core_wf_def plan_violations_def find_queue_def set_violation simp del: append_Nil2 split: option.splits)
  show ?thesis
    using v a(1) res plans by (auto simp: validate_invariants_def a_def [symmetric] Let_def)
qed

end
