(* ===== verification/QF_Guarantees.thy ===== *)
theory QF_Guarantees
  imports QF_Reachable
begin

text \<open>
  What one mutation can do to one queue, read off the refinement of \<^verbatim>\<open>QF_Apply\<close>: the record keeps
  its authoritative content, or takes one step of \<open>queue_step\<close> that was admitted. The guarantees of
  the mutation path (lifecycle, generation, fence, retirement, authority, drain evidence,
  write-ahead journal, idempotence) follow from these lemmas.
\<close>

section \<open>The effect of a mutation on a queue\<close>

lemma find_queue_core: "find_queue f i = um_find (co_queues (core f)) i"
  by (simp add: find_queue_def core_def)

lemma apply_spec_effect:
  assumes "apply_spec f r out c" "find_queue f i = Some q"
  shows "\<exists>q'. um_find (co_queues c) i = Some q'
    \<and> (qr_view q' = qr_view q
       \<or> (\<exists>o' t now. i = mr_queue r \<and> out = Inr o' \<and> \<not> mo_replayed o' \<and> find_attempt q (mr_attempt r) = None
            \<and> admitted f q r \<and> queue_step f r now q t \<and> qr_view q' = qr_view t \<and> fb_clock_watermark f \<le> now))"
  using assms(1)
proof cases
  case (declared p res q' now out')
  then show ?thesis
    using assms(2) by (auto simp: find_queue_def um_find_emplace split: option.splits)
qed (use assms(2) in \<open>fastforce simp: find_queue_def um_find_put core_def split: if_splits\<close>)+

lemma apply_effect:
  assumes ap: "fabric_apply J r f = (out, f')" and q: "find_queue f i = Some q" "find_queue f' i = Some q'"
  obtains (kept) "qr_view q' = qr_view q"
    | (stepped) o' t now where "i = mr_queue r" "out = Inr o'" "\<not> mo_replayed o'" "find_attempt q (mr_attempt r) = None"
        "admitted f q r" "queue_step f r now q t" "qr_view q' = qr_view t" "fb_clock_watermark f \<le> now"
  using apply_spec_effect [OF fabric_apply_refines [OF ap] q(1)] q(2) find_queue_core [of f' i] by auto

lemma apply_keeps_queues:
  "fabric_apply J r f = (out, f') \<Longrightarrow> find_queue f i = Some q \<Longrightarrow> \<exists>q'. find_queue f' i = Some q'"
  using apply_spec_effect [OF fabric_apply_refines] find_queue_core by metis

lemma view_fields:
  assumes "qr_view q' = qr_view q"
  shows "qr_lifecycle q' = qr_lifecycle q" "qr_def q' = qr_def q" "qr_fence q' = qr_fence q"
    "qr_applicability q' = qr_applicability q" "qr_drain q' = qr_drain q" "qr_occupancy q' = qr_occupancy q"
  using qr_viewD [OF assms] by simp_all

section \<open>Consequences of one step\<close>

lemma step_lifecycle: "queue_step f r now q t \<Longrightarrow> qr_lifecycle t = qr_lifecycle q \<or> lc_step (qr_lifecycle q) (qr_lifecycle t)"
  by (erule queue_step.cases)
     (auto simp: with_definition_def ingest_record_def intro: lc_step.intros)

lemma step_definition:
  "queue_step f r now q t \<Longrightarrow>
     qr_def t = qr_def q
     \<or> is_definitional (mr_kind r)
        \<and> (\<exists>d g. redefinition f r q d \<and> ctr_next (qd_generation (qr_def q)) = Inr g \<and> t = with_definition (d\<lparr>qd_generation := g\<rparr>) q)"
  by (erule queue_step.cases) (auto simp: ingest_record_def)

lemma redefinition_identity:
  "redefinition f r q d \<Longrightarrow> qd_id d = qd_id (qr_def q) \<and> qd_resource d = qd_resource (qr_def q) \<and> qd_name d = qd_name (qr_def q)
     \<and> qd_depth d = qd_depth (qr_def q) \<and> qd_pool d = qd_pool (qr_def q) \<and> qd_declared_by d = qd_declared_by (qr_def q)"
  by (auto simp: redefinition_def)

lemma admitted_capability:
  assumes "admitted f q r"
  obtains res where "find_resource f (qd_resource (qr_def q)) = Some res"
    "has_capability (capabilities_of (rr_authority res) (mr_principal r)) (required_capability (mr_kind r))"
    "has_flag (qr_applicability q) App_fenced \<Longrightarrow> mr_kind r = Mk_unfence_queue"
    "qr_lifecycle q \<in> {Lc_retired, Lc_failed} \<Longrightarrow> mr_kind r = Mk_retire_queue"
  using assms
  by (auto simp: admitted_def authorize_allowed_iff required_unfence required_retire required_capability_not_admin
      split: option.splits if_splits)

lemma step_to_quiesced:
  "queue_step f r now q t \<Longrightarrow> qr_lifecycle t = Lc_quiesced \<Longrightarrow> qr_lifecycle q \<noteq> Lc_quiesced \<Longrightarrow>
     qr_lifecycle q = Lc_draining \<and> mr_kind r = Mk_quiesce_queue \<and> quiesce_evidence f now q
     \<and> t = q\<lparr>qr_lifecycle := Lc_quiesced, qr_drain := (qr_drain q)\<lparr>dr_phase := Dp_completed\<rparr>\<rparr>"
  by (erule queue_step.cases) (auto simp: with_definition_def ingest_record_def)

lemma step_retired: "queue_step f r now q t \<Longrightarrow> qr_lifecycle q = Lc_retired \<Longrightarrow> mr_kind r = Mk_retire_queue \<Longrightarrow> t = q"
  by (erule queue_step.cases) (auto simp: is_definitional_def elim: lc_step.cases)

lemma step_failed:
  "queue_step f r now q t \<Longrightarrow> qr_lifecycle q = Lc_failed \<Longrightarrow> mr_kind r = Mk_retire_queue \<Longrightarrow> t = q \<or> qr_lifecycle t = Lc_retired"
  by (erule queue_step.cases) (auto simp: is_definitional_def elim: lc_step.cases)

text \<open>The state a lifecycle mutation leads to; it is reached whenever the mutation succeeds.\<close>

definition target_lifecycle :: "mutation_kind \<Rightarrow> lifecycle option" where
  "target_lifecycle k = (case k of
       Mk_validate_queue \<Rightarrow> Some Lc_validated
     | Mk_activate_queue \<Rightarrow> Some Lc_active
     | Mk_request_drain \<Rightarrow> Some Lc_draining
     | Mk_cancel_drain \<Rightarrow> Some Lc_active
     | Mk_quiesce_queue \<Rightarrow> Some Lc_quiesced
     | Mk_fail_queue \<Rightarrow> Some Lc_failed
     | Mk_retire_queue \<Rightarrow> Some Lc_retired
     | _ \<Rightarrow> None)"

lemma step_target:
  assumes "queue_step f r now q t"
  shows "qr_lifecycle t = (case target_lifecycle (mr_kind r) of Some l \<Rightarrow> l | None \<Rightarrow> qr_lifecycle q)"
  using assms
proof cases
  case unchanged
  then show ?thesis
    by (cases "mr_kind r") (simp_all add: already_def target_lifecycle_def)
next
  case (redefined d g)
  then show ?thesis
    by (auto simp: is_definitional_def target_lifecycle_def with_definition_def split: mutation_kind.splits)
qed (simp_all add: target_lifecycle_def ingest_record_def)

text \<open>A draining queue is quiesced exactly on complete evidence: nothing else refuses it.\<close>

lemma quiesce_exact:
  assumes "qr_lifecycle t = Lc_draining"
  shows "ok (fst (kind_quiesce_queue t r now f)) = quiesce_evidence f now t"
proof -
  obtain st rule where tr: "require_transition t Lc_quiesced = (st, rule)"
    by (meson surj_pair)
  have "ok st"
    using require_transition_ok [OF tr] assms by (auto intro: lc_step.intros)
  then show ?thesis
    using assms
    by (auto simp: kind_quiesce_queue_def tr Let_def quiesce_evidence_def refuse_def assess_drain_code)
qed

section \<open>Refusals\<close>

lemma apply_spec_refused:
  assumes "apply_spec f r (Inl st) c"
  shows "c = (core f)\<lparr>co_queues := co_queues c\<rparr>
    \<and> map_option qr_view (um_find (co_queues c) i) = map_option qr_view (find_queue f i)"
  using assms by cases (auto simp: find_queue_def um_find_put core_def)

section \<open>Idempotent replay\<close>

lemma find_attempt_followed:
  assumes "memo_follows cap r (Some c) q q'" "0 < cap"
  shows "\<exists>e. find_attempt q' (mr_attempt r) = Some e \<and> am_fingerprint e = mr_fingerprint r \<and> am_outcome e = c"
proof -
  obtain e where e: "am_attempt e = mr_attempt r" "am_fingerprint e = mr_fingerprint r" "am_outcome e = c"
      "qr_memo q' = remember_memo e cap (qr_memo q)"
    using assms(1) by (auto simp: memo_follows_def)
  then show ?thesis
    using find_remember_same [OF assms(2), of e "qr_memo q"] by (auto simp: find_attempt_def)
qed

definition remembered :: "'j fabric \<Rightarrow> mutation_request \<Rightarrow> queue_record \<Rightarrow> bool" where
  "remembered f r q \<longleftrightarrow> find_queue f (mr_queue r) = Some q
     \<and> (\<exists>e. find_attempt q (mr_attempt r) = Some e \<and> am_fingerprint e = mr_fingerprint r \<and> am_outcome e = Code_ok)"

lemma replay_answered:
  assumes rem: "remembered f r q" and act: "\<not> fb_shutting_down f" "ok (mr_validate r)" "mr_kind r \<noteq> Mk_declare_queue"
    and out: "fabric_apply J r f = (out, f')"
  shows "(\<exists>o'. out = Inr o' \<and> mo_replayed o' \<and> mo_queue o' = qd_id (qr_def q) \<and> mo_generation o' = qd_generation (qr_def q))
    \<and> core f' = (core f)\<lparr>co_queues := um_put (mr_queue r) (q\<lparr>qr_replayed_count := qr_replayed_count q + 1\<rparr>) (fb_queues f)\<rparr>
    \<and> fb_journal f' = fb_journal f \<and> fb_provenance f' = fb_provenance f"
proof -
  obtain e where e: "find_queue f (mr_queue r) = Some q" "find_attempt q (mr_attempt r) = Some e"
      "am_fingerprint e = mr_fingerprint r" "am_outcome e = Code_ok"
    using rem by (auto simp: remembered_def)
  obtain now g where now: "monotonic_now f = (now, g)"
    by (meson surj_pair)
  have g: "g = f\<lparr>fb_ticks := fb_ticks f + 1, fb_clock_watermark := now\<rparr>"
    using now by (auto simp: monotonic_now_def Let_def)
  have "find_queue g (mr_queue r) = Some q"
    using e(1) by (simp add: g find_queue_def)
  then have run: "apply_locked J r f = on_queue (mr_queue r) (existing_replay e q r now g)"
    using act e(2) by (simp add: apply_locked_def now g apply_existing_locked_def)
  obtain o' evs where rep: "existing_replay e q r now g = (Inr o', evs, q\<lparr>qr_replayed_count := qr_replayed_count q + 1\<rparr>, count_replay g)"
      "mo_replayed o'" "mo_queue o' = qd_id (qr_def q)" "mo_generation o' = qd_generation (qr_def q)"
    using e(3,4) by (simp add: existing_replay_def Let_def outcome_of_def)
  have cq: "fb_queues (count_replay g) = fb_queues f"
    by (simp add: count_replay_def g)
  have "out = Inr o'" "f' = emit_events evs ((count_replay g)\<lparr>fb_queues := um_put (mr_queue r)
      (q\<lparr>qr_replayed_count := qr_replayed_count q + 1\<rparr>) (fb_queues f)\<rparr>)"
    using out cq by (simp_all add: fabric_apply_def run rep(1) on_queue_def)
  then show ?thesis
    using rep(2-4) by (simp add: core_def emit_events_def count_replay_def g)
qed

lemma payload_declares: "payload_matches k (Pl_declare_queue p) \<Longrightarrow> k = Mk_declare_queue"
  by (cases k) (simp_all add: payload_matches_def)

lemma applied_remembered:
  assumes out: "fabric_apply J r f = (Inr o', f')" "\<not> mo_replayed o'" and kind: "mr_kind r \<noteq> Mk_declare_queue"
    and cap: "0 < memo_capacity f"
  shows "\<exists>q. remembered f' r q \<and> mo_generation o' = qd_generation (qr_def q) \<and> mo_queue o' = qd_id (qr_def q)"
proof -
  have nd: "mr_payload r \<noteq> Pl_declare_queue p" for p
    using fabric_apply_validated [OF out(1)] kind by (auto simp: mr_validate_ok dest: payload_declares)
  from fabric_apply_refines [OF out(1)] show ?thesis
  proof cases
    case (applied q now t q')
    have "qd_id (qr_def t) = qd_id (qr_def q)"
      using queue_step_memo [OF applied(5)] by simp
    moreover have "find_queue f' (mr_queue r) = Some q'"
      using find_queue_core [of f' "mr_queue r"] applied(1,2) by (simp add: find_queue_def um_find_put)
    ultimately show ?thesis
      using applied qr_viewD(1) [OF applied(6)] find_attempt_followed [OF applied(8) cap] by (auto simp: remembered_def)
  qed (use out(2) nd in auto)
qed

section \<open>Write-ahead journal\<close>

lemma apply_kind_journal: "apply_kind_locked t r now f = (st, rule, evs, t', f') \<Longrightarrow> fb_journal f' = fb_journal f"
  by (cases "mr_kind r")
     (auto simp: apply_kind_locked_def kind_validate_queue_def kind_activate_queue_def kind_fail_queue_def
      kind_retire_queue_def kind_rebind_class_def kind_set_thresholds_def kind_transfer_ownership_def
      kind_ingest_occupancy_def kind_request_drain_def kind_cancel_drain_def kind_submit_drain_evidence_def
      kind_quiesce_queue_def kind_fence_queue_def kind_unfence_queue_def kind_acknowledge_backend_def
      refuse_def bad_variant_access_def Let_def
      split: prod.splits if_splits mutation_payload.splits option.splits sum.splits)

lemma existing_admission_journal: "existing_admission q r f = (a, f') \<Longrightarrow> fb_journal f' = fb_journal f"
  by (auto simp: existing_admission_def admit_provenance_def Let_def split: option.splits if_splits prod.splits)

lemma existing_publish_journal: "existing_publish b t r now rule evs f = (out, evs', q, f') \<Longrightarrow> fb_journal f' = fb_journal f"
  by (auto simp: existing_publish_def Let_def split: if_splits)

lemma declare_publish_journal: "declare_publish q p r now f = (out, evs, f') \<Longrightarrow> fb_journal f' = fb_journal f"
  by (auto simp: declare_publish_def Let_def)

text \<open>A successful mutation that is not a replay has passed \<open>journal_commit_locked\<close> when its kind is durable.\<close>

definition committed :: "'j journal_ops \<Rightarrow> mutation_request \<Rightarrow> 'j fabric \<Rightarrow> 'j fabric \<Rightarrow> bool" where
  "committed J r f f' \<longleftrightarrow>
     (case fb_journal f of
        None \<Rightarrow> \<not> fc_durable (fb_config f) \<and> fb_journal f' = None
      | Some j \<Rightarrow> (\<exists>g h. fb_journal g = Some j \<and> journal_commit_locked J r g = (success, h) \<and> fb_journal f' = fb_journal h))"

lemma journal_commit_success: "journal_commit_locked J r g = (st, h) \<Longrightarrow> ok st \<Longrightarrow> st = success"
  by (auto simp: journal_commit_locked_def Let_def split: option.splits prod.splits if_splits)

lemma committedI:
  assumes "fb_journal g = fb_journal f" "fb_config g = fb_config f" "fb_journal f' = fb_journal h"
    and "if fb_journal g \<noteq> None then journal_commit_locked J r g = (st, h) \<and> ok st
         else \<not> fc_durable (fb_config g) \<and> h = g"
  shows "committed J r f f'"
  using assms journal_commit_success [of J r g st h]
  by (auto simp: committed_def split: option.splits if_splits)

lemma existing_apply_committed:
  assumes out: "existing_apply J q r now f = (Inr o', evs, q', f')" and dur: "is_durable (mr_kind r)"
  shows "committed J r f f'"
proof -
  obtain st rule events t g where k: "apply_kind_locked q r now f = (st, rule, events, t, g)"
    by (metis prod_cases5)
  obtain js h where j: "journal_commit_locked J r g = (js, h)"
    by (meson surj_pair)
  have g: "fb_journal g = fb_journal f" "fb_config g = fb_config f"
    using apply_kind_journal [OF k] apply_kind_refines [of f r now q] coreD(1) by (force simp: k kind_refines_def)+
  have *: "committed J r f f'" if "existing_publish q t r now rule events x = (Inr o', evs, q', f')"
      "if fb_journal g \<noteq> None then journal_commit_locked J r g = (js, x) \<and> ok js
       else \<not> fc_durable (fb_config g) \<and> x = g" for x
    using committedI [OF g existing_publish_journal [OF that(1)] that(2)] .
  show ?thesis
    using out dur *[of h] *[of g] by (auto simp: existing_apply_def k j reject_existing_def split: if_splits)
qed

lemma declare_commit_committed:
  assumes out: "declare_commit J p r now f = (Inr o', evs, f')"
  shows "committed J r f f'"
proof -
  define js where "js = (if fb_journal f \<noteq> None then journal_commit_locked J r f
     else if fc_durable (fb_config f) then (Status Code_not_durable ''durable fabric requires a journal'', f) else (success, f))"
  obtain st h where js_eq: "js = (st, h)"
    by (cases js)
  obtain x where pub: "ok st" "declare_publish (declared_record p r now f) p r now x = (Inr o', evs, f')" "fb_journal x = fb_journal h"
    using out unfolding declare_commit_def Let_def js_def [symmetric] js_eq
    by (fastforce simp: reject_declare_def split: if_splits prod.splits)
  have "if fb_journal f \<noteq> None then journal_commit_locked J r f = (st, h) \<and> ok st else \<not> fc_durable (fb_config f) \<and> h = f"
    using js_eq pub(1) by (auto simp: js_def split: if_splits)
  then show ?thesis
    using declare_publish_journal [OF pub(2)] pub(3) by (intro committedI [of f f f' h J r st]) simp_all
qed

theorem apply_committed:
  assumes out: "fabric_apply J r f = (Inr o', f')" "\<not> mo_replayed o'" and dur: "is_durable (mr_kind r)"
  shows "committed J r f f'"
proof -
  obtain now g where now: "monotonic_now f = (now, g)"
    by (meson surj_pair)
  have g: "fb_journal g = fb_journal f" "fb_config g = fb_config f"
    using now by (auto simp: monotonic_now_def Let_def)
  obtain evs h where run: "apply_locked J r f = (Inr o', evs, h)" and f': "fb_journal f' = fb_journal h"
    using out(1) by (auto simp: fabric_apply_def emit_events_def split: prod.splits)
  have comm: "committed J r f f'" if "committed J r x h" "fb_journal x = fb_journal f" "fb_config x = fb_config f" for x
    using that f' by (simp add: committed_def split: option.splits)
  show ?thesis
  proof (cases "mr_kind r = Mk_declare_queue")
    case True
    then obtain p where "declare_commit J p r now g = (Inr o', evs, h)"
      using run out(2)
      by (auto simp: apply_locked_def now apply_declare_locked_def declare_existing_def reject_declare_def outcome_of_def Let_def
          split: if_splits mutation_payload.splits option.splits)
    then show ?thesis
      using comm [OF declare_commit_committed g] by blast
  next
    case False
    then obtain q q' x y where ex: "existing_apply J q r now x = (Inr o', evs, q', y)" "fb_journal h = fb_journal y"
        "existing_admission q r g = (None, x)"
      using run out(2)
      by (auto simp: apply_locked_def now reject_declare_def on_queue_def apply_existing_locked_def existing_replay_def
          reject_existing_def outcome_of_def Let_def split: if_splits option.splits prod.splits)
    have "committed J r x h"
      using existing_apply_committed [OF ex(1) dur] ex(2) by (simp add: committed_def split: option.splits)
    moreover have "fb_journal x = fb_journal f" "fb_config x = fb_config f"
      using existing_admission_journal [OF ex(3)] coreD(1) [OF existing_admission_frame [OF ex(3)]] g by simp_all
    ultimately show ?thesis
      by (rule comm)
  qed
qed

context ijournal
begin

text \<open>The log of the journal after a durable mutation: the begin record and the commit record of the request.\<close>

lemma apply_logged:
  assumes "fabric_apply J r f = (Inr o', f')" "\<not> mo_replayed o'" "is_durable (mr_kind r)" "fb_journal f = Some j"
  shows "\<exists>j'. fb_journal f' = Some j' \<and> encode_mutation r \<noteq> []
    \<and> log j' = log j @ [\<lparr>jr_type = Jr_begin_attempt, jr_payload = encode_mutation r\<rparr>,
                        \<lparr>jr_type = Jr_commit_mutation, jr_payload = encode_mutation r\<rparr>]"
proof -
  obtain g h where "fb_journal g = Some j" "journal_commit_locked J r g = (success, h)" "fb_journal f' = fb_journal h"
    using apply_committed [OF assms(1-3)] assms(4) by (auto simp: committed_def)
  then show ?thesis
    using journal_commit_log [of g j r] by auto
qed

end

section \<open>Progress\<close>

text \<open>The status and the target of a kind depend on the core of the fabric and its fence counter only.\<close>

definition kind_out :: "'j kind_result \<Rightarrow> status \<times> string \<times> event list \<times> queue_record" where
  "kind_out res = (case res of (st, rule, evs, t, f) \<Rightarrow> (st, rule, evs, t))"

lemma kind_out_dist:
  "kind_out (st, rule, evs, t, f) = (st, rule, evs, t)"
  "kind_out (if b then x else y) = (if b then kind_out x else kind_out y)"
  "kind_out (case p of (u, v) \<Rightarrow> h u v) = (case p of (u, v) \<Rightarrow> kind_out (h u v))"
  "fb_fence_tokens (f\<lparr>fb_fence_tokens := n\<rparr>) = n" "fb_epoch (f\<lparr>fb_fence_tokens := n\<rparr>) = fb_epoch f"
  by (simp_all add: kind_out_def split: prod.splits)

lemmas kind_out_cases = option.case_distrib [of kind_out] sum.case_distrib [of kind_out]
  mutation_payload.case_distrib [of kind_out] mutation_kind.case_distrib [of kind_out]

lemma apply_kind_core:
  assumes "core f = core g" "fb_fence_tokens f = fb_fence_tokens g"
  shows "kind_out (apply_kind_locked q r now f) = kind_out (apply_kind_locked q r now g)"
proof -
  have flds: "fb_config f = fb_config g" "fb_epoch f = fb_epoch g" "fb_resources f = fb_resources g"
    using coreD [OF assms(1)] by blast+
  have live: "find_live_backend f = find_live_backend g" and bind: "check_class_binding f = check_class_binding g"
    by (intro ext, simp only: find_live_backend_def check_class_binding_def find_resource_def flds)+
  have ing: "ingest_refusal q r s now f = ingest_refusal q r s now g" for s
    by (simp only: ingest_refusal_def flds)
  note eqs = flds live bind ing assms(2)
  show ?thesis
    unfolding apply_kind_locked_def kind_validate_queue_def kind_activate_queue_def kind_fail_queue_def
      kind_retire_queue_def kind_rebind_class_def kind_set_thresholds_def kind_transfer_ownership_def
      kind_ingest_occupancy_def kind_request_drain_def kind_cancel_drain_def kind_submit_drain_evidence_def
      kind_quiesce_queue_def kind_fence_queue_def kind_unfence_queue_def kind_acknowledge_backend_def
      Let_def refuse_def bad_variant_access_def kind_out_dist kind_out_cases eqs by (rule refl)
qed

lemma admitted_admission:
  assumes "admitted f q r"
  shows "\<exists>g. existing_admission q r f = (None, g) \<and> core g = core f \<and> fb_fence_tokens g = fb_fence_tokens f
    \<and> fb_journal g = fb_journal f"
proof -
  obtain res where res: "find_resource f (qd_resource (qr_def q)) = Some res"
    using assms by (auto simp: admitted_def split: option.splits)
  obtain st t where obs: "tr_observe (fb_provenance f) (mr_provenance r) = (st, t)"
    by (meson surj_pair)
  have "ok st" if "\<not> fb_replaying f"
    using observe_ok_iff [of "fb_provenance f" "mr_provenance r"] that assms by (simp add: obs admitted_def)
  then show ?thesis
    using assms
    by (cases "fb_replaying f")
       (auto simp: admitted_def existing_admission_def res Let_def admit_provenance_def obs check_generation_def)
qed

definition journal_ready :: "'j journal_ops \<Rightarrow> mutation_request \<Rightarrow> 'j fabric \<Rightarrow> bool" where
  "journal_ready J r f \<longleftrightarrow>
     (is_durable (mr_kind r) \<longrightarrow>
        (if fb_journal f \<noteq> None then ok (fst (journal_commit_locked J r f)) else \<not> fc_durable (fb_config f)))"

lemma journal_commit_status:
  "fb_journal f = fb_journal g \<Longrightarrow> fst (journal_commit_locked J r f) = fst (journal_commit_locked J r g)"
  by (auto simp: journal_commit_locked_def Let_def split: option.splits prod.splits if_splits)

lemma journal_ready_cong:
  "fb_journal f = fb_journal g \<Longrightarrow> fb_config f = fb_config g \<Longrightarrow> journal_ready J r f = journal_ready J r g"
  using journal_commit_status [of f g J r] by (simp add: journal_ready_def)

lemma existing_publish_rule:
  "existing_publish b t r now rule events f = (Inr out, evs, q', f') \<Longrightarrow> mo_rule out = rule"
  by (auto simp: existing_publish_def Let_def outcome_of_def)

lemma existing_apply_progress:
  assumes kind: "apply_kind_locked q r now f = (st, rule, evs, t, g)" "ok st" and ready: "journal_ready J r f"
  shows "\<exists>out evs' q' f'. existing_apply J q r now f = (Inr out, evs', q', f') \<and> \<not> mo_replayed out \<and> mo_rule out = rule
    \<and> qr_view q' = qr_view t \<and> core f' = core f"
proof -
  have cg: "core g = core f" and jg: "fb_journal g = fb_journal f"
    using apply_kind_ok [OF kind] apply_kind_journal [OF kind(1)] by auto
  have ready': "journal_ready J r g"
    using ready journal_ready_cong [OF jg coreD(1) [OF cg]] by simp
  define h where "h = (if is_durable (mr_kind r) \<and> fb_journal g \<noteq> None then snd (journal_commit_locked J r g) else g)"
  have "existing_apply J q r now f = existing_publish q t r now rule evs h"
    using ready' kind by (auto simp: existing_apply_def journal_ready_def h_def split: prod.splits)
  moreover obtain out evs' q' f' where pub: "existing_publish q t r now rule evs h = (Inr out, evs', q', f')"
    using existing_publish_Inr by blast
  moreover have "core h = core f"
    using cg by (simp add: h_def)
  ultimately show ?thesis
    using existing_publish_view [OF pub] existing_publish_rule [OF pub] by auto
qed

lemma apply_existing_progress:
  assumes q: "find_attempt q (mr_attempt r) = None" "admitted f q r"
    and kind: "apply_kind_locked q r now f = (st, rule, evs, t, g)" "ok st" and ready: "journal_ready J r f"
  shows "\<exists>out evs' q' f'. apply_existing_locked J q r now f = (Inr out, evs', q', f') \<and> \<not> mo_replayed out \<and> mo_rule out = rule
    \<and> qr_view q' = qr_view t \<and> core f' = core f"
proof -
  obtain f2 where f2: "existing_admission q r f = (None, f2)" "core f2 = core f" "fb_fence_tokens f2 = fb_fence_tokens f"
      "fb_journal f2 = fb_journal f"
    using admitted_admission [OF q(2)] by blast
  obtain g' where "apply_kind_locked q r now f2 = (st, rule, evs, t, g')"
    using apply_kind_core [OF f2(2,3), of q r now] kind(1) by (auto simp: kind_out_def split: prod.splits)
  then show ?thesis
    using existing_apply_progress [OF _ kind(2), of q r now f2 rule evs t g' J] ready journal_ready_cong [OF f2(4) coreD(1) [OF f2(2)]]
      f2(1,2) q(1) by (auto simp: apply_existing_locked_def)
qed

text \<open>The clock does not matter to admission, kinds and the journal.\<close>

lemma clock_irrelevant:
  assumes "monotonic_now f = (now, f1)"
  shows "core f1 = core f" "fb_fence_tokens f1 = fb_fence_tokens f" "fb_journal f1 = fb_journal f"
    "admitted f1 q r = admitted f q r" "journal_ready J r f1 = journal_ready J r f" "find_queue f1 = find_queue f"
proof -
  have f1: "f1 = f\<lparr>fb_ticks := fb_ticks f + 1, fb_clock_watermark := now\<rparr>"
    using assms by (auto simp: monotonic_now_def Let_def)
  show "core f1 = core f" "fb_fence_tokens f1 = fb_fence_tokens f" "fb_journal f1 = fb_journal f" "find_queue f1 = find_queue f"
    by (simp_all add: f1 core_def find_queue_def fun_eq_iff)
  have same: "find_resource f1 = find_resource f" "fb_replaying f1 = fb_replaying f" "fb_provenance f1 = fb_provenance f"
      "fb_epoch f1 = fb_epoch f" "fb_config f1 = fb_config f" "fb_journal f1 = fb_journal f"
    by (simp_all add: f1 find_resource_def fun_eq_iff)
  show "admitted f1 q r = admitted f q r"
    unfolding admitted_def same ..
  show "journal_ready J r f1 = journal_ready J r f"
    by (rule journal_ready_cong [OF same(6,5)])
qed

theorem apply_progress:
  assumes act: "\<not> fb_shutting_down f" "ok (mr_validate r)" "mr_kind r \<noteq> Mk_declare_queue"
    and q: "find_queue f (mr_queue r) = Some q" "find_attempt q (mr_attempt r) = None" "admitted f q r"
    and kind: "apply_kind_locked q r (fst (monotonic_now f)) f = (st, rule, evs, t, g)" "ok st"
    and ready: "journal_ready J r f"
  shows "\<exists>out f' q'. fabric_apply J r f = (Inr out, f') \<and> \<not> mo_replayed out \<and> mo_rule out = rule
    \<and> find_queue f' (mr_queue r) = Some q' \<and> qr_view q' = qr_view t"
proof -
  obtain now f1 where now: "monotonic_now f = (now, f1)"
    by (meson surj_pair)
  note irr = clock_irrelevant [OF now]
  obtain g' where k: "apply_kind_locked q r now f1 = (st, rule, evs, t, g')"
    using apply_kind_core [OF irr(1,2), of q r now] kind(1) now by (auto simp: kind_out_def split: prod.splits)
  obtain out evs' q' f3 where ex: "apply_existing_locked J q r now f1 = (Inr out, evs', q', f3)" "\<not> mo_replayed out"
      "mo_rule out = rule" "qr_view q' = qr_view t" "core f3 = core f1"
    using apply_existing_progress [OF q(2) _ k kind(2)] q(3) ready irr by blast
  have "apply_locked J r f = (Inr out, evs', f3\<lparr>fb_queues := um_put (mr_queue r) q' (fb_queues f3)\<rparr>)"
    using act q(1) coreD(7) [OF irr(1)] by (simp add: apply_locked_def now irr(6) on_queue_def ex(1))
  then show ?thesis
    using ex by (auto simp: fabric_apply_def find_queue_def emit_events_def um_find_put)
qed

section \<open>Declaration\<close>

lemma apply_spec_flags: "apply_spec f r out c \<Longrightarrow> co_flags c = (fb_shutting_down f, fb_replaying f)"
  by (erule apply_spec.cases) (simp_all add: core_def)

lemma next_queue_fresh:
  assumes "core_wf (core f)"
  shows "find_queue f (Ident (fb_next_queue_id f)) = None"
proof (rule ccontr)
  assume "find_queue f (Ident (fb_next_queue_id f)) \<noteq> None"
  then obtain q where "(Ident (fb_next_queue_id f), q) \<in> set (co_queues (core f))"
    by (auto simp: find_queue_def core_def dest: um_find_SomeD)
  then show False
    using assms by (auto simp: core_wf_def entry_wf_def core_def)
qed

lemma declared_queue:
  assumes run: "fabric_apply J r f = (Inr out, f')" "\<not> mo_replayed out" and p: "mr_payload r = Pl_declare_queue p"
    and wf: "core_wf (core f)"
  shows "\<exists>q res cls pool. mo_queue out = Ident (fb_next_queue_id f) \<and> find_queue f (mo_queue out) = None
    \<and> find_queue f' (mo_queue out) = Some q \<and> qr_lifecycle q = Lc_declared
    \<and> qd_generation (qr_def q) = Counter 1 \<and> qd_name (qr_def q) = dq_name p \<and> qd_resource (qr_def q) = dq_resource p
    \<and> find_resource f (dq_resource p) = Some res
    \<and> rr_find_class res (cb_id (dq_cls p)) = Some cls \<and> sc_generation cls = cb_generation (qd_cls (qr_def q))
    \<and> rr_find_pool res (pr_id (dq_pool p)) = Some pool \<and> bp_generation pool = pr_generation (qd_pool (qr_def q))
    \<and> um_find (fb_queue_names f') (name_key (dq_resource p) (dq_name p)) = Some (mo_queue out)
    \<and> (\<forall>i. i \<noteq> mo_queue out \<longrightarrow> find_queue f' i = find_queue f i)"
proof -
  have kind: "mr_kind r = Mk_declare_queue"
    using fabric_apply_validated [OF run(1)] p by (auto simp: mr_validate_ok dest: payload_declares)
  note fresh = next_queue_fresh [OF wf]
  from fabric_apply_refines [OF run(1)] show ?thesis
  proof cases
    case (applied q now t q')
    have False
      using applied(5) by cases (use kind in \<open>auto simp: already_def redefinition_def\<close>)
    then show ?thesis ..
  next
    case (declared p' res q' now)
    have "p' = p"
      using declared p by simp
    then obtain cls pool where "rr_find_class res (cb_id (dq_cls p)) = Some cls" "sc_generation cls = cb_generation (dq_cls p)"
        "rr_find_pool res (pr_id (dq_pool p)) = Some pool" "bp_generation pool = pr_generation (dq_pool p)"
      using declared(6) by (auto simp: declare_refusal_def Let_def split: if_splits)
    moreover have "find_queue f' i = um_find (um_emplace (Ident (fb_next_queue_id f)) q' (fb_queues f)) i" for i
      using find_queue_core [of f' i] declared(1) by simp
    moreover have "fb_queue_names f' = um_emplace (name_key (dq_resource p) (dq_name p)) (Ident (fb_next_queue_id f)) (fb_queue_names f)"
      using declared(1) \<open>p' = p\<close> by (simp add: core_def)
    ultimately show ?thesis
      using declared \<open>p' = p\<close> fresh qr_viewD [OF declared(7)]
      by (simp add: um_find_emplace find_queue_def declared_record_def new_queue_record_def)
  qed (use run(2) in auto)
qed

section \<open>Epochs and reservations\<close>

lemma superseded_not_authoritative:
  "\<not> occupancy_authoritative (if oc_present s then invalidate_occupancy Fr_stale_epoch s else s)"
  by (simp add: invalidated_not_authoritative) (simp add: occupancy_authoritative_def)

lemma um_erase_emplace: "um_find m k = None \<Longrightarrow> um_erase k (um_emplace k v m) = m"
  by (auto simp: um_emplace_def um_erase_def um_find_None_iff dest: um_find_SomeD intro!: filter_True split: option.splits)

lemma step_acknowledged:
  "queue_step f r now q t \<Longrightarrow> mr_kind r = Mk_acknowledge_backend \<Longrightarrow> mr_payload r = Pl_backend_ack a \<Longrightarrow>
     \<exists>live. find_live_backend f (qd_resource (qr_def q)) (ba_backend a) = Some live
       \<and> bv_verified (verify_backend_applied a live (fb_epoch f) (qd_generation (qr_def q)) (qd_cls (qr_def q)))
       \<and> qr_applied t = a \<and> qr_lifecycle t = qr_lifecycle q"
  by (erule queue_step.cases) (auto simp: already_def is_definitional_def)

lemma commit_effect:
  fixes f :: "'j fabric"
  assumes "commit_backend_apply J plan a prov f = (Inr out, f')"
  shows "um_find (fb_plans f) (bpl_attempt plan) \<noteq> None \<and> um_find (fb_plans f') (bpl_attempt plan) = None
    \<and> (\<exists>q. find_queue f (bpl_queue plan) = Some q \<and> qd_generation (qr_def q) = bpl_expected_generation plan
        \<and> (\<not> mo_replayed out \<longrightarrow> (\<exists>live q'. find_live_backend f (qd_resource (qr_def q)) (ba_backend a) = Some live
             \<and> bv_verified (verify_backend_applied a live (fb_epoch f) (qd_generation (qr_def q)) (qd_cls (qr_def q)))
             \<and> find_queue f' (bpl_queue plan) = Some q' \<and> qr_applied q' = a \<and> qr_lifecycle q' = qr_lifecycle q)))"
proof -
  define r where "r = commit_request plan a prov f"
  have r: "mr_queue r = bpl_queue plan" "mr_kind r = Mk_acknowledge_backend" "mr_payload r = Pl_backend_ack a"
    by (simp_all add: r_def commit_request_def)
  obtain g :: "'j fabric" and c q where g: "um_find (fb_plans f) (bpl_attempt plan) \<noteq> None" "core g = core f"
      "find_queue f (bpl_queue plan) = Some q" "qd_generation (qr_def q) = bpl_expected_generation plan"
      "apply_spec g r (Inr out) c" "core f' = core_dropped (bpl_attempt plan) c"
    using commit_backend_apply_cases [OF assms] by (auto simp: r_def)
  have same: "find_live_backend g = find_live_backend f" "fb_epoch g = fb_epoch f" "find_queue g = find_queue f"
    using coreD [OF g(2)] by (auto simp: find_live_backend_def find_resource_def find_queue_def fun_eq_iff)
  have gone: "um_find (fb_plans f') (bpl_attempt plan) = None"
    using arg_cong [OF g(6), of co_plans] by (simp add: core_dropped_def)
  have q': "find_queue f' i = um_find (co_queues c) i" for i
    using find_queue_core [of f' i] g(6) by (simp add: core_dropped_def)
  have "\<exists>live q'. find_live_backend f (qd_resource (qr_def q)) (ba_backend a) = Some live
      \<and> bv_verified (verify_backend_applied a live (fb_epoch f) (qd_generation (qr_def q)) (qd_cls (qr_def q)))
      \<and> find_queue f' (bpl_queue plan) = Some q' \<and> qr_applied q' = a \<and> qr_lifecycle q' = qr_lifecycle q" if "\<not> mo_replayed out"
    using g(5)
  proof cases
    case (applied q1 now t q2)
    have "q1 = q"
      using applied(2) g(3) same(3) r(1) by simp
    then show ?thesis
      using step_acknowledged [OF applied(5) r(2,3)] qr_viewD [OF applied(6)] applied(1) r(1) same q'
      by (auto simp: um_find_put)
  qed (use that r in auto)
  then show ?thesis
    using g(1,3,4) gone by blast
qed

section \<open>The replay gate\<close>

lemma gate_bounded: "tr_wf t \<Longrightarrow> length (tr_states (observe_all tr_observe t ps)) \<le> tr_max_publishers t"
proof -
  have "tr_wf t \<Longrightarrow> tr_wf (observe_all tr_observe t ps) \<and> tr_max_publishers (observe_all tr_observe t ps) = tr_max_publishers t"
    by (induction ps arbitrary: t) (simp_all add: observe_wf)
  then show "tr_wf t \<Longrightarrow> ?thesis"
    by (auto simp: tr_wf_def)
qed

end
