(* ===== verification/QF_Scenario.thy ===== *)
theory QF_Scenario
  imports QF_Guarantees
begin

text \<open>
  A small concrete fabric on which the guarantees are exercised: one resource with one class, one
  pool, one live backend and one owner who holds every capability, and one queue. Each theorem with
  hypotheses has an instance here, evaluated by the simplifier.
\<close>

definition demo_provenance :: "u64 \<Rightarrow> provenance" where
  "demo_provenance n = \<lparr>pv_publisher = Ident 7, pv_node = Ident 1, pv_incarnation = Counter 1,
     pv_epoch = Counter 1, pv_sequence = Counter n, pv_boot = \<lparr>boot_hi = 1, boot_lo = 1\<rparr>\<rparr>"

definition demo_binding :: class_binding where
  "demo_binding = \<lparr>cb_id = Ident 1, cb_generation = Counter 1\<rparr>"

definition demo_backend :: backend_incarnation where
  "demo_backend = \<lparr>bi_backend = Ident 1, bi_resource = Ident 1, bi_incarnation = Counter 1, bi_epoch = Counter 1,
     bi_registered_at = 0, bi_alive = True\<rparr>"

definition demo_resource :: resource_record where
  "demo_resource = \<lparr>rr_id = Ident 1, rr_name = ''r'', rr_owner = Ident 5, rr_generation = Counter 1,
     rr_epoch = Counter 1,
     rr_authority = \<lparr>av_resource = Ident 1, av_owner = Ident 5, av_epoch = Counter 1,
        av_grants = [\<lparr>ag_owner = Ident 5, ag_capabilities = 0x7FFFFFFF\<rparr>]\<rparr>,
     rr_classes = [\<lparr>sc_id = Ident 1, sc_resource = Ident 1, sc_name = ''c'', sc_priority = 0,
        sc_qos = \<lparr>qos_priority_code = 0, qos_traffic_class = 0, qos_group = []\<rparr>, sc_generation = Counter 1,
        sc_declared_by = demo_provenance 1\<rparr>],
     rr_pools = [\<lparr>bp_id = Ident 1, bp_resource = Ident 1, bp_name = ''p'', bp_capacity_bytes = 1000,
        bp_generation = Counter 1, bp_declared_by = demo_provenance 1\<rparr>],
     rr_backends = [demo_backend], rr_applicability = App_none, rr_declared_by = demo_provenance 1,
     rr_declared_at = 0, rr_queue_count = 1\<rparr>"

definition demo_definition :: queue_definition where
  "demo_definition = \<lparr>qd_id = Ident 1, qd_resource = Ident 1, qd_name = ''q'', qd_depth = 8, qd_cls = demo_binding,
     qd_pool = \<lparr>pr_id = Ident 1, pr_generation = Counter 1, pr_capacity_bytes = 1000\<rparr>,
     qd_thresholds = \<lparr>th_low_watermark_bytes = 10, th_high_watermark_bytes = 50, th_max_occupancy_bytes = 100,
        th_max_packets = 0, th_occupancy_stale_after = 0\<rparr>,
     qd_owner = Ident 5, qd_generation = Counter 1, qd_declared_by = demo_provenance 1, qd_declared_at = 0\<rparr>"

text \<open>A queue whose drain is complete: acknowledged by the live backend and observed empty.\<close>

definition drained_queue :: queue_record where
  "drained_queue = (new_queue_record demo_definition)\<lparr>qr_lifecycle := Lc_draining,
     qr_occupancy := \<lparr>oc_present = True, oc_bytes = 0, oc_packets = 0, oc_observed_at = 5, oc_sequence = Counter 1,
        oc_epoch = Counter 1, oc_provenance = demo_provenance 1, oc_queue_generation = Counter 1,
        oc_freshness = Fr_fresh, oc_age = 0\<rparr>,
     qr_drain := \<lparr>dr_phase = Dp_evidence_pending, dr_attempt = no_attempt, dr_requested_at = 4,
        dr_requested_by = demo_provenance 1,
        dr_evidence = \<lparr>de_records = 1,
          de_backend = \<lparr>bo_request_accepted = True, bo_reported_drained = True, bo_backend = Ident 1,
             bo_backend_incarnation = Counter 1, bo_epoch = Counter 1, bo_sequence = Counter 1, bo_observed_at = 5\<rparr>,
          de_occupancy_zero_observed = True, de_zero_observed_at = 5, de_zero_sequence = Counter 1,
          de_revalidated = True\<rparr>\<rparr>,
     qr_applied := \<lparr>ba_known = True, ba_backend = Ident 1, ba_backend_incarnation = Counter 1, ba_epoch = Counter 1,
        ba_sequence = Counter 1, ba_applied_at = 3, ba_applied_class = demo_binding, ba_queue_generation = Counter 1,
        ba_applied_high_watermark_bytes = 50, ba_applied_max_occupancy_bytes = 100\<rparr>\<rparr>"

text \<open>The fabric that holds one queue record, with a given journal, under a clock that stands at 6.\<close>

definition demo_fabric :: "'j option \<Rightarrow> queue_record \<Rightarrow> 'j fabric" where
  "demo_fabric jo q = (new_fabric default_config (\<lambda>_. 6) jo None 1)
     \<lparr>fb_epoch := Counter 1, fb_boot := \<lparr>boot_hi = 1, boot_lo = 1\<rparr>, fb_resources := [(Ident 1, demo_resource)],
      fb_queues := [(Ident 1, q)], fb_queue_names := [(name_key (Ident 1) ''q'', Ident 1)],
      fb_next_resource_id := 2, fb_next_queue_id := 2, fb_next_class_id := 2, fb_next_pool_id := 2,
      fb_next_backend_id := 2\<rparr>"

definition demo_journal :: memory_journal where
  "demo_journal = new_memory_journal\<lparr>mj_open := True\<rparr>"

definition demo_request :: "mutation_kind \<Rightarrow> mutation_payload \<Rightarrow> mutation_request" where
  "demo_request k p = \<lparr>mr_attempt = \<lparr>at_publisher = Ident 7, at_counter = 9\<rparr>, mr_kind = k, mr_queue = Ident 1,
     mr_expected_generation = Counter 1, mr_expected_epoch = Counter 1, mr_principal = Ident 5,
     mr_provenance = demo_provenance 2, mr_payload = p\<rparr>"

definition active_queue :: queue_record where
  "active_queue = (new_queue_record demo_definition)\<lparr>qr_lifecycle := Lc_active\<rparr>"

lemmas demo_defs = demo_provenance_def demo_binding_def demo_backend_def demo_resource_def demo_definition_def
  drained_queue_def active_queue_def demo_fabric_def demo_request_def new_fabric_def new_queue_record_def

lemma demo_find [simp]:
  "find_queue (demo_fabric jo q) (Ident 1) = Some q" "find_resource (demo_fabric jo q) (Ident 1) = Some demo_resource"
  "mr_queue (demo_request k p) = Ident 1" "mr_kind (demo_request k p) = k" "mr_payload (demo_request k p) = p"
  "\<not> fb_shutting_down (demo_fabric jo q)" "fb_journal (demo_fabric jo q) = jo" "memo_capacity (demo_fabric jo q) = 64"
  "fb_epoch (demo_fabric jo q) = Counter 1" "fst (monotonic_now (demo_fabric jo q)) = 6" "\<not> fb_replaying (demo_fabric jo q)"
  by (simp_all add: demo_fabric_def demo_request_def find_queue_def find_resource_def um_find_def new_fabric_def
      default_config_def default_limits_def limit_defs monotonic_now_def)

lemma enc_mutation_nonempty: "enc_mutation m \<noteq> []"
proof -
  have "0 < length (enc_mutation m)"
    by (simp add: enc_mutation_def)
  then show ?thesis
    by auto
qed

lemma demo_ready:
  assumes "fits_payload p" "jo \<in> {None, Some demo_journal}"
  shows "journal_ready memory_ops (demo_request k p) (demo_fabric jo q)"
proof -
  have enc: "encode_mutation (demo_request k p) \<noteq> []" "length (encode_mutation (demo_request k p)) \<le> kMaxJournalRecordBytes"
    using assms(1) length_enc_mutation [of "demo_request k p"] enc_mutation_nonempty
    by (auto simp: encode_mutation_eq limit_defs)
  show ?thesis
    using assms(2) enc
    by (auto simp: journal_ready_def journal_commit_locked_def Let_def memory_ops_def mj_append_def mj_sync_def demo_journal_def
        new_memory_journal_def demo_fabric_def new_fabric_def default_config_def)
qed

lemma demo_authorized:
  assumes "\<not> has_flag app App_fenced" "l \<notin> {Lc_retired, Lc_failed}"
  shows "ad_allowed (authorize (rr_authority demo_resource) (Ident 5) c (Counter 1) app l)"
  using assms has_capability_all
  by (simp add: authorize_allowed_iff demo_resource_def capabilities_of_def ctr_valid_def)

lemma demo_fresh: "classify (fb_provenance (demo_fabric jo q)) (demo_provenance 2) = Pc_accepted"
  by (simp add: demo_fabric_def demo_provenance_def new_fabric_def classify_def new_tracker_def um_find_def um_empty_def limit_defs
      pv_valid_def id_valid_def ctr_valid_def boot_valid_def)

lemma demo_admitted:
  assumes "qr_def q = demo_definition" "\<not> has_flag (qr_applicability q) App_fenced" "qr_lifecycle q \<notin> {Lc_retired, Lc_failed}"
  shows "admitted (demo_fabric jo q) q (demo_request k p)"
  using demo_authorized [OF assms(2,3)] demo_fresh [of jo q]
  by (simp add: admitted_def assms(1) demo_definition_def demo_request_def ctr_valid_def)

lemma demo_valid: "p = Pl_monostate \<Longrightarrow> payload_matches k p \<Longrightarrow> ok (mr_validate (demo_request k p))"
  by (simp add: mr_validate_ok demo_request_def demo_provenance_def attempt_valid_def pv_valid_def id_valid_def ctr_valid_def
      boot_valid_def validate_payload_def)

lemma drained_evidence: "quiesce_evidence (demo_fabric jo drained_queue) 6 drained_queue"
proof -
  have live: "find_live_backend (demo_fabric jo drained_queue) (Ident 1) (Ident 1) = Some demo_backend"
    by (simp add: find_live_backend_def) (simp add: demo_resource_def demo_backend_def id_valid_def)
  have q: "qd_resource (qr_def drained_queue) = Ident 1" "bo_backend (de_backend (dr_evidence (qr_drain drained_queue))) = Ident 1"
      "qd_generation (qr_def drained_queue) = Counter 1" "qd_cls (qr_def drained_queue) = demo_binding"
    by (simp_all add: drained_queue_def new_queue_record_def demo_definition_def)
  have "op_max_age (occupancy_policy_for (fb_config (demo_fabric jo drained_queue)) drained_queue) = 1000000000"
    by (simp add: occupancy_policy_for_def demo_defs default_config_def default_policy_def fp_resolve_def stale_after_for_def
        default_occupancy_policy_def fp_find_class_def Let_def)
  then have "drain_evidence_complete (qr_drain drained_queue) (qr_occupancy drained_queue) (Some demo_backend) (Counter 1)
      (occupancy_policy_for (fb_config (demo_fabric jo drained_queue)) drained_queue) 6"
    by (simp add: drain_evidence_complete_def drained_queue_def demo_backend_def occupancy_authoritative_def Let_def)
  moreover have "bv_verified (verify_backend_applied (qr_applied drained_queue) demo_backend (Counter 1) (Counter 1) demo_binding)"
    by (simp add: verify_backend_iff drained_queue_def demo_backend_def)
  moreover have "dr_phase (qr_drain drained_queue) \<noteq> Dp_idle"
    by (simp add: drained_queue_def)
  ultimately show ?thesis
    by (simp add: quiesce_evidence_def q live assess_drain_iff Let_def)
qed

text \<open>A mutation whose kind is enabled on the queue is applied by the fabric.\<close>

definition demo_runs :: "memory_journal option \<Rightarrow> queue_record \<Rightarrow> mutation_kind \<Rightarrow> mutation_payload \<Rightarrow> bool" where
  "demo_runs jo q k p \<longleftrightarrow> qr_def q = demo_definition \<and> \<not> has_flag (qr_applicability q) App_fenced
     \<and> qr_lifecycle q \<notin> {Lc_retired, Lc_failed} \<and> qr_memo q = [] \<and> jo \<in> {None, Some demo_journal}
     \<and> k \<noteq> Mk_declare_queue \<and> ok (mr_validate (demo_request k p)) \<and> fits_payload p
     \<and> ok (fst (apply_kind_locked q (demo_request k p) 6 (demo_fabric jo q)))"

lemma demo_enabled:
  assumes "demo_runs jo q k p" and r: "r = demo_request k p" and f: "f = demo_fabric jo q"
  shows "\<not> fb_shutting_down f" "ok (mr_validate r)" "mr_kind r \<noteq> Mk_declare_queue" "find_queue f (mr_queue r) = Some q"
    "find_attempt q (mr_attempt r) = None" "admitted f q r"
    "\<exists>st rule evs t g. apply_kind_locked q r (fst (monotonic_now f)) f = (st, rule, evs, t, g) \<and> ok st"
    "journal_ready memory_ops r f"
proof -
  have q: "qr_def q = demo_definition" "\<not> has_flag (qr_applicability q) App_fenced" "qr_lifecycle q \<notin> {Lc_retired, Lc_failed}"
    using assms(1) by (simp_all add: demo_runs_def)
  show "admitted f q r"
    unfolding r f by (rule demo_admitted [OF q])
  show "journal_ready memory_ops r f"
    unfolding r f by (rule demo_ready) (use assms(1) in \<open>simp_all add: demo_runs_def\<close>)
  show "\<exists>st rule evs t g. apply_kind_locked q r (fst (monotonic_now f)) f = (st, rule, evs, t, g) \<and> ok st"
    using assms(1) by (cases "apply_kind_locked q r 6 (demo_fabric jo q)") (auto simp: demo_runs_def r f)
qed (use assms(1) in \<open>simp_all add: demo_runs_def r f find_attempt_def\<close>)

lemma demo_run:
  assumes "demo_runs jo q k p" and r: "r = demo_request k p"
  obtains out f' q' where "fabric_apply memory_ops r (demo_fabric jo q) = (Inr out, f')" "\<not> mo_replayed out"
    "find_queue f' (Ident 1) = Some q'" "qr_lifecycle q' = (case target_lifecycle (mr_kind r) of Some l \<Rightarrow> l | None \<Rightarrow> qr_lifecycle q)"
    "qr_view q' = qr_view (fst (snd (snd (snd (apply_kind_locked q r 6 (demo_fabric jo q))))))"
    "mo_rule out = fst (snd (apply_kind_locked q r 6 (demo_fabric jo q)))"
proof -
  note en = demo_enabled [OF assms refl]
  obtain st rule evs t g where k: "apply_kind_locked q r (fst (monotonic_now (demo_fabric jo q))) (demo_fabric jo q) = (st, rule, evs, t, g)"
      and st: "ok st"
    using en(7) by blast
  obtain out f' q' where res: "fabric_apply memory_ops r (demo_fabric jo q) = (Inr out, f')" "\<not> mo_replayed out"
      "find_queue f' (mr_queue r) = Some q'" "qr_view q' = qr_view t" "mo_rule out = rule"
    using apply_progress [OF en(1-6) k st en(8)] by blast
  have k6: "apply_kind_locked q r 6 (demo_fabric jo q) = (st, rule, evs, t, g)"
    using k by simp
  show ?thesis
  proof (rule that [OF res(1,2)])
    show "find_queue f' (Ident 1) = Some q'"
      using res(3) by (simp add: r demo_request_def)
    show "qr_lifecycle q' = (case target_lifecycle (mr_kind r) of Some l \<Rightarrow> l | None \<Rightarrow> qr_lifecycle q)"
      using view_fields(1) [OF res(4)] step_target [OF conjunct1 [OF apply_kind_ok [OF k st]]] by simp
  qed (simp_all add: k6 res(4,5))
qed

lemma demo_quiesce: "jo \<in> {None, Some demo_journal} \<Longrightarrow> demo_runs jo drained_queue Mk_quiesce_queue Pl_monostate"
proof -
  have lc: "qr_lifecycle drained_queue = Lc_draining" and d: "qr_def drained_queue = demo_definition"
      "\<not> has_flag (qr_applicability drained_queue) App_fenced" "qr_memo drained_queue = []"
    by (simp_all add: drained_queue_def new_queue_record_def flag_none)
  have "ok (fst (apply_kind_locked drained_queue (demo_request Mk_quiesce_queue Pl_monostate) 6 (demo_fabric jo drained_queue)))"
    using quiesce_exact [OF lc, of "demo_request Mk_quiesce_queue Pl_monostate" 6 "demo_fabric jo drained_queue"] drained_evidence [of jo]
    by (simp add: apply_kind_locked_def)
  then show "jo \<in> {None, Some demo_journal} \<Longrightarrow> ?thesis"
    unfolding demo_runs_def using lc d demo_valid [of Pl_monostate Mk_quiesce_queue]
    by (auto simp: payload_matches_def fits_payload_def)
qed

text \<open>New thresholds for an active queue.\<close>

definition demo_thresholds :: thresholds where
  "demo_thresholds = \<lparr>th_low_watermark_bytes = 20, th_high_watermark_bytes = 60, th_max_occupancy_bytes = 200,
     th_max_packets = 0, th_occupancy_stale_after = 0\<rparr>"

lemma demo_redefine: "jo \<in> {None, Some demo_journal} \<Longrightarrow> demo_runs jo active_queue Mk_set_thresholds (Pl_thresholds demo_thresholds)"
proof -
  have "ok (fst (apply_kind_locked active_queue (demo_request Mk_set_thresholds (Pl_thresholds demo_thresholds)) 6 (demo_fabric jo active_queue)))"
    by (simp add: apply_kind_locked_def kind_set_thresholds_def demo_thresholds_def th_consistent_def active_queue_def
        new_queue_record_def demo_definition_def ctr_next_def invalidate_for_definition_def Let_def)
  moreover have "ok (mr_validate (demo_request Mk_set_thresholds (Pl_thresholds demo_thresholds)))"
    by (simp add: mr_validate_ok demo_request_def demo_provenance_def attempt_valid_def pv_valid_def id_valid_def ctr_valid_def
      boot_valid_def validate_payload_def payload_matches_def th_consistent_def demo_thresholds_def)
  ultimately show "jo \<in> {None, Some demo_journal} \<Longrightarrow> ?thesis"
    unfolding demo_runs_def by (auto simp: active_queue_def new_queue_record_def flag_none fits_payload_def)
qed

section \<open>A declaration\<close>

definition demo_declaration :: declare_queue_payload where
  "demo_declaration = \<lparr>dq_resource = Ident 1, dq_name = ''w'', dq_depth = 8, dq_cls = demo_binding,
     dq_pool = \<lparr>pr_id = Ident 1, pr_generation = Counter 1, pr_capacity_bytes = 1000\<rparr>, dq_thresholds = demo_thresholds\<rparr>"

definition demo_declare :: mutation_request where
  "demo_declare = (demo_request Mk_declare_queue (Pl_declare_queue demo_declaration))\<lparr>mr_queue := Ident 0\<rparr>"

lemma demo_wf: "core_wf (core (demo_fabric jo active_queue)) \<and> config_ok (fb_config (demo_fabric jo active_queue))"
proof -
  have inv: "queue_inv default_config active_queue"
    by (simp add: queue_inv_def active_queue_def new_queue_record_def demo_definition_def name_in_range_def limit_defs ctr_valid_def
        cb_valid_def id_valid_def demo_binding_def th_consistent_def memo_wf_def default_config_def default_limits_def no_fence_def
        no_drain_def no_occupancy_def no_applied_def occupancy_authoritative_def)
  show ?thesis
    using inv
    by (simp add: core_wf_def core_def demo_fabric_def new_fabric_def um_wf_def um_find_def um_empty_def entry_wf_def resource_wf_def
        capacity_wf_def config_ok_def default_config_def default_limits_def limit_defs count_in_def placed_def
        active_queue_def new_queue_record_def demo_definition_def demo_resource_def demo_binding_def id_valid_def)
qed

lemma demo_declared:
  "\<exists>out f'. fabric_apply memory_ops demo_declare (demo_fabric (None :: memory_journal option) active_queue) = (Inr out, f') \<and> \<not> mo_replayed out"
proof -
  let ?f = "snd (monotonic_now (demo_fabric (None :: memory_journal option) active_queue))"
  have flds: "find_resource ?f (Ident 1) = Some demo_resource" "\<not> fb_replaying ?f" "\<not> fb_shutting_down ?f"
      "um_find (fb_queue_names ?f) (name_key (Ident 1) ''w'') = None" "fb_provenance ?f = fb_provenance (demo_fabric (None :: memory_journal option) active_queue)"
      "fb_journal ?f = None" "\<not> fc_durable (fb_config ?f)" "fb_queues ?f = [(Ident 1, active_queue)]"
      "fb_config ?f = default_config"
    by (simp_all add: monotonic_now_def demo_fabric_def new_fabric_def find_resource_def um_find_def name_key_inject default_config_def Let_def)
  have valid: "ok (mr_validate demo_declare)"
    by (simp add: mr_validate_ok demo_declare_def demo_request_def demo_provenance_def attempt_valid_def pv_valid_def id_valid_def ctr_valid_def
      boot_valid_def validate_payload_def payload_matches_def demo_declaration_def validate_declare_ok th_consistent_def demo_thresholds_def
      limit_defs cb_valid_def pr_valid_def demo_binding_def)
  have cls: "classify (fb_provenance ?f) (mr_provenance demo_declare) = Pc_accepted"
    using demo_fresh [of "None :: memory_journal option" active_queue] flds(5) by (simp add: demo_declare_def demo_request_def)
  obtain st t where obs: "tr_observe (fb_provenance ?f) (mr_provenance demo_declare) = (st, t)" "ok st"
    using observe_ok_iff [of "fb_provenance ?f" "mr_provenance demo_declare"] cls by (metis fst_conv surj_pair)
  have refusal: "declare_refusal demo_resource demo_declaration demo_declare ?f = None"
    using cls flds
    by (simp add: declare_refusal_def Let_def default_config_def default_limits_def limit_defs demo_resource_def demo_declaration_def
        rr_find_class_def rr_find_pool_def demo_binding_def th_consistent_def demo_thresholds_def)
  have "\<exists>out e g. declare_commit memory_ops demo_declaration demo_declare 6 ?f = (Inr out, e, g) \<and> \<not> mo_replayed out"
    using obs flds by (simp add: declare_commit_def declare_publish_def Let_def)
  then have "\<exists>out e g. apply_declare_locked memory_ops demo_declaration demo_declare 6 ?f = (Inr out, e, g) \<and> \<not> mo_replayed out"
    using flds demo_authorized [of App_none Lc_active Cap_declare_queue] refusal
    by (simp add: apply_declare_locked_def demo_declaration_def demo_declare_def demo_request_def) (simp add: demo_resource_def)
  moreover have "apply_locked memory_ops demo_declare (demo_fabric (None :: memory_journal option) active_queue)
      = apply_declare_locked memory_ops demo_declaration demo_declare 6 ?f"
    using valid flds(3) by (simp add: apply_locked_def split_beta) (simp add: demo_declare_def demo_request_def)
  ultimately show ?thesis
    by (auto simp: fabric_apply_def)
qed

section \<open>A backend acknowledgement\<close>

definition demo_ack :: backend_applied where
  "demo_ack = \<lparr>ba_known = True, ba_backend = Ident 1, ba_backend_incarnation = Counter 1, ba_epoch = Counter 1,
     ba_sequence = Counter 1, ba_applied_at = 3, ba_applied_class = demo_binding, ba_queue_generation = Counter 1,
     ba_applied_high_watermark_bytes = 50, ba_applied_max_occupancy_bytes = 100\<rparr>"

definition demo_plan :: backend_plan where
  "demo_plan = \<lparr>bpl_attempt = \<lparr>at_publisher = Ident 7, at_counter = 9\<rparr>, bpl_queue = Ident 1, bpl_resource = Ident 1,
     bpl_expected_generation = Counter 1, bpl_cls = demo_binding, bpl_thresholds = demo_thresholds,
     bpl_principal = Ident 5, bpl_epoch = Counter 1, bpl_planned_at = 2\<rparr>"

definition planned_fabric :: "memory_journal fabric" where
  "planned_fabric = (demo_fabric (None :: memory_journal option) active_queue)\<lparr>fb_plans := [(bpl_attempt demo_plan, demo_plan)]\<rparr>"

lemma demo_committed:
  "\<exists>out f'. commit_backend_apply memory_ops demo_plan demo_ack (demo_provenance 2) planned_fabric = (Inr out, f') \<and> \<not> mo_replayed out"
proof -
  let ?r = "demo_request Mk_acknowledge_backend (Pl_backend_ack demo_ack)"
  have r: "commit_request demo_plan demo_ack (demo_provenance 2) planned_fabric = ?r"
    by (simp add: commit_request_def demo_plan_def demo_request_def planned_fabric_def)
  have flds: "fb_epoch planned_fabric = Counter 1" "find_queue planned_fabric (Ident 1) = Some active_queue"
      "find_resource planned_fabric (Ident 1) = Some demo_resource" "fb_journal planned_fabric = None"
      "\<not> fc_durable (fb_config planned_fabric)"
    using demo_find(1) [of None active_queue] demo_find(2) [of None active_queue]
    by (simp_all add: planned_fabric_def find_queue_def find_resource_def demo_fabric_def new_fabric_def default_config_def)
  have live: "find_live_backend planned_fabric (Ident 1) (Ident 1) = Some demo_backend"
    unfolding find_live_backend_def flds(3) by (simp add: demo_resource_def demo_backend_def id_valid_def)
  have kind: "\<exists>rule evs t g. apply_kind_locked active_queue ?r 6 planned_fabric = (success, rule, evs, t, g)"
    by (simp add: apply_kind_locked_def kind_acknowledge_backend_def demo_ack_def id_valid_def active_queue_def
        new_queue_record_def demo_definition_def live verify_backend_iff Let_def flds(1) refuse_def) (simp add: demo_backend_def)
  have q: "qr_def active_queue = demo_definition" "\<not> has_flag (qr_applicability active_queue) App_fenced"
      "qr_lifecycle active_queue \<notin> {Lc_retired, Lc_failed}"
    by (simp_all add: active_queue_def new_queue_record_def)
  have same: "find_resource planned_fabric = find_resource (demo_fabric (None :: memory_journal option) active_queue)"
      "fb_replaying planned_fabric = fb_replaying (demo_fabric (None :: memory_journal option) active_queue)"
      "fb_provenance planned_fabric = fb_provenance (demo_fabric (None :: memory_journal option) active_queue)"
      "fb_epoch planned_fabric = fb_epoch (demo_fabric (None :: memory_journal option) active_queue)"
    by (simp_all add: planned_fabric_def find_resource_def fun_eq_iff)
  have adm: "admitted planned_fabric active_queue ?r"
    using demo_admitted [OF q, of None Mk_acknowledge_backend "Pl_backend_ack demo_ack"] unfolding admitted_def same .
  have ready: "journal_ready memory_ops ?r planned_fabric"
    using flds by (simp add: journal_ready_def)
  obtain f1 where now: "monotonic_now planned_fabric = (6, f1)"
    by (simp add: planned_fabric_def demo_fabric_def new_fabric_def monotonic_now_def)
  note irr = clock_irrelevant [OF now]
  obtain rule evs t g where k: "apply_kind_locked active_queue ?r 6 f1 = (success, rule, evs, t, g)"
    using kind apply_kind_core [OF irr(1,2), of active_queue ?r 6] by (auto simp: kind_out_def split: prod.splits)
  have "find_attempt active_queue (mr_attempt ?r) = None"
    by (simp add: find_attempt_def active_queue_def new_queue_record_def)
  then obtain out evs' q' f3 where "apply_existing_locked memory_ops active_queue ?r 6 f1 = (Inr out, evs', q', f3)" "\<not> mo_replayed out"
    using apply_existing_progress [OF _ _ k ok_success] adm ready irr by blast
  moreover have "\<not> fb_shutting_down planned_fabric" "um_find (fb_plans planned_fabric) (bpl_attempt demo_plan) \<noteq> None"
      "pv_valid (demo_provenance 2)" "qd_generation (qr_def active_queue) = Counter 1"
      "bpl_queue demo_plan = Ident 1" "bpl_expected_generation demo_plan = Counter 1"
    by (simp_all add: demo_plan_def planned_fabric_def um_find_def pv_valid_def demo_provenance_def id_valid_def ctr_valid_def boot_valid_def
        active_queue_def new_queue_record_def demo_definition_def)
  ultimately show ?thesis
    using flds now by (simp add: commit_backend_apply_def r Let_def persist_def on_queue_def)
qed

lemma demo_committed_plans:
  assumes "commit_backend_apply memory_ops demo_plan demo_ack (demo_provenance 2) planned_fabric = (Inr out, f')"
  shows "fb_plans f' = []"
proof -
  obtain g :: "memory_journal fabric" and c where g: "core g = core planned_fabric"
      "apply_spec g (commit_request demo_plan demo_ack (demo_provenance 2) planned_fabric) (Inr out) c"
      "core f' = core_dropped (bpl_attempt demo_plan) c"
    using commit_backend_apply_cases [OF assms] by auto
  have "co_plans c = fb_plans planned_fabric"
    using g(2) coreD(6) [OF g(1)] by cases (simp_all add: core_def)
  then show ?thesis
    using arg_cong [OF g(3), of co_plans] by (simp add: core_dropped_def planned_fabric_def um_erase_def)
qed

section \<open>An epoch change and a reservation\<close>

lemma demo_advance:
  "\<exists>f'. advance_epoch memory_ops (Ident 5) (demo_provenance 3) (demo_fabric (None :: memory_journal option) drained_queue) = (Inr (Counter 2), f')"
proof -
  have "advance_epoch_refusal (Ident 5) (demo_provenance 3) (demo_fabric (None :: memory_journal option) drained_queue) = None"
    using has_capability_all [of Cap_admin]
    by (simp add: advance_epoch_refusal_def Let_def demo_fabric_def new_fabric_def demo_resource_def capabilities_of_def
        pv_valid_def demo_provenance_def id_valid_def ctr_valid_def boot_valid_def)
  moreover have "\<not> fc_durable (fb_config (demo_fabric (None :: memory_journal option) drained_queue))"
    by (simp add: demo_fabric_def new_fabric_def default_config_def)
  ultimately show ?thesis
    by (simp add: advance_epoch_def ctr_next_def persist_def Let_def)
qed

lemma demo_reserved:
  "\<exists>plan f'. plan_backend_apply memory_ops (Ident 1) (Counter 1) (Ident 5) (demo_provenance 2) (demo_fabric (None :: memory_journal option) active_queue) = (Inr plan, f')
     \<and> fb_journal f' = None"
proof -
  let ?f = "demo_fabric (None :: memory_journal option) active_queue"
  have q: "qd_resource (qr_def active_queue) = Ident 1" "qd_generation (qr_def active_queue) = Counter 1"
      "qd_cls (qr_def active_queue) = demo_binding" "qr_applicability active_queue = App_none" "qr_lifecycle active_queue = Lc_active"
    by (simp_all add: active_queue_def new_queue_record_def demo_definition_def)
  have f: "fb_plans ?f = []" "fb_healthy ?f" "fl_max_pending_attempts (fc_limits (fb_config ?f)) = kMaxPendingAttempts" "\<not> fc_durable (fb_config ?f)"
    by (simp_all add: demo_fabric_def new_fabric_def um_empty_def default_config_def default_limits_def)
  have ref: "plan_refusal active_queue demo_resource (Counter 1) (Ident 5) (demo_provenance 2) ?f = None"
    using demo_authorized [of App_none Lc_active Cap_acknowledge_backend] demo_fresh [of "None :: memory_journal option" active_queue]
    by (simp add: plan_refusal_def q f ctr_valid_def Let_def limit_defs rr_find_class_def) (simp add: q demo_resource_def demo_binding_def)
  obtain f1 where now: "monotonic_now ?f = (6, f1)"
    by (simp add: demo_fabric_def new_fabric_def monotonic_now_def)
  have f1: "f1 = ?f\<lparr>fb_ticks := fb_ticks ?f + 1, fb_clock_watermark := 6\<rparr>"
    using now by (auto simp: monotonic_now_def Let_def)
  obtain t where obs: "tr_observe (fb_provenance f1) (demo_provenance 2) = (success, t)"
    using demo_fresh [of "None :: memory_journal option" active_queue] by (auto simp: f1 tr_observe_def Let_def split: option.splits if_splits)
  show ?thesis
    using f by (simp add: plan_backend_apply_def pv_valid_def q ref now Let_def reserve_plan_def obs)
       (simp add: f1 f demo_provenance_def id_valid_def ctr_valid_def boot_valid_def persist_def emit_events_def)
qed

section \<open>A restart\<close>

text \<open>The in-memory journal with an \<^verbatim>\<open>open\<close> that keeps its records, as a file does, and one epoch record in it.\<close>

definition kept_ops :: "memory_journal journal_ops" where
  "kept_ops = memory_ops\<lparr>jo_open := (\<lambda>j. (success, j))\<rparr>"

definition demo_epoch :: epoch_state where
  "demo_epoch = \<lparr>es_boot = \<lparr>boot_hi = 3, boot_lo = 4\<rparr>, es_epoch = Counter 4, es_coordinator_incarnation = Counter 2\<rparr>"

definition kept_journal :: memory_journal where
  "kept_journal = demo_journal\<lparr>mj_records := [\<lparr>jr_type = Jr_epoch_state, jr_payload = encode_epoch_state demo_epoch\<rparr>]\<rparr>"

definition restarting :: "memory_journal fabric" where
  "restarting = new_fabric default_config (\<lambda>_. 6) (Some kept_journal) None 1"

lemma epoch_state_encodes: "encode_epoch_state s \<noteq> []" "\<not> kMaxJournalRecordBytes < length (encode_epoch_state s)"
proof -
  have "length (encode_epoch_state s) = 32"
    by (simp add: encode_epoch_state_eq enc_epoch_state_def)
  then show "encode_epoch_state s \<noteq> []" "\<not> kMaxJournalRecordBytes < length (encode_epoch_state s)"
    by (auto simp: limit_defs)
qed

lemma kept_seal:
  assumes "mj_open j" "\<not> mj_sync_failure j"
  shows "fst (recover_seal kept_ops j f) = success"
  using assms
  by (simp add: recover_seal_def kept_ops_def memory_ops_def Let_def append_epoch_state_locked_def note_recovery_def
      mj_append_def mj_sync_def split_beta epoch_state_encodes)

text \<open>Without replayed or unfinished attempts, nothing before the seal touches the journal.\<close>

lemma quiet_restore_journal:
  assumes "rs_replay_order s = []" "rs_outstanding s = []" "fb_resources f = []"
  shows "fb_journal (recover_replay J s (adopt_epoch e s (disconnect_backends f))) = fb_journal f"
  using assms
  by (simp add: recover_replay_def adopt_epoch_def disconnect_backends_def revalidate_queues_def rebuild_indexes_locked_def Let_def)

lemma kept_restore:
  assumes "rp_previous_epoch (fb_recovery f) = Counter 0" "fb_journal f = Some kept_journal" "fb_resources f = []"
  shows "fst (recover_restore kept_ops kept_journal f) = success"
proof -
  define s where "s = restore_records (jo_records kept_ops kept_journal) (start_restore f)"
  have s: "rs_replay_order s = []" "rs_outstanding s = []" "rs_fabric s = f" "rs_previous_epoch s = Counter 4"
    using assms(1)
    by (simp_all add: s_def kept_ops_def memory_ops_def kept_journal_def restore_records_def start_restore_def
        restore_record_def restore_epoch_def decode_encode_epoch_state counter_order um_empty_def) (simp_all add: demo_epoch_def)
  have "mj_open kept_journal" "\<not> mj_sync_failure kept_journal"
    by (simp_all add: kept_journal_def demo_journal_def new_memory_journal_def)
  then show ?thesis
    using quiet_restore_journal [OF s(1,2), of f] assms(2,3) kept_seal [of kept_journal]
    by (simp add: recover_restore_def s_def [symmetric] Let_def s ctr_valid_def ctr_next_def)
qed

lemma demo_recovered: "\<exists>f'. recover kept_ops restarting = (success, f')"
proof -
  have op: "jo_open kept_ops kept_journal = (success, kept_journal)"
    "rp_previous_epoch (jo_recovery kept_ops kept_journal) = Counter 0"
    by (simp_all add: kept_ops_def memory_ops_def kept_journal_def demo_journal_def new_memory_journal_def new_report_def)
  have "fst (recover_locked kept_ops restarting) = success"
    by (simp add: recover_locked_def restarting_def new_fabric_def Let_def split_beta um_empty_def op kept_restore)
  then show ?thesis
    by (cases "recover_locked kept_ops restarting") (simp add: recover_def)
qed

lemma demo_snapshot: "snapshot_ok (demo_fabric jo active_queue)"
proof -
  have "rt_queue active_queue"
    by (simp add: rt_queue_def active_queue_def new_queue_record_def demo_definition_def rt_queue_definition_def name_fits_def limit_defs
        rt_thresholds_def in_i64_def lifecycle_canonical_def reason_rt_def rt_occupancy_state_def no_occupancy_def
        freshness_canonical_def rt_fence_state_def no_fence_def rt_drain_state_def no_drain_def drain_phase_canonical_def
        rt_drain_evidence_def no_evidence_def no_observation_def evidence_count_ok_def rt_backend_applied_def no_applied_def
        i64_min_def i64_max_def lifecycle_of_u8_def freshness_of_u8_def drain_phase_of_u8_def
        all_lifecycles_def all_freshness_def all_drain_phases_def)
  moreover have "rt_resource demo_resource"
    by (simp add: rt_resource_def demo_resource_def fits_resource_def name_fits_def limit_defs fits_class_def fits_pool_def
        in_i64_def rt_backend_def demo_backend_def enc_resource_def enc_seq_def enc_grant_def enc_class_def enc_pool_def enc_backend_def
        i64_min_def i64_max_def)
  ultimately show ?thesis
    by (simp add: snapshot_ok_def demo_fabric_def new_fabric_def) (simp add: demo_resource_def active_queue_def new_queue_record_def demo_definition_def)
qed

end
