(* ===== verification/QF_Raw.thy ===== *)
theory QF_Raw
  imports QF_Bytes QF_Hash
begin

text \<open>
  Raw little-endian access, the local helpers that \<^verbatim>\<open>src/frame.cpp\<close> and \<^verbatim>\<open>src/file_journal.cpp\<close>
  both define: a buffer of the encoder is a list that is overwritten in place (\<open>put_at\<close>), a read
  takes the bytes at an offset. The lemmas turn writes at ascending offsets into a prefix that grows,
  and read a field back from its place.
\<close>

text \<open>\<^verbatim>\<open>put_u16_at\<close>, \<^verbatim>\<open>put_u32_at\<close> and \<^verbatim>\<open>put_u64_at\<close> overwrite bytes at an offset.\<close>

definition put_at :: "nat \<Rightarrow> bytes \<Rightarrow> bytes \<Rightarrow> bytes" where
  "put_at off bs raw = take off raw @ bs @ drop (off + length bs) raw"

definition put_u16_at :: "nat \<Rightarrow> u16 \<Rightarrow> bytes \<Rightarrow> bytes" where
  "put_u16_at off v raw = put_at off (le_put 2 v) raw"

definition put_u32_at :: "nat \<Rightarrow> u32 \<Rightarrow> bytes \<Rightarrow> bytes" where
  "put_u32_at off v raw = put_at off (le_put 4 v) raw"

definition put_u64_at :: "nat \<Rightarrow> u64 \<Rightarrow> bytes \<Rightarrow> bytes" where
  "put_u64_at off v raw = put_at off (le_put 8 v) raw"

definition get_u16_at :: "bytes \<Rightarrow> nat \<Rightarrow> u16" where
  "get_u16_at raw off = le_get 2 raw off"

definition get_u32_at :: "bytes \<Rightarrow> nat \<Rightarrow> u32" where
  "get_u32_at raw off = le_get 4 raw off"

definition get_u64_at :: "bytes \<Rightarrow> nat \<Rightarrow> u64" where
  "get_u64_at raw off = le_get 8 raw off"

lemma length_put_at [simp]: "off + length bs \<le> length raw \<Longrightarrow> length (put_at off bs raw) = length raw"
  by (simp add: put_at_def)

text \<open>Writes at ascending offsets build a prefix of the zero-filled buffer.\<close>

definition filled :: "bytes \<Rightarrow> nat \<Rightarrow> bytes" where
  "filled pre n = pre @ replicate n 0"

lemma put_at_filled:
  assumes "off = length pre" "length bs \<le> n"
  shows "put_at off bs (filled pre n) = filled (pre @ bs) (n - length bs)"
  using assms by (simp add: put_at_def filled_def)

lemma filled_start: "replicate n 0 = filled [] n"
  by (simp add: filled_def)

lemma take_filled: "k = length pre \<Longrightarrow> take k (filled pre n) = pre"
  by (simp add: filled_def)

lemma get_at_prefix:
  "off = length pre \<Longrightarrow> get_u16_at (pre @ le_put 2 v @ rest) off = v"
  "off = length pre \<Longrightarrow> get_u32_at (pre @ le_put 4 w @ rest) off = w"
  "off = length pre \<Longrightarrow> get_u64_at (pre @ le_put 8 x @ rest) off = x"
  by (simp_all add: get_u16_at_def get_u32_at_def get_u64_at_def le_get_put)

lemma split_longer:
  assumes "as @ bs = cs @ ds" "length as \<le> length cs"
  obtains us where "cs = as @ us" "bs = us @ ds"
  using assms by (auto simp: append_eq_append_conv2)

lemma crc32c_concat: "crc32c (as @ bs) = crc32c_extend (crc32c as) bs"
  by (simp add: crc32c_def crc32c_extend_append)

end
