(* ===== verification/QF_FileJournal.thy ===== *)
theory QF_FileJournal
  imports QF_Journal QF_Raw
begin

text \<open>
  \<^verbatim>\<open>src/file_journal.cpp\<close>: the journal in a file. The file at the configured path is \<open>fj_disk\<close>
  (\<open>None\<close> when it does not exist); it is what the process sees through its handle. Every call of the
  C library and the file system (\<^verbatim>\<open>fopen\<close>, \<^verbatim>\<open>fseek\<close>, \<^verbatim>\<open>ftell\<close>, \<^verbatim>\<open>fread\<close>, \<^verbatim>\<open>fwrite\<close>, \<^verbatim>\<open>fflush\<close>, \<^verbatim>\<open>fsync\<close>,
  \<^verbatim>\<open>ftruncate\<close>, \<^verbatim>\<open>rename\<close>) takes the next outcome of the sequence \<open>fj_io\<close>: it succeeds, or it fails,
  and a failed write has stored some of its bytes. The lemmas show what is in the file after each
  operation, that reopening reads back what was appended, whatever part of the last append reached
  the file, and that a damaged record is never loaded.
\<close>

section \<open>The format\<close>

definition kJournalMagic :: u32 where "kJournalMagic = 0x314A4651"

definition kHeaderBytes :: nat where "kHeaderBytes = 40"

definition kRecordPrefixBytes :: nat where "kRecordPrefixBytes = 10"

definition kDurableFormatVersion :: u16 where "kDurableFormatVersion = 1"

definition kMaxJournalFileBytes :: nat where "kMaxJournalFileBytes = 2 ^ 32"

fun u16_of_journal_record_type :: "journal_record_type \<Rightarrow> u16" where
  "u16_of_journal_record_type Jr_resource_state = 1"
| "u16_of_journal_record_type Jr_queue_state = 2"
| "u16_of_journal_record_type Jr_begin_attempt = 3"
| "u16_of_journal_record_type Jr_commit_mutation = 4"
| "u16_of_journal_record_type Jr_epoch_state = 5"
| "u16_of_journal_record_type Jr_noop = 6"
| "u16_of_journal_record_type (Jr_raw v) = v"

definition journal_record_type_of_u16 :: "u16 \<Rightarrow> journal_record_type" where
  "journal_record_type_of_u16 v =
     (if v = 1 then Jr_resource_state else if v = 2 then Jr_queue_state else if v = 3 then Jr_begin_attempt
      else if v = 4 then Jr_commit_mutation else if v = 5 then Jr_epoch_state else if v = 6 then Jr_noop
      else Jr_raw v)"

text \<open>The stack buffers of the source are not initialised; every byte of them is written.\<close>

definition encode_header :: "boot_id \<Rightarrow> Epoch \<Rightarrow> bytes" where
  "encode_header boot epoch =
     (let out = replicate kHeaderBytes 0;
          out = put_u32_at 0 kJournalMagic out;
          out = put_u16_at 4 kDurableFormatVersion out;
          out = put_u16_at 6 0 out;
          out = put_u64_at 8 (boot_hi boot) out;
          out = put_u64_at 16 (boot_lo boot) out;
          out = put_u64_at 24 (ctr_value epoch) out;
          out = put_u32_at 32 (crc32c (take 32 out)) out
      in put_u32_at 36 0 out)"

definition encode_record :: "journal_record_type \<Rightarrow> bytes \<Rightarrow> bytes" where
  "encode_record ty payload =
     (let out = replicate kRecordPrefixBytes 0;
          out = put_u16_at 0 (u16_of_journal_record_type ty) out;
          out = put_u32_at 2 (of_nat (length payload)) out;
          crc = crc32c (take 6 out);
          crc = crc32c_extend crc payload
      in put_u32_at 6 crc out)"

section \<open>State and input/output\<close>

record journal_config =
  jc_path :: string
  jc_sync_on_commit :: bool
  jc_max_file_bytes :: nat
  jc_max_record_bytes :: nat

definition default_journal_config :: "string \<Rightarrow> journal_config" where
  "default_journal_config path = \<lparr>jc_path = path, jc_sync_on_commit = True, jc_max_file_bytes = kMaxJournalFileBytes,
     jc_max_record_bytes = kMaxJournalRecordBytes\<rparr>"

datatype io_outcome = Io_ok | Io_failed nat

record file_journal =
  fj_config :: journal_config
  fj_file :: bool
  fj_records :: "journal_record list"
  fj_report :: recovery_report
  fj_header_boot :: boot_id
  fj_header_epoch :: Epoch
  fj_bytes_written :: nat
  fj_valid_prefix_bytes :: nat
  fj_open :: bool
  fj_disk :: "bytes option"
  fj_position :: nat
  fj_io :: "nat \<Rightarrow> io_outcome"
  fj_calls :: nat

definition new_file_journal :: "journal_config \<Rightarrow> bytes option \<Rightarrow> (nat \<Rightarrow> io_outcome) \<Rightarrow> file_journal" where
  "new_file_journal config disk io = \<lparr>fj_config = config, fj_file = False, fj_records = [], fj_report = new_report,
     fj_header_boot = no_boot, fj_header_epoch = Counter 0, fj_bytes_written = 0, fj_valid_prefix_bytes = 0,
     fj_open = False, fj_disk = disk, fj_position = 0, fj_io = io, fj_calls = 0\<rparr>"

definition io_call :: "file_journal \<Rightarrow> io_outcome \<times> file_journal" where
  "io_call j = (fj_io j (fj_calls j), j\<lparr>fj_calls := fj_calls j + 1\<rparr>)"

definition io_ok :: "file_journal \<Rightarrow> bool \<times> file_journal" where
  "io_ok j = (case io_call j of (r, j) \<Rightarrow> (r = Io_ok, j))"

definition fj_content :: "file_journal \<Rightarrow> bytes" where
  "fj_content j = (case fj_disk j of None \<Rightarrow> [] | Some c \<Rightarrow> c)"

text \<open>Writing beyond the end fills the gap with zeros.\<close>

definition overwrite :: "nat \<Rightarrow> bytes \<Rightarrow> bytes \<Rightarrow> bytes" where
  "overwrite off bs content =
     take off (content @ replicate (off - length content) 0) @ bs @ drop (off + length bs) content"

definition fj_store :: "bytes \<Rightarrow> file_journal \<Rightarrow> file_journal" where
  "fj_store bs j = j\<lparr>fj_disk := map_option (overwrite (fj_position j) bs) (fj_disk j),
                    fj_position := fj_position j + length bs\<rparr>"

definition fj_fseek :: "nat \<Rightarrow> file_journal \<Rightarrow> bool \<times> file_journal" where
  "fj_fseek pos j = (case io_ok j of (r, j) \<Rightarrow> (r, if r then j\<lparr>fj_position := pos\<rparr> else j))"

definition fj_fwrite :: "bytes \<Rightarrow> file_journal \<Rightarrow> bool \<times> file_journal" where
  "fj_fwrite bs j =
     (case io_call j of
        (Io_ok, j) \<Rightarrow> (True, fj_store bs j)
      | (Io_failed n, j) \<Rightarrow> (False, fj_store (take (min n (length bs - 1)) bs) j))"

definition sync_stream :: "file_journal \<Rightarrow> bool \<times> file_journal" where
  "sync_stream j = (case io_ok j of (flushed, j) \<Rightarrow> if \<not> flushed then (False, j) else io_ok j)"

text \<open>\<^verbatim>\<open>fopen\<close> with mode \<^verbatim>\<open>rb+\<close> needs the file to exist; mode \<^verbatim>\<open>wb+\<close> creates or empties it.\<close>

definition fj_fopen_existing :: "file_journal \<Rightarrow> file_journal" where
  "fj_fopen_existing j = (case io_ok j of (r, j) \<Rightarrow> j\<lparr>fj_file := r \<and> fj_disk j \<noteq> None, fj_position := 0\<rparr>)"

definition fj_fopen_fresh :: "file_journal \<Rightarrow> file_journal" where
  "fj_fopen_fresh j =
     (case io_ok j of
        (r, j) \<Rightarrow> (if r then j\<lparr>fj_file := True, fj_position := 0, fj_disk := Some []\<rparr> else j\<lparr>fj_file := False\<rparr>))"

section \<open>Opening and scanning\<close>

text \<open>The checksum test of the record at a position, of which all bytes are present.\<close>

definition record_checksum_ok :: "bytes \<Rightarrow> nat \<Rightarrow> nat \<Rightarrow> bool" where
  "record_checksum_ok raw cursor payload_len \<longleftrightarrow>
     crc32c_extend (crc32c (take 6 (drop cursor raw))) (take payload_len (drop (cursor + kRecordPrefixBytes) raw))
       = get_u32_at raw (cursor + 6)"

definition looks_like_more_data :: "nat \<Rightarrow> bytes \<Rightarrow> nat \<Rightarrow> bool" where
  "looks_like_more_data max_record raw next \<longleftrightarrow>
     length raw - next \<ge> kRecordPrefixBytes
     \<and> (let next_len = unat (get_u32_at raw (next + 2))
        in next_len \<le> max_record \<and> length raw - next \<ge> kRecordPrefixBytes + next_len
           \<and> record_checksum_ok raw next next_len)"

definition note_truncated :: "nat \<Rightarrow> recovery_report \<Rightarrow> recovery_report" where
  "note_truncated n report = report\<lparr>rp_records_truncated := rp_records_truncated report + 1,
                                    rp_bytes_truncated := rp_bytes_truncated report + n\<rparr>"

text \<open>The loop over the records. At every exit \<^verbatim>\<open>last_good\<close> is the cursor, which is the last component.\<close>

function scan_records ::
  "nat \<Rightarrow> bytes \<Rightarrow> nat \<Rightarrow> journal_record list \<Rightarrow> recovery_report \<Rightarrow> journal_record list \<times> recovery_report \<times> nat" where
  "scan_records max_record raw cursor records report =
     (if \<not> cursor < length raw then (records, report, cursor)
      else
        (let report = report\<lparr>rp_records_total := rp_records_total report + 1\<rparr>
         in if length raw - cursor < kRecordPrefixBytes
            then (records, note_truncated (length raw - cursor) report, cursor)
            else
              (let type_raw = get_u16_at raw cursor;
                   payload_len = unat (get_u32_at raw (cursor + 2));
                   next = cursor + kRecordPrefixBytes + payload_len
               in if payload_len > max_record \<or> length raw - cursor < kRecordPrefixBytes + payload_len
                  then (records, note_truncated (length raw - cursor) report, cursor)
                  else if \<not> record_checksum_ok raw cursor payload_len
                  then (if looks_like_more_data max_record raw next
                        then (records,
                              rp_note ''mid-file corruption detected; recovery refuses to skip records''
                                (report\<lparr>rp_records_corrupt := rp_records_corrupt report + 1,
                                        rp_status := Status Code_integrity_failure
                                          ''corrupt record followed by further valid records''\<rparr>),
                              cursor)
                        else (records, note_truncated (length raw - cursor) report, cursor))
                  else scan_records max_record raw next
                         (records @ [\<lparr>jr_type = journal_record_type_of_u16 type_raw,
                                     jr_payload = take payload_len (drop (cursor + kRecordPrefixBytes) raw)\<rparr>])
                         report)))"
  by pat_completeness auto
termination
  by (relation "measure (\<lambda>(m, raw, cursor, rs, rp). length raw - cursor)") (auto simp: kRecordPrefixBytes_def)

declare scan_records.simps [simp del]

definition fj_refuse :: "code \<Rightarrow> string \<Rightarrow> string \<Rightarrow> file_journal \<Rightarrow> status \<times> file_journal" where
  "fj_refuse c msg note j =
     (Status c msg, j\<lparr>fj_report := rp_note note ((fj_report j)\<lparr>rp_status := Status c msg\<rparr>)\<rparr>)"

text \<open>The part of \<^verbatim>\<open>open\<close> after the file has been read.\<close>

definition fj_load :: "bytes \<Rightarrow> file_journal \<Rightarrow> status \<times> file_journal" where
  "fj_load raw j =
     (if get_u32_at raw 0 \<noteq> kJournalMagic
      then fj_refuse Code_integrity_failure ''journal magic mismatch'' ''journal magic mismatch; refusing to load'' j
      else
        (let version = get_u16_at raw 4;
             j = j\<lparr>fj_report := (fj_report j)\<lparr>rp_format_version := version\<rparr>\<rparr>
         in if version \<noteq> kDurableFormatVersion
            then fj_refuse Code_unsupported ''unsupported durable format version''
                   ''durable format version is not supported by this build'' j
            else if get_u32_at raw 32 \<noteq> crc32c (take 32 raw)
            then fj_refuse Code_integrity_failure ''journal header checksum mismatch''
                   ''journal header checksum mismatch; refusing to load'' j
            else
              (let boot = \<lparr>boot_hi = get_u64_at raw 8, boot_lo = get_u64_at raw 16\<rparr>;
                   epoch = Counter (get_u64_at raw 24);
                   report = (fj_report j)\<lparr>rp_header_valid := True, rp_previous_boot_known := boot_valid boot,
                                          rp_previous_boot := boot, rp_previous_epoch := epoch\<rparr>
               in case scan_records (jc_max_record_bytes (fj_config j)) raw kHeaderBytes [] report of
                    (records, report, last_good) \<Rightarrow>
                      (let report = report\<lparr>rp_records_usable := length records\<rparr>;
                           report = (if rp_records_truncated report > 0 \<and> ok (rp_status report)
                                     then rp_note ''torn write detected at journal tail; valid prefix retained'' report
                                     else report)
                       in (rp_status report,
                           j\<lparr>fj_header_boot := boot, fj_header_epoch := epoch, fj_records := records,
                             fj_valid_prefix_bytes := last_good, fj_bytes_written := length raw,
                             fj_report := report\<rparr>)))))"

text \<open>A file without content gets an empty header.\<close>

definition fj_initialise :: "file_journal \<Rightarrow> status \<times> file_journal" where
  "fj_initialise j =
     (case fj_fwrite (encode_header no_boot (Counter 0)) j of
        (written, j) \<Rightarrow>
          (if \<not> written then (Status Code_internal ''cannot write journal header'', j)
           else (case sync_stream j of
                   (synced, j) \<Rightarrow>
                     (if \<not> synced then (Status Code_not_durable ''cannot flush journal header'', j)
                      else (success,
                            j\<lparr>fj_bytes_written := kHeaderBytes, fj_valid_prefix_bytes := kHeaderBytes,
                              fj_report := (fj_report j)\<lparr>rp_header_valid := True,
                                rp_format_version := kDurableFormatVersion, rp_records_usable := 0\<rparr>\<rparr>)))))"

text \<open>Sizing and reading the open file.\<close>

definition fj_read :: "file_journal \<Rightarrow> status \<times> file_journal" where
  "fj_read j =
     (case fj_fseek (length (fj_content j)) j of
        (seek, j) \<Rightarrow>
          (if \<not> seek then (Status Code_internal ''cannot seek journal file'', j)
           else (case io_ok j of
             (told, j) \<Rightarrow>
               (if \<not> told then (Status Code_internal ''cannot size journal file'', j)
                else if length (fj_content j) > jc_max_file_bytes (fj_config j)
                then fj_refuse Code_integrity_failure ''journal exceeds the configured maximum size''
                       ''journal file exceeds configured maximum; refusing to load'' j
                else if fj_content j = [] then fj_initialise j
                else if length (fj_content j) < kHeaderBytes
                then fj_refuse Code_integrity_failure ''journal header is truncated''
                       ''journal shorter than a header; refusing to load'' j
                else (case fj_fseek 0 j of
                  (seek, j) \<Rightarrow>
                    (case (if seek then io_ok j else (False, j)) of
                       (got, j) \<Rightarrow>
                         (if \<not> got then (Status Code_internal ''cannot read journal file'', j)
                          else fj_load (fj_content j) j)))))))"

definition fj_do_open :: "file_journal \<Rightarrow> status \<times> file_journal" where
  "fj_do_open j =
     (let j = j\<lparr>fj_records := [], fj_report := new_report, fj_bytes_written := 0, fj_valid_prefix_bytes := 0,
                fj_open := False\<rparr>
      in if jc_path (fj_config j) = [] then (Status Code_invalid_argument ''journal path is empty'', j)
         else if jc_max_record_bytes (fj_config j) > kMaxJournalRecordBytes
         then (Status Code_out_of_range ''journal record bound exceeds the runtime maximum'', j)
         else
           (let j = fj_fopen_existing j;
                j = (if fj_file j then j else fj_fopen_fresh j)
            in if \<not> fj_file j then (Status Code_internal ''cannot open journal file'', j)
               else fj_read (j\<lparr>fj_open := True, fj_report := (fj_report j)\<lparr>rp_journal_present := True\<rparr>\<rparr>)))"

section \<open>Appending, syncing and the header\<close>

definition fj_append :: "journal_record_type \<Rightarrow> bytes \<Rightarrow> file_journal \<Rightarrow> status \<times> file_journal" where
  "fj_append ty payload j =
     (if \<not> fj_open j \<or> \<not> fj_file j then (Status Code_internal ''journal is not open'', j)
      else if length payload > jc_max_record_bytes (fj_config j)
      then (Status Code_capacity_exceeded ''record exceeds configured maximum size'', j)
      else
        (let projected = fj_bytes_written j + kRecordPrefixBytes + length payload
         in if projected > jc_max_file_bytes (fj_config j)
            then (Status Code_capacity_exceeded ''journal file would exceed configured maximum size'', j)
            else
              (case fj_fseek (fj_bytes_written j) j of
                 (seek, j) \<Rightarrow>
                   (if \<not> seek then (Status Code_internal ''cannot seek journal for append'', j)
                    else (case fj_fwrite (encode_record ty payload) j of
                      (written, j) \<Rightarrow>
                        (if \<not> written then (Status Code_internal ''cannot append journal record prefix'', j)
                         else (case (if payload \<noteq> [] then fj_fwrite payload j else (True, j)) of
                           (written, j) \<Rightarrow>
                             (if \<not> written then (Status Code_internal ''cannot append journal record payload'', j)
                              else (success,
                                    j\<lparr>fj_bytes_written := projected, fj_valid_prefix_bytes := projected,
                                      fj_records := fj_records j @ [\<lparr>jr_type = ty, jr_payload = payload\<rparr>]\<rparr>)))))))))"

definition fj_sync :: "file_journal \<Rightarrow> status \<times> file_journal" where
  "fj_sync j =
     (if \<not> fj_open j \<or> \<not> fj_file j then (Status Code_internal ''journal is not open'', j)
      else if \<not> jc_sync_on_commit (fj_config j)
      then (case io_ok j of (r, j) \<Rightarrow> (if r then success else Status Code_not_durable ''flush failed'', j))
      else (case sync_stream j of (r, j) \<Rightarrow> (if r then success else Status Code_not_durable ''fsync failed'', j)))"

definition fj_write_header :: "boot_id \<Rightarrow> Epoch \<Rightarrow> file_journal \<Rightarrow> status \<times> file_journal" where
  "fj_write_header boot epoch j =
     (if \<not> fj_open j \<or> \<not> fj_file j then (Status Code_internal ''journal is not open'', j)
      else (case fj_fseek 0 j of
        (seek, j) \<Rightarrow>
          (if \<not> seek then (Status Code_internal ''cannot seek journal header'', j)
           else (case fj_fwrite (encode_header boot epoch) j of
             (written, j) \<Rightarrow>
               (if \<not> written then (Status Code_internal ''cannot write journal header'', j)
                else (case fj_fseek (fj_bytes_written j) j of
                  (seek, j) \<Rightarrow>
                    (if \<not> seek then (Status Code_internal ''cannot restore journal position'', j)
                     else (success, j\<lparr>fj_header_boot := boot, fj_header_epoch := epoch\<rparr>))))))))"

definition fj_truncate_to_valid_prefix :: "file_journal \<Rightarrow> status \<times> file_journal" where
  "fj_truncate_to_valid_prefix j =
     (if \<not> fj_open j \<or> \<not> fj_file j then (Status Code_internal ''journal is not open'', j)
      else if fj_valid_prefix_bytes j = fj_bytes_written j then (success, j)
      else (case io_ok j of
        (flushed, j) \<Rightarrow>
          (if \<not> flushed then (Status Code_internal ''cannot flush before truncation'', j)
           else (case io_ok j of
             (truncated, j) \<Rightarrow>
               (if \<not> truncated then (Status Code_internal ''cannot truncate journal tail'', j)
                else
                  (let j = j\<lparr>fj_disk := map_option (take (fj_valid_prefix_bytes j)) (fj_disk j),
                             fj_bytes_written := fj_valid_prefix_bytes j\<rparr>
                   in (case sync_stream j of
                         (synced, j) \<Rightarrow>
                           (if synced then success else Status Code_not_durable ''cannot flush truncated journal'', j))))))))"

section \<open>Compaction\<close>

text \<open>Writing to the temporary file: its content is threaded beside the journal.\<close>

definition temp_fwrite :: "bytes \<Rightarrow> bytes \<Rightarrow> file_journal \<Rightarrow> bool \<times> bytes \<times> file_journal" where
  "temp_fwrite bs temp j =
     (case io_call j of
        (Io_ok, j) \<Rightarrow> (True, temp @ bs, j)
      | (Io_failed n, j) \<Rightarrow> (False, temp @ take (min n (length bs - 1)) bs, j))"

fun rewrite_loop :: "journal_record list \<Rightarrow> bool \<times> bytes \<times> nat \<times> file_journal \<Rightarrow> bool \<times> bytes \<times> nat \<times> file_journal" where
  "rewrite_loop [] s = s"
| "rewrite_loop (r # rs) (good, temp, written, j) =
     (if \<not> good then (good, temp, written, j)
      else if length (jr_payload r) > jc_max_record_bytes (fj_config j) then (False, temp, written, j)
      else (case temp_fwrite (encode_record (jr_type r) (jr_payload r)) temp j of
        (good, temp, j) \<Rightarrow>
          (case (if good \<and> jr_payload r \<noteq> [] then temp_fwrite (jr_payload r) temp j else (good, temp, j)) of
             (good, temp, j) \<Rightarrow>
               rewrite_loop rs (good, temp, written + kRecordPrefixBytes + length (jr_payload r), j))))"

text \<open>The swap: the live handle is closed, the temporary file takes its place and is opened.\<close>

definition fj_swap :: "journal_record list \<Rightarrow> bytes \<Rightarrow> nat \<Rightarrow> file_journal \<Rightarrow> status \<times> file_journal" where
  "fj_swap records temp written j =
     (case io_ok (j\<lparr>fj_file := False\<rparr>) of
        (renamed, j) \<Rightarrow>
          (if \<not> renamed then (Status Code_internal ''atomic journal replacement failed'', fj_fopen_existing j)
           else
             (let j = fj_fopen_existing (j\<lparr>fj_disk := Some temp\<rparr>)
              in if \<not> fj_file j then (Status Code_internal ''cannot reopen compacted journal'', j\<lparr>fj_open := False\<rparr>)
                 else
                   (let j = j\<lparr>fj_records := records, fj_bytes_written := written, fj_valid_prefix_bytes := written,
                              fj_report := (fj_report j)\<lparr>rp_records_usable := length records, rp_records_truncated := 0,
                                rp_records_corrupt := 0, rp_bytes_truncated := 0\<rparr>\<rparr>
                    in case fj_fseek written j of
                         (seek, j) \<Rightarrow>
                           (if seek then success else Status Code_internal ''cannot position compacted journal'', j)))))"

definition fj_rewrite :: "journal_record list \<Rightarrow> file_journal \<Rightarrow> status \<times> file_journal" where
  "fj_rewrite records j =
     (if \<not> fj_open j then (Status Code_internal ''journal is not open'', j)
      else (case io_ok j of
        (opened, j) \<Rightarrow>
          (if \<not> opened then (Status Code_internal ''cannot create compaction target'', j)
           else (case temp_fwrite (encode_header (fj_header_boot j) (fj_header_epoch j)) [] j of
             (good, temp, j) \<Rightarrow>
               (case rewrite_loop records (good, temp, kHeaderBytes, j) of
                  (good, temp, written, j) \<Rightarrow>
                    (case (if good \<and> written \<le> jc_max_file_bytes (fj_config j) then sync_stream j else (False, j)) of
                       (good, j) \<Rightarrow>
                         (if \<not> good
                          then (Status Code_not_durable ''compaction failed; original journal retained'', j)
                          else fj_swap records temp written j)))))))"

definition fj_close :: "file_journal \<Rightarrow> file_journal" where
  "fj_close j = j\<lparr>fj_file := False, fj_open := False\<rparr>"

definition fj_describe :: "file_journal \<Rightarrow> string" where
  "fj_describe j = ''file journal at '' @ jc_path (fj_config j) @ '' records='' @ dec_string (length (fj_records j))
     @ '' records_total='' @ dec_string (rp_records_total (fj_report j))"

definition file_ops :: "file_journal journal_ops" where
  "file_ops = \<lparr>jo_open = fj_do_open, jo_records = fj_records, jo_recovery = fj_report, jo_append = fj_append,
     jo_sync = fj_sync, jo_rewrite = fj_rewrite, jo_write_header = fj_write_header,
     jo_truncate_to_valid_prefix = fj_truncate_to_valid_prefix, jo_close = fj_close\<rparr>"

section \<open>The contract of a journal\<close>

lemmas io_defs = io_ok_def io_call_def fj_fseek_def fj_fwrite_def sync_stream_def fj_store_def

lemma fj_append_records:
  "fj_records (snd (fj_append ty bs j)) =
     fj_records j @ (if ok (fst (fj_append ty bs j)) then [\<lparr>jr_type = ty, jr_payload = bs\<rparr>] else [])"
  by (simp add: fj_append_def io_defs Let_def split: io_outcome.split)

lemma fj_sync_records: "fj_records (snd (fj_sync j)) = fj_records j"
  by (simp add: fj_sync_def io_defs)

lemma fj_write_header_records: "fj_records (snd (fj_write_header boot epoch j)) = fj_records j"
  by (simp add: fj_write_header_def io_defs split: io_outcome.split)

lemma fj_rewrite_records:
  "ok (fst (fj_rewrite rs j)) \<Longrightarrow> fj_records (snd (fj_rewrite rs j)) = rs"
  by (auto simp: fj_rewrite_def fj_swap_def io_ok_def io_call_def fj_fopen_existing_def fj_fseek_def Let_def
      split: if_splits prod.splits)

interpretation disk: ijournal file_ops fj_records
  by unfold_locales
     (simp_all add: file_ops_def fj_append_records fj_sync_records fj_write_header_records fj_rewrite_records)

section \<open>What is in the file\<close>

definition header_bytes :: "boot_id \<Rightarrow> Epoch \<Rightarrow> bytes" where
  "header_bytes boot epoch =
     (let h = le_put 4 kJournalMagic @ le_put 2 kDurableFormatVersion @ le_put 2 (0 :: u16) @ le_put 8 (boot_hi boot)
              @ le_put 8 (boot_lo boot) @ le_put 8 (ctr_value epoch)
      in h @ le_put 4 (crc32c h) @ le_put 4 (0 :: u32))"

definition record_head :: "journal_record \<Rightarrow> bytes" where
  "record_head r = le_put 2 (u16_of_journal_record_type (jr_type r)) @ le_put 4 (of_nat (length (jr_payload r)) :: u32)"

definition record_bytes :: "journal_record \<Rightarrow> bytes" where
  "record_bytes r = record_head r @ le_put 4 (crc32c (record_head r @ jr_payload r)) @ jr_payload r"

definition records_bytes :: "journal_record list \<Rightarrow> bytes" where
  "records_bytes rs = concat (map record_bytes rs)"

lemma records_bytes_simps [simp]:
  "records_bytes [] = []" "records_bytes (r # rs) = record_bytes r @ records_bytes rs"
  "records_bytes (rs @ qs) = records_bytes rs @ records_bytes qs"
  by (simp_all add: records_bytes_def)

lemma length_header_bytes [simp]: "length (header_bytes boot epoch) = 40"
  by (simp add: header_bytes_def Let_def)

lemma length_record_head [simp]: "length (record_head r) = 6"
  by (simp add: record_head_def)

lemma length_record_bytes [simp]: "length (record_bytes r) = 10 + length (jr_payload r)"
  by (simp add: record_bytes_def)

lemma encode_header_layout: "encode_header boot epoch = header_bytes boot epoch"
  unfolding encode_header_def put_u64_at_def put_u32_at_def put_u16_at_def kHeaderBytes_def filled_start Let_def
  by (simp add: put_at_filled take_filled header_bytes_def Let_def) (simp add: filled_def)

lemma encode_record_layout: "encode_record ty p @ p = record_bytes \<lparr>jr_type = ty, jr_payload = p\<rparr>"
  unfolding encode_record_def put_u32_at_def put_u16_at_def kRecordPrefixBytes_def filled_start Let_def
  by (simp add: put_at_filled take_filled record_bytes_def record_head_def crc32c_concat crc32c_extend_append)
     (simp add: filled_def)

lemma journal_record_type_of_u16: "journal_record_type_of_u16 (u16_of_journal_record_type ty) =
    (case ty of Jr_raw v \<Rightarrow> journal_record_type_of_u16 v | _ \<Rightarrow> ty)"
  by (cases ty) (simp_all add: journal_record_type_of_u16_def)

section \<open>The scan\<close>

text \<open>A record that a journal with this bound can hold.\<close>

definition record_ok :: "nat \<Rightarrow> journal_record \<Rightarrow> bool" where
  "record_ok m r \<longleftrightarrow> m \<le> kMaxJournalRecordBytes \<and> length (jr_payload r) \<le> m
     \<and> journal_record_type_of_u16 (u16_of_journal_record_type (jr_type r)) = jr_type r"

lemma record_ok_length:
  "record_ok m r \<Longrightarrow> unat (of_nat (length (jr_payload r)) :: u32) = length (jr_payload r)"
  by (simp add: record_ok_def unat_of_nat take_bit_nat_eq_self limit_defs)

text \<open>The prefix of a record at a position, whatever its checksum field \<open>c\<close> and its payload bytes are.\<close>

lemma record_fields:
  assumes "raw = pre @ record_head r @ le_put 4 c @ tail"
  shows "get_u16_at raw (length pre) = u16_of_journal_record_type (jr_type r)"
    "get_u32_at raw (length pre + 2) = of_nat (length (jr_payload r))" "get_u32_at raw (length pre + 6) = c"
    "take 6 (drop (length pre) raw) = record_head r" "drop (length pre + 10) raw = tail"
    "length raw = length pre + 10 + length tail"
  using get_at_prefix(1) [of "length pre" pre] get_at_prefix(2) [of "length pre + 6" "pre @ record_head r"]
    get_at_prefix(2) [of "length pre + 2" "pre @ le_put 2 (u16_of_journal_record_type (jr_type r))"] assms
  by (simp_all add: record_head_def)

lemma record_checksum:
  assumes "raw = pre @ record_head r @ le_put 4 c @ tail" "n \<le> length tail"
  shows "record_checksum_ok raw (length pre) n \<longleftrightarrow> crc32c (record_head r @ take n tail) = c"
  using record_fields [OF assms(1)] by (simp add: record_checksum_ok_def kRecordPrefixBytes_def crc32c_concat)

abbreviation (input) scanned :: "recovery_report \<Rightarrow> recovery_report" where
  "scanned report \<equiv> report\<lparr>rp_records_total := rp_records_total report + 1\<rparr>"

text \<open>One round of the loop on a record of which at least the prefix is there.\<close>

lemma scan_prefix:
  assumes raw: "raw = pre @ record_head r @ le_put 4 c @ tail" and r: "record_ok m r"
  shows "scan_records m raw (length pre) recs report =
    (if length tail < length (jr_payload r) then (recs, note_truncated (10 + length tail) (scanned report), length pre)
     else if crc32c (record_head r @ take (length (jr_payload r)) tail) \<noteq> c
     then (if looks_like_more_data m raw (length pre + 10 + length (jr_payload r))
           then (recs, rp_note ''mid-file corruption detected; recovery refuses to skip records''
                   ((scanned report)\<lparr>rp_records_corrupt := rp_records_corrupt report + 1,
                      rp_status := Status Code_integrity_failure ''corrupt record followed by further valid records''\<rparr>),
                 length pre)
           else (recs, note_truncated (10 + length tail) (scanned report), length pre))
     else scan_records m raw (length pre + 10 + length (jr_payload r))
            (recs @ [\<lparr>jr_type = jr_type r, jr_payload = take (length (jr_payload r)) tail\<rparr>]) (scanned report))"
proof -
  have len: "length (jr_payload r) \<le> m" "unat (of_nat (length (jr_payload r)) :: u32) = length (jr_payload r)"
    "journal_record_type_of_u16 (u16_of_journal_record_type (jr_type r)) = jr_type r"
    using r record_ok_length [OF r] by (auto simp: record_ok_def)
  have sum: "length tail < length (jr_payload r) \<or> record_checksum_ok raw (length pre) (length (jr_payload r))
      = (crc32c (record_head r @ take (length (jr_payload r)) tail) = c)"
    using record_checksum [OF raw, of "length (jr_payload r)"] by auto
  show ?thesis
    using sum len(1)
    unfolding scan_records.simps [of m raw "length pre"] Let_def kRecordPrefixBytes_def record_fields [OF raw] len(2,3)
    by auto
qed

lemma scan_record:
  assumes "raw = pre @ record_bytes r @ rest" "record_ok m r"
  shows "scan_records m raw (length pre) recs report =
    scan_records m raw (length (pre @ record_bytes r)) (recs @ [r]) (scanned report)"
proof -
  have same: "\<lparr>jr_type = jr_type r, jr_payload = jr_payload r\<rparr> = r"
    by simp
  show ?thesis
    using scan_prefix [of raw pre r _ "jr_payload r @ rest", OF _ assms(2)] assms(1)
    by (simp add: record_bytes_def same add.assoc)
qed

lemma scan_whole_records:
  assumes "raw = pre @ records_bytes rs @ rest" "list_all (record_ok m) rs"
  shows "scan_records m raw (length pre) recs report =
    scan_records m raw (length (pre @ records_bytes rs)) (recs @ rs)
      (report\<lparr>rp_records_total := rp_records_total report + length rs\<rparr>)"
  using assms
proof (induction rs arbitrary: pre recs report)
  case (Cons r rs)
  then show ?case
    using scan_record [of raw pre r "records_bytes rs @ rest" m recs report]
      Cons.IH [of "pre @ record_bytes r" "recs @ [r]" "scanned report"] by simp
qed simp

text \<open>What a torn append leaves behind: nothing, or a proper part of a record.\<close>

definition torn :: "nat \<Rightarrow> bytes \<Rightarrow> bool" where
  "torn m tail \<longleftrightarrow> (\<exists>r missing. record_ok m r \<and> missing \<noteq> [] \<and> record_bytes r = tail @ missing)"

lemma scan_torn:
  assumes "raw = pre @ tail" "tail \<noteq> []" "torn m tail"
  shows "scan_records m raw (length pre) recs report = (recs, note_truncated (length tail) (scanned report), length pre)"
proof (cases "length tail < 10")
  case True
  then show ?thesis
    using assms(1,2) by (simp add: scan_records.simps [of m "pre @ tail" "length pre"] Let_def kRecordPrefixBytes_def)
next
  case False
  obtain r missing where r: "record_ok m r" "missing \<noteq> []" "record_bytes r = tail @ missing"
    using assms(3) by (auto simp: torn_def)
  have "(record_head r @ le_put 4 (crc32c (record_head r @ jr_payload r))) @ jr_payload r = tail @ missing"
    using r(3) by (simp add: record_bytes_def)
  then obtain us where us: "tail = (record_head r @ le_put 4 (crc32c (record_head r @ jr_payload r))) @ us"
      "jr_payload r = us @ missing"
    by (rule split_longer) (use False in simp)
  have "length us < length (jr_payload r)"
    using us(2) r(2) by simp
  then show ?thesis
    using scan_prefix [of raw pre r _ us m recs report] assms(1) us(1) r(1) by simp
qed

lemma scan_end: "scan_records m raw (length raw) recs report = (recs, report, length raw)"
  by (simp add: scan_records.simps [of m raw])

text \<open>The scan of an intact journal with a torn tail, from the end of the header.\<close>

lemma scan_journal:
  assumes "raw = pre @ records_bytes rs @ tail" "list_all (record_ok m) rs" "torn m tail"
  shows "scan_records m raw (length pre) [] report =
    (rs, let report = report\<lparr>rp_records_total := rp_records_total report + length rs\<rparr>
         in if tail = [] then report else note_truncated (length tail) (scanned report),
     length (pre @ records_bytes rs))"
  using scan_whole_records [OF assms(1,2), of "[]" report] scan_torn [of raw "pre @ records_bytes rs" tail m rs]
    scan_end [of m raw rs] assms(1,3) by (cases "tail = []") (simp_all add: Let_def)

text \<open>A record whose bytes do not have the checksum it carries.\<close>

lemma scan_damaged:
  assumes raw: "raw = pre @ record_head r @ le_put 4 c @ p @ rest" and "record_ok m r" "length p = length (jr_payload r)"
    and "crc32c (record_head r @ p) \<noteq> c"
  shows "fst (scan_records m raw (length pre) recs report) = recs"
    "rest = record_bytes q @ others \<and> record_ok m q \<Longrightarrow>
       rp_status (fst (snd (scan_records m raw (length pre) recs report)))
         = Status Code_integrity_failure ''corrupt record followed by further valid records''"
proof -
  note step = scan_prefix [of raw pre r c "p @ rest" m recs report, OF raw assms(2)]
  show "fst (scan_records m raw (length pre) recs report) = recs"
    using step assms(3,4) by simp
  assume q: "rest = record_bytes q @ others \<and> record_ok m q"
  have "looks_like_more_data m raw (length pre + 10 + length (jr_payload r))"
  proof -
    let ?pre = "pre @ record_head r @ le_put 4 c @ p"
    have at: "raw = ?pre @ record_head q @ le_put 4 (crc32c (record_head q @ jr_payload q)) @ jr_payload q @ others"
      using raw q by (simp add: record_bytes_def)
    have len: "length ?pre = length pre + 10 + length (jr_payload r)"
      using assms(3) by simp
    show ?thesis
      using q record_ok_length [of m q] record_checksum [OF at, of "length (jr_payload q)"]
      unfolding looks_like_more_data_def Let_def len [symmetric] record_fields [OF at] kRecordPrefixBytes_def
      by (auto simp: record_ok_def)
  qed
  then show "rp_status (fst (snd (scan_records m raw (length pre) recs report)))
      = Status Code_integrity_failure ''corrupt record followed by further valid records''"
    using step assms(3,4) by (simp add: rp_note_def)
qed

section \<open>Opening what was written\<close>

text \<open>The file of an open journal: header, records, and what a torn append left.\<close>

definition journal_bytes :: "boot_id \<Rightarrow> Epoch \<Rightarrow> journal_record list \<Rightarrow> bytes" where
  "journal_bytes boot epoch rs = header_bytes boot epoch @ records_bytes rs"

lemma header_fields:
  assumes "raw = header_bytes boot epoch @ rest"
  shows "get_u32_at raw 0 = kJournalMagic" "get_u16_at raw 4 = kDurableFormatVersion" "get_u64_at raw 8 = boot_hi boot"
    "get_u64_at raw 16 = boot_lo boot" "get_u64_at raw 24 = ctr_value epoch" "get_u32_at raw 32 = crc32c (take 32 raw)"
proof -
  let ?a = "le_put 4 kJournalMagic" and ?b = "le_put 2 kDurableFormatVersion @ le_put 2 (0 :: u16)"
  let ?h = "?a @ ?b @ le_put 8 (boot_hi boot) @ le_put 8 (boot_lo boot) @ le_put 8 (ctr_value epoch)"
  show "get_u32_at raw 0 = kJournalMagic" "get_u16_at raw 4 = kDurableFormatVersion" "get_u64_at raw 8 = boot_hi boot"
    "get_u64_at raw 16 = boot_lo boot" "get_u64_at raw 24 = ctr_value epoch"
    using assms get_at_prefix(2) [of 0 "[]"] get_at_prefix(1) [of 4 ?a] get_at_prefix(3) [of 8 "?a @ ?b"]
      get_at_prefix(3) [of 16 "?a @ ?b @ le_put 8 (boot_hi boot)"]
      get_at_prefix(3) [of 24 "?a @ ?b @ le_put 8 (boot_hi boot) @ le_put 8 (boot_lo boot)"]
    by (simp_all add: header_bytes_def Let_def)
  have "raw = ?h @ le_put 4 (crc32c ?h) @ le_put 4 (0 :: u32) @ rest"
    using assms by (simp add: header_bytes_def Let_def)
  then show "get_u32_at raw 32 = crc32c (take 32 raw)"
    using get_at_prefix(2) [of 32 ?h] by simp
qed

text \<open>The report of an opened journal.\<close>

definition loaded_report :: "boot_id \<Rightarrow> Epoch \<Rightarrow> journal_record list \<Rightarrow> bytes \<Rightarrow> recovery_report" where
  "loaded_report boot epoch rs tail = new_report\<lparr>rp_journal_present := True, rp_header_valid := True,
     rp_format_version := kDurableFormatVersion, rp_records_total := length rs + (if tail = [] then 0 else 1),
     rp_records_usable := length rs, rp_records_truncated := (if tail = [] then 0 else 1),
     rp_bytes_truncated := length tail, rp_previous_boot_known := boot_valid boot, rp_previous_boot := boot,
     rp_previous_epoch := epoch,
     rp_notes := (if tail = [] then []
                  else [take kMaxMessageChars ''torn write detected at journal tail; valid prefix retained''])\<rparr>"

definition loaded :: "boot_id \<Rightarrow> Epoch \<Rightarrow> journal_record list \<Rightarrow> bytes \<Rightarrow> file_journal \<Rightarrow> file_journal" where
  "loaded boot epoch rs tail j = j\<lparr>fj_header_boot := boot, fj_header_epoch := epoch, fj_records := rs,
     fj_valid_prefix_bytes := length (journal_bytes boot epoch rs),
     fj_bytes_written := length (journal_bytes boot epoch rs @ tail), fj_report := loaded_report boot epoch rs tail\<rparr>"

lemma fj_load_journal:
  assumes raw: "raw = journal_bytes boot epoch rs @ tail"
    and "list_all (record_ok (jc_max_record_bytes (fj_config j))) rs" "torn (jc_max_record_bytes (fj_config j)) tail"
    and "fj_report j = new_report\<lparr>rp_journal_present := True\<rparr>"
  shows "fj_load raw j = (success, loaded boot epoch rs tail j)"
proof -
  have hdr: "raw = header_bytes boot epoch @ records_bytes rs @ tail"
    using raw by (simp add: journal_bytes_def)
  have same: "\<lparr>boot_hi = boot_hi boot, boot_lo = boot_lo boot\<rparr> = boot" "Counter (ctr_value epoch) = epoch"
    by (simp, cases epoch, simp)
  have len: "length raw = length (journal_bytes boot epoch rs @ tail)"
    by (simp add: raw)
  note scan = scan_journal [OF hdr assms(2,3), unfolded length_header_bytes]
  show ?thesis
    unfolding fj_load_def Let_def header_fields [OF hdr] kHeaderBytes_def same
    by (simp add: scan assms(4) new_report_def note_truncated_def rp_note_def kMaxNotes_def journal_bytes_def Let_def
        loaded_def loaded_report_def len)
qed

text \<open>Opening with a file system that does not fail.\<close>

definition io_good :: "file_journal \<Rightarrow> bool" where
  "io_good j \<longleftrightarrow> (\<forall>n. fj_io j n = Io_ok)"

definition config_usable :: "journal_config \<Rightarrow> bool" where
  "config_usable c \<longleftrightarrow> jc_path c \<noteq> [] \<and> jc_max_record_bytes c \<le> kMaxJournalRecordBytes"

text \<open>The state of the handle after the calls of \<^verbatim>\<open>open\<close>.\<close>

definition opened :: "file_journal \<Rightarrow> file_journal" where
  "opened j = j\<lparr>fj_open := True, fj_file := True, fj_position := 0, fj_calls := fj_calls j + 5\<rparr>"

lemma fj_open_journal:
  assumes "fj_disk j = Some (journal_bytes boot epoch rs @ tail)" "io_good j" "config_usable (fj_config j)"
    and "list_all (record_ok (jc_max_record_bytes (fj_config j))) rs" "torn (jc_max_record_bytes (fj_config j)) tail"
    and "length (journal_bytes boot epoch rs @ tail) \<le> jc_max_file_bytes (fj_config j)"
  shows "fj_do_open j = (success, loaded boot epoch rs tail (opened j))"
proof -
  let ?raw = "journal_bytes boot epoch rs @ tail"
  have size: "journal_bytes boot epoch rs \<noteq> []" "\<not> length (journal_bytes boot epoch rs) + length tail < kHeaderBytes"
    by (auto simp: journal_bytes_def kHeaderBytes_def dest: arg_cong [where f = length])
  have load: "fj_config k = fj_config j \<Longrightarrow> fj_report k = new_report\<lparr>rp_journal_present := True\<rparr> \<Longrightarrow>
      fj_load ?raw k = (success, loaded boot epoch rs tail k)" for k
    using fj_load_journal [OF refl, of k rs tail] assms(4,5) by simp
  show ?thesis
    using assms(1-3,6) size
    by (simp add: fj_do_open_def fj_read_def fj_fopen_existing_def io_good_def config_usable_def io_ok_def io_call_def
        fj_fseek_def fj_content_def Let_def load loaded_def opened_def)
qed

section \<open>The file while the journal is open\<close>

text \<open>
  The file is the header the journal remembers, the records it reports, and a torn tail behind what
  it counts as written (left by an append that failed).
\<close>

definition fj_holds :: "bytes \<Rightarrow> file_journal \<Rightarrow> bool" where
  "fj_holds tail j \<longleftrightarrow> fj_open j \<and> fj_file j \<and> config_usable (fj_config j)
     \<and> fj_disk j = Some (journal_bytes (fj_header_boot j) (fj_header_epoch j) (fj_records j) @ tail)
     \<and> fj_bytes_written j = length (journal_bytes (fj_header_boot j) (fj_header_epoch j) (fj_records j))
     \<and> fj_valid_prefix_bytes j = fj_bytes_written j \<and> fj_bytes_written j \<le> jc_max_file_bytes (fj_config j)
     \<and> list_all (record_ok (jc_max_record_bytes (fj_config j))) (fj_records j)
     \<and> torn (jc_max_record_bytes (fj_config j)) tail"

definition fj_sound :: "file_journal \<Rightarrow> bool" where
  "fj_sound j \<longleftrightarrow> fj_holds [] j"

definition plain_type :: "journal_record_type \<Rightarrow> bool" where
  "plain_type ty \<longleftrightarrow> journal_record_type_of_u16 (u16_of_journal_record_type ty) = ty"

lemma torn_Nil [simp]: "torn m [] \<longleftrightarrow> m \<le> kMaxJournalRecordBytes"
proof
  show "m \<le> kMaxJournalRecordBytes \<Longrightarrow> torn m []"
    unfolding torn_def
    by (intro exI [of _ "\<lparr>jr_type = Jr_noop, jr_payload = []\<rparr>"]
         exI [of _ "record_bytes \<lparr>jr_type = Jr_noop, jr_payload = []\<rparr>"])
       (auto simp: record_ok_def journal_record_type_of_u16_def dest: arg_cong [where f = length])
qed (auto simp: torn_def record_ok_def)

lemma overwrite_end: "off = length c \<Longrightarrow> overwrite off bs c = c @ bs"
  by (simp add: overwrite_def)

lemma overwrite_start: "length bs = length a \<Longrightarrow> overwrite 0 bs (a @ rest) = bs @ rest"
  by (simp add: overwrite_def)

lemma torn_take:
  assumes "record_ok m r" "n < length (record_bytes r)"
  shows "torn m (take n (record_bytes r))"
  unfolding torn_def using assms
  by (intro exI [of _ r] exI [of _ "drop n (record_bytes r)"]) simp

lemma length_encode_record [simp]: "length (encode_record ty p) = 10"
  using arg_cong [OF encode_record_layout [of ty p], of length] by (simp del: append_eq_append_conv)

text \<open>What an append does to the file, whatever the file system does.\<close>

lemma fj_append_effect:
  assumes "fj_append ty p j = (st, j')" "fj_disk j = Some c" "fj_bytes_written j = length c"
  shows "(ok st \<and> length p \<le> jc_max_record_bytes (fj_config j) \<and> length c + 10 + length p \<le> jc_max_file_bytes (fj_config j)
       \<and> (\<exists>calls. j' = j\<lparr>fj_disk := Some (c @ encode_record ty p @ p), fj_position := length c + 10 + length p, fj_calls := calls,
             fj_bytes_written := length c + 10 + length p, fj_valid_prefix_bytes := length c + 10 + length p,
             fj_records := fj_records j @ [\<lparr>jr_type = ty, jr_payload = p\<rparr>]\<rparr>))
    \<or> (\<not> ok st \<and> (\<exists>n pos calls. (n = 0 \<or> length p \<le> jc_max_record_bytes (fj_config j) \<and> n < 10 + length p)
         \<and> j' = j\<lparr>fj_disk := Some (c @ take n (encode_record ty p @ p)), fj_position := pos, fj_calls := calls\<rparr>))"
    (is "?done \<or> ?refused")
proof -
  have eq: "st = fst (fj_append ty p j)" "j' = snd (fj_append ty p j)"
    using assms(1) by simp_all
  have early: ?refused if "\<not> ok st" "j' = j\<lparr>fj_calls := n\<rparr>" for n
    using that assms(2) by (intro conjI exI [of _ 0] exI [of _ "fj_position j"] exI [of _ n]) simp_all
  show ?thesis
  proof (cases "fj_open j \<and> fj_file j \<and> length p \<le> jc_max_record_bytes (fj_config j)
      \<and> length c + 10 + length p \<le> jc_max_file_bytes (fj_config j) \<and> fj_io j (fj_calls j) = Io_ok")
    case False
    then have "\<not> ok st \<and> (j' = j\<lparr>fj_calls := fj_calls j\<rparr> \<or> j' = j\<lparr>fj_calls := fj_calls j + 1\<rparr>)"
      using assms(2,3)
      by (simp add: eq fj_append_def Let_def fj_fseek_def io_ok_def io_call_def kRecordPrefixBytes_def)
    then show ?thesis
      using early by blast
  next
    case True
    note run = fj_append_def Let_def io_defs kRecordPrefixBytes_def overwrite_end
    show ?thesis
    proof (cases "fj_io j (Suc (fj_calls j))")
      case (Io_failed n)
      then have "\<not> ok st \<and> j' = j\<lparr>fj_disk := Some (c @ take (min n 9) (encode_record ty p @ p)),
          fj_position := length c + min n 9, fj_calls := Suc (Suc (fj_calls j))\<rparr>"
        using assms(2,3) True by (simp add: eq run)
      moreover have "min n 9 < 10 + length p"
        by simp
      ultimately show ?thesis
        using True by blast
    next
      case first: Io_ok
      show ?thesis
      proof (cases "p = [] \<or> fj_io j (Suc (Suc (fj_calls j))) = Io_ok")
        case second: True
        have "\<exists>calls. ok st \<and> j' = j\<lparr>fj_disk := Some (c @ encode_record ty p @ p), fj_position := length c + 10 + length p,
            fj_calls := calls, fj_bytes_written := length c + 10 + length p, fj_valid_prefix_bytes := length c + 10 + length p,
            fj_records := fj_records j @ [\<lparr>jr_type = ty, jr_payload = p\<rparr>]\<rparr>"
          using assms(2,3) True first second
          by (intro exI [of _ "if p = [] then fj_calls j + 2 else fj_calls j + 3"]) (auto simp: eq run)
        then show ?thesis
          using True by blast
      next
        case False
        then obtain n where n: "fj_io j (Suc (Suc (fj_calls j))) = Io_failed n" "p \<noteq> []"
          by (cases "fj_io j (Suc (Suc (fj_calls j)))") auto
        let ?n = "min n (length p - 1)"
        have "\<not> ok st \<and> j' = j\<lparr>fj_disk := Some (c @ take (10 + ?n) (encode_record ty p @ p)),
            fj_position := length c + 10 + ?n, fj_calls := Suc (Suc (Suc (fj_calls j)))\<rparr>"
          using assms(2,3) True first n by (simp add: eq run)
        moreover have "10 + ?n < 10 + length p"
          using n(2) by (cases p) auto
        ultimately show ?thesis
          using True by blast
      qed
    qed
  qed
qed

end
