(* ===== verification/QF_Durability.thy ===== *)
theory QF_Durability
  imports QF_FileJournal QF_Guarantees
begin

text \<open>
  Durability of the file journal and of the mutations written to it. The first part follows the file
  through the operations of an open journal, whatever the file system does; the second shows what a
  restart finds after an append was cut off; the locale \<open>stable_journal\<close> extends the contract of a
  journal by what a restart finds, and gives the durability of a mutation for every such journal.
\<close>

section \<open>The operations of an open journal\<close>

text \<open>Appending to a sound journal: an accepted append is in the file, a refused one has left at most a torn tail.\<close>

lemma fj_append_cases:
  assumes "fj_append ty p j = (st, j')" "fj_sound j" "plain_type ty"
  shows "if ok st then fj_sound j' \<and> fj_records j' = fj_records j @ [\<lparr>jr_type = ty, jr_payload = p\<rparr>]
         else \<exists>tail. fj_holds tail j' \<and> fj_records j' = fj_records j"
proof -
  let ?r = "\<lparr>jr_type = ty, jr_payload = p\<rparr>" and ?m = "jc_max_record_bytes (fj_config j)"
  let ?b = "journal_bytes (fj_header_boot j) (fj_header_epoch j) (fj_records j)"
  have j: "fj_disk j = Some ?b" "fj_bytes_written j = length ?b" "?m \<le> kMaxJournalRecordBytes"
    using assms(2) by (simp_all add: fj_sound_def fj_holds_def config_usable_def)
  have fits: "record_ok ?m ?r" if "length p \<le> ?m"
    using that assms(3) j(3) by (simp add: record_ok_def plain_type_def)
  have part: "torn ?m (take n (encode_record ty p @ p))" if "n = 0 \<or> length p \<le> ?m \<and> n < 10 + length p" for n
    using that torn_take [OF fits, of n] j(3) by (auto simp: encode_record_layout)
  have more: "?b @ encode_record ty p @ p = journal_bytes (fj_header_boot j) (fj_header_epoch j) (fj_records j @ [?r])"
    by (simp add: encode_record_layout journal_bytes_def)
  have len: "length ?b + 10 + length p = length (?b @ encode_record ty p @ p)"
    by simp
  consider calls where "ok st" "length p \<le> ?m" "length ?b + 10 + length p \<le> jc_max_file_bytes (fj_config j)"
      "j' = j\<lparr>fj_disk := Some (?b @ encode_record ty p @ p), fj_position := length ?b + 10 + length p, fj_calls := calls,
        fj_bytes_written := length ?b + 10 + length p, fj_valid_prefix_bytes := length ?b + 10 + length p,
        fj_records := fj_records j @ [?r]\<rparr>"
    | n pos calls where "\<not> ok st" "n = 0 \<or> length p \<le> ?m \<and> n < 10 + length p"
      "j' = j\<lparr>fj_disk := Some (?b @ take n (encode_record ty p @ p)), fj_position := pos, fj_calls := calls\<rparr>"
    using fj_append_effect [OF assms(1) j(1,2)] by blast
  then show ?thesis
  proof cases
    case 1
    then show ?thesis
      using assms(2) fits unfolding len unfolding more by (simp add: fj_sound_def fj_holds_def)
  next
    case 2
    then have "fj_holds (take n (encode_record ty p @ p)) j'" "fj_records j' = fj_records j"
      using assms(2) part [of n] by (simp_all add: fj_sound_def fj_holds_def)
    with 2(1) show ?thesis
      by auto
  qed
qed

text \<open>The other operations on an open journal.\<close>

lemma fj_sync_holds: "fj_holds tail j \<Longrightarrow> fj_holds tail (snd (fj_sync j))"
  by (simp add: fj_sync_def sync_stream_def io_ok_def io_call_def fj_holds_def)

lemma fj_write_header_ok:
  assumes "fj_write_header boot epoch j = (st, j')" "ok st" "fj_holds tail j"
  shows "fj_holds tail j' \<and> fj_header_boot j' = boot \<and> fj_header_epoch j' = epoch \<and> fj_records j' = fj_records j"
proof -
  have eq: "st = fst (fj_write_header boot epoch j)" "j' = snd (fj_write_header boot epoch j)"
    using assms(1) by simp_all
  have "length (header_bytes boot epoch) = length (header_bytes (fj_header_boot j) (fj_header_epoch j))"
    by simp
  from overwrite_start [OF this]
  show ?thesis
    using assms(2,3)
    by (auto simp: eq fj_write_header_def io_defs encode_header_layout fj_holds_def journal_bytes_def
        split: if_splits io_outcome.splits)
qed

text \<open>Dropping the torn tail that \<^verbatim>\<open>open\<close> reported leaves exactly the records that it loaded.\<close>

lemma fj_truncate_loaded:
  assumes "fj_disk j = Some (journal_bytes boot epoch rs @ tail)" "config_usable (fj_config j)"
    and "list_all (record_ok (jc_max_record_bytes (fj_config j))) rs"
    and "length (journal_bytes boot epoch rs) \<le> jc_max_file_bytes (fj_config j)"
    and "fj_truncate_to_valid_prefix (loaded boot epoch rs tail (opened j)) = (st, j')" "ok st"
  shows "fj_sound j' \<and> fj_records j' = rs"
proof -
  have eq: "st = fst (fj_truncate_to_valid_prefix (loaded boot epoch rs tail (opened j)))"
    "j' = snd (fj_truncate_to_valid_prefix (loaded boot epoch rs tail (opened j)))"
    using assms(5) by simp_all
  show ?thesis
    using assms(1-4,6)
    by (auto simp: eq fj_truncate_to_valid_prefix_def io_ok_def io_call_def sync_stream_def loaded_def opened_def Let_def
        fj_sound_def fj_holds_def config_usable_def split: if_splits)
qed

section \<open>Compaction\<close>

lemma temp_fwrite_frame: "\<exists>n. snd (snd (temp_fwrite bs temp j)) = j\<lparr>fj_calls := n\<rparr>"
  by (auto simp: temp_fwrite_def io_call_def split: io_outcome.split)

lemma sync_stream_frame: "\<exists>n. snd (sync_stream j) = j\<lparr>fj_calls := n\<rparr>"
  by (cases "fj_io j (fj_calls j) = Io_ok") (simp_all add: sync_stream_def io_ok_def io_call_def, blast+)

lemma temp_fwrite_ok: "temp_fwrite bs temp j = (True, temp', j') \<Longrightarrow> temp' = temp @ bs"
  by (auto simp: temp_fwrite_def split: io_outcome.splits prod.splits)

text \<open>The loop changes nothing of the journal; when it reports success the temporary file has every record.\<close>

lemma rewrite_loop_frame: "\<exists>n. snd (snd (snd (rewrite_loop rs (good, temp, w, j)))) = j\<lparr>fj_calls := n\<rparr>"
proof (induction rs arbitrary: good temp w j)
  case Nil
  show ?case
    by (intro exI [of _ "fj_calls j"]) simp
next
  case (Cons r rs)
  show ?case
  proof (cases "good \<and> length (jr_payload r) \<le> jc_max_record_bytes (fj_config j)")
    case False
    then show ?thesis
      by (intro exI [of _ "fj_calls j"]) auto
  next
    case True
    obtain g1 t1 j1 where one: "temp_fwrite (encode_record (jr_type r) (jr_payload r)) temp j = (g1, t1, j1)"
      by (metis prod_cases3)
    obtain g2 t2 j2 where two: "(if g1 \<and> jr_payload r \<noteq> [] then temp_fwrite (jr_payload r) t1 j1 else (g1, t1, j1)) = (g2, t2, j2)"
      by (metis prod_cases3)
    obtain n1 where "j1 = j\<lparr>fj_calls := n1\<rparr>"
      using temp_fwrite_frame [of "encode_record (jr_type r) (jr_payload r)" temp j] one by auto
    moreover have "\<exists>n2. j2 = j1\<lparr>fj_calls := n2\<rparr>"
    proof (cases "g1 \<and> jr_payload r \<noteq> []")
      case True
      then show ?thesis
        using temp_fwrite_frame [of "jr_payload r" t1 j1] two by simp
    next
      case False
      then show ?thesis
        using two by (intro exI [of _ "fj_calls j1"]) (simp del: de_Morgan_conj)
    qed
    then obtain n2 where "j2 = j1\<lparr>fj_calls := n2\<rparr>"
      by blast
    ultimately have j2: "j2 = j\<lparr>fj_calls := n2\<rparr>"
      by simp
    have "rewrite_loop (r # rs) (good, temp, w, j) =
        rewrite_loop rs (g2, t2, w + kRecordPrefixBytes + length (jr_payload r), j2)"
      using True one two by simp
    moreover obtain n where "snd (snd (snd (rewrite_loop rs (g2, t2, w + kRecordPrefixBytes + length (jr_payload r), j2))))
        = j2\<lparr>fj_calls := n\<rparr>"
      using Cons.IH by blast
    ultimately show ?thesis
      by (intro exI [of _ n]) (simp add: j2)
  qed
qed

lemma rewrite_loop_failed: "fst (rewrite_loop rs (False, temp, w, j)) = False"
  by (cases rs) simp_all

lemma rewrite_loop_ok:
  assumes "rewrite_loop rs (good, temp, w, j) = (True, temp', w', j')"
  shows "good \<and> temp' = temp @ records_bytes rs \<and> w' = w + length (records_bytes rs)
    \<and> list_all (\<lambda>r. length (jr_payload r) \<le> jc_max_record_bytes (fj_config j)) rs"
  using assms
proof (induction rs arbitrary: good temp w j)
  case (Cons r rs)
  have go: "good \<and> length (jr_payload r) \<le> jc_max_record_bytes (fj_config j)"
    using Cons.prems by (auto split: if_splits)
  obtain g1 t1 j1 where one: "temp_fwrite (encode_record (jr_type r) (jr_payload r)) temp j = (g1, t1, j1)"
    by (metis prod_cases3)
  obtain g2 t2 j2 where two: "(if g1 \<and> jr_payload r \<noteq> [] then temp_fwrite (jr_payload r) t1 j1 else (g1, t1, j1)) = (g2, t2, j2)"
    by (metis prod_cases3)
  have rest: "rewrite_loop rs (g2, t2, w + kRecordPrefixBytes + length (jr_payload r), j2) = (True, temp', w', j')"
    using Cons.prems go one two by auto
  note IH = Cons.IH [OF this]
  have "g1"
    using IH two by (auto split: if_splits)
  then have "t2 = temp @ encode_record (jr_type r) (jr_payload r) @ jr_payload r"
    using IH two temp_fwrite_ok [of "encode_record (jr_type r) (jr_payload r)" temp j t1 j1]
      temp_fwrite_ok [of "jr_payload r" t1 j1 t2 j2] one by (cases "jr_payload r = []") simp_all
  moreover have "fj_config j2 = fj_config j"
    using temp_fwrite_frame [of "encode_record (jr_type r) (jr_payload r)" temp j]
      temp_fwrite_frame [of "jr_payload r" t1 j1] one two by (auto split: if_splits)
  moreover have "\<lparr>jr_type = jr_type r, jr_payload = jr_payload r\<rparr> = r"
    by simp
  ultimately show ?case
    using IH go by (simp add: encode_record_layout kRecordPrefixBytes_def)
qed simp

text \<open>At every moment the file holds the old records or the new ones; an accepted compaction holds the new.\<close>

lemma fj_rewrite_cases:
  assumes "fj_rewrite rs j = (st, j')" "fj_sound j" "list_all (plain_type \<circ> jr_type) rs"
  shows "(if ok st then fj_sound j' \<and> fj_records j' = rs
          else fj_disk j' \<in> {fj_disk j, Some (journal_bytes (fj_header_boot j) (fj_header_epoch j) rs)})"
proof -
  let ?h = "encode_header (fj_header_boot j) (fj_header_epoch j)"
  let ?j0 = "j\<lparr>fj_calls := fj_calls j + 1\<rparr>"
  obtain g1 t1 j1 where one: "temp_fwrite ?h [] ?j0 = (g1, t1, j1)"
    by (metis prod_cases3)
  obtain g2 t2 w j2 where two: "rewrite_loop rs (g1, t1, kHeaderBytes, j1) = (g2, t2, w, j2)"
    by (metis prod_cases4)
  obtain n1 where j1: "j1 = j\<lparr>fj_calls := n1\<rparr>"
    using temp_fwrite_frame [of ?h "[]" ?j0] one by auto
  obtain n2 where j2: "j2 = j\<lparr>fj_calls := n2\<rparr>"
    using rewrite_loop_frame [of rs g1 t1 kHeaderBytes j1] two j1 by auto
  show ?thesis
  proof (cases "fj_io j (fj_calls j) = Io_ok \<and> g2 \<and> w \<le> jc_max_file_bytes (fj_config j) \<and> fst (sync_stream j2)")
    case False
    have eq: "st = fst (fj_rewrite rs j)" "j' = snd (fj_rewrite rs j)"
      using assms(1) by simp_all
    have "fj_disk (snd (sync_stream j2)) = fj_disk j"
      using sync_stream_frame [of j2] j2 by auto
    with False have "\<not> ok st \<and> fj_disk j' = fj_disk j"
      using assms(2) one two
      by (cases "sync_stream j2") (simp add: eq fj_rewrite_def fj_sound_def fj_holds_def io_ok_def io_call_def j2)
    then show ?thesis
      by simp
  next
    case True
    have g2: "t1 = header_bytes (fj_header_boot j) (fj_header_epoch j)" "t2 = t1 @ records_bytes rs"
        "w = 40 + length (records_bytes rs)" "list_all (\<lambda>r. length (jr_payload r) \<le> jc_max_record_bytes (fj_config j)) rs"
      using rewrite_loop_ok [of rs g1 t1 kHeaderBytes j1 t2 w j2] two True temp_fwrite_ok [of ?h "[]" ?j0 t1 j1] one
      by (auto simp: encode_header_layout kHeaderBytes_def j1)
    have all: "list_all (record_ok (jc_max_record_bytes (fj_config j))) rs"
      using g2(4) assms(2,3)
      by (auto simp: list_all_iff record_ok_def plain_type_def fj_sound_def fj_holds_def config_usable_def)
    obtain n3 where j3: "snd (sync_stream j2) = j\<lparr>fj_calls := n3\<rparr>"
      using sync_stream_frame [of j2] j2 by auto
    then have "(st, j') = fj_swap rs t2 w (j\<lparr>fj_calls := n3\<rparr>)"
      using assms(1,2) one two True j2
      by (cases "sync_stream j2") (simp add: fj_rewrite_def fj_sound_def fj_holds_def io_ok_def io_call_def)
    then have "st = fst (fj_swap rs t2 w (j\<lparr>fj_calls := n3\<rparr>))" "j' = snd (fj_swap rs t2 w (j\<lparr>fj_calls := n3\<rparr>))"
      by (metis fst_conv, metis snd_conv)
    note eq = this
    show ?thesis
      using assms(2) all True g2(1-3)
      by (simp add: eq fj_swap_def io_ok_def io_call_def fj_fopen_existing_def fj_fseek_def Let_def
          fj_sound_def fj_holds_def journal_bytes_def)
  qed
qed

section \<open>Restart\<close>

text \<open>A new process on the same file, with a file system that works.\<close>

definition restart :: "file_journal \<Rightarrow> file_journal" where
  "restart j = new_file_journal (fj_config j) (fj_disk j) (\<lambda>_. Io_ok)"

lemma fj_restart:
  assumes "fj_holds tail j" "length (fj_content j) \<le> jc_max_file_bytes (fj_config j)"
  shows "\<exists>j'. fj_do_open (restart j) = (success, j') \<and> fj_records j' = fj_records j
    \<and> fj_header_boot j' = fj_header_boot j \<and> fj_header_epoch j' = fj_header_epoch j \<and> (tail = [] \<longrightarrow> fj_sound j')"
proof -
  have "fj_do_open (restart j) = (success, loaded (fj_header_boot j) (fj_header_epoch j) (fj_records j) tail (opened (restart j)))"
    using assms by (intro fj_open_journal) (simp_all add: fj_holds_def restart_def new_file_journal_def io_good_def fj_content_def)
  then show ?thesis
    using assms
    by (simp add: loaded_def opened_def restart_def new_file_journal_def fj_sound_def fj_holds_def config_usable_def)
qed

text \<open>Whatever part of a sequence of appends reached the file: whole records and a torn one.\<close>

lemma take_records:
  assumes "list_all (record_ok m) qs" "m \<le> kMaxJournalRecordBytes"
  shows "\<exists>i tail. take k (records_bytes qs) = records_bytes (take i qs) @ tail \<and> torn m tail
    \<and> (length (records_bytes qs) \<le> k \<longrightarrow> i = length qs \<and> tail = [])
    \<and> (\<forall>n. length (records_bytes (take n qs)) \<le> k \<and> n \<le> length qs \<longrightarrow> n \<le> i)"
  using assms(1)
proof (induction qs arbitrary: k)
  case Nil
  then show ?case
    using assms(2) by simp
next
  case (Cons q qs)
  show ?case
  proof (cases "k < length (record_bytes q)")
    case True
    then have "n = 0" if "length (records_bytes (take n (q # qs))) \<le> k" for n
      using that by (cases n) auto
    then show ?thesis
      using Cons.prems True torn_take [of m q k]
      by (intro exI [of _ 0] exI [of _ "take k (record_bytes q)"]) auto
  next
    case False
    obtain i tail where IH: "take (k - length (record_bytes q)) (records_bytes qs) = records_bytes (take i qs) @ tail" "torn m tail"
      "length (records_bytes qs) \<le> k - length (record_bytes q) \<longrightarrow> i = length qs \<and> tail = []"
      "\<forall>n. length (records_bytes (take n qs)) \<le> k - length (record_bytes q) \<and> n \<le> length qs \<longrightarrow> n \<le> i"
      using Cons.IH [of "k - length (record_bytes q)"] Cons.prems by auto
    have "n \<le> Suc i" if "length (records_bytes (take n (q # qs))) \<le> k" "n \<le> Suc (length qs)" for n
      using that False IH(4) by (cases n) auto
    then show ?thesis
      using IH(1-3) False by (intro exI [of _ "Suc i"] exI [of _ tail]) auto
  qed
qed

text \<open>Opening a file that starts with a header: the outcome is the outcome of the scan.\<close>

lemma fj_load_scan:
  assumes "raw = header_bytes boot epoch @ rest" "fj_report j = new_report\<lparr>rp_journal_present := True\<rparr>"
    and "\<And>report. rp_status report = success \<Longrightarrow> P (scan_records (jc_max_record_bytes (fj_config j)) raw kHeaderBytes [] report)"
  shows "\<exists>report rs last. P (rs, report, last) \<and> fst (fj_load raw j) = rp_status report \<and> fj_records (snd (fj_load raw j)) = rs"
proof -
  define start where "start = (fj_report j)\<lparr>rp_format_version := kDurableFormatVersion, rp_header_valid := True,
    rp_previous_boot_known := boot_valid \<lparr>boot_hi = boot_hi boot, boot_lo = boot_lo boot\<rparr>,
    rp_previous_boot := \<lparr>boot_hi = boot_hi boot, boot_lo = boot_lo boot\<rparr>, rp_previous_epoch := Counter (ctr_value epoch)\<rparr>"
  obtain rs report last where scan: "scan_records (jc_max_record_bytes (fj_config j)) raw kHeaderBytes [] start = (rs, report, last)"
    by (metis prod_cases3)
  have "P (rs, report, last)"
    using assms(3) [of start] scan by (simp add: start_def assms(2) new_report_def)
  moreover have "fst (fj_load raw j) = rp_status report \<and> fj_records (snd (fj_load raw j)) = rs"
    using scan unfolding fj_load_def Let_def header_fields [OF assms(1)] start_def
    by (simp add: rp_note_def)
  ultimately show ?thesis
    by blast
qed

lemma fj_open_scan:
  assumes "fj_disk j = Some raw" "raw = header_bytes boot epoch @ rest" "io_good j" "config_usable (fj_config j)"
    and "length raw \<le> jc_max_file_bytes (fj_config j)"
    and "\<And>report. rp_status report = success \<Longrightarrow> P (scan_records (jc_max_record_bytes (fj_config j)) raw kHeaderBytes [] report)"
  shows "\<exists>report rs last. P (rs, report, last) \<and> fst (fj_do_open j) = rp_status report \<and> fj_records (snd (fj_do_open j)) = rs"
proof -
  have size: "raw \<noteq> []" "\<not> length raw < kHeaderBytes"
    using assms(2) by (auto simp: kHeaderBytes_def dest: arg_cong [where f = length])
  have "\<exists>k. fj_do_open j = fj_load raw k \<and> fj_config k = fj_config j \<and> fj_report k = new_report\<lparr>rp_journal_present := True\<rparr>"
    using assms(1,3,4,5) size
    by (simp add: fj_do_open_def fj_read_def fj_fopen_existing_def io_good_def config_usable_def io_ok_def io_call_def
        fj_fseek_def fj_content_def Let_def) (rule exI, rule conjI, rule refl, simp)
  then show ?thesis
    using fj_load_scan [OF assms(2), of _ P] assms(6) by metis
qed

text \<open>A record damaged within four consecutive bytes of its payload is never loaded, nor is anything behind it.\<close>

lemma fj_open_damaged:
  assumes "fj_disk j = Some (journal_bytes boot epoch rs @ record_head r @ le_put 4 (crc32c (record_head r @ jr_payload r)) @ p @ rest)"
    and "io_good j" "config_usable (fj_config j)" "length (fj_content j) \<le> jc_max_file_bytes (fj_config j)"
    and "list_all (record_ok (jc_max_record_bytes (fj_config j))) (rs @ [r])"
    and "jr_payload r = as @ xs @ bs" "p = as @ ys @ bs" "length xs = length ys" "length xs \<le> 4" "xs \<noteq> ys"
  shows "fj_records (snd (fj_do_open j)) = rs"
    "rest = record_bytes q @ others \<and> record_ok (jc_max_record_bytes (fj_config j)) q \<Longrightarrow>
       st_code (fst (fj_do_open j)) = Code_integrity_failure"
proof -
  let ?m = "jc_max_record_bytes (fj_config j)" and ?c = "crc32c (record_head r @ jr_payload r)"
  let ?raw = "journal_bytes boot epoch rs @ record_head r @ le_put 4 ?c @ p @ rest"
  have raw: "?raw = header_bytes boot epoch @ records_bytes rs @ record_head r @ le_put 4 ?c @ p @ rest"
    by (simp add: journal_bytes_def)
  have crc: "crc32c (record_head r @ p) \<noteq> ?c"
    using crc32c_burst [OF assms(8-10), of "record_head r @ as" bs] assms(6,7) by simp
  have scan: "scan_records ?m ?raw kHeaderBytes [] report =
      scan_records ?m ?raw (length (journal_bytes boot epoch rs)) rs
        (report\<lparr>rp_records_total := rp_records_total report + length rs\<rparr>)" for report
    using scan_whole_records [OF raw, of ?m "[]" report] assms(5) by (simp add: kHeaderBytes_def journal_bytes_def)
  have len: "length p = length (jr_payload r)"
    using assms(6-8) by simp
  have ok: "record_ok ?m r"
    using assms(5) by simp
  note dam = scan_damaged [where pre = "journal_bytes boot epoch rs" and rest = rest, OF refl ok len crc]
  let ?P = "\<lambda>s :: journal_record list \<times> recovery_report \<times> nat. fst s = rs \<and> (rest = record_bytes q @ others \<and> record_ok ?m q \<longrightarrow>
      rp_status (fst (snd s)) = Status Code_integrity_failure ''corrupt record followed by further valid records'')"
  have P: "?P (scan_records ?m ?raw kHeaderBytes [] report)" for report
    unfolding scan using dam(1) dam(2) [where q = q and others = others] by simp
  have size: "length ?raw \<le> jc_max_file_bytes (fj_config j)"
    using assms(1,4) by (simp add: fj_content_def)
  have "\<exists>report rs' last. ?P (rs', report, last) \<and> fst (fj_do_open j) = rp_status report
      \<and> fj_records (snd (fj_do_open j)) = rs'"
    by (rule fj_open_scan [where P = ?P, OF assms(1) raw assms(2,3) size P])
  then show "fj_records (snd (fj_do_open j)) = rs"
    "rest = record_bytes q @ others \<and> record_ok ?m q \<Longrightarrow> st_code (fst (fj_do_open j)) = Code_integrity_failure"
    by auto
qed

section \<open>Appending behind a torn tail\<close>

text \<open>
  The scan trusts the length field of a torn record: as long as fewer bytes follow than it announces,
  nothing behind it is found. An append between \<^verbatim>\<open>open\<close> and \<^verbatim>\<open>truncate_to_valid_prefix\<close> writes behind
  the tail and declares everything valid, so the truncation has nothing to do and the next process
  does not find the record.
\<close>

lemma scan_announced:
  assumes raw: "raw = pre @ record_head r @ tail" and "record_ok m r" "length tail < 4 + length (jr_payload r)"
  shows "fst (scan_records m raw (length pre) recs report) = recs"
proof (cases "length tail < 4")
  case False
  have len: "length raw - length pre = 6 + length tail"
    by (simp add: raw)
  have "get_u32_at raw (length pre + 2) = of_nat (length (jr_payload r))"
    using get_at_prefix(2) [of "length pre + 2" "pre @ le_put 2 (u16_of_journal_record_type (jr_type r))"]
    by (simp add: raw record_head_def)
  then show ?thesis
    using False assms(3) record_ok_length [OF assms(2)]
    unfolding scan_records.simps [of m raw "length pre"] Let_def kRecordPrefixBytes_def len by simp
qed (simp add: scan_records.simps [of m "pre @ record_head r @ tail" "length pre"] Let_def kRecordPrefixBytes_def raw)

lemma fj_append_behind_tail:
  assumes "fj_append ty p (loaded boot epoch rs tail (opened j)) = (st, j')" "ok st"
    and "fj_disk j = Some (journal_bytes boot epoch rs @ tail)"
  shows "fj_disk j' = Some (journal_bytes boot epoch rs @ tail @ encode_record ty p @ p)"
    "fj_truncate_to_valid_prefix j' = (success, j')" "fj_config j' = fj_config j" "fj_open j'" "fj_file j'"
    "fj_records j' = rs @ [\<lparr>jr_type = ty, jr_payload = p\<rparr>]" "length (fj_content j') \<le> jc_max_file_bytes (fj_config j)"
  using fj_append_effect [OF assms(1), of "journal_bytes boot epoch rs @ tail"] assms(2,3)
  by (auto simp: loaded_def opened_def fj_truncate_to_valid_prefix_def fj_content_def)

lemma torn_tail_swallows_append:
  assumes disk: "fj_disk j = Some (journal_bytes boot epoch rs @ tail)" and "io_good j" "config_usable (fj_config j)"
    and "length (fj_content j) \<le> jc_max_file_bytes (fj_config j)"
    and recs: "list_all (record_ok (jc_max_record_bytes (fj_config j))) (rs @ [big])"
    and tail: "tail = take k (record_bytes big)" "6 \<le> k" "k + 10 + length p < length (record_bytes big)"
    and append: "fj_append ty p (snd (fj_do_open j)) = (st, j')" "ok st"
  shows "fj_records j' = rs @ [\<lparr>jr_type = ty, jr_payload = p\<rparr>] \<and> fj_truncate_to_valid_prefix j' = (success, j')
    \<and> fj_records (snd (fj_do_open (restart j'))) = rs"
proof -
  let ?m = "jc_max_record_bytes (fj_config j)"
  have "torn ?m tail"
    using torn_take [of ?m big k] recs tail by simp
  then have op: "fj_do_open j = (success, loaded boot epoch rs tail (opened j))"
    using fj_open_journal [OF disk assms(2,3)] recs disk assms(4) by (simp add: fj_content_def)
  have "fj_append ty p (loaded boot epoch rs tail (opened j)) = (st, j')"
    using append(1) by (simp add: op)
  note app = fj_append_behind_tail [OF this append(2) disk]
  obtain t where t: "tail = record_head big @ t" "length t = k - 6"
    using tail by (auto simp: record_bytes_def take_append)
  let ?raw = "journal_bytes boot epoch rs @ tail @ encode_record ty p @ p"
  have raw: "?raw = header_bytes boot epoch @ records_bytes rs @ tail @ encode_record ty p @ p"
    "?raw = journal_bytes boot epoch rs @ record_head big @ t @ encode_record ty p @ p"
    by (simp_all add: journal_bytes_def t(1))
  let ?P = "\<lambda>s :: journal_record list \<times> recovery_report \<times> nat. fst s = rs"
  have P: "?P (scan_records ?m ?raw kHeaderBytes [] report)" for report
  proof -
    have "length (t @ encode_record ty p @ p) < 4 + length (jr_payload big)"
      using tail(2,3) t(2) by simp
    moreover have "record_ok ?m big"
      using recs by simp
    ultimately show ?thesis
      using scan_announced [OF raw(2)] scan_whole_records [OF raw(1), of ?m "[]" report] recs
      by (simp add: kHeaderBytes_def journal_bytes_def)
  qed
  have "\<exists>report rs' last. ?P (rs', report, last) \<and> fst (fj_do_open (restart j')) = rp_status report
      \<and> fj_records (snd (fj_do_open (restart j'))) = rs'"
  proof (rule fj_open_scan [where P = ?P])
    show "fj_disk (restart j') = Some ?raw" "io_good (restart j')" "config_usable (fj_config (restart j'))"
      "length ?raw \<le> jc_max_file_bytes (fj_config (restart j'))"
      using app(1,3,7) assms(3) by (simp_all add: restart_def new_file_journal_def io_good_def fj_content_def)
    show "?raw = header_bytes boot epoch @ records_bytes rs @ tail @ encode_record ty p @ p"
      by (rule raw(1))
    show "?P (scan_records (jc_max_record_bytes (fj_config (restart j'))) ?raw kHeaderBytes [] report)" for report
      using P app(3) by (simp add: restart_def new_file_journal_def)
  qed
  then show ?thesis
    using app(2,6) by auto
qed

section \<open>Durable mutations\<close>

text \<open>A journal whose log a restart finds again.\<close>

locale stable_journal = ijournal J log for J :: "'j journal_ops" and log :: "'j \<Rightarrow> journal_record list" +
  fixes sound :: "'j \<Rightarrow> bool"
    and restarted :: "'j \<Rightarrow> 'j"
  assumes append_sound: "sound j \<Longrightarrow> plain_type ty \<Longrightarrow> ok (fst (jo_append J ty bs j)) \<Longrightarrow> sound (snd (jo_append J ty bs j))"
    and sync_sound: "sound j \<Longrightarrow> sound (snd (jo_sync J j))"
    and reopened: "sound j \<Longrightarrow> jo_open J (restarted j) = (st, j') \<Longrightarrow> ok st \<and> sound j' \<and> log j' = log j"
begin

lemma commit_sound:
  assumes "fb_journal f = Some j" "sound j" "ok (fst (journal_commit_locked J r f))"
  shows "\<exists>j'. fb_journal (snd (journal_commit_locked J r f)) = Some j' \<and> sound j'"
proof -
  define j1 where "j1 = snd (jo_append J Jr_begin_attempt (encode_mutation r) j)"
  define j2 where "j2 = snd (jo_append J Jr_commit_mutation (encode_mutation r) j1)"
  have st: "ok (fst (jo_append J Jr_begin_attempt (encode_mutation r) j))"
      "ok (fst (jo_append J Jr_commit_mutation (encode_mutation r) j1))"
      "fb_journal (snd (journal_commit_locked J r f)) = Some (snd (jo_sync J j2))"
    using assms(1,3) unfolding j1_def j2_def journal_commit_locked_def by (auto simp: Let_def split: prod.splits if_splits)
  have "plain_type Jr_begin_attempt" "plain_type Jr_commit_mutation"
    by (simp_all add: plain_type_def journal_record_type_of_u16_def)
  then have "sound (snd (jo_sync J j2))"
    using append_sound [OF assms(2) _ st(1)] append_sound [OF _ _ st(2)] sync_sound by (simp add: j1_def j2_def)
  with st(3) show ?thesis
    by simp
qed

lemma apply_survives:
  assumes "fabric_apply J r f = (Inr o', f')" "\<not> mo_replayed o'" "is_durable (mr_kind r)" "fb_journal f = Some j" "sound j"
  shows "\<exists>j' k st. fb_journal f' = Some j' \<and> sound j' \<and> jo_open J (restarted j') = (st, k) \<and> ok st
    \<and> log k = log j @ [\<lparr>jr_type = Jr_begin_attempt, jr_payload = encode_mutation r\<rparr>,
                       \<lparr>jr_type = Jr_commit_mutation, jr_payload = encode_mutation r\<rparr>]"
proof -
  obtain g h where gh: "fb_journal g = Some j" "journal_commit_locked J r g = (success, h)" "fb_journal f' = fb_journal h"
    using apply_committed [OF assms(1-3)] assms(4) by (auto simp: committed_def)
  then obtain j' where j': "fb_journal f' = Some j'" "sound j'"
    using commit_sound [of g j r] assms(5) by auto
  moreover obtain st k where "jo_open J (restarted j') = (st, k)"
    by fastforce
  ultimately show ?thesis
    using reopened [OF j'(2), of st k] apply_logged [OF assms(1-4)] by auto
qed

end

text \<open>A sound file journal, seen by the next process.\<close>

interpretation fjs: stable_journal file_ops fj_records fj_sound restart
proof unfold_locales
  show "fj_sound (snd (jo_append file_ops ty bs j))"
    if "fj_sound j" "plain_type ty" "ok (fst (jo_append file_ops ty bs j))" for j ty bs
    using fj_append_cases [of ty bs j "fst (fj_append ty bs j)" "snd (fj_append ty bs j)"] that by (simp add: file_ops_def)
  show "fj_sound (snd (jo_sync file_ops j))" if "fj_sound j" for j
    using that fj_sync_holds [of "[]" j] by (simp add: file_ops_def fj_sound_def)
  show "ok st \<and> fj_sound j' \<and> fj_records j' = fj_records j" if "fj_sound j" "jo_open file_ops (restart j) = (st, j')" for j st j'
  proof -
    have "length (fj_content j) \<le> jc_max_file_bytes (fj_config j)"
      using that(1) by (simp add: fj_sound_def fj_holds_def fj_content_def)
    then show ?thesis
      using fj_restart [of "[]" j] that by (auto simp: file_ops_def fj_sound_def)
  qed
qed

end
