(* ===== verification/QF_Frame.thy ===== *)
theory QF_Frame
  imports QF_Raw
begin

text \<open>
  \<^verbatim>\<open>include/qf/frame.hpp\<close> and \<^verbatim>\<open>src/frame.cpp\<close>: wire frames and the incremental decoder. The decoder
  keeps its buffer with the offset of the first byte that is not yet consumed. The lemmas give the
  layout of an encoded frame, what the decoder does with a buffer that starts with a frame, with a
  proper prefix of one, or with a damaged one, and the bound on its buffer.
\<close>

section \<open>Frames\<close>

record frame =
  fr_type :: u16
  fr_sequence :: u32
  fr_payload :: bytes

definition kFrameHeaderBytes :: nat where "kFrameHeaderBytes = 24"

definition kFrameMagic :: u32 where "kFrameMagic = 0x31464651"

definition kProtocolVersion :: u16 where "kProtocolVersion = 1"

definition kMaxFramePayloadBytes :: nat where "kMaxFramePayloadBytes = 2 ^ 20"

definition encode_frame :: "frame \<Rightarrow> nat \<Rightarrow> bytes" where
  "encode_frame f max_payload =
     (if length (fr_payload f) > max_payload \<or> length (fr_payload f) > kMaxFramePayloadBytes then []
      else
        (let out = replicate (kFrameHeaderBytes + length (fr_payload f)) 0;
             out = put_u32_at 0 kFrameMagic out;
             out = put_u16_at 4 kProtocolVersion out;
             out = put_u16_at 6 (fr_type f) out;
             out = put_u16_at 8 0 out;
             out = put_u16_at 10 0 out;
             out = put_u32_at 12 (fr_sequence f) out;
             out = put_u32_at 16 (of_nat (length (fr_payload f))) out;
             crc = crc32c (take 20 out);
             (crc, out) = (if fr_payload f \<noteq> []
                           then (crc32c_extend crc (fr_payload f), put_at kFrameHeaderBytes (fr_payload f) out)
                           else (crc, out))
         in put_u32_at 20 crc out))"

section \<open>The decoder\<close>

record frame_decoder =
  fd_buffer :: bytes
  fd_offset :: nat
  fd_max_payload :: nat
  fd_frames_decoded :: nat
  fd_frames_rejected :: nat
  fd_bytes_consumed :: nat
  fd_failed :: bool
  fd_failure :: status

definition new_decoder :: "nat \<Rightarrow> frame_decoder" where
  "new_decoder max_payload = \<lparr>fd_buffer = [], fd_offset = 0, fd_max_payload = max_payload, fd_frames_decoded = 0,
     fd_frames_rejected = 0, fd_bytes_consumed = 0, fd_failed = False, fd_failure = success\<rparr>"

definition fd_buffered :: "frame_decoder \<Rightarrow> nat" where
  "fd_buffered d = length (fd_buffer d) - fd_offset d"

definition fd_fail :: "status \<Rightarrow> frame_decoder \<Rightarrow> frame_decoder" where
  "fd_fail st d = d\<lparr>fd_failed := True, fd_failure := st, fd_frames_rejected := fd_frames_rejected d + 1\<rparr>"

definition fd_push :: "bytes \<Rightarrow> frame_decoder \<Rightarrow> status \<times> frame_decoder" where
  "fd_push data d =
     (if fd_failed d then (fd_failure d, d)
      else if data = [] then (success, d)
      else (let bound = fd_max_payload d + kFrameHeaderBytes
            in if fd_buffered d > bound \<or> length data > bound - fd_buffered d
               then (let st = Status Code_capacity_exceeded ''frame buffer bound exceeded'' in (st, fd_fail st d))
               else (success, d\<lparr>fd_buffer := fd_buffer d @ data\<rparr>)))"

definition fd_compact :: "frame_decoder \<Rightarrow> frame_decoder" where
  "fd_compact d =
     (if fd_offset d = 0 then d
      else if fd_offset d \<ge> length (fd_buffer d)
      then d\<lparr>fd_bytes_consumed := fd_bytes_consumed d + length (fd_buffer d), fd_buffer := [], fd_offset := 0\<rparr>
      else d\<lparr>fd_buffer := drop (fd_offset d) (fd_buffer d), fd_bytes_consumed := fd_bytes_consumed d + fd_offset d,
             fd_offset := 0\<rparr>)"

text \<open>The bytes from the offset on are \<open>raw\<close>, as in the source.\<close>

definition fd_next :: "frame_decoder \<Rightarrow> frame result \<times> frame_decoder" where
  "fd_next d =
     (if fd_failed d then (Inl (fd_failure d), d)
      else
        (let available = fd_buffered d;
             raw = drop (fd_offset d) (fd_buffer d);
             reject = (\<lambda>c msg. (Inl (Status c msg), fd_fail (Status c msg) d))
         in if available < kFrameHeaderBytes then (Inl (Status Code_not_found ''frame header incomplete''), d)
            else if get_u32_at raw 0 \<noteq> kFrameMagic then reject Code_malformed_input ''frame magic mismatch''
            else if get_u16_at raw 4 \<noteq> kProtocolVersion
            then reject Code_unsupported ''frame protocol version is not supported''
            else
              (let payload_len = unat (get_u32_at raw 16);
                   total = kFrameHeaderBytes + payload_len
               in if payload_len > fd_max_payload d
                  then reject Code_capacity_exceeded ''frame payload exceeds the configured bound''
                  else if available < total then (Inl (Status Code_not_found ''frame payload incomplete''), d)
                  else if get_u32_at raw 20 \<noteq>
                            crc32c_extend (crc32c (take 20 raw)) (take payload_len (drop kFrameHeaderBytes raw))
                  then reject Code_integrity_failure ''frame checksum mismatch''
                  else
                    (let f = \<lparr>fr_type = get_u16_at raw 6, fr_sequence = get_u32_at raw 12,
                              fr_payload = take payload_len (drop kFrameHeaderBytes raw)\<rparr>;
                         d = d\<lparr>fd_offset := fd_offset d + total, fd_frames_decoded := fd_frames_decoded d + 1\<rparr>
                     in if fd_offset d = length (fd_buffer d)
                        then (Inr f, d\<lparr>fd_buffer := [], fd_offset := 0\<rparr>)
                        else (Inr f, fd_compact d)))))"

definition fd_reset :: "frame_decoder \<Rightarrow> frame_decoder" where
  "fd_reset d = d\<lparr>fd_buffer := [], fd_offset := 0, fd_failed := False, fd_failure := success\<rparr>"

section \<open>The layout\<close>

definition frame_head :: "frame \<Rightarrow> bytes" where
  "frame_head f = le_put 4 kFrameMagic @ le_put 2 kProtocolVersion @ le_put 2 (fr_type f) @ le_put 2 (0 :: u16)
     @ le_put 2 (0 :: u16) @ le_put 4 (fr_sequence f) @ le_put 4 (of_nat (length (fr_payload f)) :: u32)"

definition frame_bytes :: "frame \<Rightarrow> bytes" where
  "frame_bytes f = frame_head f @ le_put 4 (crc32c (frame_head f @ fr_payload f)) @ fr_payload f"

definition frame_fits :: "nat \<Rightarrow> frame \<Rightarrow> bool" where
  "frame_fits n f \<longleftrightarrow> length (fr_payload f) \<le> n \<and> length (fr_payload f) \<le> kMaxFramePayloadBytes"

lemma length_frame_head [simp]: "length (frame_head f) = 20"
  by (simp add: frame_head_def)

lemma length_frame_bytes [simp]: "length (frame_bytes f) = 24 + length (fr_payload f)"
  by (simp add: frame_bytes_def)

text \<open>Eight ascending writes into the zero-filled buffer are the head; the payload and the checksum follow.\<close>

lemma encode_head:
  "put_u32_at 16 n (put_u32_at 12 s (put_u16_at 10 0 (put_u16_at 8 0 (put_u16_at 6 ty
     (put_u16_at 4 kProtocolVersion (put_u32_at 0 kFrameMagic (replicate (24 + k) 0)))))))
   = filled (le_put 4 kFrameMagic @ le_put 2 kProtocolVersion @ le_put 2 ty @ le_put 2 (0 :: u16)
     @ le_put 2 (0 :: u16) @ le_put 4 s @ le_put 4 n) (4 + k)"
  unfolding put_u32_at_def put_u16_at_def filled_start by (simp add: put_at_filled)

theorem encode_frame_layout: "encode_frame f n = (if frame_fits n f then frame_bytes f else [])"
proof (cases "frame_fits n f")
  case True
  let ?p = "fr_payload f"
  have pay: "(if ?p \<noteq> [] then (crc32c_extend c ?p, put_at 24 ?p (filled (frame_head f) (4 + length ?p)))
              else (c, filled (frame_head f) (4 + length ?p)))
             = (crc32c_extend c ?p, frame_head f @ replicate 4 0 @ ?p)" for c
    by (simp add: put_at_def filled_def crc32c_extend_def replicate_add)
  have last: "put_u32_at 20 c (frame_head f @ replicate 4 0 @ ?p) = frame_head f @ le_put 4 c @ ?p" for c
    by (simp add: put_u32_at_def put_at_def)
  show ?thesis
    using True unfolding encode_frame_def frame_fits_def kFrameHeaderBytes_def encode_head Let_def
      frame_head_def [symmetric] pay prod.case last
    by (auto simp: take_filled crc32c_concat frame_bytes_def)
qed (auto simp: encode_frame_def frame_fits_def)

section \<open>The decoder on encoded frames\<close>

text \<open>The state between calls: everything consumed has been removed, and the buffer is within its bound.\<close>

definition fd_wf :: "frame_decoder \<Rightarrow> bool" where
  "fd_wf d \<longleftrightarrow> fd_offset d = 0 \<and> length (fd_buffer d) \<le> fd_max_payload d + kFrameHeaderBytes"

lemma new_decoder_wf: "fd_wf (new_decoder n)"
  by (simp add: fd_wf_def new_decoder_def)

lemma fd_push_wf: "fd_wf d \<Longrightarrow> fd_wf (snd (fd_push data d))"
  by (auto simp: fd_push_def fd_wf_def fd_fail_def fd_buffered_def Let_def)

lemma fd_next_wf: "fd_wf d \<Longrightarrow> fd_wf (snd (fd_next d))"
  by (auto simp: fd_next_def fd_wf_def fd_fail_def fd_compact_def Let_def)

lemma fd_reset_wf: "fd_wf (fd_reset d)"
  by (simp add: fd_reset_def fd_wf_def)

text \<open>The fields of a frame at their places.\<close>

lemma frame_fields:
  assumes "raw = frame_head f @ le_put 4 c @ rest"
  shows "get_u32_at raw 0 = kFrameMagic" "get_u16_at raw 4 = kProtocolVersion" "get_u16_at raw 6 = fr_type f"
    "get_u32_at raw 12 = fr_sequence f" "get_u32_at raw 16 = of_nat (length (fr_payload f))" "get_u32_at raw 20 = c"
  using assms get_at_prefix(2) [of 0 "[]"]
    get_at_prefix(1) [of 4 "le_put 4 kFrameMagic"]
    get_at_prefix(1) [of 6 "le_put 4 kFrameMagic @ le_put 2 kProtocolVersion"]
    get_at_prefix(2) [of 12 "le_put 4 kFrameMagic @ le_put 2 kProtocolVersion @ le_put 2 (fr_type f) @ le_put 2 (0 :: u16) @ le_put 2 (0 :: u16)"]
    get_at_prefix(2) [of 16 "le_put 4 kFrameMagic @ le_put 2 kProtocolVersion @ le_put 2 (fr_type f) @ le_put 2 (0 :: u16) @ le_put 2 (0 :: u16) @ le_put 4 (fr_sequence f)"]
    get_at_prefix(2) [of 20 "frame_head f"]
  by (simp_all add: frame_head_def)

lemma unat_payload_length:
  "length (fr_payload f) \<le> kMaxFramePayloadBytes \<Longrightarrow> unat (of_nat (length (fr_payload f)) :: u32) = length (fr_payload f)"
  by (simp add: unat_of_nat take_bit_nat_eq_self kMaxFramePayloadBytes_def)

lemma fd_next_frame:
  assumes "fd_offset d = 0" "\<not> fd_failed d" "frame_fits (fd_max_payload d) f" "fd_buffer d = frame_bytes f @ rest"
  shows "fd_next d = (Inr f,
    d\<lparr>fd_buffer := rest, fd_frames_decoded := fd_frames_decoded d + 1,
      fd_bytes_consumed := fd_bytes_consumed d + (if rest = [] then 0 else length (frame_bytes f))\<rparr>)"
proof -
  have buf: "fd_buffer d = frame_head f @ le_put 4 (crc32c (frame_head f @ fr_payload f)) @ fr_payload f @ rest"
    using assms(4) by (simp add: frame_bytes_def)
  have len: "length (fr_payload f) \<le> fd_max_payload d" "length (fr_payload f) \<le> kMaxFramePayloadBytes"
    using assms(3) by (auto simp: frame_fits_def)
  show ?thesis
    using assms(1,2) len(1) unat_payload_length [OF len(2)]
    by (simp add: fd_next_def Let_def fd_buffered_def buf frame_fields [OF refl] kFrameHeaderBytes_def
        crc32c_concat fd_compact_def)
qed

text \<open>A proper prefix of a frame: the decoder asks for more and keeps what it has.\<close>

definition needs_more :: "frame_decoder \<Rightarrow> bool" where
  "needs_more d \<longleftrightarrow> (\<exists>st. st_code st = Code_not_found \<and> fd_next d = (Inl st, d))"

lemma fd_next_incomplete:
  assumes "fd_offset d = 0" "\<not> fd_failed d" "frame_fits (fd_max_payload d) f"
    and "frame_bytes f = fd_buffer d @ missing" "missing \<noteq> []"
  shows "needs_more d"
proof (cases "length (fd_buffer d) < 24")
  case False
  let ?h = "frame_head f @ le_put 4 (crc32c (frame_head f @ fr_payload f))"
  have all: "?h @ fr_payload f = fd_buffer d @ missing"
    using assms(4) by (simp add: frame_bytes_def)
  have "fd_buffer d = take (length (fd_buffer d)) (?h @ fr_payload f)"
    unfolding all by simp
  with False have buf: "fd_buffer d = frame_head f @ le_put 4 (crc32c (frame_head f @ fr_payload f))
      @ take (length (fd_buffer d) - 24) (fr_payload f)"
    by simp
  have short: "length (fd_buffer d) < 24 + length (fr_payload f)"
    using arg_cong [OF assms(4), of length] assms(5) by simp
  have len: "length (fr_payload f) \<le> fd_max_payload d" "length (fr_payload f) \<le> kMaxFramePayloadBytes"
    using assms(3) by (auto simp: frame_fits_def)
  show ?thesis
    using assms(1,2) False short len(1) unat_payload_length [OF len(2)]
    by (simp add: needs_more_def fd_next_def Let_def fd_buffered_def frame_fields [OF buf] kFrameHeaderBytes_def)
qed (use assms(1,2) in \<open>simp add: needs_more_def fd_next_def fd_buffered_def kFrameHeaderBytes_def\<close>)

lemma fd_next_empty: "fd_offset d = 0 \<Longrightarrow> \<not> fd_failed d \<Longrightarrow> fd_buffer d = [] \<Longrightarrow> needs_more d"
  by (simp add: needs_more_def fd_next_def fd_buffered_def kFrameHeaderBytes_def)

section \<open>Whole streams\<close>

text \<open>
  The loop of \<^verbatim>\<open>WorkerClient::Impl::await\<close> and \<^verbatim>\<open>CoordinatorServer::run_once\<close> around the decoder: push what
  was received, then take frames until the decoder has no more.
\<close>

lemma fd_next_shrinks: "fd_next d = (Inr f, d') \<Longrightarrow> fd_buffered d' < fd_buffered d"
  by (auto simp: fd_next_def fd_buffered_def fd_compact_def kFrameHeaderBytes_def Let_def split: if_splits)

function fd_drain :: "frame_decoder \<Rightarrow> frame list \<times> status \<times> frame_decoder" where
  "fd_drain d =
     (case fd_next d of
        (Inl st, d') \<Rightarrow> ([], st, d')
      | (Inr f, d') \<Rightarrow> (case fd_drain d' of (fs, st, d'') \<Rightarrow> (f # fs, st, d'')))"
  by auto
termination
  by (relation "measure fd_buffered") (auto dest: fd_next_shrinks [OF sym])

declare fd_drain.simps [simp del]

fun fd_feed :: "bytes list \<Rightarrow> frame_decoder \<Rightarrow> frame list \<times> frame_decoder" where
  "fd_feed [] d = ([], d)"
| "fd_feed (chunk # chunks) d =
     (case fd_push chunk d of
        (st, d) \<Rightarrow>
          (if \<not> ok st then ([], d)
           else (case fd_drain d of
                   (fs, st, d) \<Rightarrow>
                     (if st_code st = Code_not_found then (case fd_feed chunks d of (gs, d) \<Rightarrow> (fs @ gs, d))
                      else (fs, d)))))"

lemma fd_drain_stop: "needs_more d \<Longrightarrow> \<exists>st. st_code st = Code_not_found \<and> fd_drain d = ([], st, d)"
  by (auto simp: needs_more_def fd_drain.simps [of d])

text \<open>The part of a decoder that matters for what follows.\<close>

definition fd_ready :: "nat \<Rightarrow> bytes \<Rightarrow> frame_decoder \<Rightarrow> bool" where
  "fd_ready n buf d \<longleftrightarrow> fd_offset d = 0 \<and> \<not> fd_failed d \<and> fd_max_payload d = n \<and> fd_buffer d = buf"

lemma fd_drain_frames:
  assumes "fd_ready n (concat (map frame_bytes fs) @ rest) d" "list_all (frame_fits n) fs"
    and "\<And>d'. fd_ready n rest d' \<Longrightarrow> needs_more d'"
  shows "\<exists>st d'. fd_drain d = (fs, st, d') \<and> st_code st = Code_not_found \<and> fd_ready n rest d'"
  using assms
proof (induction fs arbitrary: d)
  case Nil
  then show ?case
    using fd_drain_stop [of d] by auto
next
  case (Cons f fs)
  from Cons.prems(1,2) have "\<exists>d1. fd_next d = (Inr f, d1) \<and> fd_ready n (concat (map frame_bytes fs) @ rest) d1"
    using fd_next_frame [of d f "concat (map frame_bytes fs) @ rest"] by (simp add: fd_ready_def)
  then obtain d1 where d1: "fd_next d = (Inr f, d1)" "fd_ready n (concat (map frame_bytes fs) @ rest) d1"
    by blast
  show ?case
    using Cons.IH [OF d1(2)] Cons.prems(2,3) by (auto simp: fd_drain.simps [of d] d1(1))
qed

text \<open>A prefix of a stream of frames is some whole frames and a proper prefix of the next one.\<close>

definition frames_bytes :: "frame list \<Rightarrow> bytes" where
  "frames_bytes fs = concat (map frame_bytes fs)"

lemma frames_bytes_simps [simp]:
  "frames_bytes [] = []" "frames_bytes (f # fs) = frame_bytes f @ frames_bytes fs"
  "frames_bytes (fs @ gs) = frames_bytes fs @ frames_bytes gs"
  by (simp_all add: frames_bytes_def)

definition partial_frame :: "bytes \<Rightarrow> frame list \<Rightarrow> bool" where
  "partial_frame r fs \<longleftrightarrow> (case fs of [] \<Rightarrow> r = [] | f # _ \<Rightarrow> (\<exists>m. m \<noteq> [] \<and> frame_bytes f = r @ m))"

lemma frame_bytes_nonempty [simp]: "frame_bytes f \<noteq> []"
  using length_frame_bytes [of f] by (metis add_is_0 length_0_conv zero_neq_numeral)

lemma stream_prefix:
  assumes "p @ q = frames_bytes fs"
  shows "\<exists>gs hs r. fs = gs @ hs \<and> p = frames_bytes gs @ r \<and> r @ q = frames_bytes hs \<and> partial_frame r hs"
  using assms
proof (induction fs arbitrary: p)
  case Nil
  then show ?case
    by (intro exI [of _ "[]"]) (simp add: partial_frame_def)
next
  case (Cons f fs)
  then consider p' where "p = frame_bytes f @ p'" "p' @ q = frames_bytes fs"
    | m where "m \<noteq> []" "frame_bytes f = p @ m" "m @ frames_bytes fs = q"
    by (auto simp: append_eq_append_conv2) (metis append_Nil2 append_self_conv2)+
  then show ?case
  proof cases
    case 1
    from Cons.IH [OF 1(2)] obtain gs hs r where
      "fs = gs @ hs" "p' = frames_bytes gs @ r" "r @ q = frames_bytes hs" "partial_frame r hs"
      by blast
    then show ?thesis
      using 1(1) by (intro exI [of _ "f # gs"] exI [of _ hs] exI [of _ r]) simp
  next
    case 2
    then show ?thesis
      by (intro exI [of _ "[]"] exI [of _ "f # fs"] exI [of _ p]) (auto simp: partial_frame_def)
  qed
qed

lemma partial_needs_more:
  assumes "partial_frame r fs" "list_all (frame_fits n) fs" "fd_ready n r d"
  shows "needs_more d"
proof (cases fs)
  case Nil
  then show ?thesis
    using assms by (simp add: partial_frame_def fd_ready_def fd_next_empty)
next
  case (Cons f gs)
  then show ?thesis
    using assms fd_next_incomplete [of d f] by (auto simp: partial_frame_def fd_ready_def)
qed

lemma partial_push:
  assumes "partial_frame r fs" "list_all (\<lambda>f. length (fr_payload f) + m \<le> n + 1) fs" "m \<le> n + 24" "length chunk \<le> m"
    and "fd_ready n r d"
  shows "\<exists>d'. fd_push chunk d = (success, d') \<and> fd_ready n (r @ chunk) d'"
proof -
  have "length r + length chunk \<le> n + 24"
  proof (cases fs)
    case (Cons f gs)
    then obtain k where "k \<noteq> []" "frame_bytes f = r @ k" "length (fr_payload f) + m \<le> n + 1"
      using assms(1,2) by (auto simp: partial_frame_def)
    then have "length r < 24 + length (fr_payload f)"
      by (metis add_less_cancel_left length_append length_frame_bytes length_greater_0_conv nat_add_left_cancel_less add.right_neutral)
    then show ?thesis
      using \<open>length (fr_payload f) + m \<le> n + 1\<close> assms(4) by simp
  qed (use assms(1,3,4) in \<open>simp add: partial_frame_def\<close>)
  then show ?thesis
    using assms(5) by (auto simp: fd_push_def fd_ready_def fd_buffered_def kFrameHeaderBytes_def Let_def)
qed

text \<open>However the stream is cut into chunks, the frames come out whole and in order.\<close>

theorem fd_feed_stream:
  assumes "partial_frame r fs" "r @ concat chunks = frames_bytes fs" "list_all (frame_fits n) fs"
    and "list_all (\<lambda>f. length (fr_payload f) + m \<le> n + 1) fs" "m \<le> n + 24" "list_all (\<lambda>c. length c \<le> m) chunks"
    and "fd_ready n r d"
  shows "\<exists>d'. fd_feed chunks d = (fs, d') \<and> fd_ready n [] d'"
  using assms
proof (induction chunks arbitrary: r fs d)
  case Nil
  then have "fs = []"
    by (cases fs) (auto simp: partial_frame_def)
  with Nil show ?case
    by (simp add: partial_frame_def)
next
  case (Cons c cs)
  obtain d1 where d1: "fd_push c d = (success, d1)" "fd_ready n (r @ c) d1"
    using partial_push [OF Cons.prems(1,4,5) _ Cons.prems(7)] Cons.prems(6) by auto
  obtain gs hs p where split: "fs = gs @ hs" "r @ c = frames_bytes gs @ p" "p @ concat cs = frames_bytes hs" "partial_frame p hs"
    using stream_prefix [of "r @ c" "concat cs" fs] Cons.prems(2) by auto
  have hs: "list_all (frame_fits n) gs" "list_all (frame_fits n) hs" "list_all (\<lambda>f. length (fr_payload f) + m \<le> n + 1) hs"
    using Cons.prems(3,4) split(1) by simp_all
  obtain st d2 where d2: "fd_drain d1 = (gs, st, d2)" "st_code st = Code_not_found" "fd_ready n p d2"
    using fd_drain_frames [of n gs p d1] partial_needs_more [OF split(4) hs(2)] d1(2) hs(1)
    by (auto simp: split(2) frames_bytes_def)
  obtain d' where "fd_feed cs d2 = (hs, d')" "fd_ready n [] d'"
    using Cons.IH [OF split(4,3) hs(2,3) Cons.prems(5) _ d2(3)] Cons.prems(6) by auto
  then show ?case
    by (simp add: d1(1) d2(1,2) split(1))
qed

section \<open>Damage\<close>

definition rejects :: "frame_decoder \<Rightarrow> bool" where
  "rejects d \<longleftrightarrow> (\<exists>st. st_code st \<in> {Code_malformed_input, Code_unsupported, Code_integrity_failure}
     \<and> fd_next d = (Inl st, fd_fail st d))"

lemma checksum_rejects:
  assumes "fd_offset d = 0" "\<not> fd_failed d" "length pay \<le> fd_max_payload d" "length pay \<le> kMaxFramePayloadBytes"
    and buf: "fd_buffer d = a @ le_put 4 (of_nat (length pay) :: u32) @ le_put 4 c @ pay @ rest" and "length a = 16"
    and "crc32c (a @ le_put 4 (of_nat (length pay) :: u32) @ pay) \<noteq> c"
  shows "rejects d"
proof -
  have fields: "get_u32_at (fd_buffer d) 16 = of_nat (length pay)" "get_u32_at (fd_buffer d) 20 = c"
    using get_at_prefix(2) [of 16 a] get_at_prefix(2) [of 20 "a @ le_put 4 (of_nat (length pay) :: u32)"] assms(6)
    by (simp_all add: buf)
  have bytes: "take 20 (fd_buffer d) = a @ le_put 4 (of_nat (length pay) :: u32)"
    "take (length pay) (drop 24 (fd_buffer d)) = pay" "24 + length pay \<le> length (fd_buffer d)"
    using assms(6) by (simp_all add: buf)
  have crc: "crc32c_extend (crc32c (a @ le_put 4 (of_nat (length pay) :: u32))) pay \<noteq> c"
    using assms(7) crc32c_concat [of "a @ le_put 4 (of_nat (length pay) :: u32)" pay] by simp
  have len: "unat (of_nat (length pay) :: u32) = length pay"
    using assms(4) by (simp add: unat_of_nat take_bit_nat_eq_self kMaxFramePayloadBytes_def)
  show ?thesis
    using assms(1-3) bytes crc
    by (auto simp: rejects_def fd_next_def Let_def fd_buffered_def kFrameHeaderBytes_def fields len)
qed

text \<open>
  Damage confined to four consecutive bytes of the payload, or of the header before its length field,
  is noticed. (Damage to the length field moves the end of the frame: it is noticed by the bound, or
  by the checksum of other bytes.)
\<close>

theorem burst_rejects:
  assumes "fd_offset d = 0" "\<not> fd_failed d" "frame_fits (fd_max_payload d) f"
    and bytes: "frame_bytes f = pre @ xs @ post" and "24 \<le> length pre \<or> length pre + length xs \<le> 16"
    and burst: "length xs = length ys" "length xs \<le> 4" "xs \<noteq> ys"
    and buf: "fd_buffer d = pre @ ys @ post @ rest"
  shows "rejects d"
  using assms(5)
proof
  let ?n = "le_put 4 (of_nat (length (fr_payload f)) :: u32)" and ?c = "crc32c (frame_head f @ fr_payload f)"
  let ?a = "le_put 4 kFrameMagic @ le_put 2 kProtocolVersion @ le_put 2 (fr_type f) @ le_put 2 (0 :: u16)
     @ le_put 2 (0 :: u16) @ le_put 4 (fr_sequence f)"
  have len: "length (fr_payload f) \<le> fd_max_payload d" "length (fr_payload f) \<le> kMaxFramePayloadBytes"
    using assms(3) by (auto simp: frame_fits_def)
  have whole: "?a @ ?n @ le_put 4 ?c @ fr_payload f = pre @ xs @ post"
    using bytes by (simp add: frame_bytes_def frame_head_def)
  {
    assume far: "24 \<le> length pre"
    have "(?a @ ?n @ le_put 4 ?c) @ fr_payload f = pre @ xs @ post" "length (?a @ ?n @ le_put 4 ?c) \<le> length pre"
      using whole far by simp_all
    then obtain p where p: "pre = (?a @ ?n @ le_put 4 ?c) @ p" "fr_payload f = p @ xs @ post"
      by (rule split_longer)
    show ?thesis
    proof (rule checksum_rejects [OF assms(1,2), of "p @ ys @ post" ?a ?c rest])
      show "crc32c (?a @ le_put 4 (of_nat (length (p @ ys @ post)) :: u32) @ p @ ys @ post) \<noteq> ?c"
        using crc32c_burst [OF burst, of "frame_head f @ p" post] burst(1) by (simp add: frame_head_def p(2))
    qed (use len burst(1) in \<open>simp_all add: p buf\<close>)
  }
  {
    assume near: "length pre + length xs \<le> 16"
    have "(pre @ xs) @ post = ?a @ ?n @ le_put 4 ?c @ fr_payload f" "length (pre @ xs) \<le> length ?a"
      using whole near by simp_all
    then obtain q where q: "?a = (pre @ xs) @ q" "post = q @ ?n @ le_put 4 ?c @ fr_payload f"
      by (rule split_longer)
    show ?thesis
    proof (rule checksum_rejects [OF assms(1,2) len, of "pre @ ys @ q" ?c rest])
      show "crc32c ((pre @ ys @ q) @ ?n @ fr_payload f) \<noteq> ?c"
        using crc32c_burst [OF burst, of pre "q @ ?n @ fr_payload f"] arg_cong [OF q(1), of "\<lambda>as. as @ ?n"]
        by (simp add: frame_head_def) (metis append.assoc)
      show "length (pre @ ys @ q) = 16"
        using arg_cong [OF q(1), of length] burst(1) by simp
    qed (simp add: q(2) buf)
  }
qed

lemma failed_sticky:
  "fd_failed d \<Longrightarrow> fd_push data d = (fd_failure d, d)" "fd_failed d \<Longrightarrow> fd_next d = (Inl (fd_failure d), d)"
  by (simp_all add: fd_push_def fd_next_def)

end
