(* ===== verification/QF_Protocol.thy ===== *)
theory QF_Protocol
  imports QF_Serialize QF_Frame
begin

text \<open>
  \<^verbatim>\<open>include/qf/protocol.hpp\<close> and \<^verbatim>\<open>src/protocol.cpp\<close>: the messages between coordinator and workers
  and their encoding. A \<^verbatim>\<open>Message\<close> has a member for every kind of body; only the one its type names is
  on the wire. The body of each case of the two switches is a codec (an interpretation of the locale
  \<open>codec\<close>); the round trip of whole messages, and of streams of framed messages cut anywhere,
  follow from them.
\<close>

section \<open>Messages\<close>

datatype role = Role_worker | Role_monitor | Role_raw u8

fun role_name :: "role \<Rightarrow> string" where
  "role_name Role_worker = ''worker''"
| "role_name Role_monitor = ''monitor''"
| "role_name (Role_raw v) = ''unknown''"

fun u8_of_role :: "role \<Rightarrow> u8" where
  "u8_of_role Role_worker = 1"
| "u8_of_role Role_monitor = 2"
| "u8_of_role (Role_raw v) = v"

definition role_of_u8 :: "u8 \<Rightarrow> role" where
  "role_of_u8 v = (if v = 1 then Role_worker else if v = 2 then Role_monitor else Role_raw v)"

datatype message_type =
  Mt_none | Mt_hello | Mt_hello_ack | Mt_heartbeat | Mt_occupancy_batch | Mt_mutation | Mt_mutation_response
  | Mt_epoch_advance | Mt_fence_notice | Mt_stats_request | Mt_stats_response | Mt_shutdown | Mt_error_message
  | Mt_raw u16

fun message_type_name :: "message_type \<Rightarrow> string" where
  "message_type_name Mt_none = ''none''"
| "message_type_name Mt_hello = ''hello''"
| "message_type_name Mt_hello_ack = ''hello_ack''"
| "message_type_name Mt_heartbeat = ''heartbeat''"
| "message_type_name Mt_occupancy_batch = ''occupancy_batch''"
| "message_type_name Mt_mutation = ''mutation''"
| "message_type_name Mt_mutation_response = ''mutation_response''"
| "message_type_name Mt_epoch_advance = ''epoch_advance''"
| "message_type_name Mt_fence_notice = ''fence_notice''"
| "message_type_name Mt_stats_request = ''stats_request''"
| "message_type_name Mt_stats_response = ''stats_response''"
| "message_type_name Mt_shutdown = ''shutdown''"
| "message_type_name Mt_error_message = ''error_message''"
| "message_type_name (Mt_raw v) = ''unknown''"

fun u16_of_message_type :: "message_type \<Rightarrow> u16" where
  "u16_of_message_type Mt_none = 0"
| "u16_of_message_type Mt_hello = 1"
| "u16_of_message_type Mt_hello_ack = 2"
| "u16_of_message_type Mt_heartbeat = 3"
| "u16_of_message_type Mt_occupancy_batch = 4"
| "u16_of_message_type Mt_mutation = 5"
| "u16_of_message_type Mt_mutation_response = 6"
| "u16_of_message_type Mt_epoch_advance = 7"
| "u16_of_message_type Mt_fence_notice = 8"
| "u16_of_message_type Mt_stats_request = 9"
| "u16_of_message_type Mt_stats_response = 10"
| "u16_of_message_type Mt_shutdown = 11"
| "u16_of_message_type Mt_error_message = 12"
| "u16_of_message_type (Mt_raw v) = v"

definition message_type_of_u16 :: "u16 \<Rightarrow> message_type" where
  "message_type_of_u16 v =
     (if v = 0 then Mt_none
      else if v = 1 then Mt_hello
      else if v = 2 then Mt_hello_ack
      else if v = 3 then Mt_heartbeat
      else if v = 4 then Mt_occupancy_batch
      else if v = 5 then Mt_mutation
      else if v = 6 then Mt_mutation_response
      else if v = 7 then Mt_epoch_advance
      else if v = 8 then Mt_fence_notice
      else if v = 9 then Mt_stats_request
      else if v = 10 then Mt_stats_response
      else if v = 11 then Mt_shutdown
      else if v = 12 then Mt_error_message
      else Mt_raw v)"

record hello =
  he_role :: role
  he_node :: NodeId
  he_incarnation :: Incarnation
  he_boot :: boot_id
  he_epoch :: Epoch
  he_name :: string

definition no_hello :: hello where
  "no_hello = \<lparr>he_role = Role_worker, he_node = Ident 0, he_incarnation = Counter 0, he_boot = no_boot, he_epoch = Counter 0, he_name = []\<rparr>"

record hello_ack =
  ha_accepted :: bool
  ha_code :: code
  ha_message :: string
  ha_coordinator_epoch :: Epoch
  ha_coordinator_incarnation :: Incarnation

definition no_hello_ack :: hello_ack where
  "no_hello_ack = \<lparr>ha_accepted = False, ha_code = Code_ok, ha_message = [], ha_coordinator_epoch = Counter 0, ha_coordinator_incarnation = Counter 0\<rparr>"

record heartbeat =
  hb_sequence :: Sequence
  hb_epoch :: Epoch

definition no_heartbeat :: heartbeat where
  "no_heartbeat = \<lparr>hb_sequence = Counter 0, hb_epoch = Counter 0\<rparr>"

record mutation_response =
  mp_attempt :: attempt_id
  mp_queue :: QueueId
  mp_code :: code
  mp_message :: string
  mp_generation :: Generation
  mp_replayed :: bool

definition no_mutation_response :: mutation_response where
  "no_mutation_response = \<lparr>mp_attempt = no_attempt, mp_queue = Ident 0, mp_code = Code_ok, mp_message = [], mp_generation = Counter 0, mp_replayed = False\<rparr>"

record fence_notice =
  fn_queue :: QueueId
  fn_generation :: Generation
  fn_token :: u64
  fn_reason :: string

definition no_fence_notice :: fence_notice where
  "no_fence_notice = \<lparr>fn_queue = Ident 0, fn_generation = Counter 0, fn_token = 0, fn_reason = []\<rparr>"

record coordinator_stats =
  cs_epoch :: Epoch
  cs_coordinator_incarnation :: Incarnation
  cs_workers :: u64
  cs_queues :: u64
  cs_occupancy_accepted :: u64
  cs_occupancy_rejected :: u64
  cs_occupancy_overflow :: u64
  cs_mutations_applied :: u64
  cs_mutations_replayed :: u64
  cs_mutations_rejected :: u64
  cs_stale_epoch_rejections :: u64
  cs_stale_incarnation_rejections :: u64
  cs_revalidations_required :: u64
  cs_ambiguous_attempts :: u64
  cs_frames_received :: u64
  cs_frames_rejected :: u64
  cs_connections_accepted :: u64
  cs_connections_lost :: u64
  cs_liveness_expirations :: u64
  cs_recoveries :: u64
  cs_durable_records :: u64

definition no_coordinator_stats :: coordinator_stats where
  "no_coordinator_stats = \<lparr>cs_epoch = Counter 0, cs_coordinator_incarnation = Counter 0, cs_workers = 0, cs_queues = 0, cs_occupancy_accepted = 0, cs_occupancy_rejected = 0, cs_occupancy_overflow = 0, cs_mutations_applied = 0, cs_mutations_replayed = 0, cs_mutations_rejected = 0, cs_stale_epoch_rejections = 0, cs_stale_incarnation_rejections = 0, cs_revalidations_required = 0, cs_ambiguous_attempts = 0, cs_frames_received = 0, cs_frames_rejected = 0, cs_connections_accepted = 0, cs_connections_lost = 0, cs_liveness_expirations = 0, cs_recoveries = 0, cs_durable_records = 0\<rparr>"

record error_message =
  em_code :: code
  em_message :: string

definition no_error :: error_message where
  "no_error = \<lparr>em_code = Code_internal, em_message = []\<rparr>"

definition no_mutation :: mutation_request where
  "no_mutation = \<lparr>mr_attempt = no_attempt, mr_kind = Mk_none, mr_queue = Ident 0, mr_expected_generation = Counter 0,
     mr_expected_epoch = Counter 0, mr_principal = Ident 0, mr_provenance = no_provenance, mr_payload = Pl_monostate\<rparr>"

record message =
  ms_type :: message_type
  ms_sequence :: u32
  ms_hello :: hello
  ms_hello_ack :: hello_ack
  ms_heartbeat :: heartbeat
  ms_occupancy :: "occupancy_sample list"
  ms_mutation :: mutation_request
  ms_mutation_response :: mutation_response
  ms_epoch :: Epoch
  ms_fence :: fence_notice
  ms_stats :: coordinator_stats
  ms_error :: error_message
  ms_text :: string

definition no_message :: message where
  "no_message = \<lparr>ms_type = Mt_none, ms_sequence = 0, ms_hello = no_hello, ms_hello_ack = no_hello_ack, ms_heartbeat = no_heartbeat, ms_occupancy = [], ms_mutation = no_mutation, ms_mutation_response = no_mutation_response, ms_epoch = Counter 0, ms_fence = no_fence_notice, ms_stats = no_coordinator_stats, ms_error = no_error, ms_text = []\<rparr>"

section \<open>The bodies\<close>

text \<open>The local \<^verbatim>\<open>put_attempt\<close>, \<^verbatim>\<open>get_attempt\<close>, \<^verbatim>\<open>put_occupancy\<close> and \<^verbatim>\<open>get_occupancy\<close> of \<^verbatim>\<open>protocol.cpp\<close> write the
  members in the same order as those of \<^verbatim>\<open>serialize.cpp\<close>.\<close>

definition put_occupancy :: "occupancy_sample \<Rightarrow> writer \<Rightarrow> writer" where
  "put_occupancy s w =
     (let w = put_u64 (id_value (os_queue s)) w;
          w = put_u64 (ctr_value (os_queue_generation s)) w;
          w = put_u64 (os_bytes s) w;
          w = put_u64 (os_packets s) w;
          w = put_u64 (ctr_value (os_epoch s)) w;
          w = put_u64 (ctr_value (os_sequence s)) w;
          w = put_i64 (os_observed_at s) w;
          w = put_provenance (os_provenance s) w
      in w)"

definition get_occupancy :: "reader \<Rightarrow> occupancy_sample \<times> reader" where
  "get_occupancy r =
     (let (os_queue', r) = get_u64 r;
          (os_queue_generation', r) = get_u64 r;
          (os_bytes', r) = get_u64 r;
          (os_packets', r) = get_u64 r;
          (os_epoch', r) = get_u64 r;
          (os_sequence', r) = get_u64 r;
          (os_observed_at', r) = get_i64 r;
          (os_provenance', r) = get_provenance r
      in (\<lparr>os_queue = Ident os_queue', os_queue_generation = Counter os_queue_generation', os_bytes = os_bytes', os_packets = os_packets', os_epoch = Counter os_epoch', os_sequence = Counter os_sequence', os_observed_at = os_observed_at', os_provenance = os_provenance'\<rparr>, r))"

definition put_hello_ack :: "hello_ack \<Rightarrow> writer \<Rightarrow> writer" where
  "put_hello_ack a w =
     (let w = put_bool (ha_accepted a) w;
          w = put_u16 (u16_of_code (ha_code a)) w;
          w = put_string (ha_message a) w;
          w = put_u64 (ctr_value (ha_coordinator_epoch a)) w;
          w = put_u64 (ctr_value (ha_coordinator_incarnation a)) w
      in w)"

definition get_hello_ack :: "reader \<Rightarrow> hello_ack \<times> reader" where
  "get_hello_ack r =
     (let (ha_accepted', r) = get_bool r;
          (ha_code', r) = get_u16 r;
          (ha_message', r) = get_string kMaxMessageChars r;
          (ha_coordinator_epoch', r) = get_u64 r;
          (ha_coordinator_incarnation', r) = get_u64 r
      in (\<lparr>ha_accepted = ha_accepted', ha_code = code_of_u16 ha_code', ha_message = ha_message', ha_coordinator_epoch = Counter ha_coordinator_epoch', ha_coordinator_incarnation = Counter ha_coordinator_incarnation'\<rparr>, r))"

definition put_heartbeat :: "heartbeat \<Rightarrow> writer \<Rightarrow> writer" where
  "put_heartbeat h w =
     (let w = put_u64 (ctr_value (hb_sequence h)) w;
          w = put_u64 (ctr_value (hb_epoch h)) w
      in w)"

definition get_heartbeat :: "reader \<Rightarrow> heartbeat \<times> reader" where
  "get_heartbeat r =
     (let (hb_sequence', r) = get_u64 r;
          (hb_epoch', r) = get_u64 r
      in (\<lparr>hb_sequence = Counter hb_sequence', hb_epoch = Counter hb_epoch'\<rparr>, r))"

definition put_mutation_response :: "mutation_response \<Rightarrow> writer \<Rightarrow> writer" where
  "put_mutation_response m w =
     (let w = put_attempt (mp_attempt m) w;
          w = put_u64 (id_value (mp_queue m)) w;
          w = put_u16 (u16_of_code (mp_code m)) w;
          w = put_string (mp_message m) w;
          w = put_u64 (ctr_value (mp_generation m)) w;
          w = put_bool (mp_replayed m) w
      in w)"

definition get_mutation_response :: "reader \<Rightarrow> mutation_response \<times> reader" where
  "get_mutation_response r =
     (let (mp_attempt', r) = get_attempt r;
          (mp_queue', r) = get_u64 r;
          (mp_code', r) = get_u16 r;
          (mp_message', r) = get_string kMaxMessageChars r;
          (mp_generation', r) = get_u64 r;
          (mp_replayed', r) = get_bool r
      in (\<lparr>mp_attempt = mp_attempt', mp_queue = Ident mp_queue', mp_code = code_of_u16 mp_code', mp_message = mp_message', mp_generation = Counter mp_generation', mp_replayed = mp_replayed'\<rparr>, r))"

definition put_fence_notice :: "fence_notice \<Rightarrow> writer \<Rightarrow> writer" where
  "put_fence_notice n w =
     (let w = put_u64 (id_value (fn_queue n)) w;
          w = put_u64 (ctr_value (fn_generation n)) w;
          w = put_u64 (fn_token n) w;
          w = put_string (fn_reason n) w
      in w)"

definition get_fence_notice :: "reader \<Rightarrow> fence_notice \<times> reader" where
  "get_fence_notice r =
     (let (fn_queue', r) = get_u64 r;
          (fn_generation', r) = get_u64 r;
          (fn_token', r) = get_u64 r;
          (fn_reason', r) = get_string kMaxReasonChars r
      in (\<lparr>fn_queue = Ident fn_queue', fn_generation = Counter fn_generation', fn_token = fn_token', fn_reason = fn_reason'\<rparr>, r))"

definition put_stats :: "coordinator_stats \<Rightarrow> writer \<Rightarrow> writer" where
  "put_stats c w =
     (let w = put_u64 (ctr_value (cs_epoch c)) w;
          w = put_u64 (ctr_value (cs_coordinator_incarnation c)) w;
          w = put_u64 (cs_workers c) w;
          w = put_u64 (cs_queues c) w;
          w = put_u64 (cs_occupancy_accepted c) w;
          w = put_u64 (cs_occupancy_rejected c) w;
          w = put_u64 (cs_occupancy_overflow c) w;
          w = put_u64 (cs_mutations_applied c) w;
          w = put_u64 (cs_mutations_replayed c) w;
          w = put_u64 (cs_mutations_rejected c) w;
          w = put_u64 (cs_stale_epoch_rejections c) w;
          w = put_u64 (cs_stale_incarnation_rejections c) w;
          w = put_u64 (cs_revalidations_required c) w;
          w = put_u64 (cs_ambiguous_attempts c) w;
          w = put_u64 (cs_frames_received c) w;
          w = put_u64 (cs_frames_rejected c) w;
          w = put_u64 (cs_connections_accepted c) w;
          w = put_u64 (cs_connections_lost c) w;
          w = put_u64 (cs_liveness_expirations c) w;
          w = put_u64 (cs_recoveries c) w;
          w = put_u64 (cs_durable_records c) w
      in w)"

definition get_stats :: "reader \<Rightarrow> coordinator_stats \<times> reader" where
  "get_stats r =
     (let (cs_epoch', r) = get_u64 r;
          (cs_coordinator_incarnation', r) = get_u64 r;
          (cs_workers', r) = get_u64 r;
          (cs_queues', r) = get_u64 r;
          (cs_occupancy_accepted', r) = get_u64 r;
          (cs_occupancy_rejected', r) = get_u64 r;
          (cs_occupancy_overflow', r) = get_u64 r;
          (cs_mutations_applied', r) = get_u64 r;
          (cs_mutations_replayed', r) = get_u64 r;
          (cs_mutations_rejected', r) = get_u64 r;
          (cs_stale_epoch_rejections', r) = get_u64 r;
          (cs_stale_incarnation_rejections', r) = get_u64 r;
          (cs_revalidations_required', r) = get_u64 r;
          (cs_ambiguous_attempts', r) = get_u64 r;
          (cs_frames_received', r) = get_u64 r;
          (cs_frames_rejected', r) = get_u64 r;
          (cs_connections_accepted', r) = get_u64 r;
          (cs_connections_lost', r) = get_u64 r;
          (cs_liveness_expirations', r) = get_u64 r;
          (cs_recoveries', r) = get_u64 r;
          (cs_durable_records', r) = get_u64 r
      in (\<lparr>cs_epoch = Counter cs_epoch', cs_coordinator_incarnation = Counter cs_coordinator_incarnation', cs_workers = cs_workers', cs_queues = cs_queues', cs_occupancy_accepted = cs_occupancy_accepted', cs_occupancy_rejected = cs_occupancy_rejected', cs_occupancy_overflow = cs_occupancy_overflow', cs_mutations_applied = cs_mutations_applied', cs_mutations_replayed = cs_mutations_replayed', cs_mutations_rejected = cs_mutations_rejected', cs_stale_epoch_rejections = cs_stale_epoch_rejections', cs_stale_incarnation_rejections = cs_stale_incarnation_rejections', cs_revalidations_required = cs_revalidations_required', cs_ambiguous_attempts = cs_ambiguous_attempts', cs_frames_received = cs_frames_received', cs_frames_rejected = cs_frames_rejected', cs_connections_accepted = cs_connections_accepted', cs_connections_lost = cs_connections_lost', cs_liveness_expirations = cs_liveness_expirations', cs_recoveries = cs_recoveries', cs_durable_records = cs_durable_records'\<rparr>, r))"

definition put_error_message :: "error_message \<Rightarrow> writer \<Rightarrow> writer" where
  "put_error_message e w =
     (let w = put_u16 (u16_of_code (em_code e)) w;
          w = put_string (em_message e) w
      in w)"

definition get_error_message :: "reader \<Rightarrow> error_message \<times> reader" where
  "get_error_message r =
     (let (em_code', r) = get_u16 r;
          (em_message', r) = get_string kMaxMessageChars r
      in (\<lparr>em_code = code_of_u16 em_code', em_message = em_message'\<rparr>, r))"

definition put_hello :: "hello \<Rightarrow> writer \<Rightarrow> writer" where
  "put_hello h w =
     (let w = put_u8 (u8_of_role (he_role h)) w;
          w = put_u64 (id_value (he_node h)) w;
          w = put_u64 (ctr_value (he_incarnation h)) w;
          w = put_u64 (boot_hi (he_boot h)) w;
          w = put_u64 (boot_lo (he_boot h)) w;
          w = put_u64 (ctr_value (he_epoch h)) w;
          w = put_string (he_name h) w
      in w)"

definition get_hello :: "reader \<Rightarrow> hello \<times> reader" where
  "get_hello r =
     (let (he_role', r) = get_u8 r;
          (he_node', r) = get_u64 r;
          (he_incarnation', r) = get_u64 r;
          (hi, r) = get_u64 r;
          (lo, r) = get_u64 r;
          (he_epoch', r) = get_u64 r;
          (he_name', r) = get_string kMaxNameChars r
      in (\<lparr>he_role = role_of_u8 he_role', he_node = Ident he_node', he_incarnation = Counter he_incarnation',
            he_boot = \<lparr>boot_hi = hi, boot_lo = lo\<rparr>, he_epoch = Counter he_epoch', he_name = he_name'\<rparr>, r))"

definition kMaxOccupancyBatch :: nat where "kMaxOccupancyBatch = 4096"

definition put_occupancy_batch :: "occupancy_sample list \<Rightarrow> writer \<Rightarrow> writer" where
  "put_occupancy_batch samples w = put_all put_occupancy samples (put_u32 (of_nat (length samples)) w)"

section \<open>Encoding and decoding\<close>

definition encode_message :: "message \<Rightarrow> nat \<Rightarrow> bytes" where
  "encode_message m max_bytes =
     (let w = new_writer max_bytes;
          w = put_u16 (u16_of_message_type (ms_type m)) w;
          w = put_u32 (ms_sequence m) w
      in case ms_type m of
           Mt_hello \<Rightarrow> take_or_empty (put_hello (ms_hello m) w)
         | Mt_hello_ack \<Rightarrow> take_or_empty (put_hello_ack (ms_hello_ack m) w)
         | Mt_heartbeat \<Rightarrow> take_or_empty (put_heartbeat (ms_heartbeat m) w)
         | Mt_occupancy_batch \<Rightarrow>
             (if length (ms_occupancy m) > kMaxOccupancyBatch then []
              else take_or_empty (put_occupancy_batch (ms_occupancy m) w))
         | Mt_mutation \<Rightarrow>
             (let encoded = encode_mutation (ms_mutation m)
              in if encoded = [] then [] else take_or_empty (put_bytes encoded w))
         | Mt_mutation_response \<Rightarrow> take_or_empty (put_mutation_response (ms_mutation_response m) w)
         | Mt_epoch_advance \<Rightarrow> take_or_empty (put_u64 (ctr_value (ms_epoch m)) w)
         | Mt_fence_notice \<Rightarrow> take_or_empty (put_fence_notice (ms_fence m) w)
         | Mt_stats_request \<Rightarrow> take_or_empty w
         | Mt_stats_response \<Rightarrow> take_or_empty (put_stats (ms_stats m) w)
         | Mt_shutdown \<Rightarrow> take_or_empty (put_string (ms_text m) w)
         | Mt_error_message \<Rightarrow> take_or_empty (put_error_message (ms_error m) w)
         | _ \<Rightarrow> [])"

text \<open>The switch of \<^verbatim>\<open>decode_message\<close>: an early return, or the message and the reader after its body.\<close>

definition decode_body :: "message \<Rightarrow> reader \<Rightarrow> message result \<times> reader" where
  "decode_body m r =
     (case ms_type m of
        Mt_hello \<Rightarrow>
          (let (h, r) = get_hello r
           in if he_role h \<noteq> Role_worker \<and> he_role h \<noteq> Role_monitor
              then (Inl (Status Code_malformed_input ''hello role is unknown''), r)
              else (Inr (m\<lparr>ms_hello := h\<rparr>), r))
      | Mt_hello_ack \<Rightarrow> (let (a, r) = get_hello_ack r in (Inr (m\<lparr>ms_hello_ack := a\<rparr>), r))
      | Mt_heartbeat \<Rightarrow> (let (h, r) = get_heartbeat r in (Inr (m\<lparr>ms_heartbeat := h\<rparr>), r))
      | Mt_occupancy_batch \<Rightarrow>
          (let (count, r) = get_u32 r
           in if rd_failed r \<or> unat count > kMaxOccupancyBatch
              then (Inl (Status Code_malformed_input ''occupancy batch count is out of range''), r)
              else (let (samples, r) = get_n get_occupancy (unat count) r in (Inr (m\<lparr>ms_occupancy := samples\<rparr>), r)))
      | Mt_mutation \<Rightarrow>
          (let (blob, r) = get_bytes kMaxFramePayloadBytes r
           in if rd_failed r then (Inl (Status Code_malformed_input ''mutation payload is truncated''), r)
              else (case decode_mutation blob of
                      Inl e \<Rightarrow> (Inl e, r)
                    | Inr request \<Rightarrow> (Inr (m\<lparr>ms_mutation := request\<rparr>), r)))
      | Mt_mutation_response \<Rightarrow> (let (p, r) = get_mutation_response r in (Inr (m\<lparr>ms_mutation_response := p\<rparr>), r))
      | Mt_epoch_advance \<Rightarrow> (let (e, r) = get_u64 r in (Inr (m\<lparr>ms_epoch := Counter e\<rparr>), r))
      | Mt_fence_notice \<Rightarrow> (let (n, r) = get_fence_notice r in (Inr (m\<lparr>ms_fence := n\<rparr>), r))
      | Mt_stats_request \<Rightarrow> (Inr m, r)
      | Mt_stats_response \<Rightarrow> (let (c, r) = get_stats r in (Inr (m\<lparr>ms_stats := c\<rparr>), r))
      | Mt_shutdown \<Rightarrow> (let (t, r) = get_string kMaxMessageChars r in (Inr (m\<lparr>ms_text := t\<rparr>), r))
      | Mt_error_message \<Rightarrow> (let (e, r) = get_error_message r in (Inr (m\<lparr>ms_error := e\<rparr>), r))
      | _ \<Rightarrow> (Inl (Status Code_unsupported ''message type is unknown''), r))"

definition decode_message :: "bytes \<Rightarrow> message result" where
  "decode_message data =
     (let r = new_reader data;
          (ty, r) = get_u16 r;
          (sequence, r) = get_u32 r
      in if rd_failed r then Inl (Status Code_malformed_input ''message header is truncated'')
         else (case decode_body (no_message\<lparr>ms_type := message_type_of_u16 ty, ms_sequence := sequence\<rparr>) r of
                 (Inl e, r) \<Rightarrow> Inl e
               | (Inr m, r) \<Rightarrow>
                   (if rd_failed r \<or> remaining r \<noteq> 0
                    then Inl (Status Code_malformed_input ''message payload is malformed'')
                    else Inr m)))"

section \<open>The bodies as codecs\<close>

lemma get_message_enc:
  "name_fits str \<Longrightarrow> get_string kMaxMessageChars (rd pre (enc_string str @ rest)) = (str, rd (pre @ enc_string str) rest)"
  using get_raw_rd [of "bytes_of_string str" "pre @ le_put 2 (of_nat (length str) :: u16)" rest]
  by (simp add: get_string_def enc_string_def u16c.get_enc name_fits_def limit_defs unat_of_nat)

interpretation messagec: codec put_string "get_string kMaxMessageChars" enc_string name_fits name_fits
  by unfold_locales (simp_all add: w_view_put_string w_limit_put_string get_message_enc)

lemma put_occupancy_eq: "put_occupancy = put_occupancy_sample"
  by (intro ext) (simp add: put_occupancy_def put_occupancy_sample_def)

lemma get_occupancy_eq: "get_occupancy = get_occupancy_sample"
  by (intro ext) (simp add: get_occupancy_def get_occupancy_sample_def)

definition enc_hello :: "hello \<Rightarrow> bytes" where
  "enc_hello h = enc_u8 (u8_of_role (he_role h)) @ le_put 8 (id_value (he_node h)) @ le_put 8 (ctr_value (he_incarnation h))
     @ le_put 8 (boot_hi (he_boot h)) @ le_put 8 (boot_lo (he_boot h)) @ le_put 8 (ctr_value (he_epoch h)) @ enc_string (he_name h)"

definition rt_hello :: "hello \<Rightarrow> bool" where
  "rt_hello h \<longleftrightarrow> (he_role h = Role_worker \<or> he_role h = Role_monitor) \<and> name_fits (he_name h)"

lemma get_hello_enc: "rt_hello h \<Longrightarrow> get_hello (rd pre (enc_hello h @ rest)) = (h, rd (pre @ enc_hello h) rest)"
  by (cases h, cases "he_boot h") (auto simp: get_hello_def enc_hello_def rt_hello_def Let_def scalar_get role_of_u8_def)

interpretation helloc: codec put_hello get_hello enc_hello "\<lambda>h. name_fits (he_name h)" rt_hello
  by (unfold_locales; (erule get_hello_enc | auto simp: put_hello_def enc_hello_def Let_def scalar_put rt_hello_def))

definition enc_hello_ack :: "hello_ack \<Rightarrow> bytes" where
  "enc_hello_ack a = enc_bool (ha_accepted a)
     @ le_put 2 (u16_of_code (ha_code a))
     @ enc_string (ha_message a)
     @ le_put 8 (ctr_value (ha_coordinator_epoch a))
     @ le_put 8 (ctr_value (ha_coordinator_incarnation a))"

definition rt_hello_ack :: "hello_ack \<Rightarrow> bool" where
  "rt_hello_ack a \<longleftrightarrow> code_canonical (ha_code a) \<and> name_fits (ha_message a)"

lemma get_hello_ack_enc: "rt_hello_ack a \<Longrightarrow> get_hello_ack (rd pre (enc_hello_ack a @ rest)) = (a, rd (pre @ enc_hello_ack a) rest)"
  by (cases a) (simp add: get_hello_ack_def enc_hello_ack_def rt_hello_ack_def Let_def scalar_get messagec.get_enc attemptc.get_enc canonical_defs)

interpretation hello_ackc: codec put_hello_ack get_hello_ack enc_hello_ack "\<lambda>a. name_fits (ha_message a)" rt_hello_ack
  by (unfold_locales; (erule get_hello_ack_enc | auto simp: put_hello_ack_def enc_hello_ack_def Let_def scalar_put attemptc.put_limit
       attemptc.put_view rt_hello_ack_def reason_name))

definition enc_heartbeat :: "heartbeat \<Rightarrow> bytes" where
  "enc_heartbeat h = le_put 8 (ctr_value (hb_sequence h))
     @ le_put 8 (ctr_value (hb_epoch h))"

lemma get_heartbeat_enc: "get_heartbeat (rd pre (enc_heartbeat h @ rest)) = (h, rd (pre @ enc_heartbeat h) rest)"
  by (cases h) (simp add: get_heartbeat_def enc_heartbeat_def  Let_def scalar_get messagec.get_enc attemptc.get_enc canonical_defs)

interpretation heartbeatc: codec put_heartbeat get_heartbeat enc_heartbeat "\<lambda>_. True" "\<lambda>_. True"
  by (unfold_locales; (rule get_heartbeat_enc | auto simp: put_heartbeat_def enc_heartbeat_def Let_def scalar_put attemptc.put_limit
       attemptc.put_view  reason_name))

definition enc_mutation_response :: "mutation_response \<Rightarrow> bytes" where
  "enc_mutation_response m = enc_attempt (mp_attempt m)
     @ le_put 8 (id_value (mp_queue m))
     @ le_put 2 (u16_of_code (mp_code m))
     @ enc_string (mp_message m)
     @ le_put 8 (ctr_value (mp_generation m))
     @ enc_bool (mp_replayed m)"

definition rt_mutation_response :: "mutation_response \<Rightarrow> bool" where
  "rt_mutation_response m \<longleftrightarrow> code_canonical (mp_code m) \<and> name_fits (mp_message m)"

lemma get_mutation_response_enc: "rt_mutation_response m \<Longrightarrow> get_mutation_response (rd pre (enc_mutation_response m @ rest)) = (m, rd (pre @ enc_mutation_response m) rest)"
  by (cases m) (simp add: get_mutation_response_def enc_mutation_response_def rt_mutation_response_def Let_def scalar_get messagec.get_enc attemptc.get_enc canonical_defs)

interpretation mutation_responsec: codec put_mutation_response get_mutation_response enc_mutation_response "\<lambda>m. name_fits (mp_message m)" rt_mutation_response
  by (unfold_locales; (erule get_mutation_response_enc | auto simp: put_mutation_response_def enc_mutation_response_def Let_def scalar_put attemptc.put_limit
       attemptc.put_view rt_mutation_response_def reason_name))

definition enc_fence_notice :: "fence_notice \<Rightarrow> bytes" where
  "enc_fence_notice n = le_put 8 (id_value (fn_queue n))
     @ le_put 8 (ctr_value (fn_generation n))
     @ le_put 8 (fn_token n)
     @ enc_string (fn_reason n)"

definition rt_fence_notice :: "fence_notice \<Rightarrow> bool" where
  "rt_fence_notice n \<longleftrightarrow> reason_rt (fn_reason n)"

lemma get_fence_notice_enc: "rt_fence_notice n \<Longrightarrow> get_fence_notice (rd pre (enc_fence_notice n @ rest)) = (n, rd (pre @ enc_fence_notice n) rest)"
  by (cases n) (simp add: get_fence_notice_def enc_fence_notice_def rt_fence_notice_def Let_def scalar_get messagec.get_enc attemptc.get_enc canonical_defs)

interpretation fence_noticec: codec put_fence_notice get_fence_notice enc_fence_notice "\<lambda>n. name_fits (fn_reason n)" rt_fence_notice
  by (unfold_locales; (erule get_fence_notice_enc | auto simp: put_fence_notice_def enc_fence_notice_def Let_def scalar_put attemptc.put_limit
       attemptc.put_view rt_fence_notice_def reason_name))

definition enc_stats :: "coordinator_stats \<Rightarrow> bytes" where
  "enc_stats c = le_put 8 (ctr_value (cs_epoch c))
     @ le_put 8 (ctr_value (cs_coordinator_incarnation c))
     @ le_put 8 (cs_workers c)
     @ le_put 8 (cs_queues c)
     @ le_put 8 (cs_occupancy_accepted c)
     @ le_put 8 (cs_occupancy_rejected c)
     @ le_put 8 (cs_occupancy_overflow c)
     @ le_put 8 (cs_mutations_applied c)
     @ le_put 8 (cs_mutations_replayed c)
     @ le_put 8 (cs_mutations_rejected c)
     @ le_put 8 (cs_stale_epoch_rejections c)
     @ le_put 8 (cs_stale_incarnation_rejections c)
     @ le_put 8 (cs_revalidations_required c)
     @ le_put 8 (cs_ambiguous_attempts c)
     @ le_put 8 (cs_frames_received c)
     @ le_put 8 (cs_frames_rejected c)
     @ le_put 8 (cs_connections_accepted c)
     @ le_put 8 (cs_connections_lost c)
     @ le_put 8 (cs_liveness_expirations c)
     @ le_put 8 (cs_recoveries c)
     @ le_put 8 (cs_durable_records c)"

lemma get_stats_enc: "get_stats (rd pre (enc_stats c @ rest)) = (c, rd (pre @ enc_stats c) rest)"
  by (cases c) (simp add: get_stats_def enc_stats_def  Let_def scalar_get messagec.get_enc attemptc.get_enc canonical_defs)

interpretation statsc: codec put_stats get_stats enc_stats "\<lambda>_. True" "\<lambda>_. True"
  by (unfold_locales; (rule get_stats_enc | auto simp: put_stats_def enc_stats_def Let_def scalar_put attemptc.put_limit
       attemptc.put_view  reason_name))

definition enc_error_message :: "error_message \<Rightarrow> bytes" where
  "enc_error_message e = le_put 2 (u16_of_code (em_code e))
     @ enc_string (em_message e)"

definition rt_error_message :: "error_message \<Rightarrow> bool" where
  "rt_error_message e \<longleftrightarrow> code_canonical (em_code e) \<and> name_fits (em_message e)"

lemma get_error_message_enc: "rt_error_message e \<Longrightarrow> get_error_message (rd pre (enc_error_message e @ rest)) = (e, rd (pre @ enc_error_message e) rest)"
  by (cases e) (simp add: get_error_message_def enc_error_message_def rt_error_message_def Let_def scalar_get messagec.get_enc attemptc.get_enc canonical_defs)

interpretation error_messagec: codec put_error_message get_error_message enc_error_message "\<lambda>e. name_fits (em_message e)" rt_error_message
  by (unfold_locales; (erule get_error_message_enc | auto simp: put_error_message_def enc_error_message_def Let_def scalar_put attemptc.put_limit
       attemptc.put_view rt_error_message_def reason_name))

section \<open>The round trip\<close>

context codec
begin

text \<open>A body behind the message header.\<close>

lemma headed:
  "take_or_empty (put x (put_u32 s (put_u16 t (new_writer n)))) =
     (if fits x \<and> 6 + length (enc x) \<le> n then le_put 2 t @ le_put 4 s @ enc x else [])"
  by (simp add: take_or_empty_view put_view u32c.put_view u32c.put_limit u16c.put_view u16c.put_limit) (simp add: w_app_start)

lemma get_end: "rt x \<Longrightarrow> get (rd pre (enc x)) = (x, rd (pre @ enc x) [])"
  using get_enc [of x pre "[]"] by simp

end

lemma get_bytes_end:
  assumes "length bs \<le> n" "n \<le> kMaxFramePayloadBytes"
  shows "get_bytes n (rd pre (le_put 4 (of_nat (length bs) :: u32) @ bs)) = (bs, rd (pre @ le_put 4 (of_nat (length bs) :: u32) @ bs) [])"
proof -
  have "unat (of_nat (length bs) :: u32) = length bs"
    using assms by (simp add: unat_of_nat take_bit_nat_eq_self kMaxFramePayloadBytes_def)
  then show ?thesis
    using assms(1) get_raw_rd [of bs "pre @ le_put 4 (of_nat (length bs) :: u32)" "[]"]
    by (simp add: get_bytes_def u32c.get_enc)
qed

definition enc_body :: "message \<Rightarrow> bytes" where
  "enc_body m =
     (case ms_type m of
        Mt_hello \<Rightarrow> enc_hello (ms_hello m)
      | Mt_hello_ack \<Rightarrow> enc_hello_ack (ms_hello_ack m)
      | Mt_heartbeat \<Rightarrow> enc_heartbeat (ms_heartbeat m)
      | Mt_occupancy_batch \<Rightarrow> le_put 4 (of_nat (length (ms_occupancy m)) :: u32) @ concat (map enc_occupancy_sample (ms_occupancy m))
      | Mt_mutation \<Rightarrow> le_put 4 (of_nat (length (enc_mutation (ms_mutation m))) :: u32) @ enc_mutation (ms_mutation m)
      | Mt_mutation_response \<Rightarrow> enc_mutation_response (ms_mutation_response m)
      | Mt_epoch_advance \<Rightarrow> le_put 8 (ctr_value (ms_epoch m))
      | Mt_fence_notice \<Rightarrow> enc_fence_notice (ms_fence m)
      | Mt_stats_response \<Rightarrow> enc_stats (ms_stats m)
      | Mt_shutdown \<Rightarrow> enc_string (ms_text m)
      | Mt_error_message \<Rightarrow> enc_error_message (ms_error m)
      | _ \<Rightarrow> [])"

text \<open>The messages that have an encoding the peer accepts.\<close>

definition rt_message :: "message \<Rightarrow> bool" where
  "rt_message m \<longleftrightarrow>
     (case ms_type m of
        Mt_hello \<Rightarrow> rt_hello (ms_hello m)
      | Mt_hello_ack \<Rightarrow> rt_hello_ack (ms_hello_ack m)
      | Mt_heartbeat \<Rightarrow> True
      | Mt_occupancy_batch \<Rightarrow> length (ms_occupancy m) \<le> kMaxOccupancyBatch \<and> (\<forall>s\<in>set (ms_occupancy m). rt_occupancy_sample s)
      | Mt_mutation \<Rightarrow> rt_mutation (ms_mutation m)
      | Mt_mutation_response \<Rightarrow> rt_mutation_response (ms_mutation_response m)
      | Mt_epoch_advance \<Rightarrow> True
      | Mt_fence_notice \<Rightarrow> rt_fence_notice (ms_fence m)
      | Mt_stats_request \<Rightarrow> True
      | Mt_stats_response \<Rightarrow> True
      | Mt_shutdown \<Rightarrow> name_fits (ms_text m)
      | Mt_error_message \<Rightarrow> rt_error_message (ms_error m)
      | _ \<Rightarrow> False)"

text \<open>What is on the wire of a message: its header and the body its type names.\<close>

definition body_only :: "message \<Rightarrow> message" where
  "body_only m =
     (let h = no_message\<lparr>ms_type := ms_type m, ms_sequence := ms_sequence m\<rparr>
      in case ms_type m of
           Mt_hello \<Rightarrow> h\<lparr>ms_hello := ms_hello m\<rparr>
         | Mt_hello_ack \<Rightarrow> h\<lparr>ms_hello_ack := ms_hello_ack m\<rparr>
         | Mt_heartbeat \<Rightarrow> h\<lparr>ms_heartbeat := ms_heartbeat m\<rparr>
         | Mt_occupancy_batch \<Rightarrow> h\<lparr>ms_occupancy := ms_occupancy m\<rparr>
         | Mt_mutation \<Rightarrow> h\<lparr>ms_mutation := ms_mutation m\<rparr>
         | Mt_mutation_response \<Rightarrow> h\<lparr>ms_mutation_response := ms_mutation_response m\<rparr>
         | Mt_epoch_advance \<Rightarrow> h\<lparr>ms_epoch := ms_epoch m\<rparr>
         | Mt_fence_notice \<Rightarrow> h\<lparr>ms_fence := ms_fence m\<rparr>
         | Mt_stats_response \<Rightarrow> h\<lparr>ms_stats := ms_stats m\<rparr>
         | Mt_shutdown \<Rightarrow> h\<lparr>ms_text := ms_text m\<rparr>
         | Mt_error_message \<Rightarrow> h\<lparr>ms_error := ms_error m\<rparr>
         | _ \<Rightarrow> h)"

lemma length_enc_samples [simp]: "length (concat (map enc_occupancy_sample ss)) = 112 * length ss"
  by (rule length_concat_const) (simp add: enc_occupancy_sample_def enc_provenance_def)

lemma length_enc_string: "name_fits str \<Longrightarrow> length (enc_string str) \<le> 130"
  by (simp add: enc_string_def name_fits_def kMaxNameChars_def)

lemma length_enc_body: "rt_message m \<Longrightarrow> length (enc_body m) \<le> 458756"
  using length_enc_string [of "he_name (ms_hello m)"] length_enc_string [of "ha_message (ms_hello_ack m)"]
    length_enc_string [of "mp_message (ms_mutation_response m)"] length_enc_string [of "fn_reason (ms_fence m)"]
    length_enc_string [of "ms_text m"] length_enc_string [of "em_message (ms_error m)"]
    length_enc_mutation [of "ms_mutation m"] rt_payload_fits [of "mr_payload (ms_mutation m)"]
  by (cases "ms_type m")
     (simp_all add: enc_body_def rt_message_def enc_hello_def rt_hello_def enc_hello_ack_def rt_hello_ack_def enc_heartbeat_def
      enc_mutation_response_def rt_mutation_response_def enc_fence_notice_def rt_fence_notice_def enc_stats_def
      enc_error_message_def rt_error_message_def kMaxOccupancyBatch_def reason_name rt_mutation_def enc_attempt_def)

text \<open>The encoding of a message.\<close>

definition message_bytes :: "message \<Rightarrow> bytes" where
  "message_bytes m = le_put 2 (u16_of_message_type (ms_type m)) @ le_put 4 (ms_sequence m) @ enc_body m"

lemma put_batch_headed:
  assumes "length ss \<le> kMaxOccupancyBatch"
  shows "take_or_empty (put_occupancy_batch ss (put_u32 s (put_u16 t (new_writer n)))) =
    (let enc = le_put 4 (of_nat (length ss) :: u32) @ concat (map enc_occupancy_sample ss)
     in if 6 + length enc \<le> n then le_put 2 t @ le_put 4 s @ enc else [])"
proof -
  let ?w = "put_u32 (of_nat (length ss)) (put_u32 s (put_u16 t (new_writer n)))"
  have "w_view ?w = w_app (w_limit ?w) (Some []) (le_put 2 t @ le_put 4 s @ le_put 4 (of_nat (length ss) :: u32))"
    by (simp add: u32c.put_view u32c.put_limit u16c.put_view u16c.put_limit)
  from occupancy_samplec.put_seq_view [OF this, of ss]
  have "w_view (put_all put_occupancy ss ?w) =
      w_app n (Some []) (le_put 2 t @ le_put 4 s @ le_put 4 (of_nat (length ss) :: u32) @ concat (map enc_occupancy_sample ss))"
    by (simp add: put_occupancy_eq u32c.put_limit u16c.put_limit)
  then show ?thesis
    by (simp add: put_occupancy_batch_def take_or_empty_view w_app_start Let_def)
qed

lemma put_bytes_headed:
  "take_or_empty (put_bytes bs (put_u32 s (put_u16 t (new_writer n)))) =
    (if 10 + length bs \<le> n then le_put 2 t @ le_put 4 s @ le_put 4 (of_nat (length bs) :: u32) @ bs else [])"
  by (simp add: put_bytes_def take_or_empty_view u32c.put_view u32c.put_limit u16c.put_view u16c.put_limit) (simp add: w_app_start)

lemma stats_request_headed:
  "take_or_empty (put_u32 s (put_u16 t (new_writer n))) = (if 6 \<le> n then le_put 2 t @ le_put 4 s else [])"
  by (simp add: take_or_empty_view u32c.put_view u32c.put_limit u16c.put_view u16c.put_limit) (simp add: w_app_start)

lemma encode_message_layout:
  assumes "rt_message m" "length (message_bytes m) \<le> n"
  shows "encode_message m n = message_bytes m"
proof -
  have nonempty: "enc_mutation (ms_mutation m) \<noteq> []"
    by (auto simp: enc_mutation_def enc_attempt_def dest: arg_cong [where f = length])
  show ?thesis
    using assms rt_payload_fits [of "mr_payload (ms_mutation m)"] nonempty
    by (cases "ms_type m")
       (simp_all add: encode_message_def message_bytes_def enc_body_def rt_message_def Let_def
        helloc.headed hello_ackc.headed heartbeatc.headed mutation_responsec.headed fence_noticec.headed statsc.headed
        error_messagec.headed u64c.headed strc.headed put_batch_headed put_bytes_headed stats_request_headed
        rt_hello_def rt_hello_ack_def rt_mutation_response_def rt_fence_notice_def rt_error_message_def
        reason_name encode_mutation_eq rt_mutation_def)
qed

lemma message_type_canonical: "rt_message m \<Longrightarrow> message_type_of_u16 (u16_of_message_type (ms_type m)) = ms_type m"
  by (cases "ms_type m") (simp_all add: rt_message_def message_type_of_u16_def)

lemma get_samples_end:
  "\<forall>s\<in>set ss. rt_occupancy_sample s \<Longrightarrow>
   get_n get_occupancy (length ss) (rd pre (concat (map enc_occupancy_sample ss))) = (ss, rd (pre @ concat (map enc_occupancy_sample ss)) [])"
  using occupancy_samplec.get_n_enc [of ss pre "[]"] by (simp add: get_occupancy_eq)

lemma unat_batch: "length ss \<le> kMaxOccupancyBatch \<Longrightarrow> unat (of_nat (length ss) :: u32) = length ss"
  by (simp add: unat_of_nat take_bit_nat_eq_self kMaxOccupancyBatch_def)

lemma decode_body_enc:
  assumes "rt_message m"
  shows "\<exists>pre'. decode_body (no_message\<lparr>ms_type := ms_type m, ms_sequence := ms_sequence m\<rparr>) (rd pre (enc_body m))
    = (Inr (body_only m), rd pre' [])"
proof -
  have mut: "length (enc_mutation (ms_mutation m)) \<le> kMaxFramePayloadBytes" if "rt_mutation (ms_mutation m)"
    using that length_enc_mutation [of "ms_mutation m"] rt_payload_fits [of "mr_payload (ms_mutation m)"]
    by (simp add: rt_mutation_def kMaxFramePayloadBytes_def)
  show ?thesis
    using assms mut
    by (cases "ms_type m")
       (simp_all add: rt_message_def decode_body_def enc_body_def body_only_def Let_def helloc.get_end hello_ackc.get_end
        heartbeatc.get_end mutation_responsec.get_end fence_noticec.get_end statsc.get_end error_messagec.get_end u64c.get_end
        messagec.get_end u32c.get_enc get_samples_end unat_batch get_bytes_end decode_enc_mutation, auto simp: rt_hello_def)
qed

theorem decode_encode_message:
  assumes "rt_message m" "length (message_bytes m) \<le> n"
  shows "decode_message (encode_message m n) = Inr (body_only m)"
proof -
  let ?h = "le_put 2 (u16_of_message_type (ms_type m)) @ le_put 4 (ms_sequence m)"
  obtain pre' where body: "decode_body (no_message\<lparr>ms_type := ms_type m, ms_sequence := ms_sequence m\<rparr>) (rd ?h (enc_body m))
      = (Inr (body_only m), rd pre' [])"
    using decode_body_enc [OF assms(1), of ?h] by blast
  show ?thesis
    unfolding encode_message_layout [OF assms] message_bytes_def decode_message_def
    using body by (simp add: new_reader_rd Let_def u16c.get_enc u32c.get_enc message_type_canonical [OF assms(1)])
qed

section \<open>Messages on the wire\<close>

text \<open>\<^verbatim>\<open>send_message\<close> of the coordinator and \<^verbatim>\<open>WorkerClient::Impl::send\<close> build the same frame.\<close>

definition message_frame :: "message \<Rightarrow> frame" where
  "message_frame m = \<lparr>fr_type = u16_of_message_type (ms_type m), fr_sequence = ms_sequence m,
     fr_payload = encode_message m kMaxFramePayloadBytes\<rparr>"

definition wire_bytes :: "message \<Rightarrow> bytes" where
  "wire_bytes m = encode_frame (message_frame m) kMaxFramePayloadBytes"

lemma length_message_bytes: "rt_message m \<Longrightarrow> length (message_bytes m) \<le> 458762"
  using length_enc_body [of m] by (simp add: message_bytes_def)

lemma message_frame_payload: "rt_message m \<Longrightarrow> fr_payload (message_frame m) = message_bytes m"
  using length_message_bytes [of m] by (simp add: message_frame_def encode_message_layout kMaxFramePayloadBytes_def)

lemma wire_bytes_eq: "rt_message m \<Longrightarrow> wire_bytes m = frame_bytes (message_frame m)"
  using length_message_bytes [of m]
  by (simp add: wire_bytes_def encode_frame_layout frame_fits_def message_frame_payload kMaxFramePayloadBytes_def)

text \<open>A receiver that reads at most 64 KiB at a time takes every stream of messages apart, however it is cut.\<close>

theorem wire_stream:
  assumes "list_all rt_message ms" "concat chunks = concat (map wire_bytes ms)" "list_all (\<lambda>c. length c \<le> 65536) chunks"
  shows "\<exists>d. fd_feed chunks (new_decoder kMaxFramePayloadBytes) = (map message_frame ms, d) \<and> \<not> fd_failed d \<and> fd_buffer d = []"
proof -
  let ?n = kMaxFramePayloadBytes and ?fs = "map message_frame ms"
  have sizes: "\<forall>m\<in>set ms. length (fr_payload (message_frame m)) \<le> 458762"
    using assms(1) length_message_bytes by (simp add: list_all_iff message_frame_payload)
  have "map wire_bytes ms = map frame_bytes ?fs"
    using assms(1) by (simp add: list_all_iff wire_bytes_eq)
  then have stream: "[] @ concat chunks = frames_bytes ?fs"
    unfolding frames_bytes_def using assms(2) by (simp only: append_Nil)
  have fits: "list_all (frame_fits ?n) ?fs" "list_all (\<lambda>f. length (fr_payload f) + 65536 \<le> ?n + 1) ?fs"
    using sizes by (auto simp: list_all_iff frame_fits_def kMaxFramePayloadBytes_def)
  have start: "partial_frame [] ?fs" "fd_ready ?n [] (new_decoder ?n)"
    by (cases ms) (simp_all add: partial_frame_def fd_ready_def new_decoder_def)
  have "(65536 :: nat) \<le> ?n + 24"
    by (simp add: kMaxFramePayloadBytes_def)
  from fd_feed_stream [OF start(1) stream fits this assms(3) start(2)] show ?thesis
    by (auto simp: fd_ready_def)
qed

lemma decode_message_frame: "rt_message m \<Longrightarrow> decode_message (fr_payload (message_frame m)) = Inr (body_only m)"
  using decode_encode_message [of m kMaxFramePayloadBytes] length_message_bytes [of m]
  by (simp add: message_frame_def kMaxFramePayloadBytes_def)

end
