(* ===== verification/QF_DiskScenario.thy ===== *)
theory QF_DiskScenario
  imports QF_Scenario QF_Durability QF_Protocol
begin

text \<open>
  Concrete journals in files, frames and messages: the instances on which the theorems about
  durability and about the wire are exercised.
\<close>

text \<open>A journal file with a header and no record, opened on a file system that works.\<close>

definition demo_disk :: file_journal where
  "demo_disk = loaded no_boot (Counter 0) [] []
     (opened (new_file_journal (default_journal_config ''j'') (Some (journal_bytes no_boot (Counter 0) [])) (\<lambda>_. Io_ok)))"

lemma demo_disk_sound: "fj_sound demo_disk"
  by (simp add: fj_sound_def fj_holds_def demo_disk_def loaded_def opened_def new_file_journal_def default_journal_config_def
      config_usable_def journal_bytes_def kMaxJournalFileBytes_def)

lemma demo_disk_io: "io_good demo_disk"
  by (simp add: io_good_def demo_disk_def loaded_def opened_def new_file_journal_def)

text \<open>With a file system that works, a sound journal with room accepts a record.\<close>

lemma fj_append_accepts:
  assumes "fj_sound j" "io_good j" "length p \<le> jc_max_record_bytes (fj_config j)"
    and "fj_bytes_written j + 10 + length p \<le> jc_max_file_bytes (fj_config j)"
  shows "ok (fst (fj_append ty p j)) \<and> io_good (snd (fj_append ty p j))
    \<and> fj_config (snd (fj_append ty p j)) = fj_config j
    \<and> fj_bytes_written (snd (fj_append ty p j)) = fj_bytes_written j + 10 + length p"
  using assms
  by (cases "p = []") (simp_all add: fj_append_def fj_sound_def fj_holds_def io_good_def io_defs Let_def kRecordPrefixBytes_def)

lemma fj_sync_accepts: "fj_sound j \<Longrightarrow> io_good j \<Longrightarrow> ok (fst (fj_sync j))"
  by (simp add: fj_sync_def fj_sound_def fj_holds_def io_good_def sync_stream_def io_ok_def io_call_def)

lemma demo_disk_ready:
  assumes "fits_payload p"
  shows "journal_ready file_ops (demo_request k p) (demo_fabric (Some demo_disk) q)"
proof -
  let ?e = "encode_mutation (demo_request k p)"
  have enc: "?e \<noteq> []" "length ?e \<le> 500"
    using assms length_enc_mutation [of "demo_request k p"] enc_mutation_nonempty by (simp_all add: encode_mutation_eq)
  have cfg: "jc_max_record_bytes (fj_config demo_disk) = 2 ^ 20" "jc_max_file_bytes (fj_config demo_disk) = 2 ^ 32"
      "fj_bytes_written demo_disk = 40"
    by (simp_all add: demo_disk_def loaded_def opened_def new_file_journal_def default_journal_config_def limit_defs
        kMaxJournalFileBytes_def journal_bytes_def)
  let ?j1 = "snd (fj_append Jr_begin_attempt ?e demo_disk)"
  let ?j2 = "snd (fj_append Jr_commit_mutation ?e ?j1)"
  have plain: "plain_type Jr_begin_attempt" "plain_type Jr_commit_mutation"
    by (simp_all add: plain_type_def journal_record_type_of_u16_def)
  have a1: "ok (fst (fj_append Jr_begin_attempt ?e demo_disk))" "io_good ?j1" "fj_config ?j1 = fj_config demo_disk"
      "fj_bytes_written ?j1 = 50 + length ?e"
    using fj_append_accepts [OF demo_disk_sound demo_disk_io, of ?e Jr_begin_attempt] enc(2) by (simp_all add: cfg)
  then have s1: "fj_sound ?j1"
    using fj_append_cases [OF prod.collapse [symmetric] demo_disk_sound plain(1), of ?e] by simp
  have a2: "ok (fst (fj_append Jr_commit_mutation ?e ?j1))" "io_good ?j2"
    using fj_append_accepts [OF s1 a1(2), of ?e Jr_commit_mutation] enc(2) by (simp_all add: a1(3,4) cfg)
  then have s2: "fj_sound ?j2"
    using fj_append_cases [OF prod.collapse [symmetric] s1 plain(2), of ?e] by simp
  show ?thesis
    using enc(1) a1(1) a2(1) fj_sync_accepts [OF s2 a2(2)]
    by (simp add: journal_ready_def journal_commit_locked_def Let_def file_ops_def split: prod.split)
       (metis fst_conv snd_conv)
qed

lemma demo_disk_quiesce:
  "\<exists>out f'. fabric_apply file_ops (demo_request Mk_quiesce_queue Pl_monostate) (demo_fabric (Some demo_disk) drained_queue) = (Inr out, f')
    \<and> \<not> mo_replayed out"
proof -
  let ?r = "demo_request Mk_quiesce_queue Pl_monostate" and ?f = "demo_fabric (Some demo_disk) drained_queue"
  have q: "qr_lifecycle drained_queue = Lc_draining" "qr_def drained_queue = demo_definition"
      "\<not> has_flag (qr_applicability drained_queue) App_fenced" "qr_memo drained_queue = []"
    by (simp_all add: drained_queue_def new_queue_record_def flag_none)
  obtain st rule evs t g where k: "apply_kind_locked drained_queue ?r (fst (monotonic_now ?f)) ?f = (st, rule, evs, t, g)"
    by (metis prod_cases5)
  have "ok st"
    using quiesce_exact [OF q(1), of ?r 6 ?f] drained_evidence [of "Some demo_disk"] k by (simp add: apply_kind_locked_def)
  moreover have "ok (mr_validate ?r)"
    using demo_valid [of Pl_monostate Mk_quiesce_queue] by (simp add: payload_matches_def)
  moreover have "admitted ?f drained_queue ?r"
    using q by (intro demo_admitted) simp_all
  moreover have "journal_ready file_ops ?r ?f"
    by (rule demo_disk_ready) (simp add: fits_payload_def)
  ultimately show ?thesis
    using apply_progress [of ?f ?r drained_queue st rule evs t g file_ops] k q(4) by (auto simp: find_attempt_def)
qed

lemma demo_disk_empty: "fj_records demo_disk = []"
  by (simp add: demo_disk_def loaded_def)

lemma demo_disk_accepts: "length p \<le> 1000 \<Longrightarrow> ok (fst (fj_append ty p demo_disk))"
  using fj_append_accepts [OF demo_disk_sound demo_disk_io, of p ty]
  by (simp add: demo_disk_def loaded_def opened_def new_file_journal_def default_journal_config_def limit_defs
      kMaxJournalFileBytes_def journal_bytes_def)

section \<open>Files\<close>

definition demo_record :: "bytes \<Rightarrow> journal_record" where
  "demo_record p = \<lparr>jr_type = Jr_noop, jr_payload = p\<rparr>"

definition demo_file :: "bytes \<Rightarrow> file_journal" where
  "demo_file content = new_file_journal (default_journal_config ''j'') (Some content) (\<lambda>_. Io_ok)"

lemma demo_file_facts [simp]:
  "fj_disk (demo_file c) = Some c" "io_good (demo_file c)" "config_usable (fj_config (demo_file c))"
  "jc_max_record_bytes (fj_config (demo_file c)) = kMaxJournalRecordBytes"
  "jc_max_file_bytes (fj_config (demo_file c)) = 4294967296" "fj_content (demo_file c) = c"
  "record_ok kMaxJournalRecordBytes (demo_record p) \<longleftrightarrow> length p \<le> kMaxJournalRecordBytes"
  "jr_payload (demo_record p) = p" "Suc (Suc 0) \<le> kMaxJournalRecordBytes" "Suc 0 \<le> kMaxJournalRecordBytes"
  by (simp_all add: demo_file_def new_file_journal_def default_journal_config_def io_good_def config_usable_def
      kMaxJournalFileBytes_def fj_content_def demo_record_def record_ok_def journal_record_type_of_u16_def limit_defs)

text \<open>A journal whose second record has a wrong byte; a third one follows.\<close>

definition demo_damaged :: file_journal where
  "demo_damaged = demo_file (journal_bytes no_boot (Counter 0) [demo_record [1]] @ record_head (demo_record [2, 3])
     @ le_put 4 (crc32c (record_head (demo_record [2, 3]) @ [2, 3])) @ ([2] @ [7] @ []) @ record_bytes (demo_record [9]))"

section \<open>Messages and frames\<close>

definition demo_heartbeat :: message where
  "demo_heartbeat = no_message\<lparr>ms_type := Mt_heartbeat, ms_sequence := 4,
     ms_heartbeat := \<lparr>hb_sequence = Counter 9, hb_epoch = Counter 1\<rparr>\<rparr>"

lemma demo_heartbeat_rt: "rt_message demo_heartbeat" "body_only demo_heartbeat = demo_heartbeat"
  by (simp_all add: demo_heartbeat_def rt_message_def body_only_def no_message_def Let_def)

lemma demo_heartbeat_length: "length (wire_bytes demo_heartbeat) \<le> 65536"
  by (simp add: wire_bytes_eq demo_heartbeat_rt message_frame_payload message_bytes_def)
     (simp add: enc_body_def demo_heartbeat_def enc_heartbeat_def)

definition demo_frame :: frame where
  "demo_frame = \<lparr>fr_type = 3, fr_sequence = 1, fr_payload = [1, 2, 3]\<rparr>"

definition demo_damaged_decoder :: frame_decoder where
  "demo_damaged_decoder = (new_decoder kMaxFramePayloadBytes)
     \<lparr>fd_buffer := (frame_head demo_frame @ le_put 4 (crc32c (frame_head demo_frame @ [1, 2, 3])) @ [1]) @ [7] @ [3] @ []\<rparr>"

end
