(* ===== verification/QF_Transport.thy ===== *)
theory QF_Transport
  imports QF_Bytes
begin

text \<open>
  \<^verbatim>\<open>TcpTransport\<close> of \<^verbatim>\<open>include/qf/transport.hpp\<close> and \<^verbatim>\<open>src/transport.cpp\<close>, as far as a client and a server
  see it. A socket is a record: whether its handle is valid, what was handed to the operating system, what
  there is to receive, and the outcomes of the calls of \<^verbatim>\<open>::send\<close> in their order. A call that would
  block is repeated at once and has no effect, so the sequence lists the other calls. How a transport
  comes by its handle is the matter of \<open>QF_Sockets\<close>.
\<close>

text \<open>The outcome of one \<^verbatim>\<open>::send\<close>: \<open>Tx_sent n\<close> takes one byte and up to \<open>n\<close> more of the piece offered.\<close>

datatype tx = Tx_sent nat | Tx_error

text \<open>What a socket has to offer: data (no data: the peer has closed, or the call was interrupted) or an error.\<close>

datatype rx = Rx_data bytes | Rx_error string

record transport =
  tp_open :: bool
  tp_peer :: string
  tp_out :: bytes
  tp_bytes_sent :: u64
  tp_send_outcome :: "nat \<Rightarrow> tx"
  tp_sends :: nat
  tp_error :: string
  tp_in :: "rx list"

definition closed_transport :: transport where
  "closed_transport = \<lparr>tp_open = False, tp_peer = [], tp_out = [], tp_bytes_sent = 0, tp_send_outcome = (\<lambda>_. Tx_error), tp_sends = 0,
     tp_error = [], tp_in = []\<rparr>"

section \<open>Sending\<close>

definition kSendChunk :: nat where "kSendChunk = 1048576"

text \<open>How much of the next piece (at most \<open>kSendChunk\<close> bytes) a call takes, and the socket after it.\<close>

definition tx_taken :: "nat \<Rightarrow> bytes \<Rightarrow> nat" where
  "tx_taken n data = Suc (min n (min (length data) kSendChunk - 1))"

definition tp_took :: "nat \<Rightarrow> bytes \<Rightarrow> transport \<Rightarrow> transport" where
  "tp_took sent data t = t\<lparr>tp_out := tp_out t @ take sent data, tp_bytes_sent := tp_bytes_sent t + of_nat sent,
     tp_sends := tp_sends t + 1\<rparr>"

function tp_send_loop :: "bytes \<Rightarrow> transport \<Rightarrow> status \<times> transport" where
  "tp_send_loop data t =
     (if data = [] then (success, t)
      else (case tp_send_outcome t (tp_sends t) of
              Tx_error \<Rightarrow> (Status Code_internal (tp_error t), t\<lparr>tp_sends := tp_sends t + 1\<rparr>)
            | Tx_sent n \<Rightarrow> tp_send_loop (drop (tx_taken n data) data) (tp_took (tx_taken n data) data t)))"
  by pat_completeness auto
termination
  by (relation "measure (\<lambda>(data, t). length data)") (auto simp: tx_taken_def)

declare tp_send_loop.simps [simp del]

definition tp_send :: "bytes \<Rightarrow> transport \<Rightarrow> status \<times> transport" where
  "tp_send bs t = (if \<not> tp_open t then (Status Code_internal ''transport is closed'', t) else tp_send_loop bs t)"

text \<open>Whatever the outcomes, a prefix of the data goes out, and only what belongs to the sending changes.\<close>

lemma tp_send_loop_prefix:
  "\<exists>k n b. snd (tp_send_loop data t) = t\<lparr>tp_out := tp_out t @ take k data, tp_bytes_sent := b, tp_sends := n\<rparr>"
proof (induction data t rule: tp_send_loop.induct)
  case (1 data t)
  show ?case
  proof (cases "data \<noteq> [] \<and> (\<exists>n. tp_send_outcome t (tp_sends t) = Tx_sent n)")
    case True
    then obtain n where n: "data \<noteq> []" "tp_send_outcome t (tp_sends t) = Tx_sent n"
      by blast
    define s where "s = tx_taken n data"
    obtain k m b where "snd (tp_send_loop (drop s data) (tp_took s data t)) =
        (tp_took s data t)\<lparr>tp_out := tp_out (tp_took s data t) @ take k (drop s data), tp_bytes_sent := b, tp_sends := m\<rparr>"
      using 1 [OF n] unfolding s_def by blast
    then show ?thesis
      using n by (intro exI [of _ "s + k"] exI [of _ m] exI [of _ b])
        (simp add: tp_send_loop.simps [of data t] s_def [symmetric] tp_took_def take_add)
  next
    case False
    then show ?thesis
      by (intro exI [of _ 0] exI [of _ "tp_sends (snd (tp_send_loop data t))"] exI [of _ "tp_bytes_sent t"])
         (auto simp: tp_send_loop.simps [of data t] split: tx.split)
  qed
qed

lemma tp_send_frame [simp]:
  "tp_open (snd (tp_send bs t)) = tp_open t" "tp_in (snd (tp_send bs t)) = tp_in t" "tp_send_outcome (snd (tp_send bs t)) = tp_send_outcome t"
  using tp_send_loop_prefix [of bs t] by (auto simp: tp_send_def)

text \<open>Where no call fails the loop sends everything.\<close>

definition tp_reliable :: "transport \<Rightarrow> bool" where
  "tp_reliable t \<longleftrightarrow> tp_open t \<and> (\<forall>k. tp_send_outcome t k \<noteq> Tx_error)"

lemma tp_send_loop_ok:
  assumes "\<And>k. tp_send_outcome t k \<noteq> Tx_error"
  shows "fst (tp_send_loop data t) = success \<and> tp_out (snd (tp_send_loop data t)) = tp_out t @ data
    \<and> tp_bytes_sent (snd (tp_send_loop data t)) = tp_bytes_sent t + of_nat (length data)"
  using assms
proof (induction data t rule: tp_send_loop.induct)
  case (1 data t)
  show ?case
  proof (cases "data = []")
    case False
    obtain n where n: "tp_send_outcome t (tp_sends t) = Tx_sent n"
      using 1(2) by (cases "tp_send_outcome t (tp_sends t)") auto
    define s where "s = tx_taken n data"
    have "s \<le> length data"
      using False by (cases data) (auto simp: s_def tx_taken_def)
    then have "(of_nat s :: u64) + of_nat (length data - s) = of_nat (length data)"
      by (metis le_add_diff_inverse of_nat_add)
    then show ?thesis
      using 1(1) [OF False n] 1(2) False n
      by (simp add: tp_send_loop.simps [of data t] s_def [symmetric] tp_took_def add.assoc)
  qed (simp add: tp_send_loop.simps)
qed

lemma tp_send_ok:
  assumes "tp_reliable t"
  shows "fst (tp_send bs t) = success" "tp_out (snd (tp_send bs t)) = tp_out t @ bs"
  using assms tp_send_loop_ok [of t bs] by (auto simp: tp_send_def tp_reliable_def)

section \<open>Receiving\<close>

text \<open>\<^verbatim>\<open>TcpTransport::receive\<close> into a buffer of \<open>n\<close> bytes, on what the socket has to offer.\<close>

definition tp_receive :: "nat \<Rightarrow> bool \<Rightarrow> rx list \<Rightarrow> bytes result \<times> rx list" where
  "tp_receive n is_open inbox =
     (if \<not> is_open then (Inl (Status Code_internal ''transport is closed''), inbox)
      else if n = 0 then (Inr [], inbox)
      else (case inbox of
              [] \<Rightarrow> (Inr [], [])
            | Rx_error e # xs \<Rightarrow> (Inl (Status Code_internal e), xs)
            | Rx_data bs # xs \<Rightarrow> (Inr (take n bs), if length bs \<le> n then xs else Rx_data (drop n bs) # xs)))"

definition tp_readable :: "bool \<Rightarrow> rx list \<Rightarrow> bool" where
  [simp]: "tp_readable is_open inbox \<longleftrightarrow> \<not> is_open \<or> inbox \<noteq> []"

definition tp_close :: "transport \<Rightarrow> transport" where
  [simp]: "tp_close t = t\<lparr>tp_open := False\<rparr>"

definition inbox_size :: "rx list \<Rightarrow> nat" where
  "inbox_size inbox = sum_list (map (\<lambda>r. case r of Rx_data bs \<Rightarrow> length bs + 1 | Rx_error _ \<Rightarrow> 1) inbox)"

lemma tp_receive_shrinks:
  "tp_receive n is_open inbox = (Inr bs, rest) \<Longrightarrow> bs \<noteq> [] \<Longrightarrow> inbox_size rest < inbox_size inbox"
  by (auto simp: tp_receive_def inbox_size_def split: list.splits rx.splits if_splits)

end
