(* ===== verification/QF_Coordinator.thy ===== *)
theory QF_Coordinator
  imports QF_Protocol QF_Transport QF_Reachable
begin

text \<open>
  \<^verbatim>\<open>include/qf/coordinator.hpp\<close> and \<^verbatim>\<open>src/coordinator.cpp\<close>: the server around the fabric. A
  connection is an element of the connection table; the handlers take its index where the source
  takes a reference. The sockets are those of \<open>QF_Transport\<close>. The clock readings of the server are a sequence
  of their own. The handlers return their status and the server; the service cycle is split along its
  numbered steps.
\<close>

section \<open>State\<close>

record worker_session =
  ws_id :: u64
  ws_peer :: string
  ws_role :: role
  ws_handshaken :: bool
  ws_node :: NodeId
  ws_incarnation :: Incarnation
  ws_boot :: boot_id
  ws_epoch :: Epoch
  ws_name :: string
  ws_last_activity :: nanos
  ws_frames_in :: u64
  ws_frames_out :: u64
  ws_frames_rejected :: u64
  ws_messages_handled :: u64
  ws_subscribed_queues :: nat

definition new_session :: "u64 \<Rightarrow> string \<Rightarrow> nanos \<Rightarrow> worker_session" where
  "new_session i peer now = \<lparr>ws_id = i, ws_peer = peer, ws_role = Role_monitor, ws_handshaken = False, ws_node = Ident 0,
     ws_incarnation = Counter 0, ws_boot = no_boot, ws_epoch = Counter 0, ws_name = [], ws_last_activity = now,
     ws_frames_in = 0, ws_frames_out = 0, ws_frames_rejected = 0, ws_messages_handled = 0, ws_subscribed_queues = 0\<rparr>"

record connection =
  cn_id :: u64
  cn_transport :: transport
  cn_decoder :: frame_decoder
  cn_session :: worker_session
  cn_queues :: "QueueId list"
  cn_closing :: bool

definition kMaxConnections :: nat where "kMaxConnections = 256"

definition kMaxSubscribeQueues :: nat where "kMaxSubscribeQueues = 4096"

record coordinator_config =
  cc_fabric :: fabric_config
  cc_journal_path :: string
  cc_sync_on_commit :: bool
  cc_heartbeat_deadline :: nanos
  cc_max_connections :: nat
  cc_max_frames_per_cycle :: nat
  cc_receive_buffer_bytes :: nat

record 'j coordinator =
  cd_config :: coordinator_config
  cd_clock :: "nat \<Rightarrow> nanos"
  cd_ticks :: nat
  cd_fabric :: "'j fabric"
  cd_listening :: bool
  cd_connections :: "connection list"
  cd_resource_principals :: "(ResourceId, OwnerId) umap"
  cd_stats :: coordinator_stats
  cd_next_connection_id :: u64
  cd_outbound_sequence :: u32
  cd_stopped :: bool

section \<open>Access\<close>

definition now_nanos :: "'j coordinator \<Rightarrow> nanos \<times> 'j coordinator" where
  "now_nanos c = (cd_clock c (cd_ticks c), c\<lparr>cd_ticks := cd_ticks c + 1\<rparr>)"

definition conn :: "nat \<Rightarrow> 'j coordinator \<Rightarrow> connection" where
  "conn i c = cd_connections c ! i"

definition on_conn :: "nat \<Rightarrow> (connection \<Rightarrow> connection) \<Rightarrow> 'j coordinator \<Rightarrow> 'j coordinator" where
  "on_conn i h c = c\<lparr>cd_connections := (cd_connections c)[i := h (conn i c)]\<rparr>"

definition on_session :: "nat \<Rightarrow> (worker_session \<Rightarrow> worker_session) \<Rightarrow> 'j coordinator \<Rightarrow> 'j coordinator" where
  "on_session i h = on_conn i (\<lambda>x. x\<lparr>cn_session := h (cn_session x)\<rparr>)"

definition on_stats :: "(coordinator_stats \<Rightarrow> coordinator_stats) \<Rightarrow> 'j coordinator \<Rightarrow> 'j coordinator" where
  "on_stats h c = c\<lparr>cd_stats := h (cd_stats c)\<rparr>"

definition count_frame_rejected :: "nat \<Rightarrow> 'j coordinator \<Rightarrow> 'j coordinator" where
  "count_frame_rejected i = on_session i (\<lambda>s. s\<lparr>ws_frames_rejected := ws_frames_rejected s + 1\<rparr>)"

definition count_stats_rejected :: "'j coordinator \<Rightarrow> 'j coordinator" where
  "count_stats_rejected = on_stats (\<lambda>s. s\<lparr>cs_frames_rejected := cs_frames_rejected s + 1\<rparr>)"

definition count_stale_epoch :: "'j coordinator \<Rightarrow> 'j coordinator" where
  "count_stale_epoch = on_stats (\<lambda>s. s\<lparr>cs_stale_epoch_rejections := cs_stale_epoch_rejections s + 1\<rparr>)"

section \<open>Sending\<close>

definition send_message :: "nat \<Rightarrow> message \<Rightarrow> 'j coordinator \<Rightarrow> status \<times> 'j coordinator" where
  "send_message i m c =
     (let payload = encode_message m kMaxFramePayloadBytes
      in if payload = [] then (Status Code_internal ''message could not be encoded'', c)
         else
           (let encoded = encode_frame \<lparr>fr_type = u16_of_message_type (ms_type m), fr_sequence = ms_sequence m,
                                        fr_payload = payload\<rparr> kMaxFramePayloadBytes
            in if encoded = [] then (Status Code_capacity_exceeded ''frame exceeds the configured bound'', c)
               else (case tp_send encoded (cn_transport (conn i c)) of
                       (sent, t) \<Rightarrow>
                         (let c = on_conn i (\<lambda>x. x\<lparr>cn_transport := t\<rparr>) c
                          in if ok sent
                             then (sent, on_session i (\<lambda>s. s\<lparr>ws_frames_out := ws_frames_out s + 1\<rparr>) c)
                             else (sent, c)))))"

definition next_outbound :: "'j coordinator \<Rightarrow> u32 \<times> 'j coordinator" where
  "next_outbound c = (cd_outbound_sequence c + 1, c\<lparr>cd_outbound_sequence := cd_outbound_sequence c + 1\<rparr>)"

definition reply_error :: "nat \<Rightarrow> code \<Rightarrow> string \<Rightarrow> 'j coordinator \<Rightarrow> status \<times> 'j coordinator" where
  "reply_error i code txt c =
     (case next_outbound c of
        (sequence, c) \<Rightarrow>
          send_message i (no_message\<lparr>ms_type := Mt_error_message, ms_sequence := sequence,
            ms_error := \<lparr>em_code = code, em_message = take kMaxMessageChars txt\<rparr>\<rparr>) c)"

section \<open>Principals and statistics\<close>

definition principal_for :: "QueueId \<Rightarrow> 'j coordinator \<Rightarrow> OwnerId \<times> 'j coordinator" where
  "principal_for queue c =
     (case queue_record_of (cd_fabric c) queue of
        Inl _ \<Rightarrow> (Ident 0, c)
      | Inr q \<Rightarrow>
          (case um_find (cd_resource_principals c) (qd_resource (qr_def q)) of
             Some own \<Rightarrow> (own, c)
           | None \<Rightarrow>
               (case resource_record_of (cd_fabric c) (qd_resource (qr_def q)) of
                  Inl _ \<Rightarrow> (Ident 0, c)
                | Inr res \<Rightarrow>
                    (rr_owner res,
                     c\<lparr>cd_resource_principals := um_emplace (rr_id res) (rr_owner res) (cd_resource_principals c)\<rparr>))))"

definition active_worker_count :: "'j coordinator \<Rightarrow> nat" where
  "active_worker_count c =
     length (filter (\<lambda>x. ws_handshaken (cn_session x) \<and> ws_role (cn_session x) = Role_worker) (cd_connections c))"

definition snapshot_stats :: "'j coordinator \<Rightarrow> coordinator_stats" where
  "snapshot_stats c =
     (let fabric_stats = fabric_stats_of (cd_fabric c)
      in (cd_stats c)\<lparr>cs_epoch := fb_epoch (cd_fabric c), cs_workers := of_nat (active_worker_count c),
           cs_queues := of_nat (sx_queues fabric_stats), cs_durable_records := sx_journal_records fabric_stats,
           cs_ambiguous_attempts := of_nat (rp_orphaned_begins (fb_recovery (cd_fabric c)))\<rparr>)"

section \<open>The handlers\<close>

definition refuse_hello :: "nat \<Rightarrow> message \<Rightarrow> code \<Rightarrow> string \<Rightarrow> 'j coordinator \<Rightarrow> status \<times> 'j coordinator" where
  "refuse_hello i reply code txt c =
     send_message i (reply\<lparr>ms_hello_ack := (ms_hello_ack reply)\<lparr>ha_accepted := False, ha_code := code, ha_message := txt\<rparr>\<rparr>) c"

text \<open>A session of the same node that was admitted with a later incarnation.\<close>

definition superseded_by :: "hello \<Rightarrow> connection \<Rightarrow> bool" where
  "superseded_by h x \<longleftrightarrow> ws_handshaken (cn_session x) \<and> ws_node (cn_session x) = he_node h
     \<and> he_incarnation h < ws_incarnation (cn_session x)"

definition admit_hello :: "nat \<Rightarrow> hello \<Rightarrow> message \<Rightarrow> 'j coordinator \<Rightarrow> status \<times> 'j coordinator" where
  "admit_hello i h reply c =
     (case now_nanos c of
        (now, c) \<Rightarrow>
          (let c = on_session i (\<lambda>s. s\<lparr>ws_handshaken := True, ws_role := he_role h, ws_node := he_node h,
                     ws_incarnation := he_incarnation h, ws_boot := he_boot h, ws_epoch := fb_epoch (cd_fabric c),
                     ws_name := he_name h, ws_last_activity := now\<rparr>) c
           in send_message i (reply\<lparr>ms_hello_ack := (ms_hello_ack reply)\<lparr>ha_accepted := True, ha_code := Code_ok,
                                     ha_message := ''admitted''\<rparr>\<rparr>) c))"

definition handle_hello :: "nat \<Rightarrow> message \<Rightarrow> 'j coordinator \<Rightarrow> status \<times> 'j coordinator" where
  "handle_hello i m c =
     (case next_outbound c of
        (sequence, c) \<Rightarrow>
          (let h = ms_hello m;
               epoch = fb_epoch (cd_fabric c);
               reply = no_message\<lparr>ms_type := Mt_hello_ack, ms_sequence := sequence,
                         ms_hello_ack := no_hello_ack\<lparr>ha_coordinator_epoch := epoch,
                           ha_coordinator_incarnation := cs_coordinator_incarnation (cd_stats c)\<rparr>\<rparr>
           in if \<not> id_valid (he_node h) \<or> \<not> ctr_valid (he_incarnation h) \<or> \<not> boot_valid (he_boot h)
              then refuse_hello i reply Code_malformed_input ''hello requires node, incarnation and boot identity''
                     (count_frame_rejected i c)
              else if he_role h = Role_worker \<and> \<not> ctr_valid (he_epoch h)
              then refuse_hello i reply Code_stale_epoch ''a coordinator epoch is required for admission'' (count_stale_epoch c)
              else if he_role h = Role_worker \<and> he_epoch h \<noteq> epoch
              then refuse_hello i reply Code_stale_epoch ''presented epoch is not the current coordinator epoch'' (count_stale_epoch c)
              else if list_ex (superseded_by h) (cd_connections c)
              then refuse_hello i reply Code_stale_incarnation ''publisher incarnation is superseded by an admitted session''
                     (on_stats (\<lambda>s. s\<lparr>cs_stale_incarnation_rejections := cs_stale_incarnation_rejections s + 1\<rparr>) c)
              else admit_hello i h reply c))"

text \<open>A queue that a connection has published or mutated is one whose evidence ends with the connection.\<close>

definition subscribe :: "nat \<Rightarrow> QueueId \<Rightarrow> 'j coordinator \<Rightarrow> 'j coordinator" where
  "subscribe i queue c =
     (if queue \<notin> set (cn_queues (conn i c)) \<and> length (cn_queues (conn i c)) < kMaxSubscribeQueues
      then on_conn i (\<lambda>x. x\<lparr>cn_queues := cn_queues x @ [queue]\<rparr>) c else c)"

text \<open>One round of the loop over the samples: whether the sample was accepted.\<close>

definition ingest_sample :: "'j journal_ops \<Rightarrow> nat \<Rightarrow> Epoch \<Rightarrow> occupancy_sample \<Rightarrow> 'j coordinator \<Rightarrow> bool \<times> 'j coordinator" where
  "ingest_sample J i current sample c =
     (if \<not> id_valid (os_queue sample) \<or> (ctr_valid (os_epoch sample) \<and> os_epoch sample \<noteq> current)
      then (False, if ctr_valid (os_epoch sample) \<and> os_epoch sample \<noteq> current then count_stale_epoch c else c)
      else (case principal_for (os_queue sample) c of
        (principal', c) \<Rightarrow>
          (if \<not> id_valid principal' then (False, c)
           else (case fabric_apply J (ingest_occupancy_request
                        \<lparr>mx_principal = principal', mx_provenance = os_provenance sample, mx_epoch = current\<rparr> sample)
                      (cd_fabric c) of
                   (Inr outcome, f) \<Rightarrow> (True, subscribe i (os_queue sample) (c\<lparr>cd_fabric := f\<rparr>))
                 | (Inl st, f) \<Rightarrow> (False, c\<lparr>cd_fabric := f\<rparr>)))))"

fun ingest_samples ::
  "'j journal_ops \<Rightarrow> nat \<Rightarrow> Epoch \<Rightarrow> occupancy_sample list \<Rightarrow> nat \<times> nat \<times> 'j coordinator \<Rightarrow> nat \<times> nat \<times> 'j coordinator" where
  "ingest_samples J i current [] s = s"
| "ingest_samples J i current (x # xs) (accepted, rejected, c) =
     (case ingest_sample J i current x c of
        (good, c) \<Rightarrow> ingest_samples J i current xs
                       (if good then (accepted + 1, rejected, c) else (accepted, rejected + 1, c)))"

definition handle_occupancy :: "'j journal_ops \<Rightarrow> nat \<Rightarrow> message \<Rightarrow> 'j coordinator \<Rightarrow> status \<times> 'j coordinator" where
  "handle_occupancy J i m c =
     (case ingest_samples J i (fb_epoch (cd_fabric c)) (ms_occupancy m) (0, 0, c) of
        (accepted, rejected, c) \<Rightarrow>
          (success,
           on_stats (\<lambda>s. s\<lparr>cs_occupancy_accepted := cs_occupancy_accepted s + of_nat accepted,
                           cs_occupancy_rejected := cs_occupancy_rejected s + of_nat rejected,
                           cs_revalidations_required := cs_revalidations_required s + (if rejected > 0 then 1 else 0)\<rparr>) c))"

definition handle_mutation :: "'j journal_ops \<Rightarrow> nat \<Rightarrow> message \<Rightarrow> 'j coordinator \<Rightarrow> status \<times> 'j coordinator" where
  "handle_mutation J i m c =
     (case next_outbound c of
        (sequence, c) \<Rightarrow>
          (let reply = no_message\<lparr>ms_type := Mt_mutation_response, ms_sequence := sequence,
                         ms_mutation_response := no_mutation_response\<lparr>mp_attempt := mr_attempt (ms_mutation m)\<rparr>\<rparr>
           in case fabric_apply J (ms_mutation m) (cd_fabric c) of
                (Inr out, f) \<Rightarrow>
                  (let c = on_stats (\<lambda>s. s\<lparr>cs_mutations_applied := cs_mutations_applied s + 1,
                             cs_mutations_replayed := cs_mutations_replayed s + (if mo_replayed out then 1 else 0)\<rparr>)
                             (c\<lparr>cd_fabric := f\<rparr>);
                       c = (if id_valid (mo_queue out) then subscribe i (mo_queue out) c else c)
                   in send_message i (reply\<lparr>ms_mutation_response := (ms_mutation_response reply)
                        \<lparr>mp_queue := mo_queue out, mp_code := Code_ok, mp_message := mo_rule out,
                         mp_generation := mo_generation out, mp_replayed := mo_replayed out\<rparr>\<rparr>) c)
              | (Inl st, f) \<Rightarrow>
                  send_message i (reply\<lparr>ms_mutation_response := (ms_mutation_response reply)
                        \<lparr>mp_code := st_code st, mp_message := st_message st\<rparr>\<rparr>)
                    (on_stats (\<lambda>s. s\<lparr>cs_mutations_rejected := cs_mutations_rejected s + 1\<rparr>) (c\<lparr>cd_fabric := f\<rparr>))))"

definition handle_message :: "'j journal_ops \<Rightarrow> nat \<Rightarrow> message \<Rightarrow> 'j coordinator \<Rightarrow> status \<times> 'j coordinator" where
  "handle_message J i m c =
     (case now_nanos c of
        (now, c) \<Rightarrow>
          (let c = on_session i (\<lambda>s. s\<lparr>ws_last_activity := now, ws_messages_handled := ws_messages_handled s + 1\<rparr>) c
           in if \<not> ws_handshaken (cn_session (conn i c)) \<and> ms_type m \<noteq> Mt_hello
              then reply_error i Code_authority_denied ''first message must be a hello'' (count_frame_rejected i c)
              else (case ms_type m of
                      Mt_hello \<Rightarrow> handle_hello i m c
                    | Mt_heartbeat \<Rightarrow>
                        (if ctr_valid (hb_epoch (ms_heartbeat m)) \<and> hb_epoch (ms_heartbeat m) \<noteq> fb_epoch (cd_fabric c)
                         then reply_error i Code_stale_epoch ''heartbeat epoch is superseded'' (count_stale_epoch c)
                         else (success, c))
                    | Mt_occupancy_batch \<Rightarrow> handle_occupancy J i m c
                    | Mt_mutation \<Rightarrow> handle_mutation J i m c
                    | Mt_stats_request \<Rightarrow>
                        (case next_outbound c of
                           (sequence, c) \<Rightarrow>
                             send_message i (no_message\<lparr>ms_type := Mt_stats_response, ms_sequence := sequence,
                               ms_stats := snapshot_stats c\<rparr>) c)
                    | Mt_shutdown \<Rightarrow> (success, c\<lparr>cd_stopped := True\<rparr>)
                    | _ \<Rightarrow> reply_error i Code_unsupported ''message type is not accepted from a peer''
                             (count_stats_rejected (count_frame_rejected i c)))))"

text \<open>The evidence of one queue when its publisher is gone.\<close>

definition invalidate_queue :: "string \<Rightarrow> Epoch \<Rightarrow> QueueId \<Rightarrow> 'j coordinator \<Rightarrow> 'j coordinator" where
  "invalidate_queue reason current queue c =
     (case principal_for queue c of
        (principal', c) \<Rightarrow>
          (if \<not> id_valid principal' then c
           else (case invalidate_evidence queue principal' current reason (cd_fabric c) of
                   (st, f) \<Rightarrow>
                     (let c = c\<lparr>cd_fabric := f\<rparr>
                      in if ok st
                         then on_stats (\<lambda>s. s\<lparr>cs_revalidations_required := cs_revalidations_required s + 1\<rparr>) c
                         else c))))"

definition handle_disconnect :: "nat \<Rightarrow> string \<Rightarrow> 'j coordinator \<Rightarrow> 'j coordinator" where
  "handle_disconnect i reason c =
     (if cn_closing (conn i c) then c
      else
        (let c = on_conn i (\<lambda>x. x\<lparr>cn_closing := True\<rparr>) c;
             c = on_stats (\<lambda>s. s\<lparr>cs_connections_lost := cs_connections_lost s + 1\<rparr>) c;
             current = fb_epoch (cd_fabric c);
             c = fold (invalidate_queue reason current) (cn_queues (conn i c)) c
         in on_conn i (\<lambda>x. x\<lparr>cn_transport := tp_close (cn_transport x)\<rparr>) c))"

section \<open>Receiving\<close>

text \<open>A frame that was taken from the decoder.\<close>

definition handle_frame :: "'j journal_ops \<Rightarrow> nat \<Rightarrow> frame \<Rightarrow> 'j coordinator \<Rightarrow> 'j coordinator" where
  "handle_frame J i frame c =
     (let c = on_session i (\<lambda>s. s\<lparr>ws_frames_in := ws_frames_in s + 1\<rparr>) c;
          c = on_stats (\<lambda>s. s\<lparr>cs_frames_received := cs_frames_received s + 1\<rparr>) c;
          reject = snd (reply_error i Code_malformed_input ''frame body could not be decoded''
                     (count_stats_rejected (count_frame_rejected i c)))
      in case decode_message (fr_payload frame) of
           Inl _ \<Rightarrow> reject
         | Inr m \<Rightarrow>
             (if u16_of_message_type (ms_type m) \<noteq> fr_type frame then reject
              else (case handle_message J i m c of
                      (handled, c) \<Rightarrow> if \<not> ok handled then handle_disconnect i ''message-handling-failed'' c else c)))"

text \<open>The inner loop: frames until the decoder has none, or the quota of the cycle is used up.\<close>

function service_frames :: "'j journal_ops \<Rightarrow> nat \<Rightarrow> nat \<Rightarrow> nat \<Rightarrow> 'j coordinator \<Rightarrow> nat \<times> 'j coordinator" where
  "service_frames J quota i frames c =
     (if \<not> frames < quota then (frames, c)
      else (case fd_next (cn_decoder (conn i c)) of
              (res, d) \<Rightarrow>
                (let c = on_conn i (\<lambda>x. x\<lparr>cn_decoder := d\<rparr>) c
                 in case res of
                      Inr frame \<Rightarrow> service_frames J quota i (frames + 1) (handle_frame J i frame c)
                    | Inl st \<Rightarrow>
                        (frames,
                         if st_code st \<noteq> Code_not_found
                         then handle_disconnect i ''frame-decoder-failed'' (count_stats_rejected (count_frame_rejected i c))
                         else c))))"
  by pat_completeness auto
termination
  by (relation "measure (\<lambda>(J, quota, i, frames, c). quota - frames)") auto

text \<open>The outer loop: what the socket offers, until it is drained, the connection fails or the quota is used up.\<close>

function service_input ::
  "'j journal_ops \<Rightarrow> nat \<Rightarrow> nat \<Rightarrow> nat \<Rightarrow> nat \<Rightarrow> rx list \<Rightarrow> 'j coordinator \<Rightarrow> rx list \<times> 'j coordinator" where
  "service_input J quota n i frames inbox c =
     (if \<not> (frames < quota \<and> tp_readable (tp_open (cn_transport (conn i c))) inbox) then (inbox, c)
      else (case tp_receive n (tp_open (cn_transport (conn i c))) inbox of
              (Inl st, rest) \<Rightarrow> (rest, handle_disconnect i ''transport-receive-failed'' c)
            | (Inr bs, rest) \<Rightarrow>
                (if bs = [] then (rest, handle_disconnect i ''publisher-connection-closed'' c)
                 else (case fd_push bs (cn_decoder (conn i c)) of
                         (pushed, d) \<Rightarrow>
                           (let c = on_conn i (\<lambda>x. x\<lparr>cn_decoder := d\<rparr>) c
                            in if \<not> ok pushed
                               then (rest, handle_disconnect i ''frame-buffer-bound-exceeded''
                                             (count_stats_rejected (count_frame_rejected i c)))
                               else (case service_frames J quota i frames c of
                                       (frames, c) \<Rightarrow> service_input J quota n i frames rest c))))))"
  by pat_completeness auto
termination
  by (relation "measure (\<lambda>(J, quota, n, i, frames, inbox, c). inbox_size inbox)") (auto dest: tp_receive_shrinks [OF sym])

declare service_frames.simps [simp del] service_input.simps [simp del]

definition service_connection :: "'j journal_ops \<Rightarrow> nat \<Rightarrow> 'j coordinator \<Rightarrow> 'j coordinator" where
  "service_connection J i c =
     (if \<not> tp_open (cn_transport (conn i c)) then c
      else (case service_input J (cc_max_frames_per_cycle (cd_config c)) (cc_receive_buffer_bytes (cd_config c)) i 0
                   (tp_in (cn_transport (conn i c))) c of
              (rest, c) \<Rightarrow> on_conn i (\<lambda>x. x\<lparr>cn_transport := (cn_transport x)\<lparr>tp_in := rest\<rparr>\<rparr>) c))"

section \<open>The service cycle\<close>

text \<open>Step 1. \<open>pending\<close> is the connection the listener has to offer.\<close>

definition accept_connection :: "transport option \<Rightarrow> 'j coordinator \<Rightarrow> 'j coordinator" where
  "accept_connection pending c =
     (if cd_listening c \<and> length (cd_connections c) < cc_max_connections (cd_config c)
      then (case pending of
              None \<Rightarrow> c
            | Some t \<Rightarrow>
                (let i = cd_next_connection_id c;
                     (now, c) = now_nanos c
                 in on_stats (\<lambda>s. s\<lparr>cs_connections_accepted := cs_connections_accepted s + 1\<rparr>)
                      (c\<lparr>cd_next_connection_id := i + 1,
                         cd_connections := cd_connections c @
                           [\<lparr>cn_id = i, cn_transport = t, cn_decoder = new_decoder kMaxFramePayloadBytes,
                             cn_session = new_session i (tp_peer t) now, cn_queues = [], cn_closing = False\<rparr>]\<rparr>)))
      else c)"

text \<open>Step 3.\<close>

definition expire_connection :: "nanos \<Rightarrow> nat \<Rightarrow> 'j coordinator \<Rightarrow> 'j coordinator" where
  "expire_connection now i c =
     (if \<not> tp_open (cn_transport (conn i c)) \<or> \<not> ws_handshaken (cn_session (conn i c)) then c
      else if cc_heartbeat_deadline (cd_config c) > 0
              \<and> now - ws_last_activity (cn_session (conn i c)) > cc_heartbeat_deadline (cd_config c)
      then handle_disconnect i ''publisher-liveness-expired''
             (on_stats (\<lambda>s. s\<lparr>cs_liveness_expirations := cs_liveness_expirations s + 1\<rparr>) c)
      else c)"

text \<open>Step 4.\<close>

definition reap :: "'j coordinator \<Rightarrow> 'j coordinator" where
  "reap c = c\<lparr>cd_connections := filter (\<lambda>x. tp_open (cn_transport x)) (cd_connections c)\<rparr>"

definition run_once :: "'j journal_ops \<Rightarrow> transport option \<Rightarrow> 'j coordinator \<Rightarrow> status \<times> 'j coordinator" where
  "run_once J pending c =
     (if cd_stopped c then (Status Code_shutting_down ''coordinator is stopped'', c)
      else
        (let c = accept_connection pending c;
             c = fold (service_connection J) [0..<length (cd_connections c)] c;
             (now, c) = now_nanos c;
             c = fold (expire_connection now) [0..<length (cd_connections c)] c
         in (success, reap c)))"

section \<open>Start, epoch and stop\<close>

definition coordinator_fabric_config :: "coordinator_config \<Rightarrow> fabric_config" where
  "coordinator_fabric_config config =
     (if cc_journal_path config \<noteq> [] then (cc_fabric config)\<lparr>fc_durable := True\<rparr> else cc_fabric config)"

definition new_coordinator ::
  "coordinator_config \<Rightarrow> (nat \<Rightarrow> nanos) \<Rightarrow> (nat \<Rightarrow> nanos) \<Rightarrow> 'j option \<Rightarrow> event list option \<Rightarrow> u64 \<Rightarrow> 'j coordinator" where
  "new_coordinator config clock fabric_clock journal sink seed =
     \<lparr>cd_config = config, cd_clock = clock, cd_ticks = 0,
      cd_fabric = new_fabric (coordinator_fabric_config config) fabric_clock
        (if cc_journal_path config \<noteq> [] then journal else None) sink seed,
      cd_listening = False, cd_connections = [], cd_resource_principals = um_empty, cd_stats = no_coordinator_stats,
      cd_next_connection_id = 1, cd_outbound_sequence = 0, cd_stopped = False\<rparr>"

text \<open>\<open>bound\<close> is the outcome of binding the listener.\<close>

definition server_start :: "'j journal_ops \<Rightarrow> status \<Rightarrow> 'j coordinator \<Rightarrow> status \<times> 'j coordinator" where
  "server_start J bound c =
     (let c = c\<lparr>cd_stopped := False\<rparr>
      in case recover J (cd_fabric c) of
           (recovered, f) \<Rightarrow>
             (let c = c\<lparr>cd_fabric := f\<rparr>
              in if \<not> ok recovered then (recovered, c)
                 else
                   (let c = on_stats (\<lambda>s. s\<lparr>cs_recoveries := cs_recoveries s + 1,
                              cs_coordinator_incarnation := Counter (ctr_value (fb_epoch f))\<rparr>) c
                    in if \<not> ok bound then (bound, c)
                       else (success, on_stats (\<lambda>s. s\<lparr>cs_epoch := fb_epoch f\<rparr>) (c\<lparr>cd_listening := True\<rparr>)))))"

definition coordinator_provenance :: "'j coordinator \<Rightarrow> provenance" where
  "coordinator_provenance c =
     \<lparr>pv_publisher = Ident 1, pv_node = Ident 1,
      pv_incarnation = (if ctr_valid (cs_coordinator_incarnation (cd_stats c))
                        then Counter (ctr_value (cs_coordinator_incarnation (cd_stats c))) else Counter 1),
      pv_epoch = fb_epoch (cd_fabric c), pv_sequence = Counter (ucast (cd_outbound_sequence c + 1)),
      pv_boot = fb_boot (cd_fabric c)\<rparr>"

definition send_notice :: "Epoch \<Rightarrow> nat \<Rightarrow> 'j coordinator \<Rightarrow> 'j coordinator" where
  "send_notice e i c =
     (if \<not> tp_open (cn_transport (conn i c)) then c
      else (case next_outbound c of
              (sequence, c) \<Rightarrow> snd (send_message i (no_message\<lparr>ms_type := Mt_epoch_advance, ms_sequence := sequence, ms_epoch := e\<rparr>) c)))"

text \<open>The principal is the owner of the cached resource that the iteration of the hash table yields first: entry \<open>k\<close>.\<close>

definition coordinator_advance_epoch :: "'j journal_ops \<Rightarrow> nat \<Rightarrow> 'j coordinator \<Rightarrow> Epoch result \<times> 'j coordinator" where
  "coordinator_advance_epoch J k c =
     (let cached = cd_resource_principals c;
          own = (if cached = [] then Ident 0 else snd (cached ! (k mod length cached)))
      in case advance_epoch J own (coordinator_provenance c) (cd_fabric c) of
           (Inl st, f) \<Rightarrow> (Inl st, c\<lparr>cd_fabric := f\<rparr>)
         | (Inr e, f) \<Rightarrow>
             (let c = fold (send_notice e) [0..<length (cd_connections c)] (c\<lparr>cd_fabric := f\<rparr>)
              in (Inr e, on_stats (\<lambda>s. s\<lparr>cs_epoch := e\<rparr>) c)))"

definition server_stop :: "'j coordinator \<Rightarrow> 'j coordinator" where
  "server_stop c = c\<lparr>cd_stopped := True, cd_connections := [], cd_listening := False\<rparr>"

definition server_sessions :: "'j coordinator \<Rightarrow> worker_session list" where
  "server_sessions c = map (\<lambda>x. (cn_session x)\<lparr>ws_subscribed_queues := length (cn_queues x)\<rparr>) (cd_connections c)"

definition send_to :: "u64 \<Rightarrow> message \<Rightarrow> 'j coordinator \<Rightarrow> status \<times> 'j coordinator" where
  "send_to session_id m c =
     (case find (\<lambda>i. cn_id (conn i c) = session_id) [0..<length (cd_connections c)] of
        None \<Rightarrow> (Status Code_not_found ''session is not connected'', c)
      | Some i \<Rightarrow> send_message i m c)"

section \<open>What the handlers leave alone\<close>

lemma length_connections [frame_simps]:
  "length (cd_connections (on_conn i h c)) = length (cd_connections c)"
  by (simp add: on_conn_def)

lemma fabric_access [frame_simps]:
  "cd_fabric (on_conn i h c) = cd_fabric c" "cd_fabric (on_session i g c) = cd_fabric c" "cd_fabric (on_stats k c) = cd_fabric c"
  "cd_fabric (count_frame_rejected i c) = cd_fabric c" "cd_fabric (count_stats_rejected c) = cd_fabric c"
  "cd_fabric (count_stale_epoch c) = cd_fabric c" "cd_fabric (subscribe i q c) = cd_fabric c"
  "cd_fabric (snd (now_nanos c)) = cd_fabric c" "cd_fabric (snd (next_outbound c)) = cd_fabric c"
  by (simp_all add: on_conn_def on_session_def on_stats_def count_frame_rejected_def count_stats_rejected_def
      count_stale_epoch_def subscribe_def now_nanos_def next_outbound_def)

lemma fabric_sends [frame_simps]:
  "cd_fabric (snd (send_message i m c)) = cd_fabric c" "cd_fabric (snd (reply_error i k t c)) = cd_fabric c"
  "cd_fabric (snd (refuse_hello i m k t c)) = cd_fabric c" "cd_fabric (snd (principal_for q c)) = cd_fabric c"
  by (simp_all add: send_message_def reply_error_def refuse_hello_def principal_for_def next_outbound_def Let_def frame_simps
      split: prod.split option.split sum.split)

lemma fabric_hello [frame_simps]:
  "cd_fabric (snd (admit_hello i h m c)) = cd_fabric c" "cd_fabric (snd (handle_hello i m c)) = cd_fabric c"
  by (simp_all add: admit_hello_def handle_hello_def now_nanos_def next_outbound_def Let_def frame_simps)

text \<open>The fabric of the server moves by operations of the fabric only.\<close>

abbreviation fabric_steps :: "'j journal_ops \<Rightarrow> 'j fabric \<Rightarrow> 'j fabric \<Rightarrow> bool" where
  "fabric_steps J \<equiv> (fabric_step J)\<^sup>*\<^sup>*"

lemma ingest_sample_steps: "fabric_steps J (cd_fabric c) (cd_fabric (snd (ingest_sample J i e s c)))"
proof -
  obtain own c1 where p: "principal_for (os_queue s) c = (own, c1)"
    by fastforce
  then have same: "cd_fabric c1 = cd_fabric c"
    using fabric_sends(4) [of "os_queue s" c] by simp
  let ?r = "ingest_occupancy_request \<lparr>mx_principal = own, mx_provenance = os_provenance s, mx_epoch = e\<rparr> s"
  obtain out f where a: "fabric_apply J ?r (cd_fabric c1) = (out, f)"
    by fastforce
  then have "fabric_step J (cd_fabric c) f"
    unfolding same by (rule fabric_step.by_apply)
  then show ?thesis
    using p a same by (auto simp: ingest_sample_def frame_simps split: sum.split)
qed

lemma ingest_samples_steps: "fabric_steps J (cd_fabric c) (cd_fabric (snd (snd (ingest_samples J i e xs (a, b, c)))))"
proof (induction xs arbitrary: a b c)
  case (Cons x xs)
  obtain good c1 where "ingest_sample J i e x c = (good, c1)"
    by fastforce
  then show ?case
    using ingest_sample_steps [of J c i e x] Cons.IH [of c1] by (auto intro: rtranclp_trans)
qed simp

lemma handle_occupancy_steps: "fabric_steps J (cd_fabric c) (cd_fabric (snd (handle_occupancy J i m c)))"
  using ingest_samples_steps [of J c i "fb_epoch (cd_fabric c)" "ms_occupancy m" 0 0]
  by (auto simp: handle_occupancy_def frame_simps split: prod.split)

lemma handle_mutation_steps: "fabric_steps J (cd_fabric c) (cd_fabric (snd (handle_mutation J i m c)))"
proof -
  obtain out f where a: "fabric_apply J (ms_mutation m) (cd_fabric c) = (out, f)"
    by fastforce
  have "fabric_step J (cd_fabric c) f"
    using a by (rule fabric_step.by_apply)
  then show ?thesis
    using a by (cases out) (simp_all add: handle_mutation_def next_outbound_def Let_def frame_simps r_into_rtranclp)
qed

lemma handle_message_steps: "fabric_steps J (cd_fabric c) (cd_fabric (snd (handle_message J i m c)))"
proof -
  define c1 where "c1 = on_session i (\<lambda>s. s\<lparr>ws_last_activity := cd_clock c (cd_ticks c),
    ws_messages_handled := ws_messages_handled s + 1\<rparr>) (c\<lparr>cd_ticks := Suc (cd_ticks c)\<rparr>)"
  have "cd_fabric c1 = cd_fabric c"
    by (simp add: c1_def frame_simps)
  then show ?thesis
    using handle_occupancy_steps [of J c1 i m] handle_mutation_steps [of J c1 i m]
    by (cases "ms_type m")
       (simp_all add: handle_message_def now_nanos_def Let_def c1_def [symmetric] frame_simps next_outbound_def)
qed

lemma invalidate_queue_steps: "fabric_steps J (cd_fabric c) (cd_fabric (invalidate_queue why e q c))"
proof -
  obtain own c1 where p: "principal_for q c = (own, c1)"
    by fastforce
  then have same: "cd_fabric c1 = cd_fabric c"
    using fabric_sends(4) [of q c] by simp
  obtain st f where a: "invalidate_evidence q own e why (cd_fabric c1) = (st, f)"
    by fastforce
  then have "fabric_step J (cd_fabric c) f"
    unfolding same by (rule fabric_step.by_invalidate)
  then show ?thesis
    using p a same by (simp add: invalidate_queue_def Let_def frame_simps r_into_rtranclp)
qed

lemma fold_steps:
  assumes "\<And>x c. fabric_steps J (cd_fabric c) (cd_fabric (h x c))"
  shows "fabric_steps J (cd_fabric c) (cd_fabric (fold h xs c))"
proof (induction xs arbitrary: c)
  case (Cons x xs)
  show ?case
    using assms [of c x] Cons.IH [of "h x c"] by (simp add: rtranclp_trans)
qed simp

lemma handle_disconnect_steps: "fabric_steps J (cd_fabric c) (cd_fabric (handle_disconnect i why c))"
proof -
  let ?c = "on_stats (\<lambda>s. s\<lparr>cs_connections_lost := cs_connections_lost s + 1\<rparr>) (on_conn i (\<lambda>x. x\<lparr>cn_closing := True\<rparr>) c)"
  show ?thesis
    using fold_steps [of J "invalidate_queue why (fb_epoch (cd_fabric c))" ?c "cn_queues (conn i ?c)", OF invalidate_queue_steps]
    by (simp add: handle_disconnect_def Let_def frame_simps)
qed

lemma handle_frame_steps: "fabric_steps J (cd_fabric c) (cd_fabric (handle_frame J i frame c))"
proof -
  define c1 where "c1 = on_stats (\<lambda>s. s\<lparr>cs_frames_received := cs_frames_received s + 1\<rparr>)
    (on_session i (\<lambda>s. s\<lparr>ws_frames_in := ws_frames_in s + 1\<rparr>) c)"
  have c1: "cd_fabric c1 = cd_fabric c"
    by (simp add: c1_def frame_simps)
  show ?thesis
  proof (cases "decode_message (fr_payload frame)")
    case (Inr m)
    obtain st c2 where "handle_message J i m c1 = (st, c2)"
      by fastforce
    then show ?thesis
      using handle_message_steps [of J c1 i m] handle_disconnect_steps [of J c2 i "''message-handling-failed''"] Inr c1
      by (auto simp: handle_frame_def Let_def c1_def [symmetric] frame_simps intro: rtranclp_trans)
  qed (simp add: handle_frame_def Let_def frame_simps)
qed

lemma service_frames_steps: "fabric_steps J (cd_fabric c) (cd_fabric (snd (service_frames J quota i frames c)))"
proof (induction J quota i frames c rule: service_frames.induct)
  case (1 J quota i frames c)
  obtain res d where nx: "fd_next (cn_decoder (conn i c)) = (res, d)"
    by fastforce
  show ?case
  proof (cases "frames < quota")
    case True
    let ?c = "on_conn i (\<lambda>x. x\<lparr>cn_decoder := d\<rparr>) c"
    show ?thesis
    proof (cases res)
      case (Inl st)
      then show ?thesis
        using True nx handle_disconnect_steps [of J "count_stats_rejected (count_frame_rejected i ?c)" i "''frame-decoder-failed''"]
        by (simp add: service_frames.simps [of J quota i frames c] Let_def frame_simps)
    next
      case (Inr frame)
      have "fabric_steps J (cd_fabric (handle_frame J i frame ?c)) (cd_fabric (snd (service_frames J quota i (frames + 1) (handle_frame J i frame ?c))))"
        using "1.IH" [OF _ nx [symmetric] refl, of frame] True Inr by simp
      then show ?thesis
        using True nx Inr handle_frame_steps [of J ?c i frame]
        by (simp add: service_frames.simps [of J quota i frames c] Let_def frame_simps)
    qed
  qed (simp add: service_frames.simps [of J quota i frames c])
qed


lemma service_input_steps: "fabric_steps J (cd_fabric c) (cd_fabric (snd (service_input J quota n i frames inbox c)))"
proof (induction J quota n i frames inbox c rule: service_input.induct)
  case (1 J quota n i frames inbox c)
  show ?case
  proof (cases "frames < quota \<and> (\<not> tp_open (cn_transport (conn i c)) \<or> inbox \<noteq> [])")
    case go: True
    obtain res rest where rx: "tp_receive n (tp_open (cn_transport (conn i c))) inbox = (res, rest)"
      by fastforce
    show ?thesis
    proof (cases "res = Inr [] \<or> (\<exists>st. res = Inl st)")
      case True
      then show ?thesis
        using go rx handle_disconnect_steps [of J c i] by (auto simp: service_input.simps [of J quota n i frames inbox c])
    next
      case False
      then obtain bs where bs: "res = Inr bs" "bs \<noteq> []"
        by (cases res) auto
      obtain pushed d where push: "fd_push bs (cn_decoder (conn i c)) = (pushed, d)"
        by fastforce
      let ?c = "on_conn i (\<lambda>x. x\<lparr>cn_decoder := d\<rparr>) c"
      obtain frames' c' where fr: "service_frames J quota i frames ?c = (frames', c')"
        by fastforce
      have "fabric_steps J (cd_fabric c) (cd_fabric c')"
        using service_frames_steps [of J ?c quota i frames] fr by (simp add: frame_simps)
      moreover have "fabric_steps J (cd_fabric c') (cd_fabric (snd (service_input J quota n i frames' rest c')))" if "ok pushed"
        using "1.IH" [OF _ rx [symmetric] _ _ push [symmetric] refl _ fr [symmetric]] go bs that by simp
      ultimately show ?thesis
        using go rx bs push fr
          handle_disconnect_steps [of J "count_stats_rejected (count_frame_rejected i ?c)" i "''frame-buffer-bound-exceeded''"]
        by (auto simp: service_input.simps [of J quota n i frames inbox c] Let_def frame_simps)
    qed
  qed (simp add: service_input.simps [of J quota n i frames inbox c])
qed

lemma service_connection_steps: "fabric_steps J (cd_fabric c) (cd_fabric (service_connection J i c))"
  using service_input_steps [of J c "cc_max_frames_per_cycle (cd_config c)" "cc_receive_buffer_bytes (cd_config c)" i 0
      "tp_in (cn_transport (conn i c))"]
  by (auto simp: service_connection_def frame_simps split: prod.split)

lemma expire_connection_steps: "fabric_steps J (cd_fabric c) (cd_fabric (expire_connection now i c))"
  using handle_disconnect_steps [of J "on_stats (\<lambda>s. s\<lparr>cs_liveness_expirations := cs_liveness_expirations s + 1\<rparr>) c" i
      "''publisher-liveness-expired''"]
  by (simp add: expire_connection_def frame_simps)

lemma fabric_accept [frame_simps]: "cd_fabric (accept_connection pending c) = cd_fabric c"
  by (simp add: accept_connection_def now_nanos_def Let_def frame_simps split: option.split)

lemma run_once_steps: "fabric_steps J (cd_fabric c) (cd_fabric (snd (run_once J pending c)))"
proof -
  define c1 where "c1 = accept_connection pending c"
  define c2 where "c2 = fold (service_connection J) [0..<length (cd_connections c1)] c1"
  define c3 where "c3 = snd (now_nanos c2)"
  define now where "now = fst (now_nanos c2)"
  have "fabric_steps J (cd_fabric c) (cd_fabric c2)"
    using fold_steps [of J "service_connection J" c1 "[0..<length (cd_connections c1)]", OF service_connection_steps]
    by (simp add: c2_def c1_def frame_simps)
  moreover have "fabric_steps J (cd_fabric c2) (cd_fabric (fold (expire_connection now) [0..<length (cd_connections c3)] c3))"
    using fold_steps [of J "expire_connection now" c3 "[0..<length (cd_connections c3)]", OF expire_connection_steps]
    by (simp add: c3_def frame_simps)
  ultimately have "fabric_steps J (cd_fabric c) (cd_fabric (fold (expire_connection now) [0..<length (cd_connections c3)] c3))"
    by (rule rtranclp_trans)
  then show ?thesis
    by (simp add: run_once_def Let_def split_beta reap_def c1_def c2_def c3_def now_def)
qed

lemma send_notice_steps: "fabric_steps J (cd_fabric c) (cd_fabric (send_notice e i c))"
  by (simp add: send_notice_def next_outbound_def frame_simps)

lemma coordinator_advance_epoch_steps:
  "fabric_steps J (cd_fabric c) (cd_fabric (snd (coordinator_advance_epoch J k c)))"
proof -
  let ?own = "if cd_resource_principals c = [] then Ident 0
    else snd (cd_resource_principals c ! (k mod length (cd_resource_principals c)))"
  obtain res f where a: "advance_epoch J ?own (coordinator_provenance c) (cd_fabric c) = (res, f)"
    by fastforce
  then have step: "fabric_steps J (cd_fabric c) f"
    by (intro r_into_rtranclp) (rule fabric_step.by_advance_epoch)
  show ?thesis
  proof (cases res)
    case (Inr e)
    have "fabric_steps J f (cd_fabric (fold (send_notice e) [0..<length (cd_connections c)] (c\<lparr>cd_fabric := f\<rparr>)))"
      using fold_steps [of J "send_notice e" "c\<lparr>cd_fabric := f\<rparr>", OF send_notice_steps] by simp
    then show ?thesis
      using step a Inr by (simp add: coordinator_advance_epoch_def Let_def frame_simps)
  qed (use step a in \<open>simp add: coordinator_advance_epoch_def Let_def\<close>)
qed

text \<open>So whatever holds of all reachable fabrics holds of the fabric of a running server.\<close>

lemma steps_reachable:
  assumes "fabric_steps J f f'" "reachable J config f"
  shows "reachable J config f'"
  using assms by (induction rule: rtranclp_induct) (auto intro: reachable.stepped)

end
