(* ===== verification/QF_Server.thy ===== *)
theory QF_Server
  imports QF_Coordinator
begin

text \<open>
  What holds of a running server: the invariant of its connection table, of its fabric and of the
  cached principals, kept by every handler and by the service cycle; the exact condition of
  admission; what a peer can do before it; and what the loss of a publisher does to its evidence.
\<close>

section \<open>The invariant\<close>

text \<open>
  A connection that is being closed is closed. The queues of a connection are distinct and bounded,
  its decoder is within its bound, and an admitted session carries a complete identity.
\<close>

definition session_wf :: "worker_session \<Rightarrow> bool" where
  "session_wf s \<longleftrightarrow> (ws_handshaken s \<longrightarrow> id_valid (ws_node s) \<and> ctr_valid (ws_incarnation s) \<and> boot_valid (ws_boot s)
     \<and> (ws_role s = Role_worker \<longrightarrow> ctr_valid (ws_epoch s)))"

definition conn_wf :: "connection \<Rightarrow> bool" where
  "conn_wf x \<longleftrightarrow> (cn_closing x \<longrightarrow> \<not> tp_open (cn_transport x)) \<and> distinct (cn_queues x)
     \<and> length (cn_queues x) \<le> kMaxSubscribeQueues \<and> fd_wf (cn_decoder x) \<and> session_wf (cn_session x)"

text \<open>A cached principal is the owner of the resource.\<close>

definition cache_ok :: "'j coordinator \<Rightarrow> bool" where
  "cache_ok c \<longleftrightarrow> (\<forall>k own. um_find (cd_resource_principals c) k = Some own \<longrightarrow>
     (\<exists>x. find_resource (cd_fabric c) k = Some x \<and> rr_owner x = own))"

definition server_inv :: "coordinator_config \<Rightarrow> 'j coordinator \<Rightarrow> bool" where
  "server_inv config c \<longleftrightarrow> cd_config c = config \<and> config_ok (coordinator_fabric_config config)
     \<and> fabric_wf (coordinator_fabric_config config) (cd_fabric c) \<and> authorities_current (cd_fabric c)
     \<and> cache_ok c \<and> list_all conn_wf (cd_connections c)"

lemma session_wf_counters [simp]:
  "session_wf (s\<lparr>ws_frames_in := a\<rparr>) = session_wf s" "session_wf (s\<lparr>ws_frames_out := a\<rparr>) = session_wf s"
  "session_wf (s\<lparr>ws_frames_rejected := a\<rparr>) = session_wf s" "session_wf (s\<lparr>ws_messages_handled := a\<rparr>) = session_wf s"
  "session_wf (s\<lparr>ws_last_activity := t\<rparr>) = session_wf s"
  by (simp_all add: session_wf_def)

subsection \<open>Parts of the state\<close>

lemma inv_unrelated [simp]:
  "server_inv config (on_stats h c) = server_inv config c"
  "server_inv config (count_stats_rejected c) = server_inv config c"
  "server_inv config (count_stale_epoch c) = server_inv config c"
  "server_inv config (c\<lparr>cd_ticks := n\<rparr>) = server_inv config c"
  "server_inv config (c\<lparr>cd_stopped := b\<rparr>) = server_inv config c"
  "server_inv config (c\<lparr>cd_outbound_sequence := s\<rparr>) = server_inv config c"
  "server_inv config (c\<lparr>cd_next_connection_id := i\<rparr>) = server_inv config c"
  "server_inv config (c\<lparr>cd_listening := b\<rparr>) = server_inv config c"
  by (simp_all add: server_inv_def cache_ok_def on_stats_def count_stats_rejected_def count_stale_epoch_def)

lemma conn_wf_at: "server_inv config c \<Longrightarrow> i < length (cd_connections c) \<Longrightarrow> conn_wf (conn i c)"
  by (simp add: server_inv_def conn_def list_all_length)

lemma inv_conn_at:
  assumes "server_inv config c" "i < length (cd_connections c) \<Longrightarrow> conn_wf (h (conn i c))"
  shows "server_inv config (on_conn i h c)"
  using assms
  by (cases "i < length (cd_connections c)")
     (auto simp: server_inv_def cache_ok_def on_conn_def list_all_length nth_list_update list_update_beyond)

lemma inv_conn:
  assumes "server_inv config c" "\<And>x. conn_wf x \<Longrightarrow> conn_wf (h x)"
  shows "server_inv config (on_conn i h c)"
  using assms conn_wf_at by (intro inv_conn_at) blast+

lemma inv_session:
  assumes "server_inv config c" "\<And>s. session_wf s \<Longrightarrow> session_wf (h s)"
  shows "server_inv config (on_session i h c)"
  unfolding on_session_def using assms by (intro inv_conn) (simp_all add: conn_wf_def)

lemma inv_rejected [simp]: "server_inv config c \<Longrightarrow> server_inv config (count_frame_rejected i c)"
  unfolding count_frame_rejected_def by (intro inv_session) simp_all

lemma inv_fabric:
  assumes "server_inv config c" "fabric_step J (cd_fabric c) f"
  shows "server_inv config (c\<lparr>cd_fabric := f\<rparr>)"
proof -
  have wf: "fabric_wf (coordinator_fabric_config config) (cd_fabric c)" "config_ok (coordinator_fabric_config config)" and cache: "cache_ok c"
    using assms(1) by (simp_all add: server_inv_def)
  then have um: "um_wf (fb_resources (cd_fabric c))"
    by (simp add: fabric_wf_def core_wf_def)
  note moved = fabric_step_moves [OF assms(2) um]
  have "cache_ok (c\<lparr>cd_fabric := f\<rparr>)"
    using cache resource_keeps_owner [OF moved] unfolding cache_ok_def by fastforce
  moreover have "authorities_current f"
    using authorities_stay_current [OF moved _ um] assms(1) by (simp add: server_inv_def)
  ultimately show ?thesis
    using assms fabric_step_wf [OF assms(2) wf] by (simp add: server_inv_def)
qed

lemma inv_principal:
  assumes "server_inv config c" "principal_for q c = (own, c')"
  shows "server_inv config c'"
proof -
  have wf: "core_wf (core (cd_fabric c))"
    using assms(1) by (simp add: server_inv_def fabric_wf_def)
  have same: "rr_id x = k" if "find_resource (cd_fabric c) k = Some x" for k x
    using wf that um_find_SomeD by (fastforce simp: core_wf_def resource_wf_def find_resource_def)
  show ?thesis
    using assms same
    by (auto simp: principal_for_def resource_record_of_def server_inv_def cache_ok_def um_find_emplace
        split: sum.splits option.splits if_splits)
qed

subsection \<open>The handlers keep the invariant\<close>

lemma inv_next_outbound [simp]: "server_inv config (snd (next_outbound c)) = server_inv config c"
  by (simp add: next_outbound_def)

lemma inv_send:
  assumes "server_inv config c"
  shows "server_inv config (snd (send_message i m c))"
proof -
  have "server_inv config (on_conn i (\<lambda>x. x\<lparr>cn_transport := t\<rparr>) c)" if "tp_open t = tp_open (cn_transport (conn i c))" for t
    using conn_wf_at [OF assms, of i] that by (intro inv_conn_at [OF assms]) (simp add: conn_wf_def)
  then have "server_inv config (on_conn i (\<lambda>x. x\<lparr>cn_transport := snd (tp_send bs (cn_transport (conn i c)))\<rparr>) c)" for bs
    by simp
  then show ?thesis
    using assms by (auto simp: send_message_def Let_def split_beta intro!: inv_session)
qed

lemma inv_reply: "server_inv config c \<Longrightarrow> server_inv config (snd (reply_error i k t c))"
  by (simp add: reply_error_def next_outbound_def inv_send)

lemma inv_hello:
  assumes "server_inv config c"
  shows "server_inv config (snd (handle_hello i m c))"
proof -
  let ?h = "ms_hello m"
  have refused: "server_inv config (snd (refuse_hello i r k t c'))" if "server_inv config c'" for r k t and c' :: "'a coordinator"
    using that by (simp add: refuse_hello_def inv_send)
  have admitted: "server_inv config (snd (admit_hello i ?h r c'))"
    if "server_inv config c'" "id_valid (he_node ?h)" "ctr_valid (he_incarnation ?h)" "boot_valid (he_boot ?h)"
      "he_role ?h = Role_worker \<longrightarrow> ctr_valid (fb_epoch (cd_fabric c'))" for r and c' :: "'a coordinator"
    using that unfolding admit_hello_def now_nanos_def Let_def split
    by (intro inv_send inv_session) (simp_all add: session_wf_def)
  show ?thesis
    using assms by (auto simp: handle_hello_def Let_def next_outbound_def intro!: refused admitted)
qed

lemma inv_subscribe: "server_inv config c \<Longrightarrow> server_inv config (subscribe i q c)"
  using conn_wf_at [of config c i] by (auto simp: subscribe_def conn_wf_def intro!: inv_conn_at)

lemma inv_ingest_sample:
  assumes "server_inv config c"
  shows "server_inv config (snd (ingest_sample J i e s c))"
proof -
  obtain own c1 where p: "principal_for (os_queue s) c = (own, c1)"
    by fastforce
  let ?r = "ingest_occupancy_request \<lparr>mx_principal = own, mx_provenance = os_provenance s, mx_epoch = e\<rparr> s"
  obtain out f where a: "fabric_apply J ?r (cd_fabric c1) = (out, f)"
    by fastforce
  have c1: "server_inv config c1"
    by (rule inv_principal [OF assms p])
  then have "server_inv config (c1\<lparr>cd_fabric := f\<rparr>)"
    using a by (intro inv_fabric fabric_step.by_apply)
  then show ?thesis
    using assms p a c1 by (auto simp: ingest_sample_def inv_subscribe split: sum.split)
qed

lemma inv_ingest_samples:
  "server_inv config c \<Longrightarrow> server_inv config (snd (snd (ingest_samples J i e xs (a, b, c))))"
proof (induction xs arbitrary: a b c)
  case (Cons x xs)
  obtain good c1 where "ingest_sample J i e x c = (good, c1)"
    by fastforce
  then show ?case
    using inv_ingest_sample [OF Cons.prems, of J i e x] Cons.IH by auto
qed simp

lemma inv_occupancy: "server_inv config c \<Longrightarrow> server_inv config (snd (handle_occupancy J i m c))"
  using inv_ingest_samples [of config c J i "fb_epoch (cd_fabric c)" "ms_occupancy m" 0 0]
  by (auto simp: handle_occupancy_def split: prod.split)

lemma inv_mutation:
  assumes "server_inv config c"
  shows "server_inv config (snd (handle_mutation J i m c))"
proof -
  define c1 where "c1 = snd (next_outbound c)"
  obtain out f where a: "fabric_apply J (ms_mutation m) (cd_fabric c) = (out, f)"
    by fastforce
  have "cd_fabric c1 = cd_fabric c" "server_inv config c1"
    using assms by (simp_all add: c1_def frame_simps)
  then have "server_inv config (c1\<lparr>cd_fabric := f\<rparr>)"
    using a by (intro inv_fabric) (auto intro: fabric_step.by_apply)
  then show ?thesis
    using a by (cases out) (simp_all add: handle_mutation_def next_outbound_def Let_def c1_def inv_send inv_subscribe)
qed

lemma inv_message:
  assumes "server_inv config c"
  shows "server_inv config (snd (handle_message J i m c))"
proof -
  define c1 where "c1 = on_session i (\<lambda>s. s\<lparr>ws_last_activity := cd_clock c (cd_ticks c),
    ws_messages_handled := ws_messages_handled s + 1\<rparr>) (c\<lparr>cd_ticks := Suc (cd_ticks c)\<rparr>)"
  have "server_inv config c1"
    unfolding c1_def using assms by (intro inv_session) simp_all
  then show ?thesis
    by (cases "ms_type m")
       (simp_all add: handle_message_def now_nanos_def Let_def c1_def [symmetric] next_outbound_def inv_hello inv_occupancy
          inv_mutation inv_reply inv_send)
qed

subsection \<open>Disconnection\<close>

text \<open>Invalidating evidence does not look at the connections.\<close>

lemma invalidate_on_conn:
  "invalidate_queue why e q (on_conn i h c) = on_conn i h (invalidate_queue why e q c)"
  by (auto simp: invalidate_queue_def principal_for_def on_conn_def on_stats_def conn_def Let_def split_beta
      split: sum.split option.split)

lemma fold_invalidate_on_conn:
  "fold (invalidate_queue why e) qs (on_conn i h c) = on_conn i h (fold (invalidate_queue why e) qs c)"
  by (induction qs arbitrary: c) (simp_all add: invalidate_on_conn)

definition close_conn :: "connection \<Rightarrow> connection" where
  "close_conn x = x\<lparr>cn_closing := True, cn_transport := (cn_transport x)\<lparr>tp_open := False\<rparr>\<rparr>"

lemma close_conn_eq: "(\<lambda>x. x\<lparr>cn_closing := True, cn_transport := (cn_transport x)\<lparr>tp_open := False\<rparr>\<rparr>) = close_conn"
  by (simp add: fun_eq_iff close_conn_def)

lemma conn_on_conn: "i < length (cd_connections c) \<Longrightarrow> conn i (on_conn i h c) = h (conn i c)"
  by (simp add: conn_def on_conn_def)

lemma on_conn_on_conn: "on_conn i g (on_conn i h c) = on_conn i (\<lambda>x. g (h x)) c"
  by (cases "i < length (cd_connections c)") (simp_all add: on_conn_def conn_def list_update_beyond)

lemma on_conn_on_stats: "on_conn i h (on_stats k c) = on_stats k (on_conn i h c)"
  by (simp add: on_conn_def on_stats_def conn_def)

lemma handle_disconnect_eq:
  assumes "\<not> cn_closing (conn i c)" "i < length (cd_connections c)"
  shows "handle_disconnect i why c =
    fold (invalidate_queue why (fb_epoch (cd_fabric c))) (cn_queues (conn i c))
      (on_stats (\<lambda>s. s\<lparr>cs_connections_lost := cs_connections_lost s + 1\<rparr>) (on_conn i close_conn c))"
proof -
  have q: "cn_queues (conn i (on_stats k (on_conn i (\<lambda>x. x\<lparr>cn_closing := True\<rparr>) c))) = cn_queues (conn i c)" for k
    using assms(2) by (simp add: conn_def on_conn_def on_stats_def)
  show ?thesis
    using assms
    by (simp add: handle_disconnect_def Let_def q frame_simps fold_invalidate_on_conn [symmetric] on_conn_on_stats
        on_conn_on_conn close_conn_eq)
qed

lemma inv_invalidate_queue:
  assumes "server_inv config c"
  shows "server_inv config (invalidate_queue why e q c)"
proof -
  obtain own c1 where p: "principal_for q c = (own, c1)"
    by fastforce
  obtain st f where a: "invalidate_evidence q own e why (cd_fabric c1) = (st, f)"
    by fastforce
  have c1: "server_inv config c1"
    by (rule inv_principal [OF assms p])
  then have "server_inv config (c1\<lparr>cd_fabric := f\<rparr>)"
    using a by (intro inv_fabric fabric_step.by_invalidate)
  then show ?thesis
    using p a c1 by (simp add: invalidate_queue_def Let_def)
qed

lemma fold_inv:
  assumes "\<And>x c. server_inv config c \<Longrightarrow> server_inv config (h x c)" "server_inv config c"
  shows "server_inv config (fold h xs c)"
  using assms(2) by (induction xs arbitrary: c) (simp_all add: assms(1))

lemma inv_disconnect:
  assumes "server_inv config c" "i < length (cd_connections c)"
  shows "server_inv config (handle_disconnect i why c)"
proof (cases "cn_closing (conn i c)")
  case False
  have "server_inv config (on_conn i close_conn c)"
    using assms(1) by (intro inv_conn) (simp_all add: conn_wf_def close_conn_def)
  then show ?thesis
    unfolding handle_disconnect_eq [OF False assms(2)] by (intro fold_inv inv_invalidate_queue) simp_all
qed (use assms(1) in \<open>simp add: handle_disconnect_def\<close>)

subsection \<open>The service cycle\<close>

text \<open>Only the accept and the reaping change the number of connections.\<close>

lemma lengths [frame_simps]:
  "length (cd_connections (on_session i g c)) = length (cd_connections c)"
  "length (cd_connections (on_stats k c)) = length (cd_connections c)"
  "length (cd_connections (count_frame_rejected i c)) = length (cd_connections c)"
  "length (cd_connections (count_stats_rejected c)) = length (cd_connections c)"
  "length (cd_connections (count_stale_epoch c)) = length (cd_connections c)"
  "length (cd_connections (subscribe i q c)) = length (cd_connections c)"
  "length (cd_connections (snd (now_nanos c))) = length (cd_connections c)"
  "length (cd_connections (snd (next_outbound c))) = length (cd_connections c)"
  by (simp_all add: on_session_def on_conn_def on_stats_def count_frame_rejected_def count_stats_rejected_def
      count_stale_epoch_def subscribe_def now_nanos_def next_outbound_def)

lemma lengths_sends [frame_simps]:
  "length (cd_connections (snd (send_message i m c))) = length (cd_connections c)"
  "length (cd_connections (snd (reply_error i k t c))) = length (cd_connections c)"
  "length (cd_connections (snd (refuse_hello i m k t c))) = length (cd_connections c)"
  "length (cd_connections (snd (principal_for q c))) = length (cd_connections c)"
  by (simp_all add: send_message_def reply_error_def refuse_hello_def principal_for_def next_outbound_def Let_def frame_simps
      split: prod.split option.split sum.split)

lemma lengths_hello [frame_simps]:
  "length (cd_connections (snd (handle_hello i m c))) = length (cd_connections c)"
  by (simp add: admit_hello_def handle_hello_def now_nanos_def next_outbound_def Let_def frame_simps)

lemma lengths_ingest [frame_simps]:
  "length (cd_connections (snd (ingest_sample J i e s c))) = length (cd_connections c)"
proof -
  obtain own c1 where p: "principal_for (os_queue s) c = (own, c1)"
    by fastforce
  have "length (cd_connections c1) = length (cd_connections c)"
    using lengths_sends(4) [of "os_queue s" c] p by simp
  then show ?thesis
    using p by (auto simp: ingest_sample_def frame_simps split: prod.split sum.split)
qed

lemma lengths_samples [frame_simps]:
  "length (cd_connections (snd (snd (ingest_samples J i e xs (a, b, c))))) = length (cd_connections c)"
proof (induction xs arbitrary: a b c)
  case (Cons x xs)
  obtain good c1 where "ingest_sample J i e x c = (good, c1)"
    by fastforce
  then show ?case
    using lengths_ingest [of J i e x c] Cons.IH by auto
qed simp

lemma lengths_handlers [frame_simps]:
  "length (cd_connections (snd (handle_occupancy J i m c))) = length (cd_connections c)"
  "length (cd_connections (snd (handle_mutation J i m c))) = length (cd_connections c)"
  by (simp_all add: handle_occupancy_def handle_mutation_def next_outbound_def Let_def frame_simps split_beta split: sum.split)

lemma lengths_message [frame_simps]:
  "length (cd_connections (snd (handle_message J i m c))) = length (cd_connections c)"
  by (cases "ms_type m") (simp_all add: handle_message_def now_nanos_def next_outbound_def Let_def frame_simps)

lemma lengths_invalidate [frame_simps]:
  "length (cd_connections (invalidate_queue why e q c)) = length (cd_connections c)"
  by (simp add: invalidate_queue_def Let_def frame_simps split_beta)

lemma lengths_fold:
  "(\<And>x c. length (cd_connections (h x c)) = length (cd_connections c)) \<Longrightarrow>
    length (cd_connections (fold h xs c)) = length (cd_connections c)"
  by (induction xs arbitrary: c) simp_all

lemma lengths_disconnect [frame_simps]:
  "length (cd_connections (handle_disconnect i why c)) = length (cd_connections c)"
  by (simp add: handle_disconnect_def Let_def frame_simps lengths_fold)

lemma lengths_frame [frame_simps]:
  "length (cd_connections (handle_frame J i frame c)) = length (cd_connections c)"
proof -
  have "length (cd_connections (snd p)) = n \<Longrightarrow> length (cd_connections (case p of (a, b) \<Rightarrow> if \<not> ok a then handle_disconnect i w b else b)) = n"
    for p :: "status \<times> 'a coordinator" and n w
    by (cases p) (simp add: frame_simps)
  then show ?thesis
    by (simp add: handle_frame_def Let_def frame_simps split: sum.split)
qed

lemma inv_frame:
  assumes "server_inv config c" "i < length (cd_connections c)"
  shows "server_inv config (handle_frame J i frame c)"
proof -
  define c1 where "c1 = on_stats (\<lambda>s. s\<lparr>cs_frames_received := cs_frames_received s + 1\<rparr>)
    (on_session i (\<lambda>s. s\<lparr>ws_frames_in := ws_frames_in s + 1\<rparr>) c)"
  have c1: "server_inv config c1" "length (cd_connections c1) = length (cd_connections c)"
    using assms(1) by (simp_all add: c1_def frame_simps inv_session)
  show ?thesis
  proof (cases "decode_message (fr_payload frame)")
    case (Inr m)
    obtain st c2 where "handle_message J i m c1 = (st, c2)"
      by fastforce
    then show ?thesis
      using inv_message [OF c1(1), of J i m] lengths_message [of J i m c1] assms(2) Inr c1
      by (auto simp: handle_frame_def Let_def c1_def [symmetric] inv_reply inv_disconnect)
  qed (use c1 in \<open>simp add: handle_frame_def Let_def c1_def [symmetric] inv_reply\<close>)
qed

text \<open>What the two loops of the cycle need: the invariant and the place of the connection.\<close>

definition at_conn :: "coordinator_config \<Rightarrow> nat \<Rightarrow> nat \<Rightarrow> 'j coordinator \<Rightarrow> bool" where
  "at_conn config i n c \<longleftrightarrow> server_inv config c \<and> i < n \<and> length (cd_connections c) = n"

lemma at_frame: "at_conn config i n c \<Longrightarrow> at_conn config i n (handle_frame J i frame c)"
  by (simp add: at_conn_def inv_frame frame_simps)

lemma at_disconnect: "at_conn config i n c \<Longrightarrow> at_conn config i n (handle_disconnect i why c)"
  by (simp add: at_conn_def inv_disconnect frame_simps)

lemma at_rejected: "at_conn config i n c \<Longrightarrow> at_conn config i n (count_stats_rejected (count_frame_rejected i c))"
  by (simp add: at_conn_def frame_simps)

lemma at_decoder: "at_conn config i n c \<Longrightarrow> fd_wf d \<Longrightarrow> at_conn config i n (on_conn i (\<lambda>x. x\<lparr>cn_decoder := d\<rparr>) c)"
  using inv_conn [of config c "\<lambda>x. x\<lparr>cn_decoder := d\<rparr>" i] by (simp add: at_conn_def frame_simps conn_wf_def)

lemma at_decoder_wf: "at_conn config i n c \<Longrightarrow> fd_wf (cn_decoder (conn i c))"
  using conn_wf_at [of config c i] by (simp add: at_conn_def conn_wf_def)

lemma at_service_frames:
  "at_conn config i n c \<Longrightarrow> at_conn config i n (snd (service_frames J quota i frames c))"
proof (induction J quota i frames c rule: service_frames.induct)
  case (1 J quota i frames c)
  obtain res d where nx: "fd_next (cn_decoder (conn i c)) = (res, d)"
    by fastforce
  let ?c = "on_conn i (\<lambda>x. x\<lparr>cn_decoder := d\<rparr>) c"
  have "fd_wf d"
    using fd_next_wf [OF at_decoder_wf [OF 1(2)]] nx by simp
  then have c: "at_conn config i n ?c"
    by (rule at_decoder [OF 1(2)])
  show ?case
  proof (cases "frames < quota")
    case True
    show ?thesis
    proof (cases res)
      case (Inl st)
      then show ?thesis
        using True nx c by (simp add: service_frames.simps [of J quota i frames c] Let_def at_disconnect at_rejected)
    next
      case (Inr frame)
      have "at_conn config i n (snd (service_frames J quota i (frames + 1) (handle_frame J i frame ?c)))"
        using "1.IH" [OF _ nx [symmetric] refl, of frame] True Inr at_frame [OF c] by simp
      then show ?thesis
        using True nx Inr by (simp add: service_frames.simps [of J quota i frames c] Let_def)
    qed
  qed (use 1(2) in \<open>simp add: service_frames.simps [of J quota i frames c]\<close>)
qed

lemma at_service_input:
  "at_conn config i m c \<Longrightarrow> at_conn config i m (snd (service_input J quota n i frames inbox c))"
proof (induction J quota n i frames inbox c rule: service_input.induct)
  case (1 J quota n i frames inbox c)
  show ?case
  proof (cases "frames < quota \<and> (\<not> tp_open (cn_transport (conn i c)) \<or> inbox \<noteq> [])")
    case go: True
    obtain res rest where rx: "tp_receive n (tp_open (cn_transport (conn i c))) inbox = (res, rest)"
      by fastforce
    show ?thesis
    proof (cases "res = Inr [] \<or> (\<exists>st. res = Inl st)")
      case True
      then show ?thesis
        using go rx at_disconnect [OF 1(2)] by (auto simp: service_input.simps [of J quota n i frames inbox c])
    next
      case False
      then obtain bs where bs: "res = Inr bs" "bs \<noteq> []"
        by (cases res) auto
      obtain pushed d where push: "fd_push bs (cn_decoder (conn i c)) = (pushed, d)"
        by fastforce
      let ?c = "on_conn i (\<lambda>x. x\<lparr>cn_decoder := d\<rparr>) c"
      obtain frames' c' where fr: "service_frames J quota i frames ?c = (frames', c')"
        by fastforce
      have "fd_wf d"
        using fd_push_wf [OF at_decoder_wf [OF 1(2)], of bs] push by simp
      then have c: "at_conn config i m ?c"
        by (rule at_decoder [OF 1(2)])
      then have "at_conn config i m (snd (service_input J quota n i frames' rest c'))" if "ok pushed"
        using "1.IH" [OF _ rx [symmetric] _ _ push [symmetric] refl _ fr [symmetric]] go bs that
          at_service_frames [OF c, of J quota frames] fr by simp
      then show ?thesis
        using go rx bs push fr at_disconnect [OF at_rejected [OF c]]
        by (auto simp: service_input.simps [of J quota n i frames inbox c] Let_def)
    qed
  qed (use 1(2) in \<open>simp add: service_input.simps [of J quota n i frames inbox c]\<close>)
qed

lemma at_service_connection:
  assumes "at_conn config i n c"
  shows "at_conn config i n (service_connection J i c)"
proof -
  obtain rest c' where s: "service_input J (cc_max_frames_per_cycle (cd_config c)) (cc_receive_buffer_bytes (cd_config c)) i 0
      (tp_in (cn_transport (conn i c))) c = (rest, c')"
    by fastforce
  have "at_conn config i n c'"
    using at_service_input [OF assms, of J "cc_max_frames_per_cycle (cd_config c)" "cc_receive_buffer_bytes (cd_config c)" 0
        "tp_in (cn_transport (conn i c))"] s by simp
  then have "at_conn config i n (on_conn i (\<lambda>x. x\<lparr>cn_transport := (cn_transport x)\<lparr>tp_in := rest\<rparr>\<rparr>) c')"
    using inv_conn [of config c' "\<lambda>x. x\<lparr>cn_transport := (cn_transport x)\<lparr>tp_in := rest\<rparr>\<rparr>" i]
    by (simp add: at_conn_def frame_simps conn_wf_def)
  then show ?thesis
    using assms s by (simp add: service_connection_def)
qed

lemma at_expire: "at_conn config i n c \<Longrightarrow> at_conn config i n (expire_connection now i c)"
  using at_disconnect [of config i n "on_stats (\<lambda>s. s\<lparr>cs_liveness_expirations := cs_liveness_expirations s + 1\<rparr>) c"
      "''publisher-liveness-expired''"]
  by (simp add: expire_connection_def at_conn_def frame_simps)

lemma at_fold:
  assumes "\<And>i c. at_conn config i n c \<Longrightarrow> at_conn config i n (h i c)"
    and "server_inv config c" "length (cd_connections c) = n" "\<forall>i\<in>set xs. i < n"
  shows "server_inv config (fold h xs c) \<and> length (cd_connections (fold h xs c)) = n"
  using assms(2-) 
proof (induction xs arbitrary: c)
  case (Cons x xs)
  have "at_conn config x n (h x c)"
    using assms(1) [of x c] Cons.prems by (simp add: at_conn_def)
  then show ?case
    using Cons by (simp add: at_conn_def)
qed simp

lemma inv_accept:
  assumes "server_inv config c"
  shows "server_inv config (accept_connection pending c)"
proof -
  have "conn_wf \<lparr>cn_id = i, cn_transport = t, cn_decoder = new_decoder kMaxFramePayloadBytes, cn_session = new_session i p now,
      cn_queues = [], cn_closing = False\<rparr>" for i t p now
    by (simp add: conn_wf_def new_decoder_wf new_session_def session_wf_def)
  then show ?thesis
    using assms by (auto simp: accept_connection_def now_nanos_def Let_def server_inv_def cache_ok_def on_stats_def split: option.split)
qed

lemma length_accept: "length (cd_connections c) \<le> cc_max_connections (cd_config c) \<Longrightarrow>
    length (cd_connections (accept_connection pending c)) \<le> cc_max_connections (cd_config c)"
  by (auto simp: accept_connection_def now_nanos_def Let_def on_stats_def split: option.split)

lemma inv_reap: "server_inv config c \<Longrightarrow> server_inv config (reap c)"
  by (auto simp: reap_def server_inv_def cache_ok_def list_all_iff)

text \<open>
  Between two calls, moreover, every connection of the table is open and none is being closed.
\<close>

definition all_open :: "'j coordinator \<Rightarrow> bool" where
  "all_open c \<longleftrightarrow> list_all (\<lambda>x. tp_open (cn_transport x) \<and> \<not> cn_closing x) (cd_connections c)"

theorem inv_run_once:
  assumes "server_inv config c" "length (cd_connections c) \<le> cc_max_connections (cd_config c)" "all_open c"
    and "run_once J pending c = (st, c')"
  shows "server_inv config c' \<and> length (cd_connections c') \<le> cc_max_connections (cd_config c) \<and> all_open c'"
proof (cases "cd_stopped c")
  case False
  define c1 where "c1 = accept_connection pending c"
  define c2 where "c2 = fold (service_connection J) [0..<length (cd_connections c1)] c1"
  define now where "now = cd_clock c2 (cd_ticks c2)"
  define c3 where "c3 = c2\<lparr>cd_ticks := cd_ticks c2 + 1\<rparr>"
  define c4 where "c4 = fold (expire_connection now) [0..<length (cd_connections c3)] c3"
  have c1: "server_inv config c1"
    unfolding c1_def by (rule inv_accept [OF assms(1)])
  then have c2: "server_inv config c2 \<and> length (cd_connections c2) = length (cd_connections c1)"
    unfolding c2_def by (intro at_fold at_service_connection) simp_all
  then have "server_inv config c3" "length (cd_connections c3) = length (cd_connections c1)"
    by (simp_all add: c3_def)
  then have c4: "server_inv config c4 \<and> length (cd_connections c4) = length (cd_connections c1)"
    unfolding c4_def by (intro at_fold at_expire) simp_all
  have c': "c' = reap c4"
    using assms(4) False
    by (auto simp: run_once_def now_nanos_def Let_def c1_def [symmetric] c2_def [symmetric] now_def [symmetric] c3_def c4_def)
  have "length (cd_connections c') \<le> length (cd_connections c4)"
    by (simp add: c' reap_def)
  then have "length (cd_connections c') \<le> cc_max_connections (cd_config c)"
    using length_accept [OF assms(2), of pending] c4 by (simp add: c1_def)
  moreover have "all_open c'"
    using c4 by (auto simp: c' reap_def all_open_def server_inv_def list_all_iff conn_wf_def)
  ultimately show ?thesis
    using inv_reap c4 c' by blast
qed (use assms in \<open>simp add: run_once_def\<close>)

lemma inv_start:
  assumes "server_start J bound (new_coordinator config clock fabric_clock journal sink seed) = (st, c)" "ok st"
    and "config_ok (coordinator_fabric_config config)"
    and "cc_journal_path config = [] \<or> journal = None \<or> restartable J (coordinator_fabric_config config) (the journal)"
  shows "server_inv config c"
proof -
  let ?fc = "coordinator_fabric_config config" and ?j = "if cc_journal_path config \<noteq> [] then journal else None"
  let ?f0 = "new_fabric ?fc fabric_clock ?j sink seed"
  obtain rec f where r: "recover J ?f0 = (rec, f)"
    by fastforce
  have rec: "ok rec" and cf: "cd_fabric c = f" "cd_connections c = []" "cd_resource_principals c = um_empty" "cd_config c = config"
    using assms(1,2) r by (auto simp: server_start_def new_coordinator_def Let_def on_stats_def split: if_splits)
  have none: "fb_journal ?f0 = ?j" "fb_resources ?f0 = []" "fb_queues ?f0 = []"
    by (simp_all add: new_fabric_def um_empty_def)
  have "reachable J ?fc f \<and> authorities_current f"
  proof (cases ?j)
    case None
    then have "core f = (core ?f0)\<lparr>co_epoch := Counter 1\<rparr>"
      using recover_without_journal [OF r] none(1) by simp
    then have "fb_resources f = []"
      using none(2) by (metis core_sel(3) core_state.select_convs(3) core_state.update_convs(2) core_state.surjective)
    then show ?thesis
      using reachable.restarted [OF reachable.new _ r] None none(1) recover_epoch_valid [OF r rec] by (simp add: authorities_current_def)
  next
    case (Some j)
    then have "restartable J ?fc j"
      using assms(4) by (auto split: if_splits)
    then have "reachable J ?fc f"
      using r rec unfolding Some by (rule reachable_restart)
    moreover have "resources_settled (fb_epoch f) (fb_resources f)"
      using recover_ok [OF r rec] Some none(1) by auto
    ultimately show ?thesis
      using recover_epoch_valid [OF r rec] by (auto simp: authorities_current_def resources_settled_def)
  qed
  then show ?thesis
    using cf assms(3) reachable_wf [of J ?fc f] by (simp add: server_inv_def cache_ok_def)
qed

lemma inv_send_notice: "server_inv config c \<Longrightarrow> server_inv config (send_notice e i c)"
  by (simp add: send_notice_def next_outbound_def inv_send)

lemma inv_advance_epoch:
  assumes "server_inv config c"
  shows "server_inv config (snd (coordinator_advance_epoch J k c))"
proof -
  let ?own = "if cd_resource_principals c = [] then Ident 0
    else snd (cd_resource_principals c ! (k mod length (cd_resource_principals c)))"
  obtain res f where a: "advance_epoch J ?own (coordinator_provenance c) (cd_fabric c) = (res, f)"
    by fastforce
  then have f: "server_inv config (c\<lparr>cd_fabric := f\<rparr>)"
    by (intro inv_fabric [OF assms] fabric_step.by_advance_epoch)
  then have "server_inv config (fold (send_notice e) xs (c\<lparr>cd_fabric := f\<rparr>))" for e xs
    by (intro fold_inv inv_send_notice)
  then show ?thesis
    using a f by (cases res) (simp_all add: coordinator_advance_epoch_def Let_def)
qed

section \<open>Runs of a server\<close>

text \<open>
  A server that was started on a journal without records, or without a journal; cycles, epoch
  advances, messages sent by the embedding program, its direct operations on \<^verbatim>\<open>fabric()\<close>, new input on
  a connection, and the stop.
\<close>

inductive served :: "'j journal_ops \<Rightarrow> coordinator_config \<Rightarrow> 'j coordinator \<Rightarrow> bool"
  for J :: "'j journal_ops" and config :: coordinator_config where
  started: "server_start J bound (new_coordinator config clock fabric_clock journal sink seed) = (st, c) \<Longrightarrow> ok st \<Longrightarrow>
    cc_journal_path config = [] \<or> journal = None \<or> restartable J (coordinator_fabric_config config) (the journal) \<Longrightarrow> served J config c"
| cycled: "served J config c \<Longrightarrow> run_once J pending c = (st, c') \<Longrightarrow> served J config c'"
| arrived: "served J config c \<Longrightarrow>
    served J config (on_conn i (\<lambda>x. x\<lparr>cn_transport := (cn_transport x)\<lparr>tp_in := inbox\<rparr>\<rparr>) c)"
| epoch_advanced: "served J config c \<Longrightarrow> coordinator_advance_epoch J k c = (res, c') \<Longrightarrow> served J config c'"
| governed: "served J config c \<Longrightarrow> fabric_step J (cd_fabric c) f \<Longrightarrow> served J config (c\<lparr>cd_fabric := f\<rparr>)"
| message_sent: "served J config c \<Longrightarrow> send_to i m c = (st, c') \<Longrightarrow> served J config c'"
| stopped: "served J config c \<Longrightarrow> served J config (server_stop c)"

definition table_ok :: "'j coordinator \<Rightarrow> bool" where
  "table_ok c \<longleftrightarrow> length (cd_connections c) \<le> cc_max_connections (cd_config c) \<and> all_open c"

lemma table_conn:
  assumes "table_ok c" "tp_open (cn_transport (conn i c)) \<Longrightarrow> \<not> cn_closing (conn i c) \<Longrightarrow>
    tp_open (cn_transport (h (conn i c))) \<and> \<not> cn_closing (h (conn i c))"
  shows "table_ok (on_conn i h c)"
  using assms by (cases "i < length (cd_connections c)")
    (auto simp: table_ok_def all_open_def on_conn_def conn_def list_all_length nth_list_update list_update_beyond)

lemma table_send: "table_ok c \<Longrightarrow> table_ok (snd (send_message i m c))"
  by (auto simp: send_message_def Let_def split_beta on_session_def intro!: table_conn)

lemma table_notices:
  "table_ok c \<Longrightarrow> table_ok (fold (send_notice e) xs c)"
proof (induction xs arbitrary: c)
  case (Cons x xs)
  have "table_ok (c\<lparr>cd_outbound_sequence := n\<rparr>)" for n
    using Cons.prems by (simp add: table_ok_def all_open_def)
  then show ?case
    using Cons by (simp add: send_notice_def next_outbound_def table_send)
qed simp

lemma table_advance:
  assumes "table_ok c" "coordinator_advance_epoch J k c = (res, c')"
  shows "table_ok c'"
proof -
  have f: "table_ok (c\<lparr>cd_fabric := f\<rparr>)" for f
    using assms(1) by (simp add: table_ok_def all_open_def)
  have st: "table_ok (on_stats h x) = table_ok x" for h and x :: "'a coordinator"
    by (simp add: table_ok_def all_open_def on_stats_def)
  show ?thesis
    using assms(2) f table_notices [OF f] by (auto simp: coordinator_advance_epoch_def Let_def st split: prod.splits sum.splits)
qed

theorem served_inv:
  assumes "served J config c" "config_ok (coordinator_fabric_config config)"
  shows "server_inv config c \<and> table_ok c"
  using assms(1)
proof induction
  case (started bound clock fabric_clock journal sink seed st c)
  have "cd_connections c = []"
    using started(1) by (auto simp: server_start_def new_coordinator_def Let_def on_stats_def split: if_splits prod.splits)
  then show ?case
    using inv_start [OF started(1,2) assms(2) started(3)] by (simp add: table_ok_def all_open_def)
next
  case (cycled c pending st c')
  moreover have "cd_config c' = config" "cd_config c = config"
    using inv_run_once [of config c J pending st c'] cycled by (auto simp: table_ok_def server_inv_def)
  ultimately show ?case
    using inv_run_once [of config c J pending st c'] by (simp add: table_ok_def)
next
  case (arrived c i inbox)
  then show ?case
    by (auto simp: conn_wf_def intro!: inv_conn table_conn)
next
  case (epoch_advanced c k res c')
  then show ?case
    using inv_advance_epoch [of config c J k] table_advance by fastforce
next
  case (governed c f)
  then show ?case
    by (simp add: inv_fabric table_ok_def all_open_def)
next
  case (message_sent c i m st c')
  have "c' = c \<or> (\<exists>k. c' = snd (send_message k m c))"
    using message_sent(2) by (auto simp: send_to_def split: option.splits) (metis snd_conv)
  then show ?case
    using message_sent.IH inv_send table_send by blast
next
  case (stopped c)
  then show ?case
    by (simp add: server_stop_def server_inv_def cache_ok_def table_ok_def all_open_def)
qed

section \<open>Admission\<close>

text \<open>What a hello establishes; the counters and the activity of a session are not part of it.\<close>

definition ws_identity :: "worker_session \<Rightarrow> bool \<times> role \<times> NodeId \<times> Incarnation \<times> boot_id \<times> Epoch \<times> string" where
  "ws_identity s = (ws_handshaken s, ws_role s, ws_node s, ws_incarnation s, ws_boot s, ws_epoch s, ws_name s)"

lemma ws_identity_counters [simp]:
  "ws_identity (s\<lparr>ws_frames_in := a\<rparr>) = ws_identity s" "ws_identity (s\<lparr>ws_frames_out := a\<rparr>) = ws_identity s"
  "ws_identity (s\<lparr>ws_frames_rejected := a\<rparr>) = ws_identity s" "ws_identity (s\<lparr>ws_messages_handled := a\<rparr>) = ws_identity s"
  "ws_identity (s\<lparr>ws_last_activity := t\<rparr>) = ws_identity s"
  by (simp_all add: ws_identity_def)

definition identity_at :: "nat \<Rightarrow> 'j coordinator \<Rightarrow> bool \<times> role \<times> NodeId \<times> Incarnation \<times> boot_id \<times> Epoch \<times> string" where
  "identity_at i c = ws_identity (cn_session (conn i c))"

definition admissible :: "hello \<Rightarrow> 'j coordinator \<Rightarrow> bool" where
  "admissible h c \<longleftrightarrow> id_valid (he_node h) \<and> ctr_valid (he_incarnation h) \<and> boot_valid (he_boot h)
     \<and> (he_role h = Role_worker \<longrightarrow> ctr_valid (he_epoch h) \<and> he_epoch h = fb_epoch (cd_fabric c))
     \<and> (\<forall>x\<in>set (cd_connections c). ws_handshaken (cn_session x) \<and> ws_node (cn_session x) = he_node h \<longrightarrow>
          ws_incarnation (cn_session x) \<le> he_incarnation h)"

lemma superseded_iff:
  "list_ex (superseded_by h) xs \<longleftrightarrow> \<not> (\<forall>x\<in>set xs. ws_handshaken (cn_session x) \<and> ws_node (cn_session x) = he_node h \<longrightarrow>
     ws_incarnation (cn_session x) \<le> he_incarnation h)"
  by (auto simp: list_ex_iff superseded_by_def not_le)

lemma conn_on_conn_if: "conn j (on_conn i h c) = (if j = i \<and> i < length (cd_connections c) then h (conn i c) else conn j c)"
  by (cases "i < length (cd_connections c)") (auto simp: conn_def on_conn_def list_update_beyond)

lemma conn_unrelated [simp]:
  "conn j (on_stats h c) = conn j c" "conn j (count_stats_rejected c) = conn j c" "conn j (count_stale_epoch c) = conn j c"
  "conn j (c\<lparr>cd_ticks := n\<rparr>) = conn j c" "conn j (c\<lparr>cd_outbound_sequence := s\<rparr>) = conn j c"
  "conn j (c\<lparr>cd_fabric := f\<rparr>) = conn j c" "conn j (c\<lparr>cd_stopped := b\<rparr>) = conn j c"
  by (simp_all add: conn_def on_stats_def count_stats_rejected_def count_stale_epoch_def)

text \<open>Sending and counting leave the identity and the queues of every connection, and all the others as they are.\<close>

definition same_peers :: "nat \<Rightarrow> 'j coordinator \<Rightarrow> 'j coordinator \<Rightarrow> bool" where
  "same_peers i c c' \<longleftrightarrow> identity_at i c' = identity_at i c \<and> cn_queues (conn i c') = cn_queues (conn i c)
     \<and> (\<forall>j. j \<noteq> i \<longrightarrow> conn j c' = conn j c)"

lemma same_peers_session:
  assumes "\<And>s. ws_identity (h s) = ws_identity s" "same_peers i c c'"
  shows "same_peers i c (on_session i h c')"
  using assms by (auto simp: same_peers_def identity_at_def on_session_def conn_on_conn_if)

lemma same_peers_refl [simp]: "same_peers i c c"
  by (simp add: same_peers_def)

lemma same_peers_rejected: "same_peers i c c' \<Longrightarrow> same_peers i c (count_frame_rejected i c')"
  unfolding count_frame_rejected_def by (rule same_peers_session) simp_all

lemma same_peers_send:
  assumes "same_peers i c c'"
  shows "same_peers i c (snd (send_message i m c'))"
proof -
  have "same_peers i c (on_conn i (\<lambda>x. x\<lparr>cn_transport := t\<rparr>) c')" for t
    using assms by (auto simp: same_peers_def identity_at_def conn_on_conn_if)
  then show ?thesis
    using assms by (auto simp: send_message_def Let_def split_beta intro!: same_peers_session)
qed

lemma same_peers_eq:
  "same_peers i c (on_stats h c') = same_peers i c c'" "same_peers i c (count_stats_rejected c') = same_peers i c c'"
  "same_peers i c (count_stale_epoch c') = same_peers i c c'" "same_peers i c (c'\<lparr>cd_ticks := n\<rparr>) = same_peers i c c'"
  "same_peers i c (c'\<lparr>cd_outbound_sequence := s\<rparr>) = same_peers i c c'"
  by (simp_all add: same_peers_def identity_at_def)

lemma same_peers_reply: "same_peers i c c' \<Longrightarrow> same_peers i c (snd (reply_error i k t c'))"
  by (simp add: reply_error_def next_outbound_def same_peers_send same_peers_eq)

text \<open>A hello is answered with one acknowledgement, positive exactly when it is admissible.\<close>

definition io_at :: "nat \<Rightarrow> 'j coordinator \<Rightarrow> transport \<times> frame_decoder" where
  "io_at i c = (cn_transport (conn i c), cn_decoder (conn i c))"

lemma io_at_simps [simp]:
  "io_at j (on_session i h c) = io_at j c" "io_at j (count_frame_rejected i c) = io_at j c" "io_at j (on_stats k c) = io_at j c"
  "io_at j (count_stats_rejected c) = io_at j c" "io_at j (count_stale_epoch c) = io_at j c"
  "io_at j (c\<lparr>cd_ticks := n\<rparr>) = io_at j c" "io_at j (c\<lparr>cd_outbound_sequence := s\<rparr>) = io_at j c"
  by (simp_all add: io_at_def on_session_def count_frame_rejected_def conn_on_conn_if)

definition acknowledges :: "nat \<Rightarrow> 'j coordinator \<Rightarrow> bool \<Rightarrow> status \<times> 'j coordinator \<Rightarrow> bool" where
  "acknowledges i c accepted res \<longleftrightarrow> (\<exists>ack c'. res = send_message i ack c' \<and> io_at i c' = io_at i c
     \<and> length (cd_connections c') = length (cd_connections c) \<and> ms_type ack = Mt_hello_ack \<and> rt_message ack
     \<and> ha_accepted (ms_hello_ack ack) = accepted \<and> (ha_code (ms_hello_ack ack) = Code_ok) = accepted
     \<and> ha_coordinator_epoch (ms_hello_ack ack) = fb_epoch (cd_fabric c))"

theorem handle_hello_exact:
  assumes "i < length (cd_connections c)"
  shows "identity_at i (snd (handle_hello i m c)) =
      (let h = ms_hello m in if admissible h c
       then (True, he_role h, he_node h, he_incarnation h, he_boot h, fb_epoch (cd_fabric c), he_name h) else identity_at i c)"
    and "acknowledges i c (admissible (ms_hello m) c) (handle_hello i m c)"
proof -
  let ?h = "ms_hello m" and ?c = "c\<lparr>cd_outbound_sequence := cd_outbound_sequence c + 1\<rparr>"
  have adm: "admissible ?h c \<longleftrightarrow> \<not> (\<not> id_valid (he_node ?h) \<or> \<not> ctr_valid (he_incarnation ?h) \<or> \<not> boot_valid (he_boot ?h))
      \<and> \<not> (he_role ?h = Role_worker \<and> \<not> ctr_valid (he_epoch ?h)) \<and> \<not> (he_role ?h = Role_worker \<and> he_epoch ?h \<noteq> fb_epoch (cd_fabric c))
      \<and> \<not> list_ex (superseded_by ?h) (cd_connections c)"
    by (auto simp: admissible_def superseded_iff)
  have send: "identity_at i (snd (send_message i a c')) = identity_at i c'" for a and c' :: "'a coordinator"
    using same_peers_send [of i c' c' a] by (simp add: same_peers_def)
  have rej: "identity_at i (count_frame_rejected i c') = identity_at i c'" for c' :: "'a coordinator"
    using same_peers_rejected [of i c' c'] by (simp add: same_peers_def)
  have unrel: "identity_at i (count_stale_epoch c') = identity_at i c'" "identity_at i (on_stats k c') = identity_at i c'"
    "identity_at i ?c = identity_at i c" for k and c' :: "'a coordinator"
    by (simp_all add: identity_at_def)
  have set: "identity_at i (on_session i (\<lambda>s. s\<lparr>ws_handshaken := True, ws_role := he_role ?h, ws_node := he_node ?h,
      ws_incarnation := he_incarnation ?h, ws_boot := he_boot ?h, ws_epoch := e, ws_name := he_name ?h, ws_last_activity := t\<rparr>) c') =
      (True, he_role ?h, he_node ?h, he_incarnation ?h, he_boot ?h, e, he_name ?h)"
    if "length (cd_connections c') = length (cd_connections c)" for e t and c' :: "'a coordinator"
    using that assms by (simp add: identity_at_def on_session_def conn_on_conn_if ws_identity_def)
  show "identity_at i (snd (handle_hello i m c)) =
      (let h = ms_hello m in if admissible h c
       then (True, he_role h, he_node h, he_incarnation h, he_boot h, fb_epoch (cd_fabric c), he_name h) else identity_at i c)"
    unfolding Let_def adm by (simp add: handle_hello_def admit_hello_def refuse_hello_def next_outbound_def now_nanos_def Let_def send rej unrel set)
  have codes: "code_canonical Code_ok" "code_canonical Code_malformed_input" "code_canonical Code_stale_epoch"
      "code_canonical Code_stale_incarnation"
    by (simp_all add: code_canonical_enumerator all_codes_def)
  have refused: "acknowledges i c b (refuse_hello i r k t c')"
    if "\<not> b" "ms_type r = Mt_hello_ack" "ha_coordinator_epoch (ms_hello_ack r) = fb_epoch (cd_fabric c)" "k \<noteq> Code_ok"
      "name_fits t" "code_canonical k" "io_at i c' = io_at i c"
      "length (cd_connections c') = length (cd_connections c)" for b r k t and c' :: "'a coordinator"
    unfolding acknowledges_def refuse_hello_def
    by (rule exI, rule exI, rule conjI, rule refl) (use that in \<open>simp add: rt_message_def rt_hello_ack_def\<close>)
  have accepted: "acknowledges i c b (admit_hello i ?h r c')"
    if b "ms_type r = Mt_hello_ack" "ha_coordinator_epoch (ms_hello_ack r) = fb_epoch (cd_fabric c)" "io_at i c' = io_at i c"
      "length (cd_connections c') = length (cd_connections c)" for b r and c' :: "'a coordinator"
    unfolding acknowledges_def admit_hello_def now_nanos_def Let_def split
    by (rule exI, rule exI, rule conjI, rule refl) (use that in \<open>simp add: rt_message_def rt_hello_ack_def frame_simps name_fits_def kMaxNameChars_def codes\<close>)
  show "acknowledges i c (admissible (ms_hello m) c) (handle_hello i m c)"
    unfolding adm handle_hello_def next_outbound_def Let_def split by (auto simp: refused accepted frame_simps name_fits_def kMaxNameChars_def codes)
qed

section \<open>Before admission\<close>

theorem unadmitted_message:
  assumes "\<not> ws_handshaken (cn_session (conn i c))" "ms_type m \<noteq> Mt_hello"
  shows "cd_fabric (snd (handle_message J i m c)) = cd_fabric c \<and> cd_stopped (snd (handle_message J i m c)) = cd_stopped c
    \<and> same_peers i c (snd (handle_message J i m c))"
proof -
  define c1 where "c1 = on_session i (\<lambda>s. s\<lparr>ws_last_activity := cd_clock c (cd_ticks c),
    ws_messages_handled := ws_messages_handled s + 1\<rparr>) (c\<lparr>cd_ticks := Suc (cd_ticks c)\<rparr>)"
  have p: "same_peers i c c1"
    unfolding c1_def by (intro same_peers_session) (simp_all add: same_peers_eq)
  have "\<not> ws_handshaken (cn_session (conn i c1))"
    using p assms(1) by (simp add: same_peers_def identity_at_def ws_identity_def)
  then have eq: "handle_message J i m c = reply_error i Code_authority_denied ''first message must be a hello'' (count_frame_rejected i c1)"
    using assms(2) by (simp add: handle_message_def now_nanos_def Let_def c1_def)
  have st: "cd_stopped (on_conn j h x) = cd_stopped x" for j h and x :: "'a coordinator"
    by (simp add: on_conn_def)
  have "cd_stopped (snd (reply_error j k t x)) = cd_stopped x" for j k t and x :: "'a coordinator"
    by (simp add: reply_error_def next_outbound_def send_message_def on_session_def Let_def split_beta st)
  then show ?thesis
    using p by (simp add: eq frame_simps same_peers_reply same_peers_rejected)
      (simp add: c1_def count_frame_rejected_def on_session_def st frame_simps)
qed

section \<open>The loss of a publisher\<close>

lemma principal_of:
  assumes "server_inv config c" "find_queue (cd_fabric c) q = Some r" "find_resource (cd_fabric c) (qd_resource (qr_def r)) = Some x"
  shows "fst (principal_for q c) = rr_owner x"
proof -
  have "own = rr_owner x" if "um_find (cd_resource_principals c) (qd_resource (qr_def r)) = Some own" for own
    using assms that by (fastforce simp: server_inv_def cache_ok_def)
  then show ?thesis
    using assms by (auto simp: principal_for_def queue_record_of_def resource_record_of_def split: option.splits)
qed

lemma invalidate_queue_frame:
  "fb_resources (cd_fabric (invalidate_queue why e q c)) = fb_resources (cd_fabric c)
   \<and> fb_epoch (cd_fabric (invalidate_queue why e q c)) = fb_epoch (cd_fabric c)
   \<and> (p \<noteq> q \<longrightarrow> find_queue (cd_fabric (invalidate_queue why e q c)) p = find_queue (cd_fabric c) p)"
proof -
  obtain own c1 where p: "principal_for q c = (own, c1)"
    by fastforce
  then have same: "cd_fabric c1 = cd_fabric c"
    using fabric_sends(4) [of q c] by simp
  obtain st f where a: "invalidate_evidence q own e why (cd_fabric c) = (st, f)"
    by fastforce
  have "fb_resources f = fb_resources (cd_fabric c) \<and> fb_epoch f = fb_epoch (cd_fabric c)
    \<and> (p \<noteq> q \<longrightarrow> find_queue f p = find_queue (cd_fabric c) p)"
    using invalidate_evidence_cases [OF a] by (auto simp: core_def find_queue_def)
  then show ?thesis
    using p a same by (simp add: invalidate_queue_def Let_def frame_simps)
qed

lemma fold_invalidate_frame:
  "fb_resources (cd_fabric (fold (invalidate_queue why e) qs c)) = fb_resources (cd_fabric c)
   \<and> fb_epoch (cd_fabric (fold (invalidate_queue why e) qs c)) = fb_epoch (cd_fabric c)
   \<and> (p \<notin> set qs \<longrightarrow> find_queue (cd_fabric (fold (invalidate_queue why e) qs c)) p = find_queue (cd_fabric c) p)"
  by (induction qs arbitrary: c) (auto simp: invalidate_queue_frame)

lemma invalidate_queue_effect:
  assumes "server_inv config c" "find_queue (cd_fabric c) q = Some r" "find_resource (cd_fabric c) (qd_resource (qr_def r)) = Some x"
    and "has_capability (capabilities_of (rr_authority x) (rr_owner x)) Cap_admin"
  shows "find_queue (cd_fabric (invalidate_queue why (fb_epoch (cd_fabric c)) q c)) q = Some (stale_by_backend r)"
proof -
  let ?e = "fb_epoch (cd_fabric c)"
  obtain c1 where p: "principal_for q c = (rr_owner x, c1)"
    using principal_of [OF assms(1-3)] by (metis prod.collapse)
  then have same: "cd_fabric c1 = cd_fabric c"
    using fabric_sends(4) [of q c] by simp
  have x: "(qd_resource (qr_def r), x) \<in> set (fb_resources (cd_fabric c))"
    using assms(3) um_find_SomeD by (simp add: find_resource_def)
  have wf: "core_wf (core (cd_fabric c))" and "authorities_current (cd_fabric c)"
    using assms(1) by (simp_all add: server_inv_def fabric_wf_def)
  then have "ctr_valid ?e" "av_epoch (rr_authority x) = ?e" "id_valid (rr_owner x)"
    using x by (fastforce simp: authorities_current_def core_wf_def resource_wf_def)+
  then have "ad_allowed (authorize (rr_authority x) (rr_owner x) Cap_admin ?e (qr_applicability r) (qr_lifecycle r))"
    using assms(4) by (simp add: authorize_allowed_iff)
  moreover obtain st f where a: "invalidate_evidence q (rr_owner x) ?e why (cd_fabric c) = (st, f)"
    by fastforce
  ultimately have "find_queue f q = Some (stale_by_backend r)"
    using assms(2,3) by (auto simp: invalidate_evidence_def Let_def monotonic_now_def emit_events_def find_queue_def)
  then show ?thesis
    using p a same \<open>id_valid (rr_owner x)\<close> by (simp add: invalidate_queue_def Let_def frame_simps)
qed

theorem disconnect_effect:
  assumes "server_inv config c" "i < length (cd_connections c)" "\<not> cn_closing (conn i c)"
  shows "\<not> tp_open (cn_transport (conn i (handle_disconnect i why c)))"
    and "q \<notin> set (cn_queues (conn i c)) \<Longrightarrow> find_queue (cd_fabric (handle_disconnect i why c)) q = find_queue (cd_fabric c) q"
    and "q \<in> set (cn_queues (conn i c)) \<Longrightarrow> find_queue (cd_fabric c) q = Some r \<Longrightarrow>
      find_resource (cd_fabric c) (qd_resource (qr_def r)) = Some x \<Longrightarrow>
      has_capability (capabilities_of (rr_authority x) (rr_owner x)) Cap_admin \<Longrightarrow>
      find_queue (cd_fabric (handle_disconnect i why c)) q = Some (stale_by_backend r)"
proof -
  let ?e = "fb_epoch (cd_fabric c)" and ?qs = "cn_queues (conn i c)"
  let ?inv = "fold (invalidate_queue why ?e)"
  define c0 where "c0 = on_stats (\<lambda>s. s\<lparr>cs_connections_lost := cs_connections_lost s + 1\<rparr>) (on_conn i close_conn c)"
  have c0: "cd_fabric c0 = cd_fabric c" "server_inv config c0"
    using assms(1) by (auto simp: c0_def frame_simps conn_wf_def close_conn_def intro!: inv_conn)
  have eq: "handle_disconnect i why c = ?inv ?qs c0"
    using handle_disconnect_eq [OF assms(3,2)] by (simp add: c0_def)
  have "distinct ?qs"
    using conn_wf_at [OF assms(1,2)] by (simp add: conn_wf_def)
  show "\<not> tp_open (cn_transport (conn i (handle_disconnect i why c)))"
    using assms(2) unfolding eq c0_def on_conn_on_stats [symmetric] fold_invalidate_on_conn
    by (simp add: conn_on_conn_if close_conn_def lengths_fold frame_simps)
  show "find_queue (cd_fabric (handle_disconnect i why c)) q = find_queue (cd_fabric c) q" if "q \<notin> set ?qs"
    using fold_invalidate_frame [of why ?e ?qs c0 q] that by (simp add: eq c0)
  show "find_queue (cd_fabric (handle_disconnect i why c)) q = Some (stale_by_backend r)"
    if q: "q \<in> set ?qs" "find_queue (cd_fabric c) q = Some r" "find_resource (cd_fabric c) (qd_resource (qr_def r)) = Some x"
      "has_capability (capabilities_of (rr_authority x) (rr_owner x)) Cap_admin"
  proof -
    obtain ys zs where qs: "?qs = ys @ q # zs"
      using q(1) by (meson split_list)
    then have "q \<notin> set ys" "q \<notin> set zs"
      using \<open>distinct ?qs\<close> by auto
    define c1 where "c1 = ?inv ys c0"
    have c1: "server_inv config c1" "fb_resources (cd_fabric c1) = fb_resources (cd_fabric c)" "fb_epoch (cd_fabric c1) = ?e"
        "find_queue (cd_fabric c1) q = Some r"
      using fold_invalidate_frame [of why ?e ys c0 q] \<open>q \<notin> set ys\<close> q(2) c0
      by (auto simp: c1_def intro!: fold_inv inv_invalidate_queue)
    have "find_queue (cd_fabric (invalidate_queue why ?e q c1)) q = Some (stale_by_backend r)"
      using invalidate_queue_effect [OF c1(1,4), of x why] c1(2,3) q(3,4) by (simp add: find_resource_def)
    then show ?thesis
      using fold_invalidate_frame [of why ?e zs "invalidate_queue why ?e q c1" q] \<open>q \<notin> set zs\<close>
      by (simp add: eq qs c1_def)
  qed
qed

end
