(* ===== verification/QF_Worker.thy ===== *)
theory QF_Worker
  imports QF_Server
begin

text \<open>
  \<^verbatim>\<open>include/qf/worker.hpp\<close> and \<^verbatim>\<open>src/worker.cpp\<close>: the client of the coordinator. The socket is that of
  \<open>QF_Coordinator\<close>, but a receive on it blocks: where nothing is left to receive, waiting for a response
  has no result (\<open>None\<close>). The last part connects a client and a server over two byte streams: a
  handshake has the same outcome on both sides.
\<close>

section \<open>State\<close>

record worker_config =
  wc_node :: NodeId
  wc_incarnation :: Incarnation
  wc_epoch :: Epoch
  wc_boot :: boot_id
  wc_name :: string
  wc_role :: role
  wc_receive_buffer_bytes :: nat

record worker =
  wk_config :: worker_config
  wk_transport :: transport
  wk_decoder :: frame_decoder
  wk_sequence :: Sequence
  wk_coordinator_epoch :: Epoch
  wk_admitted :: bool
  wk_frames_sent :: u64
  wk_frames_received :: u64
  wk_frames_rejected :: u64
  wk_epoch_notices :: u64
  wk_last_error :: status

definition new_worker :: "worker_config \<Rightarrow> worker" where
  "new_worker config = \<lparr>wk_config = config, wk_transport = closed_transport, wk_decoder = new_decoder kMaxFramePayloadBytes,
     wk_sequence = Counter 1, wk_coordinator_epoch = Counter 0, wk_admitted = False, wk_frames_sent = 0,
     wk_frames_received = 0, wk_frames_rejected = 0, wk_epoch_notices = 0, wk_last_error = success\<rparr>"

section \<open>Sending and waiting\<close>

definition wk_send :: "message \<Rightarrow> worker \<Rightarrow> status \<times> worker" where
  "wk_send m w =
     (let payload = encode_message m kMaxFramePayloadBytes
      in if payload = [] then (Status Code_internal ''message could not be encoded'', w)
         else
           (let encoded = encode_frame \<lparr>fr_type = u16_of_message_type (ms_type m), fr_sequence = ms_sequence m,
                                        fr_payload = payload\<rparr> kMaxFramePayloadBytes
            in if encoded = [] then (Status Code_capacity_exceeded ''frame exceeds the configured bound'', w)
               else (case tp_send encoded (wk_transport w) of
                       (sent, t) \<Rightarrow>
                         (let w = w\<lparr>wk_transport := t\<rparr>
                          in if ok sent then (sent, w\<lparr>wk_frames_sent := wk_frames_sent w + 1\<rparr>)
                             else (sent, w\<lparr>wk_last_error := sent\<rparr>)))))"

definition handle_notice :: "message \<Rightarrow> worker \<Rightarrow> status \<times> worker" where
  "handle_notice m w =
     (case ms_type m of
        Mt_epoch_advance \<Rightarrow>
          (success, w\<lparr>wk_coordinator_epoch := ms_epoch m, wk_epoch_notices := wk_epoch_notices w + 1\<rparr>)
      | Mt_fence_notice \<Rightarrow> (success, w)
      | Mt_error_message \<Rightarrow>
          (let e = Status (em_code (ms_error m)) (em_message (ms_error m)) in (e, w\<lparr>wk_last_error := e\<rparr>))
      | _ \<Rightarrow> (success, w))"

lemma handle_notice_decoder [simp]: "wk_decoder (snd (handle_notice m w)) = wk_decoder w"
  by (simp add: handle_notice_def Let_def split: message_type.split)

text \<open>The inner loop of \<^verbatim>\<open>await\<close>: \<open>None\<close> when the decoder has no further frame.\<close>

function wk_frames :: "message_type \<Rightarrow> worker \<Rightarrow> message result option \<times> worker" where
  "wk_frames expected w =
     (case fd_next (wk_decoder w) of
        (Inl st, d) \<Rightarrow>
          (if st_code st = Code_not_found then (None, w\<lparr>wk_decoder := d\<rparr>)
           else (Some (Inl st), w\<lparr>wk_decoder := d, wk_frames_rejected := wk_frames_rejected w + 1\<rparr>))
      | (Inr frame, d) \<Rightarrow>
          (case decode_message (fr_payload frame) of
             Inl _ \<Rightarrow> wk_frames expected (w\<lparr>wk_decoder := d, wk_frames_received := wk_frames_received w + 1,
                                             wk_frames_rejected := wk_frames_rejected w + 1\<rparr>)
           | Inr m \<Rightarrow>
               (if ms_type m = expected
                then (Some (Inr m), w\<lparr>wk_decoder := d, wk_frames_received := wk_frames_received w + 1\<rparr>)
                else (case handle_notice m (w\<lparr>wk_decoder := d, wk_frames_received := wk_frames_received w + 1\<rparr>) of
                        (notice, w) \<Rightarrow>
                          if \<not> ok notice \<and> ms_type m = Mt_error_message then (Some (Inl notice), w)
                          else wk_frames expected w))))"
  by pat_completeness auto
termination
proof (relation "measure (\<lambda>(expected, w). fd_buffered (wk_decoder w))", goal_cases)
  case (3 expected w x y frame m notice w')
  then show ?case
    using fd_next_shrinks [of "wk_decoder w" frame y] handle_notice_decoder [of m "w\<lparr>wk_decoder := y, wk_frames_received := wk_frames_received w + 1\<rparr>"]
    by (metis (no_types, lifting) case_prod_conv in_measure snd_conv worker.select_convs(3) worker.surjective worker.update_convs(3) worker.update_convs(8))
qed (auto dest: fd_next_shrinks [OF sym])

declare wk_frames.simps [simp del]

text \<open>The outer loop, on what there is to receive; where that is used up the call blocks.\<close>

function wk_await :: "message_type \<Rightarrow> rx list \<Rightarrow> worker \<Rightarrow> message result option \<times> rx list \<times> worker" where
  "wk_await expected inbox w =
     (if \<not> tp_open (wk_transport w)
      then (Some (Inl (Status Code_not_found ''connection closed before a response arrived'')), inbox, w)
      else if wc_receive_buffer_bytes (wk_config w) \<noteq> 0 \<and> inbox = [] then (None, inbox, w)
      else (case tp_receive (wc_receive_buffer_bytes (wk_config w)) True inbox of
              (Inl st, rest) \<Rightarrow> (Some (Inl st), rest, w\<lparr>wk_last_error := st\<rparr>)
            | (Inr bs, rest) \<Rightarrow>
                (if bs = []
                 then (Some (Inl (Status Code_not_found ''coordinator closed the connection'')), rest,
                       w\<lparr>wk_transport := tp_close (wk_transport w)\<rparr>)
                 else (case fd_push bs (wk_decoder w) of
                         (pushed, d) \<Rightarrow>
                           (if \<not> ok pushed then (Some (Inl pushed), rest, w\<lparr>wk_decoder := d\<rparr>)
                            else (case wk_frames expected (w\<lparr>wk_decoder := d\<rparr>) of
                                    (Some res, w) \<Rightarrow> (Some res, rest, w)
                                  | (None, w) \<Rightarrow> wk_await expected rest w))))))"
  by pat_completeness auto
termination
  by (relation "measure (\<lambda>(expected, inbox, w). inbox_size inbox)") (auto dest: tp_receive_shrinks [OF sym])

declare wk_await.simps [simp del]

definition await :: "message_type \<Rightarrow> worker \<Rightarrow> message result option \<times> worker" where
  "await expected w =
     (case wk_await expected (tp_in (wk_transport w)) w of
        (res, rest, w) \<Rightarrow> (res, w\<lparr>wk_transport := (wk_transport w)\<lparr>tp_in := rest\<rparr>\<rparr>))"

section \<open>The operations\<close>

text \<open>\<open>connected\<close> is the outcome of \<^verbatim>\<open>TcpTransport::connect\<close>.\<close>

definition wk_connect :: "transport result \<Rightarrow> worker \<Rightarrow> status \<times> worker" where
  "wk_connect connected w =
     (case connected of
        Inl st \<Rightarrow> (st, w)
      | Inr t \<Rightarrow> (success, w\<lparr>wk_transport := t, wk_decoder := fd_reset (wk_decoder w)\<rparr>))"

definition wire_sequence :: "worker \<Rightarrow> u32" where
  "wire_sequence w = ucast (ctr_value (wk_sequence w))"

definition hello_of :: "worker_config \<Rightarrow> hello" where
  "hello_of config = \<lparr>he_role = wc_role config, he_node = wc_node config, he_incarnation = wc_incarnation config,
     he_boot = (if boot_valid (wc_boot config) then wc_boot config else \<lparr>boot_hi = 1, boot_lo = 1\<rparr>),
     he_epoch = wc_epoch config, he_name = wc_name config\<rparr>"

definition hello_message :: "worker \<Rightarrow> message" where
  "hello_message w = no_message\<lparr>ms_type := Mt_hello, ms_sequence := wire_sequence w, ms_hello := hello_of (wk_config w)\<rparr>"

text \<open>A request and its response: the answers of \<^verbatim>\<open>handshake\<close>, \<^verbatim>\<open>send_mutation\<close> and \<^verbatim>\<open>request_stats\<close>.\<close>

definition exchange :: "message \<Rightarrow> message_type \<Rightarrow> worker \<Rightarrow> message result option \<times> worker" where
  "exchange m expected w =
     (case wk_send m w of (sent, w) \<Rightarrow> if \<not> ok sent then (Some (Inl sent), w) else await expected w)"

definition handshake :: "worker \<Rightarrow> hello_ack result option \<times> worker" where
  "handshake w =
     (case exchange (hello_message w) Mt_hello_ack w of
        (None, w) \<Rightarrow> (None, w)
      | (Some (Inl st), w) \<Rightarrow> (Some (Inl st), w)
      | (Some (Inr response), w) \<Rightarrow>
          (Some (Inr (ms_hello_ack response)),
           w\<lparr>wk_coordinator_epoch := ha_coordinator_epoch (ms_hello_ack response),
             wk_admitted := ha_accepted (ms_hello_ack response)\<rparr>))"

definition publish :: "occupancy_sample list \<Rightarrow> worker \<Rightarrow> status \<times> worker" where
  "publish samples w =
     (if \<not> wk_admitted w then (Status Code_authority_denied ''connection is not admitted'', w)
      else if samples = [] \<or> length samples > kMaxOccupancyBatch
      then (Status Code_out_of_range ''occupancy batch size is out of range'', w)
      else wk_send (no_message\<lparr>ms_type := Mt_occupancy_batch, ms_sequence := wire_sequence w, ms_occupancy := samples\<rparr>) w)"

definition send_heartbeat :: "worker \<Rightarrow> status \<times> worker" where
  "send_heartbeat w =
     wk_send (no_message\<lparr>ms_type := Mt_heartbeat, ms_sequence := wire_sequence w,
       ms_heartbeat := \<lparr>hb_sequence = wk_sequence w, hb_epoch = wc_epoch (wk_config w)\<rparr>\<rparr>) w"

definition mutation_message :: "mutation_request \<Rightarrow> worker \<Rightarrow> message" where
  "mutation_message r w = no_message\<lparr>ms_type := Mt_mutation, ms_sequence := wire_sequence w, ms_mutation := r\<rparr>"

definition send_mutation :: "mutation_request \<Rightarrow> worker \<Rightarrow> mutation_response result option \<times> worker" where
  "send_mutation r w =
     (case exchange (mutation_message r w) Mt_mutation_response w of
        (res, w) \<Rightarrow> (map_option (map_sum id ms_mutation_response) res, w))"

definition request_stats :: "worker \<Rightarrow> coordinator_stats result option \<times> worker" where
  "request_stats w =
     (case exchange (no_message\<lparr>ms_type := Mt_stats_request, ms_sequence := wire_sequence w\<rparr>) Mt_stats_response w of
        (res, w) \<Rightarrow> (map_option (map_sum id ms_stats) res, w))"

definition send_shutdown :: "string \<Rightarrow> worker \<Rightarrow> status \<times> worker" where
  "send_shutdown reason w =
     wk_send (no_message\<lparr>ms_type := Mt_shutdown, ms_sequence := wire_sequence w, ms_text := take kMaxMessageChars reason\<rparr>) w"

definition wk_poll :: "worker \<Rightarrow> status \<times> worker" where
  "wk_poll w = (success, w)"

definition wk_close :: "worker \<Rightarrow> worker" where
  "wk_close w = w\<lparr>wk_transport := tp_close (wk_transport w), wk_admitted := False\<rparr>"

definition next_sequence :: "worker \<Rightarrow> Sequence \<times> worker" where
  "next_sequence w =
     (case ctr_next (wk_sequence w) of
        Inl _ \<Rightarrow> (wk_sequence w, w)
      | Inr s \<Rightarrow> (s, w\<lparr>wk_sequence := s\<rparr>))"

section \<open>Waiting for a response\<close>

text \<open>What the messages that precede a response do to the client.\<close>

definition interim :: "message_type \<Rightarrow> message \<Rightarrow> bool" where
  "interim expected m \<longleftrightarrow> ms_type m \<noteq> expected \<and> ms_type m \<noteq> Mt_error_message \<and> rt_message m"

definition note_message :: "message \<Rightarrow> worker \<Rightarrow> worker" where
  "note_message m w = snd (handle_notice (body_only m) (w\<lparr>wk_frames_received := wk_frames_received w + 1\<rparr>))"

lemma body_only_type [simp]: "ms_type (body_only m) = ms_type m"
  by (simp add: body_only_def Let_def split: message_type.split)

lemma note_frame [simp]:
  "wk_decoder (note_message m w) = wk_decoder w" "wk_transport (note_message m w) = wk_transport w"
  "wk_config (note_message m w) = wk_config w" "wk_admitted (note_message m w) = wk_admitted w"
  by (simp_all add: note_message_def handle_notice_def Let_def split: message_type.split)

lemma fold_note_frame [simp]:
  "wk_decoder (fold note_message ms w) = wk_decoder w" "wk_transport (fold note_message ms w) = wk_transport w"
  "wk_config (fold note_message ms w) = wk_config w" "wk_admitted (fold note_message ms w) = wk_admitted w"
  by (induction ms arbitrary: w) simp_all

lemma note_decoder: "note_message m (w\<lparr>wk_decoder := d\<rparr>) = (note_message m w)\<lparr>wk_decoder := d\<rparr>"
  by (simp add: note_message_def handle_notice_def Let_def split: message_type.split)

lemma fold_note_decoder: "fold note_message ms (w\<lparr>wk_decoder := d\<rparr>) = (fold note_message ms w)\<lparr>wk_decoder := d\<rparr>"
  by (induction ms arbitrary: w) (simp_all add: note_decoder)

lemma handle_notice_ok: "ms_type m \<noteq> Mt_error_message \<Longrightarrow> handle_notice m w = (success, snd (handle_notice m w))"
  by (simp add: handle_notice_def split: message_type.split)

lemma wk_frames_interim:
  assumes "fd_next (wk_decoder w) = (Inr (message_frame m), d)" "interim expected m"
  shows "wk_frames expected w = wk_frames expected ((note_message m w)\<lparr>wk_decoder := d\<rparr>)"
proof -
  have "handle_notice (body_only m) (w\<lparr>wk_decoder := d, wk_frames_received := wk_frames_received w + 1\<rparr>)
      = (success, (note_message m w)\<lparr>wk_decoder := d\<rparr>)"
    using handle_notice_ok [of "body_only m" "w\<lparr>wk_decoder := d, wk_frames_received := wk_frames_received w + 1\<rparr>"]
      assms(2) note_decoder [of m d w] by (simp add: note_message_def interim_def)
  then show ?thesis
    using assms by (subst wk_frames.simps) (simp add: decode_message_frame interim_def)
qed

lemma wk_frames_response:
  assumes "fd_next (wk_decoder w) = (Inr (message_frame m), d)" "rt_message m"
  shows "wk_frames (ms_type m) w = (Some (Inr (body_only m)), w\<lparr>wk_decoder := d, wk_frames_received := wk_frames_received w + 1\<rparr>)"
  using assms by (simp add: wk_frames.simps [of _ w] decode_message_frame)

lemma wk_frames_wait:
  assumes "needs_more (wk_decoder w)"
  shows "wk_frames expected w = (None, w)"
  using assms by (auto simp: needs_more_def wk_frames.simps [of _ w])

lemma fits_message: "rt_message m \<Longrightarrow> frame_fits kMaxFramePayloadBytes (message_frame m)"
  using length_message_bytes [of m] by (simp add: frame_fits_def message_frame_payload kMaxFramePayloadBytes_def)

lemma ready_next:
  assumes "fd_ready kMaxFramePayloadBytes (frame_bytes (message_frame m) @ rest) d" "rt_message m"
  shows "\<exists>d'. fd_next d = (Inr (message_frame m), d') \<and> fd_ready kMaxFramePayloadBytes rest d'"
  using assms fd_next_frame [of d "message_frame m" rest] fits_message [of m] by (simp add: fd_ready_def)

text \<open>Frames that are complete in the decoder: interim messages are noted, the response is returned.\<close>

lemma wk_frames_all_interim:
  assumes "fd_ready kMaxFramePayloadBytes (frames_bytes (map message_frame ms) @ rest) (wk_decoder w)"
    and "list_all (interim expected) ms" "\<And>d. fd_ready kMaxFramePayloadBytes rest d \<Longrightarrow> needs_more d"
  shows "\<exists>d. wk_frames expected w = (None, (fold note_message ms w)\<lparr>wk_decoder := d\<rparr>) \<and> fd_ready kMaxFramePayloadBytes rest d"
  using assms(1,2)
proof (induction ms arbitrary: w)
  case Nil
  then show ?case
    using wk_frames_wait [OF assms(3), of w] by (intro exI [of _ "wk_decoder w"]) simp
next
  case (Cons m ms)
  obtain d where d: "fd_next (wk_decoder w) = (Inr (message_frame m), d)"
      "fd_ready kMaxFramePayloadBytes (frames_bytes (map message_frame ms) @ rest) d"
    using ready_next [of m "frames_bytes (map message_frame ms) @ rest" "wk_decoder w"] Cons.prems by (auto simp: interim_def)
  then show ?case
    using Cons.IH [of "(note_message m w)\<lparr>wk_decoder := d\<rparr>"] Cons.prems(2) wk_frames_interim [OF d(1), of expected]
    by (auto simp: fold_note_decoder)
qed

lemma wk_frames_to_response:
  assumes "fd_ready kMaxFramePayloadBytes (frames_bytes (map message_frame (ms @ [m]))) (wk_decoder w)"
    and "list_all (interim (ms_type m)) ms" "rt_message m"
  shows "\<exists>d. wk_frames (ms_type m) w = (Some (Inr (body_only m)),
      (fold note_message ms w)\<lparr>wk_decoder := d, wk_frames_received := wk_frames_received (fold note_message ms w) + 1\<rparr>)
    \<and> fd_ready kMaxFramePayloadBytes [] d"
  using assms(1,2)
proof (induction ms arbitrary: w)
  case Nil
  then show ?case
    using ready_next [of m "[]" "wk_decoder w"] wk_frames_response [OF _ assms(3), of w] assms(3) by auto
next
  case (Cons x ms)
  obtain d where d: "fd_next (wk_decoder w) = (Inr (message_frame x), d)"
      "fd_ready kMaxFramePayloadBytes (frames_bytes (map message_frame (ms @ [m]))) d"
    using ready_next [of x "frames_bytes (map message_frame (ms @ [m]))" "wk_decoder w"] Cons.prems by (auto simp: interim_def)
  then show ?case
    using Cons.IH [of "(note_message x w)\<lparr>wk_decoder := d\<rparr>"] Cons.prems(2) wk_frames_interim [OF d(1), of "ms_type m"]
    by (auto simp: fold_note_decoder)
qed

lemma wk_await_step:
  assumes "tp_open (wk_transport w)" "c \<noteq> []" "length c \<le> wc_receive_buffer_bytes (wk_config w)" "fd_push c (wk_decoder w) = (success, d)"
  shows "wk_await expected (Rx_data c # inbox) w =
    (case wk_frames expected (w\<lparr>wk_decoder := d\<rparr>) of
       (Some res, w) \<Rightarrow> (Some res, inbox, w) | (None, w) \<Rightarrow> wk_await expected inbox w)"
proof -
  have "wc_receive_buffer_bytes (wk_config w) \<noteq> 0"
    using assms(2,3) by (metis le_zero_eq length_0_conv)
  then show ?thesis
    using assms by (subst wk_await.simps) (simp add: tp_receive_def)
qed

lemma Nil_chunks: "\<forall>c\<in>set cs. c = [] \<Longrightarrow> \<forall>c\<in>set cs. c \<noteq> [] \<and> P c \<Longrightarrow> cs = []"
  by (cases cs) auto

text \<open>However the answer of the server is cut: the response is returned and everything before it is noted.\<close>

theorem await_stream:
  assumes "tp_open (wk_transport w)" "list_all (\<lambda>c. c \<noteq> [] \<and> length c \<le> wc_receive_buffer_bytes (wk_config w)) chunks"
    and "wc_receive_buffer_bytes (wk_config w) \<le> 65536"
    and "partial_frame r (map message_frame (ms @ [m]))" "r @ concat chunks = frames_bytes (map message_frame (ms @ [m]))"
    and "list_all (interim (ms_type m)) ms" "rt_message m" "fd_ready kMaxFramePayloadBytes r (wk_decoder w)"
  shows "\<exists>d. wk_await (ms_type m) (map Rx_data chunks) w = (Some (Inr (body_only m)), [],
      (fold note_message ms w)\<lparr>wk_decoder := d, wk_frames_received := wk_frames_received (fold note_message ms w) + 1\<rparr>)
    \<and> fd_ready kMaxFramePayloadBytes [] d"
  using assms
proof (induction chunks arbitrary: r ms w)
  case Nil
  then show ?case
    by (cases ms) (auto simp: partial_frame_def)
next
  case (Cons c cs)
  let ?n = kMaxFramePayloadBytes and ?fs = "map message_frame (ms @ [m])"
  have rt: "list_all rt_message (ms @ [m])"
    using Cons.prems(6,7) by (auto simp: list_all_iff interim_def)
  then have sizes: "list_all (\<lambda>f. length (fr_payload f) + 65536 \<le> ?n + 1) ?fs" "list_all (frame_fits ?n) ?fs"
    using length_message_bytes fits_message by (fastforce simp: list_all_iff message_frame_payload kMaxFramePayloadBytes_def)+
  have c: "c \<noteq> []" "length c \<le> wc_receive_buffer_bytes (wk_config w)"
    using Cons.prems(2) by simp_all
  obtain d where d: "fd_push c (wk_decoder w) = (success, d)" "fd_ready ?n (r @ c) d"
    using partial_push [OF Cons.prems(4) sizes(1) _ _ Cons.prems(8), of c] c(2) Cons.prems(3) by (auto simp: kMaxFramePayloadBytes_def)
  note step = wk_await_step [OF Cons.prems(1) c d(1)]
  obtain gs hs p where split: "?fs = gs @ hs" "r @ c = frames_bytes gs @ p" "p @ concat cs = frames_bytes hs" "partial_frame p hs"
    using stream_prefix [of "r @ c" "concat cs" ?fs] Cons.prems(5) by auto
  have ready: "fd_ready ?n (frames_bytes gs @ p) (wk_decoder (w\<lparr>wk_decoder := d\<rparr>))"
    using d(2) split(2) by simp
  show ?case
  proof (cases hs)
    case Nil
    then have fin: "p = []" "cs = []" "gs = ?fs"
      using split Cons.prems(2) by (auto simp: partial_frame_def concat_eq_Nil_conv list_all_iff intro!: Nil_chunks)
    then show ?thesis
      using wk_frames_to_response [OF _ Cons.prems(6,7), of "w\<lparr>wk_decoder := d\<rparr>"] ready
      by (auto simp: step fold_note_decoder)
  next
    case more_frames: (Cons h hs')
    obtain as bs where ms: "ms = as @ bs" "gs = map message_frame as" "hs = map message_frame (bs @ [m])"
    proof -
      have "length (ms @ [m]) = length gs + length hs"
        by (metis length_append length_map split(1))
      then have "length gs \<le> length ms"
        using more_frames by simp
      moreover have "gs = take (length gs) ?fs" "hs = drop (length gs) ?fs"
        using split(1) by (metis append_eq_conv_conj)+
      ultimately have "gs = map message_frame (take (length gs) ms)" "hs = map message_frame (drop (length gs) ms @ [m])"
        by (simp_all add: take_map drop_map)
      then show thesis
        using that [of "take (length gs) ms" "drop (length gs) ms"] by simp
    qed
    have as: "list_all (interim (ms_type m)) as" "list_all (interim (ms_type m)) bs"
      using Cons.prems(6) ms(1) by simp_all
    have "list_all (frame_fits ?n) hs"
      using sizes(2) unfolding split(1) by simp
    then have more: "needs_more d'" if "fd_ready ?n p d'" for d'
      using partial_needs_more [OF split(4) _ that] by blast
    obtain d1 where d1: "wk_frames (ms_type m) (w\<lparr>wk_decoder := d\<rparr>) = (None, (fold note_message as w)\<lparr>wk_decoder := d1\<rparr>)" "fd_ready ?n p d1"
      using wk_frames_all_interim [of as p "w\<lparr>wk_decoder := d\<rparr>" "ms_type m"] as(1) more ready ms(2) by (auto simp: fold_note_decoder)
    have "\<exists>d'. wk_await (ms_type m) (map Rx_data cs) ((fold note_message as w)\<lparr>wk_decoder := d1\<rparr>) = (Some (Inr (body_only m)), [],
        (fold note_message bs ((fold note_message as w)\<lparr>wk_decoder := d1\<rparr>))\<lparr>wk_decoder := d',
          wk_frames_received := wk_frames_received (fold note_message bs ((fold note_message as w)\<lparr>wk_decoder := d1\<rparr>)) + 1\<rparr>)
      \<and> fd_ready ?n [] d'"
      using Cons.prems(1-3,7) split(3,4) ms(3) as(2) d1(2) by (intro Cons.IH) simp_all
    then show ?thesis
      by (auto simp: step d1(1) ms(1) fold_note_decoder)
  qed
qed

end
