(* ===== verification/QF_Exchange.thy ===== *)
theory QF_Exchange
  imports QF_Worker
begin

text \<open>
  A client of \<^verbatim>\<open>src/worker.cpp\<close> and a server of \<^verbatim>\<open>src/coordinator.cpp\<close>, connected by two byte
  streams that cut the bytes in any way. A request that reaches the server is handled once and its
  answer is what the client returns: a handshake has the same outcome on both sides, and the response
  to a mutation tells what became of it in the fabric.
\<close>

section \<open>The two ends\<close>

text \<open>What a server needs to receive one message on a connection and to answer it.\<close>

definition listening :: "nat \<Rightarrow> 'j coordinator \<Rightarrow> bool" where
  "listening i c \<longleftrightarrow> i < length (cd_connections c) \<and> tp_reliable (cn_transport (conn i c))
     \<and> fd_ready kMaxFramePayloadBytes [] (cn_decoder (conn i c))
     \<and> 0 < cc_max_frames_per_cycle (cd_config c) \<and> 0 < cc_receive_buffer_bytes (cd_config c)
     \<and> cc_receive_buffer_bytes (cd_config c) \<le> 65536"

lemma encode_message_nonempty: "rt_message m \<Longrightarrow> encode_message m kMaxFramePayloadBytes \<noteq> []"
  using length_message_bytes [of m]
  by (auto simp: encode_message_layout kMaxFramePayloadBytes_def message_bytes_def le_put_def)

lemma wire_bytes_nonempty: "rt_message m \<Longrightarrow> wire_bytes m \<noteq> []"
  by (simp add: wire_bytes_eq)

lemma send_message_ok:
  assumes "rt_message m" "tp_reliable (cn_transport (conn i c))"
  shows "send_message i m c = (success,
    on_session i (\<lambda>s. s\<lparr>ws_frames_out := ws_frames_out s + 1\<rparr>)
      (on_conn i (\<lambda>x. x\<lparr>cn_transport := snd (tp_send (wire_bytes m) (cn_transport (conn i c)))\<rparr>) c))"
  using assms encode_message_nonempty [of m] wire_bytes_nonempty [of m] tp_send_ok(1) [OF assms(2), of "wire_bytes m"]
  by (simp add: send_message_def Let_def wire_bytes_def message_frame_def split_beta)

lemma wk_send_ok:
  assumes "rt_message m" "tp_reliable (wk_transport w)"
  shows "wk_send m w = (success, w\<lparr>wk_transport := snd (tp_send (wire_bytes m) (wk_transport w)),
    wk_frames_sent := wk_frames_sent w + 1\<rparr>)"
  using assms encode_message_nonempty [of m] wire_bytes_nonempty [of m] tp_send_ok(1) [OF assms(2), of "wire_bytes m"]
  by (simp add: wk_send_def Let_def wire_bytes_def message_frame_def split_beta)

text \<open>Admissibility depends on the epoch and on what the sessions have established.\<close>

lemma admissible_cong:
  fixes c c' :: "'a coordinator"
  assumes "map (\<lambda>x. ws_identity (cn_session x)) (cd_connections c') = map (\<lambda>x. ws_identity (cn_session x)) (cd_connections c)"
    and "fb_epoch (cd_fabric c') = fb_epoch (cd_fabric c)"
  shows "admissible h c' = admissible h c"
proof -
  let ?id = "\<lambda>x. ws_identity (cn_session x)"
  have "admissible h x \<longleftrightarrow> id_valid (he_node h) \<and> ctr_valid (he_incarnation h) \<and> boot_valid (he_boot h)
     \<and> (he_role h = Role_worker \<longrightarrow> ctr_valid (he_epoch h) \<and> he_epoch h = fb_epoch (cd_fabric x))
     \<and> (\<forall>(hs, ro, nd, inc, rest)\<in>set (map ?id (cd_connections x)). hs \<and> nd = he_node h \<longrightarrow> inc \<le> he_incarnation h)" for x :: "'a coordinator"
    by (auto simp: admissible_def ws_identity_def)
  note alt = this
  show ?thesis
    by (simp only: alt assms)
qed

lemma identities_on_session:
  assumes "\<And>s. ws_identity (h s) = ws_identity s"
  shows "map (\<lambda>x. ws_identity (cn_session x)) (cd_connections (on_session i h c)) = map (\<lambda>x. ws_identity (cn_session x)) (cd_connections c)"
  using assms by (cases "i < length (cd_connections c)")
    (simp_all add: on_session_def on_conn_def conn_def map_update list_update_beyond list_update_same_conv)

lemma identities_on_conn:
  assumes "\<And>x. cn_session (h x) = cn_session x"
  shows "map (\<lambda>x. ws_identity (cn_session x)) (cd_connections (on_conn i h c)) = map (\<lambda>x. ws_identity (cn_session x)) (cd_connections c)"
  using assms by (cases "i < length (cd_connections c)")
    (simp_all add: on_conn_def conn_def map_update list_update_beyond list_update_same_conv)

section \<open>One message at the server\<close>

text \<open>The server when it dispatches a message: the counters and the activity of the session are updated.\<close>

definition dispatching :: "nat \<Rightarrow> 'j coordinator \<Rightarrow> 'j coordinator" where
  "dispatching i c =
     on_session i (\<lambda>s. s\<lparr>ws_last_activity := cd_clock c (cd_ticks c), ws_messages_handled := ws_messages_handled s + 1\<rparr>)
       ((on_stats (\<lambda>s. s\<lparr>cs_frames_received := cs_frames_received s + 1\<rparr>)
          (on_session i (\<lambda>s. s\<lparr>ws_frames_in := ws_frames_in s + 1\<rparr>) c))\<lparr>cd_ticks := Suc (cd_ticks c)\<rparr>)"

lemma dispatching_simps [simp]:
  "io_at i (dispatching i c) = io_at i c" "length (cd_connections (dispatching i c)) = length (cd_connections c)"
  "cd_fabric (dispatching i c) = cd_fabric c"
  by (simp_all add: dispatching_def frame_simps)

lemma dispatching_peers: "same_peers i c (dispatching i c)"
  unfolding dispatching_def by (intro same_peers_session) (simp_all add: same_peers_eq same_peers_session)

lemma dispatching_identity [simp]: "identity_at i (dispatching i c) = identity_at i c"
  using dispatching_peers [of i c] by (simp add: same_peers_def)

lemma dispatching_admissible [simp]:
  fixes c :: "'j coordinator"
  shows "admissible h (dispatching i c) = admissible h c"
proof (rule admissible_cong)
  have "cd_connections (on_stats k x) = cd_connections x" for k and x :: "'j coordinator"
    by (simp add: on_stats_def)
  then show "map (\<lambda>x. ws_identity (cn_session x)) (cd_connections (dispatching i c)) =
      map (\<lambda>x. ws_identity (cn_session x)) (cd_connections c)"
    unfolding dispatching_def by (simp add: identities_on_session)
qed simp

definition after_message :: "nat \<Rightarrow> status \<times> 'j coordinator \<Rightarrow> 'j coordinator" where
  "after_message i res = (case res of (handled, c) \<Rightarrow>
     if \<not> ok handled then handle_disconnect i ''message-handling-failed'' c else c)"

lemma frame_message:
  assumes "rt_message m"
  shows "handle_frame J i (message_frame m) c = after_message i (handle_message J i (body_only m)
    (on_stats (\<lambda>s. s\<lparr>cs_frames_received := cs_frames_received s + 1\<rparr>)
      (on_session i (\<lambda>s. s\<lparr>ws_frames_in := ws_frames_in s + 1\<rparr>) c)))"
  using decode_message_frame [OF assms] by (simp add: handle_frame_def after_message_def Let_def message_frame_def)

lemma clock_kept [simp]:
  "cd_clock (on_stats k c) = cd_clock c" "cd_clock (on_session i g c) = cd_clock c"
  "cd_ticks (on_stats k c) = cd_ticks c" "cd_ticks (on_session i g c) = cd_ticks c"
  by (simp_all add: on_stats_def on_session_def on_conn_def)

lemma hello_frame:
  assumes "rt_message m" "ms_type m = Mt_hello"
  shows "handle_frame J i (message_frame m) c = after_message i (handle_hello i (body_only m) (dispatching i c))"
  using assms(2) by (simp add: frame_message [OF assms(1)] handle_message_def now_nanos_def Let_def dispatching_def)

lemma mutation_frame:
  assumes "rt_message m" "ms_type m = Mt_mutation" "ws_handshaken (cn_session (conn i c))"
  shows "handle_frame J i (message_frame m) c = after_message i (handle_mutation J i (body_only m) (dispatching i c))"
proof -
  have "ws_handshaken (cn_session (conn i (dispatching i c)))"
    using dispatching_identity [of i c] assms(3) by (simp add: identity_at_def ws_identity_def)
  then show ?thesis
    using assms(2) by (simp add: frame_message [OF assms(1)] handle_message_def now_nanos_def Let_def dispatching_def [symmetric])
qed

text \<open>An answer on the socket the message came from.\<close>

definition replied :: "nat \<Rightarrow> 'j coordinator \<Rightarrow> message \<Rightarrow> 'j coordinator \<Rightarrow> bool" where
  "replied i c ack c' \<longleftrightarrow> rt_message ack
     \<and> tp_out (cn_transport (conn i c')) = tp_out (cn_transport (conn i c)) @ wire_bytes ack
     \<and> tp_open (cn_transport (conn i c')) = tp_open (cn_transport (conn i c))
     \<and> cn_decoder (conn i c') = cn_decoder (conn i c)"

lemma reply_sent:
  assumes "listening i c" "io_at i c' = io_at i c" "length (cd_connections c') = length (cd_connections c)" "rt_message ack"
  shows "after_message i (send_message i ack c') = snd (send_message i ack c')" "replied i c ack (snd (send_message i ack c'))"
proof -
  have t: "cn_transport (conn i c') = cn_transport (conn i c)" "cn_decoder (conn i c') = cn_decoder (conn i c)"
    using assms(2) by (simp_all add: io_at_def)
  note sent = send_message_ok [OF assms(4), of i c']
  show "after_message i (send_message i ack c') = snd (send_message i ack c')"
    using assms(1) t sent by (simp add: listening_def after_message_def)
  show "replied i c ack (snd (send_message i ack c'))"
    using assms(1,3,4) t sent tp_send_ok(2) [of "cn_transport (conn i c)"]
    by (simp add: replied_def listening_def on_session_def conn_on_conn_if frame_simps)
qed

text \<open>A hello is answered with an acknowledgement.\<close>

definition answered :: "nat \<Rightarrow> hello \<Rightarrow> 'j coordinator \<Rightarrow> message \<Rightarrow> 'j coordinator \<Rightarrow> bool" where
  "answered i h c ack c' \<longleftrightarrow> replied i c ack c' \<and> ms_type ack = Mt_hello_ack
     \<and> ha_accepted (ms_hello_ack ack) = admissible h c \<and> ha_coordinator_epoch (ms_hello_ack ack) = fb_epoch (cd_fabric c)
     \<and> identity_at i c' = (if admissible h c
          then (True, he_role h, he_node h, he_incarnation h, he_boot h, fb_epoch (cd_fabric c), he_name h) else identity_at i c)"

lemma hello_frame_answered:
  assumes "listening i c" "rt_message m" "ms_type m = Mt_hello"
  shows "\<exists>ack. answered i (ms_hello m) c ack (handle_frame J i (message_frame m) c)"
proof -
  have h: "ms_hello (body_only m) = ms_hello m"
    using assms(3) by (simp add: body_only_def)
  have i: "i < length (cd_connections (dispatching i c))"
    using assms(1) by (simp add: listening_def)
  obtain ack c' where ack: "handle_hello i (body_only m) (dispatching i c) = send_message i ack c'" "io_at i c' = io_at i c"
      "length (cd_connections c') = length (cd_connections c)" "ms_type ack = Mt_hello_ack" "rt_message ack"
      "ha_accepted (ms_hello_ack ack) = admissible (ms_hello m) c" "ha_coordinator_epoch (ms_hello_ack ack) = fb_epoch (cd_fabric c)"
    using handle_hello_exact(2) [OF i, of "body_only m"] by (auto simp: acknowledges_def h)
  show ?thesis
    using reply_sent [OF assms(1) ack(2,3,5)] ack handle_hello_exact(1) [OF i, of "body_only m"]
    by (auto simp: hello_frame [OF assms(2,3)] answered_def h Let_def intro!: exI [of _ ack])
qed

text \<open>A mutation is applied to the fabric and answered with what became of it.\<close>

definition response_of :: "attempt_id \<Rightarrow> mutation_outcome result \<Rightarrow> mutation_response" where
  "response_of attempt out =
     (case out of
        Inr o' \<Rightarrow> no_mutation_response\<lparr>mp_attempt := attempt, mp_queue := mo_queue o', mp_code := Code_ok, mp_message := mo_rule o',
                   mp_generation := mo_generation o', mp_replayed := mo_replayed o'\<rparr>
      | Inl st \<Rightarrow> no_mutation_response\<lparr>mp_attempt := attempt, mp_code := st_code st, mp_message := st_message st\<rparr>)"

lemma io_at_more [simp]:
  "io_at j (c\<lparr>cd_fabric := f\<rparr>) = io_at j c" "io_at j (subscribe i q c) = io_at j c"
  by (simp_all add: io_at_def subscribe_def conn_on_conn_if)

lemma handle_mutation_sends:
  assumes "fabric_apply J (ms_mutation m) (cd_fabric c) = (out, f)"
  shows "\<exists>ack c'. handle_mutation J i m c = send_message i ack c' \<and> io_at i c' = io_at i c
    \<and> length (cd_connections c') = length (cd_connections c) \<and> cd_fabric c' = f \<and> ms_type ack = Mt_mutation_response
    \<and> ms_mutation_response ack = response_of (mr_attempt (ms_mutation m)) out"
proof (cases out)
  case (Inl st)
  show ?thesis
    unfolding handle_mutation_def next_outbound_def Let_def
    by (simp add: assms Inl split del: if_split) (rule exI, rule exI, rule conjI, rule refl, simp add: frame_simps response_of_def)
next
  case (Inr o')
  show ?thesis
    unfolding handle_mutation_def next_outbound_def Let_def
    by (simp add: assms Inr split del: if_split) (rule exI, rule exI, rule conjI, rule refl, simp add: frame_simps response_of_def)
qed

definition applied_and_answered ::
  "'j journal_ops \<Rightarrow> nat \<Rightarrow> mutation_request \<Rightarrow> 'j coordinator \<Rightarrow> message \<Rightarrow> 'j coordinator \<Rightarrow> bool" where
  "applied_and_answered J i r c ack c' \<longleftrightarrow> replied i c ack c' \<and> ms_type ack = Mt_mutation_response
     \<and> ms_mutation_response ack = response_of (mr_attempt r) (fst (fabric_apply J r (cd_fabric c)))
     \<and> cd_fabric c' = snd (fabric_apply J r (cd_fabric c))"

lemma mutation_frame_answered:
  assumes "listening i c" "rt_message m" "ms_type m = Mt_mutation" "ws_handshaken (cn_session (conn i c))"
    and "rt_mutation_response (response_of (mr_attempt (ms_mutation m)) (fst (fabric_apply J (ms_mutation m) (cd_fabric c))))"
  shows "\<exists>ack. applied_and_answered J i (ms_mutation m) c ack (handle_frame J i (message_frame m) c)"
proof -
  have b: "ms_mutation (body_only m) = ms_mutation m"
    using assms(3) by (simp add: body_only_def)
  obtain ack c' where ack: "handle_mutation J i (body_only m) (dispatching i c) = send_message i ack c'" "io_at i c' = io_at i c"
      "length (cd_connections c') = length (cd_connections c)" "cd_fabric c' = snd (fabric_apply J (ms_mutation m) (cd_fabric c))"
      "ms_type ack = Mt_mutation_response"
      "ms_mutation_response ack = response_of (mr_attempt (ms_mutation m)) (fst (fabric_apply J (ms_mutation m) (cd_fabric c)))"
    using handle_mutation_sends [where c = "dispatching i c" and m = "body_only m" and i = i and J = J, OF prod.collapse [symmetric]] by (auto simp: b)
  have rt: "rt_message ack"
    using assms(5) ack(5,6) by (simp add: rt_message_def)
  show ?thesis
    using reply_sent [OF assms(1) ack(2,3) rt] ack(4-6)
    by (auto simp: mutation_frame [OF assms(2-4)] ack(1) applied_and_answered_def frame_simps intro!: exI [of _ ack])
qed

section \<open>One request over two byte streams\<close>

abbreviation with_decoder :: "nat \<Rightarrow> frame_decoder \<Rightarrow> 'j coordinator \<Rightarrow> 'j coordinator" where
  "with_decoder i d \<equiv> on_conn i (\<lambda>x. x\<lparr>cn_decoder := d\<rparr>)"

lemma with_decoder_simps [simp]:
  "with_decoder i d (with_decoder i d' c) = with_decoder i d c"
  "i < length (cd_connections c) \<Longrightarrow> cn_decoder (conn i (with_decoder i d c)) = d"
  "cn_transport (conn i (with_decoder i d c)) = cn_transport (conn i c)"
  "length (cd_connections (with_decoder i d c)) = length (cd_connections c)"
  "cd_config (with_decoder i d c) = cd_config c"
  by (simp_all add: on_conn_on_conn conn_on_conn_if frame_simps) (simp add: on_conn_def)

lemma with_decoder_same: "cn_decoder (conn i c) = d \<Longrightarrow> with_decoder i d c = c"
  by (cases "i < length (cd_connections c)") (auto simp: on_conn_def conn_def list_update_beyond)

text \<open>One frame that arrives in pieces is handled once, when its last piece is there.\<close>

lemma service_frames_wait:
  assumes "needs_more (cn_decoder (conn i c))"
  shows "service_frames J quota i frames c = (frames, c)"
  using assms by (auto simp: needs_more_def service_frames.simps [of J quota i frames c] with_decoder_same Let_def)

lemma service_frames_one:
  assumes "frames < quota" "fd_ready n (frame_bytes f) (cn_decoder (conn i c))" "frame_fits n f"
    and keeps: "\<And>d. fd_ready n [] d \<Longrightarrow> cn_decoder (conn i (handle_frame J i f (with_decoder i d c))) = d"
  shows "\<exists>d. fd_ready n [] d \<and> service_frames J quota i frames c = (frames + 1, handle_frame J i f (with_decoder i d c))"
proof -
  obtain d where d: "fd_next (cn_decoder (conn i c)) = (Inr f, d)" "fd_ready n [] d"
    using fd_next_frame [of "cn_decoder (conn i c)" f "[]"] assms(2,3) by (auto simp: fd_ready_def)
  have "needs_more d"
    using d(2) by (simp add: fd_ready_def fd_next_empty)
  then have "service_frames J quota i (frames + 1) (handle_frame J i f (with_decoder i d c)) =
      (frames + 1, handle_frame J i f (with_decoder i d c))"
    using keeps [OF d(2)] by (intro service_frames_wait) simp
  then show ?thesis
    using d assms(1) by (auto simp: service_frames.simps [of J quota i frames c] Let_def)
qed

lemma service_input_step:
  assumes "0 < quota" "tp_open (cn_transport (conn i c))" "b \<noteq> []" "length b \<le> n" "fd_push b (cn_decoder (conn i c)) = (success, d)"
    and "service_frames J quota i 0 (with_decoder i d c) = (frames, c')"
  shows "service_input J quota n i 0 (Rx_data b # inbox) c = service_input J quota n i frames inbox c'"
proof -
  have "n \<noteq> 0"
    using assms(3,4) by (metis le_zero_eq length_0_conv)
  then show ?thesis
    using assms by (subst service_input.simps) (simp add: tp_receive_def Let_def)
qed

lemma service_input_one:
  assumes "0 < quota" "i < length (cd_connections c)" "tp_open (cn_transport (conn i c))"
    and "list_all (\<lambda>b. b \<noteq> [] \<and> length b \<le> n) chunks" "n \<le> 65536" "length (fr_payload f) + 65536 \<le> kMaxFramePayloadBytes + 1"
    and "frame_fits kMaxFramePayloadBytes f" "r @ concat chunks = frame_bytes f" "partial_frame r [f]"
    and "fd_ready kMaxFramePayloadBytes r (cn_decoder (conn i c))"
    and keeps: "\<And>d. fd_ready kMaxFramePayloadBytes [] d \<Longrightarrow> cn_decoder (conn i (handle_frame J i f (with_decoder i d c))) = d
        \<and> tp_open (cn_transport (conn i (handle_frame J i f (with_decoder i d c))))"
  shows "\<exists>d. fd_ready kMaxFramePayloadBytes [] d
    \<and> service_input J quota n i 0 (map Rx_data chunks) c = ([], handle_frame J i f (with_decoder i d c))"
  using assms
proof (induction chunks arbitrary: r c)
  case Nil
  then show ?case
    by (auto simp: partial_frame_def)
next
  case (Cons b bs)
  let ?n = kMaxFramePayloadBytes
  have b: "b \<noteq> []" "length b \<le> n"
    using Cons.prems(4) by simp_all
  obtain d where d: "fd_push b (cn_decoder (conn i c)) = (success, d)" "fd_ready ?n (r @ b) d"
    using partial_push [OF Cons.prems(9) _ _ _ Cons.prems(10), of 65536 b] b(2) Cons.prems(5,6) by (auto simp: kMaxFramePayloadBytes_def)
  note step = service_input_step [OF Cons.prems(1,3) b d(1)]
  show ?case
  proof (cases "bs = []")
    case True
    then have "fd_ready ?n (frame_bytes f) (cn_decoder (conn i (with_decoder i d c)))"
      using Cons.prems(2,8) d(2) by simp
    then obtain d' where d': "fd_ready ?n [] d'" "service_frames J quota i 0 (with_decoder i d c) = (1, handle_frame J i f (with_decoder i d' c))"
      using service_frames_one [of 0 quota ?n f i "with_decoder i d c" J] Cons.prems(1,7,11) by auto
    have "service_input J quota n i 1 [] (handle_frame J i f (with_decoder i d' c)) = ([], handle_frame J i f (with_decoder i d' c))"
      using Cons.prems(11) [OF d'(1)] by (subst service_input.simps) simp
    then show ?thesis
      using d' step [OF d'(2)] True by auto
  next
    case False
    have rest: "concat bs \<noteq> []"
      using False Cons.prems(4) Nil_chunks [of bs] by (fastforce simp: list_all_iff)
    have part: "partial_frame (r @ b) [f]"
      using Cons.prems(8) rest by (auto simp: partial_frame_def simp del: concat_eq_Nil_conv intro!: exI [of _ "concat bs"])
    have "needs_more (cn_decoder (conn i (with_decoder i d c)))"
      using partial_needs_more [OF part _ d(2)] Cons.prems(2,7) by simp
    then have st: "service_frames J quota i 0 (with_decoder i d c) = (0, with_decoder i d c)"
      by (rule service_frames_wait)
    have "\<exists>d'. fd_ready ?n [] d' \<and> service_input J quota n i 0 (map Rx_data bs) (with_decoder i d c) =
        ([], handle_frame J i f (with_decoder i d' (with_decoder i d c)))"
      using Cons.prems part d(2) by (intro Cons.IH) simp_all
    then show ?thesis
      using step [OF st] by simp
  qed
qed

text \<open>The server's half: a message that arrives in pieces is handled as one frame.\<close>

lemma message_served:
  assumes "listening i c" "tp_in (cn_transport (conn i c)) = map Rx_data pieces" "rt_message m"
    and "concat pieces = wire_bytes m" "list_all (\<lambda>b. b \<noteq> [] \<and> length b \<le> cc_receive_buffer_bytes (cd_config c)) pieces"
    and ans: "\<And>d. listening i (with_decoder i d c) \<Longrightarrow>
      \<exists>ack. P d ack \<and> replied i (with_decoder i d c) ack (handle_frame J i (message_frame m) (with_decoder i d c))"
  shows "\<exists>d ack. P d ack \<and> rt_message ack
    \<and> service_connection J i c = on_conn i (\<lambda>x. x\<lparr>cn_transport := (cn_transport x)\<lparr>tp_in := []\<rparr>\<rparr>)
        (handle_frame J i (message_frame m) (with_decoder i d c))
    \<and> tp_out (cn_transport (conn i (service_connection J i c))) = tp_out (cn_transport (conn i c)) @ wire_bytes ack"
proof -
  let ?n = kMaxFramePayloadBytes
  have i: "i < length (cd_connections c)" and is_open: "tp_open (cn_transport (conn i c))"
    using assms(1) by (simp_all add: listening_def tp_reliable_def)
  have ready: "listening i (with_decoder i d c)" if "fd_ready ?n [] d" for d
    using assms(1) that by (simp add: listening_def)
  have "\<exists>d. fd_ready ?n [] d \<and> service_input J (cc_max_frames_per_cycle (cd_config c)) (cc_receive_buffer_bytes (cd_config c)) i 0
      (map Rx_data pieces) c = ([], handle_frame J i (message_frame m) (with_decoder i d c))"
  proof (rule service_input_one [where r = "[]"])
    show "cn_decoder (conn i (handle_frame J i (message_frame m) (with_decoder i d c))) = d
        \<and> tp_open (cn_transport (conn i (handle_frame J i (message_frame m) (with_decoder i d c))))" if "fd_ready ?n [] d" for d
      using ans [OF ready [OF that]] i is_open by (auto simp: replied_def)
  qed (use assms(1,3-5) length_message_bytes [of m] fits_message [of m] in
      \<open>simp_all add: listening_def tp_reliable_def wire_bytes_eq message_frame_payload kMaxFramePayloadBytes_def partial_frame_def\<close>)
  then obtain d where d: "fd_ready ?n [] d" "service_input J (cc_max_frames_per_cycle (cd_config c)) (cc_receive_buffer_bytes (cd_config c)) i 0
      (map Rx_data pieces) c = ([], handle_frame J i (message_frame m) (with_decoder i d c))"
    by blast
  then have served: "service_connection J i c = on_conn i (\<lambda>x. x\<lparr>cn_transport := (cn_transport x)\<lparr>tp_in := []\<rparr>\<rparr>)
      (handle_frame J i (message_frame m) (with_decoder i d c))"
    using is_open assms(2) by (simp add: service_connection_def)
  obtain ack where ack: "P d ack" "replied i (with_decoder i d c) ack (handle_frame J i (message_frame m) (with_decoder i d c))"
    using ans [OF ready [OF d(1)]] by blast
  then have "tp_out (cn_transport (conn i (service_connection J i c))) = tp_out (cn_transport (conn i c)) @ wire_bytes ack"
    by (simp add: served conn_on_conn_if replied_def)
  then show ?thesis
    using ack served by (auto simp: replied_def)
qed

text \<open>The client's half: the answer that arrives in pieces is what the exchange returns.\<close>

lemma exchange_returns:
  assumes "tp_reliable (wk_transport w)" "fd_ready kMaxFramePayloadBytes [] (wk_decoder w)" "wc_receive_buffer_bytes (wk_config w) \<le> 65536"
    and "rt_message m" "rt_message ack" "concat pieces = wire_bytes ack" "tp_in (wk_transport w) = map Rx_data pieces"
    and "list_all (\<lambda>b. b \<noteq> [] \<and> length b \<le> wc_receive_buffer_bytes (wk_config w)) pieces"
  shows "\<exists>w'. exchange m (ms_type ack) w = (Some (Inr (body_only ack)), w') \<and> wk_admitted w' = wk_admitted w"
proof -
  define w1 where "w1 = snd (wk_send m w)"
  have w1: "wk_send m w = (success, w1)" "wk_config w1 = wk_config w" "wk_decoder w1 = wk_decoder w" "tp_open (wk_transport w1)"
      "tp_in (wk_transport w1) = map Rx_data pieces" "wk_admitted w1 = wk_admitted w"
    using wk_send_ok [OF assms(4,1)] assms(1,7) by (simp_all add: w1_def tp_reliable_def)
  have "\<exists>d. wk_await (ms_type ack) (map Rx_data pieces) w1 = (Some (Inr (body_only ack)), [],
      (fold note_message [] w1)\<lparr>wk_decoder := d, wk_frames_received := wk_frames_received (fold note_message [] w1) + 1\<rparr>)
      \<and> fd_ready kMaxFramePayloadBytes [] d"
    using w1 assms by (intro await_stream [where r = "[]"]) (simp_all add: partial_frame_def wire_bytes_eq)
  then show ?thesis
    using w1 by (auto simp: exchange_def await_def)
qed

text \<open>A whole handshake.\<close>

theorem handshake_agreement:
  assumes server: "listening i c" "tp_in (cn_transport (conn i c)) = map Rx_data there"
    and client: "tp_reliable (wk_transport w)" "fd_ready kMaxFramePayloadBytes [] (wk_decoder w)" "wc_receive_buffer_bytes (wk_config w) \<le> 65536" "rt_hello (hello_of (wk_config w))"
    and there: "concat there = wire_bytes (hello_message w)"
      "list_all (\<lambda>b. b \<noteq> [] \<and> length b \<le> cc_receive_buffer_bytes (cd_config c)) there"
    and returned: "tp_out (cn_transport (conn i (service_connection J i c))) = tp_out (cn_transport (conn i c)) @ concat back"
      "list_all (\<lambda>b. b \<noteq> [] \<and> length b \<le> wc_receive_buffer_bytes (wk_config w)) back"
      "tp_in (wk_transport w) = map Rx_data back"
  shows "\<exists>ack w'. handshake w = (Some (Inr ack), w') \<and> wk_admitted w' = admissible (hello_of (wk_config w)) c
    \<and> ha_accepted ack = wk_admitted w' \<and> wk_coordinator_epoch w' = fb_epoch (cd_fabric c)
    \<and> identity_at i (service_connection J i c) =
        (let h = hello_of (wk_config w) in if wk_admitted w'
         then (True, he_role h, he_node h, he_incarnation h, he_boot h, fb_epoch (cd_fabric c), he_name h) else identity_at i c)"
proof -
  let ?m = "hello_message w" and ?h = "hello_of (wk_config w)"
  have m: "rt_message ?m" "ms_type ?m = Mt_hello" "ms_hello ?m = ?h"
    using client(4) by (simp_all add: hello_message_def rt_message_def)
  have same: "admissible ?h (with_decoder i d c) = admissible ?h c" "identity_at i (with_decoder i d c) = identity_at i c"
      "cd_fabric (with_decoder i d c) = cd_fabric c" for d
    by (rule admissible_cong) (simp_all add: identities_on_conn identity_at_def conn_on_conn_if frame_simps)
  have ans: "\<exists>ack. answered i ?h (with_decoder i d c) ack (handle_frame J i (message_frame ?m) (with_decoder i d c))
      \<and> replied i (with_decoder i d c) ack (handle_frame J i (message_frame ?m) (with_decoder i d c))"
    if "listening i (with_decoder i d c)" for d
    using hello_frame_answered [OF that m(1,2), of J] m(3) unfolding answered_def by metis
  obtain d ack where ack: "answered i ?h (with_decoder i d c) ack (handle_frame J i (message_frame ?m) (with_decoder i d c))"
      "rt_message ack" "service_connection J i c = on_conn i (\<lambda>x. x\<lparr>cn_transport := (cn_transport x)\<lparr>tp_in := []\<rparr>\<rparr>)
        (handle_frame J i (message_frame ?m) (with_decoder i d c))"
      "tp_out (cn_transport (conn i (service_connection J i c))) = tp_out (cn_transport (conn i c)) @ wire_bytes ack"
    using message_served [OF server m(1) there ans] by blast
  have bytes: "concat back = wire_bytes ack"
    using ack(4) returned(1) by simp
  obtain w' where w': "exchange ?m Mt_hello_ack w = (Some (Inr (body_only ack)), w')"
    using exchange_returns [OF client(1-3) m(1) ack(2) bytes returned(3,2)] ack(1) by (auto simp: answered_def)
  have "ms_hello_ack (body_only ack) = ms_hello_ack ack"
    using ack(1) by (simp add: body_only_def answered_def)
  moreover have "identity_at i (service_connection J i c) = identity_at i (handle_frame J i (message_frame ?m) (with_decoder i d c))"
    by (simp add: ack(3) identity_at_def conn_on_conn_if)
  ultimately show ?thesis
    using w' ack(1) same by (simp add: handshake_def answered_def Let_def)
qed

text \<open>A whole mutation: it is applied once, and the client learns its outcome.\<close>

theorem mutation_agreement:
  assumes server: "listening i c" "tp_in (cn_transport (conn i c)) = map Rx_data there" "ws_handshaken (cn_session (conn i c))"
    and client: "tp_reliable (wk_transport w)" "fd_ready kMaxFramePayloadBytes [] (wk_decoder w)" "wc_receive_buffer_bytes (wk_config w) \<le> 65536"
    and fits: "rt_mutation r" "rt_mutation_response (response_of (mr_attempt r) (fst (fabric_apply J r (cd_fabric c))))"
    and there: "concat there = wire_bytes (mutation_message r w)"
      "list_all (\<lambda>b. b \<noteq> [] \<and> length b \<le> cc_receive_buffer_bytes (cd_config c)) there"
    and returned: "tp_out (cn_transport (conn i (service_connection J i c))) = tp_out (cn_transport (conn i c)) @ concat back"
      "list_all (\<lambda>b. b \<noteq> [] \<and> length b \<le> wc_receive_buffer_bytes (wk_config w)) back"
      "tp_in (wk_transport w) = map Rx_data back"
  shows "fst (send_mutation r w) = Some (Inr (response_of (mr_attempt r) (fst (fabric_apply J r (cd_fabric c)))))
    \<and> cd_fabric (service_connection J i c) = snd (fabric_apply J r (cd_fabric c))"
proof -
  let ?m = "mutation_message r w"
  have m: "rt_message ?m" "ms_type ?m = Mt_mutation" "ms_mutation ?m = r"
    using fits(1) by (simp_all add: mutation_message_def rt_message_def)
  have same: "cd_fabric (with_decoder i d c) = cd_fabric c" "ws_handshaken (cn_session (conn i (with_decoder i d c)))" for d
    using server(3) by (simp_all add: conn_on_conn_if frame_simps)
  have ans: "\<exists>ack. applied_and_answered J i r (with_decoder i d c) ack (handle_frame J i (message_frame ?m) (with_decoder i d c))
      \<and> replied i (with_decoder i d c) ack (handle_frame J i (message_frame ?m) (with_decoder i d c))"
    if "listening i (with_decoder i d c)" for d
    using mutation_frame_answered [OF that m(1,2) same(2), of J] fits(2) m(3) same(1) unfolding applied_and_answered_def by metis
  obtain d ack where ack: "applied_and_answered J i r (with_decoder i d c) ack (handle_frame J i (message_frame ?m) (with_decoder i d c))"
      "rt_message ack" "service_connection J i c = on_conn i (\<lambda>x. x\<lparr>cn_transport := (cn_transport x)\<lparr>tp_in := []\<rparr>\<rparr>)
        (handle_frame J i (message_frame ?m) (with_decoder i d c))"
      "tp_out (cn_transport (conn i (service_connection J i c))) = tp_out (cn_transport (conn i c)) @ wire_bytes ack"
    using message_served [OF server(1,2) m(1) there ans] by blast
  have bytes: "concat back = wire_bytes ack"
    using ack(4) returned(1) by simp
  obtain w' where w': "exchange ?m Mt_mutation_response w = (Some (Inr (body_only ack)), w')"
    using exchange_returns [OF client m(1) ack(2) bytes returned(3,2)] ack(1) by (auto simp: applied_and_answered_def)
  have "ms_mutation_response (body_only ack) = ms_mutation_response ack"
    using ack(1) by (simp add: body_only_def applied_and_answered_def)
  then show ?thesis
    using w' ack(1,3) same(1) by (simp add: send_mutation_def applied_and_answered_def frame_simps)
qed

end
