(* ===== verification/QF_Cycle.thy ===== *)
theory QF_Cycle
  imports QF_Server
begin

text \<open>
  The work of one cycle of \<^verbatim>\<open>CoordinatorServer::run_once\<close>: whatever the peers have sent, the cycle ends
  after at most \<^verbatim>\<open>max_frames_per_cycle\<close> frames of each connection. The frames are counted by the
  statistics of the server, which nothing but the handling of a frame advances.
\<close>

section \<open>Counting frames\<close>

definition tally :: "'j coordinator \<Rightarrow> coordinator_config \<times> u64" where
  "tally c = (cd_config c, cs_frames_received (cd_stats c))"

lemma tally_access [frame_simps]:
  "tally (on_conn i h c) = tally c" "tally (on_session i g c) = tally c"
  "tally (on_stats k c) = (cd_config c, cs_frames_received (k (cd_stats c)))"
  "tally (count_frame_rejected i c) = tally c" "tally (count_stats_rejected c) = tally c"
  "tally (count_stale_epoch c) = tally c" "tally (subscribe i q c) = tally c"
  "tally (c\<lparr>cd_fabric := f\<rparr>) = tally c" "tally (c\<lparr>cd_stopped := b\<rparr>) = tally c" "tally (c\<lparr>cd_ticks := n\<rparr>) = tally c"
  "tally (c\<lparr>cd_outbound_sequence := s\<rparr>) = tally c" "tally (c\<lparr>cd_resource_principals := p\<rparr>) = tally c"
  "tally (c\<lparr>cd_connections := xs\<rparr>) = tally c" "tally (c\<lparr>cd_next_connection_id := j\<rparr>) = tally c"
  by (simp_all add: tally_def on_conn_def on_session_def on_stats_def count_frame_rejected_def count_stats_rejected_def
      count_stale_epoch_def subscribe_def)

lemma tally_parts: "tally c = tally c' \<longleftrightarrow> cd_config c = cd_config c' \<and> cs_frames_received (cd_stats c) = cs_frames_received (cd_stats c')"
  by (simp add: tally_def)

lemma tally_pair: "(cd_config c, cs_frames_received (cd_stats c)) = tally c"
  by (simp add: tally_def)

lemma tally_sends [frame_simps]:
  "tally (snd (send_message i m c)) = tally c" "tally (snd (reply_error i k t c)) = tally c"
  "tally (snd (refuse_hello i m k t c)) = tally c" "tally (snd (principal_for q c)) = tally c"
  by (simp_all add: send_message_def reply_error_def refuse_hello_def principal_for_def next_outbound_def Let_def frame_simps
      split: prod.split option.split sum.split)

lemma tally_hello [frame_simps]: "tally (snd (handle_hello i m c)) = tally c"
  by (simp add: admit_hello_def handle_hello_def now_nanos_def next_outbound_def Let_def frame_simps tally_pair)

lemma tally_ingest [frame_simps]: "tally (snd (ingest_sample J i e s c)) = tally c"
proof -
  obtain own c1 where p: "principal_for (os_queue s) c = (own, c1)"
    by fastforce
  have "tally c1 = tally c"
    using tally_sends(4) [of "os_queue s" c] p by simp
  then show ?thesis
    using p by (auto simp: ingest_sample_def frame_simps split: prod.split sum.split)
qed

lemma tally_samples [frame_simps]: "tally (snd (snd (ingest_samples J i e xs (a, b, c)))) = tally c"
proof (induction xs arbitrary: a b c)
  case (Cons x xs)
  obtain good c1 where "ingest_sample J i e x c = (good, c1)"
    by fastforce
  then show ?case
    using tally_ingest [of J i e x c] Cons.IH by auto
qed simp

lemma tally_handlers [frame_simps]:
  "tally (snd (handle_occupancy J i m c)) = tally c" "tally (snd (handle_mutation J i m c)) = tally c"
  by (simp_all add: handle_occupancy_def handle_mutation_def next_outbound_def Let_def frame_simps tally_pair split_beta split: sum.split)

lemma tally_message [frame_simps]: "tally (snd (handle_message J i m c)) = tally c"
  by (cases "ms_type m") (simp_all add: handle_message_def now_nanos_def next_outbound_def Let_def frame_simps)

lemma tally_invalidate [frame_simps]: "tally (invalidate_queue why e q c) = tally c"
  by (simp add: invalidate_queue_def Let_def frame_simps tally_pair split_beta)

lemma tally_fold: "(\<And>x c. tally (h x c) = tally c) \<Longrightarrow> tally (fold h xs c) = tally c"
  by (induction xs arbitrary: c) simp_all

lemma tally_disconnect [frame_simps]: "tally (handle_disconnect i why c) = tally c"
  by (simp add: handle_disconnect_def Let_def frame_simps tally_fold tally_pair)

text \<open>Every frame counts once, whatever becomes of it.\<close>

lemma tally_frame:
  "tally (handle_frame J i frame c) = (cd_config c, cs_frames_received (cd_stats c) + 1)"
proof -
  have "tally (snd p) = n \<Longrightarrow> tally (case p of (a, b) \<Rightarrow> if \<not> ok a then handle_disconnect i w b else b) = n"
    for p :: "status \<times> 'a coordinator" and n w
    by (cases p) (simp add: frame_simps)
  then show ?thesis
    by (simp add: handle_frame_def Let_def frame_simps on_session_def on_conn_def split: sum.split)
qed

section \<open>The bound\<close>

text \<open>\<open>spent k c c'\<close>: from one state to the other at most \<open>k\<close> frames were handled.\<close>

definition spent :: "nat \<Rightarrow> 'j coordinator \<Rightarrow> 'j coordinator \<Rightarrow> bool" where
  "spent k c c' \<longleftrightarrow> (\<exists>j\<le>k. tally c' = (cd_config c, cs_frames_received (cd_stats c) + of_nat j))"

lemma spent_same: "tally c' = tally c \<Longrightarrow> spent k c c'"
  by (auto simp: spent_def tally_def intro!: exI [of _ 0])

lemma spent_trans: "spent k c c' \<Longrightarrow> spent l c' c'' \<Longrightarrow> spent (k + l) c c''"
  unfolding spent_def tally_def by (auto simp: add.assoc) (metis add_mono of_nat_add)

lemma spent_mono: "spent k c c' \<Longrightarrow> k \<le> l \<Longrightarrow> spent l c c'"
  by (auto simp: spent_def intro: order_trans)

lemma spent_cong: "tally c = tally c' \<Longrightarrow> spent k c = spent k c'"
  by (auto simp: spent_def tally_def fun_eq_iff)

lemma spent_on_conn [simp]: "spent k (on_conn i h c) = spent k c"
  by (rule spent_cong) (simp add: frame_simps)

text \<open>The quota is what the two loops share: the first component says how much of it is used.\<close>

lemma service_frames_spent:
  "frames \<le> fst (service_frames J quota i frames c) \<and> fst (service_frames J quota i frames c) \<le> max frames quota
    \<and> spent (fst (service_frames J quota i frames c) - frames) c (snd (service_frames J quota i frames c))"
proof (induction J quota i frames c rule: service_frames.induct)
  case (1 J quota i frames c)
  obtain res d where n: "fd_next (cn_decoder (conn i c)) = (res, d)"
    by fastforce
  let ?c = "on_conn i (\<lambda>x. x\<lparr>cn_decoder := d\<rparr>) c"
  show ?case
  proof (cases "frames < quota \<and> (\<exists>frame. res = Inr frame)")
    case False
    then show ?thesis
      using n by (cases res) (auto simp: service_frames.simps [of J quota i frames c] Let_def frame_simps intro!: spent_same)
  next
    case True
    then obtain frame where f: "frames < quota" "res = Inr frame"
      by blast
    define r where "r = service_frames J quota i (frames + 1) (handle_frame J i frame ?c)"
    have ih: "frames + 1 \<le> fst r" "fst r \<le> max (frames + 1) quota" "spent (fst r - (frames + 1)) (handle_frame J i frame ?c) (snd r)"
      using 1 [OF _ n [symmetric] refl f(2)] f(1) by (simp_all add: r_def)
    have "spent 1 c (handle_frame J i frame ?c)"
      unfolding spent_def tally_frame using tally_access(1) [of i _ c] by (intro exI [of _ 1]) (auto simp: tally_def)
    then have "spent (1 + (fst r - (frames + 1))) c (snd r)"
      using ih(3) by (rule spent_trans)
    moreover have "service_frames J quota i frames c = r"
      using n f by (simp add: service_frames.simps [of J quota i frames c] r_def)
    ultimately show ?thesis
      using ih(1,2) f(1) by (simp add: Suc_diff_Suc Suc_le_eq)
  qed
qed

lemma service_input_spent: "spent (quota - frames) c (snd (service_input J quota n i frames inbox c))"
proof (induction J quota n i frames inbox c rule: service_input.induct)
  case (1 J quota n i frames inbox c)
  let ?open = "tp_open (cn_transport (conn i c))"
  show ?case
  proof (cases "frames < quota \<and> tp_readable ?open inbox")
    case False
    then show ?thesis
      by (subst service_input.simps) (auto intro: spent_same)
  next
    case go: True
    obtain res rest where rcv: "tp_receive n ?open inbox = (res, rest)"
      by fastforce
    show ?thesis
    proof (cases "\<exists>bs d. res = Inr bs \<and> bs \<noteq> [] \<and> (\<exists>st. fd_push bs (cn_decoder (conn i c)) = (st, d) \<and> ok st)")
      case False
      then show ?thesis
        using go rcv by (subst service_input.simps)
          (auto simp: Let_def frame_simps intro!: spent_same split: sum.split prod.split)
    next
      case True
      then obtain bs st d where b: "res = Inr bs" "bs \<noteq> []" "fd_push bs (cn_decoder (conn i c)) = (st, d)" "ok st"
        by blast
      let ?c = "on_conn i (\<lambda>x. x\<lparr>cn_decoder := d\<rparr>) c"
      obtain k c1 where k: "service_frames J quota i frames ?c = (k, c1)"
        by fastforce
      have sf: "frames \<le> k" "k \<le> max frames quota" "spent (k - frames) c c1"
        using service_frames_spent [of frames J quota i ?c] k by simp_all
      have "spent (quota - k) c1 (snd (service_input J quota n i k rest c1))"
        by (rule 1 [OF _ rcv [symmetric] b(1,2) b(3) [symmetric] refl _ k [symmetric]]) (use go b(4) in auto)
      then have "spent ((k - frames) + (quota - k)) c (snd (service_input J quota n i k rest c1))"
        by (rule spent_trans [OF sf(3)])
      moreover have "service_input J quota n i frames inbox c = service_input J quota n i k rest c1"
        using go rcv b k by (subst service_input.simps) (simp add: Let_def)
      ultimately show ?thesis
        using sf(1,2) go by (simp add: max_def split: if_splits)
    qed
  qed
qed

lemma service_connection_spent:
  "spent (cc_max_frames_per_cycle (cd_config c)) c (service_connection J i c)"
proof -
  have "tally (on_conn i h x) = tally x" for h and x :: "'a coordinator"
    by (simp add: frame_simps)
  then show ?thesis
    using service_input_spent [of "cc_max_frames_per_cycle (cd_config c)" 0 c J "cc_receive_buffer_bytes (cd_config c)" i
        "tp_in (cn_transport (conn i c))"]
    by (auto simp: service_connection_def spent_def tally_def split: prod.split intro: exI [of _ 0])
qed

lemma fold_spent:
  assumes "\<And>i c. cd_config c = config \<Longrightarrow> spent k c (h i c)" "cd_config c = config"
  shows "spent (k * length xs) c (fold h xs c)"
  using assms(2)
proof (induction xs arbitrary: c)
  case (Cons x xs)
  have one: "spent k c (h x c)"
    using assms(1) Cons.prems by simp
  then have "cd_config (h x c) = config"
    using Cons.prems by (auto simp: spent_def tally_def)
  then show ?case
    using spent_trans [OF one Cons.IH] by simp
qed (simp add: spent_same)

lemma tally_expire: "tally (expire_connection now i c) = tally c"
  by (simp add: expire_connection_def frame_simps tally_pair)

lemma tally_accept: "tally (accept_connection pending c) = tally c"
  by (simp add: accept_connection_def now_nanos_def Let_def frame_simps tally_pair split: option.split)

theorem run_once_spent:
  "spent (cc_max_frames_per_cycle (cd_config c) * length (cd_connections (accept_connection pending c))) c (snd (run_once J pending c))"
proof (cases "cd_stopped c")
  case True
  then show ?thesis
    by (simp add: run_once_def spent_same)
next
  case False
  let ?q = "cc_max_frames_per_cycle (cd_config c)" and ?c1 = "accept_connection pending c"
  define c2 where "c2 = fold (service_connection J) [0..<length (cd_connections ?c1)] ?c1"
  have config: "cd_config ?c1 = cd_config c"
    using tally_accept [of pending c] by (simp add: tally_def)
  have "spent (?q * length [0..<length (cd_connections ?c1)]) ?c1 c2"
    unfolding c2_def by (rule fold_spent [OF _ config]) (metis service_connection_spent)
  then have "spent (?q * length (cd_connections ?c1)) c c2"
    by (simp add: spent_cong [OF tally_accept])
  moreover have "tally (snd (run_once J pending c)) = tally c2"
    using False by (simp add: run_once_def Let_def c2_def now_nanos_def reap_def frame_simps tally_fold [OF tally_expire])
  ultimately show ?thesis
    by (simp add: spent_def)
qed

end
