(* ===== verification/QF_Explain.thy ===== *)
theory QF_Explain
  imports QF_Guarantees
begin

text \<open>
  \<^verbatim>\<open>include/qf/explain.hpp\<close>, \<^verbatim>\<open>src/explain.cpp\<close> and \<^verbatim>\<open>src/fabric_explain.cpp\<close>: the explanation of one
  queue, collected under the lock of the fabric, and its two renderings. The lemmas say that an
  explanation changes nothing but the clock, that a rendering is the full text or a marked prefix of it
  within the configured bound, and that the verdict it prints on a drain is the one the fabric would give.
\<close>

section \<open>Explanations\<close>

definition kMaxExplainBytes :: nat where "kMaxExplainBytes = 16 * 1024"

record explanation =
  ex_queue :: QueueId
  ex_resource :: ResourceId
  ex_name :: string
  ex_lifecycle :: lifecycle
  ex_applicability :: applicability
  ex_generation :: Generation
  ex_cls :: class_binding
  ex_pool :: pool_ref
  ex_owner :: OwnerId
  ex_authority_epoch :: Epoch
  ex_principal_capabilities :: u32
  ex_occupancy :: occupancy_state
  ex_thresholds :: thresholds
  ex_threshold_eval :: threshold_evaluation
  ex_fence :: fence_state
  ex_drain :: drain_state
  ex_drain_assessment :: drain_assessment
  ex_applied :: backend_applied
  ex_backend_verification :: backend_verification
  ex_pending_attempt :: attempt_id
  ex_pending_kind :: string
  ex_last_attempt :: attempt_id
  ex_last_rule :: string
  ex_last_status :: status
  ex_mutation_count :: u64
  ex_replayed_count :: u64
  ex_rejected_count :: u64
  ex_overflow_events :: u64
  ex_staleness_events :: u64
  ex_stale_reason :: string
  ex_fence_reason :: string
  ex_failure_reason :: string

section \<open>Collecting an explanation\<close>

text \<open>The occupancy, reclassified at the instant of the explanation.\<close>

definition explained_occupancy :: "fabric_config \<Rightarrow> nanos \<Rightarrow> queue_record \<Rightarrow> occupancy_state" where
  "explained_occupancy config now q =
     (qr_occupancy q)\<lparr>oc_age := occupancy_age now (oc_observed_at (qr_occupancy q)),
       oc_freshness := classify_freshness (qr_occupancy q) now (occupancy_policy_for config q)
                         (qd_generation (qr_def q))\<rparr>"

definition explained_verification :: "'j fabric \<Rightarrow> queue_record \<Rightarrow> backend_verification" where
  "explained_verification f q =
     (let applied_backend = (if id_valid (ba_backend (qr_applied q)) then ba_backend (qr_applied q)
                             else bo_backend (de_backend (dr_evidence (qr_drain q))))
      in case find_live_backend f (qd_resource (qr_def q)) applied_backend of
           Some live \<Rightarrow> verify_backend_applied (qr_applied q) live (fb_epoch f) (qd_generation (qr_def q))
                          (qd_cls (qr_def q))
         | None \<Rightarrow> \<lparr>bv_verified = False, bv_code = Code_stale_incarnation,
                    bv_rule = ''backend-incarnation-not-live''\<rparr>)"

definition explained_stale_reason :: "queue_record \<Rightarrow> occupancy_state \<Rightarrow> string" where
  "explained_stale_reason q occ =
     (if oc_present (qr_occupancy q) \<and> oc_freshness occ \<noteq> Fr_fresh then freshness_name (oc_freshness occ)
      else if has_flag (qr_applicability q) App_stale then ''evidence-requires-revalidation''
      else [])"

definition explained_fence_reason :: "queue_record \<Rightarrow> string" where
  "explained_fence_reason q =
     (if fs_fenced (qr_fence q)
      then (if fs_reason (qr_fence q) = [] then ''fenced'' else fs_reason (qr_fence q))
      else [])"

definition explain :: "QueueId \<Rightarrow> OwnerId \<Rightarrow> 'j fabric \<Rightarrow> explanation result \<times> 'j fabric" where
  "explain queue_id who f =
     (case find_queue f queue_id of
        None \<Rightarrow> (Inl (Status Code_not_found ''queue is not declared''), f)
      | Some q \<Rightarrow>
          (case monotonic_now f of (now, f) \<Rightarrow>
             (let resource = find_resource f (qd_resource (qr_def q));
                  pol = occupancy_policy_for (fb_config f) q;
                  who = (if id_valid who then who else qd_owner (qr_def q));
                  occ = explained_occupancy (fb_config f) now q;
                  th = fp_resolve (fc_policy (fb_config f)) (qd_thresholds (qr_def q)) (cb_id (qd_cls (qr_def q)));
                  live_evidence = find_live_backend f (qd_resource (qr_def q))
                                    (bo_backend (de_backend (dr_evidence (qr_drain q))));
                  pending = find (\<lambda>p. pa_queue p = queue_id) (fb_pending f)
              in (Inr \<lparr>ex_queue = qd_id (qr_def q), ex_resource = qd_resource (qr_def q),
                       ex_name = qd_name (qr_def q), ex_lifecycle = qr_lifecycle q,
                       ex_applicability = qr_applicability q, ex_generation = qd_generation (qr_def q),
                       ex_cls = qd_cls (qr_def q), ex_pool = qd_pool (qr_def q), ex_owner = qd_owner (qr_def q),
                       ex_authority_epoch = (case resource of Some x \<Rightarrow> av_epoch (rr_authority x) | None \<Rightarrow> Counter 0),
                       ex_principal_capabilities =
                         (case resource of Some x \<Rightarrow> capabilities_of (rr_authority x) who | None \<Rightarrow> 0),
                       ex_occupancy = occ, ex_thresholds = th,
                       ex_threshold_eval = evaluate_thresholds th (oc_bytes occ) (oc_packets occ)
                                             (oc_freshness occ = Fr_fresh),
                       ex_fence = qr_fence q, ex_drain = qr_drain q,
                       ex_drain_assessment = assess_drain (qr_drain q) occ live_evidence (fb_epoch f) pol now,
                       ex_applied = qr_applied q, ex_backend_verification = explained_verification f q,
                       ex_pending_attempt = (case pending of Some p \<Rightarrow> pa_attempt p | None \<Rightarrow> no_attempt),
                       ex_pending_kind = (case pending of Some p \<Rightarrow> mutation_kind_name (pa_kind p) | None \<Rightarrow> ''none''),
                       ex_last_attempt = qr_last_attempt q, ex_last_rule = qr_last_rule q,
                       ex_last_status = qr_last_status q, ex_mutation_count = qr_mutation_count q,
                       ex_replayed_count = qr_replayed_count q, ex_rejected_count = qr_rejected_count q,
                       ex_overflow_events = qr_overflow_events q, ex_staleness_events = qr_staleness_events q,
                       ex_stale_reason = explained_stale_reason q occ,
                       ex_fence_reason = explained_fence_reason q,
                       ex_failure_reason = qr_failure_reason q\<rparr>, f))))"

section \<open>Bounded text\<close>

definition kTruncated :: string where
  "kTruncated = CHR 0x0A # ''... explanation truncated at configured bound''"

definition text_append :: "string \<Rightarrow> string \<Rightarrow> string" where
  "text_append target piece =
     (if length target \<ge> kMaxExplainBytes then target
      else target @ take (kMaxExplainBytes - length target) piece)"

definition append_field :: "string \<Rightarrow> string \<Rightarrow> string \<Rightarrow> string" where
  "append_field target key value =
     text_append (text_append (text_append (text_append target key) ''='') value) '' ''"

definition hex :: "u64 \<Rightarrow> string" where
  "hex value = ''0x'' @ map (\<lambda>i. kDigits ! unat (drop_bit (4 * (15 - i)) value AND 0xF)) [0..<16]"

definition decimal :: "u64 \<Rightarrow> string" where
  "decimal value = dec_string (unat value)"

definition nanos_text :: "nanos \<Rightarrow> string" where
  "nanos_text t = decimal (word_of_int t)"

definition bool_text :: "bool \<Rightarrow> string" where
  "bool_text b = (if b then ''true'' else ''false'')"

section \<open>The two renderings\<close>

text \<open>
  A line of the rendering: its heading, then its fields in order. The lines follow the calls of
  \<^verbatim>\<open>render\<close> one by one.
\<close>

definition append_line :: "string \<Rightarrow> (string \<times> string) list \<Rightarrow> string \<Rightarrow> string" where
  "append_line heading fs target =
     foldl (\<lambda>out (key, value). append_field out key value) (text_append target heading) fs"

definition nl :: "string \<Rightarrow> string" where
  "nl heading = CHR 0x0A # heading"

definition identity_fields :: "explanation \<Rightarrow> (string \<times> string) list" where
  "identity_fields e =
     [(''name'', ex_name e), (''resource'', hex (id_value (ex_resource e))),
      (''lifecycle'', lifecycle_name (ex_lifecycle e)), (''applicability'', applicability_name (ex_applicability e)),
      (''generation'', hex (ctr_value (ex_generation e))), (''owner'', hex (id_value (ex_owner e)))]"

definition binding_fields :: "explanation \<Rightarrow> (string \<times> string) list" where
  "binding_fields e =
     [(''class'', hex (id_value (cb_id (ex_cls e)))), (''class_generation'', hex (ctr_value (cb_generation (ex_cls e)))),
      (''pool'', hex (id_value (pr_id (ex_pool e)))), (''pool_generation'', hex (ctr_value (pr_generation (ex_pool e)))),
      (''pool_capacity_bytes'', decimal (pr_capacity_bytes (ex_pool e)))]"

definition authority_fields :: "explanation \<Rightarrow> (string \<times> string) list" where
  "authority_fields e =
     [(''epoch'', hex (ctr_value (ex_authority_epoch e))),
      (''principal_capabilities'', hex (ucast (ex_principal_capabilities e)))]"

definition occupancy_fields :: "explanation \<Rightarrow> (string \<times> string) list" where
  "occupancy_fields e = (let occ = ex_occupancy e in
     [(''present'', bool_text (oc_present occ)), (''bytes'', decimal (oc_bytes occ)),
      (''packets'', decimal (oc_packets occ)), (''observed_at_ns'', nanos_text (oc_observed_at occ)),
      (''age_ns'', nanos_text (oc_age occ)), (''sequence'', hex (ctr_value (oc_sequence occ))),
      (''freshness'', freshness_name (oc_freshness occ))])"

definition threshold_fields :: "explanation \<Rightarrow> (string \<times> string) list" where
  "threshold_fields e = (let th = ex_thresholds e; ev = ex_threshold_eval e in
     [(''low_watermark_bytes'', decimal (th_low_watermark_bytes th)),
      (''high_watermark_bytes'', decimal (th_high_watermark_bytes th)),
      (''max_occupancy_bytes'', decimal (th_max_occupancy_bytes th)), (''max_packets'', decimal (th_max_packets th)),
      (''stale_after_ns'', nanos_text (th_occupancy_stale_after th)), (''band'', threshold_band_name (te_band ev)),
      (''admission'', if te_admission_authorized ev then ''authorized'' else ''refused''),
      (''headroom_bytes'', decimal (te_headroom_bytes ev)), (''threshold_rule'', te_rule ev)])"

definition fence_fields :: "explanation \<Rightarrow> (string \<times> string) list" where
  "fence_fields e =
     [(''fenced'', bool_text (fs_fenced (ex_fence e))), (''token'', decimal (fs_token (ex_fence e))),
      (''epoch'', hex (ctr_value (fs_epoch (ex_fence e)))), (''reason'', ex_fence_reason e)]"

definition drain_fields :: "explanation \<Rightarrow> (string \<times> string) list" where
  "drain_fields e = (let d = ex_drain e in
     [(''phase'', drain_phase_name (dr_phase d)), (''attempt'', attempt_to_string (dr_attempt d)),
      (''requested_at_ns'', nanos_text (dr_requested_at d)),
      (''evidence_records'', decimal (ucast (de_records (dr_evidence d)))),
      (''evidence_revalidated'', bool_text (de_revalidated (dr_evidence d))),
      (''completable'', bool_text (da_completable (ex_drain_assessment e))),
      (''drain_rule'', da_rule (ex_drain_assessment e))])"

definition backend_fields :: "explanation \<Rightarrow> (string \<times> string) list" where
  "backend_fields e = (let a = ex_applied e; v = ex_backend_verification e in
     [(''known'', bool_text (ba_known a)), (''backend'', hex (id_value (ba_backend a))),
      (''backend_incarnation'', hex (ctr_value (ba_backend_incarnation a))),
      (''ack_epoch'', hex (ctr_value (ba_epoch a))), (''verified'', bool_text (bv_verified v)),
      (''verification_rule'', bv_rule v)])"

definition mutation_fields :: "explanation \<Rightarrow> (string \<times> string) list" where
  "mutation_fields e =
     [(''pending_attempt'', attempt_to_string (ex_pending_attempt e)), (''pending_kind'', ex_pending_kind e),
      (''last_attempt'', attempt_to_string (ex_last_attempt e)), (''last_rule'', ex_last_rule e),
      (''last_status'', status_to_string (ex_last_status e)), (''applied'', decimal (ex_mutation_count e)),
      (''replayed'', decimal (ex_replayed_count e)), (''rejected'', decimal (ex_rejected_count e)),
      (''overflow_events'', decimal (ex_overflow_events e)),
      (''staleness_events'', decimal (ex_staleness_events e))]"

definition reason_fields :: "explanation \<Rightarrow> (string \<times> string) list" where
  "reason_fields e =
     [(''stale_reason'', ex_stale_reason e), (''fence_reason'', ex_fence_reason e),
      (''failure_reason'', ex_failure_reason e)]"

definition explanation_lines :: "explanation \<Rightarrow> (string \<times> (string \<times> string) list) list" where
  "explanation_lines e =
     [(''queue '', []), (hex (id_value (ex_queue e)), []),
      (nl ''  identity: '', identity_fields e), (nl ''  binding: '', binding_fields e),
      (nl ''  authority: '', authority_fields e), (nl ''  occupancy: '', occupancy_fields e),
      (nl ''  thresholds: '', threshold_fields e), (nl ''  fence: '', fence_fields e),
      (nl ''  drain: '', drain_fields e), (nl ''  backend: '', backend_fields e),
      (nl ''  mutation: '', mutation_fields e), (nl ''  reasons: '', reason_fields e)]"

definition render :: "explanation \<Rightarrow> string" where
  "render e =
     (let out = foldl (\<lambda>out (heading, fs). append_line heading fs out) [] (explanation_lines e)
      in if length out \<ge> kMaxExplainBytes then take (kMaxExplainBytes - 64) out @ kTruncated else out)"

definition quote :: string where "quote = [CHR 0x22]"

definition json_pieces :: "explanation \<Rightarrow> string list" where
  "json_pieces e =
     [''{'' @ quote @ ''queue'' @ quote @ '':'' @ quote, hex (id_value (ex_queue e)),
      quote @ '','' @ quote @ ''name'' @ quote @ '':'' @ quote, ex_name e,
      quote @ '','' @ quote @ ''lifecycle'' @ quote @ '':'' @ quote, lifecycle_name (ex_lifecycle e),
      quote @ '','' @ quote @ ''applicability'' @ quote @ '':'' @ quote, applicability_name (ex_applicability e),
      quote @ '','' @ quote @ ''generation'' @ quote @ '':'' @ quote, hex (ctr_value (ex_generation e)),
      quote @ '','' @ quote @ ''class'' @ quote @ '':'' @ quote, hex (id_value (cb_id (ex_cls e))),
      quote @ '','' @ quote @ ''class_generation'' @ quote @ '':'' @ quote, hex (ctr_value (cb_generation (ex_cls e))),
      quote @ '','' @ quote @ ''occupancy_freshness'' @ quote @ '':'' @ quote,
      freshness_name (oc_freshness (ex_occupancy e)),
      quote @ '','' @ quote @ ''occupancy_bytes'' @ quote @ '':'', decimal (oc_bytes (ex_occupancy e)),
      '','' @ quote @ ''band'' @ quote @ '':'' @ quote, threshold_band_name (te_band (ex_threshold_eval e)),
      quote @ '','' @ quote @ ''admission'' @ quote @ '':'', bool_text (te_admission_authorized (ex_threshold_eval e)),
      '','' @ quote @ ''drain_phase'' @ quote @ '':'' @ quote, drain_phase_name (dr_phase (ex_drain e)),
      quote @ '','' @ quote @ ''drain_completable'' @ quote @ '':'', bool_text (da_completable (ex_drain_assessment e)),
      '','' @ quote @ ''fenced'' @ quote @ '':'', bool_text (fs_fenced (ex_fence e)),
      '','' @ quote @ ''backend_verified'' @ quote @ '':'', bool_text (bv_verified (ex_backend_verification e)),
      '','' @ quote @ ''stale_reason'' @ quote @ '':'' @ quote, ex_stale_reason e,
      quote @ '','' @ quote @ ''last_rule'' @ quote @ '':'' @ quote, ex_last_rule e,
      quote @ ''}'']"

definition to_json_like :: "explanation \<Rightarrow> string" where
  "to_json_like e = foldl text_append [] (json_pieces e)"

section \<open>The bound on the text\<close>

text \<open>What the calls would produce without a bound; appending then only ever keeps a prefix of it.\<close>

definition field_text :: "string \<times> string \<Rightarrow> string" where
  "field_text kv = fst kv @ ''='' @ snd kv @ '' ''"

definition line_text :: "string \<times> (string \<times> string) list \<Rightarrow> string" where
  "line_text line = fst line @ concat (map field_text (snd line))"

definition full_text :: "explanation \<Rightarrow> string" where
  "full_text e = concat (map line_text (explanation_lines e))"

lemma text_append_take:
  "text_append (take kMaxExplainBytes s) piece = take kMaxExplainBytes (s @ piece)"
  by (cases "length s \<ge> kMaxExplainBytes") (simp_all add: text_append_def)

lemma append_field_take:
  "append_field (take kMaxExplainBytes s) key value = take kMaxExplainBytes (s @ field_text (key, value))"
  by (simp only: append_field_def text_append_take) (simp add: field_text_def)

lemma append_fields_take:
  "foldl (\<lambda>out (key, value). append_field out key value) (take kMaxExplainBytes s) fs =
     take kMaxExplainBytes (s @ concat (map field_text fs))"
  by (induction fs arbitrary: s) (simp_all add: split_beta append_field_take del: take_append)

lemma append_line_take:
  "append_line heading fs (take kMaxExplainBytes s) = take kMaxExplainBytes (s @ line_text (heading, fs))"
  by (simp add: append_line_def text_append_take append_fields_take line_text_def del: take_append)

lemma append_lines_take:
  "foldl (\<lambda>out (heading, fs). append_line heading fs out) (take kMaxExplainBytes s) ls =
     take kMaxExplainBytes (s @ concat (map line_text ls))"
  by (induction ls arbitrary: s) (simp_all add: split_beta append_line_take del: take_append)

lemma text_appends_take:
  "foldl text_append (take kMaxExplainBytes s) pieces = take kMaxExplainBytes (s @ concat pieces)"
  by (induction pieces arbitrary: s) (simp_all add: text_append_take del: take_append)

lemma render_text:
  "render e = (if length (full_text e) < kMaxExplainBytes then full_text e
               else take (kMaxExplainBytes - 64) (full_text e) @ kTruncated)"
  using append_lines_take [of "[]" "explanation_lines e"]
  by (simp add: render_def full_text_def min_def)

lemma length_kTruncated: "length kTruncated = 46"
  by (simp add: kTruncated_def)

lemma to_json_like_text: "to_json_like e = take kMaxExplainBytes (concat (json_pieces e))"
  using text_appends_take [of "[]"] by (simp add: to_json_like_def)

section \<open>Nothing is lost of an ordinary explanation\<close>

text \<open>
  A field takes at most 256 characters when its texts have at most 192; an explanation of such fields
  stays below the bound.
\<close>

definition short :: "string \<Rightarrow> bool" where
  "short s \<longleftrightarrow> length s \<le> 192"

definition explanation_short :: "explanation \<Rightarrow> bool" where
  "explanation_short e \<longleftrightarrow> short (ex_name e) \<and> short (te_rule (ex_threshold_eval e))
     \<and> short (da_rule (ex_drain_assessment e)) \<and> short (bv_rule (ex_backend_verification e))
     \<and> short (ex_pending_kind e) \<and> short (ex_last_rule e) \<and> short (st_message (ex_last_status e))
     \<and> short (ex_stale_reason e) \<and> short (ex_fence_reason e) \<and> short (ex_failure_reason e)"

lemma length_decimal: "length (decimal v) \<le> 20"
proof -
  have "unat v < 10 ^ 20"
    using unat_lt_exp [of v] by simp
  then show ?thesis
    using length_dec_string [of "unat v" 20] by (simp add: decimal_def)
qed

lemma length_hex: "length (hex v) = 18"
  by (simp add: hex_def)

lemma length_attempt: "length (attempt_to_string a) \<le> 39"
  using length_decimal [of "at_counter a"]
  by (simp add: attempt_to_string_def id_to_string_def format_hex16_def decimal_def)

lemma length_lifecycle_name: "length (lifecycle_name l) \<le> 40"
  by (cases l) simp_all

lemma length_freshness_name: "length (freshness_name fr) \<le> 40"
  by (cases fr) simp_all

lemma length_threshold_band_name: "length (threshold_band_name b) \<le> 40"
  by (cases b) simp_all

lemma length_drain_phase_name: "length (drain_phase_name d) \<le> 40"
  by (cases d) simp_all

lemma length_flag_names: "length (applicability_name ap) \<le> 40" "length (bool_text tr) \<le> 40"
  by (auto simp: applicability_name_def bool_text_def Let_def)

lemma length_code_name: "length (code_name c) \<le> 40"
  by (cases c) simp_all

lemma length_status: "short (st_message s) \<Longrightarrow> length (status_to_string s) \<le> 234"
  using length_code_name [of "st_code s"] by (auto simp: status_to_string_def short_def)

lemma length_values:
  "length (decimal v) \<le> 234" "length (nanos_text t) \<le> 234" "length (hex v) \<le> 234"
  "length (attempt_to_string a) \<le> 234" "length (lifecycle_name l) \<le> 234" "length (freshness_name fr) \<le> 234"
  "length (threshold_band_name b) \<le> 234" "length (drain_phase_name d) \<le> 234" "length (applicability_name ap) \<le> 234"
  "length (bool_text tr) \<le> 234" "short s \<Longrightarrow> length s \<le> 234"
  using length_decimal [of v] length_decimal [of "word_of_int t"] length_attempt [of a]
    length_lifecycle_name [of l] length_freshness_name [of fr] length_threshold_band_name [of b]
    length_drain_phase_name [of d] length_flag_names(1) [of ap] length_flag_names(2) [of tr]
  by (simp_all add: nanos_text_def length_hex short_def)

definition field_small :: "string \<times> string \<Rightarrow> bool" where
  "field_small kv \<longleftrightarrow> length (fst kv) \<le> 22 \<and> length (snd kv) \<le> 234"

lemma small_fields: "list_all field_small fs \<Longrightarrow> length (concat (map field_text fs)) \<le> 258 * length fs"
  by (induction fs) (auto simp: field_text_def field_small_def)

lemmas field_defs = identity_fields_def binding_fields_def authority_fields_def occupancy_fields_def
  threshold_fields_def fence_fields_def drain_fields_def backend_fields_def mutation_fields_def reason_fields_def

lemma explanation_fields_small:
  assumes "explanation_short e"
  shows "list_all (\<lambda>line. list_all field_small (snd line)) (explanation_lines e)"
  using assms
  by (simp add: explanation_lines_def field_defs field_small_def explanation_short_def length_values length_status Let_def)

lemma line_lengths:
  assumes "list_all (\<lambda>line. list_all field_small (snd line)) ls" "list_all (\<lambda>line. length (fst line) \<le> 18) ls"
  shows "length (concat (map line_text ls)) \<le> 18 * length ls + 258 * sum_list (map (\<lambda>line. length (snd line)) ls)"
  using assms
proof (induction ls)
  case (Cons line ls)
  then show ?case
    using small_fields [of "snd line"] by (simp add: line_text_def)
qed simp

lemma short_explanation_complete:
  assumes "explanation_short e"
  shows "render e = full_text e"
proof -
  have "list_all (\<lambda>line. length (fst line) \<le> 18) (explanation_lines e)"
    by (simp add: explanation_lines_def nl_def length_hex)
  moreover have "sum_list (map (\<lambda>line. length (snd line)) (explanation_lines e)) = 59" "length (explanation_lines e) = 12"
    by (simp_all add: explanation_lines_def field_defs Let_def)
  ultimately have "length (full_text e) \<le> 18 * 12 + 258 * 59"
    using line_lengths [OF explanation_fields_small [OF assms]] unfolding full_text_def by metis
  then show ?thesis
    by (simp add: render_text kMaxExplainBytes_def)
qed

section \<open>What an explanation says\<close>

lemma explain_found:
  assumes "find_queue f i = Some q"
  shows "\<exists>e. explain i p f = (Inr e, snd (monotonic_now f))"
  using assms by (simp add: explain_def split_beta Let_def)

lemma monotonic_now_finds [simp]:
  "find_live_backend (snd (monotonic_now f)) r b = find_live_backend f r b"
  "find_resource (snd (monotonic_now f)) r = find_resource f r"
  "fb_epoch (snd (monotonic_now f)) = fb_epoch f" "fb_config (snd (monotonic_now f)) = fb_config f"
  by (simp_all add: monotonic_now_def find_live_backend_def find_resource_def Let_def)

text \<open>The drain assessment of an explanation and the one that decides a quiesce read the same evidence.\<close>

lemma assess_drain_freshness:
  assumes "oc_freshness occ = Fr_fresh \<longleftrightarrow> fr = Fr_fresh"
  shows "da_completable (assess_drain d (occ\<lparr>oc_age := a, oc_freshness := fr\<rparr>) live ep pol now) =
         da_completable (assess_drain d occ live ep pol now)"
  using assms by (auto simp: assess_drain_def assess_drain_occupancy_def split: option.splits)

lemma explained_verification_iff:
  assumes "bo_backend (de_backend (dr_evidence (qr_drain q))) = b"
  shows "bv_verified (explained_verification f q) \<and> ba_backend (qr_applied q) = b \<longleftrightarrow>
    (\<exists>l. find_live_backend f (qd_resource (qr_def q)) b = Some l
       \<and> bv_verified (verify_backend_applied (qr_applied q) l (fb_epoch f) (qd_generation (qr_def q)) (qd_cls (qr_def q))))"
proof -
  have live: "bi_backend l = b" if "find_live_backend f (qd_resource (qr_def q)) b = Some l" for l
    using that by (auto simp: find_live_backend_def dest!: find_Some_iff_mem split: option.splits if_splits)
  show ?thesis
  proof (cases "ba_backend (qr_applied q) = b")
    case True
    then show ?thesis
      using assms by (auto simp: explained_verification_def split: option.splits)
  next
    case False
    then show ?thesis
      using live by (auto simp: verify_backend_iff)
  qed
qed

lemma explain_drain:
  assumes "explain i p f = (Inr e, f')" "find_queue f i = Some q"
    and "oc_freshness (qr_occupancy q) = Fr_fresh \<longleftrightarrow> oc_freshness (ex_occupancy e) = Fr_fresh"
  shows "quiesce_evidence f (fst (monotonic_now f)) q \<longleftrightarrow>
    da_completable (ex_drain_assessment e)
    \<and> (fp_require_backend_ack_for_drain (fc_policy (fb_config f)) \<longrightarrow>
         bv_verified (ex_backend_verification e)
         \<and> ba_backend (ex_applied e) = bo_backend (de_backend (dr_evidence (ex_drain e))))"
proof -
  let ?now = "fst (monotonic_now f)" and ?b = "bo_backend (de_backend (dr_evidence (qr_drain q)))"
  have e: "ex_occupancy e = explained_occupancy (fb_config f) ?now q" "ex_drain e = qr_drain q"
      "ex_applied e = qr_applied q" "ex_backend_verification e = explained_verification (snd (monotonic_now f)) q"
      "ex_drain_assessment e = assess_drain (qr_drain q) (ex_occupancy e)
         (find_live_backend f (qd_resource (qr_def q)) ?b) (fb_epoch f) (occupancy_policy_for (fb_config f) q) ?now"
    using assms(1,2) by (auto simp: explain_def split_beta Let_def)
  have "da_completable (ex_drain_assessment e) =
      da_completable (assess_drain (qr_drain q) (qr_occupancy q)
        (find_live_backend f (qd_resource (qr_def q)) ?b) (fb_epoch f) (occupancy_policy_for (fb_config f) q) ?now)"
    using assms(3) unfolding e(5) e(1) explained_occupancy_def by (intro assess_drain_freshness) simp
  moreover have "explained_verification (snd (monotonic_now f)) q = explained_verification f q"
    by (simp add: explained_verification_def split: option.split)
  ultimately show ?thesis
    using explained_verification_iff [OF refl, of f q] by (simp add: quiesce_evidence_def e Let_def)
qed

lemma explain_result:
  assumes "explain i p f = (Inr e, f')"
  shows "core f' = core f" "\<exists>q. find_queue f i = Some q"
  using assms by (auto simp: explain_def split_beta Let_def core_def monotonic_now_def split: option.splits)

text \<open>The rules and names of an explanation are literals, so its length depends on the texts of the queue alone.\<close>

definition queue_texts_short :: "queue_record \<Rightarrow> bool" where
  "queue_texts_short q \<longleftrightarrow> short (qd_name (qr_def q)) \<and> short (qr_last_rule q) \<and> short (st_message (qr_last_status q))
     \<and> short (fs_reason (qr_fence q)) \<and> short (qr_failure_reason q)"

lemma short_rules:
  "short (te_rule (evaluate_thresholds th b p fresh))" "short (bv_rule (verify_backend_applied a live e g k))"
  "short (da_rule (assess_drain d occ lv e pol now))" "short (bv_rule (explained_verification f q))"
proof -
  show v: "short (bv_rule (verify_backend_applied a live e g k))" for a live e g k
    by (simp add: verify_backend_applied_def short_def)
  show "short (te_rule (evaluate_thresholds th b p fresh))"
    by (simp add: evaluate_thresholds_def short_def Let_def)
  show "short (bv_rule (explained_verification f q))"
    using v by (simp add: explained_verification_def short_def Let_def split: option.split)
  have "short (da_rule (assess_drain_occupancy d occ pol now))"
    by (simp add: assess_drain_occupancy_def short_def)
  moreover have "assess_drain_backend d lv e = Some x \<Longrightarrow> short (da_rule x)" for x
    by (auto simp: assess_drain_backend_def short_def Let_def split: if_splits option.splits)
  ultimately show "short (da_rule (assess_drain d occ lv e pol now))"
    by (auto simp: assess_drain_def split: option.split) (simp_all add: short_def)
qed

lemma short_kind_name: "short (mutation_kind_name k)"
  by (cases k) (simp_all add: short_def)

lemma explain_short:
  assumes "explain i p f = (Inr e, f')" "find_queue f i = Some q" "queue_texts_short q"
  shows "explanation_short e"
proof -
  have "short (freshness_name fr)" for fr
    using length_freshness_name [of fr] by (simp add: short_def)
  then have reasons: "short (explained_stale_reason q occ)" "short (explained_fence_reason q)" for occ
    using assms(3) by (auto simp: explained_stale_reason_def explained_fence_reason_def queue_texts_short_def)
      (simp_all add: short_def)
  have "short ''none''"
    by (simp add: short_def)
  then show ?thesis
    using assms reasons
    by (auto simp: explain_def split_beta Let_def explanation_short_def short_rules short_kind_name queue_texts_short_def split: option.split)
qed

end
