(* ===== verification/QF_ServerScenario.thy ===== *)
theory QF_ServerScenario
  imports QF_DiskScenario QF_Exchange QF_Cycle QF_Explain
begin

text \<open>
  A server around the concrete fabric of \<open>QF_Scenario\<close>, with one admitted publisher and one peer that
  has not said hello, and a client: the instances on which the properties of the server and of the
  client are exercised.
\<close>

definition demo_server_config :: coordinator_config where
  "demo_server_config = \<lparr>cc_fabric = default_config, cc_journal_path = [], cc_sync_on_commit = True, cc_heartbeat_deadline = 5000000000,
     cc_max_connections = 256, cc_max_frames_per_cycle = 512, cc_receive_buffer_bytes = 65536\<rparr>"

definition demo_socket :: "rx list \<Rightarrow> transport" where
  "demo_socket inbox = \<lparr>tp_open = True, tp_peer = ''p'', tp_out = [], tp_bytes_sent = 0, tp_send_outcome = (\<lambda>_. Tx_sent 7), tp_sends = 0, tp_error = [],
     tp_in = inbox\<rparr>"

definition demo_started :: "memory_journal coordinator" where
  "demo_started = snd (server_start memory_ops success (new_coordinator demo_server_config (\<lambda>_. 0) (\<lambda>_. 0) None None 1))"

lemma demo_server_ok: "config_ok (coordinator_fabric_config demo_server_config)"
  by (simp add: config_ok_def coordinator_fabric_config_def demo_server_config_def default_config_def default_limits_def limit_defs)

lemma demo_started_served: "served memory_ops demo_server_config demo_started"
proof (rule served.started [OF _ ok_success])
  show "server_start memory_ops success (new_coordinator demo_server_config (\<lambda>_. 0) (\<lambda>_. 0) None None 1) = (success, demo_started)"
    by (simp add: demo_started_def server_start_def new_coordinator_def new_fabric_def recover_def recover_locked_def Let_def
        demo_server_config_def note_recovery_def split_beta)
qed simp

text \<open>The publisher of the queue and a peer that has just connected.\<close>

definition demo_publisher :: connection where
  "demo_publisher = \<lparr>cn_id = 1, cn_transport = demo_socket [], cn_decoder = new_decoder kMaxFramePayloadBytes,
     cn_session = (new_session 1 ''p'' 0)\<lparr>ws_handshaken := True, ws_role := Role_worker, ws_node := Ident 3, ws_incarnation := Counter 4,
       ws_boot := \<lparr>boot_hi = 1, boot_lo = 1\<rparr>, ws_epoch := Counter 1\<rparr>,
     cn_queues = [Ident 1], cn_closing = False\<rparr>"

definition demo_peer :: "rx list \<Rightarrow> connection" where
  "demo_peer inbox = \<lparr>cn_id = 2, cn_transport = demo_socket inbox, cn_decoder = new_decoder kMaxFramePayloadBytes,
     cn_session = new_session 2 ''q'' 0, cn_queues = [], cn_closing = False\<rparr>"

definition demo_server :: "rx list \<Rightarrow> memory_journal coordinator" where
  "demo_server inbox = \<lparr>cd_config = demo_server_config, cd_clock = (\<lambda>_. 0), cd_ticks = 0, cd_fabric = demo_fabric None active_queue,
     cd_listening = True, cd_connections = [demo_publisher, demo_peer inbox], cd_resource_principals = um_empty,
     cd_stats = no_coordinator_stats, cd_next_connection_id = 3, cd_outbound_sequence = 0, cd_stopped = False\<rparr>"

lemma demo_conn [simp]:
  "conn 0 (demo_server inbox) = demo_publisher" "conn (Suc 0) (demo_server inbox) = demo_peer inbox"
  "length (cd_connections (demo_server inbox)) = 2" "cd_fabric (demo_server inbox) = demo_fabric None active_queue"
  "cd_config (demo_server inbox) = demo_server_config"
  by (simp_all add: conn_def demo_server_def)

lemma demo_server_inv: "server_inv demo_server_config (demo_server inbox)"
proof -
  have "coordinator_fabric_config demo_server_config = default_config" "fb_config (demo_fabric (None :: memory_journal option) active_queue) = default_config"
    by (simp_all add: coordinator_fabric_config_def demo_server_config_def demo_fabric_def new_fabric_def)
  moreover have "authorities_current (demo_fabric (None :: memory_journal option) active_queue)"
    by (simp add: authorities_current_def demo_fabric_def demo_resource_def new_fabric_def ctr_valid_def)
  ultimately show ?thesis
    using demo_wf [of "None :: memory_journal option"] demo_server_ok
    by (simp add: server_inv_def fabric_wf_def cache_ok_def conn_wf_def session_wf_def demo_server_def demo_publisher_def demo_peer_def
        new_session_def new_decoder_wf demo_socket_def kMaxSubscribeQueues_def id_valid_def ctr_valid_def boot_valid_def)
qed

definition demo_worker_config :: worker_config where
  "demo_worker_config = \<lparr>wc_node = Ident 9, wc_incarnation = Counter 1, wc_epoch = Counter 1, wc_boot = no_boot, wc_name = ''w'',
     wc_role = Role_worker, wc_receive_buffer_bytes = 65536\<rparr>"

definition demo_worker :: "rx list \<Rightarrow> worker" where
  "demo_worker inbox = snd (wk_connect (Inr (demo_socket inbox)) (new_worker demo_worker_config))"

lemma demo_worker [simp]:
  "wk_config (demo_worker inbox) = demo_worker_config" "wk_transport (demo_worker inbox) = demo_socket inbox"
  "fd_ready kMaxFramePayloadBytes [] (wk_decoder (demo_worker inbox))" "wc_receive_buffer_bytes demo_worker_config = 65536"
  "wire_sequence (demo_worker inbox) = 1"
  by (simp_all add: demo_worker_def wk_connect_def new_worker_def fd_ready_def fd_reset_def new_decoder_def demo_worker_config_def
      wire_sequence_def)

definition demo_hello_message :: message where
  "demo_hello_message = no_message\<lparr>ms_type := Mt_hello, ms_sequence := 1, ms_hello := hello_of demo_worker_config\<rparr>"

lemma demo_hello [simp]:
  "rt_hello (hello_of demo_worker_config)" "hello_message (demo_worker inbox) = demo_hello_message" "rt_message demo_hello_message"
  "ms_hello demo_hello_message = hello_of demo_worker_config"
  by (simp_all add: rt_hello_def hello_of_def demo_worker_config_def name_fits_def kMaxNameChars_def hello_message_def
      demo_hello_message_def rt_message_def)

lemma demo_admissible: "admissible (hello_of demo_worker_config) (demo_server inbox)"
  by (simp add: admissible_def hello_of_def demo_worker_config_def demo_server_def demo_publisher_def demo_peer_def new_session_def
      id_valid_def ctr_valid_def boot_valid_def no_boot_def demo_fabric_def)

lemma demo_listening: "listening (Suc 0) (demo_server inbox)"
  by (simp add: listening_def tp_reliable_def demo_peer_def demo_socket_def demo_server_config_def fd_ready_def new_decoder_def)

lemma bytewise [simp]: "list_all (\<lambda>b. b \<noteq> [] \<and> length b \<le> n) (map (\<lambda>b. [b]) xs) \<longleftrightarrow> xs = [] \<or> 0 < n"
  by (cases xs) (auto simp: list_all_iff)

definition demo_hello_bytes :: "bytes" where
  "demo_hello_bytes = wire_bytes demo_hello_message"

lemma demo_hello_short: "demo_hello_bytes \<noteq> [] \<and> length demo_hello_bytes \<le> 65536"
proof -
  have "length (enc_string ''w'') \<le> 130"
    by (rule length_enc_string) (simp add: name_fits_def kMaxNameChars_def)
  then have "length (message_bytes demo_hello_message) \<le> 1000"
    by (simp add: message_bytes_def enc_body_def demo_hello_message_def enc_hello_def hello_of_def demo_worker_config_def)
  then show ?thesis
    unfolding demo_hello_bytes_def using wire_bytes_nonempty [of demo_hello_message]
    by (simp add: wire_bytes_eq message_frame_payload)
qed

section \<open>A mutation over the wire\<close>

text \<open>The server with what its publisher has sent, and the new thresholds as the message of a client.\<close>

definition serving :: "rx list \<Rightarrow> memory_journal coordinator" where
  "serving inbox = on_conn 0 (\<lambda>x. x\<lparr>cn_transport := demo_socket inbox\<rparr>) (demo_server [])"

lemma serving_simps [simp]:
  "conn 0 (serving inbox) = demo_publisher\<lparr>cn_transport := demo_socket inbox\<rparr>" "cd_fabric (serving inbox) = demo_fabric None active_queue"
  "length (cd_connections (serving inbox)) = 2" "cd_config (serving inbox) = demo_server_config"
  by (simp_all add: serving_def conn_on_conn_if frame_simps) (simp_all add: on_conn_def)

lemma serving_listens: "listening 0 (serving inbox)"
  by (simp add: listening_def tp_reliable_def demo_publisher_def demo_socket_def demo_server_config_def fd_ready_def new_decoder_def)

definition demo_mutation :: mutation_request where
  "demo_mutation = demo_request Mk_set_thresholds (Pl_thresholds demo_thresholds)"

lemma demo_mutation_rt: "rt_mutation demo_mutation"
  by (simp add: rt_mutation_def demo_mutation_def demo_request_def rt_payload_def mutation_kind_canonical_enumerator all_mutation_kinds_def
      rt_thresholds_def demo_thresholds_def in_i64_def i64_min_def i64_max_def)

lemma demo_mutation_applied:
  "\<exists>out f'. fabric_apply memory_ops demo_mutation (demo_fabric None active_queue) = (Inr out, f')
     \<and> rt_mutation_response (response_of (mr_attempt demo_mutation) (Inr out))"
proof (rule demo_run [OF demo_redefine refl])
  show "None \<in> {None, Some demo_journal}"
    by simp
  fix out f' q'
  assume out: "fabric_apply memory_ops (demo_request Mk_set_thresholds (Pl_thresholds demo_thresholds)) (demo_fabric None active_queue) = (Inr out, f')"
    "mo_rule out = fst (snd (apply_kind_locked active_queue (demo_request Mk_set_thresholds (Pl_thresholds demo_thresholds)) 6
       (demo_fabric None active_queue)))"
  have "name_fits (mo_rule out)"
    unfolding out(2)
    by (simp add: apply_kind_locked_def kind_set_thresholds_def demo_thresholds_def th_consistent_def active_queue_def
        new_queue_record_def demo_definition_def ctr_next_def invalidate_for_definition_def Let_def name_fits_def kMaxNameChars_def)
  moreover have "code_canonical Code_ok"
    by (simp add: code_canonical_enumerator all_codes_def)
  ultimately show ?thesis
    using out(1) by (simp add: demo_mutation_def rt_mutation_response_def response_of_def)
qed

section \<open>The drained queue, explained\<close>

lemma drained_fresh:
  "classify_freshness (qr_occupancy drained_queue) 6 (occupancy_policy_for (fb_config (demo_fabric jo drained_queue)) drained_queue)
     (qd_generation (qr_def drained_queue)) = Fr_fresh"
  "oc_freshness (qr_occupancy drained_queue) = Fr_fresh"
proof -
  have "fb_config (demo_fabric jo drained_queue) = default_config" "qr_def drained_queue = demo_definition"
    by (simp_all add: demo_fabric_def new_fabric_def drained_queue_def new_queue_record_def)
  then have "occupancy_policy_for (fb_config (demo_fabric jo drained_queue)) drained_queue = default_occupancy_policy\<lparr>op_max_age := op_max_age default_occupancy_policy\<rparr>"
    by (simp add: occupancy_policy_for_def demo_defs default_config_def default_policy_def fp_resolve_def stale_after_for_def
        default_occupancy_policy_def fp_find_class_def Let_def)
  then show "classify_freshness (qr_occupancy drained_queue) 6 (occupancy_policy_for (fb_config (demo_fabric jo drained_queue)) drained_queue)
     (qd_generation (qr_def drained_queue)) = Fr_fresh"
    by (simp add: classify_freshness_def drained_queue_def new_queue_record_def demo_definition_def is_sticky_def
        default_occupancy_policy_def occupancy_age_def)
  show "oc_freshness (qr_occupancy drained_queue) = Fr_fresh"
    by (simp add: drained_queue_def)
qed

end
