(* ===== verification/QF_Program.thy ===== *)
theory QF_Program
  imports QF_Cycle
begin

text \<open>
  \<^verbatim>\<open>tools/qf_coordinator_main.cpp\<close>: the coordinator process. Its arguments, the bootstrap of the
  topology and the service loop with its periodic checkpoint. What differs from run to run (binding
  the listener, writing the ready file, what arrives before a cycle, whether the stop file exists) is
  a parameter. The lemmas say that a bootstrap is idempotent, that the process is only ever in states of
  a served fabric, and that a cycle limit ends it.
\<close>

section \<open>Numbers of the C library\<close>

definition is_space :: "char \<Rightarrow> bool" where
  "is_space ch \<longleftrightarrow> ch \<in> {CHR 0x20, CHR 0x09, CHR 0x0A, CHR 0x0B, CHR 0x0C, CHR 0x0D}"

definition digit_value :: "char \<Rightarrow> nat option" where
  "digit_value ch =
     (let c = of_char ch :: nat in
      if 48 \<le> c \<and> c \<le> 57 then Some (c - 48)
      else if 97 \<le> c \<and> c \<le> 122 then Some (c - 97 + 10)
      else if 65 \<le> c \<and> c \<le> 90 then Some (c - 65 + 10)
      else None)"

definition in_base :: "nat \<Rightarrow> char \<Rightarrow> bool" where
  "in_base b ch \<longleftrightarrow> (case digit_value ch of Some d \<Rightarrow> d < b | None \<Rightarrow> False)"

definition digits_value :: "nat \<Rightarrow> string \<Rightarrow> nat" where
  "digits_value b s = foldl (\<lambda>acc ch. acc * b + the (digit_value ch)) 0 (takeWhile (in_base b) s)"

text \<open>Base 0 reads the base off the prefix.\<close>

definition number_base :: "nat \<Rightarrow> string \<Rightarrow> nat \<times> string" where
  "number_base base s =
     (if base \<noteq> 0 then (base, s)
      else if length s > 2 \<and> s ! 0 = CHR ''0'' \<and> (s ! 1 = CHR ''x'' \<or> s ! 1 = CHR ''X'') \<and> in_base 16 (s ! 2)
      then (16, drop 2 s)
      else if s \<noteq> [] \<and> s ! 0 = CHR ''0'' then (8, s)
      else (10, s))"

definition signed_number :: "nat \<Rightarrow> string \<Rightarrow> bool \<times> nat" where
  "signed_number base text =
     (let s = dropWhile is_space text;
          negative = (s \<noteq> [] \<and> s ! 0 = CHR ''-'');
          s = (if s \<noteq> [] \<and> (s ! 0 = CHR ''-'' \<or> s ! 0 = CHR ''+'') then drop 1 s else s);
          (b, s) = number_base base s
      in (negative, digits_value b s))"

definition strtoull :: "nat \<Rightarrow> string \<Rightarrow> u64" where
  "strtoull base text =
     (case signed_number base text of (negative, v) \<Rightarrow>
        if v > 2 ^ 64 - 1 then 0xFFFFFFFFFFFFFFFF else if negative then - of_nat v else of_nat v)"

definition strtoll :: "nat \<Rightarrow> string \<Rightarrow> int" where
  "strtoll base text =
     (case signed_number base text of (negative, v) \<Rightarrow>
        let i = (if negative then - int v else int v) in max (- (2 ^ 63)) (min (2 ^ 63 - 1) i))"

section \<open>Arguments\<close>

record coordinator_options =
  copt_directory :: string
  copt_ready_file :: string
  copt_stop_file :: string
  copt_host :: string
  copt_port :: u16
  copt_bootstrap :: bool
  copt_durable :: bool
  copt_heartbeat_deadline_ms :: int
  copt_max_cycles :: u64
  copt_compact_every :: u64
  copt_name :: string

definition default_coordinator_options :: coordinator_options where
  "default_coordinator_options = \<lparr>copt_directory = ''.'', copt_ready_file = [], copt_stop_file = [], copt_host = ''127.0.0.1'',
     copt_port = 0, copt_bootstrap = True, copt_durable = True, copt_heartbeat_deadline_ms = 5000, copt_max_cycles = 0,
     copt_compact_every = 250, copt_name = ''coordinator''\<rparr>"

text \<open>\<^verbatim>\<open>next\<close>: the value of an argument, if there is one.\<close>

definition with_value :: "string list \<Rightarrow> (string \<Rightarrow> 'o \<Rightarrow> 'o) \<Rightarrow> 'o \<Rightarrow> string list \<times> 'o" where
  "with_value rest update opts = (case rest of [] \<Rightarrow> ([], opts) | v # rest \<Rightarrow> (rest, update v opts))"

definition coordinator_argument ::
  "string \<Rightarrow> string list \<Rightarrow> coordinator_options \<Rightarrow> (string list \<times> coordinator_options) option" where
  "coordinator_argument argument rest opts =
     (if argument = ''--dir'' then Some (with_value rest (\<lambda>v x. x\<lparr>copt_directory := v\<rparr>) opts)
      else if argument = ''--ready-file'' then Some (with_value rest (\<lambda>v x. x\<lparr>copt_ready_file := v\<rparr>) opts)
      else if argument = ''--stop-file'' then Some (with_value rest (\<lambda>v x. x\<lparr>copt_stop_file := v\<rparr>) opts)
      else if argument = ''--host'' then Some (with_value rest (\<lambda>v x. x\<lparr>copt_host := v\<rparr>) opts)
      else if argument = ''--port'' then Some (with_value rest (\<lambda>v x. x\<lparr>copt_port := ucast (strtoull 10 v)\<rparr>) opts)
      else if argument = ''--heartbeat-deadline-ms''
      then Some (with_value rest (\<lambda>v x. x\<lparr>copt_heartbeat_deadline_ms := strtoll 10 v\<rparr>) opts)
      else if argument = ''--max-cycles'' then Some (with_value rest (\<lambda>v x. x\<lparr>copt_max_cycles := strtoull 10 v\<rparr>) opts)
      else if argument = ''--compact-every'' then Some (with_value rest (\<lambda>v x. x\<lparr>copt_compact_every := strtoull 10 v\<rparr>) opts)
      else if argument = ''--name'' then Some (with_value rest (\<lambda>v x. x\<lparr>copt_name := v\<rparr>) opts)
      else if argument = ''--no-bootstrap'' then Some (rest, opts\<lparr>copt_bootstrap := False\<rparr>)
      else if argument = ''--no-durability'' then Some (rest, opts\<lparr>copt_durable := False\<rparr>)
      else None)"

lemma with_value_length: "length (fst (with_value rest update opts)) \<le> length rest"
  by (simp add: with_value_def split: list.split)

lemma coordinator_argument_length: "coordinator_argument a rest opts = Some (rest', opts') \<Longrightarrow> length rest' \<le> length rest"
  by (auto simp: coordinator_argument_def split: if_splits) (metis fst_conv with_value_length)+

function coordinator_parse :: "string list \<Rightarrow> coordinator_options \<Rightarrow> coordinator_options option" where
  "coordinator_parse [] opts = Some opts"
| "coordinator_parse (argument # rest) opts =
     (case coordinator_argument argument rest opts of
        None \<Rightarrow> None
      | Some (rest', opts') \<Rightarrow> coordinator_parse rest' opts')"
  by pat_completeness auto
termination
  by (relation "measure (\<lambda>(args, opts). length args)") (auto dest!: coordinator_argument_length)

definition program_fabric_config :: "coordinator_options \<Rightarrow> fabric_config" where
  "program_fabric_config opts =
     default_config\<lparr>fc_durable := copt_durable opts,
       fc_policy := default_policy\<lparr>fp_default_thresholds := \<lparr>th_low_watermark_bytes = 1024, th_high_watermark_bytes = 4096,
           th_max_occupancy_bytes = 8192, th_max_packets = 4096, th_occupancy_stale_after = 0\<rparr>,
         fp_occupancy_stale_after := 2000000000\<rparr>,
       fc_occupancy := default_occupancy_policy\<lparr>op_max_age := 2000000000\<rparr>\<rparr>"

definition program_config :: "coordinator_options \<Rightarrow> coordinator_config" where
  "program_config opts =
     \<lparr>cc_fabric = program_fabric_config opts,
      cc_journal_path = (if copt_durable opts then copt_directory opts @ ''/fabric.qfjournal'' else []),
      cc_sync_on_commit = True, cc_heartbeat_deadline = copt_heartbeat_deadline_ms opts * 1000000,
      cc_max_connections = 256, cc_max_frames_per_cycle = 512, cc_receive_buffer_bytes = 65536\<rparr>"

section \<open>Bootstrap\<close>

definition kOwner :: OwnerId where "kOwner = Ident 0x1000"

definition program_provenance :: "'j fabric \<Rightarrow> u64 \<Rightarrow> provenance" where
  "program_provenance f n = \<lparr>pv_publisher = Ident 1, pv_node = Ident 1, pv_incarnation = Counter 1, pv_epoch = fb_epoch f,
     pv_sequence = Counter n, pv_boot = fb_boot f\<rparr>"

definition bootstrap_resource :: "'j journal_ops \<Rightarrow> (nat \<Rightarrow> provenance) \<Rightarrow> 'j fabric \<Rightarrow> ResourceId result \<times> 'j fabric" where
  "bootstrap_resource J prov f =
     (case find_resource_by_name f ''fabric0'' of
        Inr i \<Rightarrow> (Inr i, f)
      | Inl _ \<Rightarrow> declare_resource J ''fabric0'' kOwner (prov 1) f)"

definition bootstrap_class ::
  "'j journal_ops \<Rightarrow> (nat \<Rightarrow> provenance) \<Rightarrow> ResourceId \<Rightarrow> resource_record \<Rightarrow> 'j fabric \<Rightarrow> bool \<times> 'j fabric" where
  "bootstrap_class J prov i current f =
     (if rr_classes current = []
      then (case declare_class J i ''gold'' 7 \<lparr>qos_priority_code = 0, qos_traffic_class = 0, qos_group = []\<rparr> kOwner (fb_epoch f) (prov 2) f of
              (res, f) \<Rightarrow> (\<not> isl res, f))
      else (True, f))"

definition bootstrap_pool ::
  "'j journal_ops \<Rightarrow> (nat \<Rightarrow> provenance) \<Rightarrow> ResourceId \<Rightarrow> resource_record \<Rightarrow> 'j fabric \<Rightarrow> bool \<times> 'j fabric" where
  "bootstrap_pool J prov i current f =
     (if rr_pools current = []
      then (case declare_pool J i ''pool0'' (2 ^ 20) kOwner (fb_epoch f) (prov 3) f of (res, f) \<Rightarrow> (\<not> isl res, f))
      else (True, f))"

text \<open>The result of a failed bootstrap is the exit code of the process.\<close>

definition bootstrap :: "'j journal_ops \<Rightarrow> (nat \<Rightarrow> provenance) \<Rightarrow> 'j fabric \<Rightarrow> (nat + ResourceId) \<times> 'j fabric" where
  "bootstrap J prov f =
     (case bootstrap_resource J prov f of
        (Inl st, f) \<Rightarrow> (Inl 4, f)
      | (Inr i, f) \<Rightarrow>
          (case resource_record_of f i of
             Inl st \<Rightarrow> (Inl 5, f)
           | Inr current \<Rightarrow>
               (case bootstrap_class J prov i current f of
                  (good, f) \<Rightarrow>
                    if \<not> good then (Inl 6, f)
                    else (case bootstrap_pool J prov i current f of
                            (good, f) \<Rightarrow> if \<not> good then (Inl 7, f) else (Inr i, f)))))"

section \<open>The service loop\<close>

text \<open>What happens around one cycle: the bytes that arrive, the connection that waits, whether the stop file is there.\<close>

record surroundings =
  su_arrivals :: "(nat \<times> rx list) list"
  su_pending :: "transport option"
  su_stop_exists :: bool

definition arrive :: "(nat \<times> rx list) list \<Rightarrow> 'j coordinator \<Rightarrow> 'j coordinator" where
  "arrive arrivals c = fold (\<lambda>(i, inbox). on_conn i (\<lambda>x. x\<lparr>cn_transport := (cn_transport x)\<lparr>tp_in := inbox\<rparr>\<rparr>)) arrivals c"

definition checkpoint :: "'j journal_ops \<Rightarrow> coordinator_options \<Rightarrow> u64 \<Rightarrow> 'j coordinator \<Rightarrow> 'j coordinator" where
  "checkpoint J opts cycles c =
     (if copt_compact_every opts \<noteq> 0 \<and> cycles mod copt_compact_every opts = 0
      then c\<lparr>cd_fabric := snd (compact J (cd_fabric c))\<rparr> else c)"

text \<open>The loop, over the surroundings of its cycles; \<open>None\<close> while it is still running at their end.\<close>

fun serve :: "'j journal_ops \<Rightarrow> coordinator_options \<Rightarrow> surroundings list \<Rightarrow> u64 \<Rightarrow> 'j coordinator \<Rightarrow> (u64 \<times> 'j coordinator) option" where
  "serve J opts env cycles c =
     (if cd_stopped c then Some (cycles, c)
      else (case env of
              [] \<Rightarrow> None
            | e # es \<Rightarrow>
                (case run_once J (su_pending e) (arrive (su_arrivals e) c) of
                   (cycle, c) \<Rightarrow>
                     if \<not> ok cycle \<and> st_code cycle \<noteq> Code_shutting_down then Some (cycles, c)
                     else if copt_max_cycles opts \<noteq> 0 \<and> cycles + 1 \<ge> copt_max_cycles opts then Some (cycles + 1, c)
                     else (let c = checkpoint J opts (cycles + 1) c
                           in if copt_stop_file opts \<noteq> [] \<and> su_stop_exists e then Some (cycles + 1, c)
                              else serve J opts es (cycles + 1) c))))"

declare serve.simps [simp del]

text \<open>The process: its exit code and the server at its end. \<open>written\<close> is the outcome of writing the ready file.\<close>

definition coordinator_main ::
  "'j journal_ops \<Rightarrow> coordinator_options \<Rightarrow> status \<Rightarrow> status \<Rightarrow> surroundings list \<Rightarrow> 'j coordinator \<Rightarrow> (nat \<times> 'j coordinator) option" where
  "coordinator_main J opts bound written env c =
     (case server_start J bound c of
        (started, c) \<Rightarrow>
          if \<not> ok started then Some (3, c)
          else (case (if copt_bootstrap opts then bootstrap J (\<lambda>n. program_provenance (cd_fabric c) (of_nat n)) (cd_fabric c)
                      else (Inr (Ident 0), cd_fabric c)) of
                  (Inl code, f) \<Rightarrow> Some (code, c\<lparr>cd_fabric := f\<rparr>)
                | (Inr i, f) \<Rightarrow>
                    (let c = c\<lparr>cd_fabric := f\<rparr>
                     in if copt_ready_file opts \<noteq> [] \<and> \<not> ok written then Some (7, c)
                        else (case serve J opts env 0 c of
                                None \<Rightarrow> None
                              | Some (cycles, c) \<Rightarrow>
                                  (let c = server_stop c
                                   in Some (0, c\<lparr>cd_fabric := snd (fabric_shutdown J (cd_fabric c))\<rparr>))))))"

section \<open>What the process prints\<close>

definition tool_hex :: "u64 \<Rightarrow> string" where
  "tool_hex value = ''0x'' @ map (\<lambda>i. kDigits ! unat (drop_bit (4 * (15 - i)) value AND 0xF)) [0..<16]"

definition lines_text :: "(string \<times> string) list \<Rightarrow> string" where
  "lines_text ls = concat (map (\<lambda>(key, value). key @ ''='' @ value @ [CHR 0x0A]) ls)"

text \<open>The ready file: with a bootstrap it names the resource, its first class and its first pool.\<close>

definition ready_lines :: "u16 \<Rightarrow> string \<Rightarrow> 'j fabric \<Rightarrow> ResourceId option \<Rightarrow> (string \<times> string) list" where
  "ready_lines port journal_path f bootstrapped =
     (let head = [(''port'', dec_string (unat port)), (''epoch'', tool_hex (ctr_value (fb_epoch f))), (''boot'', boot_to_string (fb_boot f))]
      in case bootstrapped of
           None \<Rightarrow> head @ [(''journal'', journal_path)]
         | Some i \<Rightarrow>
             (let classes = (case find_resource f i of Some x \<Rightarrow> rr_classes x | None \<Rightarrow> []);
                  pools = (case find_resource f i of Some x \<Rightarrow> rr_pools x | None \<Rightarrow> [])
              in head @
                 [(''resource'', tool_hex (id_value i)),
                  (''class'', tool_hex (if classes = [] then 0 else id_value (sc_id (classes ! 0)))),
                  (''class_generation'', tool_hex (if classes = [] then 0 else ctr_value (sc_generation (classes ! 0)))),
                  (''pool'', tool_hex (if pools = [] then 0 else id_value (bp_id (pools ! 0)))),
                  (''pool_generation'', tool_hex (if pools = [] then 0 else ctr_value (bp_generation (pools ! 0)))),
                  (''owner'', tool_hex (id_value kOwner)), (''journal'', journal_path)]))"

definition summary_lines :: "u64 \<Rightarrow> 'j coordinator \<Rightarrow> (string \<times> string) list" where
  "summary_lines cycles c =
     (let st = snapshot_stats c; rep = fb_recovery (cd_fabric c); n = (\<lambda>v :: u64. dec_string (unat v))
      in [(''cycles'', n cycles), (''epoch'', tool_hex (ctr_value (fb_epoch (cd_fabric c)))), (''queues'', n (cs_queues st)),
          (''occupancy_accepted'', n (cs_occupancy_accepted st)), (''occupancy_rejected'', n (cs_occupancy_rejected st)),
          (''occupancy_overflow'', n (cs_occupancy_overflow st)), (''mutations_applied'', n (cs_mutations_applied st)),
          (''mutations_rejected'', n (cs_mutations_rejected st)), (''stale_epoch_rejections'', n (cs_stale_epoch_rejections st)),
          (''stale_incarnation_rejections'', n (cs_stale_incarnation_rejections st)),
          (''revalidations_required'', n (cs_revalidations_required st)), (''connections_accepted'', n (cs_connections_accepted st)),
          (''connections_lost'', n (cs_connections_lost st)), (''liveness_expirations'', n (cs_liveness_expirations st)),
          (''orphaned_begins'', dec_string (rp_orphaned_begins rep)), (''records_usable'', dec_string (rp_records_usable rep)),
          (''records_truncated'', dec_string (rp_records_truncated rep)), (''queues_restored'', dec_string (rp_queues_restored rep)),
          (''queues_revalidated'', dec_string (rp_queues_revalidated rep)),
          (''previous_epoch'', tool_hex (ctr_value (rp_previous_epoch rep))), (''previous_boot'', boot_to_string (rp_previous_boot rep)),
          (''current_boot'', boot_to_string (fb_boot (cd_fabric c)))])"

text \<open>A value of the ready file is read back by the C library: the arguments of a worker mean what was printed.\<close>

lemma digit_kDigits: "n < 16 \<Longrightarrow> digit_value (kDigits ! n) = Some n"
proof -
  assume "n < 16"
  then have "n \<in> set [0..<16]" by simp
  moreover have "\<forall>n \<in> set [0..<16]. digit_value (kDigits ! n) = Some n"
    by code_simp
  ultimately show ?thesis by blast
qed

lemma unat_and_15: "unat (w AND 0xF :: u64) = unat w mod 16"
proof -
  have "w AND 0xF = take_bit 4 w"
    by (simp add: take_bit_eq_mask mask_eq_exp_minus_1)
  then show ?thesis
    by (simp only: unsigned_take_bit_eq) (simp add: take_bit_eq_mod)
qed

lemma hex_digits_value:
  "n \<le> 16 \<Longrightarrow>
     foldl (\<lambda>acc ch. acc * 16 + the (digit_value ch)) (unat (drop_bit (4 * n) v))
       (map (\<lambda>i. kDigits ! unat (drop_bit (4 * (15 - i)) v AND 0xF)) [16 - n..<16]) = unat (v :: u64)"
proof (induction n)
  case 0
  then show ?case by simp
next
  case (Suc n)
  have eq: "[16 - Suc n..<16] = (15 - n) # [16 - n..<16]"
    using Suc.prems upt_conv_Cons [of "15 - n" 16] by (simp add: Suc_diff_le [symmetric])
  have n: "15 - (15 - n) = n"
    using Suc.prems by simp
  have "unat (drop_bit (4 * Suc n) v) * 16 + unat (drop_bit (4 * n) v) mod 16 = unat (drop_bit (4 * n) v)"
  proof -
    have "unat v div 2 ^ (4 * Suc n) = unat v div 2 ^ (4 * n) div 16"
      by (simp add: power_add div_mult2_eq mult.commute [of 16])
    then show ?thesis
      by (simp only: unat_drop_bit_eq) (simp only: drop_bit_eq_div div_mult_mod_eq)
  qed
  then show ?case
    using Suc.IH Suc.prems unfolding eq by (simp add: n digit_kDigits unat_and_15)
qed

lemma strtoull_tool_hex: "strtoull 0 (tool_hex v) = v"
proof -
  let ?ds = "map (\<lambda>i. kDigits ! unat (drop_bit (4 * (15 - i)) v AND 0xF)) [0..<16]"
  have base: "in_base 16 (kDigits ! unat (w AND 0xF))" for w :: u64
    by (simp add: in_base_def digit_kDigits unat_nibble)
  have "drop_bit 64 v = 0"
    by (simp add: bit_eq_iff bit_drop_bit_eq)
  then have total: "digits_value 16 ?ds = unat v"
    using hex_digits_value [of 16 v] base by (simp add: digits_value_def takeWhile_eq_all_conv [THEN iffD2])
  have third: "?ds \<noteq> []" "in_base 16 (?ds ! 0)"
    using base by simp_all
  have "number_base 0 (''0x'' @ ?ds) = (16, ?ds)"
    using third by (simp add: number_base_def)
  moreover have "unat v \<le> 2 ^ 64 - 1"
    using unat_lt_exp [of v] by simp
  ultimately show ?thesis
    using total by (simp add: strtoull_def signed_number_def tool_hex_def is_space_def Let_def)
qed

section \<open>Bootstrap is idempotent\<close>

text \<open>What the declarations do to the table of resources.\<close>

lemma persist_resources: "persist J ty bs msg f = (st, g) \<Longrightarrow> fb_resources g = fb_resources f"
  using coreD(3) [OF persist_core] by metis

lemma declare_resource_done:
  assumes "declare_resource J name own prov f = (Inr i, f')"
  shows "i = Ident (fb_next_resource_id f) \<and> (\<forall>e\<in>set (fb_resources f). rr_name (snd e) \<noteq> name)
    \<and> (\<exists>x. rr_id x = i \<and> rr_name x = name \<and> rr_classes x = [] \<and> rr_pools x = [] \<and> fb_resources f' = um_emplace i x (fb_resources f))"
proof -
  obtain now g where now: "monotonic_now f = (now, g)"
    by (meson surj_pair)
  have g: "fb_resources g = fb_resources f" "fb_next_resource_id g = fb_next_resource_id f"
    using now by (auto simp: monotonic_now_def Let_def)
  have refusal: "declare_resource_refusal name own prov f = None"
    using assms by (cases "declare_resource_refusal name own prov f") (auto simp: declare_resource_def)
  then have fresh: "\<forall>e\<in>set (fb_resources f). rr_name (snd e) \<noteq> name"
    by (auto simp: declare_resource_refusal_def split: if_splits)
  define x where "x = declared_resource name own prov now g"
  obtain st h where h: "persist J Jr_resource_state (encode_resource_state x) ''resource state is not durable'' g = (st, h)"
    by (meson surj_pair)
  have "fb_resources f' = um_emplace (rr_id x) x (fb_resources h) \<and> i = rr_id x"
    using assms refusal now h
    by (auto simp: declare_resource_def Let_def x_def [symmetric] emit_events_def monotonic_now_def split: if_splits)
  then show ?thesis
    using fresh persist_resources [OF h] g by (intro conjI exI [of _ x]) (auto simp: x_def declared_resource_def)
qed

lemma declare_class_done:
  assumes "declare_class J k name prio qos own e prov f = (Inr i, f')"
  shows "\<exists>x y. find_resource f k = Some x \<and> fb_resources f' = um_put k y (fb_resources f)
    \<and> rr_id y = rr_id x \<and> rr_name y = rr_name x \<and> rr_classes y \<noteq> [] \<and> rr_pools y = rr_pools x"
proof -
  obtain x cs j fresh gen where x: "find_resource f k = Some x"
      "put_class_entry (fl_max_classes_per_resource (fc_limits (fb_config f))) (fb_next_class_id f) k name prio qos prov
        (rr_classes x) = Inr (cs, j, fresh)"
      and pub: "publish_class J k j (x\<lparr>rr_classes := cs, rr_generation := gen\<rparr>)
        (if fresh then f\<lparr>fb_next_class_id := fb_next_class_id f + 1\<rparr> else f) = (Inr i, f')"
    using assms by (auto simp: declare_class_def Let_def split: if_splits option.splits sum.splits)
  define y where "y = x\<lparr>rr_classes := cs, rr_generation := gen\<rparr>"
  obtain st h where h: "persist J Jr_resource_state (encode_resource_state y) ''class state is not durable''
      (if fresh then f\<lparr>fb_next_class_id := fb_next_class_id f + 1\<rparr> else f) = (st, h)"
    by (meson surj_pair)
  have "fb_resources f' = um_put k y (fb_resources h)"
    using pub h by (auto simp: publish_class_def y_def [symmetric] Let_def emit_events_def monotonic_now_def split: if_splits)
  moreover have "fb_resources h = fb_resources f"
    using persist_resources [OF h] by (simp split: if_splits)
  moreover have "cs \<noteq> []"
    using x(2) by (auto simp: put_class_entry_def split: option.splits sum.splits if_splits) (metis find.simps(1) length_0_conv length_update_first option.distinct(1))
  ultimately show ?thesis
    using x(1) by (auto simp: y_def)
qed

lemma declare_pool_done:
  assumes "declare_pool J k name cap own e prov f = (Inr i, f')"
  shows "\<exists>x y. find_resource f k = Some x \<and> fb_resources f' = um_put k y (fb_resources f)
    \<and> rr_id y = rr_id x \<and> rr_name y = rr_name x \<and> rr_classes y = rr_classes x \<and> rr_pools y \<noteq> []"
proof -
  obtain x ps j fresh where x: "find_resource f k = Some x"
      "put_pool_entry (fl_max_pools_per_resource (fc_limits (fb_config f))) (fb_next_pool_id f) k name cap prov
        (rr_pools x) = Inr (ps, j, fresh)"
    using assms by (auto simp: declare_pool_def Let_def split: if_splits option.splits sum.splits)
  define y where "y = x\<lparr>rr_pools := ps\<rparr>"
  obtain st h where h: "persist J Jr_resource_state (encode_resource_state y) ''pool state is not durable''
      (if fresh then f\<lparr>fb_next_pool_id := fb_next_pool_id f + 1\<rparr> else f) = (st, h)"
    by (meson surj_pair)
  have "fb_resources f' = um_put k y (fb_resources h)"
    using assms x h by (auto simp: declare_pool_def y_def [symmetric] Let_def emit_events_def monotonic_now_def split: if_splits option.splits)
  moreover have "fb_resources h = fb_resources f"
    using persist_resources [OF h] by (simp split: if_splits)
  moreover have "ps \<noteq> []"
    using x(2) by (auto simp: put_pool_entry_def split: option.splits sum.splits if_splits) (metis find.simps(1) length_0_conv length_update_first option.distinct(1))
  ultimately show ?thesis
    using x(1) by (auto simp: y_def)
qed

text \<open>\<open>named f i x\<close>: the lookup by name finds the record \<open>x\<close> under its own identity \<open>i\<close>.\<close>

definition named :: "'j fabric \<Rightarrow> ResourceId \<Rightarrow> resource_record \<Rightarrow> bool" where
  "named f i x \<longleftrightarrow> find (\<lambda>e. rr_name (snd e) = ''fabric0'') (fb_resources f) = Some (i, x) \<and> rr_id x = i
     \<and> find_resource f i = Some x"

lemma named_lookup: "named f i x \<Longrightarrow> find_resource_by_name f ''fabric0'' = Inr i \<and> resource_record_of f i = Inr x"
  by (simp add: named_def find_resource_by_name_def resource_record_of_def)

lemma find_append_absent: "\<forall>e\<in>set m. \<not> P e \<Longrightarrow> P e \<Longrightarrow> find P (m @ [e]) = Some e"
  by (induction m) auto

lemma find_um_put:
  assumes "find P m = Some (k, x)" "um_find m k = Some x" "P (k, y)"
  shows "find P (um_put k y m) = Some (k, y)"
  using assms by (induction m) (auto simp: um_find_def split: if_splits)

lemma named_put:
  assumes "named f i x" "fb_resources f' = um_put i y (fb_resources f)" "rr_id y = rr_id x" "rr_name y = rr_name x"
  shows "named f' i y"
proof -
  have "rr_name x = ''fabric0''"
    using assms(1) find_Some_iff_mem [of "\<lambda>e. rr_name (snd e) = ''fabric0''" "fb_resources f" "(i, x)"] by (simp add: named_def)
  then show ?thesis
    using assms find_um_put [of "\<lambda>e. rr_name (snd e) = ''fabric0''" "fb_resources f" i x y] by (simp add: named_def find_resource_def)
qed

lemma bootstrap_resource_named:
  assumes "core_wf (core f)" "find_resource f (Ident (fb_next_resource_id f)) = None" "bootstrap_resource J prov f = (Inr i, f')"
  shows "\<exists>x. named f' i x"
proof (cases "find (\<lambda>e. rr_name (snd e) = ''fabric0'') (fb_resources f)")
  case (Some e)
  obtain k x where e: "e = (k, x)"
    by fastforce
  have mem: "(k, x) \<in> set (fb_resources f)"
    using Some find_Some_iff_mem [of _ "fb_resources f" e] by (simp add: e)
  then have "rr_id x = k" "um_find (fb_resources f) k = Some x"
    using assms(1) by (auto simp: core_wf_def resource_wf_def um_find_mem)
  then show ?thesis
    using Some assms(3) by (auto simp: bootstrap_resource_def find_resource_by_name_def named_def e find_resource_def)
next
  case None
  then have "declare_resource J ''fabric0'' kOwner (prov 1) f = (Inr i, f')"
    using assms(3) by (simp add: bootstrap_resource_def find_resource_by_name_def)
  from declare_resource_done [OF this] obtain x where x: "i = Ident (fb_next_resource_id f)" "rr_id x = i" "rr_name x = ''fabric0''"
      "fb_resources f' = um_emplace i x (fb_resources f)" "\<forall>e\<in>set (fb_resources f). rr_name (snd e) \<noteq> ''fabric0''"
    by blast
  have "fb_resources f' = fb_resources f @ [(i, x)]"
    using assms(2) x(1,4) by (simp add: um_emplace_def find_resource_def)
  then show ?thesis
    using x assms(2) by (intro exI [of _ x]) (auto simp: named_def find_resource_def um_find_append find_append_absent um_find_eq map_add_def)
qed

lemma bootstrap_done:
  assumes "core_wf (core f)" "find_resource f (Ident (fb_next_resource_id f)) = None" "bootstrap J prov f = (Inr i, f')"
  shows "\<exists>x. named f' i x \<and> rr_classes x \<noteq> [] \<and> rr_pools x \<noteq> []"
proof -
  obtain g where g: "bootstrap_resource J prov f = (Inr i, g)"
    using assms(3) by (auto simp: bootstrap_def split: sum.splits prod.splits if_splits)
  obtain x where x: "named g i x"
    using bootstrap_resource_named [OF assms(1,2) g] by blast
  obtain h where h: "bootstrap_class J prov i x g = (True, h)" "bootstrap_pool J prov i x h = (True, f')"
    using assms(3) g named_lookup [OF x] by (auto simp: bootstrap_def split: prod.splits if_splits)
  obtain y where y: "named h i y" "rr_classes y \<noteq> []" "rr_pools y = rr_pools x"
  proof (cases "rr_classes x = []")
    case True
    then obtain cid where "declare_class J i ''gold'' 7 \<lparr>qos_priority_code = 0, qos_traffic_class = 0, qos_group = []\<rparr> kOwner (fb_epoch g) (prov 2) g = (Inr cid, h)"
      using h(1) by (auto simp: bootstrap_class_def isl_def split: prod.splits) (metis sum.exhaust)
    from declare_class_done [OF this] show thesis
      using that named_put [OF x] x by (auto simp: named_def)
  qed (use that x h(1) in \<open>auto simp: bootstrap_class_def\<close>)
  show ?thesis
  proof (cases "rr_pools x = []")
    case True
    then obtain pid where "declare_pool J i ''pool0'' (2 ^ 20) kOwner (fb_epoch h) (prov 3) h = (Inr pid, f')"
      using h(2) by (auto simp: bootstrap_pool_def isl_def split: prod.splits) (metis sum.exhaust)
    from declare_pool_done [OF this] obtain z where z: "fb_resources f' = um_put i z (fb_resources h)" "rr_id z = rr_id y"
        "rr_name z = rr_name y" "rr_classes z = rr_classes y" "rr_pools z \<noteq> []"
      using y(1) by (auto simp: named_def)
    then show ?thesis
      using named_put [OF y(1) z(1-3)] y(2) by auto
  qed (use y h(2) in \<open>auto simp: bootstrap_pool_def\<close>)
qed

theorem bootstrap_again:
  assumes "named f i x" "rr_classes x \<noteq> []" "rr_pools x \<noteq> []"
  shows "bootstrap J prov f = (Inr i, f)"
  using named_lookup [OF assms(1)] assms(2,3)
  by (simp add: bootstrap_def bootstrap_resource_def bootstrap_class_def bootstrap_pool_def)

section \<open>The process\<close>

lemma program_config_ok: "config_ok (coordinator_fabric_config (program_config opts))"
  by (simp add: config_ok_def coordinator_fabric_config_def program_config_def program_fabric_config_def default_config_def
      default_limits_def limit_defs)

lemma served_arrive: "served J config c \<Longrightarrow> served J config (arrive arrivals c)"
  unfolding arrive_def by (induction arrivals arbitrary: c) (auto intro: served.arrived)

lemma served_fabric_steps:
  assumes "(fabric_step J)\<^sup>*\<^sup>* (cd_fabric c) f" "served J config c"
  shows "served J config (c\<lparr>cd_fabric := f\<rparr>)"
  using assms(1)
proof induction
  case (step g h)
  then show ?case
    using served.governed [OF step(3), of h] by simp
qed (simp add: assms(2))

lemma bootstrap_steps: "(fabric_step J)\<^sup>*\<^sup>* f (snd (bootstrap J prov f))"
proof -
  have r: "(fabric_step J)\<^sup>*\<^sup>* f (snd (bootstrap_resource J prov f))" for f
    by (auto simp: bootstrap_resource_def split: sum.split intro: fabric_step.by_declare_resource [OF prod.collapse [symmetric]])
  have c: "(fabric_step J)\<^sup>*\<^sup>* f (snd (bootstrap_class J prov i x f))" for i x f
    by (auto simp: bootstrap_class_def split_beta intro: fabric_step.by_declare_class [OF prod.collapse [symmetric]])
  have p: "(fabric_step J)\<^sup>*\<^sup>* f (snd (bootstrap_pool J prov i x f))" for i x f
    by (auto simp: bootstrap_pool_def split_beta intro: fabric_step.by_declare_pool [OF prod.collapse [symmetric]])
  show ?thesis
    using r [of f] c p
    by (auto simp: bootstrap_def split: prod.splits sum.splits) (metis rtranclp_trans snd_conv)+
qed

lemma served_checkpoint: "served J config c \<Longrightarrow> served J config (checkpoint J opts n c)"
  by (simp add: checkpoint_def served.governed [OF _ fabric_step.by_compact [OF prod.collapse [symmetric]]])

lemma serve_served:
  assumes "served J config c" "serve J opts env cycles c = Some (n, c')"
  shows "served J config c'"
  using assms
proof (induction env arbitrary: cycles c)
  case Nil
  then show ?case
    by (simp add: serve.simps split: if_splits)
next
  case (Cons e es)
  obtain st c1 where run: "run_once J (su_pending e) (arrive (su_arrivals e) c) = (st, c1)"
    by fastforce
  have c1: "served J config c1"
    by (rule served.cycled [OF served_arrive [OF Cons.prems(1)] run])
  show ?case
    using Cons.prems(2) run c1 Cons.prems(1) served_checkpoint [OF c1] Cons.IH [OF served_checkpoint [OF c1]]
    by (subst (asm) serve.simps) (auto simp: Let_def split: if_splits)
qed

text \<open>With a limit on the cycles the loop ends, and within the limit.\<close>

lemma serve_ends:
  assumes "copt_max_cycles opts \<noteq> 0" "cycles < copt_max_cycles opts" "unat (copt_max_cycles opts) \<le> unat cycles + length env"
  shows "\<exists>n c'. serve J opts env cycles c = Some (n, c') \<and> n \<le> copt_max_cycles opts"
  using assms(2,3)
proof (induction env arbitrary: cycles c)
  case Nil
  then show ?case
    by (simp add: word_less_nat_alt)
next
  case (Cons e es)
  have le: "cycles \<le> copt_max_cycles opts" "cycles + 1 \<le> copt_max_cycles opts"
    using Cons.prems(1) by (simp_all add: inc_le)
  show ?case
  proof (cases "cycles + 1 \<ge> copt_max_cycles opts")
    case True
    then show ?thesis
      using le assms(1) by (subst serve.simps) (auto simp: split_beta)
  next
    case False
    then have lt: "cycles + 1 < copt_max_cycles opts"
      by simp
    have "unat (cycles + 1) = unat cycles + 1"
      using Cons.prems(1) unat_add_lem [of cycles 1] unat_lt_exp [of "copt_max_cycles opts"] by (simp add: word_less_nat_alt)
    then have "\<exists>n c'. serve J opts es (cycles + 1) x = Some (n, c') \<and> n \<le> copt_max_cycles opts" for x
      using Cons.IH [OF lt, of x] Cons.prems(2) by simp
    then show ?thesis
      using le False by (subst serve.simps) (auto simp: split_beta Let_def)
  qed
qed

theorem coordinator_main_served:
  assumes "coordinator_main J opts bound written env (new_coordinator (program_config opts) clock fabric_clock journal sink seed) = Some (code, c)"
    and "\<not> copt_durable opts \<or> journal = None \<or> restartable J (coordinator_fabric_config (program_config opts)) (the journal)"
      "code \<noteq> 3"
  shows "served J (program_config opts) c" "code = 0 \<longrightarrow> cd_connections c = [] \<and> fb_shutting_down (cd_fabric c)"
proof -
  let ?new = "new_coordinator (program_config opts) clock fabric_clock journal sink seed"
  obtain st c1 where start: "server_start J bound ?new = (st, c1)"
    by fastforce
  have "ok st"
    using assms(1,3) start by (auto simp: coordinator_main_def split: if_splits)
  then have c1: "served J (program_config opts) c1"
    using assms(2) by (intro served.started [OF start]) (auto simp: program_config_def [of opts] split: if_splits)
  define boot where "boot = (if copt_bootstrap opts then bootstrap J (\<lambda>n. program_provenance (cd_fabric c1) (of_nat n)) (cd_fabric c1)
    else (Inr (Ident 0), cd_fabric c1))"
  obtain res f where b: "boot = (res, f)"
    by fastforce
  have "(fabric_step J)\<^sup>*\<^sup>* (cd_fabric c1) f"
    using bootstrap_steps [of J "cd_fabric c1" "\<lambda>n. program_provenance (cd_fabric c1) (of_nat n)"] b by (auto simp: boot_def split: if_splits)
  then have c2: "served J (program_config opts) (c1\<lparr>cd_fabric := f\<rparr>)"
    by (rule served_fabric_steps [OF _ c1])
  have stop: "served J (program_config opts) ((server_stop x)\<lparr>cd_fabric := snd (fabric_shutdown J (cd_fabric (server_stop x)))\<rparr>)"
    if "served J (program_config opts) x" for x
    using served.governed [OF served.stopped [OF that] fabric_step.by_shutdown [OF prod.collapse [symmetric]]] .
  have down: "fb_shutting_down (snd (fabric_shutdown J g))" for g
    by (simp add: fabric_shutdown_def Let_def monotonic_now_def emit_events_def split: option.split)
  note main = assms(1) [unfolded coordinator_main_def start prod.case boot_def [symmetric] b]
  show "served J (program_config opts) c"
    using main \<open>ok st\<close> c2 serve_served [OF c2] stop by (auto simp: Let_def split: sum.splits if_splits option.splits prod.splits)
  show "code = 0 \<longrightarrow> cd_connections c = [] \<and> fb_shutting_down (cd_fabric c)"
    using main \<open>ok st\<close> down b
    by (auto simp: Let_def server_stop_def boot_def bootstrap_def split: sum.splits if_splits option.splits prod.splits)
qed

theorem coordinator_main_ends:
  assumes "copt_max_cycles opts \<noteq> 0" "unat (copt_max_cycles opts) \<le> length env"
  shows "\<exists>code c'. coordinator_main J opts bound written env c = Some (code, c')"
proof -
  have "0 < copt_max_cycles opts"
    using assms(1) by (simp add: word_gt_0)
  then have "\<exists>n c'. serve J opts env 0 x = Some (n, c')" for x
    using serve_ends [OF assms(1), of 0 env J x] assms(2) by auto
  then have some: "serve J opts env 0 x \<noteq> None" for x
    by (metis option.distinct(1))
  show ?thesis
    by (auto simp: coordinator_main_def split_beta Let_def some split: sum.split option.split)
qed

end
