(* ===== verification/QF_Restart.thy ===== *)
theory QF_Restart
  imports QF_Program
begin

text \<open>
  The coordinator program across a restart: what a recovery from a checkpoint leaves of the topology, and
  that the bootstrap of the restarted program finds it and declares nothing anew, as the comment in
  \<^verbatim>\<open>tools/qf_coordinator_main.cpp\<close> claims.
\<close>

definition topology :: "resource_record \<Rightarrow> ResourceId \<times> string \<times> scheduling_class_def list \<times> buffer_pool_def list" where
  "topology x = (rr_id x, rr_name x, rr_classes x, rr_pools x)"

lemma topology_kept [simp]:
  "topology (kill_backends x) = topology x" "topology (with_epoch e x) = topology x" "topology (unbound_authority x) = topology x"
  "topology (x\<lparr>rr_queue_count := n\<rparr>) = topology x"
  by (simp_all add: topology_def kill_backends_def with_epoch_def unbound_authority_def)

text \<open>A recovery from a checkpoint keeps the topology of the fabric whose checkpoint it is.\<close>

lemma restart_topology:
  assumes "recover J n = (st, g)" "ok st" "fb_journal n = Some j" "fb_resources n = []" "fb_queues n = []"
    and "jo_records J (snd (jo_open J j)) = build_snapshot_locked f" "snapshot_ok f"
  shows "um_wf (fb_resources g) \<and> map_option topology (find_resource g i) = map_option topology (find_resource f i)"
  using recover_reloads(1) [OF assms] by (simp add: reloads_def option.map_comp comp_def reloaded_resource_def)

lemma find_named:
  assumes "um_wf m" "um_find m i = Some x" "P (i, x)" "\<forall>e\<in>set m. P e \<longrightarrow> fst e = i"
  shows "find P m = Some (i, x)"
proof (cases "find P m")
  case None
  then show ?thesis
    using assms(2,3) um_find_SomeD by (fastforce simp: find_None_iff)
next
  case (Some e)
  then have "e \<in> set m" "fst e = i"
    using assms(4) find_Some_iff_mem [of P m e] by auto
  then show ?thesis
    using Some assms(1,2) um_find_mem [OF assms(1), of i "snd e"] by (metis option.inject prod.collapse)
qed

text \<open>The bootstrap depends on the topology only.\<close>

lemma bootstrap_reuses:
  assumes "named f i x" "rr_classes x \<noteq> []" "rr_pools x \<noteq> []" "um_wf (fb_resources g)"
    and unique: "\<forall>k y. find_resource f k = Some y \<and> rr_name y = ''fabric0'' \<longrightarrow> k = i"
    and same: "\<forall>k. map_option topology (find_resource g k) = map_option topology (find_resource f k)"
  shows "bootstrap J prov g = (Inr i, g)"
proof -
  have x: "find_resource f i = Some x" "rr_id x = i" "rr_name x = ''fabric0''"
    using assms(1) find_Some_iff_mem [of "\<lambda>e. rr_name (snd e) = ''fabric0''" "fb_resources f" "(i, x)"] by (auto simp: named_def)
  then obtain y where y: "find_resource g i = Some y" "topology y = topology x"
    using same [rule_format, of i] by auto
  have "fst e = i" if e: "e \<in> set (fb_resources g)" "rr_name (snd e) = ''fabric0''" for e
  proof -
    have "find_resource g (fst e) = Some (snd e)"
      using e(1) assms(4) by (simp add: find_resource_def um_find_mem)
    then obtain z where "find_resource f (fst e) = Some z" "topology z = topology (snd e)"
      using same [rule_format, of "fst e"] by (cases "find_resource f (fst e)") auto
    then show ?thesis
      using unique e(2) by (simp add: topology_def)
  qed
  then have "named g i y"
    using y x find_named [OF assms(4), of i y "\<lambda>e. rr_name (snd e) = ''fabric0''"] by (simp add: named_def find_resource_def topology_def)
  then show ?thesis
    using y(2) assms(2,3) by (intro bootstrap_again [of g i y]) (auto simp: topology_def)
qed

end
