(* ===== verification/QF_WorkerProgram.thy ===== *)
theory QF_WorkerProgram
  imports QF_Exchange QF_Program
begin

text \<open>
  \<^verbatim>\<open>tools/qf_worker_main.cpp\<close>: the worker process. Its arguments, the declarations it sends, the rounds in
  which it publishes occupancy, and its report. The socket it is connected to and the readings of the
  clock are parameters; pauses have no effect; where the client waits for an answer that never comes the
  process has no result. The lemmas say that every declaration and every sample is accounted for and
  carries a sequence number of its own.
\<close>

section \<open>Arguments\<close>

record worker_options =
  wopt_host :: string
  wopt_port :: u16
  wopt_node :: u64
  wopt_incarnation :: u64
  wopt_epoch :: u64
  wopt_resource :: u64
  wopt_class_id :: u64
  wopt_class_generation :: u64
  wopt_pool :: u64
  wopt_pool_generation :: u64
  wopt_owner :: u64
  wopt_queues :: u64
  wopt_publishes :: u64
  wopt_batch :: u64
  wopt_occupancy_bytes :: u64
  wopt_occupancy_packets :: u64
  wopt_interval_us :: u64
  wopt_stay_alive_ms :: u64
  wopt_heartbeat_every :: u64
  wopt_result_file :: string
  wopt_name :: string
  wopt_mode :: string
  wopt_existing_queues :: "u64 list"

definition default_worker_options :: worker_options where
  "default_worker_options = \<lparr>wopt_host = ''127.0.0.1'', wopt_port = 0, wopt_node = 1, wopt_incarnation = 1, wopt_epoch = 0,
     wopt_resource = 0, wopt_class_id = 0, wopt_class_generation = 1, wopt_pool = 0, wopt_pool_generation = 1, wopt_owner = 0,
     wopt_queues = 1, wopt_publishes = 4, wopt_batch = 1, wopt_occupancy_bytes = 512, wopt_occupancy_packets = 4,
     wopt_interval_us = 0, wopt_stay_alive_ms = 0, wopt_heartbeat_every = 0, wopt_result_file = [], wopt_name = ''worker'',
     wopt_mode = ''publish'', wopt_existing_queues = []\<rparr>"

definition worker_number :: "string \<Rightarrow> string \<Rightarrow> worker_options \<Rightarrow> worker_options option" where
  "worker_number argument text opts =
     (let n = strtoull 0 text in
      if argument = ''--port'' then Some (opts\<lparr>wopt_port := ucast (strtoull 10 text)\<rparr>)
      else if argument = ''--node'' then Some (opts\<lparr>wopt_node := n\<rparr>)
      else if argument = ''--incarnation'' then Some (opts\<lparr>wopt_incarnation := n\<rparr>)
      else if argument = ''--epoch'' then Some (opts\<lparr>wopt_epoch := n\<rparr>)
      else if argument = ''--resource'' then Some (opts\<lparr>wopt_resource := n\<rparr>)
      else if argument = ''--class'' then Some (opts\<lparr>wopt_class_id := n\<rparr>)
      else if argument = ''--class-generation'' then Some (opts\<lparr>wopt_class_generation := n\<rparr>)
      else if argument = ''--pool'' then Some (opts\<lparr>wopt_pool := n\<rparr>)
      else if argument = ''--pool-generation'' then Some (opts\<lparr>wopt_pool_generation := n\<rparr>)
      else if argument = ''--owner'' then Some (opts\<lparr>wopt_owner := n\<rparr>)
      else if argument = ''--queues'' then Some (opts\<lparr>wopt_queues := n\<rparr>)
      else if argument = ''--queue'' then Some (opts\<lparr>wopt_existing_queues := wopt_existing_queues opts @ [n]\<rparr>)
      else if argument = ''--publishes'' then Some (opts\<lparr>wopt_publishes := n\<rparr>)
      else if argument = ''--batch'' then Some (opts\<lparr>wopt_batch := n\<rparr>)
      else if argument = ''--occupancy-bytes'' then Some (opts\<lparr>wopt_occupancy_bytes := n\<rparr>)
      else if argument = ''--occupancy-packets'' then Some (opts\<lparr>wopt_occupancy_packets := n\<rparr>)
      else if argument = ''--interval-us'' then Some (opts\<lparr>wopt_interval_us := n\<rparr>)
      else if argument = ''--stay-alive-ms'' then Some (opts\<lparr>wopt_stay_alive_ms := n\<rparr>)
      else if argument = ''--heartbeat-every'' then Some (opts\<lparr>wopt_heartbeat_every := n\<rparr>)
      else None)"

definition worker_argument :: "string \<Rightarrow> string list \<Rightarrow> worker_options \<Rightarrow> (string list \<times> worker_options) option" where
  "worker_argument argument rest opts =
     (if argument = ''--host'' then Some (with_value rest (\<lambda>v x. x\<lparr>wopt_host := v\<rparr>) opts)
      else if argument = ''--name'' then Some (with_value rest (\<lambda>v x. x\<lparr>wopt_name := v\<rparr>) opts)
      else if argument = ''--mode'' then Some (with_value rest (\<lambda>v x. x\<lparr>wopt_mode := v\<rparr>) opts)
      else if argument = ''--result-file'' then Some (with_value rest (\<lambda>v x. x\<lparr>wopt_result_file := v\<rparr>) opts)
      else if take 2 argument = ''--''
      then (case rest of
              [] \<Rightarrow> None
            | v # rest \<Rightarrow> map_option (\<lambda>opts. (rest, opts)) (worker_number argument v opts))
      else None)"

lemma worker_argument_length: "worker_argument a rest opts = Some (rest', opts') \<Longrightarrow> length rest' \<le> length rest"
  by (auto simp: worker_argument_def split: if_splits list.splits) (metis fst_conv with_value_length)+

function worker_parse :: "string list \<Rightarrow> worker_options \<Rightarrow> worker_options option" where
  "worker_parse [] opts = Some opts"
| "worker_parse (argument # rest) opts =
     (case worker_argument argument rest opts of
        None \<Rightarrow> None
      | Some (rest', opts') \<Rightarrow> worker_parse rest' opts')"
  by pat_completeness auto
termination
  by (relation "measure (\<lambda>(args, opts). length args)") (auto dest!: worker_argument_length)

section \<open>The run\<close>

definition program_worker_config :: "worker_options \<Rightarrow> worker_config" where
  "program_worker_config opts = \<lparr>wc_node = Ident (wopt_node opts), wc_incarnation = Counter (wopt_incarnation opts),
     wc_epoch = Counter (wopt_epoch opts), wc_boot = \<lparr>boot_hi = wopt_incarnation opts, boot_lo = wopt_node opts\<rparr>,
     wc_name = wopt_name opts, wc_role = Role_worker, wc_receive_buffer_bytes = 65536\<rparr>"

record worker_run =
  wr_client :: worker
  wr_queues :: "QueueId list"
  wr_declared :: u64
  wr_declare_rejected :: u64
  wr_sequence :: u64
  wr_result :: string
  wr_published :: u64
  wr_publish_failures :: u64
  wr_batch :: "occupancy_sample list"
  wr_ticks :: nat

definition start_run :: "worker_options \<Rightarrow> string \<Rightarrow> worker \<Rightarrow> worker_run" where
  "start_run opts result w = \<lparr>wr_client = w, wr_queues = map Ident (wopt_existing_queues opts), wr_declared = 0,
     wr_declare_rejected = 0, wr_sequence = 1, wr_result = result, wr_published = 0, wr_publish_failures = 0, wr_batch = [],
     wr_ticks = 0\<rparr>"

definition line :: "string \<Rightarrow> string \<Rightarrow> string" where
  "line key text = key @ ''='' @ text @ [CHR 0x0A]"

definition worker_publisher :: "worker_options \<Rightarrow> PublisherId" where
  "worker_publisher opts = Ident (wopt_node opts * 16 + 1)"

definition worker_provenance :: "worker_options \<Rightarrow> Epoch \<Rightarrow> u64 \<Rightarrow> provenance" where
  "worker_provenance opts epoch n = \<lparr>pv_publisher = worker_publisher opts, pv_node = Ident (wopt_node opts),
     pv_incarnation = Counter (wopt_incarnation opts), pv_epoch = epoch, pv_sequence = Counter n,
     pv_boot = \<lparr>boot_hi = wopt_incarnation opts, boot_lo = wopt_node opts\<rparr>\<rparr>"

subsection \<open>Declarations\<close>

definition worker_declaration :: "worker_options \<Rightarrow> Epoch \<Rightarrow> nat \<Rightarrow> u64 \<Rightarrow> mutation_request" where
  "worker_declaration opts epoch index n =
     \<lparr>mr_attempt = \<lparr>at_publisher = worker_publisher opts, at_counter = n\<rparr>, mr_kind = Mk_declare_queue, mr_queue = Ident 0,
      mr_expected_generation = Counter 0, mr_expected_epoch = epoch, mr_principal = Ident (wopt_owner opts),
      mr_provenance = worker_provenance opts epoch n,
      mr_payload = Pl_declare_queue
        \<lparr>dq_resource = Ident (wopt_resource opts), dq_name = wopt_name opts @ ''-q'' @ dec_string index, dq_depth = 64,
         dq_cls = \<lparr>cb_id = Ident (wopt_class_id opts), cb_generation = Counter (wopt_class_generation opts)\<rparr>,
         dq_pool = \<lparr>pr_id = Ident (wopt_pool opts), pr_generation = Counter (wopt_pool_generation opts), pr_capacity_bytes = 2 ^ 20\<rparr>,
         dq_thresholds = \<lparr>th_low_watermark_bytes = 1024, th_high_watermark_bytes = 4096, th_max_occupancy_bytes = 8192,
           th_max_packets = 4096, th_occupancy_stale_after = 0\<rparr>\<rparr>\<rparr>"

text \<open>\<^verbatim>\<open>result.find("first_declare_error")\<close>.\<close>

definition error_noted :: "string \<Rightarrow> bool" where
  "error_noted s \<longleftrightarrow> list_ex (\<lambda>i. take 19 (drop i s) = ''first_declare_error'') [0..<length s]"

definition note_declaration :: "mutation_response result \<Rightarrow> worker_run \<Rightarrow> worker_run" where
  "note_declaration response run =
     (case response of
        Inr r \<Rightarrow>
          (if mp_code r = Code_ok
           then run\<lparr>wr_declared := wr_declared run + 1,
                    wr_queues := (if id_valid (mp_queue r) then wr_queues run @ [mp_queue r] else wr_queues run)\<rparr>
           else run\<lparr>wr_declare_rejected := wr_declare_rejected run + 1,
                    wr_result := (if error_noted (wr_result run) then wr_result run
                                  else wr_result run @ line ''first_declare_error'' (code_name (mp_code r)))\<rparr>)
      | Inl _ \<Rightarrow> run\<lparr>wr_declare_rejected := wr_declare_rejected run + 1\<rparr>)"

fun declare_queues :: "worker_options \<Rightarrow> Epoch \<Rightarrow> nat list \<Rightarrow> worker_run \<Rightarrow> worker_run option" where
  "declare_queues opts epoch [] run = Some run"
| "declare_queues opts epoch (index # indexes) run =
     (case send_mutation (worker_declaration opts epoch index (wr_sequence run)) (wr_client run) of
        (None, w) \<Rightarrow> None
      | (Some response, w) \<Rightarrow>
          declare_queues opts epoch indexes
            (note_declaration response (run\<lparr>wr_client := w, wr_sequence := wr_sequence run + 1\<rparr>)))"

definition declare_report :: "worker_run \<Rightarrow> worker_run" where
  "declare_report run =
     run\<lparr>wr_result := wr_result run @ line ''declared'' (dec_string (unat (wr_declared run)))
       @ line ''declare_rejected'' (dec_string (unat (wr_declare_rejected run)))
       @ line ''queue_count'' (dec_string (length (wr_queues run)))
       @ (if wr_queues run \<noteq> [] then line ''first_queue'' (tool_hex (id_value (wr_queues run ! 0))) else [])\<rparr>"

subsection \<open>Publishing\<close>

definition flush :: "worker_run \<Rightarrow> worker_run" where
  "flush run =
     (if wr_batch run = [] then run
      else (case publish (wr_batch run) (wr_client run) of
              (sent, w) \<Rightarrow>
                (if ok sent then run\<lparr>wr_client := w, wr_batch := [], wr_published := wr_published run + of_nat (length (wr_batch run))\<rparr>
                 else run\<lparr>wr_client := w, wr_batch := [],
                          wr_publish_failures := wr_publish_failures run + of_nat (length (wr_batch run))\<rparr>)))"

definition worker_sample :: "worker_options \<Rightarrow> Epoch \<Rightarrow> QueueId \<Rightarrow> u64 \<Rightarrow> nanos \<Rightarrow> occupancy_sample" where
  "worker_sample opts epoch queue n now =
     \<lparr>os_queue = queue, os_queue_generation = Counter 1, os_bytes = wopt_occupancy_bytes opts,
      os_packets = wopt_occupancy_packets opts, os_epoch = epoch, os_sequence = Counter n, os_observed_at = now,
      os_provenance = worker_provenance opts epoch n\<rparr>"

definition publish_queue :: "worker_options \<Rightarrow> Epoch \<Rightarrow> (nat \<Rightarrow> nanos) \<Rightarrow> QueueId \<Rightarrow> worker_run \<Rightarrow> worker_run" where
  "publish_queue opts epoch clock queue run =
     (let run = run\<lparr>wr_sequence := wr_sequence run + 1, wr_ticks := wr_ticks run + 1,
                    wr_batch := wr_batch run @ [worker_sample opts epoch queue (wr_sequence run) (clock (wr_ticks run))]\<rparr>
      in if of_nat (length (wr_batch run)) \<ge> wopt_batch opts then flush run else run)"

definition beat :: "worker_run \<Rightarrow> worker_run" where
  "beat run = run\<lparr>wr_client := snd (send_heartbeat (wr_client run))\<rparr>"

definition publish_round :: "worker_options \<Rightarrow> Epoch \<Rightarrow> (nat \<Rightarrow> nanos) \<Rightarrow> nat \<Rightarrow> worker_run \<Rightarrow> worker_run" where
  "publish_round opts epoch clock n run =
     (let run = flush (fold (publish_queue opts epoch clock) (wr_queues run) run)
      in if wopt_heartbeat_every opts \<noteq> 0 \<and> (of_nat n + 1) mod wopt_heartbeat_every opts = 0 then beat run else run)"

definition publish_rounds :: "worker_options \<Rightarrow> Epoch \<Rightarrow> (nat \<Rightarrow> nanos) \<Rightarrow> worker_run \<Rightarrow> worker_run" where
  "publish_rounds opts epoch clock run =
     (if wr_queues run = [] then run else fold (publish_round opts epoch clock) [0..<unat (wopt_publishes opts)] run)"

definition publish_report :: "worker_run \<Rightarrow> worker_run" where
  "publish_report run =
     run\<lparr>wr_result := wr_result run @ line ''published'' (dec_string (unat (wr_published run)))
       @ line ''publish_failures'' (dec_string (unat (wr_publish_failures run)))
       @ line ''frames_sent'' (dec_string (unat (wk_frames_sent (wr_client run))))
       @ line ''frames_rejected'' (dec_string (unat (wk_frames_rejected (wr_client run))))\<rparr>"

text \<open>The slices of at most 10 ms until the time to stay alive is over.\<close>

function stay_alive :: "worker_options \<Rightarrow> nat \<Rightarrow> worker_run \<Rightarrow> worker_run" where
  "stay_alive opts elapsed run =
     (if elapsed < unat (wopt_stay_alive_ms opts)
      then stay_alive opts (elapsed + min 10 (unat (wopt_stay_alive_ms opts) - elapsed))
             (if wopt_heartbeat_every opts \<noteq> 0 then beat run else run)
      else run)"
  by pat_completeness auto
termination
  by (relation "measure (\<lambda>(opts, elapsed, run). unat (wopt_stay_alive_ms opts) - elapsed)") auto

declare stay_alive.simps [simp del]

definition worker_session_run :: "worker_options \<Rightarrow> Epoch \<Rightarrow> (nat \<Rightarrow> nanos) \<Rightarrow> worker_run \<Rightarrow> worker_run option" where
  "worker_session_run opts epoch clock run =
     (case declare_queues opts epoch [0..<unat (wopt_queues opts)] run of
        None \<Rightarrow> None
      | Some run \<Rightarrow> Some (stay_alive opts 0 (publish_report (publish_rounds opts epoch clock (declare_report run)))))"

text \<open>The process: exit code, report, and the client after it was closed.\<close>

definition worker_main :: "worker_options \<Rightarrow> transport result \<Rightarrow> (nat \<Rightarrow> nanos) \<Rightarrow> (nat \<times> string \<times> worker) option" where
  "worker_main opts connected clock =
     (case wk_connect connected (new_worker (program_worker_config opts)) of
        (st, w) \<Rightarrow>
          if \<not> ok st then Some (3, ''connect=failed code='' @ code_name (st_code st) @ [CHR 0x0A], wk_close w)
          else (case handshake w of
                  (None, w) \<Rightarrow> None
                | (Some (Inl st), w) \<Rightarrow> Some (4, ''handshake=error code='' @ code_name (st_code st) @ [CHR 0x0A], wk_close w)
                | (Some (Inr ack), w) \<Rightarrow>
                    (let result = line ''handshake'' (if ha_accepted ack then ''accepted'' else ''rejected'')
                           @ line ''handshake_code'' (code_name (ha_code ack)) @ line ''handshake_message'' (ha_message ack)
                           @ line ''coordinator_epoch'' (tool_hex (ctr_value (ha_coordinator_epoch ack)))
                     in if \<not> ha_accepted ack then Some (0, result, wk_close w)
                        else if wopt_mode opts = ''stall'' then Some (0, result @ line ''mode'' ''stall'', wk_close w)
                        else (case worker_session_run opts (ha_coordinator_epoch ack) clock (start_run opts result w) of
                                None \<Rightarrow> None
                              | Some run \<Rightarrow> Some (0, wr_result run, wk_close (wr_client run))))))"

section \<open>Everything is accounted for\<close>

definition accounted :: "worker_run \<Rightarrow> u64" where
  "accounted run = wr_published run + wr_publish_failures run + of_nat (length (wr_batch run))"

lemma accounted_client [simp]: "accounted (run\<lparr>wr_client := w, wr_sequence := n\<rparr>) = accounted run"
  by (simp add: accounted_def)

lemma flush_accounts [simp]:
  "accounted (flush run) = accounted run" "wr_batch (flush run) = []" "wr_queues (flush run) = wr_queues run"
  "wr_sequence (flush run) = wr_sequence run" "wr_declared (flush run) = wr_declared run"
  "wr_declare_rejected (flush run) = wr_declare_rejected run"
  by (simp_all add: flush_def accounted_def split_beta)

lemma publish_queue_accounts [simp]:
  "accounted (publish_queue opts epoch clock q run) = accounted run + 1" "wr_queues (publish_queue opts epoch clock q run) = wr_queues run"
  "wr_sequence (publish_queue opts epoch clock q run) = wr_sequence run + 1"
  "wr_declared (publish_queue opts epoch clock q run) = wr_declared run"
  "wr_declare_rejected (publish_queue opts epoch clock q run) = wr_declare_rejected run"
  by (simp_all add: publish_queue_def Let_def) (simp add: accounted_def)

lemma publish_queues_account:
  "accounted (fold (publish_queue opts epoch clock) qs run) = accounted run + of_nat (length qs)
   \<and> wr_queues (fold (publish_queue opts epoch clock) qs run) = wr_queues run
   \<and> wr_sequence (fold (publish_queue opts epoch clock) qs run) = wr_sequence run + of_nat (length qs)
   \<and> wr_declared (fold (publish_queue opts epoch clock) qs run) = wr_declared run
   \<and> wr_declare_rejected (fold (publish_queue opts epoch clock) qs run) = wr_declare_rejected run"
  by (induction qs arbitrary: run) (simp_all add: add.assoc)

lemma beat_simps [simp]:
  "accounted (beat run) = accounted run" "wr_batch (beat run) = wr_batch run" "wr_queues (beat run) = wr_queues run"
  "wr_sequence (beat run) = wr_sequence run" "wr_declared (beat run) = wr_declared run"
  "wr_declare_rejected (beat run) = wr_declare_rejected run"
  "wr_published (beat run) = wr_published run" "wr_publish_failures (beat run) = wr_publish_failures run"
  by (simp_all add: beat_def accounted_def)

lemma publish_round_accounts:
  "accounted (publish_round opts epoch clock n run) = accounted run + of_nat (length (wr_queues run))
   \<and> wr_queues (publish_round opts epoch clock n run) = wr_queues run \<and> wr_batch (publish_round opts epoch clock n run) = []
   \<and> wr_sequence (publish_round opts epoch clock n run) = wr_sequence run + of_nat (length (wr_queues run))
   \<and> wr_declared (publish_round opts epoch clock n run) = wr_declared run
   \<and> wr_declare_rejected (publish_round opts epoch clock n run) = wr_declare_rejected run"
  using publish_queues_account [of opts epoch clock "wr_queues run" run] by (simp add: publish_round_def Let_def)

lemma publish_fold_accounts:
  "wr_batch run = [] \<Longrightarrow>
   accounted (fold (publish_round opts epoch clock) ns run) = accounted run + of_nat (length ns * length (wr_queues run))
   \<and> wr_queues (fold (publish_round opts epoch clock) ns run) = wr_queues run
   \<and> wr_batch (fold (publish_round opts epoch clock) ns run) = []
   \<and> wr_sequence (fold (publish_round opts epoch clock) ns run) = wr_sequence run + of_nat (length ns * length (wr_queues run))
   \<and> wr_declared (fold (publish_round opts epoch clock) ns run) = wr_declared run
   \<and> wr_declare_rejected (fold (publish_round opts epoch clock) ns run) = wr_declare_rejected run"
proof (induction ns arbitrary: run)
  case (Cons n ns)
  then show ?case
    using Cons.IH [of "publish_round opts epoch clock n run"] publish_round_accounts [of opts epoch clock n run]
    by (simp add: algebra_simps)
qed simp

lemma note_declaration_counts:
  "wr_declared (note_declaration response run) + wr_declare_rejected (note_declaration response run) =
     wr_declared run + wr_declare_rejected run + 1"
  "wr_sequence (note_declaration response run) = wr_sequence run" "wr_batch (note_declaration response run) = wr_batch run"
  "accounted (note_declaration response run) = accounted run"
  by (simp_all add: note_declaration_def accounted_def split: sum.split)

lemma declare_queues_counts:
  assumes "declare_queues opts epoch ixs run = Some run'"
  shows "wr_declared run' + wr_declare_rejected run' = wr_declared run + wr_declare_rejected run + of_nat (length ixs)
    \<and> wr_sequence run' = wr_sequence run + of_nat (length ixs) \<and> wr_batch run' = wr_batch run \<and> accounted run' = accounted run"
  using assms
proof (induction ixs arbitrary: run)
  case (Cons ix ixs)
  then obtain response w where s: "send_mutation (worker_declaration opts epoch ix (wr_sequence run)) (wr_client run) = (Some response, w)"
      "declare_queues opts epoch ixs (note_declaration response (run\<lparr>wr_client := w, wr_sequence := wr_sequence run + 1\<rparr>)) = Some run'"
    by (auto split: prod.splits option.splits)
  show ?case
    using Cons.IH [OF s(2)] note_declaration_counts [of response "run\<lparr>wr_client := w, wr_sequence := wr_sequence run + 1\<rparr>"]
    by (simp add: add.commute add.left_commute)
qed simp

text \<open>Staying alive touches the client only.\<close>

lemma stay_alive_client: "\<exists>w. stay_alive opts n run = run\<lparr>wr_client := w\<rparr>"
proof (induction opts n run rule: stay_alive.induct)
  case (1 opts n run)
  show ?case
  proof (cases "n < unat (wopt_stay_alive_ms opts)")
    case True
    then obtain w where "stay_alive opts n run = (if wopt_heartbeat_every opts \<noteq> 0 then beat run else run)\<lparr>wr_client := w\<rparr>"
      using "1.IH" by (auto simp: stay_alive.simps [of opts n])
    then show ?thesis
      by (auto simp: beat_def)
  next
    case False
    then show ?thesis
      by (intro exI [of _ "wr_client run"]) (simp add: stay_alive.simps [of opts n])
  qed
qed

theorem worker_run_accounts:
  assumes "worker_session_run opts epoch clock (start_run opts result w) = Some run"
  shows "wr_declared run + wr_declare_rejected run = wopt_queues opts"
    and "wr_published run + wr_publish_failures run = wopt_publishes opts * of_nat (length (wr_queues run))"
    and "wr_sequence run = 1 + wopt_queues opts + wopt_publishes opts * of_nat (length (wr_queues run))"
proof -
  obtain r1 where r1: "declare_queues opts epoch [0..<unat (wopt_queues opts)] (start_run opts result w) = Some r1"
      and run: "run = stay_alive opts 0 (publish_report (publish_rounds opts epoch clock (declare_report r1)))"
    using assms by (auto simp: worker_session_run_def split: option.splits)
  define r2 where "r2 = declare_report r1"
  have r2: "wr_batch r2 = wr_batch r1" "accounted r2 = accounted r1" "wr_sequence r2 = wr_sequence r1"
      "wr_declared r2 = wr_declared r1" "wr_declare_rejected r2 = wr_declare_rejected r1"
    by (simp_all add: r2_def declare_report_def accounted_def)
  note d = declare_queues_counts [OF r1]
  have start: "wr_batch r2 = []" "accounted r2 = 0" "wr_sequence r2 = 1 + wopt_queues opts"
      "wr_declared r2 + wr_declare_rejected r2 = wopt_queues opts"
    using d r2 by (simp_all add: start_run_def) (simp add: accounted_def)
  define r3 where "r3 = publish_rounds opts epoch clock r2"
  have r3: "accounted r3 = wopt_publishes opts * of_nat (length (wr_queues r3))" "wr_batch r3 = []"
      "wr_sequence r3 = 1 + wopt_queues opts + wopt_publishes opts * of_nat (length (wr_queues r3))"
      "wr_declared r3 + wr_declare_rejected r3 = wopt_queues opts"
    using publish_fold_accounts [OF start(1), of opts epoch clock "[0..<unat (wopt_publishes opts)]"] start
    by (auto simp: r3_def publish_rounds_def)
  obtain w where eq: "run = (publish_report r3)\<lparr>wr_client := w\<rparr>"
    using stay_alive_client [of opts 0 "publish_report r3"] by (auto simp: run r3_def r2_def)
  show "wr_declared run + wr_declare_rejected run = wopt_queues opts"
    "wr_published run + wr_publish_failures run = wopt_publishes opts * of_nat (length (wr_queues run))"
    "wr_sequence run = 1 + wopt_queues opts + wopt_publishes opts * of_nat (length (wr_queues run))"
    using r3 by (simp_all add: eq publish_report_def accounted_def)
qed

end
