(* ===== verification/QF_Process.thy ===== *)
theory QF_Process
  imports QF_Bytes
begin

text \<open>
  \<^verbatim>\<open>include/qf/process.hpp\<close> and \<^verbatim>\<open>src/process.cpp\<close>, in its POSIX build: child processes and the small text
  files with which processes tell each other that they are ready; and the clocks of \<^verbatim>\<open>include/qf/time.hpp\<close>. The outcome of a system call is an
  argument of the operation that makes it. The lemmas say that a child is signalled only while its
  process identity is still its own, and that a text file is replaced at once: a process that polls for it
  never reads a part of it.
\<close>

section \<open>Child processes\<close>

text \<open>What \<^verbatim>\<open>waitpid\<close> stores, as \<^verbatim>\<open>WIFEXITED\<close> and \<^verbatim>\<open>WIFSIGNALED\<close> read it, and what it returns.\<close>

datatype wait_status = Wexited nat | Wsignaled nat | Wother

datatype wait_outcome = Wait_error | Wait_none | Wait_status wait_status

record child_impl =
  ci_pid :: int
  ci_status :: wait_status
  ci_exited :: bool

record child_process =
  cp_impl :: "child_impl option"
  cp_pid :: u64

definition no_child :: child_process where
  "no_child = \<lparr>cp_impl = None, cp_pid = 0\<rparr>"

text \<open>The parent's side of \<^verbatim>\<open>spawn\<close>; \<open>pid\<close> is what \<^verbatim>\<open>fork\<close> returned (\<^verbatim>\<open>0\<close> only in the child).\<close>

definition cp_spawn :: "string list \<Rightarrow> int \<Rightarrow> child_process result" where
  "cp_spawn argv pid =
     (if argv = [] then Inl (Status Code_invalid_argument ''spawn requires a program'')
      else if pid < 0 then Inl (Status Code_internal ''fork failed'')
      else Inr \<lparr>cp_impl = Some \<lparr>ci_pid = pid, ci_status = Wexited 0, ci_exited = False\<rparr>, cp_pid = of_int pid\<rparr>)"

text \<open>The child's side: its exit code, unless \<^verbatim>\<open>execv\<close> replaces the program.\<close>

definition cp_exec :: "string \<Rightarrow> bool \<Rightarrow> bool \<Rightarrow> nat option" where
  "cp_exec working_dir chdir_ok exec_ok =
     (if working_dir \<noteq> [] \<and> \<not> chdir_ok then Some 127 else if exec_ok then None else Some 127)"

text \<open>The implementation of a child that has a process identity.\<close>

definition cp_live :: "child_process \<Rightarrow> child_impl option" where
  "cp_live cp = (case cp_impl cp of None \<Rightarrow> None | Some ci \<Rightarrow> if ci_pid ci \<le> 0 then None else Some ci)"

definition no_process :: status where
  "no_process = Status Code_not_found ''no child process''"

text \<open>\<^verbatim>\<open>terminate\<close>: whether \<^verbatim>\<open>kill\<close> is called, and the status for its outcome.\<close>

definition cp_kills :: "child_process \<Rightarrow> bool" where
  "cp_kills cp = (case cp_live cp of None \<Rightarrow> False | Some ci \<Rightarrow> \<not> ci_exited ci)"

definition cp_terminate :: "bool \<Rightarrow> child_process \<Rightarrow> status" where
  "cp_terminate kill_ok cp =
     (if cp_live cp = None then no_process
      else if cp_kills cp \<and> \<not> kill_ok then Status Code_internal ''child process could not be terminated''
      else success)"

definition exit_code :: "wait_status \<Rightarrow> nat" where
  "exit_code st = (case st of Wexited n \<Rightarrow> n | Wsignaled n \<Rightarrow> 128 + n | Wother \<Rightarrow> 0)"

definition note_exit :: "wait_status \<Rightarrow> child_process \<Rightarrow> child_process" where
  "note_exit st cp = cp\<lparr>cp_impl := map_option (\<lambda>ci. ci\<lparr>ci_status := st, ci_exited := True\<rparr>) (cp_impl cp)\<rparr>"

text \<open>A blocking \<^verbatim>\<open>waitpid\<close> does not return \<^verbatim>\<open>0\<close>; \<open>Wait_none\<close> leaves the status \<^verbatim>\<open>0\<close> of the code in place.\<close>

definition cp_wait :: "wait_outcome \<Rightarrow> child_process \<Rightarrow> nat result \<times> child_process" where
  "cp_wait outcome cp =
     (case cp_live cp of
        None \<Rightarrow> (Inl no_process, cp)
      | Some ci \<Rightarrow>
          (if ci_exited ci then (Inr (exit_code (ci_status ci)), cp)
           else (case outcome of
                   Wait_error \<Rightarrow> (Inl (Status Code_internal ''waitpid failed''), cp)
                 | Wait_none \<Rightarrow> (Inr (exit_code (Wexited 0)), note_exit (Wexited 0) cp)
                 | Wait_status st \<Rightarrow> (Inr (exit_code st), note_exit st cp))))"

definition cp_wait_for :: "u32 \<Rightarrow> wait_outcome \<Rightarrow> child_process \<Rightarrow> bool result \<times> child_process" where
  "cp_wait_for timeout_ms outcome cp =
     (case cp_live cp of
        None \<Rightarrow> (Inl no_process, cp)
      | Some ci \<Rightarrow>
          (if ci_exited ci then (Inr True, cp)
           else (case outcome of
                   Wait_none \<Rightarrow> (Inr False, cp)
                 | Wait_error \<Rightarrow> (Inl (Status Code_internal ''waitpid failed''), cp)
                 | Wait_status st \<Rightarrow> (Inr True, note_exit st cp))))"

definition cp_running :: "wait_outcome \<Rightarrow> child_process \<Rightarrow> bool \<times> child_process" where
  "cp_running outcome cp =
     (case cp_live cp of
        None \<Rightarrow> (False, cp)
      | Some ci \<Rightarrow>
          (if ci_exited ci then (False, cp)
           else (case outcome of
                   Wait_none \<Rightarrow> (True, cp)
                 | Wait_error \<Rightarrow> (False, cp)
                 | Wait_status st \<Rightarrow> (False, note_exit st cp))))"

text \<open>The destructor, with the outcomes of its \<^verbatim>\<open>waitpid\<close>, \<^verbatim>\<open>kill\<close> and second \<^verbatim>\<open>waitpid\<close>.\<close>

definition cp_destroy :: "wait_outcome \<Rightarrow> bool \<Rightarrow> wait_outcome \<Rightarrow> child_process \<Rightarrow> child_process" where
  "cp_destroy polled kill_ok waited cp =
     (case cp_running polled cp of (alive, cp) \<Rightarrow> if alive then snd (cp_wait waited cp) else cp)"

text \<open>The move constructor and the assignment from another object: the source is left without a child.\<close>

definition cp_move :: "child_process \<Rightarrow> child_process \<times> child_process" where
  "cp_move other = (other, no_child)"

definition cp_assign :: "child_process \<Rightarrow> child_process \<Rightarrow> child_process \<times> child_process" where
  "cp_assign this other = (other, no_child)"

subsection \<open>The child and its process\<close>

text \<open>
  A process as the operating system has it: it runs, or has ended and its status waits to be collected, or
  the status was collected and its identity may be that of another process. The only things assumed of
  \<^verbatim>\<open>waitpid\<close>: it hands out a status once, the one of a process that has ended, and a blocking call returns a
  status or an error.
\<close>

datatype proc = Proc_running | Proc_ended wait_status | Proc_collected

fun proc_waited :: "proc \<Rightarrow> wait_outcome \<Rightarrow> proc option" where
  "proc_waited (Proc_ended st) (Wait_status st') = (if st = st' then Some Proc_collected else None)"
| "proc_waited p (Wait_status _) = None"
| "proc_waited p _ = Some p"

text \<open>Whether an operation of the child calls \<^verbatim>\<open>waitpid\<close> is what \<open>cp_kills\<close> tells, too.\<close>

definition proc_after :: "child_process \<Rightarrow> wait_outcome \<Rightarrow> proc \<Rightarrow> proc option" where
  "proc_after cp outcome p = (if cp_kills cp then proc_waited p outcome else Some p)"

inductive child_run :: "proc \<Rightarrow> child_process \<Rightarrow> bool" where
  spawned: "cp_spawn argv pid = Inr cp \<Longrightarrow> pid \<noteq> 0 \<Longrightarrow> child_run Proc_running cp"
| ends: "child_run Proc_running cp \<Longrightarrow> child_run (Proc_ended st) cp"
| waited: "child_run p cp \<Longrightarrow> outcome \<noteq> Wait_none \<Longrightarrow> proc_after cp outcome p = Some p' \<Longrightarrow> child_run p' (snd (cp_wait outcome cp))"
| waited_for: "child_run p cp \<Longrightarrow> proc_after cp outcome p = Some p' \<Longrightarrow> child_run p' (snd (cp_wait_for t outcome cp))"
| polled: "child_run p cp \<Longrightarrow> proc_after cp outcome p = Some p' \<Longrightarrow> child_run p' (snd (cp_running outcome cp))"

definition child_ok :: "proc \<Rightarrow> child_process \<Rightarrow> bool" where
  "child_ok p cp \<longleftrightarrow> (\<exists>ci. cp_impl cp = Some ci \<and> 0 < ci_pid ci \<and> (ci_exited ci \<longleftrightarrow> p = Proc_collected))"

lemma proc_waited_collected: "proc_waited p outcome = Some p' \<Longrightarrow> p \<noteq> Proc_collected \<Longrightarrow>
  (p' = Proc_collected) = (\<exists>st. outcome = Wait_status st)"
  by (cases p; cases outcome) (auto split: if_splits)

lemma child_steps_ok:
  assumes "child_ok p cp" "proc_after cp outcome p = Some p'"
  shows "outcome \<noteq> Wait_none \<Longrightarrow> child_ok p' (snd (cp_wait outcome cp))"
    and "child_ok p' (snd (cp_wait_for t outcome cp))" "child_ok p' (snd (cp_running outcome cp))"
  using assms proc_waited_collected [of p outcome p']
  by (auto simp: child_ok_def proc_after_def cp_kills_def cp_live_def cp_wait_def cp_wait_for_def cp_running_def note_exit_def
      split: option.splits if_splits wait_outcome.splits)

lemma child_run_ok: "child_run p cp \<Longrightarrow> child_ok p cp"
proof (induction rule: child_run.induct)
  case (spawned argv pid cp)
  then show ?case
    by (auto simp: cp_spawn_def child_ok_def split: if_splits)
next
  case (ends cp st)
  then show ?case
    by (auto simp: child_ok_def)
qed (auto intro: child_steps_ok)

text \<open>The exit code does not change once it is known, and nothing asks the operating system for it again.\<close>

lemma exit_code_stable:
  assumes "cp_wait outcome cp = (Inr n, cp')"
  shows "cp_wait outcome' cp' = (Inr n, cp')" "cp_wait_for t outcome' cp' = (Inr True, cp')" "cp_running outcome' cp' = (False, cp')"
    and "\<not> cp_kills cp'"
  using assms
  by (auto simp: cp_wait_def cp_wait_for_def cp_running_def cp_kills_def cp_live_def note_exit_def
      split: option.splits if_splits wait_outcome.splits)

section \<open>Text files\<close>

type_synonym files = "string \<rightharpoonup> string"

definition read_text_file :: "string \<Rightarrow> nat \<Rightarrow> files \<Rightarrow> string result" where
  "read_text_file path max_bytes fs =
     (case fs path of
        None \<Rightarrow> Inl (Status Code_not_found ''file could not be opened'')
      | Some content \<Rightarrow>
          (if take max_bytes content = [] then Inl (Status Code_not_found ''file is empty'') else Inr (take max_bytes content)))"

text \<open>
  What the calls of one \<^verbatim>\<open>write_text_file\<close> do: whether the temporary file is created, how much of it is on
  disk at each moment before the flush has returned, whether the flush succeeds, whether the rename does.
\<close>

record writing =
  wf_created :: bool
  wf_progress :: "nat list"
  wf_flushed :: bool
  wf_renamed :: bool

text \<open>The status, and the file systems that other processes may see, the last one after the call.\<close>

definition write_text_file :: "string \<Rightarrow> string \<Rightarrow> writing \<Rightarrow> files \<Rightarrow> status \<times> files list" where
  "write_text_file path text o' fs =
     (let temporary = path @ ''.tmp'';
          during = fs(temporary \<mapsto> []) # map (\<lambda>k. fs(temporary \<mapsto> take k text)) (wf_progress o')
      in if \<not> wf_created o' then (Status Code_internal ''temporary file could not be created'', [fs])
         else if \<not> wf_flushed o' then (Status Code_internal ''temporary file could not be written'', fs # during)
         else if \<not> wf_renamed o'
         then (Status Code_internal ''file could not be replaced atomically'', fs # during @ [fs(temporary \<mapsto> text)])
         else (success, fs # during @ [fs(temporary \<mapsto> text), fs(temporary := None, path \<mapsto> text)]))"

text \<open>\<open>views n\<close> is the file system as the attempt \<open>n\<close> finds it.\<close>

fun poll_file :: "string \<Rightarrow> (nat \<Rightarrow> files) \<Rightarrow> nat list \<Rightarrow> string result" where
  "poll_file path views [] = Inl (Status Code_not_found ''handshake file did not appear'')"
| "poll_file path views (n # ns) =
     (case read_text_file path 4096 (views n) of Inr content \<Rightarrow> Inr content | Inl _ \<Rightarrow> poll_file path views ns)"

definition wait_for_file :: "string \<Rightarrow> u32 \<Rightarrow> (nat \<Rightarrow> files) \<Rightarrow> string result" where
  "wait_for_file path attempts views = poll_file path views [0..<unat attempts]"

lemma write_text_file_views:
  assumes "write_text_file path text o' fs = (st, seen)"
  shows "\<forall>g\<in>set seen. g path = fs path \<or> ok st \<and> g path = Some text" "ok st \<Longrightarrow> last seen path = Some text"
    and "\<forall>g\<in>set seen. \<forall>p. p \<noteq> path \<longrightarrow> p \<noteq> path @ ''.tmp'' \<longrightarrow> g p = fs p"
  using assms by (auto simp: write_text_file_def Let_def split: if_splits)

lemma poll_file_reads:
  assumes "\<forall>n\<in>set ns. views n path \<in> {None, Some text}" "text \<noteq> []" "length text \<le> 4096"
  shows "poll_file path views ns =
    (if \<exists>n\<in>set ns. views n path = Some text then Inr text else Inl (Status Code_not_found ''handshake file did not appear''))"
  using assms(1)
proof (induction ns)
  case (Cons n ns)
  then show ?case
    using assms(2,3) by (cases "views n path = Some text") (auto simp: read_text_file_def)
qed simp

theorem wait_for_file_whole:
  assumes "write_text_file path text o' fs = (st, seen)" "fs path = None" "text \<noteq> []" "length text \<le> 4096"
    and "\<forall>n < unat attempts. views n \<in> set seen"
  shows "wait_for_file path attempts views \<in> {Inr text, Inl (Status Code_not_found ''handshake file did not appear'')}"
    and "ok st \<Longrightarrow> n < unat attempts \<Longrightarrow> views n = last seen \<Longrightarrow> wait_for_file path attempts views = Inr text"
    and "\<not> ok st \<Longrightarrow> wait_for_file path attempts views = Inl (Status Code_not_found ''handshake file did not appear'')"
proof -
  have v: "\<forall>n\<in>set [0..<unat attempts]. views n path \<in> {None, Some text}"
    using write_text_file_views(1) [OF assms(1)] assms(2,5) by auto
  note p = poll_file_reads [where views = views, OF v assms(3,4), folded wait_for_file_def]
  show "wait_for_file path attempts views \<in> {Inr text, Inl (Status Code_not_found ''handshake file did not appear'')}"
    by (simp add: p)
  show "wait_for_file path attempts views = Inr text" if "ok st" "n < unat attempts" "views n = last seen"
    using that write_text_file_views(2) [OF assms(1)] by (auto simp: p intro!: bexI [of _ n])
  show "wait_for_file path attempts views = Inl (Status Code_not_found ''handshake file did not appear'')" if "\<not> ok st"
  proof -
    have "views n path = None" if "n < unat attempts" for n
      using that \<open>\<not> ok st\<close> write_text_file_views(1) [OF assms(1)] assms(2,5) by metis
    then show ?thesis
      by (auto simp: p)
  qed
qed

section \<open>Clocks\<close>

text \<open>The readings of \<^verbatim>\<open>std::chrono::steady_clock\<close> are a parameter; the clock counts from its first one.\<close>

definition steady_now :: "(nat \<Rightarrow> int) \<Rightarrow> nat \<Rightarrow> int" where
  "steady_now readings n = readings n - readings 0"

record manual_clock =
  mk_now :: int

definition manual_advance :: "int \<Rightarrow> manual_clock \<Rightarrow> manual_clock" where
  "manual_advance delta c = c\<lparr>mk_now := mk_now c + delta\<rparr>"

definition manual_set :: "int \<Rightarrow> manual_clock \<Rightarrow> manual_clock" where
  "manual_set v c = c\<lparr>mk_now := v\<rparr>"

lemma steady_now_mono:
  assumes "mono readings"
  shows "0 \<le> steady_now readings n" "m \<le> n \<Longrightarrow> steady_now readings m \<le> steady_now readings n"
  using assms by (auto simp: steady_now_def dest: monoD)

end
