(* ===== verification/QF_Sockets.thy ===== *)
theory QF_Sockets
  imports QF_Coordinator "HOL-Library.Multiset"
begin

text \<open>
  The socket handles of \<^verbatim>\<open>include/qf/transport.hpp\<close> and \<^verbatim>\<open>src/transport.cpp\<close> in its POSIX build: how
  \<^verbatim>\<open>TcpTransport\<close> and \<^verbatim>\<open>TcpListener\<close> come by a handle (resolve, connect, bind, accept), pass it on (moves)
  and give it back (close, destructor). The handles the process has open are a list; the outcomes of the
  system calls are arguments. The result is that every open handle has exactly one owner at any time. What goes over
  a connected socket is the matter of \<open>QF_Transport\<close>.
\<close>

type_synonym handle = int

definition kInvalidHandle :: handle where "kInvalidHandle = -1"

definition close_handle :: "handle \<Rightarrow> handle list \<Rightarrow> handle list" where
  "close_handle h hs = (if h = kInvalidHandle then hs else remove1 h hs)"

section \<open>The network subsystem\<close>

text \<open>The state behind \<^verbatim>\<open>std::call_once\<close>.\<close>

record network =
  nw_called :: bool
  nw_ok :: bool
  nw_error :: string

definition new_network :: network where
  "new_network = \<lparr>nw_called = False, nw_ok = False, nw_error = ''network subsystem was never initialised''\<rparr>"

definition initialize_network :: "network \<Rightarrow> network" where
  "initialize_network n = n\<lparr>nw_ok := True, nw_error := []\<rparr>"

definition network_init :: "network \<Rightarrow> status \<times> network" where
  "network_init n =
     (let n = (if nw_called n then n else (initialize_network n)\<lparr>nw_called := True\<rparr>)
      in if \<not> nw_ok n then (Status Code_unsupported (nw_error n), n) else (success, n))"

section \<open>Addresses\<close>

text \<open>An address with the text \<^verbatim>\<open>inet_ntop\<close> makes of it, if it does.\<close>

datatype sockaddr = Sa_inet "string option" u16 | Sa_inet6 "string option" u16 | Sa_other

definition describe_peer :: "sockaddr \<Rightarrow> string" where
  "describe_peer address =
     (case address of
        Sa_inet (Some text) port \<Rightarrow> text @ '':'' @ dec_string (unat port)
      | Sa_inet6 (Some text) port \<Rightarrow> text @ '':'' @ dec_string (unat port)
      | _ \<Rightarrow> ''unknown'')"

section \<open>Connected sockets\<close>

record tcp_transport =
  tt_handle :: handle
  tt_peer :: string
  tt_bytes_sent :: u64
  tt_bytes_received :: u64

definition new_transport :: tcp_transport where
  "new_transport = \<lparr>tt_handle = kInvalidHandle, tt_peer = [], tt_bytes_sent = 0, tt_bytes_received = 0\<rparr>"

definition tt_adopt :: "handle \<Rightarrow> string \<Rightarrow> tcp_transport" where
  "tt_adopt h name = new_transport\<lparr>tt_handle := h, tt_peer := name\<rparr>"

definition tt_open :: "tcp_transport \<Rightarrow> bool" where
  "tt_open t \<longleftrightarrow> tt_handle t \<noteq> kInvalidHandle"

text \<open>What the calls for one resolved address give: a handle or \<^verbatim>\<open>-1\<close>, whether it connects, and the error text.\<close>

record attempt =
  aa_socket :: handle
  aa_connected :: bool
  aa_peer :: "sockaddr option"
  aa_error :: string

fun connect_loop :: "string \<Rightarrow> attempt list \<Rightarrow> status \<Rightarrow> handle list \<Rightarrow> tcp_transport result \<times> handle list" where
  "connect_loop name [] failure hs = (Inl failure, hs)"
| "connect_loop name (a # as) failure hs =
     (if aa_socket a = kInvalidHandle then connect_loop name as (Status Code_internal (aa_error a)) hs
      else (let hs = aa_socket a # hs
            in if aa_connected a
               then (Inr (tt_adopt (aa_socket a) (case aa_peer a of Some address \<Rightarrow> describe_peer address | None \<Rightarrow> name)), hs)
               else connect_loop name as (Status Code_not_found (aa_error a)) (close_handle (aa_socket a) hs)))"

text \<open>\<open>resolved\<close> is the outcome of \<^verbatim>\<open>getaddrinfo\<close>, the addresses with what becomes of them.\<close>

definition tt_connect ::
  "string \<Rightarrow> u16 \<Rightarrow> attempt list option \<Rightarrow> network \<Rightarrow> handle list \<Rightarrow> tcp_transport result \<times> network \<times> handle list" where
  "tt_connect host port resolved n hs =
     (case network_init n of
        (init, n) \<Rightarrow>
          if \<not> ok init then (Inl init, n, hs)
          else (case resolved of
                  None \<Rightarrow> (Inl (Status Code_not_found ''address could not be resolved''), n, hs)
                | Some [] \<Rightarrow> (Inl (Status Code_not_found ''address could not be resolved''), n, hs)
                | Some as \<Rightarrow>
                    (case connect_loop (host @ '':'' @ dec_string (unat port)) as (Status Code_not_found ''no reachable address'') hs of
                       (res, hs) \<Rightarrow> (res, n, hs))))"

definition tt_readable :: "int \<Rightarrow> tcp_transport \<Rightarrow> bool" where
  "tt_readable rc t = (if \<not> tt_open t then True else rc > 0)"

definition tt_close :: "tcp_transport \<Rightarrow> handle list \<Rightarrow> tcp_transport \<times> handle list" where
  "tt_close t hs = (t\<lparr>tt_handle := kInvalidHandle\<rparr>, close_handle (tt_handle t) hs)"

text \<open>\<^verbatim>\<open>set_no_delay\<close> and \<^verbatim>\<open>set_keepalive\<close> differ in the option only.\<close>

definition tt_set_option :: "bool \<Rightarrow> string \<Rightarrow> tcp_transport \<Rightarrow> status" where
  "tt_set_option set_ok err t =
     (if \<not> tt_open t then Status Code_internal ''transport is closed''
      else if \<not> set_ok then Status Code_internal err else success)"

text \<open>What is left of the source of a move, and the assignment: the handle held before is closed.\<close>

definition tt_moved_from :: "tcp_transport \<Rightarrow> tcp_transport" where
  "tt_moved_from t = t\<lparr>tt_handle := kInvalidHandle, tt_peer := [], tt_bytes_sent := 0, tt_bytes_received := 0\<rparr>"

definition tt_move :: "tcp_transport \<Rightarrow> tcp_transport \<times> tcp_transport" where
  "tt_move other = (other, tt_moved_from other)"

definition tt_assign :: "tcp_transport \<Rightarrow> tcp_transport \<Rightarrow> handle list \<Rightarrow> tcp_transport \<times> tcp_transport \<times> handle list" where
  "tt_assign this other hs = (case tt_close this hs of (this, hs) \<Rightarrow> (other, tt_moved_from other, hs))"

section \<open>Listeners\<close>

record tcp_listener =
  tl_handle :: handle
  tl_port :: u16

definition new_listener :: tcp_listener where
  "new_listener = \<lparr>tl_handle = kInvalidHandle, tl_port = 0\<rparr>"

definition tl_open :: "tcp_listener \<Rightarrow> bool" where
  "tl_open l \<longleftrightarrow> tl_handle l \<noteq> kInvalidHandle"

definition effective_backlog :: "nat \<Rightarrow> nat" where
  "effective_backlog backlog = (if backlog = 0 then kMaxConnections else backlog)"

record binding_attempt =
  bt_socket :: handle
  bt_bound :: bool
  bt_listening :: "nat \<Rightarrow> bool"
  bt_port :: "u16 option"
  bt_error :: string

fun bind_loop :: "u16 \<Rightarrow> nat \<Rightarrow> binding_attempt list \<Rightarrow> status \<Rightarrow> handle list \<Rightarrow> tcp_listener result \<times> handle list" where
  "bind_loop port backlog [] failure hs = (Inl failure, hs)"
| "bind_loop port backlog (a # as) failure hs =
     (if bt_socket a = kInvalidHandle then bind_loop port backlog as (Status Code_internal (bt_error a)) hs
      else (let hs = bt_socket a # hs
            in if \<not> bt_bound a then bind_loop port backlog as (Status Code_internal (bt_error a)) (close_handle (bt_socket a) hs)
               else if \<not> bt_listening a (effective_backlog backlog)
               then bind_loop port backlog as (Status Code_internal (bt_error a)) (close_handle (bt_socket a) hs)
               else (Inr \<lparr>tl_handle = bt_socket a, tl_port = (case bt_port a of Some p \<Rightarrow> p | None \<Rightarrow> port)\<rparr>, hs)))"

definition tl_bind ::
  "u16 \<Rightarrow> nat \<Rightarrow> binding_attempt list option \<Rightarrow> network \<Rightarrow> handle list \<Rightarrow> tcp_listener result \<times> network \<times> handle list" where
  "tl_bind port backlog resolved n hs =
     (case network_init n of
        (init, n) \<Rightarrow>
          if \<not> ok init then (Inl init, n, hs)
          else (case resolved of
                  None \<Rightarrow> (Inl (Status Code_invalid_argument ''listen address could not be resolved''), n, hs)
                | Some [] \<Rightarrow> (Inl (Status Code_invalid_argument ''listen address could not be resolved''), n, hs)
                | Some as \<Rightarrow>
                    (case bind_loop port backlog as (Status Code_internal ''listen socket could not be created'') hs of
                       (res, hs) \<Rightarrow> (res, n, hs))))"

text \<open>\<open>ready\<close> is the result of \<^verbatim>\<open>select\<close>, \<open>raw\<close> that of \<^verbatim>\<open>accept\<close>.\<close>

definition tl_accept :: "int \<Rightarrow> handle \<Rightarrow> sockaddr \<Rightarrow> string \<Rightarrow> tcp_listener \<Rightarrow> handle list \<Rightarrow> tcp_transport result \<times> handle list" where
  "tl_accept ready raw remote err l hs =
     (if \<not> tl_open l then (Inl (Status Code_internal ''listener is closed''), hs)
      else if ready \<le> 0 then (Inl (Status Code_not_found ''no pending connection''), hs)
      else if raw = kInvalidHandle then (Inl (Status Code_internal err), hs)
      else (Inr (tt_adopt raw (describe_peer remote)), raw # hs))"

definition tl_close :: "tcp_listener \<Rightarrow> handle list \<Rightarrow> tcp_listener \<times> handle list" where
  "tl_close l hs = (l\<lparr>tl_handle := kInvalidHandle\<rparr>, close_handle (tl_handle l) hs)"

definition tl_move :: "tcp_listener \<Rightarrow> tcp_listener \<times> tcp_listener" where
  "tl_move other = (other, new_listener)"

definition tl_assign :: "tcp_listener \<Rightarrow> tcp_listener \<Rightarrow> handle list \<Rightarrow> tcp_listener \<times> tcp_listener \<times> handle list" where
  "tl_assign this other hs = (case tl_close this hs of (this, hs) \<Rightarrow> (other, new_listener, hs))"

section \<open>Every handle has one owner\<close>

text \<open>What an operation that may acquire a handle does to the open handles.\<close>

definition acquires :: "('a \<Rightarrow> handle) \<Rightarrow> 'a result \<Rightarrow> handle list \<Rightarrow> handle list \<Rightarrow> bool" where
  "acquires g res hs hs' \<longleftrightarrow> (case res of Inl st \<Rightarrow> hs' = hs | Inr x \<Rightarrow> g x \<noteq> kInvalidHandle \<and> hs' = g x # hs)"

lemma acquires_simps [simp]:
  "acquires g (Inl st) hs hs' \<longleftrightarrow> hs' = hs" "acquires g (Inr x) hs hs' \<longleftrightarrow> g x \<noteq> kInvalidHandle \<and> hs' = g x # hs"
  by (simp_all add: acquires_def)

lemma close_opened [simp]: "h \<noteq> kInvalidHandle \<Longrightarrow> close_handle h (h # hs) = hs"
  by (simp add: close_handle_def)

lemma tt_handle_adopt [simp]: "tt_handle (tt_adopt h name) = h"
  by (simp add: tt_adopt_def)

lemma connect_loop_handles: "connect_loop name as failure hs = (res, hs') \<Longrightarrow> acquires tt_handle res hs hs'"
  by (induction name as failure hs rule: connect_loop.induct) (auto simp: Let_def split: if_splits)

lemma bind_loop_handles: "bind_loop port backlog as failure hs = (res, hs') \<Longrightarrow> acquires tl_handle res hs hs'"
  by (induction port backlog as failure hs rule: bind_loop.induct) (auto simp: Let_def split: if_splits)

lemma tt_connect_handles: "tt_connect host port resolved n hs = (res, n', hs') \<Longrightarrow> acquires tt_handle res hs hs'"
  by (auto simp: tt_connect_def split: prod.splits if_splits option.splits list.splits dest!: connect_loop_handles simp del: connect_loop.simps)

lemma tl_bind_handles: "tl_bind port backlog resolved n hs = (res, n', hs') \<Longrightarrow> acquires tl_handle res hs hs'"
  by (auto simp: tl_bind_def split: prod.splits if_splits option.splits list.splits dest!: bind_loop_handles simp del: bind_loop.simps)

lemma tl_accept_handles: "tl_accept ready raw remote err l hs = (res, hs') \<Longrightarrow> acquires tt_handle res hs hs'"
  by (auto simp: tl_accept_def split: if_splits)

text \<open>The sockets of a process: the network state, the open handles, and the objects that are alive.\<close>

record sockets =
  sk_network :: network
  sk_handles :: "handle list"
  sk_transports :: "tcp_transport list"
  sk_listeners :: "tcp_listener list"

definition no_sockets :: sockets where
  "no_sockets = \<lparr>sk_network = new_network, sk_handles = [], sk_transports = [], sk_listeners = []\<rparr>"

text \<open>The handles the objects hold, the invalid ones left out.\<close>

definition valid_handles :: "handle list \<Rightarrow> handle multiset" where
  "valid_handles hs = filter_mset (\<lambda>h. h \<noteq> kInvalidHandle) (mset hs)"

definition owned :: "sockets \<Rightarrow> bool" where
  "owned s \<longleftrightarrow> mset (sk_handles s) =
     valid_handles (map tt_handle (sk_transports s)) + valid_handles (map tl_handle (sk_listeners s))"

text \<open>What a process can do with its sockets.\<close>

inductive socket_step :: "sockets \<Rightarrow> sockets \<Rightarrow> bool" where
  connects: "tt_connect host port resolved (sk_network s) (sk_handles s) = (res, n, hs) \<Longrightarrow>
    socket_step s (s\<lparr>sk_network := n, sk_handles := hs, sk_transports := (case res of Inl _ \<Rightarrow> [] | Inr t \<Rightarrow> [t]) @ sk_transports s\<rparr>)"
| binds: "tl_bind port' backlog resolved' (sk_network s) (sk_handles s) = (res', n, hs) \<Longrightarrow>
    socket_step s (s\<lparr>sk_network := n, sk_handles := hs, sk_listeners := (case res' of Inl _ \<Rightarrow> [] | Inr l \<Rightarrow> [l]) @ sk_listeners s\<rparr>)"
| accepts: "l \<in> set (sk_listeners s) \<Longrightarrow> tl_accept ready raw remote err l (sk_handles s) = (res, hs) \<Longrightarrow>
    socket_step s (s\<lparr>sk_handles := hs, sk_transports := (case res of Inl _ \<Rightarrow> [] | Inr t \<Rightarrow> [t]) @ sk_transports s\<rparr>)"
| closes: "i < length (sk_transports s) \<Longrightarrow> tt_close (sk_transports s ! i) (sk_handles s) = (t, hs) \<Longrightarrow>
    socket_step s (s\<lparr>sk_handles := hs, sk_transports := (sk_transports s)[i := t]\<rparr>)"
| assigns: "i < length (sk_transports s) \<Longrightarrow> j < length (sk_transports s) \<Longrightarrow> i \<noteq> j \<Longrightarrow>
    tt_assign (sk_transports s ! i) (sk_transports s ! j) (sk_handles s) = (t, u, hs) \<Longrightarrow>
    socket_step s (s\<lparr>sk_handles := hs, sk_transports := (sk_transports s)[i := t, j := u]\<rparr>)"
| moves: "j < length (sk_transports s) \<Longrightarrow> tt_move (sk_transports s ! j) = (t, u) \<Longrightarrow>
    socket_step s (s\<lparr>sk_transports := t # (sk_transports s)[j := u]\<rparr>)"
| destroys: "sk_transports s = ts @ t # ts' \<Longrightarrow>
    socket_step s (s\<lparr>sk_handles := snd (tt_close t (sk_handles s)), sk_transports := ts @ ts'\<rparr>)"
| closes_listener: "i < length (sk_listeners s) \<Longrightarrow> tl_close (sk_listeners s ! i) (sk_handles s) = (l, hs) \<Longrightarrow>
    socket_step s (s\<lparr>sk_handles := hs, sk_listeners := (sk_listeners s)[i := l]\<rparr>)"
| assigns_listener: "i < length (sk_listeners s) \<Longrightarrow> j < length (sk_listeners s) \<Longrightarrow> i \<noteq> j \<Longrightarrow>
    tl_assign (sk_listeners s ! i) (sk_listeners s ! j) (sk_handles s) = (l, m, hs) \<Longrightarrow>
    socket_step s (s\<lparr>sk_handles := hs, sk_listeners := (sk_listeners s)[i := l, j := m]\<rparr>)"
| moves_listener: "j < length (sk_listeners s) \<Longrightarrow> tl_move (sk_listeners s ! j) = (l, m) \<Longrightarrow>
    socket_step s (s\<lparr>sk_listeners := l # (sk_listeners s)[j := m]\<rparr>)"
| destroys_listener: "sk_listeners s = ls @ l # ls' \<Longrightarrow>
    socket_step s (s\<lparr>sk_handles := snd (tl_close l (sk_handles s)), sk_listeners := ls @ ls'\<rparr>)"

subsection \<open>Handles as a multiset\<close>

lemma valid_handles_Cons [simp]:
  "valid_handles (h # hs) = (if h = kInvalidHandle then valid_handles hs else add_mset h (valid_handles hs))"
  "valid_handles (hs @ hs') = valid_handles hs + valid_handles hs'" "valid_handles [] = {#}"
  by (simp_all add: valid_handles_def)

lemma valid_handles_update:
  "i < length xs \<Longrightarrow> valid_handles (xs[i := kInvalidHandle]) = valid_handles xs - {#xs ! i#}"
  by (auto simp: valid_handles_def mset_update filter_diff_mset)

lemma handles_close:
  assumes "mset hs = valid_handles xs + R" "i < length xs"
  shows "mset (close_handle (xs ! i) hs) = valid_handles (xs[i := kInvalidHandle]) + R"
proof (cases "xs ! i = kInvalidHandle")
  case False
  then have "xs ! i \<in># valid_handles xs"
    using assms(2) by (simp add: valid_handles_def)
  then show ?thesis
    using assms False by (simp add: close_handle_def valid_handles_update)
qed (use assms list_update_id [of xs i] in \<open>simp add: close_handle_def\<close>)

lemma handles_assign:
  assumes "mset hs = valid_handles xs + R" "i < length xs" "j < length xs" "i \<noteq> j"
  shows "mset (close_handle (xs ! i) hs) = valid_handles (xs[i := xs ! j, j := kInvalidHandle]) + R"
proof -
  have "mset (xs[i := xs ! j, j := kInvalidHandle]) = mset (xs[i := kInvalidHandle])"
    using mset_swap [of j "xs[i := kInvalidHandle]" i] assms(2-4) by simp
  then show ?thesis
    using handles_close [OF assms(1,2)] by (simp add: valid_handles_def)
qed

lemma handles_move: "j < length xs \<Longrightarrow> valid_handles (xs ! j # xs[j := kInvalidHandle]) = valid_handles xs"
  by (auto simp: valid_handles_update) (auto simp: valid_handles_def)

lemma handles_destroy: "mset hs = valid_handles (ys @ h # zs) + R \<Longrightarrow> mset (close_handle h hs) = valid_handles (ys @ zs) + R"
  by (simp add: close_handle_def split: if_splits)

theorem socket_step_owned:
  assumes "socket_step s s'" "owned s"
  shows "owned s'"
  using assms
proof cases
  case (connects host port resolved res n hs)
  then show ?thesis
    using assms(2) tt_connect_handles [OF connects(2)] by (cases res) (auto simp: owned_def)
next
  case (binds port backlog resolved res n hs)
  then show ?thesis
    using assms(2) tl_bind_handles [OF binds(2)] by (cases res) (auto simp: owned_def)
next
  case (accepts l ready raw remote err res hs)
  then show ?thesis
    using assms(2) tl_accept_handles [OF accepts(3)] by (cases res) (auto simp: owned_def)
next
  case (closes i t hs)
  then show ?thesis
    using assms(2) handles_close [of "sk_handles s" "map tt_handle (sk_transports s)" _ i]
    by (auto simp: owned_def tt_close_def map_update)
next
  case (assigns i j t u hs)
  then show ?thesis
    using assms(2) handles_assign [of "sk_handles s" "map tt_handle (sk_transports s)" _ i j]
    by (auto simp: owned_def tt_assign_def tt_close_def tt_moved_from_def map_update)
next
  case (moves j t u)
  then show ?thesis
    using assms(2) handles_move [of j "map tt_handle (sk_transports s)"]
    by (auto simp: owned_def tt_move_def tt_moved_from_def map_update simp del: valid_handles_Cons)
next
  case (destroys ts t ts')
  then show ?thesis
    using assms(2) handles_destroy [of "sk_handles s" "map tt_handle ts" "tt_handle t" "map tt_handle ts'"]
    by (auto simp: owned_def tt_close_def)
next
  case (closes_listener i l hs)
  then show ?thesis
    using assms(2) handles_close [of "sk_handles s" "map tl_handle (sk_listeners s)" _ i]
    by (auto simp: owned_def tl_close_def map_update add.commute)
next
  case (assigns_listener i j l m hs)
  then show ?thesis
    using assms(2) handles_assign [of "sk_handles s" "map tl_handle (sk_listeners s)" _ i j]
    by (auto simp: owned_def tl_assign_def tl_close_def new_listener_def map_update add.commute)
next
  case (moves_listener j l m)
  then show ?thesis
    using assms(2) handles_move [of j "map tl_handle (sk_listeners s)"]
    by (auto simp: owned_def tl_move_def new_listener_def map_update simp del: valid_handles_Cons)
next
  case (destroys_listener ls l ls')
  then show ?thesis
    using assms(2) handles_destroy [of "sk_handles s" "map tl_handle ls" "tl_handle l" "map tl_handle ls'"]
    by (auto simp: owned_def tl_close_def add.commute)
qed

lemma owned_start: "owned no_sockets"
  by (simp add: owned_def no_sockets_def)

theorem sockets_owned: "socket_step\<^sup>*\<^sup>* no_sockets s \<Longrightarrow> owned s"
  by (induction rule: rtranclp_induct) (auto intro: owned_start socket_step_owned)

text \<open>Where every object is gone or closed, no handle is left open.\<close>

lemma owned_closed:
  assumes "owned s" "\<forall>t\<in>set (sk_transports s). \<not> tt_open t" "\<forall>l\<in>set (sk_listeners s). \<not> tl_open l"
  shows "sk_handles s = []"
proof -
  have "valid_handles (map tt_handle (sk_transports s)) = {#}" "valid_handles (map tl_handle (sk_listeners s)) = {#}"
    using assms(2,3) by (auto simp: valid_handles_def tt_open_def tl_open_def simp flip: mset_filter)
  then show ?thesis
    using assms(1) by (simp add: owned_def)
qed

end
