(* ===== verification/QF_ProgramScenario.thy ===== *)
theory QF_ProgramScenario
  imports QF_ServerScenario QF_Restart QF_WorkerProgram QF_Process QF_Sockets
begin

text \<open>
  Concrete runs of the two programs: the first start of a coordinator and its restart from a checkpoint, a
  coordinator that serves a few cycles, and a worker that publishes to a socket.
\<close>

section \<open>The first start\<close>

definition blank_fabric :: "memory_journal fabric" where
  "blank_fabric = (new_fabric default_config (\<lambda>_. 6) None None 1)\<lparr>fb_epoch := Counter 1, fb_boot := \<lparr>boot_hi = 1, boot_lo = 1\<rparr>\<rparr>"

definition blank_provenance :: "nat \<Rightarrow> provenance" where
  "blank_provenance n = program_provenance blank_fabric (of_nat n)"

definition booted_fabric :: "memory_journal fabric" where
  "booted_fabric = snd (bootstrap memory_ops blank_provenance blank_fabric)"

definition booted_resource :: resource_record where
  "booted_resource = (declared_resource ''fabric0'' kOwner (blank_provenance 1) 6 blank_fabric)\<lparr>rr_generation := Counter 2,
     rr_classes := [\<lparr>sc_id = Ident 1, sc_resource = Ident 1, sc_name = ''gold'', sc_priority = 7,
       sc_qos = \<lparr>qos_priority_code = 0, qos_traffic_class = 0, qos_group = []\<rparr>, sc_generation = Counter 1, sc_declared_by = blank_provenance 2\<rparr>],
     rr_pools := [\<lparr>bp_id = Ident 1, bp_resource = Ident 1, bp_name = ''pool0'', bp_capacity_bytes = 2 ^ 20, bp_generation = Counter 1,
       bp_declared_by = blank_provenance 3\<rparr>]\<rparr>"

lemma blank_provenance_valid [simp]: "n \<in> {1, 2, 3} \<Longrightarrow> pv_valid (blank_provenance n)"
  by (auto simp: blank_provenance_def program_provenance_def pv_valid_def blank_fabric_def id_valid_def ctr_valid_def boot_valid_def)

lemmas boot_defs = bootstrap_def bootstrap_resource_def bootstrap_class_def bootstrap_pool_def find_resource_by_name_def
  resource_record_of_def find_resource_def um_find_def declare_resource_def declare_resource_refusal_def declared_resource_def
  declare_class_def put_class_entry_def publish_class_def declare_pool_def put_pool_entry_def admin_refusal_def authorize_def
  capabilities_of_def has_capability_all ctr_valid_def ctr_next_def id_valid_def name_in_range_def monotonic_now_def
  persist_def emit_events_def um_empty_def um_emplace_def um_map_def kOwner_def limit_defs default_config_def default_limits_def

lemma booted:
  "fst (bootstrap memory_ops blank_provenance blank_fabric) = Inr (Ident 1)"
  "fb_resources booted_fabric = [(Ident 1, booted_resource)]" "fb_queues booted_fabric = []" "fb_epoch booted_fabric = Counter 1"
  by (simp_all add: booted_fabric_def booted_resource_def blank_fabric_def new_fabric_def Let_def boot_defs)

lemma booted_run: "bootstrap memory_ops blank_provenance blank_fabric = (Inr (Ident 1), booted_fabric)"
  using booted(1) by (simp add: booted_fabric_def prod_eq_iff)

lemma blank_wf: "core_wf (core blank_fabric)" "find_resource blank_fabric i = None"
  by (simp_all add: core_wf_def blank_fabric_def new_fabric_def capacity_wf_def find_resource_def um_empty_def um_wf_def)

lemma booted_snapshot: "snapshot_ok booted_fabric"
  by (simp add: snapshot_ok_def booted)
     (simp add: booted_resource_def declared_resource_def rt_resource_def fits_resource_def name_fits_def limit_defs fits_class_def fits_pool_def
        in_i64_def i64_min_def i64_max_def blank_fabric_def new_fabric_def enc_resource_def enc_seq_def enc_grant_def enc_class_def enc_pool_def)

lemma default_config_ok: "config_ok default_config"
  by (simp add: config_ok_def default_config_def default_limits_def limit_defs)

lemma booted_wf: "fabric_wf default_config booted_fabric"
proof -
  have "(fabric_step memory_ops)\<^sup>*\<^sup>* blank_fabric booted_fabric"
    using bootstrap_steps [of memory_ops blank_fabric blank_provenance] by (simp add: booted_fabric_def)
  moreover have "fabric_wf default_config blank_fabric"
    using blank_wf(1) by (simp add: fabric_wf_def blank_fabric_def new_fabric_def)
  ultimately show ?thesis
    by (induction rule: rtranclp_induct) (auto intro: fabric_step_wf default_config_ok)
qed

section \<open>The restart\<close>

definition checkpointed :: memory_journal where
  "checkpointed = demo_journal\<lparr>mj_records := build_snapshot_locked booted_fabric\<rparr>"

definition restarted :: "memory_journal fabric" where
  "restarted = new_fabric default_config (\<lambda>_. 6) (Some checkpointed) None 1"

lemma checkpointed [simp]:
  "jo_open kept_ops checkpointed = (success, checkpointed)" "jo_records kept_ops checkpointed = build_snapshot_locked booted_fabric"
  "jo_recovery kept_ops checkpointed = new_report" "mj_open checkpointed" "\<not> mj_sync_failure checkpointed"
  by (simp_all add: kept_ops_def memory_ops_def checkpointed_def demo_journal_def new_memory_journal_def)

lemma checkpoint_restored:
  assumes "rp_previous_epoch (fb_recovery f) = Counter 0" "fb_journal f = Some checkpointed" "fb_resources f = []" "fb_queues f = []"
  shows "fst (recover_restore kept_ops checkpointed f) = success"
proof -
  define s where "s = restore_records (build_snapshot_locked booted_fabric) (start_restore f)"
  note r = snapshot_scanned [OF booted_snapshot assms(3,4) s_def]
  have "rs_previous_epoch s = Counter 1"
    using assms(1) by (simp add: s_def restore_snapshot [OF booted_snapshot] booted start_restore_def max_def counter_order)
  then show ?thesis
    using quiet_replay(5) [OF r(1,2) refl, of kept_ops] kept_seal [of checkpointed] r(7) assms(2)
    by (simp add: recover_restore_def s_def [symmetric] Let_def ctr_valid_def ctr_next_def)
qed

lemma restart_recovers: "\<exists>g. recover kept_ops restarted = (success, g)"
proof -
  have "rp_previous_epoch new_report = Counter 0"
    by (simp add: new_report_def)
  then have "fst (recover_locked kept_ops restarted) = success"
    by (simp add: recover_locked_def restarted_def new_fabric_def Let_def split_beta um_empty_def checkpoint_restored)
  then show ?thesis
    by (cases "recover_locked kept_ops restarted") (simp add: recover_def)
qed

section \<open>A coordinator and a worker\<close>

definition demo_coordinator_options :: coordinator_options where
  "demo_coordinator_options = default_coordinator_options\<lparr>copt_durable := False, copt_max_cycles := 2\<rparr>"

definition quiet_cycle :: surroundings where
  "quiet_cycle = \<lparr>su_arrivals = [], su_pending = None, su_stop_exists = False\<rparr>"

text \<open>A worker for one existing queue that publishes two rounds.\<close>

definition demo_worker_options :: worker_options where
  "demo_worker_options = default_worker_options\<lparr>wopt_queues := 0, wopt_existing_queues := [5], wopt_publishes := 2\<rparr>"

lemma demo_session:
  "\<exists>run. worker_session_run demo_worker_options (Counter 1) (\<lambda>_. 0) (start_run demo_worker_options [] (demo_worker [])) = Some run
     \<and> wr_queues run = [Ident 5]"
proof -
  define r where "r = declare_report (start_run demo_worker_options [] (demo_worker []))"
  have q: "wr_queues r = [Ident 5]" "wr_batch r = []"
    by (simp_all add: r_def declare_report_def start_run_def demo_worker_options_def)
  define p where "p = publish_rounds demo_worker_options (Counter 1) (\<lambda>_. 0) r"
  have "wr_queues p = [Ident 5]"
    using q publish_fold_accounts [OF q(2)] by (simp add: p_def publish_rounds_def)
  moreover obtain w where "stay_alive demo_worker_options 0 (publish_report p) = (publish_report p)\<lparr>wr_client := w\<rparr>"
    using stay_alive_client by blast
  ultimately show ?thesis
    by (simp add: worker_session_run_def demo_worker_options_def p_def r_def publish_report_def)
qed

section \<open>A ready file and a connection\<close>

definition smooth :: writing where
  "smooth = \<lparr>wf_created = True, wf_progress = [3], wf_flushed = True, wf_renamed = True\<rparr>"

text \<open>The first address refuses the connection, the second accepts it.\<close>

definition two_addresses :: "attempt list" where
  "two_addresses = [\<lparr>aa_socket = 6, aa_connected = False, aa_peer = None, aa_error = ''refused''\<rparr>,
     \<lparr>aa_socket = 7, aa_connected = True, aa_peer = None, aa_error = []\<rparr>]"

lemma one_connection: "\<exists>s. socket_step\<^sup>*\<^sup>* no_sockets s \<and> sk_handles s = [7]"
proof -
  have "tt_connect ''h'' 1 (Some two_addresses) (sk_network no_sockets) (sk_handles no_sockets) =
      (Inr (tt_adopt 7 (''h'' @ '':'' @ dec_string 1)), initialize_network new_network\<lparr>nw_called := True\<rparr>, [7])"
    by (simp add: tt_connect_def two_addresses_def network_init_def no_sockets_def new_network_def initialize_network_def
        kInvalidHandle_def close_handle_def)
  from socket_step.connects [OF this] show ?thesis
    by (intro exI [of _ "no_sockets\<lparr>sk_network := initialize_network new_network\<lparr>nw_called := True\<rparr>, sk_handles := [7],
      sk_transports := [tt_adopt 7 (''h'' @ '':'' @ dec_string 1)]\<rparr>"]) (auto simp: no_sockets_def)
qed

end
