(* ===== verification/Spec2Isabelle.thy ===== *)
theory Spec2Isabelle
  imports QF_ProgramScenario
begin

text \<open>
  Queue Fabric: a verification of the queue lifecycle and occupancy governance runtime.

  \<^bold>\<open>The program.\<close> The library under \<^verbatim>\<open>src/\<close> and \<^verbatim>\<open>include/qf/\<close> governs queues. A \<^emph>\<open>fabric\<close>
  (\<^verbatim>\<open>Fabric\<close>) holds resources (with classes, pools, backends and capability grants) and queues (a
  definition with a generation, a lifecycle, occupancy evidence, fence, drain, applied backend state
  and a memo of attempts). Every change of a queue is a mutation request that passes validation,
  replay detection, admission (authority, provenance, epoch, generation) and a step of its own kind,
  is written to a journal (\<^verbatim>\<open>IJournal\<close>: in memory or in a file) and is then published. On start the
  fabric is rebuilt from the journal. A \<^emph>\<open>coordinator\<close> (\<^verbatim>\<open>CoordinatorServer\<close>) serves a fabric to
  \<^emph>\<open>workers\<close> over framed, checksummed messages; when a publisher is lost the evidence it published is
  invalidated. Two programs under \<^verbatim>\<open>tools/\<close> run a coordinator and a worker as processes of their own.

  \<^bold>\<open>Correspondence.\<close> A struct of the source is a record with the same fields in the same order (a
  prefix of two letters tells records apart), an enum is a datatype, a function is a definition of
  the same name. Identities and counters are typed 64-bit words; sums of such values wrap exactly where
  the source lets them. \<^verbatim>\<open>Nanos\<close> is an integer, sizes of containers are naturals. \<^verbatim>\<open>Status\<close> and
  \<^verbatim>\<open>Result\<close> are \<open>status\<close> and \<open>status + 'a\<close>; an early return is a branch. A method that changes its
  object returns the new object; \<^verbatim>\<open>std::unordered_map\<close> is an association list with the laws of the
  locale \<open>unordered_map\<close>. The clock and the outcomes of file and socket operations are sequences that a
  state carries: the theorems hold for all of them. The journal is a record of operations, as the
  virtual class is, so the fabric is proved over an arbitrary journal and instantiated twice.

  \<^item> Base: \<open>QF_Prelude\<close> (hash tables, machine types, frame lemmas, \<open>named_theorems\<close>), \<open>QF_Status\<close>
    (\<^verbatim>\<open>status.hpp\<close>, \<^verbatim>\<open>limits.hpp\<close>), \<open>QF_Checked\<close>, \<open>QF_Hash\<close>, \<open>QF_Ids\<close> (\<^verbatim>\<open>ids.hpp\<close>, \<^verbatim>\<open>rng.hpp\<close>),
    \<open>QF_Bytes\<close> (writer and reader; the locale \<open>codec\<close> with its laws), \<open>QF_Raw\<close> (offset access).
  \<^item> Data and judgements: \<open>QF_Lifecycle\<close>, \<open>QF_Authority\<close>, \<open>QF_Provenance\<close> (locale \<open>replay_gate\<close>),
    \<open>QF_Threshold\<close> (with \<^verbatim>\<open>policy.cpp\<close>), \<open>QF_Occupancy\<close>, \<open>QF_Drain\<close>, \<open>QF_Backend\<close>, \<open>QF_Mutation\<close>,
    \<open>QF_Queue\<close>, \<open>QF_Resource\<close>.
  \<^item> Encodings: \<open>QF_Serialize\<close> (\<^verbatim>\<open>serialize.cpp\<close>), \<open>QF_Frame\<close>, \<open>QF_Protocol\<close>.
  \<^item> Journals: \<open>QF_Journal\<close> (interface, locale \<open>ijournal\<close>, memory journal), \<open>QF_FileJournal\<close>,
    \<open>QF_Durability\<close> (locale \<open>stable_journal\<close>).
  \<^item> The fabric: \<open>QF_Fabric\<close> (state and helpers), \<open>QF_Kinds\<close> (\<^verbatim>\<open>fabric_kinds.cpp\<close>), \<open>QF_Apply\<close>
    (\<^verbatim>\<open>fabric_apply.cpp\<close>), \<open>QF_Topology\<close> (\<^verbatim>\<open>fabric.cpp\<close>), \<open>QF_Governance\<close>, \<open>QF_Plans\<close>,
    \<open>QF_Recovery\<close>, \<open>QF_Invariants\<close> (the self-audit and the invariant).
  \<^item> The system: \<open>QF_Reload\<close> (recovery from a checkpoint and the mutations after it, locale \<open>table_reload\<close>),
    \<open>QF_Reachable\<close> (the step relation of all public operations), \<open>QF_Guarantees\<close> (what one mutation can do), \<open>QF_Explain\<close> (\<^verbatim>\<open>fabric_explain.cpp\<close>, \<^verbatim>\<open>explain.cpp\<close>).
  \<^item> Server and client: \<open>QF_Transport\<close> (a connected socket), \<open>QF_Coordinator\<close> (\<^verbatim>\<open>coordinator.cpp\<close>:
    sessions, dispatch and the service cycle), \<open>QF_Server\<close> (the runs of a server, its invariant, admission,
    lost publishers), \<open>QF_Cycle\<close> (the work of one cycle), \<open>QF_Worker\<close> (\<^verbatim>\<open>worker.cpp\<close>), \<open>QF_Exchange\<close> (a
    client and a server over two byte streams).
  \<^item> Operating system and programs: \<open>QF_Sockets\<close> (handles of transports and listeners, \<^verbatim>\<open>transport.cpp\<close>),
    \<open>QF_Process\<close> (child processes, text files and clocks, \<^verbatim>\<open>process.cpp\<close> and \<^verbatim>\<open>time.hpp\<close>), \<open>QF_Program\<close>
    (\<^verbatim>\<open>tools/qf_coordinator_main.cpp\<close>), \<open>QF_Restart\<close> (the program after a recovery), \<open>QF_WorkerProgram\<close>
    (\<^verbatim>\<open>tools/qf_worker_main.cpp\<close>).
  \<^item> \<open>QF_Scenario\<close>, \<open>QF_DiskScenario\<close>, \<open>QF_ServerScenario\<close> and \<open>QF_ProgramScenario\<close> hold the concrete states
    on which the properties are exercised.

  \<^bold>\<open>What is shown.\<close> The whole mutation path refines the abstract machine \<open>apply_spec\<close> (a refusal, a
  replay, one guarded step of \<open>queue_step\<close>, or a declaration), and the guarantees for a queue are read
  off that machine: quiescence only on evidence, legal lifecycle steps, generations, fences, terminal
  states, authority, replay. Administrative operations, plans, the epoch advance and recovery have
  their own lemmas by cases. \<open>fabric_wf\<close> is an invariant of all reachable states, restarts from a
  checkpoint and the mutations journalled after it included, and the self-audit of the code reports no structural violation there; a checkpoint with a quiesced
  queue is the exception, and it is shown what the audit reports then. Every encoding has a round trip and a length,
  proved field by field through the locale \<open>codec\<close>; the frame decoder reassembles any segmentation
  of a stream and rejects any damage within four bytes; the file journal holds exactly what it
  reports whatever the file system does, and a restart finds every acknowledged mutation. The fabric
  of a running server moves only by operations of the fabric, and the connection table, the sessions, the
  cached principals and the authorities satisfy the invariant of the server in every run; a hello is
  admitted exactly when identity, epoch and incarnation permit; before that a peer has no effect; a lost
  publisher takes its evidence with it; a cycle handles a bounded number of frames. A request that travels
  from a client to a server and back, in any pieces, is handled once and its answer is what the client
  returns. An explanation changes nothing, agrees with the verdict of the fabric on a drain, and its text is
  bounded. The coordinator program ends within its cycle limit in a well-formed state, and restarted on a checkpoint it
  finds its topology and declares nothing anew; the worker program accounts for every declaration and sample. A
  ready file is read as a whole or not at all, a child is signalled only while its identity is its own, and every open
  socket handle has one owner.

  \<^bold>\<open>Bounds.\<close> No function uses fuel. Loops are structural recursions or folds, or recursive functions with
  a measure (remaining input of a scan, unused quota of a service cycle). Conversions of container
  sizes to 64-bit counters are written out with \<open>of_nat\<close>. Hypotheses on sizes (\<open>config_ok\<close>, the
  frame and record limits) are those of the configuration.

  \<^bold>\<open>Not modelled.\<close> The operating system behind the calls of sockets, files, processes and the steady clock: their
  outcomes are parameters, restricted only where a lemma says so (a status is collected once; a rename replaces a
  file at once). The Windows build. The benchmarks and tests, which have no behaviour of their own. Pauses and messages
  to the standard error. The mutex of the fabric: an operation is one step. The iteration order of a hash table is
  that of insertion, except where the coordinator picks a cached principal: there any order is allowed.
\<close>
section \<open>The mutation path\<close>

text \<open>Property C1: \<^verbatim>\<open>Fabric::apply\<close> refines the abstract machine \<open>apply_spec\<close>, for every fabric, request
  and journal: it refuses and leaves every authoritative field alone, replays a remembered attempt,
  performs one guarded step of \<open>queue_step\<close> on the named queue, or declares one new queue.\<close>

theorem apply_refines_spec:
  "apply_spec f r (fst (fabric_apply J r f)) (core (snd (fabric_apply J r f)))"
  by (cases "fabric_apply J r f") (simp add: fabric_apply_refines)

text \<open>Property C2: a queue becomes quiesced only by a quiesce mutation on a draining queue, at a time at
  which the live backend has accepted the drain and reported it complete under the current epoch,
  zero occupancy was observed after the drain was requested and is still fresh, and (when the policy
  demands it) the applied state of the live backend is verified. Nothing else of the record changes.\<close>

theorem quiesced_only_on_evidence:
  assumes "fabric_apply J r f = (out, f')" "find_queue f i = Some q" "find_queue f' i = Some q'"
    and "qr_lifecycle q \<noteq> Lc_quiesced" "qr_lifecycle q' = Lc_quiesced" "dr_phase (qr_drain q) \<noteq> Dp_completed"
  shows "qr_lifecycle q = Lc_draining \<and> mr_kind r = Mk_quiesce_queue \<and> qr_def q' = qr_def q
    \<and> qr_occupancy q' = qr_occupancy q
    \<and> (\<exists>now live. fb_clock_watermark f \<le> now
         \<and> find_live_backend f (qd_resource (qr_def q)) (bo_backend (de_backend (dr_evidence (qr_drain q)))) = Some live
         \<and> drain_evidence_complete (qr_drain q) (qr_occupancy q) (Some live) (fb_epoch f)
             (occupancy_policy_for (fb_config f) q) now
         \<and> (fp_require_backend_ack_for_drain (fc_policy (fb_config f)) \<longrightarrow>
              bv_verified (verify_backend_applied (qr_applied q) live (fb_epoch f) (qd_generation (qr_def q)) (qd_cls (qr_def q)))))"
  using assms(1-3)
proof (cases rule: apply_effect)
  case kept
  then show ?thesis
    using view_fields(1) [OF kept] assms(4,5) by simp
next
  case (stepped o' t now)
  have to: "qr_lifecycle q = Lc_draining" "mr_kind r = Mk_quiesce_queue" "quiesce_evidence f now q"
      "t = q\<lparr>qr_lifecycle := Lc_quiesced, qr_drain := (qr_drain q)\<lparr>dr_phase := Dp_completed\<rparr>\<rparr>"
    using step_to_quiesced [OF stepped(6) _ assms(4)] view_fields(1) [OF stepped(7)] assms(5) by simp_all
  then show ?thesis
    using view_fields [OF stepped(7)] stepped(8) assms(6)
    by (auto simp: quiesce_evidence_def assess_drain_iff drain_evidence_complete_def Let_def split: option.splits)
qed

theorem quiesced_only_on_evidence_witness:
  "\<exists>q' now live. qr_lifecycle q' = Lc_quiesced
     \<and> find_queue (snd (fabric_apply memory_ops (demo_request Mk_quiesce_queue Pl_monostate) (demo_fabric (None :: memory_journal option) drained_queue))) (Ident 1) = Some q'
     \<and> drain_evidence_complete (qr_drain drained_queue) (qr_occupancy drained_queue) (Some live) (Counter 1)
             (occupancy_policy_for (fb_config (demo_fabric (None :: memory_journal option) drained_queue)) drained_queue) now"
proof (rule demo_run [OF demo_quiesce refl])
  fix out f' q'
  assume run: "fabric_apply memory_ops (demo_request Mk_quiesce_queue Pl_monostate) (demo_fabric (None :: memory_journal option) drained_queue) = (Inr out, f')"
    and q': "find_queue f' (Ident 1) = Some q'"
    and lc: "qr_lifecycle q' = (case target_lifecycle (mr_kind (demo_request Mk_quiesce_queue Pl_monostate)) of
        Some l \<Rightarrow> l | None \<Rightarrow> qr_lifecycle drained_queue)"
  have "qr_lifecycle q' = Lc_quiesced" "qr_lifecycle drained_queue \<noteq> Lc_quiesced" "dr_phase (qr_drain drained_queue) \<noteq> Dp_completed"
    using lc by (simp_all add: target_lifecycle_def drained_queue_def)
  then show ?thesis
    using quiesced_only_on_evidence [OF run demo_find(1) q'] q' run by auto
qed simp

text \<open>Property C3: whatever the request, an existing queue is still there afterwards, its identity, resource,
  name, depth and pool are the same, and its lifecycle is the same or one legal step further.\<close>

theorem apply_keeps_queue_legal:
  assumes "find_queue f i = Some q"
  shows "\<exists>q'. find_queue (snd (fabric_apply J r f)) i = Some q'
    \<and> qd_id (qr_def q') = qd_id (qr_def q) \<and> qd_resource (qr_def q') = qd_resource (qr_def q)
    \<and> qd_name (qr_def q') = qd_name (qr_def q) \<and> qd_depth (qr_def q') = qd_depth (qr_def q)
    \<and> qd_pool (qr_def q') = qd_pool (qr_def q)
    \<and> (qr_lifecycle q' = qr_lifecycle q \<or> lc_step (qr_lifecycle q) (qr_lifecycle q'))"
proof -
  obtain out f' where run: "fabric_apply J r f = (out, f')"
    by (meson surj_pair)
  obtain q' where q': "find_queue f' i = Some q'"
    using apply_keeps_queues [OF run assms] by blast
  from run assms q' show ?thesis
  proof (cases rule: apply_effect)
    case kept
    then show ?thesis
      using view_fields [OF kept] q' run by simp
  next
    case (stepped o' t now)
    then show ?thesis
      using view_fields [OF stepped(7)] q' run step_lifecycle [OF stepped(6)] step_definition [OF stepped(6)]
      by (auto simp: with_definition_def dest: redefinition_identity)
  qed
qed

theorem apply_keeps_queue_legal_witness:
  "\<exists>q'. find_queue (snd (fabric_apply memory_ops (demo_request Mk_activate_queue Pl_monostate) (demo_fabric (None :: memory_journal option) drained_queue))) (Ident 1) = Some q'
    \<and> (qr_lifecycle q' = Lc_draining \<or> lc_step Lc_draining (qr_lifecycle q'))"
  using apply_keeps_queue_legal [of "demo_fabric (None :: memory_journal option) drained_queue" "Ident 1" drained_queue memory_ops
      "demo_request Mk_activate_queue Pl_monostate"]
  by (auto simp: drained_queue_def)

text \<open>Property C4: the definition of a queue changes only by a definitional mutation that named its exact
  current generation; the generation then advances by one without wrapping, and the evidence gathered
  under the old definition is invalidated: the queue is stale, its occupancy is no longer
  authoritative and its backend acknowledgement is forgotten.\<close>

theorem redefinition_advances_generation:
  assumes "fabric_apply J r f = (out, f')" "find_queue f i = Some q" "find_queue f' i = Some q'" "qr_def q' \<noteq> qr_def q"
  shows "is_definitional (mr_kind r) \<and> mr_expected_generation r = qd_generation (qr_def q)
    \<and> ctr_value (qd_generation (qr_def q')) = ctr_value (qd_generation (qr_def q)) + 1
    \<and> qd_generation (qr_def q) < qd_generation (qr_def q')
    \<and> has_flag (qr_applicability q') App_stale \<and> \<not> occupancy_authoritative (qr_occupancy q') \<and> \<not> ba_known (qr_applied q')"
  using assms(1-3)
proof (cases rule: apply_effect)
  case kept
  then show ?thesis
    using view_fields(2) [OF kept] assms(4) by simp
next
  case (stepped o' t now)
  obtain d g where d: "is_definitional (mr_kind r)" "redefinition f r q d" "ctr_next (qd_generation (qr_def q)) = Inr g"
      "t = with_definition (d\<lparr>qd_generation := g\<rparr>) q"
    using step_definition [OF stepped(6)] view_fields(2) [OF stepped(7)] assms(4) by auto
  then show ?thesis
    using qr_viewD [OF stepped(7)] ctr_next_Inr [OF d(3)] stepped(5)
    by (simp add: admitted_def with_definition_def has_flag_set invalidated_not_authoritative)
qed

theorem redefinition_advances_generation_witness:
  "\<exists>q'. find_queue (snd (fabric_apply memory_ops (demo_request Mk_set_thresholds (Pl_thresholds demo_thresholds))
          (demo_fabric (None :: memory_journal option) active_queue))) (Ident 1) = Some q' \<and> qr_def q' \<noteq> demo_definition
     \<and> ctr_value (qd_generation (qr_def q')) = 2 \<and> has_flag (qr_applicability q') App_stale"
proof (rule demo_run [OF demo_redefine [of "None :: memory_journal option"] refl])
  fix out f' q'
  let ?r = "demo_request Mk_set_thresholds (Pl_thresholds demo_thresholds)"
  assume run: "fabric_apply memory_ops ?r (demo_fabric (None :: memory_journal option) active_queue) = (Inr out, f')"
    and q': "find_queue f' (Ident 1) = Some q'"
    and view: "qr_view q' = qr_view (fst (snd (snd (snd (apply_kind_locked active_queue ?r 6 (demo_fabric (None :: memory_journal option) active_queue))))))"
  have d: "qd_thresholds (qr_def q') = demo_thresholds" "qr_def active_queue = demo_definition"
    using qr_viewD(1) [OF view]
    by (simp_all add: apply_kind_locked_def kind_set_thresholds_def demo_thresholds_def th_consistent_def active_queue_def
        new_queue_record_def demo_definition_def ctr_next_def invalidate_for_definition_def Let_def)
  have ne: "qr_def q' \<noteq> qr_def active_queue"
    using d by (auto simp: demo_definition_def demo_thresholds_def)
  show ?thesis
    using redefinition_advances_generation [OF run demo_find(1) q' ne] q' ne d(2) run
    by (simp add: demo_definition_def)
qed simp

text \<open>Property C5: a fenced queue is frozen: every mutation other than the unfence leaves its authoritative
  content as it is.\<close>

theorem fenced_queue_frozen:
  assumes "find_queue f i = Some q" "has_flag (qr_applicability q) App_fenced" "mr_kind r \<noteq> Mk_unfence_queue"
  shows "map_option qr_view (find_queue (snd (fabric_apply J r f)) i) = Some (qr_view q)"
proof -
  obtain out f' where run: "fabric_apply J r f = (out, f')"
    by (meson surj_pair)
  obtain q' where q': "find_queue f' i = Some q'"
    using apply_keeps_queues [OF run assms(1)] by blast
  from run assms(1) q' show ?thesis
    by (cases rule: apply_effect) (use assms(2,3) run q' in \<open>auto elim: admitted_capability\<close>)
qed

theorem fenced_queue_frozen_witness:
  "map_option qr_view (find_queue (snd (fabric_apply memory_ops (demo_request Mk_request_drain Pl_monostate)
      (demo_fabric (None :: memory_journal option) (active_queue\<lparr>qr_applicability := App_fenced\<rparr>)))) (Ident 1)) = Some (qr_view (active_queue\<lparr>qr_applicability := App_fenced\<rparr>))"
  by (rule fenced_queue_frozen [OF demo_find(1)]) (simp_all add: has_flag_def App_fenced_def)

text \<open>Property C6: a retired queue never changes again, and a failed queue changes only by being retired.\<close>

theorem terminal_queue_frozen:
  assumes "find_queue f i = Some q" "qr_lifecycle q \<in> {Lc_retired, Lc_failed}"
  shows "\<exists>q'. find_queue (snd (fabric_apply J r f)) i = Some q'
    \<and> (qr_view q' = qr_view q \<or> qr_lifecycle q = Lc_failed \<and> mr_kind r = Mk_retire_queue \<and> qr_lifecycle q' = Lc_retired)"
proof -
  obtain out f' where run: "fabric_apply J r f = (out, f')"
    by (meson surj_pair)
  obtain q' where q': "find_queue f' i = Some q'"
    using apply_keeps_queues [OF run assms(1)] by blast
  from run assms(1) q' show ?thesis
  proof (cases rule: apply_effect)
    case (stepped o' t now)
    have "mr_kind r = Mk_retire_queue"
      using assms(2) by (rule_tac admitted_capability [OF stepped(5)]) blast
    then show ?thesis
      using assms(2) step_retired [OF stepped(6)] step_failed [OF stepped(6)] view_fields(1) [OF stepped(7)] stepped(7) q' run
      by auto
  qed (use q' run in auto)
qed

theorem terminal_queue_frozen_witness:
  "\<exists>q'. find_queue (snd (fabric_apply memory_ops (demo_request Mk_activate_queue Pl_monostate)
      (demo_fabric (None :: memory_journal option) (active_queue\<lparr>qr_lifecycle := Lc_retired\<rparr>)))) (Ident 1) = Some q'
     \<and> qr_view q' = qr_view (active_queue\<lparr>qr_lifecycle := Lc_retired\<rparr>)"
  using terminal_queue_frozen [OF demo_find(1), of "active_queue\<lparr>qr_lifecycle := Lc_retired\<rparr>" memory_ops
      "demo_request Mk_activate_queue Pl_monostate" None] by auto

text \<open>Property C7: nothing changes without authority. When the authoritative content of an existing queue
  changes (outside recovery), the principal holds a grant on the resource of the queue with the
  capability that the kind requires, the request named the current epoch of the resource and of the
  fabric and the current generation of the queue, its publisher's record was the next one, and its
  attempt was not applied before.\<close>

theorem effects_are_authorized:
  assumes "fabric_apply J r f = (out, f')" "find_queue f i = Some q" "find_queue f' i = Some q'"
    and "qr_view q' \<noteq> qr_view q" "\<not> fb_replaying f"
  shows "\<exists>res. find_resource f (qd_resource (qr_def q)) = Some res
    \<and> has_capability (capabilities_of (rr_authority res) (mr_principal r)) (required_capability (mr_kind r))
    \<and> mr_expected_epoch r = av_epoch (rr_authority res) \<and> mr_expected_epoch r = fb_epoch f
    \<and> mr_expected_generation r = qd_generation (qr_def q) \<and> i = mr_queue r
    \<and> classify (fb_provenance f) (mr_provenance r) = Pc_accepted \<and> find_attempt q (mr_attempt r) = None"
  using assms(1-3)
proof (cases rule: apply_effect)
  case (stepped o' t now)
  then show ?thesis
    using assms(5) by (auto simp: admitted_def authorize_allowed_iff split: option.splits)
qed (use assms(4) in simp)

theorem effects_are_authorized_witness:
  "\<exists>res. find_resource (demo_fabric (None :: memory_journal option) drained_queue) (Ident 1) = Some res
     \<and> has_capability (capabilities_of (rr_authority res) (Ident 5)) Cap_quiesce_queue"
proof (rule demo_run [OF demo_quiesce refl])
  fix out f' q'
  let ?r = "demo_request Mk_quiesce_queue Pl_monostate"
  assume run: "fabric_apply memory_ops ?r (demo_fabric (None :: memory_journal option) drained_queue) = (Inr out, f')"
    and q': "find_queue f' (Ident 1) = Some q'"
    and lc: "qr_lifecycle q' = (case target_lifecycle (mr_kind ?r) of Some l \<Rightarrow> l | None \<Rightarrow> qr_lifecycle drained_queue)"
  have "qr_view q' \<noteq> qr_view drained_queue"
    using view_fields(1) [of q' drained_queue] lc by (auto simp: target_lifecycle_def drained_queue_def)
  then show ?thesis
    using effects_are_authorized [OF run demo_find(1) q'] by (auto simp: demo_request_def drained_queue_def new_queue_record_def demo_definition_def)
qed simp

text \<open>Property C8: a refused mutation has no effect: every queue keeps its authoritative content, and
  the resources, the name index, the reservations, the epoch and the identity counter are the same.\<close>

theorem refused_mutation_has_no_effect:
  assumes "fabric_apply J r f = (Inl st, f')"
  shows "map_option qr_view (find_queue f' i) = map_option qr_view (find_queue f i)
    \<and> fb_resources f' = fb_resources f \<and> fb_queue_names f' = fb_queue_names f \<and> fb_plans f' = fb_plans f
    \<and> fb_pending f' = fb_pending f \<and> fb_epoch f' = fb_epoch f \<and> fb_next_queue_id f' = fb_next_queue_id f"
proof -
  have c: "core f' = (core f)\<lparr>co_queues := fb_queues f'\<rparr>"
    using apply_spec_refused [OF fabric_apply_refines [OF assms]] by (simp add: core_def)
  show ?thesis
    using apply_spec_refused [OF fabric_apply_refines [OF assms], of i] c by (simp add: core_def find_queue_def)
qed

theorem refused_mutation_has_no_effect_witness:
  "\<exists>st f'. fabric_apply memory_ops (demo_request Mk_none Pl_monostate) (demo_fabric (None :: memory_journal option) active_queue) = (Inl st, f')
     \<and> fb_resources f' = [(Ident 1, demo_resource)]"
proof -
  have "\<exists>st f'. fabric_apply memory_ops (demo_request Mk_none Pl_monostate) (demo_fabric (None :: memory_journal option) active_queue) = (Inl st, f')"
    by (auto simp: fabric_apply_def apply_locked_def mr_validate_ok payload_matches_def reject_declare_def split: prod.splits)
  then obtain st f' where run: "fabric_apply memory_ops (demo_request Mk_none Pl_monostate) (demo_fabric (None :: memory_journal option) active_queue) = (Inl st, f')"
    by blast
  then show ?thesis
    using refused_mutation_has_no_effect [OF run] by (simp add: demo_fabric_def new_fabric_def)
qed

text \<open>Property C9: mutations are idempotent. Sending the same request again, after it was applied, answers
  with the same queue and generation and marks the answer as replayed; only the replay counter of the
  queue moves, nothing is appended to the journal and the publisher's position stays.\<close>

theorem reapplied_mutation_is_replayed:
  assumes "fabric_apply J r f = (Inr out, f')" "\<not> mo_replayed out" "mr_kind r \<noteq> Mk_declare_queue"
    and "0 < memo_capacity f" "\<not> fb_shutting_down f"
  shows "\<exists>out2 f'' q. fabric_apply J r f' = (Inr out2, f'') \<and> mo_replayed out2
    \<and> mo_queue out2 = mo_queue out \<and> mo_generation out2 = mo_generation out
    \<and> find_queue f' (mr_queue r) = Some q
    \<and> core f'' = (core f')\<lparr>co_queues := um_put (mr_queue r) (q\<lparr>qr_replayed_count := qr_replayed_count q + 1\<rparr>) (fb_queues f')\<rparr>
    \<and> fb_journal f'' = fb_journal f' \<and> fb_provenance f'' = fb_provenance f'"
proof -
  obtain q where q: "remembered f' r q" "mo_generation out = qd_generation (qr_def q)" "mo_queue out = qd_id (qr_def q)"
    using applied_remembered [OF assms(1-4)] by blast
  have up: "\<not> fb_shutting_down f'"
    using apply_spec_flags [OF fabric_apply_refines [OF assms(1)]] assms(5) by (simp add: core_def)
  obtain res f'' where run: "fabric_apply J r f' = (res, f'')"
    by (meson surj_pair)
  show ?thesis
    using replay_answered [OF q(1) up fabric_apply_validated [OF assms(1)] assms(3) run] q run
    by (auto simp: remembered_def)
qed

theorem reapplied_mutation_is_replayed_witness:
  "\<exists>out f' out2 f''. fabric_apply memory_ops (demo_request Mk_quiesce_queue Pl_monostate) (demo_fabric (None :: memory_journal option) drained_queue) = (Inr out, f')
     \<and> fabric_apply memory_ops (demo_request Mk_quiesce_queue Pl_monostate) f' = (Inr out2, f'') \<and> mo_replayed out2
     \<and> mo_generation out2 = mo_generation out"
proof (rule demo_run [OF demo_quiesce refl])
  fix out f' q'
  let ?r = "demo_request Mk_quiesce_queue Pl_monostate"
  assume run: "fabric_apply memory_ops ?r (demo_fabric (None :: memory_journal option) drained_queue) = (Inr out, f')" "\<not> mo_replayed out"
  show ?thesis
    using reapplied_mutation_is_replayed [OF run] run by fastforce
qed simp

text \<open>Property C10: nothing but the stated guards stands in the way. A valid request on a known queue, not yet
  remembered, admitted by authority, provenance, generation and epoch, whose kind is enabled and for
  which the journal (if its kind is durable) takes the records, is applied, and the queue ends in the
  content that the kind computes.\<close>

theorem admitted_mutation_is_applied:
  assumes "\<not> fb_shutting_down f" "ok (mr_validate r)" "mr_kind r \<noteq> Mk_declare_queue"
    and "find_queue f (mr_queue r) = Some q" "find_attempt q (mr_attempt r) = None" "admitted f q r"
    and "apply_kind_locked q r (fst (monotonic_now f)) f = (st, rule, evs, t, g)" "ok st" "journal_ready J r f"
  shows "\<exists>out f' q'. fabric_apply J r f = (Inr out, f') \<and> \<not> mo_replayed out
    \<and> find_queue f' (mr_queue r) = Some q' \<and> qr_view q' = qr_view t
    \<and> qr_lifecycle q' = (case target_lifecycle (mr_kind r) of Some l \<Rightarrow> l | None \<Rightarrow> qr_lifecycle q)"
proof -
  have "queue_step f r (fst (monotonic_now f)) q t"
    using apply_kind_ok [OF assms(7,8)] by blast
  then show ?thesis
    using apply_progress [OF assms] step_target view_fields(1) by metis
qed

theorem admitted_mutation_is_applied_witness:
  "\<exists>out f' q'. fabric_apply memory_ops (demo_request Mk_quiesce_queue Pl_monostate) (demo_fabric (Some demo_journal) drained_queue) = (Inr out, f')
    \<and> find_queue f' (Ident 1) = Some q' \<and> qr_lifecycle q' = Lc_quiesced"
proof -
  have runs: "demo_runs (Some demo_journal) drained_queue Mk_quiesce_queue Pl_monostate"
    by (simp add: demo_quiesce)
  note en = demo_enabled [OF runs refl refl]
  show ?thesis
    using en(7) admitted_mutation_is_applied [OF en(1-6) _ _ en(8)] by (fastforce simp: target_lifecycle_def)
qed

text \<open>Property C11: durable mutations are write-ahead. When a mutation of a durable kind succeeds as a new
  application, the journal has gained exactly its begin record and its commit record, in this order,
  with the encoding of the request; without a journal it succeeds only in a fabric that is not
  configured as durable.\<close>

theorem durable_mutation_is_journalled:
  assumes "fabric_apply memory_ops r f = (Inr out, f')" "\<not> mo_replayed out" "is_durable (mr_kind r)"
  shows "case fb_journal f of
      None \<Rightarrow> \<not> fc_durable (fb_config f)
    | Some j \<Rightarrow> (\<exists>j'. fb_journal f' = Some j' \<and> encode_mutation r \<noteq> []
        \<and> mj_records j' = mj_records j @ [\<lparr>jr_type = Jr_begin_attempt, jr_payload = encode_mutation r\<rparr>,
                                           \<lparr>jr_type = Jr_commit_mutation, jr_payload = encode_mutation r\<rparr>])"
  using apply_committed [OF assms] mem.apply_logged [OF assms] by (auto simp: committed_def split: option.splits)

theorem durable_mutation_is_journalled_witness:
  "\<exists>f' j'. snd (fabric_apply memory_ops (demo_request Mk_quiesce_queue Pl_monostate) (demo_fabric (Some demo_journal) drained_queue)) = f'
     \<and> fb_journal f' = Some j' \<and> length (mj_records j') = 2"
proof (rule demo_run [OF demo_quiesce refl])
  fix out f' q'
  let ?r = "demo_request Mk_quiesce_queue Pl_monostate"
  assume run: "fabric_apply memory_ops ?r (demo_fabric (Some demo_journal) drained_queue) = (Inr out, f')" "\<not> mo_replayed out"
  show ?thesis
    using durable_mutation_is_journalled [OF run] run(1)
    by (auto simp: is_durable_def is_dynamic_def demo_journal_def new_memory_journal_def)
qed simp

text \<open>Property C14: a successful declaration that is not a repetition creates one queue under a fresh identity
  in state \<^verbatim>\<open>declared\<close> at generation 1, bound to the current generation of a declared class and pool, and the
  name index resolves its name to it; every other queue is untouched.\<close>

theorem declaration_creates_queue:
  assumes "fabric_apply J r f = (Inr out, f')" "\<not> mo_replayed out" "mr_payload r = Pl_declare_queue p"
    and "core_wf (core f)"
  shows "\<exists>q res cls pool. mo_queue out = Ident (fb_next_queue_id f) \<and> find_queue f (mo_queue out) = None
    \<and> find_queue f' (mo_queue out) = Some q \<and> qr_lifecycle q = Lc_declared
    \<and> qd_generation (qr_def q) = Counter 1 \<and> qd_name (qr_def q) = dq_name p \<and> qd_resource (qr_def q) = dq_resource p
    \<and> find_resource f (dq_resource p) = Some res
    \<and> rr_find_class res (cb_id (dq_cls p)) = Some cls \<and> sc_generation cls = cb_generation (qd_cls (qr_def q))
    \<and> rr_find_pool res (pr_id (dq_pool p)) = Some pool \<and> bp_generation pool = pr_generation (qd_pool (qr_def q))
    \<and> um_find (fb_queue_names f') (name_key (dq_resource p) (dq_name p)) = Some (mo_queue out)
    \<and> (\<forall>i. i \<noteq> mo_queue out \<longrightarrow> find_queue f' i = find_queue f i)"
  using assms by (rule declared_queue)

theorem declaration_creates_queue_witness:
  "\<exists>q. find_queue (snd (fabric_apply memory_ops demo_declare (demo_fabric (None :: memory_journal option) active_queue))) (Ident 2) = Some q
     \<and> qr_lifecycle q = Lc_declared \<and> qd_name (qr_def q) = ''w''"
proof -
  obtain out f' where run: "fabric_apply memory_ops demo_declare (demo_fabric (None :: memory_journal option) active_queue) = (Inr out, f')" "\<not> mo_replayed out"
    using demo_declared by blast
  have p: "mr_payload demo_declare = Pl_declare_queue demo_declaration"
    by (simp add: demo_declare_def)
  have "fb_next_queue_id (demo_fabric (None :: memory_journal option) active_queue) = 2"
    by (simp add: demo_fabric_def)
  then show ?thesis
    using declaration_creates_queue [OF run p conjunct1 [OF demo_wf]] run(1) by (auto simp: demo_declaration_def)
qed

section \<open>The state of the fabric\<close>





text \<open>Property C17: advancing the epoch supersedes everything gathered under the old one: the epoch and the
  authority of every resource become the next epoch, no queue keeps authoritative occupancy, lifecycle
  and definitions stay, and from then on a request that names another epoch changes no existing queue.\<close>

theorem epoch_advance_supersedes:
  assumes "advance_epoch J actor prov f = (Inr e, f')" "\<not> fb_replaying f"
  shows "fb_epoch f' = e \<and> fb_epoch f < e
    \<and> (\<forall>x\<in>set (fb_resources f'). rr_epoch (snd x) = e \<and> av_epoch (rr_authority (snd x)) = e)
    \<and> (\<forall>i. map_option qr_lifecycle (find_queue f' i) = map_option qr_lifecycle (find_queue f i)
         \<and> map_option qr_def (find_queue f' i) = map_option qr_def (find_queue f i))
    \<and> (\<forall>i q. find_queue f' i = Some q \<longrightarrow> \<not> occupancy_authoritative (qr_occupancy q))
    \<and> (\<forall>r i q. mr_expected_epoch r \<noteq> e \<and> find_queue f' i = Some q \<longrightarrow>
         map_option qr_view (find_queue (snd (fabric_apply J r f')) i) = Some (qr_view q))"
proof -
  obtain g where adv: "ctr_next (fb_epoch f) = Inr e" "core g = core f" "f' = publish_epoch e g"
    using advance_epoch_cases [OF assms(1)] by (metis Inl_Inr_False sum.inject(2))
  have c: "core f' = (core f)\<lparr>co_epoch := e, co_resources := um_map (with_epoch e) (fb_resources f),
     co_queues := um_map supersede_evidence (fb_queues f)\<rparr>"
    using core_publish_epoch [of e g] adv(2) coreD(3,4) [OF adv(2)] by (simp add: adv(3))
  have q: "find_queue f' i = map_option supersede_evidence (find_queue f i)" for i
    using find_queue_core [of f' i] unfolding c by (simp add: find_queue_def um_find_map)
  have flds: "fb_epoch f' = e" "fb_resources f' = um_map (with_epoch e) (fb_resources f)" "\<not> fb_replaying f'"
    using c assms(2) by (simp_all add: core_def)
  have old: "map_option qr_view (find_queue (snd (fabric_apply J r f')) i) = Some (qr_view q1)"
    if ep: "mr_expected_epoch r \<noteq> e" and q1: "find_queue f' i = Some q1" for r i q1
  proof -
    obtain out f2 where run: "fabric_apply J r f' = (out, f2)"
      by (meson surj_pair)
    obtain q2 where q2: "find_queue f2 i = Some q2"
      using apply_keeps_queues [OF run q1] by blast
    from run q1 q2 show ?thesis
      by (cases rule: apply_effect) (use ep flds run q2 in \<open>auto simp: admitted_def\<close>)
  qed
  show ?thesis
    using flds q old ctr_next_Inr [OF adv(1)]
    by (auto simp: set_um_map superseded_not_authoritative option.map_comp comp_def)
qed

theorem epoch_advance_supersedes_witness:
  "\<exists>f' q. advance_epoch memory_ops (Ident 5) (demo_provenance 3) (demo_fabric (None :: memory_journal option) drained_queue) = (Inr (Counter 2), f')
     \<and> find_queue f' (Ident 1) = Some q \<and> \<not> occupancy_authoritative (qr_occupancy q) \<and> qr_lifecycle q = Lc_draining"
proof -
  obtain f' where run: "advance_epoch memory_ops (Ident 5) (demo_provenance 3) (demo_fabric (None :: memory_journal option) drained_queue) = (Inr (Counter 2), f')"
    using demo_advance by blast
  have "map_option qr_lifecycle (find_queue f' (Ident 1)) = Some Lc_draining"
      "\<forall>q. find_queue f' (Ident 1) = Some q \<longrightarrow> \<not> occupancy_authoritative (qr_occupancy q)"
    using epoch_advance_supersedes [OF run] by (simp_all add: drained_queue_def)
  then show ?thesis
    using run by auto
qed

text \<open>Property C18: the second phase of a backend application commits only against the reservation it was
  planned under: the reservation still stands, the queue still has the planned generation, and (unless
  the answer is a replay) the acknowledgement was verified against the live backend life, the current
  epoch, the current generation and the current class binding. The reservation is then gone.\<close>

theorem commit_requires_current_reservation:
  assumes "commit_backend_apply J plan a prov f = (Inr out, f')"
  shows "um_find (fb_plans f) (bpl_attempt plan) \<noteq> None \<and> um_find (fb_plans f') (bpl_attempt plan) = None
    \<and> (\<exists>q. find_queue f (bpl_queue plan) = Some q \<and> qd_generation (qr_def q) = bpl_expected_generation plan
        \<and> (\<not> mo_replayed out \<longrightarrow> (\<exists>live q'. find_live_backend f (qd_resource (qr_def q)) (ba_backend a) = Some live
             \<and> bv_verified (verify_backend_applied a live (fb_epoch f) (qd_generation (qr_def q)) (qd_cls (qr_def q)))
             \<and> find_queue f' (bpl_queue plan) = Some q' \<and> qr_applied q' = a \<and> qr_lifecycle q' = qr_lifecycle q)))"
  using assms by (rule commit_effect)

theorem commit_requires_current_reservation_witness:
  "\<exists>out f' q'. commit_backend_apply memory_ops demo_plan demo_ack (demo_provenance 2) planned_fabric = (Inr out, f')
     \<and> fb_plans f' = [] \<and> find_queue f' (Ident 1) = Some q' \<and> qr_applied q' = demo_ack"
proof -
  obtain out f' where run: "commit_backend_apply memory_ops demo_plan demo_ack (demo_provenance 2) planned_fabric = (Inr out, f')"
      "\<not> mo_replayed out"
    using demo_committed by blast
  have "bpl_queue demo_plan = Ident 1"
    by (simp add: demo_plan_def)
  then show ?thesis
    using commit_requires_current_reservation [OF run(1)] run demo_committed_plans [OF run(1)] by auto
qed

section \<open>Restart\<close>



text \<open>A snapshot restores the fabric it was taken of. Reading the records of \<^verbatim>\<open>build_snapshot\<close> into
  an empty fabric reports no corrupt record and finds every resource and every queue again; a
  resource loses only the redundant resource field of its authority vector, a queue its last status
  and rule, and its dynamic evidence is marked as in need of revalidation.\<close>

theorem snapshot_restores_fabric:
  assumes "snapshot_ok f" "fb_resources (rs_fabric s) = []" "fb_queues (rs_fabric s) = []"
  shows "let g = rs_fabric (restore_records (build_snapshot_locked f) s) in
      (\<forall>i. find_resource g i = map_option unbound_authority (find_resource f i))
    \<and> (\<forall>i. find_queue g i = map_option (\<lambda>q. restored_queue (forget_last q)) (find_queue f i))
    \<and> rp_records_corrupt (fb_recovery g) = rp_records_corrupt (fb_recovery (rs_fabric s))"
  using restore_snapshot_find [OF assms] by (simp add: Let_def)

text \<open>The rebuilt indexes are exact: every queue is found under its name, no fence token and no queue
  identity in use will be given out again, and queue counts are those of the queues.\<close>

theorem rebuilt_indexes_are_exact:
  assumes "distinct (map (\<lambda>e. name_key (qd_resource (qr_def (snd e))) (qd_name (qr_def (snd e)))) (fb_queues f))"
    and "fb_next_queue_id (rebuild_indexes_locked f) \<noteq> 0" "e \<in> set (fb_queues f)"
  shows "find_queue_by_name (rebuild_indexes_locked f) (qd_resource (qr_def (snd e))) (qd_name (qr_def (snd e)))
       = Inr (qd_id (qr_def (snd e)))
    \<and> id_value (qd_id (qr_def (snd e))) < fb_next_queue_id (rebuild_indexes_locked f)
    \<and> fs_token (qr_fence (snd e)) \<le> fb_fence_tokens (rebuild_indexes_locked f)
    \<and> (\<forall>x\<in>set (fb_resources (rebuild_indexes_locked f)). rr_queue_count (snd x) = count_in (fb_queues f) (rr_id (snd x)))"
  using rebuild_names [OF assms(1,3)] rebuild_next_queue [OF assms(3,2)] rebuild_fence_tokens [OF assms(3)]
  by (auto simp: rebuild_indexes_locked_def Let_def set_um_map count_in_def filter_map comp_def)

text \<open>The freshness sweep is exact. At one time, not before any earlier clock reading, the freshness of
  every queue becomes what the policy of the queue says about its last sample, and nothing but
  freshness, age and counters changes.\<close>

theorem freshness_sweep_is_exact:
  assumes "refresh_freshness f = (st, f')" "\<not> fb_shutting_down f"
  shows "st = success \<and> (\<exists>now. fb_clock_watermark f \<le> now \<and> (\<forall>i q. find_queue f i = Some q \<longrightarrow>
      (\<exists>q'. find_queue f' i = Some q' \<and> qr_def q' = qr_def q \<and> qr_lifecycle q' = qr_lifecycle q \<and> qr_drain q' = qr_drain q
         \<and> oc_bytes (qr_occupancy q') = oc_bytes (qr_occupancy q)
         \<and> oc_freshness (qr_occupancy q') = classify_freshness (qr_occupancy q) now
              (occupancy_policy_for (fb_config f) q) (qd_generation (qr_def q)))))"
proof -
  obtain now where now: "fb_clock_watermark f \<le> now" "st = success"
      "core f' = (core f)\<lparr>co_queues := um_map (\<lambda>q. fst (refresh_queue_locked (fb_config f) now q)) (fb_queues f)\<rparr>"
    using refresh_freshness_ok [OF assms] by blast
  have "find_queue f' i = map_option (\<lambda>q. fst (refresh_queue_locked (fb_config f) now q)) (find_queue f i)" for i
    using find_queue_core [of f' i] unfolding now(3) by (simp add: find_queue_def um_find_map)
  then show ?thesis
    using now(1,2) by (auto simp: refresh_queue_freshness)
qed

section \<open>Serialization\<close>

text \<open>Encoding a mutation yields at most 500 bytes, fails (with the empty sequence) exactly when a
  name or reason in it is over the wire limit, and decoding the bytes of a mutation with canonical
  kind and in-range payload gives the mutation back.\<close>

theorem mutation_codec_roundtrip:
  assumes "rt_mutation m"
  shows "decode_mutation (encode_mutation m) = Inr m \<and> encode_mutation m \<noteq> [] \<and> length (encode_mutation m) \<le> 500"
  using decode_encode_mutation [OF assms] rt_payload_fits [of "mr_payload m"] assms length_enc_mutation [of m] enc_mutation_nonempty
  by (simp add: encode_mutation_eq rt_mutation_def)
section \<open>Components\<close>

text \<open>Property C37: the replay gate admits each publisher's records in strictly increasing order and none twice,
  whatever sequence of records (duplicates, reorderings, restarts) it is shown, and it tracks at most the
  configured number of publishers.\<close>

theorem replay_gate_admits_in_order:
  "sorted_wrt (\<lambda>a b. pv_publisher a = pv_publisher b \<longrightarrow> ahead (pv_key a) (pv_key b)) (accepted_of tr_observe t ps)
   \<and> distinct (accepted_of tr_observe t ps)
   \<and> (tr_wf t \<longrightarrow> length (tr_states (observe_all tr_observe t ps)) \<le> tr_max_publishers t)"
  using trk.accepted_sorted [of t ps] trk.accepted_distinct [of t ps] gate_bounded [of t ps] by simp

theorem replay_gate_admits_in_order_witness:
  "sorted_wrt (\<lambda>a b. pv_publisher a = pv_publisher b \<longrightarrow> ahead (pv_key a) (pv_key b))
     (accepted_of tr_observe (new_tracker 1) [demo_provenance 1, demo_provenance 2, demo_provenance 1])
   \<and> length (tr_states (observe_all tr_observe (new_tracker 1) [demo_provenance 1, demo_provenance 2, demo_provenance 1])) \<le> 1"
proof -
  have "tr_max_publishers (new_tracker 1) = 1"
    by (simp add: new_tracker_def)
  then show ?thesis
    using replay_gate_admits_in_order [of "new_tracker 1" "[demo_provenance 1, demo_provenance 2, demo_provenance 1]"]
      new_tracker_wf [of 1] by metis
qed

text \<open>Property C39: the table-driven CRC-32C is the bitwise CRC of the reflected polynomial, and extending a
  checksum over a second piece of data is the checksum of the concatenation.\<close>

theorem crc32c_is_bitwise:
  "crc32c_extend seed (as @ bs) = crc32c_extend (crc32c_extend seed as) bs
   \<and> crc32c_extend seed bs = NOT (foldl (\<lambda>crc b. (crc_bit ^^ 8) (crc XOR ucast b)) (NOT seed) bs)"
proof -
  have "crc_step = (\<lambda>crc b. (crc_bit ^^ 8) (crc XOR ucast b))"
    by (intro ext) (rule crc_step_bitwise)
  then show ?thesis
    using crc32c_extend_append [of seed as bs] unfolding crc32c_extend_def by simp
qed

text \<open>Property C40: the checked operations fail exactly on overflow and are exact otherwise, the saturating
  ones clamp; the one exception is \<^verbatim>\<open>saturating_sub_i64\<close> of a negative value and the least 64-bit value,
  which yields 0 instead of the (representable) difference.\<close>

theorem checked_arithmetic_exact:
  fixes a b :: u64
  assumes "in_i64 x" "in_i64 y"
  shows "add_overflow a b = (if unat a + unat b < 2 ^ 64 then Some (a + b) else None)
    \<and> mul_overflow a b = (if unat a * unat b < 2 ^ 64 then Some (a * b) else None)
    \<and> unat (saturating_add a b) = min (2 ^ 64 - 1) (unat a + unat b)
    \<and> unat (saturating_sub a b) = unat a - unat b
    \<and> saturating_add_i64 x y = max i64_min (min i64_max (x + y))
    \<and> saturating_sub_i64 x y = (if y = i64_min \<and> x < 0 then 0 else max i64_min (min i64_max (x - y)))"
proof -
  have "add_overflow a b = (if unat a + unat b < 2 ^ 64 then Some (a + b) else None)"
    using add_overflow_iff [of a b] by (auto simp: add_overflow_def)
  moreover have "mul_overflow a b = (if unat a * unat b < 2 ^ 64 then Some (a * b) else None)"
    using mul_overflow_iff [of a b] by (auto simp: mul_overflow_def split: if_splits)
  moreover have "saturating_sub_i64 x y = (if y = i64_min \<and> x < 0 then 0 else max i64_min (min i64_max (x - y)))"
    using saturating_sub_i64_clamp [OF assms] by (auto simp: saturating_sub_i64_def)
  ultimately show ?thesis
    using saturating_add_i64_clamp [OF assms] unat_saturating_add [of a b] unat_saturating_sub [of a b] by simp
qed

theorem checked_arithmetic_exact_witness:
  "saturating_sub_i64 (- 1) i64_min = 0 \<and> saturating_sub_i64 (- 2) i64_max = i64_min"
  using checked_arithmetic_exact [of "- 1" i64_min 0 0] checked_arithmetic_exact [of "- 2" i64_max 0 0]
  by (simp add: in_i64_def i64_min_def i64_max_def)


section \<open>Durability and the wire\<close>





text \<open>Property C13: a torn journal recovers its valid prefix. Let any part of a sequence of appended records have
  reached the file behind an intact journal. Opening it succeeds, loads the old records and a prefix of the new
  ones that has at least every record that is completely there, and the truncation to the valid prefix
  leaves a journal that holds exactly these.\<close>

theorem torn_journal_recovers:
  assumes "fj_disk j = Some (journal_bytes boot epoch rs @ take k (records_bytes qs))" "io_good j" "config_usable (fj_config j)"
    and "list_all (record_ok (jc_max_record_bytes (fj_config j))) (rs @ qs)" "length (fj_content j) \<le> jc_max_file_bytes (fj_config j)"
  shows "\<exists>i j'. fj_do_open j = (success, j') \<and> fj_records j' = rs @ take i qs
    \<and> (\<forall>n. length (records_bytes (take n qs)) \<le> k \<and> n \<le> length qs \<longrightarrow> n \<le> i)
    \<and> (\<forall>st j''. fj_truncate_to_valid_prefix j' = (st, j'') \<and> ok st \<longrightarrow> fj_sound j'' \<and> fj_records j'' = rs @ take i qs)"
proof -
  let ?m = "jc_max_record_bytes (fj_config j)"
  obtain i tail where tail: "take k (records_bytes qs) = records_bytes (take i qs) @ tail" "torn ?m tail"
      "\<forall>n. length (records_bytes (take n qs)) \<le> k \<and> n \<le> length qs \<longrightarrow> n \<le> i"
    using take_records [of ?m qs k] assms(3,4) by (auto simp: config_usable_def)
  have disk: "fj_disk j = Some (journal_bytes boot epoch (rs @ take i qs) @ tail)"
    using assms(1) tail(1) by (simp add: journal_bytes_def)
  have all: "list_all (record_ok ?m) (rs @ take i qs)"
    using assms(4) by (auto simp: list_all_iff dest: in_set_takeD)
  have size: "length (journal_bytes boot epoch (rs @ take i qs) @ tail) \<le> jc_max_file_bytes (fj_config j)"
    using assms(5) disk by (simp add: fj_content_def)
  let ?j' = "loaded boot epoch (rs @ take i qs) tail (opened j)"
  have "fj_do_open j = (success, ?j')"
    by (rule fj_open_journal [OF disk assms(2,3) all tail(2) size])
  moreover have "fj_sound j'' \<and> fj_records j'' = rs @ take i qs" if "fj_truncate_to_valid_prefix ?j' = (st, j'')" "ok st" for st j''
    by (rule fj_truncate_loaded [OF disk assms(3) all _ that]) (use size in simp)
  ultimately show ?thesis
    using tail(3) by (intro exI [of _ i] exI [of _ ?j']) (auto simp: loaded_def)
qed

theorem torn_journal_recovers_witness:
  "\<exists>i j'. fj_do_open (demo_file (journal_bytes no_boot (Counter 0) [demo_record [1]] @ take 12 (records_bytes [demo_record [2], demo_record [3, 4]]))) = (success, j')
     \<and> fj_records j' = [demo_record [1]] @ take i [demo_record [2], demo_record [3, 4]] \<and> 1 \<le> i"
proof -
  let ?rs = "[demo_record [1]]" and ?qs = "[demo_record [2], demo_record [3, 4]]"
  let ?j = "demo_file (journal_bytes no_boot (Counter 0) ?rs @ take 12 (records_bytes ?qs))"
  have "\<exists>i j'. fj_do_open ?j = (success, j') \<and> fj_records j' = ?rs @ take i ?qs
    \<and> (\<forall>n. length (records_bytes (take n ?qs)) \<le> 12 \<and> n \<le> length ?qs \<longrightarrow> n \<le> i)
    \<and> (\<forall>st j''. fj_truncate_to_valid_prefix j' = (st, j'') \<and> ok st \<longrightarrow> fj_sound j'' \<and> fj_records j'' = ?rs @ take i ?qs)"
    by (rule torn_journal_recovers) (simp_all add: demo_file_facts journal_bytes_def)
  then obtain i j' where "fj_do_open ?j = (success, j')" "fj_records j' = ?rs @ take i ?qs"
      "\<forall>n. length (records_bytes (take n ?qs)) \<le> 12 \<and> n \<le> length ?qs \<longrightarrow> n \<le> i"
    by blast
  then show ?thesis
    by (intro exI [of _ i] exI [of _ j']) (auto dest: spec [of _ 1])
qed



text \<open>Property C33: messages survive the wire. A sequence of messages that have an encoding, framed one after the
  other as coordinator and worker send them and cut into pieces of at most 64 KiB anywhere, leaves the
  decoder of the receiver as the same sequence of frames with nothing left over, and each decodes to the
  message that was sent.\<close>

theorem messages_survive_wire:
  assumes "list_all rt_message ms" "concat chunks = concat (map wire_bytes ms)" "list_all (\<lambda>c. length c \<le> 65536) chunks"
  shows "\<exists>fs d. fd_feed chunks (new_decoder kMaxFramePayloadBytes) = (fs, d) \<and> \<not> fd_failed d \<and> fd_buffer d = []
    \<and> map fr_type fs = map (u16_of_message_type \<circ> ms_type) ms
    \<and> map (decode_message \<circ> fr_payload) fs = map (Inr \<circ> body_only) ms"
proof -
  obtain d where d: "fd_feed chunks (new_decoder kMaxFramePayloadBytes) = (map message_frame ms, d)" "\<not> fd_failed d" "fd_buffer d = []"
    using wire_stream [OF assms] by blast
  have "map (decode_message \<circ> fr_payload) (map message_frame ms) = map (Inr \<circ> body_only) ms"
    using assms(1) by (simp add: list_all_iff decode_message_frame)
  moreover have "map fr_type (map message_frame ms) = map (u16_of_message_type \<circ> ms_type) ms"
    by (simp add: message_frame_def)
  ultimately show ?thesis
    using d by blast
qed

theorem messages_survive_wire_witness:
  "\<exists>fs d. fd_feed [take 5 (wire_bytes demo_heartbeat), drop 5 (wire_bytes demo_heartbeat)] (new_decoder kMaxFramePayloadBytes) = (fs, d)
     \<and> map (decode_message \<circ> fr_payload) fs = [Inr demo_heartbeat]"
proof -
  have len: "length (wire_bytes demo_heartbeat) \<le> 65536"
    by (rule demo_heartbeat_length)
  have "\<exists>fs d. fd_feed [take 5 (wire_bytes demo_heartbeat), drop 5 (wire_bytes demo_heartbeat)] (new_decoder kMaxFramePayloadBytes) = (fs, d)
    \<and> \<not> fd_failed d \<and> fd_buffer d = [] \<and> map fr_type fs = map (u16_of_message_type \<circ> ms_type) [demo_heartbeat]
    \<and> map (decode_message \<circ> fr_payload) fs = map (Inr \<circ> body_only) [demo_heartbeat]"
    by (rule messages_survive_wire) (use len in \<open>auto simp: demo_heartbeat_rt\<close>)
  then show ?thesis
    by (auto simp: demo_heartbeat_rt)
qed



section \<open>The server and its clients\<close>



text \<open>A hello is admitted exactly when it carries a node, an incarnation and a boot identity, a worker
  names the current epoch, and no admitted session of the same node has a later incarnation. Admission records
  the identity in the session; a refusal leaves the session as it was. Either way one acknowledgement is sent,
  which says which it was and names the epoch of the coordinator.\<close>

theorem hello_admission_exact:
  assumes "i < length (cd_connections c)"
  shows "identity_at i (snd (handle_hello i m c)) =
      (let h = ms_hello m in if admissible h c
       then (True, he_role h, he_node h, he_incarnation h, he_boot h, fb_epoch (cd_fabric c), he_name h) else identity_at i c)
    \<and> acknowledges i c (admissible (ms_hello m) c) (handle_hello i m c)"
  using handle_hello_exact [OF assms] by blast

text \<open>Property C25: until a peer has been admitted, no message of it but a hello has any effect: the fabric and the
  stop flag are untouched, its session establishes nothing, it subscribes to nothing, and no other connection
  changes.\<close>

theorem unadmitted_peer_has_no_effect:
  assumes "\<not> ws_handshaken (cn_session (conn i c))" "ms_type m \<noteq> Mt_hello"
  shows "let c' = snd (handle_message J i m c)
    in cd_fabric c' = cd_fabric c \<and> cd_stopped c' = cd_stopped c \<and> identity_at i c' = identity_at i c
      \<and> cn_queues (conn i c') = cn_queues (conn i c) \<and> (\<forall>j. j = i \<or> conn j c' = conn j c)"
  using unadmitted_message [OF assms, of J] by (auto simp: same_peers_def Let_def)

theorem unadmitted_peer_has_no_effect_witness:
  "\<not> cd_stopped (snd (handle_message memory_ops (Suc 0) (no_message\<lparr>ms_type := Mt_shutdown\<rparr>) (demo_server [])))"
  using unadmitted_peer_has_no_effect [of "Suc 0" "demo_server []" "no_message\<lparr>ms_type := Mt_shutdown\<rparr>" memory_ops]
  by (simp add: Let_def demo_peer_def new_session_def) (simp add: demo_server_def)



text \<open>Property C22: client and server agree on the outcome of a handshake. When the bytes of the hello reach the
  server and the bytes of its answer reach the client, both cut into pieces in any way, the handshake returns: the
  client considers itself admitted exactly when the server has admitted it, both under the current epoch of the
  coordinator, and an admitted session carries the identity of the client.\<close>

theorem client_and_server_agree:
  assumes "listening i c" "tp_in (cn_transport (conn i c)) = map Rx_data pieces"
    and "tp_reliable (wk_transport w)" "fd_ready kMaxFramePayloadBytes [] (wk_decoder w)" "wc_receive_buffer_bytes (wk_config w) \<le> 65536"
    and "rt_hello (hello_of (wk_config w))"
    and "concat pieces = wire_bytes (hello_message w)"
    and "list_all (\<lambda>b. b \<noteq> [] \<and> length b \<le> cc_receive_buffer_bytes (cd_config c)) pieces"
    and "tp_out (cn_transport (conn i (service_connection J i c))) = tp_out (cn_transport (conn i c)) @ concat replies"
    and "list_all (\<lambda>b. b \<noteq> [] \<and> length b \<le> wc_receive_buffer_bytes (wk_config w)) replies"
    and "tp_in (wk_transport w) = map Rx_data replies"
  shows "\<exists>ack w'. handshake w = (Some (Inr ack), w') \<and> wk_admitted w' = admissible (hello_of (wk_config w)) c
    \<and> ha_accepted ack = wk_admitted w' \<and> wk_coordinator_epoch w' = fb_epoch (cd_fabric c)
    \<and> identity_at i (service_connection J i c) =
        (let h = hello_of (wk_config w) in if wk_admitted w'
         then (True, he_role h, he_node h, he_incarnation h, he_boot h, fb_epoch (cd_fabric c), he_name h) else identity_at i c)"
  by (rule handshake_agreement [OF assms])

text \<open>A client that waits for a response gets it, however the bytes are cut, and whatever notices come
  before it: the call returns the response, and before that it has taken note of every notice in order.\<close>

theorem response_is_returned:
  assumes "tp_open (wk_transport w)" "tp_in (wk_transport w) = map Rx_data chunks" "fd_ready kMaxFramePayloadBytes [] (wk_decoder w)"
    and "list_all (\<lambda>b. b \<noteq> [] \<and> length b \<le> wc_receive_buffer_bytes (wk_config w)) chunks"
    and "wc_receive_buffer_bytes (wk_config w) \<le> 65536"
    and "concat chunks = concat (map wire_bytes (ms @ [m]))" "list_all (interim (ms_type m)) ms" "rt_message m"
  shows "\<exists>w'. await (ms_type m) w = (Some (Inr (body_only m)), w') \<and> tp_in (wk_transport w') = []
    \<and> wk_coordinator_epoch w' = wk_coordinator_epoch (fold note_message ms w)
    \<and> wk_epoch_notices w' = wk_epoch_notices (fold note_message ms w) \<and> wk_admitted w' = wk_admitted w"
proof -
  have rt: "list_all rt_message (ms @ [m])"
    using assms(7,8) by (auto simp: list_all_iff interim_def)
  have stream: "[] @ concat chunks = frames_bytes (map message_frame (ms @ [m]))"
    using assms(6) rt wire_bytes_eq by (auto simp: frames_bytes_def list_all_iff comp_def intro!: arg_cong [of _ _ concat] map_cong)
  have "partial_frame [] (map message_frame (ms @ [m]))"
    by (cases ms) (simp_all add: partial_frame_def)
  from await_stream [OF assms(1,4,5) this stream assms(7,8,3)] show ?thesis
    using assms(2) by (auto simp: await_def)
qed

theorem client_and_server_agree_witness:
  "let c = demo_server [Rx_data demo_hello_bytes];
       out = tp_out (cn_transport (conn (Suc 0) (service_connection memory_ops (Suc 0) c)))
   in \<exists>ack w'. handshake (demo_worker (map (\<lambda>b. Rx_data [b]) out)) = (Some (Inr ack), w') \<and> wk_admitted w'"
proof -
  let ?c = "demo_server [Rx_data demo_hello_bytes]"
  let ?out = "tp_out (cn_transport (conn (Suc 0) (service_connection memory_ops (Suc 0) ?c)))"
  let ?w = "demo_worker (map (\<lambda>b. Rx_data [b]) ?out)"
  have "\<exists>ack w'. handshake ?w = (Some (Inr ack), w') \<and> wk_admitted w' = admissible (hello_of (wk_config ?w)) ?c
    \<and> ha_accepted ack = wk_admitted w' \<and> wk_coordinator_epoch w' = fb_epoch (cd_fabric ?c)
    \<and> identity_at (Suc 0) (service_connection memory_ops (Suc 0) ?c) =
        (let h = hello_of (wk_config ?w) in if wk_admitted w'
         then (True, he_role h, he_node h, he_incarnation h, he_boot h, fb_epoch (cd_fabric ?c), he_name h) else identity_at (Suc 0) ?c)"
    by (rule client_and_server_agree [where pieces = "[demo_hello_bytes]" and replies = "map (\<lambda>b. [b]) ?out"])
       (use demo_hello_short in \<open>simp_all add: demo_listening demo_peer_def tp_reliable_def demo_socket_def demo_hello_bytes_def
          demo_server_config_def comp_def\<close>)
  then show ?thesis
    using demo_admissible [of "[Rx_data demo_hello_bytes]"] by (auto simp: Let_def)
qed

text \<open>Property C23: a mutation that an admitted client sends is applied to the fabric exactly once, and the client is
  told what became of it. When the bytes of the request reach the server and the bytes of its answer reach the
  client, both cut into pieces in any way, the call returns the response to this attempt: the queue, generation,
  rule and replay flag of an accepted mutation, or the code and message of a refusal; and the fabric of the
  server is the one the mutation leads to.\<close>

theorem mutation_reaches_client:
  assumes "listening i c" "tp_in (cn_transport (conn i c)) = map Rx_data pieces" "ws_handshaken (cn_session (conn i c))"
    and "tp_reliable (wk_transport w)" "fd_ready kMaxFramePayloadBytes [] (wk_decoder w)" "wc_receive_buffer_bytes (wk_config w) \<le> 65536"
    and "rt_mutation r" "rt_mutation_response (response_of (mr_attempt r) (fst (fabric_apply J r (cd_fabric c))))"
    and "concat pieces = wire_bytes (mutation_message r w)"
    and "list_all (\<lambda>b. b \<noteq> [] \<and> length b \<le> cc_receive_buffer_bytes (cd_config c)) pieces"
    and "tp_out (cn_transport (conn i (service_connection J i c))) = tp_out (cn_transport (conn i c)) @ concat replies"
    and "list_all (\<lambda>b. b \<noteq> [] \<and> length b \<le> wc_receive_buffer_bytes (wk_config w)) replies"
    and "tp_in (wk_transport w) = map Rx_data replies"
  shows "cd_fabric (service_connection J i c) = snd (fabric_apply J r (cd_fabric c))
    \<and> (\<exists>answer. fst (send_mutation r w) = Some (Inr answer) \<and> mp_attempt answer = mr_attempt r
        \<and> (case fst (fabric_apply J r (cd_fabric c)) of
             Inr out \<Rightarrow> mp_code answer = Code_ok \<and> mp_queue answer = mo_queue out \<and> mp_generation answer = mo_generation out
               \<and> mp_message answer = mo_rule out \<and> mp_replayed answer = mo_replayed out
           | Inl st \<Rightarrow> mp_code answer = st_code st \<and> mp_message answer = st_message st))"
  using mutation_agreement [OF assms] by (auto simp: response_of_def split: sum.split)

theorem mutation_reaches_client_witness:
  "let w = demo_worker [];
       c = serving (map (\<lambda>b. Rx_data [b]) (wire_bytes (mutation_message demo_mutation w)));
       out = tp_out (cn_transport (conn 0 (service_connection memory_ops 0 c)))
   in \<exists>answer. fst (send_mutation demo_mutation (demo_worker (map (\<lambda>b. Rx_data [b]) out))) = Some (Inr answer)
     \<and> mp_code answer = Code_ok"
proof -
  let ?c = "serving (map (\<lambda>b. Rx_data [b]) (wire_bytes (mutation_message demo_mutation (demo_worker []))))"
  let ?out = "tp_out (cn_transport (conn 0 (service_connection memory_ops 0 ?c)))"
  let ?w = "demo_worker (map (\<lambda>b. Rx_data [b]) ?out)"
  obtain out f' where run: "fabric_apply memory_ops demo_mutation (demo_fabric None active_queue) = (Inr out, f')"
      "rt_mutation_response (response_of (mr_attempt demo_mutation) (Inr out))"
    using demo_mutation_applied by blast
  have same: "mutation_message demo_mutation ?w = mutation_message demo_mutation (demo_worker [])"
    by (simp add: mutation_message_def)
  have "cd_fabric (service_connection memory_ops 0 ?c) = snd (fabric_apply memory_ops demo_mutation (cd_fabric ?c))
    \<and> (\<exists>answer. fst (send_mutation demo_mutation ?w) = Some (Inr answer) \<and> mp_attempt answer = mr_attempt demo_mutation
        \<and> (case fst (fabric_apply memory_ops demo_mutation (cd_fabric ?c)) of
             Inr out \<Rightarrow> mp_code answer = Code_ok \<and> mp_queue answer = mo_queue out \<and> mp_generation answer = mo_generation out
               \<and> mp_message answer = mo_rule out \<and> mp_replayed answer = mo_replayed out
           | Inl st \<Rightarrow> mp_code answer = st_code st \<and> mp_message answer = st_message st))"
    by (rule mutation_reaches_client [where pieces = "map (\<lambda>b. [b]) (wire_bytes (mutation_message demo_mutation (demo_worker [])))"
          and replies = "map (\<lambda>b. [b]) ?out"])
       (use run demo_mutation_rt in \<open>simp_all add: serving_listens demo_publisher_def tp_reliable_def demo_socket_def same
          demo_server_config_def comp_def\<close>)
  then show ?thesis
    using run by (auto simp: Let_def)
qed

text \<open>Property C26: a service cycle ends, and it handles at most \<^verbatim>\<open>max_frames_per_cycle\<close> frames of each connection
  (one more connection than before may have been accepted), whatever the peers have sent: malformed frames,
  refused messages and frames behind a failed message count as well.\<close>

theorem service_cycle_is_bounded:
  "\<exists>k. k \<le> cc_max_frames_per_cycle (cd_config c) * Suc (length (cd_connections c))
     \<and> cs_frames_received (cd_stats (snd (run_once J pending c))) = cs_frames_received (cd_stats c) + of_nat k
     \<and> cd_config (snd (run_once J pending c)) = cd_config c"
proof -
  have "length (cd_connections (accept_connection pending c)) \<le> Suc (length (cd_connections c))"
    by (simp add: accept_connection_def now_nanos_def on_stats_def Let_def split: option.split)
  from spent_mono [OF run_once_spent mult_le_mono2 [OF this]] show ?thesis
    by (auto simp: spent_def tally_def)
qed

section \<open>Explanations\<close>



text \<open>Property C32: the two renderings of an explanation stay within the configured bound. The readable one is the full
  text, or a prefix of it with a mark that says so; and nothing is cut off from the explanation of a queue whose
  name, rule, message and reasons have at most 192 characters, whatever its state.\<close>

theorem explanation_text_is_bounded:
  "length (render e) \<le> kMaxExplainBytes \<and> length (to_json_like e) \<le> kMaxExplainBytes
   \<and> (render e = full_text e \<or> render e = take (kMaxExplainBytes - 64) (full_text e) @ kTruncated)
   \<and> (explain i who f = (Inr e, f') \<and> find_queue f i = Some q \<and> queue_texts_short q \<longrightarrow> render e = full_text e)"
proof -
  have "length (render e) \<le> kMaxExplainBytes"
    by (simp add: render_text length_kTruncated) (simp add: kMaxExplainBytes_def)
  moreover have "length (to_json_like e) \<le> kMaxExplainBytes"
    by (simp add: to_json_like_text)
  moreover have "render e = full_text e \<or> render e = take (kMaxExplainBytes - 64) (full_text e) @ kTruncated"
    by (simp add: render_text)
  ultimately show ?thesis
    using short_explanation_complete explain_short by blast
qed

theorem explanation_text_is_bounded_witness:
  "\<exists>e f'. explain (Ident 1) (Ident 5) (demo_fabric (None :: memory_journal option) active_queue) = (Inr e, f')
     \<and> render e = full_text e \<and> length (render e) \<le> 16384"
proof -
  let ?f = "demo_fabric (None :: memory_journal option) active_queue"
  obtain e where e: "explain (Ident 1) (Ident 5) ?f = (Inr e, snd (monotonic_now ?f))"
    using explain_found [of ?f "Ident 1" active_queue "Ident 5"] by auto
  have "queue_texts_short active_queue"
    by (simp add: queue_texts_short_def short_def active_queue_def new_queue_record_def demo_definition_def no_fence_def success_def)
  then show ?thesis
    using explanation_text_is_bounded [of e "Ident 1" "Ident 5" ?f "snd (monotonic_now ?f)" active_queue] e
    by (auto simp: kMaxExplainBytes_def)
qed

section \<open>The programs\<close>

text \<open>Property C20: a process that recovers from the checkpoint of a well-formed fabric has that fabric under a newer
  epoch: the same resources with their classes, pools, owners and grants, their backends disconnected, and the same
  queues with their definitions, fences and memos, their evidence marked stale. The recovered fabric is well-formed again if
  no queue was quiesced. If one was, its lifecycle is restored but its completed drain is reopened, and the
  self-audit of the code reports the recovered fabric.\<close>

theorem checkpoint_restart_restores_fabric:
  assumes "fabric_wf config f" "snapshot_ok f" "recover J (new_fabric config clock (Some j) sink seed) = (st, g)" "ok st"
    and "jo_records J (snd (jo_open J j)) = build_snapshot_locked f"
  shows "(\<forall>i. find_queue g i = map_option reloaded_queue (find_queue f i))
    \<and> (\<forall>i. find_resource g i = map_option (reloaded_resource (fb_epoch g)) (find_resource f i))
    \<and> fb_epoch f < fb_epoch g
    \<and> (if resting f then fabric_wf config g
       else \<exists>tag. ''INV-DRAIN: quiesced queue has no completed drain phase: '' @ tag \<in> set (validate_invariants g))"
proof -
  define n where "n = new_fabric config clock (Some j) sink seed"
  have n: "fb_journal n = Some j" "fb_resources n = []" "fb_queues n = []" "fb_plans n = []" "fb_pending n = []" "fb_config n = config"
    by (simp_all add: n_def new_fabric_def um_empty_def)
  have wf: "core_wf (core f)" "fb_config f = config"
    using assms(1) by (simp_all add: fabric_wf_def)
  note r = recover_reloads [OF assms(3) [folded n_def] assms(4) n(1-3) assms(5,2)]
  have "\<exists>tag. ''INV-DRAIN: quiesced queue has no completed drain phase: '' @ tag \<in> set (validate_invariants g)" if "\<not> resting f"
    using that quiesced_reload_reported [OF r(1) wf(1)] by (auto simp: resting_def)
  moreover have "fabric_wf config g" if "resting f"
    using reloaded.reloads_wf [OF r(1) wf(1)] that r(2-4) n(4-6) wf(2) by (simp add: fabric_wf_def resting_def)
  ultimately show ?thesis
    using r(1) reloads_resource [OF r(1) wf(1)] recover_snapshot_epoch [OF assms(3) [folded n_def] assms(4) n(1) assms(5)]
    by (simp add: reloads_def)
qed

theorem checkpoint_restart_restores_fabric_witness:
  "\<exists>g. recover kept_ops restarted = (success, g) \<and> fabric_wf default_config g \<and> Counter 1 < fb_epoch g"
proof -
  obtain g where g: "recover kept_ops restarted = (success, g)"
    using restart_recovers by blast
  have "jo_records kept_ops (snd (jo_open kept_ops checkpointed)) = build_snapshot_locked booted_fabric"
    by simp
  from checkpoint_restart_restores_fabric [OF booted_wf booted_snapshot g [unfolded restarted_def] ok_success this]
  show ?thesis
    using g by (simp add: resting_def booted)
qed

text \<open>Property C27: a coordinator program that is restarted on the checkpoint of its predecessor uses the topology it
  finds. Where the bootstrap of the first process succeeded and the resource names of its fabric are distinct, the bootstrap
  of the second process, which recovers from a checkpoint of that fabric, returns the same resource and changes
  nothing: no class or pool generation advances, so that no queue binding becomes stale. The same holds for a second
  bootstrap in the first process.\<close>

theorem restart_reuses_topology:
  assumes "core_wf (core f0)" "find_resource f0 (Ident (fb_next_resource_id f0)) = None" "bootstrap J prov f0 = (Inr i, f)"
    and "\<forall>k y. find_resource f k = Some y \<and> rr_name y = ''fabric0'' \<longrightarrow> k = i" "snapshot_ok f"
    and "recover K n = (st, g)" "ok st" "fb_journal n = Some j" "fb_resources n = []" "fb_queues n = []"
    and "jo_records K (snd (jo_open K j)) = build_snapshot_locked f"
  shows "bootstrap K prov' g = (Inr i, g) \<and> bootstrap J prov'' f = (Inr i, f)
    \<and> map_option topology (find_resource g i) = map_option topology (find_resource f i) \<and> find_resource f i \<noteq> None"
proof -
  obtain x where x: "named f i x" "rr_classes x \<noteq> []" "rr_pools x \<noteq> []"
    using bootstrap_done [OF assms(1-3)] by blast
  note t = restart_topology [OF assms(6-11,5)]
  have "bootstrap K prov' g = (Inr i, g)"
    by (rule bootstrap_reuses [OF x _ assms(4)]) (simp_all add: t)
  then show ?thesis
    using bootstrap_again [OF x] t x(1) by (simp add: named_def)
qed

theorem restart_reuses_topology_witness:
  "\<exists>g. recover kept_ops restarted = (success, g) \<and> bootstrap kept_ops blank_provenance g = (Inr (Ident 1), g)"
proof -
  obtain g where g: "recover kept_ops restarted = (success, g)"
    using restart_recovers by blast
  have n: "fb_journal restarted = Some checkpointed" "fb_resources restarted = []" "fb_queues restarted = []"
    by (simp_all add: restarted_def new_fabric_def um_empty_def)
  have u: "\<forall>k y. find_resource booted_fabric k = Some y \<and> rr_name y = ''fabric0'' \<longrightarrow> k = Ident 1"
    by (simp add: find_resource_def booted um_find_def)
  have "jo_records kept_ops (snd (jo_open kept_ops checkpointed)) = build_snapshot_locked booted_fabric"
    by simp
  from restart_reuses_topology [OF blank_wf(1,2) booted_run u booted_snapshot g ok_success n this]
  show ?thesis
    using g by blast
qed







text \<open>Property C38: every open socket handle has exactly one owner. However a process resolves, connects, binds,
  accepts, moves, closes and destroys its transports and listeners, and whichever of the system calls fail on the way,
  the open handles are those that its transports and listeners hold, each of them once: none is leaked and none is closed
  twice. Where all of them are closed no handle is open.\<close>

theorem every_handle_has_one_owner:
  assumes "socket_step\<^sup>*\<^sup>* no_sockets s"
  shows "mset (sk_handles s) = valid_handles (map tt_handle (sk_transports s)) + valid_handles (map tl_handle (sk_listeners s))
    \<and> ((\<forall>t\<in>set (sk_transports s). \<not> tt_open t) \<and> (\<forall>l\<in>set (sk_listeners s). \<not> tl_open l) \<longrightarrow> sk_handles s = [])"
  using sockets_owned [OF assms] owned_closed [of s] by (simp add: owned_def)

theorem every_handle_has_one_owner_witness:
  "\<exists>s. socket_step\<^sup>*\<^sup>* no_sockets s \<and> sk_handles s = [7]
     \<and> valid_handles (map tt_handle (sk_transports s)) + valid_handles (map tl_handle (sk_listeners s)) = {#7#}"
proof -
  obtain s where s: "socket_step\<^sup>*\<^sup>* no_sockets s" "sk_handles s = [7]"
    using one_connection by blast
  then show ?thesis
    using every_handle_has_one_owner [OF s(1)] by (intro exI [of _ s]) simp
qed

end
